(* ===== verification/Prelude.thy ===== *)
theory Prelude
  imports Main
begin

text \<open>
  Shared vocabulary of the development: the errors a Python validator raises, the
  combinators for a sequence of checks and for a call that may raise, the map-level
  lemmas the component theories share, and two interfaces for machines that are run
  over a list of inputs.

  \<^item> A validator (a \<open>__post_init__\<close> or \<open>model_validator\<close>) is a value of type
    \<open>py_error option\<close>: \<open>None\<close> when it returns, \<open>Some e\<close> when it raises \<open>e\<close>. Its statements
    are listed in source order with \<open>checks\<close>, so the first failing one decides.
  \<^item> A call that may raise has type \<open>py_error + 'a\<close>.
\<close>

named_theorems check_simps \<open>unfolding of validators into the conjunction they test\<close>
named_theorems model_defs \<open>definitions a component proof unfolds as a group\<close>

section \<open>Errors and checks\<close>

datatype py_error =
    ValueError string
  | TypeError string
  | RuntimeError string
  | AssertionError string

type_synonym 'a result = "py_error + 'a"
type_synonym check = "py_error option"

definition fails_if :: "bool \<Rightarrow> py_error \<Rightarrow> check" where
  "fails_if b e = (if b then Some e else None)"

fun checks :: "check list \<Rightarrow> check" where
  "checks [] = None"
| "checks (c # cs) = (case c of None \<Rightarrow> checks cs | Some e \<Rightarrow> Some e)"

definition construct :: "('a \<Rightarrow> check) \<Rightarrow> 'a \<Rightarrow> 'a result" where
  "construct validate x = (case validate x of None \<Rightarrow> Inr x | Some e \<Rightarrow> Inl e)"

lemma fails_if_None [simp, check_simps]: "fails_if b e = None \<longleftrightarrow> \<not> b"
  by (simp add: fails_if_def)

lemma fails_if_True [simp]: "fails_if True e = Some e"
  by (simp add: fails_if_def)

lemma fails_if_False [simp]: "fails_if False e = None"
  by (simp add: fails_if_def)

lemma fails_if_Some [simp]: "fails_if b e = Some e' \<longleftrightarrow> b \<and> e = e'"
  by (simp add: fails_if_def)

lemma checks_Cons_None [simp, check_simps]: "checks (c # cs) = None \<longleftrightarrow> c = None \<and> checks cs = None"
  by (simp split: option.split)

lemma checks_Nil [simp]: "checks [] = None"
  by simp

declare checks.simps [simp del]
declare checks_Nil [simp]

lemma checks_skip [simp]: "checks (None # cs) = checks cs"
  by (simp add: checks.simps(2))

lemma checks_stop [simp]: "checks (Some e # cs) = Some e"
  by (simp add: checks.simps(2))

lemma checks_None_iff: "checks cs = None \<longleftrightarrow> (\<forall>c \<in> set cs. c = None)"
  by (induction cs) auto

lemma checks_append: "checks (cs @ ds) = (case checks cs of None \<Rightarrow> checks ds | Some e \<Rightarrow> Some e)"
  by (induction cs) (auto simp: checks.simps(2) split: option.split)

lemma checks_append_None [check_simps]: "checks (cs @ ds) = None \<longleftrightarrow> checks cs = None \<and> checks ds = None"
  by (simp add: checks_append split: option.split)

lemma checks_map_None [check_simps]: "checks (map f xs) = None \<longleftrightarrow> (\<forall>x \<in> set xs. f x = None)"
  by (auto simp: checks_None_iff)

lemma construct_Inr_iff [simp]: "construct v x = Inr y \<longleftrightarrow> v x = None \<and> y = x"
  by (auto simp: construct_def split: option.split)

lemma construct_Inl_iff [simp]: "construct v x = Inl e \<longleftrightarrow> v x = Some e"
  by (auto simp: construct_def split: option.split)

section \<open>Calls that may raise\<close>

definition bindR :: "'a result \<Rightarrow> ('a \<Rightarrow> 'b result) \<Rightarrow> 'b result" where
  "bindR r f = (case r of Inl e \<Rightarrow> Inl e | Inr x \<Rightarrow> f x)"

lemma bindR_Inr [simp]: "bindR (Inr x) f = f x"
  by (simp add: bindR_def)

lemma bindR_Inl [simp]: "bindR (Inl e) f = Inl e"
  by (simp add: bindR_def)

lemma bindR_eq_Inr_iff: "bindR r f = Inr y \<longleftrightarrow> (\<exists>x. r = Inr x \<and> f x = Inr y)"
  by (cases r) auto

section \<open>Duplicates in tuples\<close>

text \<open>
  \<open>len(set(xs)) != len(xs)\<close> is how the contracts reject duplicates, and
  \<open>tuple(dict.fromkeys(xs))\<close> is how they drop them, keeping the first occurrence.
\<close>

definition has_duplicates :: "'a list \<Rightarrow> bool" where
  "has_duplicates xs \<longleftrightarrow> length (remdups xs) \<noteq> length xs"

lemma has_duplicates_iff [simp, check_simps]: "has_duplicates xs \<longleftrightarrow> \<not> distinct xs"
  by (simp add: has_duplicates_def)

fun dict_fromkeys_from :: "'a list \<Rightarrow> 'a list \<Rightarrow> 'a list" where
  "dict_fromkeys_from seen [] = []"
| "dict_fromkeys_from seen (x # xs) =
     (if x \<in> set seen then dict_fromkeys_from seen xs
      else x # dict_fromkeys_from (x # seen) xs)"

definition dict_fromkeys :: "'a list \<Rightarrow> 'a list" where
  "dict_fromkeys xs = dict_fromkeys_from [] xs"

lemma set_dict_fromkeys_from: "set (dict_fromkeys_from seen xs) = set xs - set seen"
  by (induction seen xs rule: dict_fromkeys_from.induct) auto

lemma set_dict_fromkeys [simp]: "set (dict_fromkeys xs) = set xs"
  by (simp add: dict_fromkeys_def set_dict_fromkeys_from)

lemma distinct_dict_fromkeys_from: "distinct (dict_fromkeys_from seen xs)"
  by (induction seen xs rule: dict_fromkeys_from.induct) (auto simp: set_dict_fromkeys_from)

lemma distinct_dict_fromkeys [simp]: "distinct (dict_fromkeys xs)"
  by (simp add: dict_fromkeys_def distinct_dict_fromkeys_from)

lemma dict_fromkeys_from_distinct:
  "distinct xs \<Longrightarrow> set xs \<inter> set seen = {} \<Longrightarrow> dict_fromkeys_from seen xs = xs"
  by (induction seen xs rule: dict_fromkeys_from.induct) auto

lemma dict_fromkeys_distinct: "distinct xs \<Longrightarrow> dict_fromkeys xs = xs"
  by (simp add: dict_fromkeys_def dict_fromkeys_from_distinct)

lemma dict_fromkeys_Nil_iff [simp]: "dict_fromkeys xs = [] \<longleftrightarrow> xs = []"
  by (metis set_dict_fromkeys set_empty)

lemma length_dict_fromkeys_from_le: "length (dict_fromkeys_from seen xs) \<le> length xs"
  by (induction seen xs rule: dict_fromkeys_from.induct) auto

section \<open>Machines run over a list of inputs\<close>

text \<open>
  The pure components (the rollout reducer, the epoch authority, the replay receipt, the
  receipt document of the store) are step functions; callers feed them one input after the
  other. \<open>guarded_machine\<close> is what each of them promises: an invariant that every step keeps
  and a reflexive, transitive order that every step climbs.
\<close>

locale guarded_machine =
  fixes step :: "'s \<Rightarrow> 'i \<Rightarrow> 's"
    and inv :: "'s \<Rightarrow> bool"
    and le :: "'s \<Rightarrow> 's \<Rightarrow> bool"
  assumes step_inv: "inv s \<Longrightarrow> inv (step s i)"
    and step_le: "inv s \<Longrightarrow> le s (step s i)"
    and le_refl: "le s s"
    and le_trans: "le s t \<Longrightarrow> le t u \<Longrightarrow> le s u"
begin

lemma run_inv: "inv s \<Longrightarrow> inv (foldl step s is)"
  by (induction "is" arbitrary: s) (auto intro: step_inv)

lemma run_le: "inv s \<Longrightarrow> le s (foldl step s is)"
proof (induction "is" arbitrary: s)
  case Nil
  show ?case by (simp add: le_refl)
next
  case (Cons i "is")
  have "le (step s i) (foldl step (step s i) is)"
    using Cons.prems by (intro Cons.IH step_inv)
  with step_le [OF Cons.prems] show ?case
    by (auto intro: le_trans)
qed

end

text \<open>A machine whose final states reject every further input.\<close>

locale absorbing_machine = guarded_machine +
  fixes final :: "'s \<Rightarrow> bool"
  assumes final_step: "inv s \<Longrightarrow> final s \<Longrightarrow> step s i = s"
begin

lemma final_run: "inv s \<Longrightarrow> final s \<Longrightarrow> foldl step s is = s"
  by (induction "is") (auto simp: final_step)

lemma final_after: "inv s \<Longrightarrow> final (foldl step s is) \<Longrightarrow> foldl step s (is @ js) = foldl step s is"
  by (simp add: final_run run_inv)

end

end
