(* ===== verification/Reducer.thy ===== *)
theory Reducer
  imports Prelude
begin

text \<open>
  The rollout reducer, \<open>backend/src/controlgraph_canary/authority/reducer.py\<close>: the closed
  state machine that turns one event and the facts confirmed for it into the next rollout
  state and the commands the controller may issue. The table of transitions is kept as the
  module builds it, an ordered dictionary extended by three loops.
\<close>

section \<open>States, events, facts\<close>

datatype rollout_state =
    ROOT_PENDING | ROOT_ACTIVE | CANARY_PENDING | CANARY_OBSERVING | PROMOTION_PENDING
  | RECOVERY_PENDING | PROMOTED | RECOVERED | REVOKED | DENIED | FAILED_SAFE | AMBIGUOUS

datatype rollout_command =
    CAPTURE_STABLE_V1 | CREATE_ROLLOUT_ROOT_V1 | APPLY_CANARY_V1 | EVALUATE_HEALTH_V1
  | PROMOTE_CANDIDATE_V1 | RECOVER_STABLE_V1 | REVOKE_EPOCH_V1 | VERIFY_TARGET_V1

datatype rollout_event =
    STABLE_CAPTURE_REQUESTED | STABLE_CAPTURED | ROOT_CREATED | CANARY_REQUESTED
  | CANARY_APPLIED | CANARY_VERIFIED | HEALTHY | UNHEALTHY | PROMOTION_APPLIED
  | PROMOTION_VERIFIED | RECOVERY_APPLIED | RECOVERY_VERIFIED | REVOCATION_REQUESTED
  | EPOCH_REVOKED | COMPLETION_CONFIRMED | AUTHORITY_DENIED | OPERATION_FAILED_SAFE
  | PROVIDER_OUTCOME_AMBIGUOUS | AMBIGUITY_RESOLVED_CANARY | AMBIGUITY_RESOLVED_PROMOTION
  | AMBIGUITY_RESOLVED_RECOVERY | AMBIGUITY_UNRESOLVED

datatype denial_reason =
    DR_CONTRACT_INVALID | DR_CONTRACT_VERSION_UNSUPPORTED | DR_CALLER_UNAUTHENTICATED
  | DR_CALLER_UNAUTHORIZED | DR_SIGNATURE_INVALID | DR_KEY_VERSION_UNTRUSTED
  | DR_CAPABILITY_EXPIRED | DR_CAPABILITY_NOT_YET_VALID | DR_CLAIM_BINDING_MISMATCH
  | DR_TARGET_BINDING_MISMATCH | DR_LINEAGE_INVALID | DR_SCOPE_AMPLIFICATION
  | DR_AUTHORITY_UNAVAILABLE | DR_EPOCH_MISMATCH | DR_IDEMPOTENCY_CONFLICT
  | DR_RECEIPT_IN_PROGRESS | DR_TRANSPORT_UNAVAILABLE | DR_PROVIDER_PRECONDITION_FAILED
  | DR_PROVIDER_REQUEST_REJECTED | DR_PROVIDER_OUTCOME_AMBIGUOUS | DR_TRANSITION_INVALID
  | DR_POLICY_UNHEALTHY

datatype fact_status = CONFIRMED | REJECTED | UNKNOWN | NOT_APPLICABLE

datatype provider_outcome = PO_APPLIED | PO_FAILED_SAFE | PO_AMBIGUOUS | PO_NOT_APPLICABLE

record reducer_facts =
  authorization :: fact_status
  authority :: fact_status
  time_window :: fact_status
  observation :: fact_status
  fact_provider_outcome :: provider_outcome

definition default_facts :: reducer_facts where
  "default_facts =
     \<lparr>authorization = NOT_APPLICABLE, authority = NOT_APPLICABLE, time_window = NOT_APPLICABLE,
      observation = NOT_APPLICABLE, fact_provider_outcome = PO_NOT_APPLICABLE\<rparr>"

record reducer_input =
  in_state :: rollout_state
  in_event :: rollout_event
  in_facts :: reducer_facts
  in_denial_reason :: "denial_reason option"
  in_ambiguity_origin :: "rollout_state option"

record reducer_output =
  out_previous_state :: rollout_state
  out_state :: rollout_state
  out_event :: rollout_event
  out_commands :: "rollout_command list"
  out_reason :: "denial_reason option"
  out_transition_valid :: bool
  out_terminal :: bool
  out_ambiguity_origin :: "rollout_state option"

record transition =
  t_state :: rollout_state
  t_commands :: "rollout_command list"
  requires_authorization :: bool
  requires_authority :: bool
  requires_time :: bool
  requires_observation :: bool
  t_provider_outcome :: "provider_outcome option"
  t_ambiguity_origin :: "rollout_state option"
  t_terminal :: bool

definition command :: "rollout_command \<Rightarrow> rollout_command list" where
  "command c = [c]"

section \<open>The transition table\<close>

text \<open>\<open>_Transition(state, commands)\<close> with every keyword argument at its default.\<close>

definition plain_transition :: "rollout_state \<Rightarrow> rollout_command list \<Rightarrow> transition" where
  "plain_transition s cs =
     \<lparr>t_state = s, t_commands = cs, requires_authorization = False, requires_authority = False,
      requires_time = False, requires_observation = False, t_provider_outcome = None,
      t_ambiguity_origin = None, t_terminal = False\<rparr>"

type_synonym table_entry = "(rollout_state \<times> rollout_event) \<times> transition"

definition base_transitions :: "table_entry list" where
  "base_transitions =
   [((ROOT_PENDING, STABLE_CAPTURE_REQUESTED),
      (plain_transition ROOT_PENDING (command CAPTURE_STABLE_V1))
        \<lparr>requires_authorization := True, requires_time := True\<rparr>),
    ((ROOT_PENDING, STABLE_CAPTURED),
      (plain_transition ROOT_PENDING (command CREATE_ROLLOUT_ROOT_V1))
        \<lparr>requires_authorization := True, requires_time := True, requires_observation := True\<rparr>),
    ((ROOT_PENDING, ROOT_CREATED),
      (plain_transition ROOT_ACTIVE [])\<lparr>t_provider_outcome := Some PO_APPLIED\<rparr>),
    ((ROOT_ACTIVE, CANARY_REQUESTED),
      (plain_transition CANARY_PENDING (command APPLY_CANARY_V1))
        \<lparr>requires_authorization := True, requires_authority := True, requires_time := True\<rparr>),
    ((CANARY_PENDING, CANARY_APPLIED),
      (plain_transition CANARY_PENDING (command VERIFY_TARGET_V1))
        \<lparr>t_provider_outcome := Some PO_APPLIED\<rparr>),
    ((CANARY_PENDING, CANARY_VERIFIED),
      (plain_transition CANARY_OBSERVING (command EVALUATE_HEALTH_V1))
        \<lparr>requires_observation := True\<rparr>),
    ((CANARY_OBSERVING, HEALTHY),
      (plain_transition PROMOTION_PENDING (command PROMOTE_CANDIDATE_V1))
        \<lparr>requires_authorization := True, requires_authority := True, requires_time := True,
         requires_observation := True\<rparr>),
    ((CANARY_OBSERVING, UNHEALTHY),
      (plain_transition RECOVERY_PENDING (command RECOVER_STABLE_V1))
        \<lparr>requires_authorization := True, requires_authority := True, requires_time := True,
         requires_observation := True\<rparr>),
    ((PROMOTION_PENDING, PROMOTION_APPLIED),
      (plain_transition PROMOTION_PENDING (command VERIFY_TARGET_V1))
        \<lparr>t_provider_outcome := Some PO_APPLIED\<rparr>),
    ((PROMOTION_PENDING, PROMOTION_VERIFIED),
      (plain_transition PROMOTED [])\<lparr>requires_observation := True\<rparr>),
    ((RECOVERY_PENDING, RECOVERY_APPLIED),
      (plain_transition RECOVERY_PENDING (command VERIFY_TARGET_V1))
        \<lparr>t_provider_outcome := Some PO_APPLIED\<rparr>),
    ((RECOVERY_PENDING, RECOVERY_VERIFIED),
      (plain_transition RECOVERED [])\<lparr>requires_observation := True\<rparr>),
    ((PROMOTED, COMPLETION_CONFIRMED),
      (plain_transition PROMOTED [])\<lparr>requires_observation := True, t_terminal := True\<rparr>),
    ((RECOVERED, COMPLETION_CONFIRMED),
      (plain_transition RECOVERED [])\<lparr>requires_observation := True, t_terminal := True\<rparr>),
    ((AMBIGUOUS, AMBIGUITY_RESOLVED_CANARY),
      (plain_transition CANARY_OBSERVING (command EVALUATE_HEALTH_V1))
        \<lparr>requires_observation := True, t_ambiguity_origin := Some CANARY_PENDING\<rparr>),
    ((AMBIGUOUS, AMBIGUITY_RESOLVED_PROMOTION),
      (plain_transition PROMOTED [])
        \<lparr>requires_observation := True, t_ambiguity_origin := Some PROMOTION_PENDING\<rparr>),
    ((AMBIGUOUS, AMBIGUITY_RESOLVED_RECOVERY),
      (plain_transition RECOVERED [])
        \<lparr>requires_observation := True, t_ambiguity_origin := Some RECOVERY_PENDING\<rparr>),
    ((AMBIGUOUS, AMBIGUITY_UNRESOLVED),
      (plain_transition AMBIGUOUS [])\<lparr>t_terminal := True\<rparr>)]"

definition revocable_states :: "rollout_state list" where
  "revocable_states =
     [ROOT_ACTIVE, CANARY_PENDING, CANARY_OBSERVING, PROMOTION_PENDING, RECOVERY_PENDING]"

definition command_states :: "rollout_state list" where
  "command_states = [ROOT_PENDING, CANARY_PENDING, PROMOTION_PENDING, RECOVERY_PENDING]"

definition mutation_states :: "rollout_state list" where
  "mutation_states = [CANARY_PENDING, PROMOTION_PENDING, RECOVERY_PENDING]"

definition revocation_entries :: "rollout_state \<Rightarrow> table_entry list" where
  "revocation_entries s =
    [((s, REVOCATION_REQUESTED),
       (plain_transition s (command REVOKE_EPOCH_V1))
         \<lparr>requires_authorization := True, requires_authority := True, requires_time := True\<rparr>),
     ((s, EPOCH_REVOKED),
       (plain_transition REVOKED [])
         \<lparr>t_provider_outcome := Some PO_APPLIED, t_terminal := True\<rparr>)]"

definition command_entries :: "rollout_state \<Rightarrow> table_entry list" where
  "command_entries s =
    [((s, AUTHORITY_DENIED), (plain_transition DENIED [])\<lparr>t_terminal := True\<rparr>),
     ((s, OPERATION_FAILED_SAFE),
       (plain_transition FAILED_SAFE [])
         \<lparr>t_provider_outcome := Some PO_FAILED_SAFE, t_terminal := True\<rparr>)]"

definition mutation_entries :: "rollout_state \<Rightarrow> table_entry list" where
  "mutation_entries s =
    [((s, PROVIDER_OUTCOME_AMBIGUOUS),
       (plain_transition AMBIGUOUS [])\<lparr>t_provider_outcome := Some PO_AMBIGUOUS\<rparr>)]"

text \<open>The dictionary display followed by the assignments of the three loops, in order.\<close>

definition transition_entries :: "table_entry list" where
  "transition_entries =
     base_transitions @ concat (map revocation_entries revocable_states)
       @ concat (map command_entries command_states)
       @ concat (map mutation_entries mutation_states)"

text \<open>A later assignment to a key would win, hence the reversed list.\<close>

definition transitions :: "rollout_state \<times> rollout_event \<Rightarrow> transition option" where
  "transitions k = map_of (rev transition_entries) k"

section \<open>The reducer\<close>

definition reducer_result ::
  "reducer_input \<Rightarrow> rollout_state \<Rightarrow> rollout_command list \<Rightarrow> denial_reason option \<Rightarrow> bool \<Rightarrow> bool
    \<Rightarrow> rollout_state option \<Rightarrow> reducer_output" where
  "reducer_result request state commands reason valid terminal origin =
     \<lparr>out_previous_state = in_state request, out_state = state, out_event = in_event request,
      out_commands = commands, out_reason = reason, out_transition_valid = valid,
      out_terminal = terminal, out_ambiguity_origin = origin\<rparr>"

definition or_else :: "'a option \<Rightarrow> 'a \<Rightarrow> 'a" where
  "or_else a b = (case a of None \<Rightarrow> b | Some x \<Rightarrow> x)"

definition deny :: "reducer_input \<Rightarrow> denial_reason \<Rightarrow> reducer_output" where
  "deny request reason =
     reducer_result request DENIED [] (Some (or_else (in_denial_reason request) reason))
       True True None"

definition ambiguity :: "reducer_input \<Rightarrow> reducer_output" where
  "ambiguity request =
     reducer_result request AMBIGUOUS [] (Some DR_PROVIDER_OUTCOME_AMBIGUOUS) True False
       (Some (or_else (in_ambiguity_origin request) (in_state request)))"

definition check_required_facts :: "reducer_input \<Rightarrow> transition \<Rightarrow> reducer_output option" where
  "check_required_facts request transition =
    (let facts = in_facts request in
     if requires_authorization transition \<and> authorization facts \<noteq> CONFIRMED then
       Some (deny request
         (if authorization facts = REJECTED then DR_CALLER_UNAUTHORIZED
          else DR_CALLER_UNAUTHENTICATED))
     else if requires_authority transition \<and> authority facts \<noteq> CONFIRMED then
       Some (deny request
         (if authority facts = REJECTED then DR_EPOCH_MISMATCH else DR_AUTHORITY_UNAVAILABLE))
     else if requires_time transition \<and> time_window facts \<noteq> CONFIRMED then
       Some (deny request
         (if time_window facts = REJECTED then DR_CAPABILITY_EXPIRED else DR_CONTRACT_INVALID))
     else if requires_observation transition \<and> observation facts \<noteq> CONFIRMED then
       Some (ambiguity request)
     else case t_provider_outcome transition of
       None \<Rightarrow> None
     | Some expected \<Rightarrow>
         (if fact_provider_outcome facts = PO_FAILED_SAFE then
            Some (reducer_result request FAILED_SAFE []
              (Some (or_else (in_denial_reason request) DR_PROVIDER_PRECONDITION_FAILED))
              True True None)
          else if fact_provider_outcome facts \<noteq> expected then Some (ambiguity request)
          else None))"

definition transition_reason :: "reducer_input \<Rightarrow> transition \<Rightarrow> denial_reason option" where
  "transition_reason request transition =
    (if t_state transition = AMBIGUOUS then Some DR_PROVIDER_OUTCOME_AMBIGUOUS
     else if t_state transition = FAILED_SAFE then
       Some (or_else (in_denial_reason request) DR_PROVIDER_PRECONDITION_FAILED)
     else if t_state transition = DENIED then
       Some (or_else (in_denial_reason request) DR_AUTHORITY_UNAVAILABLE)
     else None)"

definition transition_origin :: "reducer_input \<Rightarrow> transition \<Rightarrow> rollout_state option" where
  "transition_origin request transition =
    (if t_state transition = AMBIGUOUS \<and> in_state request \<noteq> AMBIGUOUS then Some (in_state request)
     else if in_state request = AMBIGUOUS \<and> t_state transition \<noteq> AMBIGUOUS then None
     else in_ambiguity_origin request)"

definition reduce_rollout :: "reducer_input \<Rightarrow> reducer_output" where
  "reduce_rollout request =
    (case transitions (in_state request, in_event request) of
       None \<Rightarrow>
         reducer_result request (in_state request) [] (Some DR_TRANSITION_INVALID) False
           (in_state request \<in> {REVOKED, DENIED, FAILED_SAFE}) (in_ambiguity_origin request)
     | Some transition \<Rightarrow>
         (if t_ambiguity_origin transition \<noteq> None
             \<and> in_ambiguity_origin request \<noteq> t_ambiguity_origin transition then
            reducer_result request (in_state request) [] (Some DR_TRANSITION_INVALID) False
              False (in_ambiguity_origin request)
          else case check_required_facts request transition of
            Some fact_result \<Rightarrow> fact_result
          | None \<Rightarrow>
              reducer_result request (t_state transition) (t_commands transition)
                (transition_reason request transition) True (t_terminal transition)
                (transition_origin request transition)))"

lemmas reducer_defs [model_defs] =
  reducer_result_def deny_def ambiguity_def check_required_facts_def transition_reason_def
  transition_origin_def or_else_def

end
