(* ===== verification/ReducerProps.thy ===== *)
theory ReducerProps
  imports Reducer
begin

text \<open>
  What the rollout reducer guarantees. First the table as a relation, then one step
  (which facts a command needs, which successors a state has), then whole runs: the
  controller feeds each output state and ambiguity origin into the next input.
\<close>

section \<open>The table\<close>

lemma transition_keys_distinct: "distinct (map fst transition_entries)"
  by (simp add: transition_entries_def base_transitions_def revocable_states_def
      command_states_def mutation_states_def revocation_entries_def command_entries_def
      mutation_entries_def)

lemma transitions_iff: "transitions k = Some t \<longleftrightarrow> (k, t) \<in> set transition_entries"
proof -
  have "distinct (map fst (rev transition_entries))"
    by (simp add: rev_map [symmetric] transition_keys_distinct)
  then show ?thesis
    by (simp add: transitions_def)
qed

lemmas table_defs =
  transition_entries_def base_transitions_def revocable_states_def command_states_def
  mutation_states_def revocation_entries_def command_entries_def mutation_entries_def
  plain_transition_def command_def

text \<open>
  A fact about every row is the evaluation of a predicate over the 37 entries.
\<close>

lemma table_row:
  assumes "transitions (s, e) = Some t"
    and "list_all (\<lambda>((s, e), t). P s e t) transition_entries"
  shows "P s e t"
  using assms by (auto simp: transitions_iff list_all_iff)

fun command_row :: "rollout_command \<Rightarrow> rollout_state \<Rightarrow> rollout_event \<Rightarrow> transition \<Rightarrow> bool" where
  "command_row CAPTURE_STABLE_V1 s e t \<longleftrightarrow>
     s = ROOT_PENDING \<and> e = STABLE_CAPTURE_REQUESTED \<and> requires_authorization t \<and> requires_time t"
| "command_row CREATE_ROLLOUT_ROOT_V1 s e t \<longleftrightarrow>
     s = ROOT_PENDING \<and> e = STABLE_CAPTURED \<and> requires_authorization t \<and> requires_time t
     \<and> requires_observation t"
| "command_row APPLY_CANARY_V1 s e t \<longleftrightarrow>
     s = ROOT_ACTIVE \<and> e = CANARY_REQUESTED \<and> t_state t = CANARY_PENDING
     \<and> requires_authorization t \<and> requires_authority t \<and> requires_time t"
| "command_row PROMOTE_CANDIDATE_V1 s e t \<longleftrightarrow>
     s = CANARY_OBSERVING \<and> e = HEALTHY \<and> t_state t = PROMOTION_PENDING
     \<and> requires_authorization t \<and> requires_authority t \<and> requires_time t \<and> requires_observation t"
| "command_row RECOVER_STABLE_V1 s e t \<longleftrightarrow>
     s = CANARY_OBSERVING \<and> e = UNHEALTHY \<and> t_state t = RECOVERY_PENDING
     \<and> requires_authorization t \<and> requires_authority t \<and> requires_time t \<and> requires_observation t"
| "command_row EVALUATE_HEALTH_V1 s e t \<longleftrightarrow>
     t_state t = CANARY_OBSERVING \<and> requires_observation t"
| "command_row REVOKE_EPOCH_V1 s e t \<longleftrightarrow>
     s \<in> set revocable_states \<and> e = REVOCATION_REQUESTED \<and> t_state t = s
     \<and> requires_authorization t \<and> requires_authority t \<and> requires_time t"
| "command_row VERIFY_TARGET_V1 s e t \<longleftrightarrow> s \<in> set mutation_states \<and> t_state t = s"

lemma row_commands:
  "transitions (s, e) = Some t \<Longrightarrow> c \<in> set (t_commands t) \<Longrightarrow> command_row c s e t"
  by (drule table_row [where P = "\<lambda>s e t. \<forall>c \<in> set (t_commands t). command_row c s e t"])
    (simp_all add: table_defs)

lemma row_origin:
  "transitions (s, e) = Some t \<Longrightarrow>
     (t_ambiguity_origin t \<noteq> None \<longleftrightarrow> s = AMBIGUOUS \<and> t_state t \<noteq> AMBIGUOUS)"
  by (drule table_row [where P = "\<lambda>s e t. t_ambiguity_origin t \<noteq> None \<longleftrightarrow>
        s = AMBIGUOUS \<and> t_state t \<noteq> AMBIGUOUS"])
    (simp_all add: table_defs)

lemma row_final: "transitions (s, e) = Some t \<Longrightarrow> s \<notin> {REVOKED, DENIED, FAILED_SAFE}"
  by (drule table_row [where P = "\<lambda>s e t. s \<notin> {REVOKED, DENIED, FAILED_SAFE}"])
    (simp_all add: table_defs)

section \<open>One step\<close>

lemma check_required_facts_None:
  assumes "check_required_facts i t = None"
  shows "(requires_authorization t \<longrightarrow> authorization (in_facts i) = CONFIRMED)
    \<and> (requires_authority t \<longrightarrow> authority (in_facts i) = CONFIRMED)
    \<and> (requires_time t \<longrightarrow> time_window (in_facts i) = CONFIRMED)
    \<and> (requires_observation t \<longrightarrow> observation (in_facts i) = CONFIRMED)
    \<and> (\<forall>po. t_provider_outcome t = Some po \<longrightarrow> fact_provider_outcome (in_facts i) = po)"
  using assms
  by (simp add: check_required_facts_def Let_def split: if_splits option.splits)

lemma check_required_facts_Some:
  assumes "check_required_facts i t = Some r"
  shows "out_commands r = [] \<and> out_state r \<in> {DENIED, FAILED_SAFE, AMBIGUOUS}
    \<and> out_ambiguity_origin r
      = (if out_state r = AMBIGUOUS
         then Some (or_else (in_ambiguity_origin i) (in_state i)) else None)"
  using assms
  by (auto simp: check_required_facts_def Let_def deny_def ambiguity_def reducer_result_def
      split: if_splits option.splits)

lemma reduce_commands:
  assumes "c \<in> set (out_commands (reduce_rollout i))"
  obtains t where "transitions (in_state i, in_event i) = Some t" "c \<in> set (t_commands t)"
    "check_required_facts i t = None" "out_state (reduce_rollout i) = t_state t"
    "out_transition_valid (reduce_rollout i)"
    "out_commands (reduce_rollout i) = t_commands t"
proof -
  from assms obtain t where t: "transitions (in_state i, in_event i) = Some t"
    by (auto simp: reduce_rollout_def reducer_result_def split: option.splits)
  show thesis
  proof (cases "check_required_facts i t")
    case None
    with t assms show thesis
      by (intro that [of t]) (auto simp: reduce_rollout_def reducer_result_def split: if_splits)
  next
    case (Some r)
    with t assms check_required_facts_Some [OF Some] show thesis
      by (auto simp: reduce_rollout_def reducer_result_def split: if_splits)
  qed
qed

definition mutation_commands :: "rollout_command set" where
  "mutation_commands =
     {APPLY_CANARY_V1, PROMOTE_CANDIDATE_V1, RECOVER_STABLE_V1, REVOKE_EPOCH_V1}"

text \<open>
  C34: a command that changes the target or the authority is issued only on a valid
  transition whose caller, current epoch and time window were all confirmed; a promotion or
  a recovery only from the observing state, on the matching health verdict and with the
  observation itself confirmed.
\<close>

theorem mutation_needs_confirmed_facts:
  assumes "c \<in> set (out_commands (reduce_rollout i))" and "c \<in> mutation_commands"
  shows "out_transition_valid (reduce_rollout i)
    \<and> authorization (in_facts i) = CONFIRMED
    \<and> authority (in_facts i) = CONFIRMED
    \<and> time_window (in_facts i) = CONFIRMED
    \<and> (c = PROMOTE_CANDIDATE_V1 \<longrightarrow> in_state i = CANARY_OBSERVING \<and> in_event i = HEALTHY
          \<and> observation (in_facts i) = CONFIRMED)
    \<and> (c = RECOVER_STABLE_V1 \<longrightarrow> in_state i = CANARY_OBSERVING \<and> in_event i = UNHEALTHY
          \<and> observation (in_facts i) = CONFIRMED)"
proof -
  obtain t where t: "transitions (in_state i, in_event i) = Some t" "c \<in> set (t_commands t)"
      "check_required_facts i t = None" "out_transition_valid (reduce_rollout i)"
    using assms(1) by (rule reduce_commands)
  show ?thesis
    using row_commands [OF t(1,2)] check_required_facts_None [OF t(3)] t(4) assms(2)
    by (auto simp: mutation_commands_def)
qed

definition all_confirmed :: reducer_facts where
  "all_confirmed =
     \<lparr>authorization = CONFIRMED, authority = CONFIRMED, time_window = CONFIRMED,
      observation = CONFIRMED, fact_provider_outcome = PO_APPLIED\<rparr>"

definition input_of :: "rollout_state \<Rightarrow> rollout_event \<Rightarrow> reducer_facts \<Rightarrow> reducer_input" where
  "input_of s e f =
     \<lparr>in_state = s, in_event = e, in_facts = f, in_denial_reason = None, in_ambiguity_origin = None\<rparr>"

lemma promote_issued:
  "PROMOTE_CANDIDATE_V1 \<in> set (out_commands (reduce_rollout (input_of CANARY_OBSERVING HEALTHY all_confirmed)))"
  by (simp add: reduce_rollout_def transitions_def table_defs input_of_def all_confirmed_def reducer_defs)

theorem mutation_needs_confirmed_facts_witness:
  "out_transition_valid (reduce_rollout (input_of CANARY_OBSERVING HEALTHY all_confirmed))
    \<and> authority (in_facts (input_of CANARY_OBSERVING HEALTHY all_confirmed)) = CONFIRMED"
  using mutation_needs_confirmed_facts [OF promote_issued] by (simp add: mutation_commands_def)

lemma reduce_final:
  "in_state i \<in> {REVOKED, DENIED, FAILED_SAFE} \<Longrightarrow>
     reduce_rollout i
       = reducer_result i (in_state i) [] (Some DR_TRANSITION_INVALID) False True (in_ambiguity_origin i)"
  by (cases "transitions (in_state i, in_event i)")
    (auto simp: reduce_rollout_def dest: row_final)

section \<open>Successors of a state\<close>

text \<open>
  The states one event can lead to. The table in \<open>docs/product-contract.md\<close> ("Permitted
  next direction") is smaller: it does not list \<open>AMBIGUOUS\<close> after \<open>ROOT_PENDING\<close>,
  \<open>CANARY_OBSERVING\<close>, \<open>PROMOTED\<close> or \<open>RECOVERED\<close>, nor \<open>DENIED\<close> after \<open>ROOT_ACTIVE\<close> or
  \<open>CANARY_OBSERVING\<close>.
\<close>

fun successors :: "rollout_state \<Rightarrow> rollout_state set" where
  "successors ROOT_PENDING = {ROOT_PENDING, ROOT_ACTIVE, DENIED, FAILED_SAFE, AMBIGUOUS}"
| "successors ROOT_ACTIVE = {ROOT_ACTIVE, CANARY_PENDING, DENIED, REVOKED, FAILED_SAFE, AMBIGUOUS}"
| "successors CANARY_PENDING =
     {CANARY_PENDING, CANARY_OBSERVING, DENIED, FAILED_SAFE, AMBIGUOUS, REVOKED}"
| "successors CANARY_OBSERVING =
     {CANARY_OBSERVING, PROMOTION_PENDING, RECOVERY_PENDING, DENIED, REVOKED, FAILED_SAFE, AMBIGUOUS}"
| "successors PROMOTION_PENDING =
     {PROMOTION_PENDING, PROMOTED, DENIED, FAILED_SAFE, AMBIGUOUS, REVOKED}"
| "successors RECOVERY_PENDING =
     {RECOVERY_PENDING, RECOVERED, DENIED, FAILED_SAFE, AMBIGUOUS, REVOKED}"
| "successors PROMOTED = {PROMOTED, AMBIGUOUS}"
| "successors RECOVERED = {RECOVERED, AMBIGUOUS}"
| "successors AMBIGUOUS = {AMBIGUOUS, CANARY_OBSERVING, PROMOTED, RECOVERED}"
| "successors s = {s}"

lemma row_successors:
  "transitions (s, e) = Some t \<Longrightarrow>
     t_state t \<in> successors s
     \<and> (requires_authorization t \<or> requires_authority t \<or> requires_time t \<longrightarrow> DENIED \<in> successors s)
     \<and> (requires_observation t \<longrightarrow> AMBIGUOUS \<in> successors s)
     \<and> (t_provider_outcome t \<noteq> None \<longrightarrow> FAILED_SAFE \<in> successors s \<and> AMBIGUOUS \<in> successors s)"
  by (drule table_row [where P = "\<lambda>s e t. t_state t \<in> successors s
     \<and> (requires_authorization t \<or> requires_authority t \<or> requires_time t \<longrightarrow> DENIED \<in> successors s)
     \<and> (requires_observation t \<longrightarrow> AMBIGUOUS \<in> successors s)
     \<and> (t_provider_outcome t \<noteq> None \<longrightarrow> FAILED_SAFE \<in> successors s \<and> AMBIGUOUS \<in> successors s)"])
    (simp_all add: table_defs)

lemma fact_result_successors:
  "transitions (s, e) = Some t \<Longrightarrow> check_required_facts i t = Some r \<Longrightarrow> out_state r \<in> successors s"
  by (drule row_successors)
    (auto simp: check_required_facts_def Let_def deny_def ambiguity_def reducer_result_def
      split: if_splits option.splits)

lemma stay_successors: "s \<in> successors s"
  by (cases s) simp_all

lemma reduce_successors: "out_state (reduce_rollout i) \<in> successors (in_state i)"
proof (cases "transitions (in_state i, in_event i)")
  case None
  then show ?thesis by (simp add: reduce_rollout_def reducer_result_def stay_successors)
next
  case (Some t)
  then show ?thesis
    using row_successors [OF Some] fact_result_successors [OF Some, of i]
    by (auto simp: reduce_rollout_def reducer_result_def stay_successors split: option.split)
qed

lemmas eval_reduce = reduce_rollout_def transitions_def table_defs input_of_def all_confirmed_def
  reducer_defs default_facts_def

text \<open>Inputs that between them reach every successor of every state.\<close>

definition probes :: "(rollout_event \<times> reducer_facts \<times> rollout_state option) list" where
  "probes =
     map (\<lambda>e. (e, all_confirmed, None))
       [STABLE_CAPTURED, ROOT_CREATED, CANARY_REQUESTED, CANARY_VERIFIED, HEALTHY, UNHEALTHY,
        PROMOTION_VERIFIED, RECOVERY_VERIFIED, COMPLETION_CONFIRMED, EPOCH_REVOKED,
        REVOCATION_REQUESTED, AMBIGUITY_UNRESOLVED]
     @ map (\<lambda>e. (e, default_facts, None))
       [REVOCATION_REQUESTED, AUTHORITY_DENIED, EPOCH_REVOKED, ROOT_CREATED, COMPLETION_CONFIRMED]
     @ map (\<lambda>e. (e, all_confirmed\<lparr>fact_provider_outcome := PO_FAILED_SAFE\<rparr>, None))
       [EPOCH_REVOKED, ROOT_CREATED]
     @ [(AMBIGUITY_RESOLVED_CANARY, all_confirmed, Some CANARY_PENDING),
        (AMBIGUITY_RESOLVED_PROMOTION, all_confirmed, Some PROMOTION_PENDING),
        (AMBIGUITY_RESOLVED_RECOVERY, all_confirmed, Some RECOVERY_PENDING)]"

text \<open>
  C37: the successors of every rollout state, exactly: each listed state is reached by some
  event with some facts, and no event leads anywhere else.
\<close>

theorem reduce_successors_exact:
  "{out_state (reduce_rollout i) |i. in_state i = s} = successors s"
proof
  show "{out_state (reduce_rollout i) |i. in_state i = s} \<subseteq> successors s"
    using reduce_successors by auto
  have "successors s \<subseteq>
      (\<lambda>(e, f, p). out_state (reduce_rollout ((input_of s e f)\<lparr>in_ambiguity_origin := p\<rparr>))) ` set probes"
    by (cases s) (simp_all add: probes_def eval_reduce)
  also have "\<dots> \<subseteq> {out_state (reduce_rollout i) |i. in_state i = s}"
    by (auto simp: input_of_def)
  finally show "successors s \<subseteq> {out_state (reduce_rollout i) |i. in_state i = s}" .
qed

end
