(* ===== verification/RolloutRuns.thy ===== *)
theory RolloutRuns
  imports ReducerProps
begin

text \<open>
  Whole rollouts: the reducer's output state and ambiguity origin are the next input's, and
  the commands it emits accumulate. The invariant counts the mutation commands issued so
  far against the phase the rollout is in; an ambiguous rollout counts as being in the
  phase its ambiguity came from.
\<close>

record rollout =
  ro_state :: rollout_state
  ro_origin :: "rollout_state option"
  ro_issued :: "rollout_command list"

type_synonym rollout_fact = "rollout_event \<times> reducer_facts \<times> denial_reason option"

definition rollout_input :: "rollout \<Rightarrow> rollout_fact \<Rightarrow> reducer_input" where
  "rollout_input r x =
     (case x of (e, f, d) \<Rightarrow>
       \<lparr>in_state = ro_state r, in_event = e, in_facts = f, in_denial_reason = d,
        in_ambiguity_origin = ro_origin r\<rparr>)"

definition rollout_step :: "rollout \<Rightarrow> rollout_fact \<Rightarrow> rollout" where
  "rollout_step r x =
     (let out = reduce_rollout (rollout_input r x) in
      \<lparr>ro_state = out_state out, ro_origin = out_ambiguity_origin out,
       ro_issued = ro_issued r @ out_commands out\<rparr>)"

definition new_rollout :: rollout where
  "new_rollout = \<lparr>ro_state = ROOT_PENDING, ro_origin = None, ro_issued = []\<rparr>"

abbreviation rollout_run :: "rollout_fact list \<Rightarrow> rollout" where
  "rollout_run xs \<equiv> foldl rollout_step new_rollout xs"

lemma rollout_input_simps [simp]:
  "in_state (rollout_input r x) = ro_state r"
  "in_ambiguity_origin (rollout_input r x) = ro_origin r"
  by (simp_all add: rollout_input_def split: prod.split)

section \<open>The invariant\<close>

definition phase :: "rollout \<Rightarrow> rollout_state" where
  "phase r = or_else (ro_origin r) (ro_state r)"

definition issued :: "rollout_command \<Rightarrow> rollout \<Rightarrow> nat" where
  "issued c r = count_list (ro_issued r) c"

fun phase_counts :: "rollout_state \<Rightarrow> nat \<Rightarrow> nat \<Rightarrow> nat \<Rightarrow> bool" where
  "phase_counts ROOT_PENDING a p r \<longleftrightarrow> a = 0 \<and> p = 0 \<and> r = 0"
| "phase_counts ROOT_ACTIVE a p r \<longleftrightarrow> a = 0 \<and> p = 0 \<and> r = 0"
| "phase_counts CANARY_PENDING a p r \<longleftrightarrow> a = 1 \<and> p = 0 \<and> r = 0"
| "phase_counts CANARY_OBSERVING a p r \<longleftrightarrow> a = 1 \<and> p = 0 \<and> r = 0"
| "phase_counts PROMOTION_PENDING a p r \<longleftrightarrow> a = 1 \<and> p = 1 \<and> r = 0"
| "phase_counts PROMOTED a p r \<longleftrightarrow> a = 1 \<and> p = 1 \<and> r = 0"
| "phase_counts RECOVERY_PENDING a p r \<longleftrightarrow> a = 1 \<and> p = 0 \<and> r = 1"
| "phase_counts RECOVERED a p r \<longleftrightarrow> a = 1 \<and> p = 0 \<and> r = 1"
| "phase_counts AMBIGUOUS a p r \<longleftrightarrow> False"
| "phase_counts _ a p r \<longleftrightarrow> a \<le> 1 \<and> p + r \<le> a"

definition rollout_inv :: "rollout \<Rightarrow> bool" where
  "rollout_inv r \<longleftrightarrow>
     (ro_state r = AMBIGUOUS \<longleftrightarrow> ro_origin r \<noteq> None)
     \<and> phase_counts (phase r) (issued APPLY_CANARY_V1 r) (issued PROMOTE_CANDIDATE_V1 r)
         (issued RECOVER_STABLE_V1 r)"

text \<open>What a table row does to the counts, from the phase it starts in.\<close>

definition row_counts :: "rollout_state \<Rightarrow> transition \<Rightarrow> bool" where
  "row_counts s t \<longleftrightarrow>
     (t_state t = AMBIGUOUS \<longrightarrow> t_commands t = [])
     \<and> (s = AMBIGUOUS \<longrightarrow> count_list (t_commands t) APPLY_CANARY_V1 = 0
          \<and> count_list (t_commands t) PROMOTE_CANDIDATE_V1 = 0
          \<and> count_list (t_commands t) RECOVER_STABLE_V1 = 0)
     \<and> (t_state t \<noteq> AMBIGUOUS \<longrightarrow>
          (\<forall>a p r. phase_counts (or_else (t_ambiguity_origin t) s) a p r \<longrightarrow>
             phase_counts (t_state t)
               (a + count_list (t_commands t) APPLY_CANARY_V1)
               (p + count_list (t_commands t) PROMOTE_CANDIDATE_V1)
               (r + count_list (t_commands t) RECOVER_STABLE_V1)))"

lemma row_counts: "transitions (s, e) = Some t \<Longrightarrow> row_counts s t"
  by (drule table_row [where P = "\<lambda>s e t. row_counts s t"])
    (simp_all add: table_defs row_counts_def or_else_def)

lemma phase_counts_weaken:
  "phase_counts s a p r \<Longrightarrow> phase_counts DENIED a p r \<and> phase_counts FAILED_SAFE a p r"
  by (cases s) auto

lemma rollout_step_sel:
  "ro_state (rollout_step r x) = out_state (reduce_rollout (rollout_input r x))"
  "ro_origin (rollout_step r x) = out_ambiguity_origin (reduce_rollout (rollout_input r x))"
  "ro_issued (rollout_step r x) = ro_issued r @ out_commands (reduce_rollout (rollout_input r x))"
  by (simp_all add: rollout_step_def Let_def)

text \<open>The four ways a step can go, with what each does to state, origin and commands.\<close>

lemma rollout_step_cases:
  obtains (rejected) "rollout_step r x = r"
  | (fact) i where "i = rollout_input r x" "ro_issued (rollout_step r x) = ro_issued r"
      "ro_state (rollout_step r x) \<in> {DENIED, FAILED_SAFE, AMBIGUOUS}"
      "ro_origin (rollout_step r x) =
        (if ro_state (rollout_step r x) = AMBIGUOUS
         then Some (or_else (ro_origin r) (ro_state r)) else None)"
  | (taken) e t where "transitions (ro_state r, e) = Some t"
      "t_ambiguity_origin t = None \<or> ro_origin r = t_ambiguity_origin t"
      "ro_state (rollout_step r x) = t_state t"
      "ro_origin (rollout_step r x) = transition_origin (rollout_input r x) t"
      "ro_issued (rollout_step r x) = ro_issued r @ t_commands t"
proof (cases "transitions (in_state (rollout_input r x), in_event (rollout_input r x))")
  case None
  then have "rollout_step r x = r"
    by (simp add: rollout_step_def reduce_rollout_def reducer_result_def)
  then show thesis by (rule rejected)
next
  case (Some t)
  show thesis
  proof (cases "t_ambiguity_origin t \<noteq> None \<and> ro_origin r \<noteq> t_ambiguity_origin t")
    case True
    with Some have "rollout_step r x = r"
      by (simp add: rollout_step_def reduce_rollout_def reducer_result_def)
    then show thesis by (rule rejected)
  next
    case origin: False
    show thesis
    proof (cases "check_required_facts (rollout_input r x) t")
      case None
      with Some origin show thesis
        by (intro taken [of "in_event (rollout_input r x)" t])
          (auto simp: rollout_step_sel reduce_rollout_def reducer_result_def)
    next
      case (Some o')
      with \<open>transitions _ = Some t\<close> origin check_required_facts_Some [OF Some] show thesis
        by (intro fact [OF refl]) (auto simp: rollout_step_sel reduce_rollout_def)
    qed
  qed
qed

lemma rollout_step_inv:
  assumes "rollout_inv r" shows "rollout_inv (rollout_step r x)"
  using rollout_step_cases [of r x]
proof cases
  case rejected
  with assms show ?thesis by simp
next
  case (fact i)
  with assms phase_counts_weaken show ?thesis
    by (auto simp: rollout_inv_def phase_def issued_def or_else_def)
next
  case (taken e t)
  have counts: "row_counts (ro_state r) t"
    using taken(1) by (rule row_counts)
  have from_origin: "t_ambiguity_origin t \<noteq> None \<longleftrightarrow> ro_state r = AMBIGUOUS \<and> t_state t \<noteq> AMBIGUOUS"
    using taken(1) by (rule row_origin)
  have "phase r = or_else (t_ambiguity_origin t) (ro_state r)" if "t_state t \<noteq> AMBIGUOUS"
    using that assms taken(2) from_origin by (auto simp: phase_def rollout_inv_def)
  with counts taken assms from_origin show ?thesis
    by (auto simp: rollout_inv_def phase_def issued_def row_counts_def transition_origin_def
        or_else_def split: if_splits option.splits)
qed

lemma new_rollout_inv: "rollout_inv new_rollout"
  by (simp add: rollout_inv_def new_rollout_def phase_def issued_def or_else_def)

definition issued_before :: "rollout \<Rightarrow> rollout \<Rightarrow> bool" where
  "issued_before r r' \<longleftrightarrow> (\<exists>cs. ro_issued r' = ro_issued r @ cs)"

definition rollout_final :: "rollout \<Rightarrow> bool" where
  "rollout_final r \<longleftrightarrow> ro_state r \<in> {REVOKED, DENIED, FAILED_SAFE}"

lemma rollout_final_step: "rollout_final r \<Longrightarrow> rollout_step r x = r"
  by (simp add: rollout_final_def rollout_step_def reduce_final reducer_result_def Let_def)

interpretation rollouts: absorbing_machine rollout_step rollout_inv issued_before rollout_final
  by unfold_locales
    (auto simp: rollout_step_inv issued_before_def rollout_step_sel rollout_final_step)

section \<open>Runs\<close>

text \<open>
  C19: in every run from a new rollout, whatever events and facts arrive in whatever order,
  the canary is applied at most once and at most one of promotion and recovery is ever
  issued, at most once and only after the canary; a rollout that is promoted (or recovered)
  had exactly that one command issued; and being ambiguous is the same as having a recorded
  origin.
\<close>

theorem rollout_mutates_at_most_once:
  "issued APPLY_CANARY_V1 (rollout_run xs) \<le> 1
    \<and> issued PROMOTE_CANDIDATE_V1 (rollout_run xs) + issued RECOVER_STABLE_V1 (rollout_run xs)
        \<le> issued APPLY_CANARY_V1 (rollout_run xs)
    \<and> (ro_state (rollout_run xs) = PROMOTED \<longrightarrow>
         issued PROMOTE_CANDIDATE_V1 (rollout_run xs) = 1 \<and> issued RECOVER_STABLE_V1 (rollout_run xs) = 0)
    \<and> (ro_state (rollout_run xs) = RECOVERED \<longrightarrow>
         issued RECOVER_STABLE_V1 (rollout_run xs) = 1 \<and> issued PROMOTE_CANDIDATE_V1 (rollout_run xs) = 0)
    \<and> (ro_state (rollout_run xs) = AMBIGUOUS \<longleftrightarrow> ro_origin (rollout_run xs) \<noteq> None)"
proof -
  have inv: "rollout_inv (rollout_run xs)"
    by (rule rollouts.run_inv) (rule new_rollout_inv)
  then have counts: "phase_counts (phase (rollout_run xs)) (issued APPLY_CANARY_V1 (rollout_run xs))
      (issued PROMOTE_CANDIDATE_V1 (rollout_run xs)) (issued RECOVER_STABLE_V1 (rollout_run xs))"
    by (simp add: rollout_inv_def)
  have "phase (rollout_run xs) = ro_state (rollout_run xs)" if "ro_state (rollout_run xs) \<noteq> AMBIGUOUS"
    using that inv by (auto simp: rollout_inv_def phase_def or_else_def)
  with counts inv show ?thesis
    using phase_counts_weaken [OF counts] by (auto simp: rollout_inv_def)
qed

definition promotion_run :: "rollout_fact list" where
  "promotion_run =
     map (\<lambda>e. (e, all_confirmed, None))
       [STABLE_CAPTURE_REQUESTED, STABLE_CAPTURED, ROOT_CREATED, CANARY_REQUESTED, CANARY_APPLIED,
        CANARY_VERIFIED, HEALTHY, PROMOTION_APPLIED, PROMOTION_VERIFIED, COMPLETION_CONFIRMED]"

lemma promotion_run_promoted: "ro_state (rollout_run promotion_run) = PROMOTED"
  by (simp add: promotion_run_def rollout_step_def rollout_input_def new_rollout_def eval_reduce)

theorem rollout_mutates_at_most_once_witness:
  "ro_state (rollout_run promotion_run) = PROMOTED
    \<and> issued PROMOTE_CANDIDATE_V1 (rollout_run promotion_run) = 1"
  using rollout_mutates_at_most_once [of promotion_run] promotion_run_promoted by simp

text \<open>
  A rollout that is revoked, denied or failed safe stays exactly as it is, whatever
  arrives afterwards, and issues no further command.
\<close>

theorem final_rollout_is_closed:
  assumes "ro_state (rollout_run xs) \<in> {REVOKED, DENIED, FAILED_SAFE}"
  shows "rollout_run (xs @ ys) = rollout_run xs"
  using assms by (intro rollouts.final_after [OF new_rollout_inv]) (simp add: rollout_final_def)

definition revocation_run :: "rollout_fact list" where
  "revocation_run = map (\<lambda>e. (e, all_confirmed, None)) [ROOT_CREATED, REVOCATION_REQUESTED, EPOCH_REVOKED]"

theorem final_rollout_is_closed_witness:
  "ro_state (rollout_run revocation_run) = REVOKED
    \<and> rollout_run (revocation_run @ promotion_run) = rollout_run revocation_run"
proof -
  have "ro_state (rollout_run revocation_run) = REVOKED"
    by (simp add: revocation_run_def rollout_step_def rollout_input_def new_rollout_def eval_reduce)
  then show ?thesis
    using final_rollout_is_closed [of revocation_run promotion_run] by simp
qed

section \<open>Ambiguity that readback cannot resolve\<close>

text \<open>
  Only the three pending states have a resolution event. An ambiguity recorded elsewhere
  (an unconfirmed observation of the stable capture, of a health verdict or of a completion)
  is final.
\<close>

definition stuck_at :: "rollout_state \<Rightarrow> rollout \<Rightarrow> bool" where
  "stuck_at p r \<longleftrightarrow> ro_state r = AMBIGUOUS \<and> ro_origin r = Some p
     \<and> p \<notin> {CANARY_PENDING, PROMOTION_PENDING, RECOVERY_PENDING}"

lemma row_resolution:
  "transitions (s, e) = Some t \<Longrightarrow>
     t_ambiguity_origin t \<in> {None, Some CANARY_PENDING, Some PROMOTION_PENDING, Some RECOVERY_PENDING}"
  by (drule table_row [where P = "\<lambda>s e t. t_ambiguity_origin t
        \<in> {None, Some CANARY_PENDING, Some PROMOTION_PENDING, Some RECOVERY_PENDING}"])
    (simp_all add: table_defs)

lemma reduce_never_denied_from_ambiguous:
  "in_state i = AMBIGUOUS \<Longrightarrow> out_state (reduce_rollout i) \<notin> {DENIED, FAILED_SAFE}"
  using reduce_successors [of i] by auto

lemma stuck_step:
  assumes "stuck_at p r"
  shows "stuck_at p (rollout_step r x) \<and> ro_issued (rollout_step r x) = ro_issued r"
  using rollout_step_cases [of r x]
proof cases
  case rejected
  with assms show ?thesis by simp
next
  case (fact i)
  with assms reduce_never_denied_from_ambiguous [of i] show ?thesis
    by (auto simp: stuck_at_def or_else_def rollout_step_sel)
next
  case (taken e t)
  have "t_ambiguity_origin t = None"
    using taken(2) row_resolution [OF taken(1)] assms by (auto simp: stuck_at_def)
  then have "t_state t = AMBIGUOUS"
    using row_origin [OF taken(1)] assms by (auto simp: stuck_at_def)
  with taken row_counts [OF taken(1)] assms show ?thesis
    by (auto simp: stuck_at_def row_counts_def transition_origin_def)
qed

text \<open>
  C40: an ambiguity whose origin is not one of the three mutation states is never resolved
  or revoked: every later run stays ambiguous with the same origin and issues nothing.
\<close>

theorem unresolvable_ambiguity:
  assumes "ro_state (rollout_run xs) = AMBIGUOUS" and "ro_origin (rollout_run xs) = Some p"
    and "p \<notin> {CANARY_PENDING, PROMOTION_PENDING, RECOVERY_PENDING}"
  shows "ro_state (rollout_run (xs @ ys)) = AMBIGUOUS
    \<and> ro_origin (rollout_run (xs @ ys)) = Some p
    \<and> ro_issued (rollout_run (xs @ ys)) = ro_issued (rollout_run xs)"
proof -
  have "stuck_at p (foldl rollout_step r ys) \<and> ro_issued (foldl rollout_step r ys) = ro_issued r"
    if "stuck_at p r" for r
    using that
  proof (induction ys arbitrary: r)
    case (Cons y ys)
    with stuck_step [of p r y] show ?case by simp
  qed simp
  from this [of "rollout_run xs"] assms show ?thesis
    by (simp add: stuck_at_def)
qed

definition unobserved_capture_run :: "rollout_fact list" where
  "unobserved_capture_run = [(STABLE_CAPTURED, all_confirmed\<lparr>observation := UNKNOWN\<rparr>, None)]"

theorem unresolvable_ambiguity_witness:
  "ro_origin (rollout_run unobserved_capture_run) = Some ROOT_PENDING
    \<and> ro_state (rollout_run (unobserved_capture_run @ promotion_run)) = AMBIGUOUS"
proof -
  have run: "ro_state (rollout_run unobserved_capture_run) = AMBIGUOUS"
      "ro_origin (rollout_run unobserved_capture_run) = Some ROOT_PENDING"
    by (simp_all add: unobserved_capture_run_def rollout_step_def rollout_input_def new_rollout_def
        eval_reduce)
  from unresolvable_ambiguity [OF run, of promotion_run] run(2) show ?thesis by simp
qed

end
