(* ===== verification/PyText.thy ===== *)
theory PyText
  imports Prelude "HOL-Library.Word"
begin

text \<open>
  Python text and bytes as the source uses them. A \<open>str\<close> is a list of characters whose
  codes are Unicode code points; the model's \<open>char\<close> covers U+0000 to U+00FF, and on that
  range \<open>str.strip\<close>, \<open>len\<close>, the UTF-8 encoder and the regular expressions below are
  exact. A \<open>bytes\<close> value is a list of 8-bit words.

  The validators \<open>_validate_identifier\<close>, \<open>_validate_sha256\<close>, \<open>_require_text\<close> and their
  copies in the authority modules are defined here once and used by each module's theory.
\<close>

type_synonym byte = "8 word"
type_synonym bytes = "byte list"

text \<open>\<open>hashlib.sha256(data).hexdigest()\<close> is an argument of the definitions that hash.\<close>

type_synonym hexdigest = "bytes \<Rightarrow> string"

section \<open>Whitespace, blank text and wildcards\<close>

definition char_code :: "char \<Rightarrow> nat" where
  "char_code c = of_char c"

text \<open>\<open>str.isspace\<close> on code points below 256, which is what \<open>str.strip\<close> removes.\<close>

definition py_space :: "char \<Rightarrow> bool" where
  "py_space c \<longleftrightarrow>
     (let n = char_code c in
      (9 \<le> n \<and> n \<le> 13) \<or> (28 \<le> n \<and> n \<le> 32) \<or> n = 133 \<or> n = 160)"

definition py_strip :: "string \<Rightarrow> string" where
  "py_strip s = rev (dropWhile py_space (rev (dropWhile py_space s)))"

definition is_nonblank :: "string \<Rightarrow> bool" where
  "is_nonblank s \<longleftrightarrow> py_strip s \<noteq> []"

lemma py_strip_Nil [simp]: "py_strip [] = []"
  by (simp add: py_strip_def)

lemma is_nonblank_iff: "is_nonblank s \<longleftrightarrow> (\<exists>c \<in> set s. \<not> py_space c)"
proof -
  have dw: "dropWhile py_space t = [] \<longleftrightarrow> (\<forall>c \<in> set t. py_space c)" for t
    by (induction t) auto
  have "py_strip s = [] \<longleftrightarrow> dropWhile py_space s = []"
  proof
    assume "py_strip s = []"
    then have "\<forall>c \<in> set (dropWhile py_space s). py_space c"
      by (simp add: py_strip_def dw)
    then show "dropWhile py_space s = []"
      by (metis hd_dropWhile hd_in_set)
  next
    assume "dropWhile py_space s = []"
    then show "py_strip s = []" by (simp only: py_strip_def rev.simps dropWhile.simps)
  qed
  then show ?thesis
    by (auto simp: is_nonblank_def dw)
qed

definition wildcard :: "char \<Rightarrow> bool" where
  "wildcard c \<longleftrightarrow> c = CHR ''*'' \<or> c = CHR ''?'' \<or> c = CHR ''['' \<or> c = CHR '']''"

section \<open>SHA-256 digests\<close>

definition hex_char :: "char \<Rightarrow> bool" where
  "hex_char c \<longleftrightarrow>
     (let n = char_code c in (48 \<le> n \<and> n \<le> 57) \<or> (97 \<le> n \<and> n \<le> 102))"

text \<open>\<open>_SHA256.fullmatch\<close> of the pattern \<open>^[0-9a-f]{64}$\<close>.\<close>

definition is_sha256 :: "string \<Rightarrow> bool" where
  "is_sha256 s \<longleftrightarrow> length s = 64 \<and> list_all hex_char s"

definition hex_value :: "char \<Rightarrow> nat" where
  "hex_value c = (if char_code c < 58 then char_code c - 48 else char_code c - 87)"

text \<open>\<open>bytes.fromhex\<close> on a lowercase digest: two digits a byte.\<close>

definition hex_byte :: "char \<Rightarrow> char \<Rightarrow> byte" where
  "hex_byte a b = of_nat (16 * hex_value a + hex_value b)"

fun bytes_fromhex :: "string \<Rightarrow> bytes" where
  "bytes_fromhex (a # b # cs) = hex_byte a b # bytes_fromhex cs"
| "bytes_fromhex _ = []"

lemma length_bytes_fromhex [simp]: "length (bytes_fromhex s) = length s div 2"
  by (induction s rule: bytes_fromhex.induct) auto

lemma hex_value_less: "hex_char c \<Longrightarrow> hex_value c < 16"
  by (auto simp: hex_char_def hex_value_def Let_def)

lemma char_code_inject: "char_code c = char_code d \<longleftrightarrow> c = d"
  by (simp add: char_code_def)

lemma hex_value_inject:
  "hex_char c \<Longrightarrow> hex_char d \<Longrightarrow> hex_value c = hex_value d \<longleftrightarrow> c = d"
  by (auto simp: hex_char_def hex_value_def Let_def char_code_inject [symmetric] split: if_splits)

lemma radix16_inject:
  fixes a b c d :: nat
  assumes "b < 16" "d < 16"
  shows "16 * a + b = 16 * c + d \<longleftrightarrow> a = c \<and> b = d"
proof
  assume eq: "16 * a + b = 16 * c + d"
  then have "(16 * a + b) mod 16 = (16 * c + d) mod 16" by (rule arg_cong)
  with assms have "b = d" by (simp only: mod_mult_self4 mod_less)
  with eq show "a = c \<and> b = d" by simp
qed (simp only:)

lemma unat_hex_byte:
  assumes "hex_char a" "hex_char b"
  shows "unat (hex_byte a b) = 16 * hex_value a + hex_value b"
proof -
  have "16 * hex_value a + hex_value b < 256"
    using hex_value_less [OF assms(1)] hex_value_less [OF assms(2)] by simp
  then show ?thesis
    unfolding hex_byte_def by (simp only: unat_of_nat) simp
qed

lemma hex_byte_inject:
  assumes "hex_char a" "hex_char b" "hex_char c" "hex_char d"
  shows "hex_byte a b = hex_byte c d \<longleftrightarrow> a = c \<and> b = d"
proof -
  have "hex_byte a b = hex_byte c d \<longleftrightarrow>
      16 * hex_value a + hex_value b = 16 * hex_value c + hex_value d"
    using assms by (simp add: word_unat_eq_iff unat_hex_byte)
  also have "\<dots> \<longleftrightarrow> hex_value a = hex_value c \<and> hex_value b = hex_value d"
    using assms by (intro radix16_inject hex_value_less)
  also have "\<dots> \<longleftrightarrow> a = c \<and> b = d"
    using assms by (simp add: hex_value_inject)
  finally show ?thesis .
qed

lemma bytes_fromhex_inject:
  "list_all hex_char s \<Longrightarrow> list_all hex_char t \<Longrightarrow> even (length s) \<Longrightarrow> length s = length t \<Longrightarrow>
   bytes_fromhex s = bytes_fromhex t \<Longrightarrow> s = t"
proof (induction s arbitrary: t rule: bytes_fromhex.induct)
  case (1 a b cs)
  from "1.prems"(4) obtain c d ds where t: "t = c # d # ds"
    by (cases t; cases "tl t") simp_all
  from "1.prems" t have "a = c \<and> b = d"
    by (simp add: hex_byte_inject)
  moreover from "1.prems" t have "cs = ds"
    by (intro "1.IH") simp_all
  ultimately show ?case by (simp add: t)
qed simp_all

lemma is_sha256_fromhex_inject:
  "is_sha256 s \<Longrightarrow> is_sha256 t \<Longrightarrow> bytes_fromhex s = bytes_fromhex t \<longleftrightarrow> s = t"
  by (auto simp: is_sha256_def intro: bytes_fromhex_inject)

section \<open>The authority modules' field validators\<close>

definition validate_identifier :: "string \<Rightarrow> string \<Rightarrow> check" where
  "validate_identifier name value =
     checks
      [fails_if (\<not> is_nonblank value) (ValueError (name @ '' must not be blank'')),
       fails_if (list_ex wildcard value) (ValueError (name @ '' must not contain wildcards''))]"

definition validate_sha256 :: "string \<Rightarrow> string \<Rightarrow> check" where
  "validate_sha256 name value =
     fails_if (\<not> is_sha256 value) (ValueError (name @ '' must be a lowercase SHA-256 digest''))"

definition require_text :: "string \<Rightarrow> string \<Rightarrow> nat \<Rightarrow> check" where
  "require_text name value maximum =
     fails_if (value = [] \<or> value \<noteq> py_strip value \<or> length value > maximum)
       (ValueError (name @ '' must be bounded nonblank text''))"

definition exact_identifier :: "string \<Rightarrow> bool" where
  "exact_identifier s \<longleftrightarrow> is_nonblank s \<and> \<not> list_ex wildcard s"

lemma validate_identifier_None [simp, check_simps]:
  "validate_identifier name v = None \<longleftrightarrow> exact_identifier v"
  by (auto simp: validate_identifier_def exact_identifier_def)

lemma validate_sha256_None [simp, check_simps]: "validate_sha256 name v = None \<longleftrightarrow> is_sha256 v"
  by (simp add: validate_sha256_def)

lemma require_text_None [check_simps]:
  "require_text name v m = None \<longleftrightarrow> v \<noteq> [] \<and> v = py_strip v \<and> length v \<le> m"
  by (auto simp: require_text_def)

end
