(* ===== verification/CanonicalJson.thy ===== *)
theory CanonicalJson
  imports PyText "HOL-Library.Char_ord" "HOL-Library.List_Lexorder"
begin

text \<open>
  The canonical JSON every identity and digest of the program is computed over:
  \<open>json.dumps(value, ensure_ascii=False, separators=(",", ":"), sort_keys=True)\<close> encoded as
  UTF-8, with the restrictions \<open>_validate_restricted\<close> and the byte bound of
  \<open>canonical_json_value_bytes\<close> in \<open>contracts/codec.py\<close>. A dictionary is an association list
  in insertion order. Every string of the model's characters is in normal form C, so
  \<open>validate_nfc_text\<close> accepts it.

  The lemmas show that the encoding is prefix-free before a delimiter, hence injective up
  to the order of the keys; that carries the injectivity of the identities built on it.
\<close>

datatype json =
    JNull
  | JBool bool
  | JInt int
  | JStr string
  | JList "json list"
  | JObj "(string \<times> json) list"

text \<open>Characters are ordered by their code.\<close>

lemma char_less_code: "(c < d) = (char_code c < char_code d)"
  by (simp add: less_char_def char_code_def)

section \<open>Encoding\<close>

definition digit_char :: "nat \<Rightarrow> char" where
  "digit_char n = char_of (48 + n)"

fun show_nat :: "nat \<Rightarrow> string" where
  "show_nat n = (if n < 10 then [digit_char n] else show_nat (n div 10) @ [digit_char (n mod 10)])"

declare show_nat.simps [simp del]

definition show_int :: "int \<Rightarrow> string" where
  "show_int i = (if i < 0 then CHR ''-'' # show_nat (nat (- i)) else show_nat (nat i))"

definition hex_digit :: "nat \<Rightarrow> char" where
  "hex_digit n = (if n < 10 then char_of (48 + n) else char_of (87 + n))"

text \<open>\<open>ESCAPE_DCT\<close> of \<open>json.encoder\<close>, with \<open>ensure_ascii=False\<close>.\<close>

definition escape :: "char \<Rightarrow> string" where
  "escape c =
     (if c = CHR 0x5C then [CHR 0x5C, CHR 0x5C]
      else if c = CHR 0x22 then [CHR 0x5C, CHR 0x22]
      else if c = CHR 0x08 then [CHR 0x5C, CHR ''b'']
      else if c = CHR 0x0C then [CHR 0x5C, CHR ''f'']
      else if c = CHR 0x0A then [CHR 0x5C, CHR ''n'']
      else if c = CHR 0x0D then [CHR 0x5C, CHR ''r'']
      else if c = CHR 0x09 then [CHR 0x5C, CHR ''t'']
      else if char_code c < 32
      then [CHR 0x5C, CHR ''u'', CHR ''0'', CHR ''0'',
            hex_digit (char_code c div 16), hex_digit (char_code c mod 16)]
      else [c])"

definition quote_str :: "string \<Rightarrow> string" where
  "quote_str s = CHR 0x22 # concat (map escape s) @ [CHR 0x22]"

definition joined :: "string list \<Rightarrow> string" where
  "joined xs = (case xs of [] \<Rightarrow> [] | y # ys \<Rightarrow> y @ concat (map (\<lambda>z. CHR '','' # z) ys))"

fun encode_json :: "json \<Rightarrow> string" where
  "encode_json JNull = ''null''"
| "encode_json (JBool b) = (if b then ''true'' else ''false'')"
| "encode_json (JInt i) = show_int i"
| "encode_json (JStr s) = quote_str s"
| "encode_json (JList xs) = CHR ''['' # joined (map encode_json xs) @ '']''"
| "encode_json (JObj kvs) =
     CHR ''{'' # joined (map (\<lambda>(k, v). quote_str k @ CHR '':'' # encode_json v) kvs) @ ''}''"

text \<open>\<open>sort_keys=True\<close>, at every level.\<close>

fun sort_keys :: "json \<Rightarrow> json" where
  "sort_keys (JList xs) = JList (map sort_keys xs)"
| "sort_keys (JObj kvs) = JObj (sort_key fst (map (\<lambda>(k, v). (k, sort_keys v)) kvs))"
| "sort_keys v = v"

definition json_dumps :: "json \<Rightarrow> string" where
  "json_dumps v = encode_json (sort_keys v)"

definition octet :: "nat \<Rightarrow> byte" where
  "octet n = of_nat n"

definition utf8_char :: "char \<Rightarrow> bytes" where
  "utf8_char c =
     (if char_code c < 128 then [octet (char_code c)]
      else [octet (192 + char_code c div 64), octet (128 + char_code c mod 64)])"

definition encode_utf8 :: "string \<Rightarrow> bytes" where
  "encode_utf8 s = concat (map utf8_char s)"

section \<open>Restricted values\<close>

definition MAX_SAFE_INTEGER :: int where "MAX_SAFE_INTEGER = 9007199254740991"
definition MAX_CONTRACT_BYTES :: nat where "MAX_CONTRACT_BYTES = 65536"
definition MAX_JSON_DEPTH :: nat where "MAX_JSON_DEPTH = 12"
definition MAX_JSON_ITEMS :: nat where "MAX_JSON_ITEMS = 64"

definition lower_char :: "char \<Rightarrow> bool" where
  "lower_char c \<longleftrightarrow> 97 \<le> char_code c \<and> char_code c \<le> 122"

definition is_digit_char :: "char \<Rightarrow> bool" where
  "is_digit_char c \<longleftrightarrow> 48 \<le> char_code c \<and> char_code c \<le> 57"

text \<open>\<open>_OBJECT_KEY.fullmatch\<close> of \<open>^[a-z][a-z0-9_]*$\<close>.\<close>

definition is_object_key :: "string \<Rightarrow> bool" where
  "is_object_key s \<longleftrightarrow>
     (case s of [] \<Rightarrow> False
      | c # cs \<Rightarrow> lower_char c \<and> list_all (\<lambda>d. lower_char d \<or> is_digit_char d \<or> d = CHR ''_'') cs)"

fun validate_restricted :: "nat \<Rightarrow> json \<Rightarrow> check" where
  "validate_restricted depth JNull =
     fails_if (depth > MAX_JSON_DEPTH) (ValueError ''JSON nesting is too deep'')"
| "validate_restricted depth (JBool b) =
     fails_if (depth > MAX_JSON_DEPTH) (ValueError ''JSON nesting is too deep'')"
| "validate_restricted depth (JInt i) =
     checks
      [fails_if (depth > MAX_JSON_DEPTH) (ValueError ''JSON nesting is too deep''),
       fails_if (\<not> (- MAX_SAFE_INTEGER \<le> i \<and> i \<le> MAX_SAFE_INTEGER))
         (ValueError ''integer is outside the cross-language safe range'')]"
| "validate_restricted depth (JStr s) =
     fails_if (depth > MAX_JSON_DEPTH) (ValueError ''JSON nesting is too deep'')"
| "validate_restricted depth (JList xs) =
     checks
      ([fails_if (depth > MAX_JSON_DEPTH) (ValueError ''JSON nesting is too deep''),
        fails_if (length xs > MAX_JSON_ITEMS) (ValueError ''JSON array has too many items'')]
       @ map (validate_restricted (Suc depth)) xs)"
| "validate_restricted depth (JObj kvs) =
     checks
      ([fails_if (depth > MAX_JSON_DEPTH) (ValueError ''JSON nesting is too deep''),
        fails_if (length kvs > MAX_JSON_ITEMS) (ValueError ''JSON object has too many fields'')]
       @ map (\<lambda>(k, v).
           checks [fails_if (\<not> is_object_key k) (ValueError ''JSON object key is not canonical''),
                   validate_restricted (Suc depth) v]) kvs)"

datatype contract_error = CONTRACT_INVALID string | CONTRACT_VERSION_UNSUPPORTED string

definition canonical_json_value_bytes :: "json \<Rightarrow> contract_error + bytes" where
  "canonical_json_value_bytes value =
     (case validate_restricted 0 value of
        Some _ \<Rightarrow> Inl (CONTRACT_INVALID ''canonical JSON encoding failed'')
      | None \<Rightarrow>
          (let encoded = encode_utf8 (json_dumps value) in
           if encoded = [] \<or> length encoded > MAX_CONTRACT_BYTES
           then Inl (CONTRACT_INVALID ''canonical JSON is outside its byte bounds'')
           else Inr encoded))"

section \<open>Prefix-free codes\<close>

text \<open>
  A code of the elements of a list is prefix-free when no two code words followed by
  anything can be confused. The interface states that once for characters, and its client
  lemmas lift it to concatenations; it is instantiated by the JSON escapes (before the
  closing quote) and by UTF-8.
\<close>

locale prefix_code =
  fixes code :: "'a \<Rightarrow> 'b list"
  assumes nonempty: "code a \<noteq> []"
    and prefix_free: "code a @ r = code b @ s \<Longrightarrow> a = b \<and> r = s"
begin

lemma concat_inject: "concat (map code xs) = concat (map code ys) \<Longrightarrow> xs = ys"
proof (induction xs arbitrary: ys)
  case Nil
  then show ?case using nonempty by (cases ys) auto
next
  case (Cons x xs)
  then show ?case
    using nonempty [of x] by (cases ys) (auto dest: prefix_free)
qed

lemma concat_until:
  assumes stop: "\<And>a. z \<noteq> hd (code a)"
  shows "concat (map code xs) @ z # r = concat (map code ys) @ z # s \<Longrightarrow> xs = ys \<and> r = s"
proof (induction xs arbitrary: ys)
  case Nil
  show ?case
  proof (cases ys)
    case (Cons y ys')
    with Nil have "hd (z # r) = hd (code y @ concat (map code ys') @ z # s)" by simp
    then show ?thesis using stop [of y] nonempty [of y] by (simp add: hd_append)
  qed (use Nil in simp)
next
  case (Cons x xs)
  show ?case
  proof (cases ys)
    case Nil
    with Cons.prems have "hd (code x @ concat (map code xs) @ z # r) = hd (z # s)" by simp
    then show ?thesis using stop [of x] nonempty [of x] by (simp add: hd_append)
  next
    case (Cons y ys')
    with Cons.prems have "x = y \<and> concat (map code xs) @ z # r = concat (map code ys') @ z # s"
      by (intro prefix_free) simp
    with Cons.IH Cons show ?thesis by blast
  qed
qed

end

lemma char_code_less: "char_code c < 256"
  by (simp add: char_code_def)

lemma char_of_char_code [simp]: "char_of (char_code c) = c"
  by (simp add: char_code_def)

lemma char_code_of [simp]: "n < 256 \<Longrightarrow> char_code (char_of n) = n"
  by (simp add: char_code_def take_bit_nat_eq_self)

lemma hex_digit_inject: "m < 16 \<Longrightarrow> n < 16 \<Longrightarrow> hex_digit m = hex_digit n \<longleftrightarrow> m = n"
  by (simp add: hex_digit_def char_code_inject [symmetric])

lemma unat_octet [simp]: "n < 256 \<Longrightarrow> unat (octet n) = n"
  by (simp add: octet_def unat_of_nat)

lemma octet_inject: "m < 256 \<Longrightarrow> n < 256 \<Longrightarrow> octet m = octet n \<longleftrightarrow> m = n"
  by (metis unat_octet)

interpretation escapes: prefix_code escape
proof
  show "escape a \<noteq> []" for a
    by (simp add: escape_def)
next
  fix a b and r s :: string
  assume eq: "escape a @ r = escape b @ s"
  have "char_code a = char_code b"
    if "char_code a div 16 = char_code b div 16" "char_code a mod 16 = char_code b mod 16"
    using that by (metis div_mult_mod_eq)
  with eq show "a = b \<and> r = s"
    by (auto simp: escape_def hex_digit_inject char_code_inject split: if_splits)
qed

lemma hd_escape: "CHR 0x22 \<noteq> hd (escape c)"
  by (auto simp: escape_def)

lemma quote_str_prefix: "quote_str x @ r = quote_str y @ s \<Longrightarrow> x = y \<and> r = s"
  using escapes.concat_until [of "CHR 0x22", OF hd_escape, of x r y s]
  by (simp add: quote_str_def)

interpretation utf8: prefix_code utf8_char
proof
  show "utf8_char a \<noteq> []" for a
    by (simp add: utf8_char_def)
next
  fix a b and r s :: bytes
  assume eq: "utf8_char a @ r = utf8_char b @ s"
  have "char_code a = char_code b"
    if "char_code a div 64 = char_code b div 64" "char_code a mod 64 = char_code b mod 64"
    using that by (metis div_mult_mod_eq)
  moreover have "char_code a div 64 < 4" "char_code b div 64 < 4"
    using char_code_less [of a] char_code_less [of b] by auto
  ultimately show "a = b \<and> r = s"
    using eq char_code_less [of a] char_code_less [of b]
    by (auto simp: utf8_char_def char_code_inject [symmetric] octet_inject split: if_splits)
qed

lemma encode_utf8_inject: "encode_utf8 x = encode_utf8 y \<longleftrightarrow> x = y"
  by (auto simp: encode_utf8_def dest: utf8.concat_inject)

section \<open>Integers\<close>

definition digits_value :: "string \<Rightarrow> nat" where
  "digits_value s = foldl (\<lambda>a c. 10 * a + (char_code c - 48)) 0 s"

lemma char_code_digit [simp]: "n < 10 \<Longrightarrow> char_code (digit_char n) = 48 + n"
  by (simp add: digit_char_def)

lemma digits_value_show_nat [simp]: "digits_value (show_nat n) = n"
proof (induction n rule: show_nat.induct)
  case (1 n)
  then show ?case
    by (subst show_nat.simps) (auto simp: digits_value_def)
qed

lemma is_digit_char_digit [simp]: "n < 10 \<Longrightarrow> is_digit_char (digit_char n)"
  by (simp add: is_digit_char_def)

lemma show_nat_digits: "list_all is_digit_char (show_nat n) \<and> show_nat n \<noteq> []"
proof (induction n rule: show_nat.induct)
  case (1 n)
  then show ?case
    by (subst (1 2) show_nat.simps) auto
qed

definition stops_number :: "string \<Rightarrow> bool" where
  "stops_number r \<longleftrightarrow> (case r of [] \<Rightarrow> True | c # _ \<Rightarrow> \<not> is_digit_char c)"

lemma digit_run:
  "list_all P x \<Longrightarrow> list_all P y \<Longrightarrow> (case r of [] \<Rightarrow> True | c # _ \<Rightarrow> \<not> P c) \<Longrightarrow>
   (case s of [] \<Rightarrow> True | c # _ \<Rightarrow> \<not> P c) \<Longrightarrow> x @ r = y @ s \<Longrightarrow> x = y \<and> r = s"
proof (induction x arbitrary: y)
  case Nil
  then show ?case by (cases y) auto
next
  case (Cons a x)
  then show ?case by (cases y) auto
qed

lemma show_nat_prefix:
  assumes "show_nat m @ r = show_nat n @ s" "stops_number r" "stops_number s"
  shows "m = n \<and> r = s"
proof -
  have "show_nat m = show_nat n \<and> r = s"
  proof (rule digit_run [of is_digit_char])
    show "show_nat m @ r = show_nat n @ s" by (rule assms(1))
  qed (use assms(2,3) in \<open>simp_all only: stops_number_def show_nat_digits\<close>)
  then show ?thesis
    by (metis digits_value_show_nat)
qed

lemma show_nat_hd: "is_digit_char (hd (show_nat n))"
  using show_nat_digits [of n] by (cases "show_nat n") auto

lemma show_nat_not_minus: "show_nat n @ r \<noteq> CHR ''-'' # s"
  using show_nat_digits [of n] by (cases "show_nat n") (auto simp: is_digit_char_def char_code_def)

lemma show_int_prefix:
  assumes "show_int i @ r = show_int j @ s" "stops_number r" "stops_number s"
  shows "i = j \<and> r = s"
proof -
  consider "i < 0" "j < 0" | "\<not> i < 0" "\<not> j < 0" | "i < 0 \<longleftrightarrow> \<not> j < 0" by blast
  then show ?thesis
  proof cases
    case 1
    with assms(1) have "show_nat (nat (- i)) @ r = show_nat (nat (- j)) @ s"
      by (simp add: show_int_def)
    from show_nat_prefix [OF this assms(2,3)] 1 show ?thesis by auto
  next
    case 2
    with assms(1) have "show_nat (nat i) @ r = show_nat (nat j) @ s"
      by (simp add: show_int_def)
    from show_nat_prefix [OF this assms(2,3)] 2 show ?thesis by auto
  next
    case 3
    with assms(1) show ?thesis
      using show_nat_not_minus by (auto simp: show_int_def split: if_splits dest: sym)
  qed
qed

section \<open>The encoding determines the value\<close>

definition tail_json :: "('a \<Rightarrow> string) \<Rightarrow> 'a list \<Rightarrow> string" where
  "tail_json f xs = concat (map (\<lambda>x. CHR '','' # f x) xs)"

lemma joined_map: "joined (map f xs) = (case xs of [] \<Rightarrow> [] | y # ys \<Rightarrow> f y @ tail_json f ys)"
  by (simp add: joined_def tail_json_def comp_def split: list.split)

lemma tail_json_Nil [simp]: "tail_json f [] = []"
  by (simp add: tail_json_def)

lemma tail_json_Cons [simp]: "tail_json f (x # xs) = CHR '','' # f x @ tail_json f xs"
  by (simp add: tail_json_def)

lemma stops_tail: "\<not> is_digit_char z \<Longrightarrow> stops_number (tail_json f xs @ z # r)"
  by (cases xs) (auto simp: stops_number_def is_digit_char_def char_code_def)

lemma tail_json_prefix:
  assumes elem: "\<And>x y r s. x \<in> set xs \<Longrightarrow> f x @ r = f y @ s \<Longrightarrow> stops_number r \<Longrightarrow> stops_number s \<Longrightarrow>
      x = y \<and> r = s"
    and z: "z \<noteq> CHR '',''" "\<not> is_digit_char z"
  shows "tail_json f xs @ z # r = tail_json f ys @ z # s \<Longrightarrow> xs = ys \<and> r = s"
  using elem
proof (induction xs arbitrary: ys)
  case Nil
  then show ?case using z by (cases ys) auto
next
  case (Cons x xs)
  from Cons.prems(1) z obtain y ys' where ys: "ys = y # ys'"
    by (cases ys) auto
  with Cons.prems(1) have "f x @ tail_json f xs @ z # r = f y @ tail_json f ys' @ z # s" by simp
  from Cons.prems(2) [OF _ this] z have "x = y \<and> tail_json f xs @ z # r = tail_json f ys' @ z # s"
    by (simp add: stops_tail)
  moreover from this have "xs = ys' \<and> r = s"
    using Cons.prems(2) by (intro Cons.IH) auto
  ultimately show ?case using ys by simp
qed

lemma joined_prefix:
  assumes elem: "\<And>x y r s. x \<in> set xs \<Longrightarrow> f x @ r = f y @ s \<Longrightarrow> stops_number r \<Longrightarrow> stops_number s \<Longrightarrow>
      x = y \<and> r = s"
    and start: "\<And>x. f x \<noteq> [] \<and> hd (f x) \<noteq> z"
    and z: "z \<noteq> CHR '',''" "\<not> is_digit_char z"
    and eq: "joined (map f xs) @ z # r = joined (map f ys) @ z # s"
  shows "xs = ys \<and> r = s"
proof (cases xs)
  case Nil
  with eq have "hd (joined (map f ys) @ z # s) = z" by (simp add: joined_def) (metis list.sel(1))
  with start have "ys = []" by (cases ys) (auto simp: joined_def)
  with Nil eq show ?thesis by simp
next
  case xs: (Cons x xs')
  show ?thesis
  proof (cases ys)
    case Nil
    with eq have "hd (joined (map f xs) @ z # r) = z" by (simp add: joined_def)
    with start xs show ?thesis by (auto simp: joined_def)
  next
    case (Cons y ys')
    with xs eq have "f x @ tail_json f xs' @ z # r = f y @ tail_json f ys' @ z # s"
      by (simp add: joined_def tail_json_def comp_def)
    from elem [OF _ this] xs z have "x = y \<and> tail_json f xs' @ z # r = tail_json f ys' @ z # s"
      by (simp add: stops_tail)
    moreover from this have "xs' = ys' \<and> r = s"
      using elem z xs by (intro tail_json_prefix [of xs' f z r ys' s]) auto
    ultimately show ?thesis using xs Cons by simp
  qed
qed

text \<open>The first character of an encoding tells the kind of the value.\<close>

fun json_kind :: "json \<Rightarrow> nat" where
  "json_kind JNull = 0"
| "json_kind (JBool b) = (if b then 1 else 2)"
| "json_kind (JInt i) = 3"
| "json_kind (JStr s) = 4"
| "json_kind (JList xs) = 5"
| "json_kind (JObj kvs) = 6"

definition char_kind :: "char \<Rightarrow> nat" where
  "char_kind c =
     (if c = CHR ''n'' then 0 else if c = CHR ''t'' then 1 else if c = CHR ''f'' then 2
      else if c = CHR 0x22 then 4 else if c = CHR ''['' then 5 else if c = CHR ''{'' then 6
      else if c = CHR ''-'' \<or> is_digit_char c then 3 else 7)"

lemma digit_kind: "is_digit_char c \<Longrightarrow> char_kind c = 3"
  by (auto simp: char_kind_def is_digit_char_def char_code_def)

lemma encode_json_kind: "encode_json v \<noteq> [] \<and> char_kind (hd (encode_json v)) = json_kind v"
proof (cases v)
  case (JInt i)
  then show ?thesis
    using show_nat_digits show_nat_hd [of "nat i"]
    by (auto simp: show_int_def digit_kind) (simp add: char_kind_def)
qed (auto simp: char_kind_def quote_str_def)

lemma encode_json_start: "encode_json v \<noteq> [] \<and> hd (encode_json v) \<noteq> CHR '']''"
  using encode_json_kind [of v] by (cases v) (auto simp: char_kind_def is_digit_char_def char_code_def)

lemma encode_kind_eq: "encode_json v @ r = encode_json w @ s \<Longrightarrow> json_kind v = json_kind w"
  using encode_json_kind [of v] encode_json_kind [of w] by (metis hd_append2)

definition encode_field :: "string \<times> json \<Rightarrow> string" where
  "encode_field = (\<lambda>(k, v). quote_str k @ CHR '':'' # encode_json v)"

lemma encode_field_start: "encode_field kv \<noteq> [] \<and> hd (encode_field kv) \<noteq> CHR ''}''"
  by (cases kv) (simp add: encode_field_def quote_str_def)

lemma encode_json_prefix:
  "encode_json v @ r = encode_json w @ s \<Longrightarrow> stops_number r \<Longrightarrow> stops_number s \<Longrightarrow> v = w \<and> r = s"
proof (induction v arbitrary: w r s rule: encode_json.induct)
  case 1
  then show ?case
    using encode_kind_eq [OF "1.prems"(1)] by (cases w) (auto split: if_splits)
next
  case (2 b)
  then show ?case
    using encode_kind_eq [OF "2.prems"(1)] by (cases w) (auto split: if_splits)
next
  case (3 i)
  then show ?case
    using encode_kind_eq [OF "3.prems"(1)] by (cases w) (auto dest: show_int_prefix split: if_splits)
next
  case (4 x)
  then show ?case
    using encode_kind_eq [OF "4.prems"(1)] by (cases w) (auto dest: quote_str_prefix split: if_splits)
next
  case (5 xs)
  obtain ys where w: "w = JList ys"
    using encode_kind_eq [OF "5.prems"(1)] by (cases w) (auto split: if_splits)
  have "xs = ys \<and> r = s"
    using "5.prems" w "5.IH" encode_json_start
    by (intro joined_prefix [of xs encode_json "CHR '']''" r ys s])
      (auto simp: is_digit_char_def char_code_def)
  with w show ?case by simp
next
  case (6 kvs)
  obtain kws where w: "w = JObj kws"
    using encode_kind_eq [OF "6.prems"(1)] by (cases w) (auto split: if_splits)
  have "x = y \<and> p = q" if x: "x \<in> set kvs" and eq: "encode_field x @ p = encode_field y @ q"
      and "stops_number p" "stops_number q" for x y p q
  proof -
    obtain k v l u where xy: "x = (k, v)" "y = (l, u)" by (cases x; cases y)
    from eq xy have "quote_str k @ CHR '':'' # encode_json v @ p = quote_str l @ CHR '':'' # encode_json u @ q"
      by (simp add: encode_field_def)
    then have "k = l" "encode_json v @ p = encode_json u @ q"
      by (auto dest: quote_str_prefix)
    with "6.IH" [OF x xy(1) [symmetric], of p u q] that xy show ?thesis by simp
  qed
  then have "kvs = kws \<and> r = s"
    using "6.prems" w encode_field_start
    by (intro joined_prefix [of kvs encode_field "CHR ''}''" r kws s])
      (auto simp: encode_field_def [symmetric] is_digit_char_def char_code_def)
  with w show ?case by simp
qed

lemma encode_json_inject: "encode_json v = encode_json w \<longleftrightarrow> v = w"
  using encode_json_prefix [of v "[]" w "[]"] by (auto simp: stops_number_def)

lemma json_dumps_inject: "json_dumps v = json_dumps w \<longleftrightarrow> sort_keys v = sort_keys w"
  by (simp add: json_dumps_def encode_json_inject)


section \<open>Contract bytes\<close>

text \<open>Restriction does not depend on the order of keys.\<close>

lemma validate_restricted_sort_keys:
  "validate_restricted depth (sort_keys v) = None \<longleftrightarrow> validate_restricted depth v = None"
proof (induction depth v rule: validate_restricted.induct)
  case (5 depth xs)
  then show ?case
    by (auto simp: checks_map_None checks_append_None comp_def)
next
  case (6 depth kvs)
  then show ?case
    by (fastforce simp: checks_map_None checks_append_None comp_def split_beta)
qed simp_all

lemma json_dumps_nonempty: "json_dumps v \<noteq> []"
  using encode_json_kind by (simp add: json_dumps_def)

lemma encode_utf8_Nil_iff [simp]: "encode_utf8 s = [] \<longleftrightarrow> s = []"
  using encode_utf8_inject [of s "[]"] by (simp add: encode_utf8_def)

text \<open>
  C35: the canonical encoding is unambiguous. A restricted value that encodes to given bytes
  shares them with exactly the values equal to it up to the order of object keys.
\<close>

theorem canonical_bytes_unique:
  assumes "canonical_json_value_bytes v = Inr b"
  shows "canonical_json_value_bytes w = Inr b \<longleftrightarrow> sort_keys w = sort_keys v"
proof -
  have "validate_restricted 0 w = None \<longleftrightarrow> validate_restricted 0 v = None"
    if "sort_keys w = sort_keys v"
    using that validate_restricted_sort_keys [of 0] by metis
  then show ?thesis
    using assms
    by (auto simp: canonical_json_value_bytes_def Let_def encode_utf8_inject json_dumps_inject
        split: option.splits if_splits dest: json_dumps_inject [THEN iffD2])
qed

definition sample_json :: json where
  "sample_json = JObj [(''version'', JStr ''v1''), (''epoch'', JInt 4), (''path'', JList [JNull, JBool True])]"

lemma sample_json_bytes:
  "canonical_json_value_bytes sample_json
    = Inr (encode_utf8 ([CHR ''{'', CHR 0x22] @ ''epoch'' @ [CHR 0x22] @ '':4,'' @ [CHR 0x22] @ ''path''
        @ [CHR 0x22] @ '':[null,true],'' @ [CHR 0x22] @ ''version'' @ [CHR 0x22, CHR '':'', CHR 0x22]
        @ ''v1'' @ [CHR 0x22, CHR ''}'']))"
proof -
  have "validate_restricted 0 sample_json = None"
    by code_simp
  moreover have "json_dumps sample_json
      = [CHR ''{'', CHR 0x22] @ ''epoch'' @ [CHR 0x22] @ '':4,'' @ [CHR 0x22] @ ''path''
        @ [CHR 0x22] @ '':[null,true],'' @ [CHR 0x22] @ ''version'' @ [CHR 0x22, CHR '':'', CHR 0x22]
        @ ''v1'' @ [CHR 0x22, CHR ''}'']"
    by code_simp
  ultimately show ?thesis
    by (simp add: canonical_json_value_bytes_def Let_def encode_utf8_def utf8_char_def
        MAX_CONTRACT_BYTES_def char_code_def)
qed

theorem canonical_bytes_unique_witness:
  "canonical_json_value_bytes
      (JObj [(''epoch'', JInt 4), (''version'', JStr ''v1''), (''path'', JList [JNull, JBool True])])
    = canonical_json_value_bytes sample_json"
  unfolding sample_json_bytes
  using canonical_bytes_unique [OF sample_json_bytes]
  by (simp add: sample_json_def)

end
