(* ===== verification/ContractBase.thy ===== *)
theory ContractBase
  imports CanonicalJson
begin

text \<open>
  The strict primitives of the wire contracts, \<open>contracts/base.py\<close>: the string patterns and
  integer ranges pydantic checks on a field, and the whole-second UTC timestamp the records
  compare as text. A field constraint is a predicate; \<open>field\<close> turns it into the check that
  raises when it does not hold. On the model's characters every text is Unicode scalar and in
  normal form C, and the category C characters are the two control blocks and U+00AD.
\<close>

definition field :: "string \<Rightarrow> bool \<Rightarrow> check" where
  "field name ok = fails_if (\<not> ok) (ValueError name)"

lemma field_None [simp, check_simps]: "field name ok = None \<longleftrightarrow> ok"
  by (simp add: field_def)

section \<open>Character classes\<close>

definition upper_char :: "char \<Rightarrow> bool" where
  "upper_char c \<longleftrightarrow> 65 \<le> char_code c \<and> char_code c \<le> 90"

definition alnum_char :: "char \<Rightarrow> bool" where
  "alnum_char c \<longleftrightarrow> lower_char c \<or> upper_char c \<or> is_digit_char c"

definition lower_alnum :: "char \<Rightarrow> bool" where
  "lower_alnum c \<longleftrightarrow> lower_char c \<or> is_digit_char c"

definition name_char :: "char \<Rightarrow> bool" where
  "name_char c \<longleftrightarrow> lower_alnum c \<or> c = CHR ''-''"

definition token_char :: "char \<Rightarrow> bool" where
  "token_char c \<longleftrightarrow> alnum_char c \<or> c \<in> set ''._~:/+=-''"

definition rendering_control :: "char \<Rightarrow> bool" where
  "rendering_control c \<longleftrightarrow>
     char_code c < 32 \<or> (127 \<le> char_code c \<and> char_code c \<le> 159) \<or> char_code c = 173"

section \<open>Field types\<close>

text \<open>\<open>^[A-Za-z0-9][A-Za-z0-9._:-]*$\<close>, 1 to 128 characters.\<close>

definition is_identifier :: "string \<Rightarrow> bool" where
  "is_identifier s \<longleftrightarrow>
     1 \<le> length s \<and> length s \<le> 128 \<and> alnum_char (hd s)
     \<and> list_all (\<lambda>c. alnum_char c \<or> c \<in> set ''._:-'') s"

text \<open>\<open>^[a-z][a-z0-9-]{4,28}[a-z0-9]$\<close>.\<close>

definition is_project_id :: "string \<Rightarrow> bool" where
  "is_project_id s \<longleftrightarrow>
     6 \<le> length s \<and> length s \<le> 30 \<and> lower_char (hd s) \<and> lower_alnum (last s)
     \<and> list_all name_char s"

text \<open>\<open>^[a-z]+-[a-z]+[0-9]+$\<close>, 3 to 32 characters. The classes are disjoint, so the greedy
  split is the only one.\<close>

definition is_region :: "string \<Rightarrow> bool" where
  "is_region s \<longleftrightarrow>
     3 \<le> length s \<and> length s \<le> 32
     \<and> (let rest = dropWhile lower_char s in
         takeWhile lower_char s \<noteq> []
         \<and> (case rest of [] \<Rightarrow> False
            | c # tail \<Rightarrow>
                c = CHR ''-'' \<and> takeWhile lower_char tail \<noteq> []
                \<and> dropWhile lower_char tail \<noteq> []
                \<and> list_all is_digit_char (dropWhile lower_char tail)))"

text \<open>\<open>^[a-z](?:[a-z0-9-]{0,61}[a-z0-9])?$\<close>, 1 to 63 characters.\<close>

definition is_cloud_run_name :: "string \<Rightarrow> bool" where
  "is_cloud_run_name s \<longleftrightarrow>
     1 \<le> length s \<and> length s \<le> 63 \<and> lower_char (hd s) \<and> lower_alnum (last s)
     \<and> list_all name_char s"

text \<open>A run of token characters, bare or between double quotes; 1 to 512 characters.\<close>

definition is_opaque_token :: "string \<Rightarrow> bool" where
  "is_opaque_token s \<longleftrightarrow>
     1 \<le> length s \<and> length s \<le> 512
     \<and> (list_all token_char s
        \<or> (3 \<le> length s \<and> hd s = CHR 0x22 \<and> last s = CHR 0x22
           \<and> list_all token_char (butlast (tl s))))"

definition is_safe_text :: "nat \<Rightarrow> string \<Rightarrow> bool" where
  "is_safe_text maximum s \<longleftrightarrow> 1 \<le> length s \<and> length s \<le> maximum \<and> \<not> list_ex rendering_control s"

abbreviation is_short_text :: "string \<Rightarrow> bool" where
  "is_short_text \<equiv> is_safe_text 512"

abbreviation is_bounded_text :: "string \<Rightarrow> bool" where
  "is_bounded_text \<equiv> is_safe_text 2048"

definition safe_integer :: "int \<Rightarrow> bool" where
  "safe_integer i \<longleftrightarrow> - MAX_SAFE_INTEGER \<le> i \<and> i \<le> MAX_SAFE_INTEGER"

definition nonneg_safe_integer :: "int \<Rightarrow> bool" where
  "nonneg_safe_integer i \<longleftrightarrow> 0 \<le> i \<and> i \<le> MAX_SAFE_INTEGER"

definition positive_safe_integer :: "int \<Rightarrow> bool" where
  "positive_safe_integer i \<longleftrightarrow> 1 \<le> i \<and> i \<le> MAX_SAFE_INTEGER"

definition is_percent :: "int \<Rightarrow> bool" where
  "is_percent i \<longleftrightarrow> 0 \<le> i \<and> i \<le> 100"

section \<open>UTC seconds\<close>

text \<open>The calendar of \<open>datetime\<close>: \<open>_is_leap\<close>, \<open>_days_in_month\<close>, \<open>_ymd2ord\<close>.\<close>

definition is_leap :: "nat \<Rightarrow> bool" where
  "is_leap y \<longleftrightarrow> y mod 4 = 0 \<and> (y mod 100 \<noteq> 0 \<or> y mod 400 = 0)"

definition days_in_month :: "nat \<Rightarrow> nat \<Rightarrow> nat" where
  "days_in_month y m =
     (if m = 2 then (if is_leap y then 29 else 28)
      else if m \<in> {4, 6, 9, 11} then 30 else 31)"

definition days_before_month :: "nat \<Rightarrow> nat \<Rightarrow> nat" where
  "days_before_month y m = sum_list (map (days_in_month y) [1..<m])"

definition days_before_year :: "nat \<Rightarrow> nat" where
  "days_before_year y = (let p = y - 1 in p * 365 + p div 4 - p div 100 + p div 400)"

definition date_ordinal :: "nat \<Rightarrow> nat \<Rightarrow> nat \<Rightarrow> nat" where
  "date_ordinal y m d = days_before_year y + days_before_month y m + d"

text \<open>\<open>_UTC_SECOND.fullmatch\<close>, \<open>YYYY-MM-DDTHH:MM:SSZ\<close>; the fields are read as decimals.\<close>

record utc_fields =
  uf_year :: nat
  uf_month :: nat
  uf_day :: nat
  uf_hour :: nat
  uf_minute :: nat
  uf_second :: nat

fun split_utc :: "string \<Rightarrow> string list option" where
  "split_utc [a, b, c, d, s1, e, f, s2, g, h, s3, i, j, s4, k, l, s5, m, n, s6] =
     (if s1 = CHR ''-'' \<and> s2 = CHR ''-'' \<and> s3 = CHR ''T'' \<and> s4 = CHR '':'' \<and> s5 = CHR '':''
         \<and> s6 = CHR ''Z'' \<and> list_all is_digit_char [a, b, c, d, e, f, g, h, i, j, k, l, m, n]
      then Some [[a, b, c, d], [e, f], [g, h], [i, j], [k, l], [m, n]] else None)"
| "split_utc _ = None"

definition utc_fields_of :: "string \<Rightarrow> utc_fields option" where
  "utc_fields_of s =
     (case split_utc s of
        Some [y, mo, d, h, mi, se] \<Rightarrow>
          Some \<lparr>uf_year = digits_value y, uf_month = digits_value mo, uf_day = digits_value d,
                uf_hour = digits_value h, uf_minute = digits_value mi, uf_second = digits_value se\<rparr>
      | _ \<Rightarrow> None)"

definition valid_utc_fields :: "utc_fields \<Rightarrow> bool" where
  "valid_utc_fields u \<longleftrightarrow>
     1 \<le> uf_year u \<and> 1 \<le> uf_month u \<and> uf_month u \<le> 12
     \<and> 1 \<le> uf_day u \<and> uf_day u \<le> days_in_month (uf_year u) (uf_month u)
     \<and> uf_hour u \<le> 23 \<and> uf_minute u \<le> 59 \<and> uf_second u \<le> 59"

definition is_utc_second :: "string \<Rightarrow> bool" where
  "is_utc_second s \<longleftrightarrow>
     (case utc_fields_of s of None \<Rightarrow> False | Some u \<Rightarrow> valid_utc_fields u)"

text \<open>\<open>int(datetime.strptime(value, "%Y-%m-%dT%H:%M:%SZ").replace(tzinfo=UTC).timestamp())\<close>.\<close>

definition timestamp_of :: "utc_fields \<Rightarrow> int" where
  "timestamp_of u =
     (int (date_ordinal (uf_year u) (uf_month u) (uf_day u)) - 719163) * 86400
     + int (uf_hour u * 3600 + uf_minute u * 60 + uf_second u)"

definition parse_utc_second :: "string \<Rightarrow> int option" where
  "parse_utc_second s =
     (case utc_fields_of s of
        Some u \<Rightarrow> if valid_utc_fields u then Some (timestamp_of u) else None
      | None \<Rightarrow> None)"

section \<open>Text order is time order\<close>

lemma digits_value_snoc: "digits_value (xs @ [x]) = 10 * digits_value xs + (char_code x - 48)"
  by (simp add: digits_value_def)

lemma digits_value_less: "list_all is_digit_char xs \<Longrightarrow> digits_value xs < 10 ^ length xs"
proof (induction xs rule: rev_induct)
  case Nil
  show ?case by (simp add: digits_value_def)
next
  case (snoc x xs)
  then show ?case by (auto simp: digits_value_snoc is_digit_char_def)
qed

lemma append_less_iff:
  "length xs = length ys \<Longrightarrow> xs @ r < ys @ t \<longleftrightarrow> xs < ys \<or> xs = ys \<and> r < (t :: 'a :: linorder list)"
proof (induction xs arbitrary: ys)
  case (Cons x xs)
  then show ?case by (cases ys) auto
qed simp

lemma digit_step:
  fixes a b u v :: nat
  assumes "u < 10" "v < 10"
  shows "10 * a + u < 10 * b + v \<longleftrightarrow> a < b \<or> a = b \<and> u < v"
    and "10 * a + u = 10 * b + v \<longleftrightarrow> a = b \<and> u = v"
  using assms by presburger+

lemma digits_order:
  "length xs = length ys \<Longrightarrow> list_all is_digit_char xs \<Longrightarrow> list_all is_digit_char ys \<Longrightarrow>
   (xs < ys \<longleftrightarrow> digits_value xs < digits_value ys) \<and> (xs = ys \<longleftrightarrow> digits_value xs = digits_value ys)"
proof (induction xs arbitrary: ys rule: rev_induct)
  case Nil
  then show ?case by simp
next
  case (snoc x xs)
  from snoc.prems(1) obtain zs z where ys: "ys = zs @ [z]"
    by (cases ys rule: rev_cases) auto
  with snoc.prems have len: "length xs = length zs" and dig: "list_all is_digit_char xs"
      "list_all is_digit_char zs" "is_digit_char x" "is_digit_char z"
    by auto
  note IH = snoc.IH [OF len dig(1,2)]
  have codes: "char_code x - 48 < 10" "char_code z - 48 < 10" "48 \<le> char_code x" "48 \<le> char_code z"
    using dig(3,4) by (auto simp: is_digit_char_def)
  have "x < z \<longleftrightarrow> char_code x - 48 < char_code z - 48" "x = z \<longleftrightarrow> char_code x - 48 = char_code z - 48"
    using codes by (auto simp: char_less_code char_code_inject [symmetric])
  then show ?case
    using IH len by (simp add: ys append_less_iff digits_value_snoc digit_step [OF codes(1,2)])
qed

lemma split_utc_Some:
  assumes "split_utc s = Some fs"
  obtains y mo d h mi se where "fs = [y, mo, d, h, mi, se]"
    "s = y @ CHR ''-'' # mo @ CHR ''-'' # d @ CHR ''T'' # h @ CHR '':'' # mi @ CHR '':'' # se @ ''Z''"
    "length y = 4" "length mo = 2" "length d = 2" "length h = 2" "length mi = 2" "length se = 2"
    "list_all is_digit_char y" "list_all is_digit_char mo" "list_all is_digit_char d"
    "list_all is_digit_char h" "list_all is_digit_char mi" "list_all is_digit_char se"
proof (cases s rule: split_utc.cases)
  case (1 a b c d s1 e f s2 g h' s3 i j s4 k l s5 m n s6)
  with assms show thesis
    by (intro that [of "[a, b, c, d]" "[e, f]" "[g, h']" "[i, j]" "[k, l]" "[m, n]"])
      (simp_all split: if_splits)
qed (use assms in simp_all)

section \<open>The calendar is monotone\<close>

lemma days_before_month_Suc: "1 \<le> m \<Longrightarrow> days_before_month y (Suc m) = days_before_month y m + days_in_month y m"
  by (simp add: days_before_month_def)

lemma days_before_month_le:
  "m < m' \<Longrightarrow> 1 \<le> m \<Longrightarrow> days_before_month y m + days_in_month y m \<le> days_before_month y m'"
proof (induction m')
  case (Suc m')
  then show ?case
    by (cases "m = m'") (auto simp: days_before_month_Suc)
qed simp

lemma days_before_month_13: "days_before_month y 13 = (if is_leap y then 366 else 365)"
  by (simp add: days_before_month_def days_in_month_def upt_rec)

lemma days_before_year_Suc:
  assumes "1 \<le> y"
  shows "days_before_year (Suc y) = days_before_year y + (if is_leap y then 366 else 365)"
proof -
  obtain p where y: "y = Suc p" using assms by (cases y) auto
  have m4: "Suc p mod 4 = 0" if "Suc p mod 100 = 0"
    using that dvd_trans [of 4 100 "Suc p"] by (simp add: mod_eq_0_iff_dvd)
  have m100: "Suc p mod 100 = 0" if "Suc p mod 400 = 0"
    using that dvd_trans [of 100 400 "Suc p"] by (simp add: mod_eq_0_iff_dvd)
  define A B C where "A = p div 4" and "B = p div 100" and "C = p div 400"
  have le: "B \<le> p * 365 + A" 
    unfolding A_def B_def using div_le_dividend [of p 100] by simp
  have split: "Suc p div 4 = (if Suc p mod 4 = 0 then Suc A else A)"
    "Suc p div 100 = (if Suc p mod 100 = 0 then Suc B else B)"
    "Suc p div 400 = (if Suc p mod 400 = 0 then Suc C else C)"
    unfolding A_def B_def C_def by (rule div_Suc)+
  have year: "days_before_year (Suc (Suc p)) = Suc p * 365 + Suc p div 4 - Suc p div 100 + Suc p div 400"
    "days_before_year (Suc p) = p * 365 + A - B + C"
    by (simp_all only: days_before_year_def Let_def diff_Suc_1 A_def B_def C_def)
  have sums: "Suc p * 365 + A - B + C = p * 365 + A - B + C + 365"
    "Suc p * 365 + Suc A - B + C = p * 365 + A - B + C + 366"
    "Suc p * 365 + Suc A - Suc B + C = p * 365 + A - B + C + 365"
    "Suc p * 365 + Suc A - Suc B + Suc C = p * 365 + A - B + C + 366"
    using le by simp_all
  consider "Suc p mod 4 \<noteq> 0" "Suc p mod 100 \<noteq> 0" "Suc p mod 400 \<noteq> 0"
    | "Suc p mod 4 = 0" "Suc p mod 100 \<noteq> 0" "Suc p mod 400 \<noteq> 0"
    | "Suc p mod 4 = 0" "Suc p mod 100 = 0" "Suc p mod 400 \<noteq> 0"
    | "Suc p mod 4 = 0" "Suc p mod 100 = 0" "Suc p mod 400 = 0"
    using m4 m100 by argo
  then show ?thesis
    unfolding y is_leap_def
    by cases (simp_all only: year split sums if_True if_False simp_thms)
qed

lemma days_before_year_le:
  "y < y' \<Longrightarrow> 1 \<le> y \<Longrightarrow> days_before_year y + (if is_leap y then 366 else 365) \<le> days_before_year y'"
proof (induction y')
  case (Suc y')
  then show ?case
    by (cases "y = y'") (auto simp: days_before_year_Suc split: if_splits)
qed simp

lemma date_ordinal_less:
  assumes "1 \<le> y" "1 \<le> m" "m \<le> 12" "d \<le> days_in_month y m" "1 \<le> m'" "1 \<le> d'"
    and "y < y' \<or> y = y' \<and> (m < m' \<or> m = m' \<and> d < d')"
  shows "date_ordinal y m d < date_ordinal y' m' d'"
proof (cases "y < y'")
  case True
  have "days_before_month y m + d \<le> days_before_month y 13"
    using days_before_month_le [of m 13 y] assms(2,3,4) by simp
  with days_before_year_le [OF True assms(1)] assms(6) show ?thesis
    by (simp add: date_ordinal_def days_before_month_13 split: if_splits)
next
  case False
  with assms(7) have "y = y'" "m < m' \<or> m = m' \<and> d < d'" by auto
  with days_before_month_le [of m m' y] assms(2,4,6) show ?thesis
    by (auto simp: date_ordinal_def)
qed

lemma timestamp_less:
  assumes u: "valid_utc_fields u" and v: "valid_utc_fields v"
    and less: "(uf_year u < uf_year v \<or> uf_year u = uf_year v \<and>
      (uf_month u < uf_month v \<or> uf_month u = uf_month v \<and>
      (uf_day u < uf_day v \<or> uf_day u = uf_day v \<and>
      (uf_hour u < uf_hour v \<or> uf_hour u = uf_hour v \<and>
      (uf_minute u < uf_minute v \<or> uf_minute u = uf_minute v \<and> uf_second u < uf_second v)))))"
  shows "timestamp_of u < timestamp_of v"
proof (cases "date_ordinal (uf_year u) (uf_month u) (uf_day u) < date_ordinal (uf_year v) (uf_month v) (uf_day v)")
  case True
  then have "int (date_ordinal (uf_year u) (uf_month u) (uf_day u)) + 1
      \<le> int (date_ordinal (uf_year v) (uf_month v) (uf_day v))" by simp
  moreover have "int (uf_hour u * 3600 + uf_minute u * 60 + uf_second u) < 86400"
    using u by (simp add: valid_utc_fields_def)
  moreover have "0 \<le> int (uf_hour v * 3600 + uf_minute v * 60 + uf_second v)" by simp
  ultimately show ?thesis
    unfolding timestamp_of_def by (simp only: left_diff_distrib)
next
  case False
  then have same: "uf_year u = uf_year v \<and> uf_month u = uf_month v \<and> uf_day u = uf_day v"
    using less u v date_ordinal_less [of "uf_year u" "uf_month u" "uf_day u" "uf_month v" "uf_day v" "uf_year v"]
    by (auto simp: valid_utc_fields_def)
  have "uf_minute u \<le> 59" "uf_second u \<le> 59" "uf_minute v \<le> 59" "uf_second v \<le> 59"
    using u v by (auto simp: valid_utc_fields_def)
  then have "uf_hour u * 3600 + uf_minute u * 60 + uf_second u
      < uf_hour v * 3600 + uf_minute v * 60 + uf_second v"
    using less same by auto
  with same show ?thesis
    by (simp add: timestamp_of_def)
qed

lemma text_less_fields:
  assumes "utc_fields_of s = Some u" "utc_fields_of t = Some v"
  shows "s < t \<longleftrightarrow> (uf_year u < uf_year v \<or> uf_year u = uf_year v \<and>
      (uf_month u < uf_month v \<or> uf_month u = uf_month v \<and>
      (uf_day u < uf_day v \<or> uf_day u = uf_day v \<and>
      (uf_hour u < uf_hour v \<or> uf_hour u = uf_hour v \<and>
      (uf_minute u < uf_minute v \<or> uf_minute u = uf_minute v \<and> uf_second u < uf_second v)))))"
proof -
  from assms obtain fs gs where split: "split_utc s = Some fs" "split_utc t = Some gs"
    by (auto simp: utc_fields_of_def split: option.splits)
  obtain y mo d h mi se where s: "fs = [y, mo, d, h, mi, se]"
    "s = y @ CHR ''-'' # mo @ CHR ''-'' # d @ CHR ''T'' # h @ CHR '':'' # mi @ CHR '':'' # se @ ''Z''"
    "length y = 4" "length mo = 2" "length d = 2" "length h = 2" "length mi = 2" "length se = 2"
    "list_all is_digit_char y" "list_all is_digit_char mo" "list_all is_digit_char d"
    "list_all is_digit_char h" "list_all is_digit_char mi" "list_all is_digit_char se"
    using split(1) by (rule split_utc_Some)
  obtain y' mo' d' h' mi' se' where t: "gs = [y', mo', d', h', mi', se']"
    "t = y' @ CHR ''-'' # mo' @ CHR ''-'' # d' @ CHR ''T'' # h' @ CHR '':'' # mi' @ CHR '':'' # se' @ ''Z''"
    "length y' = 4" "length mo' = 2" "length d' = 2" "length h' = 2" "length mi' = 2" "length se' = 2"
    "list_all is_digit_char y'" "list_all is_digit_char mo'" "list_all is_digit_char d'"
    "list_all is_digit_char h'" "list_all is_digit_char mi'" "list_all is_digit_char se'"
    using split(2) by (rule split_utc_Some)
  have order: "(x < x' \<longleftrightarrow> digits_value x < digits_value x') \<and> (x = x' \<longleftrightarrow> digits_value x = digits_value x')"
    if "length x = length x'" "list_all is_digit_char x" "list_all is_digit_char x'" for x x'
    using digits_order [OF that] .
  have u: "u = \<lparr>uf_year = digits_value y, uf_month = digits_value mo, uf_day = digits_value d,
      uf_hour = digits_value h, uf_minute = digits_value mi, uf_second = digits_value se\<rparr>"
    using assms(1) split(1) s(1) by (simp add: utc_fields_of_def)
  have v: "v = \<lparr>uf_year = digits_value y', uf_month = digits_value mo', uf_day = digits_value d',
      uf_hour = digits_value h', uf_minute = digits_value mi', uf_second = digits_value se'\<rparr>"
    using assms(2) split(2) t(1) by (simp add: utc_fields_of_def)
  show ?thesis
    unfolding u v s(2) t(2)
    by (simp add: append_less_iff s(3-) t(3-) order [THEN conjunct1] order [THEN conjunct2])
qed

lemma text_order_is_time_order:
  assumes "parse_utc_second s = Some a" "parse_utc_second t = Some b"
  shows "s < t \<longleftrightarrow> a < b"
proof -
  from assms obtain u v where uv: "utc_fields_of s = Some u" "utc_fields_of t = Some v"
    "valid_utc_fields u" "valid_utc_fields v" "a = timestamp_of u" "b = timestamp_of v"
    by (auto simp: parse_utc_second_def split: option.splits if_splits)
  have fwd: "s < t \<Longrightarrow> a < b"
    using timestamp_less [OF uv(3,4)] text_less_fields [OF uv(1,2)] uv(5,6) by simp
  have bwd: "t < s \<Longrightarrow> b < a"
    using timestamp_less [OF uv(4,3)] text_less_fields [OF uv(2,1)] uv(5,6) by simp
  have "s = t \<Longrightarrow> a = b" using uv by simp
  with fwd bwd show ?thesis by (metis less_asym linorder_less_linear order_less_irrefl)
qed

lemma is_utc_second_parses: "is_utc_second s \<longleftrightarrow> parse_utc_second s \<noteq> None"
  by (simp add: is_utc_second_def parse_utc_second_def split: option.split)

text \<open>
  The records compare timestamps as text, and that is right: for two valid UTC seconds
  the order of the texts is the order of the instants they parse to, leap years included.
\<close>

theorem timestamp_text_order:
  assumes "parse_utc_second s = Some a" "parse_utc_second t = Some b"
  shows "(s < t \<longleftrightarrow> a < b) \<and> (s \<le> t \<longleftrightarrow> a \<le> b)"
  using text_order_is_time_order [OF assms] text_order_is_time_order [OF assms(2,1)]
  by (simp add: linorder_not_less [symmetric])

lemma sample_times:
  "parse_utc_second ''2024-02-29T23:59:59Z'' = Some 1709251199"
  "parse_utc_second ''2024-03-01T00:00:00Z'' = Some 1709251200"
  by (simp_all add: parse_utc_second_def utc_fields_of_def digits_value_def char_code_def
      is_digit_char_def valid_utc_fields_def timestamp_of_def date_ordinal_def days_before_year_def
      days_before_month_def days_in_month_def is_leap_def upt_rec)

theorem timestamp_text_order_witness:
  "''2024-02-29T23:59:59Z'' < (''2024-03-01T00:00:00Z'' :: string)"
  using timestamp_text_order [OF sample_times] by simp

end
