(* ===== verification/Replay.thy ===== *)
theory Replay
  imports Reducer CanonicalJson
begin

text \<open>
  Idempotency and replay, \<open>backend/src/controlgraph_canary/authority/replay.py\<close>: the
  immutable binding one idempotency key owns, the two identities hashed from it, the
  receipt's phases and the operations that move it, the classification of a redelivery, and
  the retry decision for a transport failure. Constructors of the enumerations are prefixed
  (\<open>MA_\<close>, \<open>PH_\<close>, \<open>RO_\<close>, \<open>RA_\<close>, \<open>PA_\<close>, \<open>TF_\<close>, \<open>TA_\<close>) where the source qualifies them by class.
\<close>

definition ascii_bytes :: "string \<Rightarrow> bytes" where
  "ascii_bytes s = map (\<lambda>c. octet (char_code c)) s"

definition MUTATION_IDENTITY_DOMAIN :: bytes where
  "MUTATION_IDENTITY_DOMAIN = ascii_bytes ''controlgraph.mutation-identity/v1'' @ [0]"

definition RECEIPT_CLAIM_IDENTITY_DOMAIN :: bytes where
  "RECEIPT_CLAIM_IDENTITY_DOMAIN = ascii_bytes ''controlgraph.receipt-claim-identity/v1'' @ [0]"

definition MAX_PRE_DISPATCH_TRANSPORT_ATTEMPTS :: int where
  "MAX_PRE_DISPATCH_TRANSPORT_ATTEMPTS = 3"

section \<open>Bindings\<close>

datatype mutation_action = MA_APPLY_CANARY | MA_PROMOTE_CANDIDATE | MA_RECOVER_STABLE

fun mutation_action_value :: "mutation_action \<Rightarrow> string" where
  "mutation_action_value MA_APPLY_CANARY = ''APPLY_CANARY_V1''"
| "mutation_action_value MA_PROMOTE_CANDIDATE = ''PROMOTE_CANDIDATE_V1''"
| "mutation_action_value MA_RECOVER_STABLE = ''RECOVER_STABLE_V1''"

record mutation_target_key =
  tk_project_id :: string
  tk_region :: string
  tk_environment :: string
  tk_service_name :: string

definition validate_target_key :: "mutation_target_key \<Rightarrow> check" where
  "validate_target_key t =
     checks
      [require_text ''project_id'' (tk_project_id t) 128,
       require_text ''region'' (tk_region t) 64,
       require_text ''environment'' (tk_environment t) 128,
       require_text ''service_name'' (tk_service_name t) 128]"

definition target_json :: "mutation_target_key \<Rightarrow> json" where
  "target_json t =
     JObj [(''environment'', JStr (tk_environment t)),
           (''project_id'', JStr (tk_project_id t)),
           (''region'', JStr (tk_region t)),
           (''service_name'', JStr (tk_service_name t))]"

definition receipt_claim_preimage :: "mutation_target_key \<Rightarrow> string \<Rightarrow> bytes" where
  "receipt_claim_preimage target idempotency_key =
     RECEIPT_CLAIM_IDENTITY_DOMAIN
     @ encode_utf8 (json_dumps
        (JObj [(''idempotency_key'', JStr idempotency_key),
               (''schema_version'', JStr ''controlgraph.receipt-claim-identity/v1''),
               (''target'', target_json target)]))"

definition receipt_claim_identity ::
  "hexdigest \<Rightarrow> mutation_target_key \<Rightarrow> string \<Rightarrow> string result" where
  "receipt_claim_identity hexdigest target idempotency_key =
     (case require_text ''idempotency_key'' idempotency_key 128 of
        Some e \<Rightarrow> Inl e
      | None \<Rightarrow> Inr (hexdigest (receipt_claim_preimage target idempotency_key)))"

record mutation_binding =
  mb_idempotency_key :: string
  mb_request_id :: string
  mb_root_id :: string
  mb_root_sha256 :: string
  mb_epoch :: int
  mb_action :: mutation_action
  mb_target :: mutation_target_key
  mb_provider_precondition :: string
  mb_plan_sha256 :: string
  mb_capability_sha256 :: string
  mb_payload_sha256 :: string
  mb_expected_poststate_sha256 :: string

definition validate_mutation_binding :: "mutation_binding \<Rightarrow> check" where
  "validate_mutation_binding b =
     checks
      [require_text ''idempotency_key'' (mb_idempotency_key b) 128,
       require_text ''request_id'' (mb_request_id b) 128,
       require_text ''root_id'' (mb_root_id b) 128,
       validate_sha256 ''root_sha256'' (mb_root_sha256 b),
       fails_if (mb_epoch b < 1) (ValueError ''epoch must be a positive integer''),
       require_text ''provider_precondition'' (mb_provider_precondition b) 512,
       validate_sha256 ''plan_sha256'' (mb_plan_sha256 b),
       validate_sha256 ''capability_sha256'' (mb_capability_sha256 b),
       validate_sha256 ''payload_sha256'' (mb_payload_sha256 b),
       validate_sha256 ''expected_poststate_sha256'' (mb_expected_poststate_sha256 b)]"

definition mutation_identity_value :: "mutation_binding \<Rightarrow> json" where
  "mutation_identity_value b =
     JObj [(''action'', JStr (mutation_action_value (mb_action b))),
           (''capability_sha256'', JStr (mb_capability_sha256 b)),
           (''epoch'', JInt (mb_epoch b)),
           (''expected_poststate_sha256'', JStr (mb_expected_poststate_sha256 b)),
           (''idempotency_key'', JStr (mb_idempotency_key b)),
           (''payload_sha256'', JStr (mb_payload_sha256 b)),
           (''plan_sha256'', JStr (mb_plan_sha256 b)),
           (''provider_precondition'', JStr (mb_provider_precondition b)),
           (''request_id'', JStr (mb_request_id b)),
           (''root_id'', JStr (mb_root_id b)),
           (''root_sha256'', JStr (mb_root_sha256 b)),
           (''schema_version'', JStr ''controlgraph.mutation-identity/v1''),
           (''target'', target_json (mb_target b))]"

definition mutation_preimage :: "mutation_binding \<Rightarrow> bytes" where
  "mutation_preimage b =
     MUTATION_IDENTITY_DOMAIN @ encode_utf8 (json_dumps (mutation_identity_value b))"

definition mutation_identity :: "hexdigest \<Rightarrow> mutation_binding \<Rightarrow> string" where
  "mutation_identity hexdigest b = hexdigest (mutation_preimage b)"

section \<open>Receipts\<close>

datatype receipt_phase = PH_CLAIMED | PH_READBACK_REQUIRED | PH_TERMINAL

datatype replay_outcome =
    RO_CLAIMED | RO_DENIED | RO_APPLIED | RO_VERIFIED | RO_FAILED_SAFE | RO_AMBIGUOUS

record replay_receipt =
  rr_binding :: mutation_binding
  rr_phase :: receipt_phase
  rr_outcome :: replay_outcome
  rr_reason :: "denial_reason option"
  rr_result_sha256 :: "string option"
  rr_readback_attempted :: bool

definition validate_shape :: "replay_receipt \<Rightarrow> check" where
  "validate_shape r =
    (if rr_phase r = PH_CLAIMED
     then fails_if (rr_outcome r \<noteq> RO_CLAIMED \<or> rr_reason r \<noteq> None \<or> rr_result_sha256 r \<noteq> None
            \<or> rr_readback_attempted r)
            (ValueError ''claimed receipt shape is invalid'')
     else if rr_phase r = PH_READBACK_REQUIRED
     then (if rr_outcome r = RO_APPLIED
           then fails_if (rr_reason r \<noteq> None \<or> rr_result_sha256 r \<noteq> None \<or> rr_readback_attempted r)
                  (ValueError ''applied receipt shape is invalid'')
           else fails_if (rr_outcome r \<noteq> RO_AMBIGUOUS
                    \<or> rr_reason r \<noteq> Some DR_PROVIDER_OUTCOME_AMBIGUOUS
                    \<or> (rr_result_sha256 r \<noteq> None \<and> \<not> rr_readback_attempted r))
                  (ValueError ''readback-required receipt shape is invalid''))
     else if rr_outcome r = RO_VERIFIED
     then fails_if (rr_reason r \<noteq> None \<or> rr_result_sha256 r = None \<or> \<not> rr_readback_attempted r)
            (ValueError ''verified terminal receipt shape is invalid'')
     else if rr_outcome r \<in> {RO_DENIED, RO_FAILED_SAFE}
     then fails_if (rr_reason r = None \<or> rr_result_sha256 r \<noteq> None \<or> rr_readback_attempted r)
            (ValueError ''failed terminal receipt shape is invalid'')
     else if rr_outcome r = RO_AMBIGUOUS
     then fails_if (rr_reason r \<noteq> Some DR_PROVIDER_OUTCOME_AMBIGUOUS \<or> \<not> rr_readback_attempted r)
            (ValueError ''ambiguous terminal receipt shape is invalid'')
     else Some (ValueError ''terminal receipt outcome is invalid''))"

definition validate_replay_receipt :: "replay_receipt \<Rightarrow> check" where
  "validate_replay_receipt r =
     checks
      [(case rr_result_sha256 r of None \<Rightarrow> None | Some s \<Rightarrow> validate_sha256 ''result_sha256'' s),
       validate_shape r]"

definition receipt_id :: "hexdigest \<Rightarrow> replay_receipt \<Rightarrow> string result" where
  "receipt_id hexdigest r =
     receipt_claim_identity hexdigest (mb_target (rr_binding r)) (mb_idempotency_key (rr_binding r))"

definition receipt_terminal :: "replay_receipt \<Rightarrow> bool" where
  "receipt_terminal r \<longleftrightarrow> rr_phase r = PH_TERMINAL"

definition awaits_readback :: "replay_receipt \<Rightarrow> bool" where
  "awaits_readback r \<longleftrightarrow> rr_phase r = PH_READBACK_REQUIRED"

section \<open>Redelivery\<close>

datatype replay_action =
    RA_CLAIM_NEW | RA_RETURN_IN_PROGRESS | RA_RETURN_STORED | RA_DENY_CONFLICT | RA_REQUIRE_READBACK

record replay_decision =
  rd_action :: replay_action
  rd_receipt :: "replay_receipt option"
  rd_reason :: "denial_reason option"

definition requires_readback :: "replay_decision \<Rightarrow> bool" where
  "requires_readback d \<longleftrightarrow> rd_action d = RA_REQUIRE_READBACK"

definition claim_receipt :: "mutation_binding \<Rightarrow> replay_receipt result" where
  "claim_receipt b =
     construct validate_replay_receipt
       \<lparr>rr_binding = b, rr_phase = PH_CLAIMED, rr_outcome = RO_CLAIMED, rr_reason = None,
        rr_result_sha256 = None, rr_readback_attempted = False\<rparr>"

definition decide_replay ::
  "mutation_binding \<Rightarrow> replay_receipt option \<Rightarrow> replay_decision result" where
  "decide_replay b stored =
    (case stored of
       None \<Rightarrow>
         bindR (claim_receipt b)
           (\<lambda>r. Inr \<lparr>rd_action = RA_CLAIM_NEW, rd_receipt = Some r, rd_reason = None\<rparr>)
     | Some s \<Rightarrow>
         Inr
          (if b \<noteq> rr_binding s
           then \<lparr>rd_action = RA_DENY_CONFLICT, rd_receipt = Some s,
                 rd_reason = Some DR_IDEMPOTENCY_CONFLICT\<rparr>
           else if receipt_terminal s
           then \<lparr>rd_action = RA_RETURN_STORED, rd_receipt = Some s, rd_reason = rr_reason s\<rparr>
           else if rr_phase s = PH_CLAIMED
           then \<lparr>rd_action = RA_RETURN_IN_PROGRESS, rd_receipt = Some s,
                 rd_reason = Some DR_RECEIPT_IN_PROGRESS\<rparr>
           else \<lparr>rd_action = RA_REQUIRE_READBACK, rd_receipt = Some s, rd_reason = rr_reason s\<rparr>))"

section \<open>Moving a receipt\<close>

text \<open>\<open>dataclasses.replace\<close> runs \<open>__post_init__\<close> on the changed copy.\<close>

definition deny_before_dispatch :: "replay_receipt \<Rightarrow> denial_reason \<Rightarrow> replay_receipt result" where
  "deny_before_dispatch r reason =
    (if rr_phase r \<noteq> PH_CLAIMED
     then Inl (ValueError ''denial is only valid before provider dispatch'')
     else construct validate_replay_receipt
            (r\<lparr>rr_phase := PH_TERMINAL, rr_outcome := RO_DENIED, rr_reason := Some reason\<rparr>))"

datatype provider_attempt_result =
    PA_ACCEPTED | PA_PRECONDITION_REJECTED | PA_REQUEST_REJECTED | PA_TIMEOUT
  | PA_CONNECTION_LOST | PA_MALFORMED_RESPONSE | PA_UNKNOWN

definition record_provider_result ::
  "replay_receipt \<Rightarrow> provider_attempt_result \<Rightarrow> replay_receipt result" where
  "record_provider_result r res =
    (if rr_phase r \<noteq> PH_CLAIMED
     then Inl (ValueError ''provider result requires the directly owned claim'')
     else construct validate_replay_receipt
       (if res = PA_ACCEPTED
        then r\<lparr>rr_phase := PH_READBACK_REQUIRED, rr_outcome := RO_APPLIED, rr_reason := None\<rparr>
        else if res = PA_PRECONDITION_REJECTED
        then r\<lparr>rr_phase := PH_TERMINAL, rr_outcome := RO_FAILED_SAFE,
               rr_reason := Some DR_PROVIDER_PRECONDITION_FAILED\<rparr>
        else if res = PA_REQUEST_REJECTED
        then r\<lparr>rr_phase := PH_TERMINAL, rr_outcome := RO_FAILED_SAFE,
               rr_reason := Some DR_PROVIDER_REQUEST_REJECTED\<rparr>
        else r\<lparr>rr_phase := PH_READBACK_REQUIRED, rr_outcome := RO_AMBIGUOUS,
               rr_reason := Some DR_PROVIDER_OUTCOME_AMBIGUOUS\<rparr>))"

definition record_readback :: "replay_receipt \<Rightarrow> string option \<Rightarrow> replay_receipt result" where
  "record_readback r observed =
    (if \<not> awaits_readback r
     then Inl (ValueError ''readback requires provider uncertainty or an accepted result'')
     else
       case (case observed of None \<Rightarrow> None
             | Some s \<Rightarrow> validate_sha256 ''observed_poststate_sha256'' s) of
         Some e \<Rightarrow> Inl e
       | None \<Rightarrow>
           construct validate_replay_receipt
            (if observed = Some (mb_expected_poststate_sha256 (rr_binding r))
             then r\<lparr>rr_phase := PH_TERMINAL, rr_outcome := RO_VERIFIED, rr_reason := None,
                    rr_result_sha256 := observed, rr_readback_attempted := True\<rparr>
             else r\<lparr>rr_phase := PH_READBACK_REQUIRED, rr_outcome := RO_AMBIGUOUS,
                    rr_reason := Some DR_PROVIDER_OUTCOME_AMBIGUOUS,
                    rr_result_sha256 := observed, rr_readback_attempted := True\<rparr>))"

definition close_unresolved_ambiguity :: "replay_receipt \<Rightarrow> replay_receipt result" where
  "close_unresolved_ambiguity r =
    (if rr_phase r \<noteq> PH_READBACK_REQUIRED \<or> rr_outcome r \<noteq> RO_AMBIGUOUS \<or> \<not> rr_readback_attempted r
     then Inl (ValueError ''unresolved ambiguity requires a completed readback attempt'')
     else construct validate_replay_receipt (r\<lparr>rr_phase := PH_TERMINAL\<rparr>))"

section \<open>Transport failures\<close>

datatype transport_failure =
    TF_BEFORE_DISPATCH | TF_DISPATCH_STARTED | TF_TIMEOUT | TF_RESPONSE_LOST
  | TF_MALFORMED_RESPONSE | TF_UNKNOWN

datatype transport_action = TA_RETRY_BEFORE_DISPATCH | TA_STOP_BEFORE_DISPATCH | TA_REQUIRE_READBACK

record transport_decision =
  td_action :: transport_action
  td_attempt_number :: int
  td_maximum_attempts :: int
  td_reason :: "denial_reason option"

definition decide_transport_failure ::
  "transport_failure \<Rightarrow> int \<Rightarrow> int \<Rightarrow> transport_decision result" where
  "decide_transport_failure failure attempt_number maximum_attempts =
    (if \<not> (1 \<le> maximum_attempts \<and> maximum_attempts \<le> MAX_PRE_DISPATCH_TRANSPORT_ATTEMPTS)
     then Inl (ValueError ''maximum_attempts is outside the pre-dispatch bound'')
     else if \<not> (1 \<le> attempt_number \<and> attempt_number \<le> maximum_attempts)
     then Inl (ValueError ''attempt_number is outside the configured attempt bound'')
     else if failure = TF_BEFORE_DISPATCH
     then
       (let action = (if attempt_number < maximum_attempts then TA_RETRY_BEFORE_DISPATCH
                      else TA_STOP_BEFORE_DISPATCH);
            reason = (if action = TA_STOP_BEFORE_DISPATCH then Some DR_TRANSPORT_UNAVAILABLE
                      else None)
        in Inr \<lparr>td_action = action, td_attempt_number = attempt_number,
                td_maximum_attempts = maximum_attempts, td_reason = reason\<rparr>)
     else Inr \<lparr>td_action = TA_REQUIRE_READBACK, td_attempt_number = attempt_number,
               td_maximum_attempts = maximum_attempts,
               td_reason = Some DR_PROVIDER_OUTCOME_AMBIGUOUS\<rparr>)"

definition retry_permitted :: "transport_decision \<Rightarrow> bool" where
  "retry_permitted d \<longleftrightarrow> td_action d = TA_RETRY_BEFORE_DISPATCH"

end
