(* ===== verification/Records.thy ===== *)
theory Records
  imports ContractBase Replay
begin

text \<open>
  The durable records of the authority database (\<open>contracts/models.py\<close>): the target binding,
  the epoch authority and the execution receipt, each with its field constraints and its
  after-validator; the revisioned record of \<open>application/authority_store.py\<close>; and the logical
  and document identities of \<open>contracts/storage.py\<close>. \<open>schema_version\<close> literals are fixed by
  the record type and are not fields here.
\<close>

section \<open>Enumerations\<close>

datatype capability_action = AC_APPLY_CANARY | AC_PROMOTE_CANDIDATE | AC_RECOVER_STABLE

fun capability_action_value :: "capability_action \<Rightarrow> string" where
  "capability_action_value AC_APPLY_CANARY = ''APPLY_CANARY_V1''"
| "capability_action_value AC_PROMOTE_CANDIDATE = ''PROMOTE_CANDIDATE_V1''"
| "capability_action_value AC_RECOVER_STABLE = ''RECOVER_STABLE_V1''"

datatype epoch_change_cause = EC_ROOT_CREATED | EC_OPERATOR_REVOCATION | EC_SUPERSESSION | EC_RECOVERY

datatype receipt_outcome = OC_CLAIMED | OC_DENIED | OC_APPLIED | OC_VERIFIED | OC_FAILED_SAFE | OC_AMBIGUOUS

datatype reason_code =
    RC_CONTRACT_INVALID | RC_CONTRACT_VERSION_UNSUPPORTED | RC_CALLER_UNAUTHENTICATED
  | RC_CALLER_UNAUTHORIZED | RC_SIGNATURE_INVALID | RC_KEY_VERSION_UNTRUSTED
  | RC_CAPABILITY_EXPIRED | RC_CAPABILITY_NOT_YET_VALID | RC_CLAIM_BINDING_MISMATCH
  | RC_TARGET_BINDING_MISMATCH | RC_LINEAGE_INVALID | RC_SCOPE_AMPLIFICATION
  | RC_AUTHORITY_UNAVAILABLE | RC_EPOCH_MISMATCH | RC_IDEMPOTENCY_CONFLICT
  | RC_RECEIPT_IN_PROGRESS | RC_TRANSPORT_UNAVAILABLE | RC_PROVIDER_PRECONDITION_FAILED
  | RC_PROVIDER_REQUEST_REJECTED | RC_PROVIDER_OUTCOME_AMBIGUOUS | RC_TRANSITION_INVALID
  | RC_POLICY_UNHEALTHY

section \<open>Target\<close>

record target_binding =
  tb_project_id :: string
  tb_region :: string
  tb_environment :: string
  tb_service_name :: string

definition validate_target_binding :: "target_binding \<Rightarrow> check" where
  "validate_target_binding t =
     checks
      [field ''project_id'' (is_project_id (tb_project_id t)),
       field ''region'' (is_region (tb_region t)),
       field ''environment'' (is_identifier (tb_environment t)),
       field ''service_name'' (is_cloud_run_name (tb_service_name t))]"

section \<open>Epoch authority\<close>

record epoch_authority_record =
  au_root_id :: string
  au_root_sha256 :: string
  au_target :: target_binding
  au_current_epoch :: int
  au_previous_epoch :: "int option"
  au_revision :: int
  au_cause :: epoch_change_cause
  au_changed_by :: string
  au_request_id :: string
  au_evidence_id :: string
  au_changed_at :: string

definition validate_authority_fields :: "epoch_authority_record \<Rightarrow> check" where
  "validate_authority_fields a =
     checks
      [field ''root_id'' (is_identifier (au_root_id a)),
       field ''root_sha256'' (is_sha256 (au_root_sha256 a)),
       validate_target_binding (au_target a),
       field ''current_epoch'' (positive_safe_integer (au_current_epoch a)),
       field ''previous_epoch'' (pred_option positive_safe_integer (au_previous_epoch a)),
       field ''revision'' (nonneg_safe_integer (au_revision a)),
       field ''changed_by'' (is_bounded_text (au_changed_by a)),
       field ''request_id'' (is_identifier (au_request_id a)),
       field ''evidence_id'' (is_identifier (au_evidence_id a)),
       field ''changed_at'' (is_utc_second (au_changed_at a))]"

definition validate_transition_shape :: "epoch_authority_record \<Rightarrow> check" where
  "validate_transition_shape a =
     checks
      [(if au_cause a = EC_ROOT_CREATED
        then fails_if (au_current_epoch a \<noteq> 1 \<or> au_previous_epoch a \<noteq> None \<or> au_revision a \<noteq> 0)
          (ValueError ''initial authority must use epoch one, no previous epoch, and revision zero'')
        else fails_if
          ((case au_previous_epoch a of None \<Rightarrow> True | Some p \<Rightarrow> au_current_epoch a \<noteq> p + 1)
           \<or> au_revision a < 1)
          (ValueError ''authority transition must advance exactly one epoch'')),
       fails_if (au_current_epoch a \<noteq> au_revision a + 1)
         (ValueError ''authority epoch and revision must advance together'')]"

definition validate_authority_record :: "epoch_authority_record \<Rightarrow> check" where
  "validate_authority_record a = checks [validate_authority_fields a, validate_transition_shape a]"

section \<open>Execution receipt\<close>

record execution_receipt =
  er_receipt_id :: string
  er_request_id :: string
  er_idempotency_key :: string
  er_capability_sha256 :: string
  er_mutation_sha256 :: string
  er_plan_sha256 :: string
  er_expected_poststate_sha256 :: string
  er_target :: target_binding
  er_root_id :: string
  er_root_sha256 :: string
  er_epoch :: int
  er_action :: capability_action
  er_provider_etag :: string
  er_dispatch_not_after :: string
  er_outcome :: receipt_outcome
  er_reason_code :: "reason_code option"
  er_provider_operation :: "string option"
  er_observed_etag :: "string option"
  er_observed_authority_epoch :: "int option"
  er_created_at :: string
  er_updated_at :: string
  er_evidence_ids :: "string list"

definition validate_receipt_fields :: "execution_receipt \<Rightarrow> check" where
  "validate_receipt_fields r =
     checks
      [field ''receipt_id'' (is_identifier (er_receipt_id r)),
       field ''request_id'' (is_identifier (er_request_id r)),
       field ''idempotency_key'' (is_identifier (er_idempotency_key r)),
       field ''capability_sha256'' (is_sha256 (er_capability_sha256 r)),
       field ''mutation_sha256'' (is_sha256 (er_mutation_sha256 r)),
       field ''plan_sha256'' (is_sha256 (er_plan_sha256 r)),
       field ''expected_poststate_sha256'' (is_sha256 (er_expected_poststate_sha256 r)),
       validate_target_binding (er_target r),
       field ''root_id'' (is_identifier (er_root_id r)),
       field ''root_sha256'' (is_sha256 (er_root_sha256 r)),
       field ''epoch'' (positive_safe_integer (er_epoch r)),
       field ''provider_etag'' (is_opaque_token (er_provider_etag r)),
       field ''dispatch_not_after'' (is_utc_second (er_dispatch_not_after r)),
       field ''provider_operation'' (pred_option is_bounded_text (er_provider_operation r)),
       field ''observed_etag'' (pred_option is_opaque_token (er_observed_etag r)),
       field ''observed_authority_epoch''
         (pred_option positive_safe_integer (er_observed_authority_epoch r)),
       field ''created_at'' (is_utc_second (er_created_at r)),
       field ''updated_at'' (is_utc_second (er_updated_at r)),
       field ''evidence_ids''
         (length (er_evidence_ids r) \<le> 64 \<and> list_all is_identifier (er_evidence_ids r))]"

definition validate_outcome_shape :: "execution_receipt \<Rightarrow> check" where
  "validate_outcome_shape r =
    (let needs_reason = er_outcome r \<in> {OC_DENIED, OC_FAILED_SAFE, OC_AMBIGUOUS} in
     checks
      [fails_if (er_updated_at r < er_created_at r) (ValueError ''receipt timestamps are not ordered''),
       fails_if (er_dispatch_not_after r < er_created_at r)
         (ValueError ''receipt dispatch deadline precedes its claim''),
       fails_if (needs_reason \<noteq> (er_reason_code r \<noteq> None))
         (ValueError ''receipt reason does not match its outcome''),
       fails_if (er_outcome r = OC_FAILED_SAFE
           \<and> er_reason_code r \<notin> {Some RC_PROVIDER_PRECONDITION_FAILED, Some RC_TARGET_BINDING_MISMATCH,
               Some RC_PROVIDER_REQUEST_REJECTED})
         (ValueError ''failed-safe receipt reason is invalid''),
       fails_if (er_outcome r = OC_AMBIGUOUS \<and> er_reason_code r \<noteq> Some RC_PROVIDER_OUTCOME_AMBIGUOUS)
         (ValueError ''ambiguous receipt reason is invalid''),
       fails_if (er_outcome r = OC_CLAIMED
           \<and> (er_provider_operation r \<noteq> None \<or> er_observed_etag r \<noteq> None
              \<or> er_observed_authority_epoch r \<noteq> None))
         (ValueError ''claimed receipt cannot contain a provider result''),
       fails_if (er_outcome r = OC_DENIED
           \<and> (er_provider_operation r \<noteq> None \<or> er_observed_etag r \<noteq> None))
         (ValueError ''denied receipt cannot contain a provider result''),
       fails_if (er_outcome r = OC_APPLIED
           \<and> (er_provider_operation r = None \<or> er_observed_etag r \<noteq> None))
         (ValueError ''applied receipt result shape is invalid''),
       fails_if (er_outcome r = OC_FAILED_SAFE
           \<and> (er_provider_operation r \<noteq> None \<or> er_observed_etag r \<noteq> None))
         (ValueError ''failed-safe receipt cannot contain a provider result''),
       fails_if (er_reason_code r = Some RC_EPOCH_MISMATCH
           \<and> (er_observed_authority_epoch r = None \<or> er_observed_authority_epoch r = Some (er_epoch r)))
         (ValueError ''epoch mismatch receipt requires a different observed authority epoch''),
       fails_if (er_outcome r = OC_VERIFIED \<and> er_observed_etag r = None)
         (ValueError ''verified receipt requires an observed etag''),
       fails_if (has_duplicates (er_evidence_ids r))
         (ValueError ''receipt evidence identifiers must be unique'')])"

definition validate_execution_receipt :: "execution_receipt \<Rightarrow> check" where
  "validate_execution_receipt r = checks [validate_receipt_fields r, validate_outcome_shape r]"

section \<open>Stored records and their identities\<close>

record 'a stored_record =
  sr_value :: 'a
  sr_revision :: int

definition validate_stored_record :: "'a stored_record \<Rightarrow> check" where
  "validate_stored_record s =
     fails_if (\<not> (0 \<le> sr_revision s \<and> sr_revision s \<le> MAX_SAFE_INTEGER))
       (ValueError ''stored record revision is invalid'')"

text \<open>Only the record families modelled here; the value is the collection's name.\<close>

datatype storage_kind = SK_ROLLOUT_ROOT | SK_SERVICE_CLAIM | SK_EPOCH_AUTHORITY | SK_EXECUTION_RECEIPT

fun storage_kind_value :: "storage_kind \<Rightarrow> string" where
  "storage_kind_value SK_ROLLOUT_ROOT = ''controlgraph-rollout-roots-v1''"
| "storage_kind_value SK_SERVICE_CLAIM = ''controlgraph-service-claims-v1''"
| "storage_kind_value SK_EPOCH_AUTHORITY = ''controlgraph-epoch-authorities-v1''"
| "storage_kind_value SK_EXECUTION_RECEIPT = ''controlgraph-execution-receipts-v1''"

definition FIRESTORE_DOCUMENT_ID_DOMAIN :: bytes where
  "FIRESTORE_DOCUMENT_ID_DOMAIN = ascii_bytes ''controlgraph.firestore-document-id/v1'' @ [0]"

definition document_preimage :: "storage_kind \<Rightarrow> string \<Rightarrow> bytes" where
  "document_preimage kind logical_id =
     FIRESTORE_DOCUMENT_ID_DOMAIN @ ascii_bytes (storage_kind_value kind) @ [0] @ ascii_bytes logical_id"

definition document_id :: "hexdigest \<Rightarrow> storage_kind \<Rightarrow> string \<Rightarrow> string result" where
  "document_id hexdigest kind logical_id =
    (if \<not> is_identifier logical_id
     then Inl (ValueError ''authority storage logical identifier is invalid'')
     else Inr (hexdigest (document_preimage kind logical_id)))"

definition target_key :: "target_binding \<Rightarrow> mutation_target_key" where
  "target_key t =
     \<lparr>tk_project_id = tb_project_id t, tk_region = tb_region t, tk_environment = tb_environment t,
      tk_service_name = tb_service_name t\<rparr>"

text \<open>
  \<open>MutationTargetKey(...)\<close> validates its fields, then the key is hashed with the
  idempotency key.
\<close>

definition receipt_logical_id :: "hexdigest \<Rightarrow> target_binding \<Rightarrow> string \<Rightarrow> string result" where
  "receipt_logical_id hexdigest target idempotency_key =
     bindR (construct validate_target_key (target_key target))
       (\<lambda>k. receipt_claim_identity hexdigest k idempotency_key)"

definition receipt_document_id :: "hexdigest \<Rightarrow> target_binding \<Rightarrow> string \<Rightarrow> string result" where
  "receipt_document_id hexdigest target idempotency_key =
     bindR (receipt_logical_id hexdigest target idempotency_key)
       (document_id hexdigest SK_EXECUTION_RECEIPT)"

section \<open>What the validators establish\<close>

definition wf_authority_record :: "epoch_authority_record \<Rightarrow> bool" where
  "wf_authority_record a \<longleftrightarrow> validate_authority_record a = None"

definition wf_receipt :: "execution_receipt \<Rightarrow> bool" where
  "wf_receipt r \<longleftrightarrow> validate_execution_receipt r = None"

lemma wf_authority_record_epoch:
  "wf_authority_record a \<Longrightarrow>
     au_current_epoch a = au_revision a + 1 \<and> 0 \<le> au_revision a
     \<and> (au_cause a = EC_ROOT_CREATED \<longleftrightarrow> au_revision a = 0)"
  by (auto simp: wf_authority_record_def validate_authority_record_def validate_authority_fields_def
      validate_transition_shape_def nonneg_safe_integer_def split: if_splits)

text \<open>Which fields an outcome admits: the shapes the rest of the program relies on.\<close>

lemma wf_receipt_shape:
  assumes "wf_receipt r"
  shows "(er_reason_code r \<noteq> None \<longleftrightarrow> er_outcome r \<in> {OC_DENIED, OC_FAILED_SAFE, OC_AMBIGUOUS})
    \<and> (er_outcome r = OC_CLAIMED \<longrightarrow> er_provider_operation r = None \<and> er_observed_etag r = None
         \<and> er_observed_authority_epoch r = None)
    \<and> (er_outcome r \<in> {OC_DENIED, OC_FAILED_SAFE} \<longrightarrow>
         er_provider_operation r = None \<and> er_observed_etag r = None)
    \<and> (er_outcome r = OC_APPLIED \<longrightarrow> er_provider_operation r \<noteq> None)
    \<and> (er_outcome r = OC_VERIFIED \<longrightarrow> er_observed_etag r \<noteq> None)
    \<and> (er_outcome r = OC_AMBIGUOUS \<longrightarrow> er_reason_code r = Some RC_PROVIDER_OUTCOME_AMBIGUOUS)
    \<and> er_created_at r \<le> er_updated_at r \<and> er_created_at r \<le> er_dispatch_not_after r
    \<and> distinct (er_evidence_ids r)"
  using assms
  by (auto simp: wf_receipt_def validate_execution_receipt_def validate_outcome_shape_def Let_def
      linorder_not_less)

text \<open>What a document identity hashes determines the record family and the logical identity.\<close>

lemma ascii_bytes_inject: "ascii_bytes x = ascii_bytes y \<longleftrightarrow> x = y"
proof -
  have "inj (\<lambda>c. octet (char_code c))"
    by (rule injI) (simp add: octet_inject char_code_less char_code_inject)
  then show ?thesis
    by (simp add: ascii_bytes_def inj_map_eq_map)
qed

lemma document_preimage_inject:
  "document_preimage k l = document_preimage k' l' \<longleftrightarrow> k = k' \<and> l = l'"
proof -
  have "k = k'" if "document_preimage k l = document_preimage k' l'"
    using that by (cases k; cases k')
      (simp_all add: document_preimage_def ascii_bytes_def octet_inject char_code_def)
  then show ?thesis
    by (auto simp: document_preimage_def ascii_bytes_inject)
qed

end
