(* ===== verification/ServiceClaim.thy ===== *)
theory ServiceClaim
  imports Records
begin

text \<open>
  The claim of one service by one rollout root, \<open>ServiceClaimRecord\<close> of
  \<open>contracts/storage.py\<close>, with the two proofs a release carries and the validator of its
  lifecycle: ACTIVE without release metadata, RELEASING with a complete epoch fence, RELEASED
  with an independent classification of the target on top.
\<close>

datatype service_claim_status = CS_ACTIVE | CS_RELEASING | CS_RELEASED

datatype terminal_root_state = TS_PROMOTED | TS_RECOVERED | TS_STRANDED_STABLE

datatype target_classification = TC_CANDIDATE_PROMOTED | TC_STABLE_RESTORED

section \<open>The target boundary\<close>

definition starts_with :: "string \<Rightarrow> string \<Rightarrow> bool" where
  "starts_with prefix s \<longleftrightarrow> take (length prefix) s = prefix"

fun contains_text :: "string \<Rightarrow> string \<Rightarrow> bool" where
  "contains_text needle [] \<longleftrightarrow> needle = []"
| "contains_text needle (c # cs) \<longleftrightarrow> starts_with needle (c # cs) \<or> contains_text needle cs"

text \<open>\<open>_CONTROLGRAPH_PROJECT_ID.fullmatch\<close> of \<open>^controlgraph-canary-[a-z0-9]{6,10}$\<close>.\<close>

definition controlgraph_project :: "string \<Rightarrow> bool" where
  "controlgraph_project s \<longleftrightarrow>
     starts_with ''controlgraph-canary-'' s
     \<and> (let tail = drop (length ''controlgraph-canary-'') s in
         6 \<le> length tail \<and> length tail \<le> 10 \<and> list_all lower_alnum tail)"

definition require_service_claim_target :: "target_binding \<Rightarrow> check" where
  "require_service_claim_target t =
     fails_if
      (\<not> controlgraph_project (tb_project_id t) \<or> contains_text ''reconcile'' (tb_project_id t)
       \<or> tb_region t \<noteq> ''us-central1'' \<or> tb_environment t \<noteq> ''nonprod''
       \<or> tb_service_name t \<noteq> ''controlgraph-reference-target'')
      (ValueError ''service claim target is outside the ControlGraph boundary'')"

section \<open>Release proofs\<close>

record terminal_root_proof =
  tp_target :: target_binding
  tp_root_id :: string
  tp_root_sha256 :: string
  tp_state :: terminal_root_state
  tp_target_configuration_sha256 :: string
  tp_evidence_id :: string
  tp_evidence_sha256 :: string
  tp_confirmed_at :: string

definition validate_terminal_root_proof :: "terminal_root_proof \<Rightarrow> check" where
  "validate_terminal_root_proof p =
     checks
      [validate_target_binding (tp_target p),
       field ''root_id'' (is_identifier (tp_root_id p)),
       field ''root_sha256'' (is_sha256 (tp_root_sha256 p)),
       field ''target_configuration_sha256'' (is_sha256 (tp_target_configuration_sha256 p)),
       field ''evidence_id'' (is_identifier (tp_evidence_id p)),
       field ''evidence_sha256'' (is_sha256 (tp_evidence_sha256 p)),
       field ''confirmed_at'' (is_utc_second (tp_confirmed_at p)),
       require_service_claim_target (tp_target p)]"

record target_classification_proof =
  cp_target :: target_binding
  cp_root_id :: string
  cp_root_sha256 :: string
  cp_classification :: target_classification
  cp_fenced_epoch :: int
  cp_fenced_authority_revision :: int
  cp_service_generation :: int
  cp_provider_etag :: string
  cp_target_configuration_sha256 :: string
  cp_evidence_id :: string
  cp_evidence_sha256 :: string
  cp_classified_by :: string
  cp_classified_at :: string

definition verifier_identity :: "target_binding \<Rightarrow> string" where
  "verifier_identity t =
     ''controlgraph-verifier@'' @ tb_project_id t @ ''.iam.gserviceaccount.com''"

definition validate_target_classification_proof :: "target_classification_proof \<Rightarrow> check" where
  "validate_target_classification_proof p =
     checks
      [validate_target_binding (cp_target p),
       field ''root_id'' (is_identifier (cp_root_id p)),
       field ''root_sha256'' (is_sha256 (cp_root_sha256 p)),
       field ''fenced_epoch'' (positive_safe_integer (cp_fenced_epoch p)),
       field ''fenced_authority_revision'' (nonneg_safe_integer (cp_fenced_authority_revision p)),
       field ''service_generation'' (positive_safe_integer (cp_service_generation p)),
       field ''provider_etag'' (is_opaque_token (cp_provider_etag p)),
       field ''target_configuration_sha256'' (is_sha256 (cp_target_configuration_sha256 p)),
       field ''evidence_id'' (is_identifier (cp_evidence_id p)),
       field ''evidence_sha256'' (is_sha256 (cp_evidence_sha256 p)),
       field ''classified_by'' (is_bounded_text (cp_classified_by p)),
       field ''classified_at'' (is_utc_second (cp_classified_at p)),
       require_service_claim_target (cp_target p),
       fails_if (cp_classified_by p \<noteq> verifier_identity (cp_target p))
         (ValueError ''target classification is not bound to the verifier identity'')]"

section \<open>The claim\<close>

record service_claim =
  cl_target :: target_binding
  cl_root_id :: string
  cl_root_sha256 :: string
  cl_stable_revision :: string
  cl_candidate_revision :: string
  cl_initial_epoch :: int
  cl_baseline_service_generation :: int
  cl_baseline_configuration_sha256 :: string
  cl_baseline_revision_configuration_sha256 :: string
  cl_candidate_revision_configuration_sha256 :: string
  cl_stable_target_configuration_sha256 :: string
  cl_candidate_target_configuration_sha256 :: string
  cl_operator_owner :: string
  cl_workload_creator :: string
  cl_terminal_release_condition :: string
  cl_status :: service_claim_status
  cl_claim_request_id :: string
  cl_claim_evidence_id :: string
  cl_claimed_at :: string
  cl_release_fence_epoch :: "int option"
  cl_release_fence_authority_revision :: "int option"
  cl_release_fenced_by :: "string option"
  cl_release_fence_request_id :: "string option"
  cl_release_fence_evidence_id :: "string option"
  cl_release_fenced_at :: "string option"
  cl_released_by :: "string option"
  cl_release_request_id :: "string option"
  cl_release_evidence_id :: "string option"
  cl_released_at :: "string option"
  cl_terminal_root_proof :: "terminal_root_proof option"
  cl_target_classification_proof :: "target_classification_proof option"

definition WORKLOAD_CREATOR :: string where
  "WORKLOAD_CREATOR = ''controlgraph.api/v1''"

definition RELEASED_BY :: string where
  "RELEASED_BY = ''controlgraph.coordinator/v1''"

definition SERVICE_CLAIM_TERMINAL_RELEASE_CONDITION :: string where
  "SERVICE_CLAIM_TERMINAL_RELEASE_CONDITION = ''FENCED_EPOCH_AND_INDEPENDENT_TARGET_CLASSIFICATION_V2''"

definition validate_claim_fields :: "service_claim \<Rightarrow> check" where
  "validate_claim_fields c =
     checks
      [validate_target_binding (cl_target c),
       field ''root_id'' (is_identifier (cl_root_id c)),
       field ''root_sha256'' (is_sha256 (cl_root_sha256 c)),
       field ''stable_revision'' (is_cloud_run_name (cl_stable_revision c)),
       field ''candidate_revision'' (is_cloud_run_name (cl_candidate_revision c)),
       field ''initial_epoch'' (cl_initial_epoch c = 1),
       field ''baseline_service_generation'' (nonneg_safe_integer (cl_baseline_service_generation c)),
       field ''baseline_configuration_sha256'' (is_sha256 (cl_baseline_configuration_sha256 c)),
       field ''baseline_revision_configuration_sha256''
         (is_sha256 (cl_baseline_revision_configuration_sha256 c)),
       field ''candidate_revision_configuration_sha256''
         (is_sha256 (cl_candidate_revision_configuration_sha256 c)),
       field ''stable_target_configuration_sha256'' (is_sha256 (cl_stable_target_configuration_sha256 c)),
       field ''candidate_target_configuration_sha256''
         (is_sha256 (cl_candidate_target_configuration_sha256 c)),
       field ''operator_owner'' (is_bounded_text (cl_operator_owner c)),
       field ''workload_creator'' (cl_workload_creator c = WORKLOAD_CREATOR),
       field ''terminal_release_condition''
         (cl_terminal_release_condition c = SERVICE_CLAIM_TERMINAL_RELEASE_CONDITION),
       field ''claim_request_id'' (is_identifier (cl_claim_request_id c)),
       field ''claim_evidence_id'' (is_identifier (cl_claim_evidence_id c)),
       field ''claimed_at'' (is_utc_second (cl_claimed_at c)),
       field ''release_fence_epoch'' (pred_option positive_safe_integer (cl_release_fence_epoch c)),
       field ''release_fence_authority_revision''
         (pred_option nonneg_safe_integer (cl_release_fence_authority_revision c)),
       field ''release_fenced_by'' (pred_option is_bounded_text (cl_release_fenced_by c)),
       field ''release_fence_request_id'' (pred_option is_identifier (cl_release_fence_request_id c)),
       field ''release_fence_evidence_id'' (pred_option is_identifier (cl_release_fence_evidence_id c)),
       field ''release_fenced_at'' (pred_option is_utc_second (cl_release_fenced_at c)),
       field ''released_by'' (cl_released_by c \<in> {None, Some RELEASED_BY}),
       field ''release_request_id'' (pred_option is_identifier (cl_release_request_id c)),
       field ''release_evidence_id'' (pred_option is_identifier (cl_release_evidence_id c)),
       field ''released_at'' (pred_option is_utc_second (cl_released_at c)),
       (case cl_terminal_root_proof c of
          None \<Rightarrow> None | Some p \<Rightarrow> validate_terminal_root_proof p),
       (case cl_target_classification_proof c of
          None \<Rightarrow> None | Some p \<Rightarrow> validate_target_classification_proof p)]"

text \<open>Which members of \<open>fence_values\<close> and \<open>final_release_values\<close> are present.\<close>

definition fence_presence :: "service_claim \<Rightarrow> bool list" where
  "fence_presence c =
     [cl_release_fence_epoch c \<noteq> None, cl_release_fence_authority_revision c \<noteq> None,
      cl_release_fenced_by c \<noteq> None, cl_release_fence_request_id c \<noteq> None,
      cl_release_fence_evidence_id c \<noteq> None, cl_release_fenced_at c \<noteq> None,
      cl_terminal_root_proof c \<noteq> None]"

definition release_presence :: "service_claim \<Rightarrow> bool list" where
  "release_presence c =
     [cl_released_by c \<noteq> None, cl_release_request_id c \<noteq> None, cl_release_evidence_id c \<noteq> None,
      cl_released_at c \<noteq> None, cl_target_classification_proof c \<noteq> None]"

fun expected_configuration :: "service_claim \<Rightarrow> terminal_root_state \<Rightarrow> string" where
  "expected_configuration c TS_PROMOTED = cl_candidate_target_configuration_sha256 c"
| "expected_configuration c TS_RECOVERED = cl_stable_target_configuration_sha256 c"
| "expected_configuration c TS_STRANDED_STABLE = cl_stable_target_configuration_sha256 c"

fun expected_classification :: "terminal_root_state \<Rightarrow> target_classification" where
  "expected_classification TS_PROMOTED = TC_CANDIDATE_PROMOTED"
| "expected_classification TS_RECOVERED = TC_STABLE_RESTORED"
| "expected_classification TS_STRANDED_STABLE = TC_STABLE_RESTORED"

text \<open>Lines 214 to 250: identities, revisions and which release metadata each status carries.\<close>

definition validate_claim_status :: "service_claim \<Rightarrow> check" where
  "validate_claim_status c =
     checks
      [require_service_claim_target (cl_target c),
       fails_if (cl_operator_owner c = cl_workload_creator c)
         (ValueError ''service claim operator and workload identities must differ''),
       fails_if (cl_stable_revision c = cl_candidate_revision c)
         (ValueError ''service claim revisions must differ''),
       fails_if
         (\<not> starts_with (tb_service_name (cl_target c) @ ''-'') (cl_stable_revision c)
          \<or> \<not> starts_with (tb_service_name (cl_target c) @ ''-'') (cl_candidate_revision c))
         (ValueError ''service claim revisions are outside the target service''),
       (case cl_status c of
          CS_ACTIVE \<Rightarrow>
            fails_if (list_ex id (fence_presence c @ release_presence c))
              (ValueError ''active service claim cannot contain release metadata'')
        | CS_RELEASING \<Rightarrow>
            checks
             [fails_if (\<not> list_all id (fence_presence c))
                (ValueError ''non-active service claim requires a complete epoch fence''),
              fails_if (list_ex id (release_presence c))
                (ValueError ''releasing service claim cannot contain final release metadata'')]
        | CS_RELEASED \<Rightarrow>
            checks
             [fails_if (\<not> list_all id (fence_presence c))
                (ValueError ''non-active service claim requires a complete epoch fence''),
              fails_if (\<not> list_all id (release_presence c))
                (ValueError ''released service claim requires complete release metadata'')])]"

text \<open>Lines 251 to 277: the terminal proof and the fence of a claim that is not active.\<close>

definition validate_claim_fence_proof :: "service_claim \<Rightarrow> terminal_root_proof \<Rightarrow> check" where
  "validate_claim_fence_proof c terminal =
     checks
      [fails_if
         (tp_target terminal \<noteq> cl_target c \<or> tp_root_id terminal \<noteq> cl_root_id c
          \<or> tp_root_sha256 terminal \<noteq> cl_root_sha256 c)
         (ValueError ''service claim terminal proof does not match its root and target''),
       fails_if (tp_target_configuration_sha256 terminal \<noteq> expected_configuration c (tp_state terminal))
         (ValueError ''terminal root proof does not match the expected target state''),
       fails_if
         (the (cl_release_fence_epoch c) \<le> cl_initial_epoch c
          \<or> the (cl_release_fence_authority_revision c)
              \<noteq> the (cl_release_fence_epoch c) - cl_initial_epoch c
          \<or> \<not> (cl_claimed_at c \<le> tp_confirmed_at terminal
               \<and> tp_confirmed_at terminal \<le> the (cl_release_fenced_at c))
          \<or> Some (tp_evidence_id terminal) = cl_release_fence_evidence_id c)
         (ValueError ''service claim epoch fence is not a later terminal transition'')]"

text \<open>Lines 284 to 333: the classification of a released claim.\<close>

definition validate_claim_classification ::
  "service_claim \<Rightarrow> terminal_root_proof \<Rightarrow> target_classification_proof \<Rightarrow> check" where
  "validate_claim_classification c terminal cp =
     checks
      [fails_if
         (cp_target cp \<noteq> cl_target c \<or> cp_root_id cp \<noteq> cl_root_id c
          \<or> cp_root_sha256 cp \<noteq> cl_root_sha256 c)
         (ValueError ''target classification does not match the claimed root''),
       fails_if
         (cp_classification cp \<noteq> expected_classification (tp_state terminal)
          \<or> cp_target_configuration_sha256 cp \<noteq> expected_configuration c (tp_state terminal)
          \<or> Some (cp_fenced_epoch cp) \<noteq> cl_release_fence_epoch c
          \<or> Some (cp_fenced_authority_revision cp) \<noteq> cl_release_fence_authority_revision c)
         (ValueError ''terminal root and target classification are incoherent''),
       fails_if (cp_service_generation cp \<le> cl_baseline_service_generation c)
         (ValueError ''target classification predates the claimed baseline''),
       fails_if
         (has_duplicates
            [cl_claim_evidence_id c, tp_evidence_id terminal, the (cl_release_fence_evidence_id c),
             cp_evidence_id cp, the (cl_release_evidence_id c)]
          \<or> has_duplicates [tp_evidence_sha256 terminal, cp_evidence_sha256 cp])
         (ValueError ''claim transition evidence must be independent''),
       fails_if
         (\<not> (the (cl_release_fenced_at c) \<le> cp_classified_at cp
             \<and> cp_classified_at cp \<le> the (cl_released_at c)))
         (ValueError ''service claim release proof times are not ordered'')]"

text \<open>
  \<open>validate_lifecycle\<close>. The casts read fields whose presence the status check has
  established.
\<close>

definition validate_lifecycle :: "service_claim \<Rightarrow> check" where
  "validate_lifecycle c =
     checks
      [validate_claim_status c,
       (case cl_status c of
          CS_ACTIVE \<Rightarrow> None
        | CS_RELEASING \<Rightarrow> validate_claim_fence_proof c (the (cl_terminal_root_proof c))
        | CS_RELEASED \<Rightarrow>
            checks
             [validate_claim_fence_proof c (the (cl_terminal_root_proof c)),
              validate_claim_classification c (the (cl_terminal_root_proof c))
                (the (cl_target_classification_proof c))])]"

definition validate_service_claim :: "service_claim \<Rightarrow> check" where
  "validate_service_claim c = checks [validate_claim_fields c, validate_lifecycle c]"

definition wf_claim :: "service_claim \<Rightarrow> bool" where
  "wf_claim c \<longleftrightarrow> validate_service_claim c = None"

section \<open>What the lifecycle establishes\<close>

lemma wf_claim_active:
  "wf_claim c \<Longrightarrow> cl_status c = CS_ACTIVE \<Longrightarrow>
     cl_release_fence_epoch c = None \<and> cl_released_at c = None
     \<and> cl_terminal_root_proof c = None \<and> cl_target_classification_proof c = None"
  by (auto simp: wf_claim_def validate_service_claim_def validate_lifecycle_def
      validate_claim_status_def fence_presence_def release_presence_def)

lemma wf_claim_fenced:
  assumes "wf_claim c" "cl_status c \<noteq> CS_ACTIVE"
  shows "\<exists>e tp. cl_release_fence_epoch c = Some e \<and> 1 < e
    \<and> cl_release_fence_authority_revision c = Some (e - 1)
    \<and> cl_terminal_root_proof c = Some tp \<and> tp_root_id tp = cl_root_id c \<and> tp_target tp = cl_target c
    \<and> tp_target_configuration_sha256 tp = expected_configuration c (tp_state tp)"
proof -
  have "cl_initial_epoch c = 1"
    using assms by (simp add: wf_claim_def validate_service_claim_def validate_claim_fields_def)
  moreover have "list_all id (fence_presence c)"
    "validate_claim_fence_proof c (the (cl_terminal_root_proof c)) = None"
    using assms by (auto simp: wf_claim_def validate_service_claim_def validate_lifecycle_def
        validate_claim_status_def split: service_claim_status.splits)
  ultimately show ?thesis
    by (auto simp: fence_presence_def validate_claim_fence_proof_def)
qed

end
