(* ===== verification/RolloutRecords.thy ===== *)
theory RolloutRecords
  imports ServiceClaim
begin

text \<open>
  The immutable root of a rollout and its stable snapshot (\<open>contracts/models.py\<close>), the
  contract digest of \<open>contracts/codec.py\<close>, the digest of a traffic state
  (\<open>application/cloud_run.py\<close>), the match of a claim with its root (\<open>contracts/storage.py\<close>)
  and the validation of the three records a rollout starts with
  (\<open>integrations/google/firestore.py\<close>).
\<close>

section \<open>Contract digests\<close>

definition DIGEST_DOMAIN :: bytes where
  "DIGEST_DOMAIN = ascii_bytes ''controlgraph.contract-sha256/v1'' @ [0]"

text \<open>
  \<open>canonical_sha256\<close> of a model whose dump is \<open>value\<close> and whose schema version is
  \<open>version\<close>; it raises when the dump is outside the restricted JSON or its byte bound.
\<close>

definition contract_sha256 :: "hexdigest \<Rightarrow> string \<Rightarrow> json \<Rightarrow> contract_error + string" where
  "contract_sha256 hexdigest version value =
     (case canonical_json_value_bytes value of
        Inl e \<Rightarrow> Inl e
      | Inr encoded \<Rightarrow> Inr (hexdigest (DIGEST_DOMAIN @ ascii_bytes version @ [0] @ encoded)))"

definition TARGET_BINDING_V1 :: string where "TARGET_BINDING_V1 = ''controlgraph.target-binding/v1''"
definition STABLE_SNAPSHOT_V1 :: string where "STABLE_SNAPSHOT_V1 = ''controlgraph.stable-snapshot/v1''"
definition ROLLOUT_ROOT_V1 :: string where "ROLLOUT_ROOT_V1 = ''controlgraph.rollout-root/v1''"

definition target_binding_json :: "target_binding \<Rightarrow> json" where
  "target_binding_json t =
     JObj [(''schema_version'', JStr TARGET_BINDING_V1), (''project_id'', JStr (tb_project_id t)),
           (''region'', JStr (tb_region t)), (''environment'', JStr (tb_environment t)),
           (''service_name'', JStr (tb_service_name t))]"

section \<open>Snapshot and root\<close>

record traffic_allocation =
  ta_revision :: string
  ta_percent :: int

record stable_snapshot =
  ss_target :: target_binding
  ss_stable_revision :: string
  ss_traffic :: "traffic_allocation list"
  ss_concurrency :: int
  ss_service_generation :: int
  ss_provider_etag :: string
  ss_configuration_sha256 :: string
  ss_stable_revision_configuration_sha256 :: string
  ss_captured_at :: string
  ss_captured_by :: string

definition valid_traffic :: "traffic_allocation \<Rightarrow> bool" where
  "valid_traffic t \<longleftrightarrow> is_cloud_run_name (ta_revision t) \<and> is_percent (ta_percent t)"

definition validate_stable_baseline :: "stable_snapshot \<Rightarrow> check" where
  "validate_stable_baseline s =
    (case ss_traffic s of
       [] \<Rightarrow> None
     | baseline # rest \<Rightarrow>
         checks
          [fails_if (ta_revision baseline \<noteq> ss_stable_revision s \<or> ta_percent baseline \<noteq> 100)
             (ValueError ''stable snapshot must route 100 percent to the stable revision''),
           (case rest of
              [unserved] \<Rightarrow>
                fails_if (ta_revision unserved = ss_stable_revision s \<or> ta_percent unserved \<noteq> 0)
                  (ValueError ''stable snapshot may contain only one distinct zero-percent revision'')
            | _ \<Rightarrow> None)])"

definition validate_stable_snapshot :: "stable_snapshot \<Rightarrow> check" where
  "validate_stable_snapshot s =
     checks
      [validate_target_binding (ss_target s),
       field ''stable_revision'' (is_cloud_run_name (ss_stable_revision s)),
       field ''traffic'' (1 \<le> length (ss_traffic s) \<and> length (ss_traffic s) \<le> 2
          \<and> list_all valid_traffic (ss_traffic s)),
       field ''concurrency'' (1 \<le> ss_concurrency s \<and> ss_concurrency s \<le> 1000),
       field ''service_generation'' (nonneg_safe_integer (ss_service_generation s)),
       field ''provider_etag'' (is_opaque_token (ss_provider_etag s)),
       field ''configuration_sha256'' (is_sha256 (ss_configuration_sha256 s)),
       field ''stable_revision_configuration_sha256''
         (is_sha256 (ss_stable_revision_configuration_sha256 s)),
       field ''captured_at'' (is_utc_second (ss_captured_at s)),
       field ''captured_by'' (is_bounded_text (ss_captured_by s)),
       validate_stable_baseline s]"

record rollout_root =
  rt_root_id :: string
  rt_target :: target_binding
  rt_stable_snapshot :: stable_snapshot
  rt_candidate_revision :: string
  rt_stable_percent :: int
  rt_candidate_percent :: int
  rt_health_policy_sha256 :: string
  rt_maximum_recovery_attempts :: int
  rt_initial_epoch :: int
  rt_plan_sha256 :: string
  rt_approved_by :: string
  rt_approved_at :: string

definition validate_rollout_root :: "rollout_root \<Rightarrow> check" where
  "validate_rollout_root r =
     checks
      [field ''root_id'' (is_identifier (rt_root_id r)),
       validate_target_binding (rt_target r),
       validate_stable_snapshot (rt_stable_snapshot r),
       field ''candidate_revision'' (is_cloud_run_name (rt_candidate_revision r)),
       field ''stable_percent'' (rt_stable_percent r = 90),
       field ''candidate_percent'' (rt_candidate_percent r = 10),
       field ''health_policy_sha256'' (is_sha256 (rt_health_policy_sha256 r)),
       field ''maximum_recovery_attempts''
         (1 \<le> rt_maximum_recovery_attempts r \<and> rt_maximum_recovery_attempts r \<le> 3),
       field ''initial_epoch'' (rt_initial_epoch r = 1),
       field ''plan_sha256'' (is_sha256 (rt_plan_sha256 r)),
       field ''approved_by'' (is_bounded_text (rt_approved_by r)),
       field ''approved_at'' (is_utc_second (rt_approved_at r)),
       fails_if (rt_target r \<noteq> ss_target (rt_stable_snapshot r))
         (ValueError ''rollout root target does not match its snapshot''),
       fails_if (rt_candidate_revision r = ss_stable_revision (rt_stable_snapshot r))
         (ValueError ''candidate revision must differ from the stable revision'')]"

definition traffic_json :: "traffic_allocation \<Rightarrow> json" where
  "traffic_json t = JObj [(''revision'', JStr (ta_revision t)), (''percent'', JInt (ta_percent t))]"

definition stable_snapshot_json :: "stable_snapshot \<Rightarrow> json" where
  "stable_snapshot_json s =
     JObj [(''schema_version'', JStr STABLE_SNAPSHOT_V1), (''target'', target_binding_json (ss_target s)),
           (''stable_revision'', JStr (ss_stable_revision s)),
           (''traffic'', JList (map traffic_json (ss_traffic s))),
           (''concurrency'', JInt (ss_concurrency s)),
           (''service_generation'', JInt (ss_service_generation s)),
           (''provider_etag'', JStr (ss_provider_etag s)),
           (''configuration_sha256'', JStr (ss_configuration_sha256 s)),
           (''stable_revision_configuration_sha256'',
              JStr (ss_stable_revision_configuration_sha256 s)),
           (''captured_at'', JStr (ss_captured_at s)), (''captured_by'', JStr (ss_captured_by s))]"

definition rollout_root_json :: "rollout_root \<Rightarrow> json" where
  "rollout_root_json r =
     JObj [(''schema_version'', JStr ROLLOUT_ROOT_V1), (''root_id'', JStr (rt_root_id r)),
           (''target'', target_binding_json (rt_target r)),
           (''stable_snapshot'', stable_snapshot_json (rt_stable_snapshot r)),
           (''candidate_revision'', JStr (rt_candidate_revision r)),
           (''stable_percent'', JInt (rt_stable_percent r)),
           (''candidate_percent'', JInt (rt_candidate_percent r)),
           (''health_policy_sha256'', JStr (rt_health_policy_sha256 r)),
           (''maximum_recovery_attempts'', JInt (rt_maximum_recovery_attempts r)),
           (''initial_epoch'', JInt (rt_initial_epoch r)), (''plan_sha256'', JStr (rt_plan_sha256 r)),
           (''approved_by'', JStr (rt_approved_by r)), (''approved_at'', JStr (rt_approved_at r))]"

definition root_sha256_of :: "hexdigest \<Rightarrow> rollout_root \<Rightarrow> contract_error + string" where
  "root_sha256_of hexdigest r = contract_sha256 hexdigest ROLLOUT_ROOT_V1 (rollout_root_json r)"

section \<open>Traffic states\<close>

record target_configuration =
  tg_target :: target_binding
  tg_stable_revision :: string
  tg_candidate_revision :: string
  tg_stable_percent :: int
  tg_candidate_percent :: int
  tg_concurrency :: int

definition validate_target_configuration :: "target_configuration \<Rightarrow> check" where
  "validate_target_configuration t =
     checks
      [fails_if (\<not> is_cloud_run_name (tg_stable_revision t))
         (ValueError ''stable_revision is not an exact Cloud Run name''),
       fails_if (\<not> is_cloud_run_name (tg_candidate_revision t))
         (ValueError ''candidate_revision is not an exact Cloud Run name''),
       fails_if (tg_stable_revision t = tg_candidate_revision t)
         (ValueError ''target configuration revisions must differ''),
       fails_if
         (\<not> starts_with (tb_service_name (tg_target t) @ ''-'') (tg_stable_revision t)
          \<or> \<not> starts_with (tb_service_name (tg_target t) @ ''-'') (tg_candidate_revision t))
         (ValueError ''target configuration revisions do not belong to the target service''),
       fails_if
         (\<not> (0 \<le> tg_stable_percent t \<and> tg_stable_percent t \<le> 100)
          \<or> \<not> (0 \<le> tg_candidate_percent t \<and> tg_candidate_percent t \<le> 100)
          \<or> tg_stable_percent t + tg_candidate_percent t \<noteq> 100)
         (ValueError ''target configuration traffic is invalid''),
       fails_if (\<not> (1 \<le> tg_concurrency t \<and> tg_concurrency t \<le> 1000))
         (ValueError ''target configuration concurrency is invalid'')]"

definition TARGET_CONFIGURATION_DOMAIN :: bytes where
  "TARGET_CONFIGURATION_DOMAIN = ascii_bytes ''controlgraph.target-configuration-sha256/v1'' @ [0]"

definition target_configuration_json :: "target_configuration \<Rightarrow> json" where
  "target_configuration_json t =
     JObj [(''candidate_percent'', JInt (tg_candidate_percent t)),
           (''candidate_revision'', JStr (tg_candidate_revision t)),
           (''concurrency'', JInt (tg_concurrency t)),
           (''schema_version'', JStr ''controlgraph.target-configuration/v1''),
           (''stable_percent'', JInt (tg_stable_percent t)),
           (''stable_revision'', JStr (tg_stable_revision t)),
           (''target'', target_binding_json (tg_target t))]"

definition contract_invalid :: "contract_error \<Rightarrow> py_error" where
  "contract_invalid e = (case e of CONTRACT_INVALID m \<Rightarrow> ValueError m | CONTRACT_VERSION_UNSUPPORTED m \<Rightarrow> ValueError m)"

definition target_configuration_sha256 :: "hexdigest \<Rightarrow> target_configuration \<Rightarrow> string result" where
  "target_configuration_sha256 hexdigest t =
     (case canonical_json_value_bytes (target_configuration_json t) of
        Inl e \<Rightarrow> Inl (contract_invalid e)
      | Inr encoded \<Rightarrow> Inr (hexdigest (TARGET_CONFIGURATION_DOMAIN @ encoded)))"

definition rollout_root_target_configuration_sha256 ::
  "hexdigest \<Rightarrow> rollout_root \<Rightarrow> int \<Rightarrow> int \<Rightarrow> string result" where
  "rollout_root_target_configuration_sha256 hexdigest root stable_percent candidate_percent =
     bindR (construct validate_target_configuration
       \<lparr>tg_target = rt_target root, tg_stable_revision = ss_stable_revision (rt_stable_snapshot root),
        tg_candidate_revision = rt_candidate_revision root, tg_stable_percent = stable_percent,
        tg_candidate_percent = candidate_percent, tg_concurrency = ss_concurrency (rt_stable_snapshot root)\<rparr>)
     (target_configuration_sha256 hexdigest)"

section \<open>A claim and its root\<close>

definition service_claim_matches_root ::
  "hexdigest \<Rightarrow> service_claim \<Rightarrow> rollout_root \<Rightarrow> string \<Rightarrow> string \<Rightarrow> bool" where
  "service_claim_matches_root hexdigest claim root stable_sha candidate_sha \<longleftrightarrow>
     is_sha256 stable_sha \<and> is_sha256 candidate_sha
     \<and> cl_target claim = rt_target root
     \<and> cl_root_id claim = rt_root_id root
     \<and> Inr (cl_root_sha256 claim) = root_sha256_of hexdigest root
     \<and> cl_stable_revision claim = ss_stable_revision (rt_stable_snapshot root)
     \<and> cl_candidate_revision claim = rt_candidate_revision root
     \<and> cl_initial_epoch claim = rt_initial_epoch root
     \<and> cl_baseline_service_generation claim = ss_service_generation (rt_stable_snapshot root)
     \<and> cl_baseline_configuration_sha256 claim = ss_configuration_sha256 (rt_stable_snapshot root)
     \<and> cl_baseline_revision_configuration_sha256 claim
         = ss_stable_revision_configuration_sha256 (rt_stable_snapshot root)
     \<and> cl_stable_target_configuration_sha256 claim = stable_sha
     \<and> cl_candidate_target_configuration_sha256 claim = candidate_sha
     \<and> cl_operator_owner claim = rt_approved_by root
     \<and> cl_workload_creator claim = WORKLOAD_CREATOR
     \<and> cl_terminal_release_condition claim = SERVICE_CLAIM_TERMINAL_RELEASE_CONDITION
     \<and> ss_captured_by (rt_stable_snapshot root) = verifier_identity (rt_target root)
     \<and> ss_captured_at (rt_stable_snapshot root) \<le> rt_approved_at root
     \<and> rt_approved_at root \<le> cl_claimed_at claim"

definition active_service_claim_matches_root ::
  "hexdigest \<Rightarrow> service_claim \<Rightarrow> rollout_root \<Rightarrow> string \<Rightarrow> string \<Rightarrow> bool" where
  "active_service_claim_matches_root hexdigest claim root stable_sha candidate_sha \<longleftrightarrow>
     cl_status claim = CS_ACTIVE
     \<and> service_claim_matches_root hexdigest claim root stable_sha candidate_sha"

section \<open>The initial records\<close>

definition initial_records_disagree ::
  "hexdigest \<Rightarrow> rollout_root \<Rightarrow> service_claim \<Rightarrow> epoch_authority_record \<Rightarrow> string \<Rightarrow> string
    \<Rightarrow> string \<Rightarrow> bool" where
  "initial_records_disagree hexdigest root claim auth root_sha stable_sha candidate_sha \<longleftrightarrow>
     \<not> active_service_claim_matches_root hexdigest claim root stable_sha candidate_sha
     \<or> au_changed_by auth \<noteq> cl_operator_owner claim
     \<or> cl_operator_owner claim \<noteq> rt_approved_by root
     \<or> cl_operator_owner claim = cl_workload_creator claim
     \<or> rt_approved_by root = cl_workload_creator claim
     \<or> au_changed_by auth = cl_workload_creator claim
     \<or> au_root_id auth \<noteq> rt_root_id root
     \<or> au_root_sha256 auth \<noteq> root_sha
     \<or> au_current_epoch auth \<noteq> rt_initial_epoch root
     \<or> au_previous_epoch auth \<noteq> None
     \<or> au_revision auth \<noteq> 0
     \<or> au_cause auth \<noteq> EC_ROOT_CREATED
     \<or> cl_claim_request_id claim \<noteq> au_request_id auth
     \<or> cl_claim_evidence_id claim \<noteq> au_evidence_id auth
     \<or> cl_claimed_at claim \<noteq> au_changed_at auth"

definition validate_initial_rollout ::
  "hexdigest \<Rightarrow> target_binding \<Rightarrow> rollout_root \<Rightarrow> service_claim \<Rightarrow> epoch_authority_record \<Rightarrow> string
    \<Rightarrow> check" where
  "validate_initial_rollout hexdigest configured root claim auth verified_candidate_sha =
    (case checks
      [fails_if (\<not> is_sha256 verified_candidate_sha)
         (ValueError ''verified candidate configuration is not a SHA-256 digest''),
       fails_if (cl_candidate_revision_configuration_sha256 claim \<noteq> verified_candidate_sha)
         (ValueError ''verified candidate configuration does not match the claim''),
       fails_if (rt_target root \<noteq> configured \<or> cl_target claim \<noteq> configured
          \<or> au_target auth \<noteq> configured)
         (ValueError ''rollout records do not match the configured target'')] of
       Some e \<Rightarrow> Some e
     | None \<Rightarrow>
        (case root_sha256_of hexdigest root of
           Inl e \<Rightarrow> Some (contract_invalid e)
         | Inr root_sha \<Rightarrow>
            (case rollout_root_target_configuration_sha256 hexdigest root 100 0 of
               Inl e \<Rightarrow> Some e
             | Inr stable_sha \<Rightarrow>
                (case rollout_root_target_configuration_sha256 hexdigest root 0 100 of
                   Inl e \<Rightarrow> Some e
                 | Inr candidate_sha \<Rightarrow>
                     fails_if
                       (initial_records_disagree hexdigest root claim auth root_sha stable_sha
                          candidate_sha)
                       (ValueError ''initial rollout records are not one atomic authority state'')))))"

text \<open>The released claim of another root may be taken over; only version 2 claims are modelled.\<close>

definition validate_released_takeover ::
  "hexdigest \<Rightarrow> target_binding \<Rightarrow> service_claim \<Rightarrow> rollout_root \<Rightarrow> service_claim
    \<Rightarrow> epoch_authority_record \<Rightarrow> string \<Rightarrow> check" where
  "validate_released_takeover hexdigest configured previous root claim auth verified_candidate_sha =
     checks
      [validate_initial_rollout hexdigest configured root claim auth verified_candidate_sha,
       fails_if
         (cl_target previous \<noteq> configured \<or> cl_status previous \<noteq> CS_RELEASED
          \<or> cl_root_id previous = rt_root_id root
          \<or> (case cl_released_at previous of
               None \<Rightarrow> True
             | Some released_at \<Rightarrow> ss_captured_at (rt_stable_snapshot root) \<le> released_at)
          \<or> cl_claimed_at claim < rt_approved_at root)
         (ValueError ''new rollout does not follow one safely released claim'')]"

lemma validate_initial_rollout_None:
  assumes "validate_initial_rollout hexdigest configured root claim auth sha = None"
  shows "cl_status claim = CS_ACTIVE \<and> cl_target claim = configured \<and> au_target auth = configured
    \<and> rt_target root = configured
    \<and> au_root_id auth = rt_root_id root \<and> cl_root_id claim = rt_root_id root
    \<and> au_root_sha256 auth = cl_root_sha256 claim
    \<and> au_revision auth = 0 \<and> au_cause auth = EC_ROOT_CREATED"
  using assms
  by (auto simp: validate_initial_rollout_def initial_records_disagree_def
      active_service_claim_matches_root_def service_claim_matches_root_def
      split: option.splits sum.splits)

end
