(* ===== verification/ReceiptClaims.thy ===== *)
theory ReceiptClaims
  imports RolloutRecords
begin

text \<open>
  Receipt claims: the initial claim and its mutation binding and the one-use proof of a
  direct create (\<open>application/authority_store.py\<close>), and the validation of every replacement
  of a receipt, an authority or a service claim
  (\<open>integrations/google/firestore.py\<close>, the functions before the store class).
\<close>

section \<open>The initial claim\<close>

definition validate_initial_receipt_claim ::
  "hexdigest \<Rightarrow> execution_receipt stored_record \<Rightarrow> check" where
  "validate_initial_receipt_claim hexdigest claimed =
    (let receipt = sr_value claimed; invalid = ValueError ''receipt is not one initial claim'' in
     if sr_revision claimed \<noteq> 0 \<or> er_outcome receipt \<noteq> OC_CLAIMED then Some invalid
     else
       (case receipt_logical_id hexdigest (er_target receipt) (er_idempotency_key receipt) of
          Inl e \<Rightarrow> Some e
        | Inr logical_id \<Rightarrow> fails_if (er_receipt_id receipt \<noteq> logical_id) invalid))"

definition receipt_matches_binding :: "hexdigest \<Rightarrow> execution_receipt \<Rightarrow> mutation_binding \<Rightarrow> bool" where
  "receipt_matches_binding hexdigest receipt binding \<longleftrightarrow>
     er_idempotency_key receipt = mb_idempotency_key binding
     \<and> er_request_id receipt = mb_request_id binding
     \<and> er_root_id receipt = mb_root_id binding
     \<and> er_root_sha256 receipt = mb_root_sha256 binding
     \<and> er_epoch receipt = mb_epoch binding
     \<and> capability_action_value (er_action receipt) = mutation_action_value (mb_action binding)
     \<and> tb_project_id (er_target receipt) = tk_project_id (mb_target binding)
     \<and> tb_region (er_target receipt) = tk_region (mb_target binding)
     \<and> tb_environment (er_target receipt) = tk_environment (mb_target binding)
     \<and> tb_service_name (er_target receipt) = tk_service_name (mb_target binding)
     \<and> er_provider_etag receipt = mb_provider_precondition binding
     \<and> er_plan_sha256 receipt = mb_plan_sha256 binding
     \<and> er_capability_sha256 receipt = mb_capability_sha256 binding
     \<and> er_mutation_sha256 receipt = mutation_identity hexdigest binding
     \<and> er_expected_poststate_sha256 receipt = mb_expected_poststate_sha256 binding"

definition validate_receipt_claim_binding ::
  "hexdigest \<Rightarrow> execution_receipt \<Rightarrow> mutation_binding \<Rightarrow> check" where
  "validate_receipt_claim_binding hexdigest receipt binding =
     checks
      [validate_initial_receipt_claim hexdigest \<lparr>sr_value = receipt, sr_revision = 0\<rparr>,
       fails_if (\<not> receipt_matches_binding hexdigest receipt binding)
         (ValueError ''receipt claim does not match its mutation binding'')]"

section \<open>The proof of a direct create\<close>

record direct_receipt_create =
  dc_claimed_receipt :: "execution_receipt stored_record"
  dc_binding :: mutation_binding
  dc_attempt_id :: "string option"
  dc_request_sha256 :: "string option"
  dc_available :: bool

text \<open>\<open>DirectReceiptCreate.__init__\<close> with the issuing key.\<close>

definition new_direct_receipt_create ::
  "hexdigest \<Rightarrow> execution_receipt stored_record \<Rightarrow> mutation_binding \<Rightarrow> string option \<Rightarrow> string option
    \<Rightarrow> direct_receipt_create result" where
  "new_direct_receipt_create hexdigest claimed binding attempt_id request_sha256 =
    (case checks
      [validate_initial_receipt_claim hexdigest claimed,
       fails_if (\<not> receipt_matches_binding hexdigest (sr_value claimed) binding)
         (ValueError ''direct receipt create does not match its mutation binding''),
       fails_if ((attempt_id = None) \<noteq> (request_sha256 = None))
         (ValueError ''direct receipt-create transport binding is incomplete''),
       fails_if (case attempt_id of None \<Rightarrow> False
           | Some a \<Rightarrow> a = [] \<or> a \<noteq> py_strip a \<or> length a > 128)
         (ValueError ''direct receipt-create attempt binding is invalid''),
       fails_if (case request_sha256 of None \<Rightarrow> False | Some s \<Rightarrow> \<not> is_sha256 s)
         (ValueError ''direct receipt-create request binding is invalid'')] of
       Some e \<Rightarrow> Inl e
     | None \<Rightarrow>
         Inr \<lparr>dc_claimed_receipt = claimed, dc_binding = binding, dc_attempt_id = attempt_id,
              dc_request_sha256 = request_sha256, dc_available = True\<rparr>)"

definition from_direct_store_create ::
  "hexdigest \<Rightarrow> execution_receipt stored_record \<Rightarrow> mutation_binding \<Rightarrow> direct_receipt_create result" where
  "from_direct_store_create hexdigest claimed binding =
     new_direct_receipt_create hexdigest claimed binding None None"

text \<open>\<open>_take_claim\<close>: the proof is consumed by the first caller; the object is left spent.\<close>

definition take_claim ::
  "direct_receipt_create \<Rightarrow>
     (execution_receipt stored_record \<times> mutation_binding) result \<times> direct_receipt_create" where
  "take_claim d =
    (if \<not> dc_available d
     then (Inl (ValueError ''direct receipt-create proof is already consumed''), d)
     else (Inr (dc_claimed_receipt d, dc_binding d), d\<lparr>dc_available := False\<rparr>))"

section \<open>Replacing a receipt\<close>

fun receipt_transitions :: "receipt_outcome \<Rightarrow> receipt_outcome set" where
  "receipt_transitions OC_CLAIMED = {OC_DENIED, OC_APPLIED, OC_FAILED_SAFE, OC_AMBIGUOUS}"
| "receipt_transitions OC_AMBIGUOUS = {OC_VERIFIED, OC_AMBIGUOUS}"
| "receipt_transitions OC_APPLIED = {OC_VERIFIED, OC_AMBIGUOUS}"
| "receipt_transitions _ = {}"

text \<open>The tuple of immutable fields, as the receipt with every other field blanked.\<close>

definition receipt_semantic_binding :: "execution_receipt \<Rightarrow> execution_receipt" where
  "receipt_semantic_binding r =
     r\<lparr>er_outcome := OC_CLAIMED, er_reason_code := None, er_provider_operation := None,
       er_observed_etag := None, er_observed_authority_epoch := None, er_created_at := [],
       er_updated_at := [], er_evidence_ids := []\<rparr>"

definition receipt_cas_binding :: "execution_receipt \<Rightarrow> execution_receipt \<times> string" where
  "receipt_cas_binding r = (receipt_semantic_binding r, er_created_at r)"

definition validate_receipt_identity ::
  "hexdigest \<Rightarrow> target_binding \<Rightarrow> execution_receipt \<Rightarrow> string result" where
  "validate_receipt_identity hexdigest configured r =
    (if er_target r \<noteq> configured then Inl (ValueError ''receipt does not match the configured target'')
     else
       bindR (receipt_logical_id hexdigest configured (er_idempotency_key r))
         (\<lambda>logical_id.
            if er_receipt_id r \<noteq> logical_id
            then Inl (ValueError ''receipt identifier does not match its idempotency claim'')
            else Inr logical_id))"

definition check_of :: "'a result \<Rightarrow> check" where
  "check_of r = (case r of Inl e \<Rightarrow> Some e | Inr _ \<Rightarrow> None)"

lemma check_of_None [simp, check_simps]: "check_of r = None \<longleftrightarrow> (\<exists>x. r = Inr x)"
  by (cases r) (auto simp: check_of_def)

definition is_prefix_of :: "'a list \<Rightarrow> 'a list \<Rightarrow> bool" where
  "is_prefix_of xs ys \<longleftrightarrow> take (length xs) ys = xs"

definition validate_receipt_replacement ::
  "hexdigest \<Rightarrow> target_binding \<Rightarrow> execution_receipt stored_record \<Rightarrow> execution_receipt \<Rightarrow> check" where
  "validate_receipt_replacement hexdigest configured expected replacement =
    (let current = sr_value expected in
     checks
      [check_of (validate_receipt_identity hexdigest configured current),
       check_of (validate_receipt_identity hexdigest configured replacement),
       fails_if (receipt_cas_binding current \<noteq> receipt_cas_binding replacement)
         (ValueError ''receipt replacement changes an immutable binding''),
       fails_if (er_outcome replacement \<notin> receipt_transitions (er_outcome current))
         (ValueError ''receipt replacement is not a permitted forward transition''),
       fails_if (er_updated_at replacement < er_updated_at current)
         (ValueError ''receipt replacement moves time backwards''),
       fails_if (\<not> is_prefix_of (er_evidence_ids current) (er_evidence_ids replacement))
         (ValueError ''receipt replacement removes existing evidence''),
       fails_if
         ((er_observed_authority_epoch current \<noteq> None
            \<and> er_observed_authority_epoch replacement \<noteq> er_observed_authority_epoch current)
          \<or> (er_outcome current \<noteq> OC_CLAIMED \<and> er_observed_authority_epoch current = None
             \<and> er_observed_authority_epoch replacement \<noteq> None))
         (ValueError ''receipt replacement changes its final authority observation''),
       fails_if
         ((er_provider_operation current \<noteq> None
            \<and> er_provider_operation replacement \<noteq> er_provider_operation current)
          \<or> (er_outcome current \<noteq> OC_CLAIMED \<and> er_provider_operation current = None
             \<and> er_provider_operation replacement \<noteq> None))
         (ValueError ''receipt replacement changes its provider operation''),
       fails_if (replacement = current)
         (ValueError ''receipt replacement does not change durable state'')])"

definition reject_generic_readback_resolution_marker :: "execution_receipt \<Rightarrow> check" where
  "reject_generic_readback_resolution_marker replacement =
     fails_if (list_ex (starts_with ''cgrrb:'') (er_evidence_ids replacement))
       (ValueError ''readback resolution evidence requires its dedicated operation'')"

text \<open>\<open>^cgrrb:[0-9a-f]{64}$\<close>.\<close>

definition readback_resolution_marker :: "string \<Rightarrow> bool" where
  "readback_resolution_marker s \<longleftrightarrow> starts_with ''cgrrb:'' s \<and> is_sha256 (drop 6 s)"

definition validate_ambiguous_receipt_resolution ::
  "hexdigest \<Rightarrow> target_binding \<Rightarrow> execution_receipt stored_record \<Rightarrow> execution_receipt
    \<Rightarrow> epoch_authority_record stored_record \<Rightarrow> service_claim stored_record \<Rightarrow> check" where
  "validate_ambiguous_receipt_resolution hexdigest configured expected replacement expected_auth
      expected_claim =
    (let before = sr_value expected; auth = sr_value expected_auth; claim = sr_value expected_claim in
     checks
      [validate_receipt_replacement hexdigest configured expected replacement,
       fails_if
         (er_outcome before \<noteq> OC_AMBIGUOUS
          \<or> er_reason_code before \<noteq> Some RC_PROVIDER_OUTCOME_AMBIGUOUS
          \<or> er_provider_operation before = None
          \<or> er_observed_etag before = None
          \<or> er_observed_authority_epoch before \<noteq> Some (er_epoch before)
          \<or> er_outcome replacement \<noteq> OC_VERIFIED
          \<or> er_reason_code replacement \<noteq> None
          \<or> er_observed_etag replacement = None
          \<or> length (er_evidence_ids replacement) \<noteq> length (er_evidence_ids before) + 1
          \<or> butlast (er_evidence_ids replacement) \<noteq> er_evidence_ids before
          \<or> \<not> readback_resolution_marker (last (er_evidence_ids replacement))
          \<or> au_target auth \<noteq> configured
          \<or> au_root_id auth \<noteq> er_root_id before
          \<or> au_root_sha256 auth \<noteq> er_root_sha256 before
          \<or> au_current_epoch auth \<noteq> er_epoch before
          \<or> au_revision auth \<noteq> sr_revision expected_auth
          \<or> cl_status claim \<noteq> CS_ACTIVE
          \<or> sr_revision expected_claim mod 3 \<noteq> 0
          \<or> cl_target claim \<noteq> configured
          \<or> cl_root_id claim \<noteq> er_root_id before
          \<or> cl_root_sha256 claim \<noteq> er_root_sha256 before)
         (ValueError ''ambiguous receipt resolution fence is invalid'')])"

section \<open>Replacing an authority or a claim\<close>

definition validate_authority_advance ::
  "target_binding \<Rightarrow> epoch_authority_record stored_record \<Rightarrow> epoch_authority_record \<Rightarrow> check" where
  "validate_authority_advance configured expected replacement =
    (let current = sr_value expected in
     checks
      [fails_if (sr_revision expected \<noteq> au_revision current)
         (ValueError ''authority storage and domain revisions differ''),
       fails_if (au_target current \<noteq> configured \<or> au_target replacement \<noteq> configured)
         (ValueError ''authority does not match the configured target''),
       fails_if
         (au_root_id replacement \<noteq> au_root_id current
          \<or> au_root_sha256 replacement \<noteq> au_root_sha256 current
          \<or> au_previous_epoch replacement \<noteq> Some (au_current_epoch current)
          \<or> au_current_epoch replacement \<noteq> au_current_epoch current + 1
          \<or> au_revision replacement \<noteq> au_revision current + 1
          \<or> au_cause replacement = EC_ROOT_CREATED
          \<or> au_changed_at replacement < au_changed_at current)
         (ValueError ''authority replacement is not a monotonic advance'')])"

text \<open>The tuple of ownership fields, as the claim with every release field blanked.\<close>

definition claim_ownership_binding :: "service_claim \<Rightarrow> service_claim" where
  "claim_ownership_binding c =
     c\<lparr>cl_status := CS_ACTIVE, cl_release_fence_epoch := None,
       cl_release_fence_authority_revision := None, cl_release_fenced_by := None,
       cl_release_fence_request_id := None, cl_release_fence_evidence_id := None,
       cl_release_fenced_at := None, cl_released_by := None, cl_release_request_id := None,
       cl_release_evidence_id := None, cl_released_at := None, cl_terminal_root_proof := None,
       cl_target_classification_proof := None\<rparr>"

definition validate_claim_fence ::
  "target_binding \<Rightarrow> service_claim stored_record \<Rightarrow> service_claim \<Rightarrow> check" where
  "validate_claim_fence configured expected replacement =
    (let current = sr_value expected in
     checks
      [fails_if (cl_target current \<noteq> configured \<or> cl_target replacement \<noteq> configured)
         (ValueError ''service claim does not match the configured target''),
       fails_if
         (cl_status current \<noteq> CS_ACTIVE \<or> cl_status replacement \<noteq> CS_RELEASING
          \<or> claim_ownership_binding replacement \<noteq> claim_ownership_binding current)
         (ValueError ''service claim replacement is not an exact epoch fence'')])"

definition validate_claim_fence_authority ::
  "target_binding \<Rightarrow> service_claim stored_record \<Rightarrow> service_claim
    \<Rightarrow> epoch_authority_record stored_record \<Rightarrow> epoch_authority_record \<Rightarrow> check" where
  "validate_claim_fence_authority configured expected_claim replacement_claim expected_auth
      replacement_auth =
    (let current_claim = sr_value expected_claim; current_auth = sr_value expected_auth in
     checks
      [validate_claim_fence configured expected_claim replacement_claim,
       validate_authority_advance configured expected_auth replacement_auth,
       fails_if
         (cl_root_id current_claim \<noteq> au_root_id current_auth
          \<or> cl_root_sha256 current_claim \<noteq> au_root_sha256 current_auth
          \<or> cl_root_id replacement_claim \<noteq> au_root_id replacement_auth
          \<or> cl_root_sha256 replacement_claim \<noteq> au_root_sha256 replacement_auth
          \<or> cl_release_fence_epoch replacement_claim \<noteq> Some (au_current_epoch replacement_auth)
          \<or> cl_release_fence_authority_revision replacement_claim \<noteq> Some (au_revision replacement_auth)
          \<or> cl_release_fenced_by replacement_claim \<noteq> Some (au_changed_by replacement_auth)
          \<or> cl_release_fence_request_id replacement_claim \<noteq> Some (au_request_id replacement_auth)
          \<or> cl_release_fence_evidence_id replacement_claim \<noteq> Some (au_evidence_id replacement_auth)
          \<or> cl_release_fenced_at replacement_claim \<noteq> Some (au_changed_at replacement_auth)
          \<or> au_cause replacement_auth \<noteq> EC_OPERATOR_REVOCATION)
         (ValueError ''service claim fence and authority advance are not one transition'')])"

definition release_changes_fence :: "service_claim \<Rightarrow> service_claim \<Rightarrow> bool" where
  "release_changes_fence current replacement \<longleftrightarrow>
     cl_release_fence_epoch replacement \<noteq> cl_release_fence_epoch current
     \<or> cl_release_fence_authority_revision replacement \<noteq> cl_release_fence_authority_revision current
     \<or> cl_release_fenced_by replacement \<noteq> cl_release_fenced_by current
     \<or> cl_release_fence_request_id replacement \<noteq> cl_release_fence_request_id current
     \<or> cl_release_fence_evidence_id replacement \<noteq> cl_release_fence_evidence_id current
     \<or> cl_release_fenced_at replacement \<noteq> cl_release_fenced_at current
     \<or> cl_terminal_root_proof replacement \<noteq> cl_terminal_root_proof current"

definition validate_claim_release ::
  "target_binding \<Rightarrow> service_claim stored_record \<Rightarrow> service_claim
    \<Rightarrow> epoch_authority_record stored_record \<Rightarrow> check" where
  "validate_claim_release configured expected_claim replacement expected_auth =
    (let current = sr_value expected_claim; auth = sr_value expected_auth in
     checks
      [fails_if (cl_target current \<noteq> configured \<or> cl_target replacement \<noteq> configured)
         (ValueError ''service claim does not match the configured target''),
       fails_if
         (cl_status current \<noteq> CS_RELEASING
          \<or> cl_status replacement \<noteq> CS_RELEASED
          \<or> claim_ownership_binding replacement \<noteq> claim_ownership_binding current
          \<or> release_changes_fence current replacement
          \<or> au_target auth \<noteq> cl_target current
          \<or> au_root_id auth \<noteq> cl_root_id current
          \<or> au_root_sha256 auth \<noteq> cl_root_sha256 current
          \<or> Some (au_current_epoch auth) \<noteq> cl_release_fence_epoch current
          \<or> Some (au_revision auth) \<noteq> cl_release_fence_authority_revision current
          \<or> sr_revision expected_auth \<noteq> au_revision auth
          \<or> au_cause auth \<noteq> EC_OPERATOR_REVOCATION
          \<or> Some (au_changed_by auth) \<noteq> cl_release_fenced_by current
          \<or> Some (au_request_id auth) \<noteq> cl_release_fence_request_id current
          \<or> Some (au_evidence_id auth) \<noteq> cl_release_fence_evidence_id current
          \<or> Some (au_changed_at auth) \<noteq> cl_release_fenced_at current)
         (ValueError ''service claim replacement is not an exact fenced release'')])"

section \<open>What a valid replacement keeps\<close>

lemma receipt_semantic_binding_fields:
  "receipt_semantic_binding r = receipt_semantic_binding r' \<longleftrightarrow>
     er_receipt_id r = er_receipt_id r' \<and> er_request_id r = er_request_id r'
     \<and> er_idempotency_key r = er_idempotency_key r' \<and> er_capability_sha256 r = er_capability_sha256 r'
     \<and> er_mutation_sha256 r = er_mutation_sha256 r' \<and> er_plan_sha256 r = er_plan_sha256 r'
     \<and> er_expected_poststate_sha256 r = er_expected_poststate_sha256 r' \<and> er_target r = er_target r'
     \<and> er_root_id r = er_root_id r' \<and> er_root_sha256 r = er_root_sha256 r' \<and> er_epoch r = er_epoch r'
     \<and> er_action r = er_action r' \<and> er_provider_etag r = er_provider_etag r'
     \<and> er_dispatch_not_after r = er_dispatch_not_after r'"
  by (cases r; cases r') (simp add: receipt_semantic_binding_def)

end
