(* ===== verification/StoreDocuments.thy ===== *)
theory StoreDocuments
  imports ReceiptClaims
begin

text \<open>
  Documents of the authority database: the identities of four record families and the validated
  wrapper every write goes through (\<open>contracts/storage.py\<close>, and \<open>_prepared_document\<close> of
  \<open>integrations/google/firestore.py\<close>). A wrapper keeps the payload as a value: the canonical text
  and its digest are functions of it. The mutation identity, a fresh random one in the code, is an argument.
\<close>

section \<open>Identities\<close>

definition service_claim_logical_id :: "hexdigest \<Rightarrow> target_binding \<Rightarrow> string result" where
  "service_claim_logical_id hexdigest target =
    (case require_service_claim_target target of
       Some e \<Rightarrow> Inl e
     | None \<Rightarrow>
        (case contract_sha256 hexdigest TARGET_BINDING_V1 (target_binding_json target) of
           Inl e \<Rightarrow> Inl (contract_invalid e)
         | Inr digest \<Rightarrow> Inr digest))"

definition service_claim_document_id :: "hexdigest \<Rightarrow> target_binding \<Rightarrow> string result" where
  "service_claim_document_id hexdigest target =
     bindR (service_claim_logical_id hexdigest target) (document_id hexdigest SK_SERVICE_CLAIM)"

definition rollout_root_document_id :: "hexdigest \<Rightarrow> string \<Rightarrow> string result" where
  "rollout_root_document_id hexdigest root_id = document_id hexdigest SK_ROLLOUT_ROOT root_id"

definition epoch_authority_document_id :: "hexdigest \<Rightarrow> string \<Rightarrow> string result" where
  "epoch_authority_document_id hexdigest root_id = document_id hexdigest SK_EPOCH_AUTHORITY root_id"

section \<open>Documents\<close>

record 'a document =
  doc_value :: 'a
  doc_revision :: int
  doc_mutation_id :: string

definition stored_of :: "'a document \<Rightarrow> 'a stored_record" where
  "stored_of d = \<lparr>sr_value = doc_value d, sr_revision = doc_revision d\<rparr>"

definition new_document :: "int \<Rightarrow> string \<Rightarrow> 'a \<Rightarrow> 'a document" where
  "new_document revision mutation_id x =
     \<lparr>doc_value = x, doc_revision = revision, doc_mutation_id = mutation_id\<rparr>"

text \<open>The wrapper's fields, then the rules of its record family.\<close>

definition validate_wrapper_fields :: "string \<Rightarrow> 'a document \<Rightarrow> check" where
  "validate_wrapper_fields logical_id d =
     checks
      [field ''logical_id'' (is_identifier logical_id),
       field ''revision'' (0 \<le> doc_revision d \<and> doc_revision d \<le> MAX_SAFE_INTEGER),
       field ''mutation_id'' (is_identifier (doc_mutation_id d))]"

definition wrong_identity :: "'a result \<Rightarrow> 'a \<Rightarrow> check" where
  "wrong_identity expected logical_id =
    (case expected of
       Inl e \<Rightarrow> Some e
     | Inr l \<Rightarrow> fails_if (logical_id \<noteq> l)
         (ValueError ''authority storage payload identity does not match''))"

definition validate_root_wrapper :: "string \<Rightarrow> rollout_root document \<Rightarrow> check" where
  "validate_root_wrapper logical_id d =
     checks
      [validate_wrapper_fields logical_id d,
       validate_rollout_root (doc_value d),
       fails_if (doc_revision d \<noteq> 0)
         (ValueError ''immutable authority record must remain at revision zero''),
       wrong_identity (Inr (rt_root_id (doc_value d))) logical_id]"

definition validate_authority_wrapper :: "string \<Rightarrow> epoch_authority_record document \<Rightarrow> check" where
  "validate_authority_wrapper logical_id d =
     checks
      [validate_wrapper_fields logical_id d,
       validate_authority_record (doc_value d),
       fails_if (doc_revision d \<noteq> au_revision (doc_value d))
         (ValueError ''authority storage and payload revisions do not match''),
       wrong_identity (Inr (au_root_id (doc_value d))) logical_id]"

fun status_remainder :: "service_claim_status \<Rightarrow> int" where
  "status_remainder CS_ACTIVE = 0"
| "status_remainder CS_RELEASING = 1"
| "status_remainder CS_RELEASED = 2"

definition validate_claim_wrapper :: "hexdigest \<Rightarrow> string \<Rightarrow> service_claim document \<Rightarrow> check" where
  "validate_claim_wrapper hexdigest logical_id d =
     checks
      [validate_wrapper_fields logical_id d,
       validate_service_claim (doc_value d),
       fails_if (doc_revision d mod 3 \<noteq> status_remainder (cl_status (doc_value d)))
         (ValueError ''service claim lifecycle and storage revision do not match''),
       wrong_identity (service_claim_logical_id hexdigest (cl_target (doc_value d))) logical_id]"

definition validate_receipt_wrapper :: "hexdigest \<Rightarrow> string \<Rightarrow> execution_receipt document \<Rightarrow> check" where
  "validate_receipt_wrapper hexdigest logical_id d =
    (let receipt = doc_value d in
     case checks
      [validate_wrapper_fields logical_id d,
       validate_execution_receipt receipt] of
       Some e \<Rightarrow> Some e
     | None \<Rightarrow>
        (case receipt_logical_id hexdigest (er_target receipt) (er_idempotency_key receipt) of
           Inl e \<Rightarrow> Some e
         | Inr l \<Rightarrow>
             checks
              [fails_if (er_receipt_id receipt \<noteq> l)
                 (ValueError ''execution receipt identity does not match its claim key''),
               wrong_identity (Inr l) logical_id]))"

section \<open>Prepared documents\<close>

text \<open>The document identity and the validated document of a write.\<close>

definition prepared :: "string result \<Rightarrow> string result \<Rightarrow> (string \<Rightarrow> 'a document \<Rightarrow> check) \<Rightarrow> 'a document
    \<Rightarrow> (string \<times> 'a document) result" where
  "prepared logical doc_id validate d =
     bindR logical (\<lambda>l. bindR doc_id (\<lambda>k.
     bindR (construct (validate l) d) (\<lambda>d. Inr (k, d))))"

definition prepare_root ::
  "hexdigest \<Rightarrow> string \<Rightarrow> rollout_root \<Rightarrow> (string \<times> rollout_root document) result" where
  "prepare_root hexdigest mutation_id root =
     prepared (Inr (rt_root_id root)) (rollout_root_document_id hexdigest (rt_root_id root))
       validate_root_wrapper (new_document 0 mutation_id root)"

definition prepare_claim ::
  "hexdigest \<Rightarrow> target_binding \<Rightarrow> int \<Rightarrow> string \<Rightarrow> service_claim
    \<Rightarrow> (string \<times> service_claim document) result" where
  "prepare_claim hexdigest configured revision mutation_id claim =
     prepared (service_claim_logical_id hexdigest configured)
       (service_claim_document_id hexdigest configured)
       (validate_claim_wrapper hexdigest) (new_document revision mutation_id claim)"

definition prepare_authority ::
  "hexdigest \<Rightarrow> int \<Rightarrow> string \<Rightarrow> epoch_authority_record
    \<Rightarrow> (string \<times> epoch_authority_record document) result" where
  "prepare_authority hexdigest revision mutation_id auth =
     prepared (Inr (au_root_id auth)) (epoch_authority_document_id hexdigest (au_root_id auth))
       validate_authority_wrapper (new_document revision mutation_id auth)"

definition prepare_receipt ::
  "hexdigest \<Rightarrow> target_binding \<Rightarrow> int \<Rightarrow> string \<Rightarrow> execution_receipt
    \<Rightarrow> (string \<times> execution_receipt document) result" where
  "prepare_receipt hexdigest configured revision mutation_id receipt =
     prepared (receipt_logical_id hexdigest configured (er_idempotency_key receipt))
       (receipt_document_id hexdigest configured (er_idempotency_key receipt))
       (validate_receipt_wrapper hexdigest) (new_document revision mutation_id receipt)"

section \<open>What a prepared document is\<close>

lemma bindR_eq_Inr: "bindR r f = Inr y \<longleftrightarrow> (\<exists>x. r = Inr x \<and> f x = Inr y)"
  by (cases r) (auto simp: bindR_def)

lemma new_document_sel [simp]:
  "doc_value (new_document n m x) = x"
  "doc_revision (new_document n m x) = n"
  "doc_mutation_id (new_document n m x) = m"
  by (simp_all add: new_document_def)

lemma stored_of_sel [simp]:
  "sr_value (stored_of d) = doc_value d"
  "sr_revision (stored_of d) = doc_revision d"
  by (simp_all add: stored_of_def)

lemma prepared_Inr:
  "prepared l k validate d = Inr (k', d') \<longleftrightarrow>
     (\<exists>l'. l = Inr l' \<and> k = Inr k' \<and> d' = d \<and> validate l' d = None)"
  by (auto simp: prepared_def bindR_eq_Inr construct_def split: option.splits)

lemma prepare_receipt_Inr:
  assumes "prepare_receipt hexdigest configured n m r = Inr (k, d)"
  shows "d = new_document n m r \<and> wf_receipt r \<and> 0 \<le> n
    \<and> receipt_document_id hexdigest configured (er_idempotency_key r) = Inr k"
  using assms
  by (auto simp: prepare_receipt_def prepared_Inr validate_receipt_wrapper_def wf_receipt_def
      validate_wrapper_fields_def Let_def split: option.splits)

lemma prepare_authority_Inr:
  assumes "prepare_authority hexdigest n m a = Inr (k, d)"
  shows "d = new_document n m a \<and> wf_authority_record a \<and> n = au_revision a
    \<and> epoch_authority_document_id hexdigest (au_root_id a) = Inr k"
  using assms
  by (auto simp: prepare_authority_def prepared_Inr validate_authority_wrapper_def wf_authority_record_def)

lemma prepare_claim_Inr:
  assumes "prepare_claim hexdigest configured n m c = Inr (k, d)"
  shows "d = new_document n m c \<and> wf_claim c \<and> 0 \<le> n \<and> n mod 3 = status_remainder (cl_status c)
    \<and> service_claim_document_id hexdigest configured = Inr k"
  using assms
  by (auto simp: prepare_claim_def prepared_Inr validate_claim_wrapper_def wf_claim_def
      validate_wrapper_fields_def)

lemma prepare_root_Inr:
  assumes "prepare_root hexdigest m r = Inr (k, d)"
  shows "d = new_document 0 m r \<and> rollout_root_document_id hexdigest (rt_root_id r) = Inr k"
  using assms by (auto simp: prepare_root_def prepared_Inr)

end
