(* ===== verification/AuthorityStore.thy ===== *)
theory AuthorityStore
  imports StoreDocuments
begin

text \<open>
  The Firestore authority store, \<open>integrations/google/firestore.py\<close>, on four of its
  collections: rollout roots, service claims, epoch authorities and execution receipts. Firestore itself
  is outside the repository: what it did with a transaction is an argument of an operation
  (\<open>tx_fate\<close>), and the database an operation reads back after an unconfirmed transaction is
  another one (\<open>readback\<close>), so that nothing is assumed of what other clients do in between.
  A transaction applies completely or not at all. The mutation identities of the documents an
  operation prepares are arguments too.
\<close>

section \<open>Databases\<close>

record authority_db =
  db_roots :: "string \<rightharpoonup> rollout_root document"
  db_claims :: "string \<rightharpoonup> service_claim document"
  db_authorities :: "string \<rightharpoonup> epoch_authority_record document"
  db_receipts :: "string \<rightharpoonup> execution_receipt document"

definition holds_stored :: "('k \<rightharpoonup> 'a document) \<Rightarrow> 'k \<Rightarrow> 'a stored_record \<Rightarrow> bool" where
  "holds_stored coll k s \<longleftrightarrow> (case coll k of None \<Rightarrow> False | Some d \<Rightarrow> stored_of d = s)"

section \<open>Transactions\<close>

text \<open>
  The transaction bodies the operations pass to \<open>_run_transaction\<close>, with the document keys they touch.
  Creating a document that exists, a failed \<open>update_time\<close> precondition and a raised
  \<open>_ExpectedStateMismatch\<close> all reject the transaction: \<open>None\<close>.
\<close>

datatype db_tx =
    CreateReceipt string "execution_receipt document"
  | ReplaceReceipt string "execution_receipt stored_record" "execution_receipt document"
  | ResolveReceipt string "execution_receipt stored_record" "execution_receipt document"
      string "epoch_authority_record stored_record" string "service_claim stored_record"
  | AdvanceAuthority string "epoch_authority_record document" "epoch_authority_record document"
  | FenceClaim string "service_claim stored_record" "service_claim document"
      string "epoch_authority_record stored_record" "epoch_authority_record document"
  | ReleaseClaim string "service_claim stored_record" "service_claim document"
      string "epoch_authority_record stored_record"
  | CreateRollout string "rollout_root document" string "service_claim document"
      string "epoch_authority_record document"
  | TakeOverClaim string "rollout_root document" string "service_claim stored_record"
      "service_claim document" string "epoch_authority_record document"

definition create_receipt_body ::
  "string \<Rightarrow> execution_receipt document \<Rightarrow> authority_db \<Rightarrow> authority_db option" where
  "create_receipt_body k d db =
     (if db_receipts db k \<noteq> None then None
      else Some (db\<lparr>db_receipts := (db_receipts db)(k \<mapsto> d)\<rparr>))"

definition replace_receipt_body ::
  "string \<Rightarrow> execution_receipt stored_record \<Rightarrow> execution_receipt document \<Rightarrow> authority_db
    \<Rightarrow> authority_db option" where
  "replace_receipt_body k expected d db =
     (if \<not> holds_stored (db_receipts db) k expected then None
      else Some (db\<lparr>db_receipts := (db_receipts db)(k \<mapsto> d)\<rparr>))"

definition resolve_receipt_body ::
  "string \<Rightarrow> execution_receipt stored_record \<Rightarrow> execution_receipt document
    \<Rightarrow> string \<Rightarrow> epoch_authority_record stored_record \<Rightarrow> string \<Rightarrow> service_claim stored_record
    \<Rightarrow> authority_db \<Rightarrow> authority_db option" where
  "resolve_receipt_body k expected d ka expected_auth kc expected_claim db =
     (if \<not> holds_stored (db_receipts db) k expected
         \<or> \<not> holds_stored (db_authorities db) ka expected_auth
         \<or> \<not> holds_stored (db_claims db) kc expected_claim then None
      else Some (db\<lparr>db_receipts := (db_receipts db)(k \<mapsto> d)\<rparr>))"

definition advance_authority_body ::
  "string \<Rightarrow> epoch_authority_record document \<Rightarrow> epoch_authority_record document \<Rightarrow> authority_db
    \<Rightarrow> authority_db option" where
  "advance_authority_body k seen d db =
     (if db_authorities db k \<noteq> Some seen then None
      else Some (db\<lparr>db_authorities := (db_authorities db)(k \<mapsto> d)\<rparr>))"

definition fence_claim_body ::
  "string \<Rightarrow> service_claim stored_record \<Rightarrow> service_claim document
    \<Rightarrow> string \<Rightarrow> epoch_authority_record stored_record \<Rightarrow> epoch_authority_record document
    \<Rightarrow> authority_db \<Rightarrow> authority_db option" where
  "fence_claim_body kc expected_claim dc ka expected_auth da db =
     (if \<not> holds_stored (db_claims db) kc expected_claim
         \<or> \<not> holds_stored (db_authorities db) ka expected_auth then None
      else Some (db\<lparr>db_claims := (db_claims db)(kc \<mapsto> dc),
                    db_authorities := (db_authorities db)(ka \<mapsto> da)\<rparr>))"

definition release_claim_body ::
  "string \<Rightarrow> service_claim stored_record \<Rightarrow> service_claim document
    \<Rightarrow> string \<Rightarrow> epoch_authority_record stored_record \<Rightarrow> authority_db \<Rightarrow> authority_db option" where
  "release_claim_body kc expected_claim dc ka expected_auth db =
     (if \<not> holds_stored (db_claims db) kc expected_claim
         \<or> \<not> holds_stored (db_authorities db) ka expected_auth then None
      else Some (db\<lparr>db_claims := (db_claims db)(kc \<mapsto> dc)\<rparr>))"

definition create_rollout_body ::
  "string \<Rightarrow> rollout_root document \<Rightarrow> string \<Rightarrow> service_claim document
    \<Rightarrow> string \<Rightarrow> epoch_authority_record document \<Rightarrow> authority_db \<Rightarrow> authority_db option" where
  "create_rollout_body kr dr kc dc ka da db =
     (if db_roots db kr \<noteq> None \<or> db_claims db kc \<noteq> None \<or> db_authorities db ka \<noteq> None then None
      else Some (db\<lparr>db_roots := (db_roots db)(kr \<mapsto> dr), db_claims := (db_claims db)(kc \<mapsto> dc),
                    db_authorities := (db_authorities db)(ka \<mapsto> da)\<rparr>))"

definition take_over_body ::
  "string \<Rightarrow> rollout_root document \<Rightarrow> string \<Rightarrow> service_claim stored_record \<Rightarrow> service_claim document
    \<Rightarrow> string \<Rightarrow> epoch_authority_record document \<Rightarrow> authority_db \<Rightarrow> authority_db option" where
  "take_over_body kr dr kc expected_claim dc ka da db =
     (if \<not> holds_stored (db_claims db) kc expected_claim
         \<or> db_roots db kr \<noteq> None \<or> db_authorities db ka \<noteq> None then None
      else Some (db\<lparr>db_roots := (db_roots db)(kr \<mapsto> dr), db_claims := (db_claims db)(kc \<mapsto> dc),
                    db_authorities := (db_authorities db)(ka \<mapsto> da)\<rparr>))"

lemmas transaction_bodies [simp] = create_receipt_body_def replace_receipt_body_def
  resolve_receipt_body_def advance_authority_body_def fence_claim_body_def release_claim_body_def
  create_rollout_body_def take_over_body_def

fun apply_tx :: "db_tx \<Rightarrow> authority_db \<Rightarrow> authority_db option" where
  "apply_tx (CreateReceipt k d) db = create_receipt_body k d db"
| "apply_tx (ReplaceReceipt k expected d) db = replace_receipt_body k expected d db"
| "apply_tx (ResolveReceipt k expected d ka expected_auth kc expected_claim) db =
     resolve_receipt_body k expected d ka expected_auth kc expected_claim db"
| "apply_tx (AdvanceAuthority k seen d) db = advance_authority_body k seen d db"
| "apply_tx (FenceClaim kc expected_claim dc ka expected_auth da) db =
     fence_claim_body kc expected_claim dc ka expected_auth da db"
| "apply_tx (ReleaseClaim kc expected_claim dc ka expected_auth) db =
     release_claim_body kc expected_claim dc ka expected_auth db"
| "apply_tx (CreateRollout kr dr kc dc ka da) db = create_rollout_body kr dr kc dc ka da db"
| "apply_tx (TakeOverClaim kr dr kc expected_claim dc ka da) db =
     take_over_body kr dr kc expected_claim dc ka da db"

text \<open>
  What the transaction runner reported and whether the body had been applied. A confirmed
  transaction was applied; after a reported contention, a failed read inside it, or any
  other failure or timeout it may or may not have been.
\<close>

datatype tx_fate = TxConfirmed | TxContended bool | TxCorruptRead | TxLost bool

datatype store_error = SE_CONFLICT | SE_CORRUPT_RECORD | SE_OUTCOME_UNKNOWN | SE_UNAVAILABLE

datatype store_failure = Raised py_error | StoreError store_error

datatype commit_disposition = CD_DIRECT_CONFIRMED | CD_READBACK_RESOLVED

record readback =
  rb_db :: authority_db
  rb_failure :: "store_error option"

text \<open>\<open>_resolve_ambiguous\<close> classifies each document it reads back.\<close>

datatype read_match = RM_same | RM_competing_revision | RM_other

definition compare_prepared :: "'a document option \<Rightarrow> 'a document \<Rightarrow> read_match" where
  "compare_prepared current expected =
     (case current of
        None \<Rightarrow> RM_other
      | Some d \<Rightarrow>
          if d = expected then RM_same
          else if doc_revision d = doc_revision expected then RM_competing_revision
          else RM_other)"

fun tx_matches :: "db_tx \<Rightarrow> authority_db \<Rightarrow> read_match list" where
  "tx_matches (CreateReceipt k d) db = [compare_prepared (db_receipts db k) d]"
| "tx_matches (ReplaceReceipt k _ d) db = [compare_prepared (db_receipts db k) d]"
| "tx_matches (ResolveReceipt k _ d _ _ _ _) db = [compare_prepared (db_receipts db k) d]"
| "tx_matches (AdvanceAuthority k _ d) db = [compare_prepared (db_authorities db k) d]"
| "tx_matches (FenceClaim kc _ dc ka _ da) db =
     [compare_prepared (db_claims db kc) dc, compare_prepared (db_authorities db ka) da]"
| "tx_matches (ReleaseClaim kc _ dc _ _) db = [compare_prepared (db_claims db kc) dc]"
| "tx_matches (CreateRollout kr dr kc dc ka da) db =
     [compare_prepared (db_roots db kr) dr, compare_prepared (db_claims db kc) dc,
      compare_prepared (db_authorities db ka) da]"
| "tx_matches (TakeOverClaim kr dr kc _ dc ka da) db =
     [compare_prepared (db_roots db kr) dr, compare_prepared (db_claims db kc) dc,
      compare_prepared (db_authorities db ka) da]"

definition resolve_ambiguous :: "db_tx \<Rightarrow> readback \<Rightarrow> store_error option" where
  "resolve_ambiguous tx rb =
    (if rb_failure rb \<noteq> None then Some SE_OUTCOME_UNKNOWN
     else
       (let reads = tx_matches tx (rb_db rb) in
        if list_all (\<lambda>m. m = RM_same) reads then None
        else if RM_competing_revision \<in> set reads then Some SE_CONFLICT
        else Some SE_OUTCOME_UNKNOWN))"

definition run_transaction ::
  "db_tx \<Rightarrow> tx_fate \<Rightarrow> readback \<Rightarrow> authority_db \<Rightarrow> (store_error + commit_disposition) \<times> authority_db" where
  "run_transaction tx fate rb db =
    (let applied = (case apply_tx tx db of None \<Rightarrow> db | Some db' \<Rightarrow> db') in
     case fate of
       TxConfirmed \<Rightarrow>
         (case apply_tx tx db of
            None \<Rightarrow> (Inl SE_CONFLICT, db)
          | Some db' \<Rightarrow> (Inr CD_DIRECT_CONFIRMED, db'))
     | TxContended committed \<Rightarrow> (Inl SE_CONFLICT, if committed then applied else db)
     | TxCorruptRead \<Rightarrow> (Inl SE_CORRUPT_RECORD, db)
     | TxLost committed \<Rightarrow>
         ((case resolve_ambiguous tx rb of
             Some e \<Rightarrow> Inl e
           | None \<Rightarrow> Inr CD_READBACK_RESOLVED),
          if committed then applied else db))"

section \<open>Receipt operations\<close>

text \<open>\<open>read_receipt\<close> of a database, when the read itself succeeds.\<close>

definition read_receipt ::
  "hexdigest \<Rightarrow> target_binding \<Rightarrow> string \<Rightarrow> authority_db
    \<Rightarrow> store_failure + execution_receipt stored_record option" where
  "read_receipt hexdigest configured idempotency_key db =
    (case receipt_document_id hexdigest configured idempotency_key of
       Inl e \<Rightarrow> Inl (Raised e)
     | Inr k \<Rightarrow>
         (case db_receipts db k of
            None \<Rightarrow> Inr None
          | Some d \<Rightarrow>
              (case validate_receipt_identity hexdigest configured (doc_value d) of
                 Inl _ \<Rightarrow> Inl (StoreError SE_CORRUPT_RECORD)
               | Inr _ \<Rightarrow> Inr (Some (stored_of d)))))"

datatype receipt_claim_result =
    ReceiptClaimCreated "execution_receipt stored_record" direct_receipt_create
  | ReceiptClaimAdopted "execution_receipt stored_record"
  | ReceiptClaimConflict reason_code

text \<open>What \<open>claim_or_adopt_receipt\<close> checks and prepares before it opens a transaction.\<close>

definition prepare_receipt_claim ::
  "hexdigest \<Rightarrow> target_binding \<Rightarrow> execution_receipt \<Rightarrow> mutation_binding \<Rightarrow> string
    \<Rightarrow> (string \<times> execution_receipt document) result" where
  "prepare_receipt_claim hexdigest configured receipt binding mutation_id =
    (case validate_receipt_claim_binding hexdigest receipt binding of
       Some e \<Rightarrow> Inl e
     | None \<Rightarrow>
         bindR (validate_receipt_identity hexdigest configured receipt)
         (\<lambda>_. prepare_receipt hexdigest configured 0 mutation_id receipt))"

text \<open>After a conflict the stored receipt is adopted when it is the same work.\<close>

definition adopt_existing_receipt ::
  "hexdigest \<Rightarrow> target_binding \<Rightarrow> execution_receipt \<Rightarrow> readback
    \<Rightarrow> store_failure + receipt_claim_result" where
  "adopt_existing_receipt hexdigest configured receipt rb =
    (case rb_failure rb of
       Some e \<Rightarrow> Inl (StoreError e)
     | None \<Rightarrow>
         (case read_receipt hexdigest configured (er_idempotency_key receipt) (rb_db rb) of
            Inl e \<Rightarrow> Inl e
          | Inr None \<Rightarrow> Inl (StoreError SE_OUTCOME_UNKNOWN)
          | Inr (Some existing) \<Rightarrow>
              (if receipt_semantic_binding (sr_value existing) \<noteq> receipt_semantic_binding receipt
               then Inr (ReceiptClaimConflict RC_IDEMPOTENCY_CONFLICT)
               else Inr (ReceiptClaimAdopted existing))))"

definition claim_or_adopt_receipt ::
  "hexdigest \<Rightarrow> target_binding \<Rightarrow> execution_receipt \<Rightarrow> mutation_binding \<Rightarrow> string \<Rightarrow> tx_fate
    \<Rightarrow> readback \<Rightarrow> readback \<Rightarrow> authority_db
    \<Rightarrow> (store_failure + receipt_claim_result) \<times> authority_db" where
  "claim_or_adopt_receipt hexdigest configured receipt binding mutation_id fate rb existing_rb db =
    (case prepare_receipt_claim hexdigest configured receipt binding mutation_id of
       Inl e \<Rightarrow> (Inl (Raised e), db)
     | Inr (k, d) \<Rightarrow>
         (case run_transaction (CreateReceipt k d) fate rb db of
            (Inl e, db') \<Rightarrow>
              (if e = SE_CONFLICT
               then (adopt_existing_receipt hexdigest configured receipt existing_rb, db')
               else (Inl (StoreError e), db'))
          | (Inr CD_DIRECT_CONFIRMED, db') \<Rightarrow>
              (case from_direct_store_create hexdigest (stored_of d) binding of
                 Inl e \<Rightarrow> (Inl (Raised e), db')
               | Inr proof \<Rightarrow> (Inr (ReceiptClaimCreated (stored_of d) proof), db'))
          | (Inr CD_READBACK_RESOLVED, db') \<Rightarrow> (Inr (ReceiptClaimAdopted (stored_of d)), db')))"

text \<open>The operations that return what they prepared once its transaction is known to be applied.\<close>

definition commit_prepared ::
  "(db_tx \<times> 'a) result \<Rightarrow> tx_fate \<Rightarrow> readback \<Rightarrow> authority_db \<Rightarrow> (store_failure + 'a) \<times> authority_db" where
  "commit_prepared p fate rb db =
    (case p of
       Inl e \<Rightarrow> (Inl (Raised e), db)
     | Inr (tx, x) \<Rightarrow>
         (case run_transaction tx fate rb db of
            (Inl e, db') \<Rightarrow> (Inl (StoreError e), db')
          | (Inr _, db') \<Rightarrow> (Inr x, db')))"

definition prepare_receipt_replacement ::
  "hexdigest \<Rightarrow> target_binding \<Rightarrow> execution_receipt stored_record \<Rightarrow> execution_receipt \<Rightarrow> string
    \<Rightarrow> (db_tx \<times> execution_receipt stored_record) result" where
  "prepare_receipt_replacement hexdigest configured expected replacement mutation_id =
    (case checks
      [validate_receipt_replacement hexdigest configured expected replacement,
       reject_generic_readback_resolution_marker replacement] of
       Some e \<Rightarrow> Inl e
     | None \<Rightarrow>
         bindR (prepare_receipt hexdigest configured (sr_revision expected + 1) mutation_id replacement)
         (\<lambda>(k, d). Inr (ReplaceReceipt k expected d, stored_of d)))"

definition compare_and_set_receipt ::
  "hexdigest \<Rightarrow> target_binding \<Rightarrow> execution_receipt stored_record \<Rightarrow> execution_receipt \<Rightarrow> string
    \<Rightarrow> tx_fate \<Rightarrow> readback \<Rightarrow> authority_db
    \<Rightarrow> (store_failure + execution_receipt stored_record) \<times> authority_db" where
  "compare_and_set_receipt hexdigest configured expected replacement mutation_id =
     commit_prepared (prepare_receipt_replacement hexdigest configured expected replacement mutation_id)"

definition prepare_receipt_resolution ::
  "hexdigest \<Rightarrow> target_binding \<Rightarrow> execution_receipt stored_record \<Rightarrow> execution_receipt
    \<Rightarrow> epoch_authority_record stored_record \<Rightarrow> service_claim stored_record \<Rightarrow> string
    \<Rightarrow> (db_tx \<times> execution_receipt stored_record) result" where
  "prepare_receipt_resolution hexdigest configured expected replacement expected_auth expected_claim
      mutation_id =
    (case validate_ambiguous_receipt_resolution hexdigest configured expected replacement
        expected_auth expected_claim of
       Some e \<Rightarrow> Inl e
     | None \<Rightarrow>
         bindR (prepare_receipt hexdigest configured (sr_revision expected + 1) mutation_id replacement)
         (\<lambda>(k, d). bindR (epoch_authority_document_id hexdigest (er_root_id (sr_value expected)))
         (\<lambda>ka. bindR (service_claim_document_id hexdigest configured)
         (\<lambda>kc. Inr (ResolveReceipt k expected d ka expected_auth kc expected_claim, stored_of d)))))"

definition resolve_ambiguous_receipt ::
  "hexdigest \<Rightarrow> target_binding \<Rightarrow> execution_receipt stored_record \<Rightarrow> execution_receipt
    \<Rightarrow> epoch_authority_record stored_record \<Rightarrow> service_claim stored_record \<Rightarrow> string
    \<Rightarrow> tx_fate \<Rightarrow> readback \<Rightarrow> authority_db
    \<Rightarrow> (store_failure + execution_receipt stored_record) \<times> authority_db" where
  "resolve_ambiguous_receipt hexdigest configured expected replacement expected_auth expected_claim
      mutation_id =
     commit_prepared (prepare_receipt_resolution hexdigest configured expected replacement
       expected_auth expected_claim mutation_id)"

section \<open>Authority and claim operations\<close>

definition prepare_authority_advance ::
  "hexdigest \<Rightarrow> target_binding \<Rightarrow> epoch_authority_record stored_record \<Rightarrow> epoch_authority_record
    \<Rightarrow> string \<Rightarrow> (string \<times> epoch_authority_record document) result" where
  "prepare_authority_advance hexdigest configured expected replacement mutation_id =
    (case validate_authority_advance configured expected replacement of
       Some e \<Rightarrow> Inl e
     | None \<Rightarrow> prepare_authority hexdigest (sr_revision expected + 1) mutation_id replacement)"

text \<open>
  \<open>advance_authority\<close> reads the document first, then writes under the condition that it has
  not been written since: \<open>before\<close> is what the read saw.
\<close>

definition advance_authority ::
  "hexdigest \<Rightarrow> target_binding \<Rightarrow> epoch_authority_record stored_record \<Rightarrow> epoch_authority_record
    \<Rightarrow> string \<Rightarrow> readback \<Rightarrow> tx_fate \<Rightarrow> readback \<Rightarrow> authority_db
    \<Rightarrow> (store_failure + epoch_authority_record stored_record) \<times> authority_db" where
  "advance_authority hexdigest configured expected replacement mutation_id before fate rb db =
    (case prepare_authority_advance hexdigest configured expected replacement mutation_id of
       Inl e \<Rightarrow> (Inl (Raised e), db)
     | Inr (k, d) \<Rightarrow>
        (case rb_failure before of
           Some e \<Rightarrow> (Inl (StoreError e), db)
         | None \<Rightarrow>
            (case db_authorities (rb_db before) k of
               None \<Rightarrow> (Inl (StoreError SE_CONFLICT), db)
             | Some seen \<Rightarrow>
                 if stored_of seen \<noteq> expected then (Inl (StoreError SE_CONFLICT), db)
                 else commit_prepared (Inr (AdvanceAuthority k seen d, stored_of d)) fate rb db)))"

definition prepare_claim_fence ::
  "hexdigest \<Rightarrow> target_binding \<Rightarrow> service_claim stored_record \<Rightarrow> service_claim
    \<Rightarrow> epoch_authority_record stored_record \<Rightarrow> epoch_authority_record \<Rightarrow> string \<Rightarrow> string
    \<Rightarrow> (db_tx \<times> (service_claim stored_record \<times> epoch_authority_record stored_record)) result" where
  "prepare_claim_fence hexdigest configured expected_claim replacement_claim expected_auth
      replacement_auth claim_mutation auth_mutation =
    (case validate_claim_fence_authority configured expected_claim replacement_claim expected_auth
        replacement_auth of
       Some e \<Rightarrow> Inl e
     | None \<Rightarrow>
         bindR (prepare_claim hexdigest configured (sr_revision expected_claim + 1) claim_mutation
           replacement_claim)
         (\<lambda>(kc, dc). bindR (prepare_authority hexdigest (sr_revision expected_auth + 1) auth_mutation
           replacement_auth)
         (\<lambda>(ka, da). Inr (FenceClaim kc expected_claim dc ka expected_auth da,
            (stored_of dc, stored_of da)))))"

definition fence_service_claim ::
  "hexdigest \<Rightarrow> target_binding \<Rightarrow> service_claim stored_record \<Rightarrow> service_claim
    \<Rightarrow> epoch_authority_record stored_record \<Rightarrow> epoch_authority_record \<Rightarrow> string \<Rightarrow> string
    \<Rightarrow> tx_fate \<Rightarrow> readback \<Rightarrow> authority_db
    \<Rightarrow> (store_failure + (service_claim stored_record \<times> epoch_authority_record stored_record))
       \<times> authority_db" where
  "fence_service_claim hexdigest configured expected_claim replacement_claim expected_auth
      replacement_auth claim_mutation auth_mutation =
     commit_prepared (prepare_claim_fence hexdigest configured expected_claim replacement_claim
       expected_auth replacement_auth claim_mutation auth_mutation)"

definition prepare_claim_release ::
  "hexdigest \<Rightarrow> target_binding \<Rightarrow> service_claim stored_record \<Rightarrow> service_claim
    \<Rightarrow> epoch_authority_record stored_record \<Rightarrow> string
    \<Rightarrow> (db_tx \<times> (service_claim stored_record \<times> epoch_authority_record stored_record)) result" where
  "prepare_claim_release hexdigest configured expected_claim replacement_claim expected_auth mutation_id =
    (case validate_claim_release configured expected_claim replacement_claim expected_auth of
       Some e \<Rightarrow> Inl e
     | None \<Rightarrow>
         bindR (prepare_claim hexdigest configured (sr_revision expected_claim + 1) mutation_id
           replacement_claim)
         (\<lambda>(kc, dc). bindR (epoch_authority_document_id hexdigest (au_root_id (sr_value expected_auth)))
         (\<lambda>ka. Inr (ReleaseClaim kc expected_claim dc ka expected_auth,
            (stored_of dc, expected_auth)))))"

definition release_service_claim ::
  "hexdigest \<Rightarrow> target_binding \<Rightarrow> service_claim stored_record \<Rightarrow> service_claim
    \<Rightarrow> epoch_authority_record stored_record \<Rightarrow> string \<Rightarrow> tx_fate \<Rightarrow> readback \<Rightarrow> authority_db
    \<Rightarrow> (store_failure + (service_claim stored_record \<times> epoch_authority_record stored_record))
       \<times> authority_db" where
  "release_service_claim hexdigest configured expected_claim replacement_claim expected_auth mutation_id =
     commit_prepared (prepare_claim_release hexdigest configured expected_claim replacement_claim
       expected_auth mutation_id)"

section \<open>Starting a rollout\<close>

record created_rollout =
  cr_root :: "rollout_root stored_record"
  cr_service_claim :: "service_claim stored_record"
  cr_authority :: "epoch_authority_record stored_record"

text \<open>The three documents, the claim's at the given revision, with a mutation identity each.\<close>

definition prepare_rollout_records ::
  "hexdigest \<Rightarrow> target_binding \<Rightarrow> rollout_root \<Rightarrow> int \<Rightarrow> service_claim \<Rightarrow> epoch_authority_record
    \<Rightarrow> string \<times> string \<times> string
    \<Rightarrow> ((string \<times> rollout_root document) \<times> (string \<times> service_claim document)
        \<times> (string \<times> epoch_authority_record document)) result" where
  "prepare_rollout_records hexdigest configured root claim_revision claim auth mutation_ids =
    (case mutation_ids of (mr, mc, ma) \<Rightarrow>
       bindR (prepare_root hexdigest mr root)
       (\<lambda>r. bindR (prepare_claim hexdigest configured claim_revision mc claim)
       (\<lambda>c. bindR (prepare_authority hexdigest 0 ma auth)
       (\<lambda>a. Inr (r, c, a)))))"

definition rollout_created ::
  "rollout_root document \<Rightarrow> service_claim document \<Rightarrow> epoch_authority_record document \<Rightarrow> created_rollout" where
  "rollout_created dr dc da =
     \<lparr>cr_root = stored_of dr, cr_service_claim = stored_of dc, cr_authority = stored_of da\<rparr>"

definition prepare_rollout ::
  "hexdigest \<Rightarrow> target_binding \<Rightarrow> rollout_root \<Rightarrow> service_claim \<Rightarrow> epoch_authority_record \<Rightarrow> string
    \<Rightarrow> string \<times> string \<times> string \<Rightarrow> (db_tx \<times> created_rollout) result" where
  "prepare_rollout hexdigest configured root claim auth verified_sha mutation_ids =
    (case validate_initial_rollout hexdigest configured root claim auth verified_sha of
       Some e \<Rightarrow> Inl e
     | None \<Rightarrow>
         bindR (prepare_rollout_records hexdigest configured root 0 claim auth mutation_ids)
         (\<lambda>((kr, dr), (kc, dc), (ka, da)).
            Inr (CreateRollout kr dr kc dc ka da, rollout_created dr dc da)))"

definition create_rollout ::
  "hexdigest \<Rightarrow> target_binding \<Rightarrow> rollout_root \<Rightarrow> service_claim \<Rightarrow> epoch_authority_record \<Rightarrow> string
    \<Rightarrow> string \<times> string \<times> string \<Rightarrow> tx_fate \<Rightarrow> readback \<Rightarrow> authority_db
    \<Rightarrow> (store_failure + created_rollout) \<times> authority_db" where
  "create_rollout hexdigest configured root claim auth verified_sha mutation_ids =
     commit_prepared (prepare_rollout hexdigest configured root claim auth verified_sha mutation_ids)"

definition prepare_takeover ::
  "hexdigest \<Rightarrow> target_binding \<Rightarrow> service_claim stored_record \<Rightarrow> rollout_root \<Rightarrow> service_claim
    \<Rightarrow> epoch_authority_record \<Rightarrow> string \<Rightarrow> string \<times> string \<times> string
    \<Rightarrow> (db_tx \<times> created_rollout) result" where
  "prepare_takeover hexdigest configured released root claim auth verified_sha mutation_ids =
    (case validate_released_takeover hexdigest configured (sr_value released) root claim auth
        verified_sha of
       Some e \<Rightarrow> Inl e
     | None \<Rightarrow>
         bindR (prepare_rollout_records hexdigest configured root (sr_revision released + 1) claim auth
           mutation_ids)
         (\<lambda>((kr, dr), (kc, dc), (ka, da)).
            Inr (TakeOverClaim kr dr kc released dc ka da, rollout_created dr dc da)))"

definition create_rollout_after_release ::
  "hexdigest \<Rightarrow> target_binding \<Rightarrow> service_claim stored_record \<Rightarrow> rollout_root \<Rightarrow> service_claim
    \<Rightarrow> epoch_authority_record \<Rightarrow> string \<Rightarrow> string \<times> string \<times> string \<Rightarrow> tx_fate \<Rightarrow> readback
    \<Rightarrow> authority_db \<Rightarrow> (store_failure + created_rollout) \<times> authority_db" where
  "create_rollout_after_release hexdigest configured released root claim auth verified_sha mutation_ids =
     commit_prepared (prepare_takeover hexdigest configured released root claim auth verified_sha
       mutation_ids)"

end
