(* ===== verification/StoreHistory.thy ===== *)
theory StoreHistory
  imports AuthorityStore
begin

text \<open>
  Histories of one authority database. A history is a list of events: completed calls of the
  store's operations, with whatever the provider reported for them, and transactions of calls
  that were given up which commit later in the background. Calls of different workers interleave
  in any order, and a background transaction may belong to any call and commit repeatedly.
\<close>

section \<open>Calls\<close>

datatype store_op =
    ClaimReceipt execution_receipt mutation_binding string
  | ReplaceReceiptOp "execution_receipt stored_record" execution_receipt string
  | ResolveReceiptOp "execution_receipt stored_record" execution_receipt
      "epoch_authority_record stored_record" "service_claim stored_record" string
  | AdvanceAuthorityOp "epoch_authority_record stored_record" epoch_authority_record string readback
  | FenceClaimOp "service_claim stored_record" service_claim "epoch_authority_record stored_record"
      epoch_authority_record string string
  | ReleaseClaimOp "service_claim stored_record" service_claim "epoch_authority_record stored_record"
      string
  | CreateRolloutOp rollout_root service_claim epoch_authority_record string "string \<times> string \<times> string"
  | TakeOverOp "service_claim stored_record" rollout_root service_claim epoch_authority_record string
      "string \<times> string \<times> string"

datatype store_event =
    Called store_op tx_fate readback readback
  | LateCommit store_op

definition prepared_tx :: "(db_tx \<times> 'a) result \<Rightarrow> db_tx option" where
  "prepared_tx p = (case p of Inl _ \<Rightarrow> None | Inr (tx, _) \<Rightarrow> Some tx)"

text \<open>The transaction a call submits, if it gets that far.\<close>

fun op_tx :: "hexdigest \<Rightarrow> target_binding \<Rightarrow> store_op \<Rightarrow> db_tx option" where
  "op_tx h c (ClaimReceipt receipt binding m) =
     (case prepare_receipt_claim h c receipt binding m of
        Inl _ \<Rightarrow> None | Inr (k, d) \<Rightarrow> Some (CreateReceipt k d))"
| "op_tx h c (ReplaceReceiptOp expected replacement m) =
     prepared_tx (prepare_receipt_replacement h c expected replacement m)"
| "op_tx h c (ResolveReceiptOp expected replacement auth claim m) =
     prepared_tx (prepare_receipt_resolution h c expected replacement auth claim m)"
| "op_tx h c (AdvanceAuthorityOp expected replacement m before) =
     (case prepare_authority_advance h c expected replacement m of
        Inl _ \<Rightarrow> None
      | Inr (k, d) \<Rightarrow>
          (case db_authorities (rb_db before) k of
             None \<Rightarrow> None
           | Some seen \<Rightarrow> if stored_of seen \<noteq> expected then None else Some (AdvanceAuthority k seen d)))"
| "op_tx h c (FenceClaimOp claim replacement auth advance mc ma) =
     prepared_tx (prepare_claim_fence h c claim replacement auth advance mc ma)"
| "op_tx h c (ReleaseClaimOp claim replacement auth m) =
     prepared_tx (prepare_claim_release h c claim replacement auth m)"
| "op_tx h c (CreateRolloutOp root claim auth sha ms) =
     prepared_tx (prepare_rollout h c root claim auth sha ms)"
| "op_tx h c (TakeOverOp released root claim auth sha ms) =
     prepared_tx (prepare_takeover h c released root claim auth sha ms)"

text \<open>The database a call leaves, by the operation itself.\<close>

fun call_db :: "hexdigest \<Rightarrow> target_binding \<Rightarrow> store_op \<Rightarrow> tx_fate \<Rightarrow> readback \<Rightarrow> readback
    \<Rightarrow> authority_db \<Rightarrow> authority_db" where
  "call_db h c (ClaimReceipt receipt binding m) fate rb rb' db =
     snd (claim_or_adopt_receipt h c receipt binding m fate rb rb' db)"
| "call_db h c (ReplaceReceiptOp expected replacement m) fate rb _ db =
     snd (compare_and_set_receipt h c expected replacement m fate rb db)"
| "call_db h c (ResolveReceiptOp expected replacement auth claim m) fate rb _ db =
     snd (resolve_ambiguous_receipt h c expected replacement auth claim m fate rb db)"
| "call_db h c (AdvanceAuthorityOp expected replacement m before) fate rb _ db =
     snd (advance_authority h c expected replacement m before fate rb db)"
| "call_db h c (FenceClaimOp claim replacement auth advance mc ma) fate rb _ db =
     snd (fence_service_claim h c claim replacement auth advance mc ma fate rb db)"
| "call_db h c (ReleaseClaimOp claim replacement auth m) fate rb _ db =
     snd (release_service_claim h c claim replacement auth m fate rb db)"
| "call_db h c (CreateRolloutOp root claim auth sha ms) fate rb _ db =
     snd (create_rollout h c root claim auth sha ms fate rb db)"
| "call_db h c (TakeOverOp released root claim auth sha ms) fate rb _ db =
     snd (create_rollout_after_release h c released root claim auth sha ms fate rb db)"

definition commit_tx :: "db_tx option \<Rightarrow> authority_db \<Rightarrow> authority_db" where
  "commit_tx tx db =
    (case tx of
       None \<Rightarrow> db
     | Some t \<Rightarrow> (case apply_tx t db of None \<Rightarrow> db | Some db' \<Rightarrow> db'))"

fun store_step :: "hexdigest \<Rightarrow> target_binding \<Rightarrow> authority_db \<Rightarrow> store_event \<Rightarrow> authority_db" where
  "store_step h c db (Called op fate rb rb') = call_db h c op fate rb rb' db"
| "store_step h c db (LateCommit op) = commit_tx (op_tx h c op) db"

definition empty_db :: authority_db where
  "empty_db = \<lparr>db_roots = Map.empty, db_claims = Map.empty, db_authorities = Map.empty,
     db_receipts = Map.empty\<rparr>"

definition store_run :: "hexdigest \<Rightarrow> target_binding \<Rightarrow> store_event list \<Rightarrow> authority_db" where
  "store_run h c events = foldl (store_step h c) empty_db events"

section \<open>A call does nothing or commits its own transaction\<close>

lemma run_transaction_db:
  "snd (run_transaction tx fate rb db) = db \<or> snd (run_transaction tx fate rb db) = commit_tx (Some tx) db"
  by (cases fate) (auto simp: run_transaction_def commit_tx_def Let_def split: option.splits)

lemma commit_prepared_db:
  "snd (commit_prepared p fate rb db) = db
     \<or> snd (commit_prepared p fate rb db) = commit_tx (prepared_tx p) db"
proof (cases p)
  case (Inr y)
  then obtain tx x where "p = Inr (tx, x)"
    by (cases y) simp
  then show ?thesis
    using run_transaction_db[of tx fate rb db]
    by (cases "run_transaction tx fate rb db")
      (auto simp: commit_prepared_def prepared_tx_def split: sum.splits)
qed (simp add: commit_prepared_def)

lemma claim_or_adopt_receipt_db:
  "snd (claim_or_adopt_receipt h c receipt binding m fate rb rb' db) = db
     \<or> snd (claim_or_adopt_receipt h c receipt binding m fate rb rb' db)
         = commit_tx (op_tx h c (ClaimReceipt receipt binding m)) db"
proof (cases "prepare_receipt_claim h c receipt binding m")
  case (Inr y)
  then obtain k d where p: "prepare_receipt_claim h c receipt binding m = Inr (k, d)"
    by (cases y) simp
  have "snd (claim_or_adopt_receipt h c receipt binding m fate rb rb' db)
      = snd (run_transaction (CreateReceipt k d) fate rb db)"
    by (cases "run_transaction (CreateReceipt k d) fate rb db")
      (auto simp: claim_or_adopt_receipt_def p split: sum.splits commit_disposition.splits)
  then show ?thesis
    using run_transaction_db[of "CreateReceipt k d" fate rb db] by (simp add: p)
qed (simp add: claim_or_adopt_receipt_def)

lemma advance_authority_db:
  "snd (advance_authority h c expected replacement m before fate rb db) = db
     \<or> snd (advance_authority h c expected replacement m before fate rb db)
         = commit_tx (op_tx h c (AdvanceAuthorityOp expected replacement m before)) db"
proof (cases "prepare_authority_advance h c expected replacement m")
  case (Inr y)
  then obtain k d where p: "prepare_authority_advance h c expected replacement m = Inr (k, d)"
    by (cases y) simp
  show ?thesis
    using commit_prepared_db[of "Inr (AdvanceAuthority k seen d, stored_of d)" fate rb db for seen]
    by (auto simp: advance_authority_def p prepared_tx_def split: option.splits)
qed (simp add: advance_authority_def)

lemma store_step_cases:
  "store_step h c db ev = db
     \<or> (\<exists>op tx. op_tx h c op = Some tx \<and> apply_tx tx db = Some (store_step h c db ev))"
proof -
  have "call_db h c op fate rb rb' db = db \<or> call_db h c op fate rb rb' db = commit_tx (op_tx h c op) db"
    for op fate rb rb'
    by (cases op) (simp_all add: claim_or_adopt_receipt_db advance_authority_db commit_prepared_db
        compare_and_set_receipt_def resolve_ambiguous_receipt_def
        fence_service_claim_def release_service_claim_def create_rollout_def
        create_rollout_after_release_def del: op_tx.simps(1,4))
  then have "store_step h c db ev = db \<or> (\<exists>op. store_step h c db ev = commit_tx (op_tx h c op) db)"
    by (cases ev) (simp_all, blast+)
  then show ?thesis
    by (auto simp: commit_tx_def split: option.splits)
qed

section \<open>What the validators establish of a submitted transaction\<close>

definition receipt_ok :: "hexdigest \<Rightarrow> target_binding \<Rightarrow> string \<Rightarrow> execution_receipt document \<Rightarrow> bool" where
  "receipt_ok h c k d \<longleftrightarrow>
     wf_receipt (doc_value d) \<and> er_target (doc_value d) = c \<and> 0 \<le> doc_revision d
     \<and> receipt_document_id h c (er_idempotency_key (doc_value d)) = Inr k"

definition authority_ok :: "hexdigest \<Rightarrow> string \<Rightarrow> epoch_authority_record document \<Rightarrow> bool" where
  "authority_ok h k d \<longleftrightarrow>
     wf_authority_record (doc_value d) \<and> doc_revision d = au_revision (doc_value d)
     \<and> epoch_authority_document_id h (au_root_id (doc_value d)) = Inr k"

definition claim_ok :: "hexdigest \<Rightarrow> target_binding \<Rightarrow> string \<Rightarrow> service_claim document \<Rightarrow> bool" where
  "claim_ok h c k d \<longleftrightarrow>
     wf_claim (doc_value d) \<and> cl_target (doc_value d) = c \<and> 0 \<le> doc_revision d
     \<and> doc_revision d mod 3 = status_remainder (cl_status (doc_value d))
     \<and> service_claim_document_id h c = Inr k"

definition receipt_follows :: "execution_receipt stored_record \<Rightarrow> execution_receipt document \<Rightarrow> bool" where
  "receipt_follows s d \<longleftrightarrow>
    (let before = sr_value s; after = doc_value d in
     doc_revision d = sr_revision s + 1
     \<and> receipt_cas_binding after = receipt_cas_binding before
     \<and> er_outcome after \<in> receipt_transitions (er_outcome before)
     \<and> er_updated_at before \<le> er_updated_at after
     \<and> is_prefix_of (er_evidence_ids before) (er_evidence_ids after)
     \<and> (er_outcome before \<noteq> OC_CLAIMED \<or> er_observed_authority_epoch before \<noteq> None \<longrightarrow>
          er_observed_authority_epoch after = er_observed_authority_epoch before)
     \<and> (er_outcome before \<noteq> OC_CLAIMED \<or> er_provider_operation before \<noteq> None \<longrightarrow>
          er_provider_operation after = er_provider_operation before))"

definition authority_follows ::
  "epoch_authority_record stored_record \<Rightarrow> epoch_authority_record document \<Rightarrow> bool" where
  "authority_follows s d \<longleftrightarrow>
    (let before = sr_value s; after = doc_value d in
     doc_revision d = sr_revision s + 1
     \<and> au_root_id after = au_root_id before \<and> au_root_sha256 after = au_root_sha256 before
     \<and> au_current_epoch after = au_current_epoch before + 1
     \<and> au_previous_epoch after = Some (au_current_epoch before)
     \<and> au_changed_at before \<le> au_changed_at after)"

text \<open>A rollout's first authority record and claim belong to the same root.\<close>

definition starts_rollout :: "service_claim document \<Rightarrow> epoch_authority_record document \<Rightarrow> bool" where
  "starts_rollout dc da \<longleftrightarrow>
     cl_status (doc_value dc) = CS_ACTIVE
     \<and> au_root_id (doc_value da) = cl_root_id (doc_value dc)
     \<and> au_root_sha256 (doc_value da) = cl_root_sha256 (doc_value dc)
     \<and> au_revision (doc_value da) = 0 \<and> au_cause (doc_value da) = EC_ROOT_CREATED"

fun tx_ok :: "hexdigest \<Rightarrow> target_binding \<Rightarrow> db_tx \<Rightarrow> bool" where
  "tx_ok h c (CreateReceipt k d) \<longleftrightarrow>
     receipt_ok h c k d \<and> doc_revision d = 0 \<and> er_outcome (doc_value d) = OC_CLAIMED"
| "tx_ok h c (ReplaceReceipt k s d) \<longleftrightarrow>
     receipt_ok h c k d \<and> receipt_follows s d \<and> \<not> list_ex (starts_with ''cgrrb:'') (er_evidence_ids (doc_value d))"
| "tx_ok h c (ResolveReceipt k s d ka sa kc sc) \<longleftrightarrow>
     receipt_ok h c k d \<and> receipt_follows s d
     \<and> er_outcome (sr_value s) = OC_AMBIGUOUS \<and> er_outcome (doc_value d) = OC_VERIFIED
     \<and> er_observed_authority_epoch (sr_value s) = Some (er_epoch (sr_value s))
     \<and> epoch_authority_document_id h (er_root_id (sr_value s)) = Inr ka
     \<and> au_root_id (sr_value sa) = er_root_id (sr_value s)
     \<and> au_root_sha256 (sr_value sa) = er_root_sha256 (sr_value s)
     \<and> au_current_epoch (sr_value sa) = er_epoch (sr_value s)
     \<and> service_claim_document_id h c = Inr kc
     \<and> cl_status (sr_value sc) = CS_ACTIVE \<and> cl_target (sr_value sc) = c
     \<and> cl_root_id (sr_value sc) = er_root_id (sr_value s)
     \<and> cl_root_sha256 (sr_value sc) = er_root_sha256 (sr_value s)"
| "tx_ok h c (AdvanceAuthority k seen d) \<longleftrightarrow> authority_ok h k d \<and> authority_follows (stored_of seen) d"
| "tx_ok h c (FenceClaim kc s dc ka sa da) \<longleftrightarrow>
     claim_ok h c kc dc \<and> authority_ok h ka da \<and> authority_follows sa da
     \<and> doc_revision dc = sr_revision s + 1
     \<and> cl_status (sr_value s) = CS_ACTIVE \<and> cl_status (doc_value dc) = CS_RELEASING
     \<and> claim_ownership_binding (doc_value dc) = claim_ownership_binding (sr_value s)
     \<and> au_root_id (doc_value da) = cl_root_id (doc_value dc)
     \<and> au_root_sha256 (doc_value da) = cl_root_sha256 (doc_value dc)
     \<and> cl_release_fence_epoch (doc_value dc) = Some (au_current_epoch (doc_value da))
     \<and> au_cause (doc_value da) = EC_OPERATOR_REVOCATION"
| "tx_ok h c (ReleaseClaim kc s dc ka sa) \<longleftrightarrow>
     claim_ok h c kc dc \<and> doc_revision dc = sr_revision s + 1
     \<and> cl_status (sr_value s) = CS_RELEASING \<and> cl_status (doc_value dc) = CS_RELEASED
     \<and> claim_ownership_binding (doc_value dc) = claim_ownership_binding (sr_value s)
     \<and> cl_release_fence_epoch (doc_value dc) = cl_release_fence_epoch (sr_value s)
     \<and> epoch_authority_document_id h (au_root_id (sr_value sa)) = Inr ka
     \<and> au_root_id (sr_value sa) = cl_root_id (sr_value s)
     \<and> cl_release_fence_epoch (sr_value s) = Some (au_current_epoch (sr_value sa))"
| "tx_ok h c (CreateRollout kr dr kc dc ka da) \<longleftrightarrow>
     claim_ok h c kc dc \<and> authority_ok h ka da \<and> doc_revision dc = 0 \<and> starts_rollout dc da"
| "tx_ok h c (TakeOverClaim kr dr kc s dc ka da) \<longleftrightarrow>
     claim_ok h c kc dc \<and> authority_ok h ka da \<and> doc_revision dc = sr_revision s + 1
     \<and> starts_rollout dc da \<and> cl_status (sr_value s) = CS_RELEASED
     \<and> cl_root_id (doc_value dc) \<noteq> cl_root_id (sr_value s)"

lemma validate_receipt_replacement_None:
  assumes "validate_receipt_replacement h c s replacement = None"
  shows "receipt_follows s (new_document (sr_revision s + 1) m replacement)
    \<and> er_target replacement = c"
  using assms
  by (auto simp: validate_receipt_replacement_def receipt_follows_def Let_def
      validate_receipt_identity_def linorder_not_less bindR_eq_Inr split: if_splits)

lemma validate_authority_advance_None:
  assumes "validate_authority_advance c s replacement = None"
  shows "authority_follows s (new_document (sr_revision s + 1) m replacement)
    \<and> au_target replacement = c"
  using assms
  by (auto simp: validate_authority_advance_def authority_follows_def Let_def linorder_not_less)

lemma ok_of_prepared:
  "prepare_receipt h c n m r = Inr (k, d) \<Longrightarrow> er_target r = c \<Longrightarrow> receipt_ok h c k d"
  "prepare_authority h n' m' a = Inr (k', da) \<Longrightarrow> authority_ok h k' da"
  "prepare_claim h c n'' m'' cl = Inr (k'', dc) \<Longrightarrow> cl_target cl = c \<Longrightarrow> claim_ok h c k'' dc"
  by (auto dest!: prepare_receipt_Inr prepare_authority_Inr prepare_claim_Inr
      simp: receipt_ok_def authority_ok_def claim_ok_def)

lemma prepared_tx_Some: "prepared_tx p = Some tx \<longleftrightarrow> (\<exists>x. p = Inr (tx, x))"
  by (auto simp: prepared_tx_def split: sum.splits prod.splits)

lemma claim_receipt_tx:
  assumes "prepare_receipt_claim h c receipt binding m = Inr (k, d)"
  shows "tx_ok h c (CreateReceipt k d)"
proof -
  from assms have p: "prepare_receipt h c 0 m receipt = Inr (k, d)" "er_target receipt = c"
    "er_outcome receipt = OC_CLAIMED"
    by (auto simp: prepare_receipt_claim_def validate_receipt_identity_def bindR_eq_Inr
        validate_receipt_claim_binding_def validate_initial_receipt_claim_def Let_def
        split: option.splits if_splits sum.splits)
  then have "d = new_document 0 m receipt"
    by (auto dest: prepare_receipt_Inr)
  with p show ?thesis
    by (simp add: ok_of_prepared)
qed

lemma replace_receipt_tx:
  assumes "prepare_receipt_replacement h c s replacement m = Inr (tx, x)"
  shows "\<exists>k d. tx = ReplaceReceipt k s d \<and> x = stored_of d \<and> tx_ok h c tx"
proof -
  from assms obtain k d where p: "validate_receipt_replacement h c s replacement = None"
    "reject_generic_readback_resolution_marker replacement = None"
    "prepare_receipt h c (sr_revision s + 1) m replacement = Inr (k, d)"
    "tx = ReplaceReceipt k s d" "x = stored_of d"
    by (auto simp: prepare_receipt_replacement_def bindR_eq_Inr split: option.splits)
  then have "d = new_document (sr_revision s + 1) m replacement"
    by (auto dest: prepare_receipt_Inr)
  with p validate_receipt_replacement_None [OF p(1), of m] show ?thesis
    by (simp add: ok_of_prepared reject_generic_readback_resolution_marker_def)
qed

lemma resolve_receipt_tx:
  assumes "prepare_receipt_resolution h c s replacement sa sc m = Inr (tx, x)"
  shows "\<exists>k d ka kc. tx = ResolveReceipt k s d ka sa kc sc \<and> x = stored_of d \<and> tx_ok h c tx"
proof -
  from assms obtain k d ka kc where p:
    "validate_ambiguous_receipt_resolution h c s replacement sa sc = None"
    "prepare_receipt h c (sr_revision s + 1) m replacement = Inr (k, d)"
    "epoch_authority_document_id h (er_root_id (sr_value s)) = Inr ka"
    "service_claim_document_id h c = Inr kc"
    "tx = ResolveReceipt k s d ka sa kc sc" "x = stored_of d"
    by (auto simp: prepare_receipt_resolution_def bindR_eq_Inr split: option.splits)
  then have d: "d = new_document (sr_revision s + 1) m replacement"
    by (auto dest: prepare_receipt_Inr)
  have "validate_receipt_replacement h c s replacement = None"
    using p(1) by (simp add: validate_ambiguous_receipt_resolution_def Let_def)
  from validate_receipt_replacement_None [OF this, of m] p d show ?thesis
    by (auto simp: ok_of_prepared validate_ambiguous_receipt_resolution_def Let_def)
qed

lemma advance_authority_tx:
  assumes "op_tx h c (AdvanceAuthorityOp s replacement m before) = Some tx"
  shows "tx_ok h c tx"
proof -
  from assms obtain k d seen where p: "validate_authority_advance c s replacement = None"
    "prepare_authority h (sr_revision s + 1) m replacement = Inr (k, d)" "stored_of seen = s"
    "tx = AdvanceAuthority k seen d"
    by (auto simp: prepare_authority_advance_def split: option.splits sum.splits if_splits)
  then have "d = new_document (sr_revision s + 1) m replacement"
    by (auto dest: prepare_authority_Inr)
  with p validate_authority_advance_None [OF p(1), of m] show ?thesis
    by (auto simp: ok_of_prepared simp del: stored_of_sel)
qed

lemma fence_claim_tx:
  assumes "prepare_claim_fence h c s replacement sa advance mc ma = Inr (tx, x)"
  shows "\<exists>kc dc ka da. tx = FenceClaim kc s dc ka sa da \<and> x = (stored_of dc, stored_of da)
    \<and> tx_ok h c tx"
proof -
  from assms obtain kc dc ka da where p:
    "validate_claim_fence_authority c s replacement sa advance = None"
    "prepare_claim h c (sr_revision s + 1) mc replacement = Inr (kc, dc)"
    "prepare_authority h (sr_revision sa + 1) ma advance = Inr (ka, da)"
    "tx = FenceClaim kc s dc ka sa da" "x = (stored_of dc, stored_of da)"
    by (auto simp: prepare_claim_fence_def bindR_eq_Inr split: option.splits)
  then have d: "dc = new_document (sr_revision s + 1) mc replacement"
    "da = new_document (sr_revision sa + 1) ma advance"
    by (auto dest: prepare_authority_Inr prepare_claim_Inr)
  from p(1) have v: "validate_authority_advance c sa advance = None"
    "validate_claim_fence c s replacement = None"
    by (simp_all add: validate_claim_fence_authority_def Let_def)
  with p d validate_authority_advance_None [OF v(1), of ma] show ?thesis
    by (simp add: ok_of_prepared validate_claim_fence_authority_def validate_claim_fence_def Let_def)
qed

lemma release_claim_tx:
  assumes "prepare_claim_release h c s replacement sa m = Inr (tx, x)"
  shows "\<exists>kc dc ka. tx = ReleaseClaim kc s dc ka sa \<and> x = (stored_of dc, sa) \<and> tx_ok h c tx"
proof -
  from assms obtain kc dc ka where p:
    "validate_claim_release c s replacement sa = None"
    "prepare_claim h c (sr_revision s + 1) m replacement = Inr (kc, dc)"
    "epoch_authority_document_id h (au_root_id (sr_value sa)) = Inr ka"
    "tx = ReleaseClaim kc s dc ka sa" "x = (stored_of dc, sa)"
    by (auto simp: prepare_claim_release_def bindR_eq_Inr split: option.splits)
  then have "dc = new_document (sr_revision s + 1) m replacement"
    by (auto dest: prepare_claim_Inr)
  with p show ?thesis
    by (simp add: ok_of_prepared validate_claim_release_def release_changes_fence_def Let_def)
qed

lemma rollout_records_ok:
  assumes "prepare_rollout_records h c root n claim auth ms = Inr ((kr, dr), (kc, dc), (ka, da))"
    and "validate_initial_rollout h c root claim auth sha = None"
  shows "claim_ok h c kc dc \<and> authority_ok h ka da \<and> doc_revision dc = n \<and> doc_value dc = claim
    \<and> starts_rollout dc da \<and> cl_root_id claim = rt_root_id root"
proof -
  obtain mr mc ma where ms: "ms = (mr, mc, ma)"
    by (cases ms)
  from assms(1) have p: "prepare_claim h c n mc claim = Inr (kc, dc)"
    "prepare_authority h 0 ma auth = Inr (ka, da)"
    by (auto simp: prepare_rollout_records_def ms bindR_eq_Inr)
  then have "dc = new_document n mc claim" "da = new_document 0 ma auth"
    by (auto dest: prepare_authority_Inr prepare_claim_Inr)
  with p validate_initial_rollout_None [OF assms(2)] show ?thesis
    by (simp add: ok_of_prepared starts_rollout_def)
qed

lemma create_rollout_tx:
  assumes "prepare_rollout h c root claim auth sha ms = Inr (tx, x)"
  shows "tx_ok h c tx"
proof -
  from assms obtain kr dr kc dc ka da where p:
    "validate_initial_rollout h c root claim auth sha = None"
    "prepare_rollout_records h c root 0 claim auth ms = Inr ((kr, dr), (kc, dc), (ka, da))"
    "tx = CreateRollout kr dr kc dc ka da"
    by (auto simp: prepare_rollout_def bindR_eq_Inr split: option.splits)
  from rollout_records_ok [OF p(2,1)] p(3) show ?thesis
    by simp
qed

lemma take_over_tx:
  assumes "prepare_takeover h c s root claim auth sha ms = Inr (tx, x)"
  shows "tx_ok h c tx"
proof -
  from assms obtain kr dr kc dc ka da where p:
    "validate_released_takeover h c (sr_value s) root claim auth sha = None"
    "prepare_rollout_records h c root (sr_revision s + 1) claim auth ms
       = Inr ((kr, dr), (kc, dc), (ka, da))"
    "tx = TakeOverClaim kr dr kc s dc ka da"
    by (auto simp: prepare_takeover_def bindR_eq_Inr split: option.splits)
  from p(1) have "validate_initial_rollout h c root claim auth sha = None"
    by (simp add: validate_released_takeover_def)
  from rollout_records_ok [OF p(2) this] p(1,3) show ?thesis
    by (auto simp: validate_released_takeover_def)
qed

lemma op_tx_ok: "op_tx h c op = Some tx \<Longrightarrow> tx_ok h c tx"
  by (cases op)
    (auto simp: prepared_tx_Some claim_receipt_tx advance_authority_tx create_rollout_tx take_over_tx
      simp del: op_tx.simps(4) tx_ok.simps split: sum.splits
      dest!: replace_receipt_tx resolve_receipt_tx fence_claim_tx release_claim_tx)

section \<open>The invariant of the database\<close>

text \<open>
  A claim is anchored: its root has an authority document, whose epoch has reached the epoch
  the claim was fenced at.
\<close>

definition claim_anchored :: "hexdigest \<Rightarrow> authority_db \<Rightarrow> service_claim \<Rightarrow> bool" where
  "claim_anchored h db cl \<longleftrightarrow>
    (case epoch_authority_document_id h (cl_root_id cl) of
       Inl _ \<Rightarrow> False
     | Inr ka \<Rightarrow>
        (case db_authorities db ka of
           None \<Rightarrow> False
         | Some a \<Rightarrow>
             au_root_id (doc_value a) = cl_root_id cl \<and> au_root_sha256 (doc_value a) = cl_root_sha256 cl
             \<and> pred_option (\<lambda>e. e \<le> au_current_epoch (doc_value a)) (cl_release_fence_epoch cl)))"

definition store_inv :: "hexdigest \<Rightarrow> target_binding \<Rightarrow> authority_db \<Rightarrow> bool" where
  "store_inv h c db \<longleftrightarrow>
     (\<forall>k d. db_receipts db k = Some d \<longrightarrow> receipt_ok h c k d)
     \<and> (\<forall>k d. db_authorities db k = Some d \<longrightarrow> authority_ok h k d)
     \<and> (\<forall>k d. db_claims db k = Some d \<longrightarrow> claim_ok h c k d \<and> claim_anchored h db (doc_value d))"

lemma claim_ownership_binding_root:
  "claim_ownership_binding x = claim_ownership_binding y \<Longrightarrow>
     cl_root_id x = cl_root_id y \<and> cl_root_sha256 x = cl_root_sha256 y \<and> cl_target x = cl_target y"
  by (cases x; cases y) (simp add: claim_ownership_binding_def)

lemma wf_claim_active_unfenced: "wf_claim cl \<Longrightarrow> cl_status cl = CS_ACTIVE \<Longrightarrow> cl_release_fence_epoch cl = None"
  using wf_claim_active by blast

lemma holds_stored_Some:
  "holds_stored coll k s \<longleftrightarrow> (\<exists>d. coll k = Some d \<and> stored_of d = s)"
  by (auto simp: holds_stored_def split: option.splits)

text \<open>A claim's anchor survives an advance of any authority and the creation of another one.\<close>

lemma claim_anchored_update:
  assumes "claim_anchored h db cl"
    and "db_authorities db k = None
      \<or> (\<exists>seen. db_authorities db k = Some seen \<and> authority_follows (stored_of seen) d)"
  shows "claim_anchored h (db\<lparr>db_authorities := (db_authorities db)(k \<mapsto> d)\<rparr>) cl"
  using assms
  by (auto simp: claim_anchored_def authority_follows_def Let_def pred_option_def
      split: sum.splits option.splits)

lemma claim_anchored_cong:
  "db_authorities db' = db_authorities db \<Longrightarrow> claim_anchored h db' cl = claim_anchored h db cl"
  by (simp add: claim_anchored_def cong: sum.case_cong)

lemma claim_anchored_writes [simp]:
  "claim_anchored h (db\<lparr>db_receipts := rs\<rparr>) = claim_anchored h db"
  "claim_anchored h (db\<lparr>db_claims := cs\<rparr>) = claim_anchored h db"
  "claim_anchored h (db\<lparr>db_roots := ts\<rparr>) = claim_anchored h db"
  by (rule ext, rule claim_anchored_cong, simp)+

lemma claim_anchored_by:
  assumes "epoch_authority_document_id h (cl_root_id cl) = Inr ka"
    and "db_authorities db ka = Some a" "au_root_id (doc_value a) = cl_root_id cl"
    and "au_root_sha256 (doc_value a) = cl_root_sha256 cl"
    and "pred_option (\<lambda>e. e \<le> au_current_epoch (doc_value a)) (cl_release_fence_epoch cl)"
  shows "claim_anchored h db cl"
  using assms by (simp add: claim_anchored_def)

lemma store_invD:
  assumes "store_inv h c db"
  shows "db_receipts db k = Some dr \<Longrightarrow> receipt_ok h c k dr"
    and "db_authorities db k = Some da \<Longrightarrow> authority_ok h k da"
    and "db_claims db k = Some dc \<Longrightarrow> claim_ok h c k dc"
    and "db_claims db k = Some dc \<Longrightarrow> claim_anchored h db (doc_value dc)"
  using assms by (auto simp: store_inv_def)

lemma store_inv_receipt:
  assumes "store_inv h c db" "receipt_ok h c k d"
  shows "store_inv h c (db\<lparr>db_receipts := (db_receipts db)(k \<mapsto> d)\<rparr>)"
  using assms by (auto simp: store_inv_def)

lemma store_inv_authority:
  assumes "store_inv h c db" "authority_ok h k d"
    and "db_authorities db k = None
      \<or> (\<exists>seen. db_authorities db k = Some seen \<and> authority_follows (stored_of seen) d)"
  shows "store_inv h c (db\<lparr>db_authorities := (db_authorities db)(k \<mapsto> d)\<rparr>)"
  using assms(1,2) claim_anchored_update [OF _ assms(3)]
  by (auto simp: store_inv_def)

lemma store_inv_claim:
  assumes "store_inv h c db" "claim_ok h c k d" "claim_anchored h db (doc_value d)"
  shows "store_inv h c (db\<lparr>db_claims := (db_claims db)(k \<mapsto> d)\<rparr>)"
  using assms by (auto simp: store_inv_def)

lemma store_inv_roots: "store_inv h c (db\<lparr>db_roots := r\<rparr>) = store_inv h c db"
  by (simp add: store_inv_def)

text \<open>A claim and the authority written with it.\<close>

lemma store_inv_claim_authority:
  assumes "store_inv h c db" "claim_ok h c kc dc" "authority_ok h ka da"
    and "db_authorities db ka = None
      \<or> (\<exists>seen. db_authorities db ka = Some seen \<and> authority_follows (stored_of seen) da)"
    and "au_root_id (doc_value da) = cl_root_id (doc_value dc)"
    and "au_root_sha256 (doc_value da) = cl_root_sha256 (doc_value dc)"
    and "pred_option (\<lambda>e. e \<le> au_current_epoch (doc_value da)) (cl_release_fence_epoch (doc_value dc))"
  shows "store_inv h c (db\<lparr>db_claims := (db_claims db)(kc \<mapsto> dc),
                            db_authorities := (db_authorities db)(ka \<mapsto> da)\<rparr>)"
proof -
  let ?db = "db\<lparr>db_authorities := (db_authorities db)(ka \<mapsto> da)\<rparr>"
  have "store_inv h c ?db"
    using assms(1,3,4) by (rule store_inv_authority)
  moreover have "claim_anchored h ?db (doc_value dc)"
    using assms(3,5-7) by (auto intro: claim_anchored_by simp: authority_ok_def)
  ultimately have "store_inv h c (?db\<lparr>db_claims := (db_claims ?db)(kc \<mapsto> dc)\<rparr>)"
    using assms(2) by (intro store_inv_claim)
  then show ?thesis
    by (cases db) simp
qed

lemma starts_rollout_anchor:
  assumes "starts_rollout dc da" "claim_ok h c k dc"
  shows "au_root_id (doc_value da) = cl_root_id (doc_value dc)
    \<and> au_root_sha256 (doc_value da) = cl_root_sha256 (doc_value dc)
    \<and> cl_release_fence_epoch (doc_value dc) = None"
  using assms by (auto simp: starts_rollout_def claim_ok_def wf_claim_active_unfenced)

lemma store_inv_tx:
  assumes inv: "store_inv h c db" and ok: "tx_ok h c tx" and tx: "apply_tx tx db = Some db'"
  shows "store_inv h c db'"
proof (cases tx)
  case (CreateReceipt k d)
  with assms show ?thesis
    by (auto simp: store_inv_receipt split: if_splits)
next
  case (ReplaceReceipt k s d)
  with assms show ?thesis
    by (auto simp: store_inv_receipt split: if_splits)
next
  case (ResolveReceipt k s d ka sa kc sc)
  with assms show ?thesis
    by (auto simp: store_inv_receipt split: if_splits)
next
  case (AdvanceAuthority k seen d)
  with assms show ?thesis
    by (auto intro!: store_inv_authority split: if_splits)
next
  case (FenceClaim kc s dc ka sa da)
  with assms show ?thesis
    by (auto intro!: store_inv_claim_authority simp: holds_stored_Some authority_follows_def Let_def
        split: if_splits)
next
  case (ReleaseClaim kc s dc ka sa)
  with tx obtain old where old: "db_claims db kc = Some old" "stored_of old = s"
    and db': "db' = db\<lparr>db_claims := (db_claims db)(kc \<mapsto> dc)\<rparr>"
    by (auto simp: holds_stored_Some split: if_splits)
  from ok ReleaseClaim old have same: "cl_root_id (doc_value dc) = cl_root_id (doc_value old)"
    "cl_root_sha256 (doc_value dc) = cl_root_sha256 (doc_value old)"
    "cl_release_fence_epoch (doc_value dc) = cl_release_fence_epoch (doc_value old)"
    by (auto dest: claim_ownership_binding_root)
  have "claim_anchored h db (doc_value dc)"
    using store_invD(4) [OF inv old(1)] same
    by (simp add: claim_anchored_def cong: sum.case_cong option.case_cong)
  with inv ok ReleaseClaim show ?thesis
    by (simp add: db' store_inv_claim)
next
  case (CreateRollout kr dr kc dc ka da)
  with tx have db': "db_authorities db ka = None"
    "db' = db\<lparr>db_claims := (db_claims db)(kc \<mapsto> dc), db_authorities := (db_authorities db)(ka \<mapsto> da)\<rparr>
       \<lparr>db_roots := (db_roots db)(kr \<mapsto> dr)\<rparr>"
    by (auto split: if_splits)
  with inv ok CreateRollout starts_rollout_anchor [of dc da h c kc] show ?thesis
    by (simp add: db' store_inv_roots store_inv_claim_authority del: db'(2))
next
  case (TakeOverClaim kr dr kc s dc ka da)
  with tx have db': "db_authorities db ka = None"
    "db' = db\<lparr>db_claims := (db_claims db)(kc \<mapsto> dc), db_authorities := (db_authorities db)(ka \<mapsto> da)\<rparr>
       \<lparr>db_roots := (db_roots db)(kr \<mapsto> dr)\<rparr>"
    by (auto split: if_splits)
  with inv ok TakeOverClaim starts_rollout_anchor [of dc da h c kc] show ?thesis
    by (simp add: db' store_inv_roots store_inv_claim_authority)
qed

section \<open>The order of histories\<close>

fun outcome_rank :: "receipt_outcome \<Rightarrow> nat" where
  "outcome_rank OC_CLAIMED = 0"
| "outcome_rank OC_APPLIED = 1"
| "outcome_rank OC_AMBIGUOUS = 2"
| "outcome_rank _ = 3"

definition receipt_closed :: "execution_receipt \<Rightarrow> bool" where
  "receipt_closed r \<longleftrightarrow> receipt_transitions (er_outcome r) = {}"

definition receipt_later :: "execution_receipt document \<Rightarrow> execution_receipt document \<Rightarrow> bool" where
  "receipt_later d d' \<longleftrightarrow>
    (let before = doc_value d; after = doc_value d' in
     doc_revision d \<le> doc_revision d'
     \<and> (doc_revision d' = doc_revision d \<longrightarrow> d' = d)
     \<and> (receipt_closed before \<longrightarrow> d' = d)
     \<and> receipt_cas_binding after = receipt_cas_binding before
     \<and> outcome_rank (er_outcome before) \<le> outcome_rank (er_outcome after)
     \<and> er_updated_at before \<le> er_updated_at after
     \<and> is_prefix_of (er_evidence_ids before) (er_evidence_ids after)
     \<and> (er_outcome before \<noteq> OC_CLAIMED \<longrightarrow>
          er_observed_authority_epoch after = er_observed_authority_epoch before
          \<and> er_provider_operation after = er_provider_operation before))"

definition authority_later ::
  "epoch_authority_record document \<Rightarrow> epoch_authority_record document \<Rightarrow> bool" where
  "authority_later d d' \<longleftrightarrow>
    (let before = doc_value d; after = doc_value d' in
     doc_revision d \<le> doc_revision d'
     \<and> (doc_revision d' = doc_revision d \<longrightarrow> d' = d)
     \<and> au_root_id after = au_root_id before \<and> au_root_sha256 after = au_root_sha256 before
     \<and> au_current_epoch after - au_current_epoch before = doc_revision d' - doc_revision d
     \<and> au_changed_at before \<le> au_changed_at after)"

text \<open>A claim keeps its owner until the third write after it became active.\<close>

definition claim_later :: "service_claim document \<Rightarrow> service_claim document \<Rightarrow> bool" where
  "claim_later d d' \<longleftrightarrow>
    (let before = doc_value d; after = doc_value d' in
     doc_revision d \<le> doc_revision d'
     \<and> (doc_revision d' = doc_revision d \<longrightarrow> d' = d)
     \<and> (doc_revision d' div 3 = doc_revision d div 3 \<longrightarrow>
          claim_ownership_binding after = claim_ownership_binding before
          \<and> (cl_release_fence_epoch before \<noteq> None \<longrightarrow>
               cl_release_fence_epoch after = cl_release_fence_epoch before)))"

definition map_later :: "('v \<Rightarrow> 'v \<Rightarrow> bool) \<Rightarrow> ('k \<rightharpoonup> 'v) \<Rightarrow> ('k \<rightharpoonup> 'v) \<Rightarrow> bool" where
  "map_later le m m' \<longleftrightarrow> (\<forall>k v. m k = Some v \<longrightarrow> (\<exists>v'. m' k = Some v' \<and> le v v'))"

definition store_later :: "authority_db \<Rightarrow> authority_db \<Rightarrow> bool" where
  "store_later db db' \<longleftrightarrow>
     map_later (=) (db_roots db) (db_roots db')
     \<and> map_later claim_later (db_claims db) (db_claims db')
     \<and> map_later authority_later (db_authorities db) (db_authorities db')
     \<and> map_later receipt_later (db_receipts db) (db_receipts db')"

lemma is_prefix_of_refl [simp]: "is_prefix_of xs xs"
  by (simp add: is_prefix_of_def)

lemma is_prefix_of_trans: "is_prefix_of xs ys \<Longrightarrow> is_prefix_of ys zs \<Longrightarrow> is_prefix_of xs zs"
  by (metis is_prefix_of_def append_take_drop_id append_assoc append_eq_conv_conj)

lemma map_later_refl: "(\<And>v. le v v) \<Longrightarrow> map_later le m m"
  by (auto simp: map_later_def)

lemma map_later_trans:
  assumes "\<And>u v w. le u v \<Longrightarrow> le v w \<Longrightarrow> le u w"
  shows "map_later le m m' \<Longrightarrow> map_later le m' m'' \<Longrightarrow> map_later le m m''"
  by (fastforce simp: map_later_def intro: assms)

lemma map_later_upd:
  assumes "\<And>v. le v v" "\<And>v. m k = Some v \<Longrightarrow> le v w"
  shows "map_later le m (m(k \<mapsto> w))"
  using assms by (auto simp: map_later_def)

lemma outcome_rank_claimed: "outcome_rank oc = 0 \<longleftrightarrow> oc = OC_CLAIMED"
  by (cases oc) simp_all

lemma outcome_rank_transition: "oc' \<in> receipt_transitions oc \<Longrightarrow> outcome_rank oc \<le> outcome_rank oc'"
  by (cases oc) auto

lemma receipt_later_refl: "receipt_later d d"
  by (simp add: receipt_later_def Let_def)

lemma receipt_later_trans:
  assumes "receipt_later d d'" "receipt_later d' d''"
  shows "receipt_later d d''"
proof -
  have "er_outcome (doc_value d') \<noteq> OC_CLAIMED" if "er_outcome (doc_value d) \<noteq> OC_CLAIMED"
    using that assms(1) outcome_rank_claimed [of "er_outcome (doc_value d)"]
      outcome_rank_claimed [of "er_outcome (doc_value d')"]
    by (auto simp: receipt_later_def Let_def)
  moreover have "doc_revision d'' = doc_revision d \<Longrightarrow> doc_revision d' = doc_revision d"
    using assms by (simp add: receipt_later_def Let_def)
  ultimately show ?thesis
    using assms
    by (auto simp: receipt_later_def Let_def intro: is_prefix_of_trans)
qed

lemma receipt_follows_later: "receipt_follows (stored_of d) d' \<Longrightarrow> receipt_later d d'"
  by (auto simp: receipt_follows_def receipt_later_def Let_def receipt_closed_def
      outcome_rank_transition)

lemma authority_later_refl: "authority_later d d"
  by (simp add: authority_later_def Let_def)

lemma authority_later_trans: "authority_later d d' \<Longrightarrow> authority_later d' d'' \<Longrightarrow> authority_later d d''"
  by (auto simp: authority_later_def Let_def)

lemma authority_follows_later: "authority_follows (stored_of d) d' \<Longrightarrow> authority_later d d'"
  by (auto simp: authority_follows_def authority_later_def Let_def)

lemma claim_later_refl: "claim_later d d"
  by (simp add: claim_later_def Let_def)

lemma claim_later_trans:
  assumes "claim_later d d'" "claim_later d' d''"
  shows "claim_later d d''"
proof -
  have le: "doc_revision d \<le> doc_revision d'" "doc_revision d' \<le> doc_revision d''"
    using assms by (simp_all add: claim_later_def Let_def)
  then have "doc_revision d div 3 \<le> doc_revision d' div 3" "doc_revision d' div 3 \<le> doc_revision d'' div 3"
    by (simp_all add: zdiv_mono1)
  with assms le show ?thesis
    by (auto simp: claim_later_def Let_def)
qed

text \<open>A write of the claim at the next revision: it either stays with its owner or starts a new turn.\<close>

lemma claim_next_later:
  assumes "doc_revision d' = doc_revision d + 1"
    and "doc_revision d mod 3 = 2 \<or> (claim_ownership_binding (doc_value d') = claim_ownership_binding (doc_value d)
      \<and> (cl_release_fence_epoch (doc_value d) \<noteq> None \<longrightarrow>
           cl_release_fence_epoch (doc_value d') = cl_release_fence_epoch (doc_value d)))"
  shows "claim_later d d'"
proof -
  have "doc_revision d' div 3 \<noteq> doc_revision d div 3" if "doc_revision d mod 3 = 2"
    using that assms(1) by presburger
  with assms show ?thesis
    by (auto simp: claim_later_def Let_def)
qed

lemma store_later_refl: "store_later db db"
  by (simp add: store_later_def map_later_refl receipt_later_refl authority_later_refl claim_later_refl)

lemma store_later_trans:
  assumes "store_later db db'" "store_later db' db''"
  shows "store_later db db''"
  unfolding store_later_def
proof (intro conjI)
  show "map_later (=) (db_roots db) (db_roots db'')"
    by (rule map_later_trans [OF trans, where m' = "db_roots db'"]) (use assms in \<open>auto simp: store_later_def\<close>)
  show "map_later claim_later (db_claims db) (db_claims db'')"
    by (rule map_later_trans [OF claim_later_trans, where m' = "db_claims db'"])
      (use assms in \<open>auto simp: store_later_def\<close>)
  show "map_later authority_later (db_authorities db) (db_authorities db'')"
    by (rule map_later_trans [OF authority_later_trans, where m' = "db_authorities db'"])
      (use assms in \<open>auto simp: store_later_def\<close>)
  show "map_later receipt_later (db_receipts db) (db_receipts db'')"
    by (rule map_later_trans [OF receipt_later_trans, where m' = "db_receipts db'"])
      (use assms in \<open>auto simp: store_later_def\<close>)
qed

lemma map_later_refls:
  "map_later (=) m m" "map_later claim_later mc mc" "map_later authority_later ma ma"
  "map_later receipt_later mr mr"
  by (simp_all add: map_later_refl claim_later_refl authority_later_refl receipt_later_refl)

lemma map_later_upds:
  "(\<And>v. mt k = Some v \<Longrightarrow> v = wt) \<Longrightarrow> map_later (=) mt (mt(k \<mapsto> wt))"
  "(\<And>v. mc k = Some v \<Longrightarrow> claim_later v wc) \<Longrightarrow> map_later claim_later mc (mc(k \<mapsto> wc))"
  "(\<And>v. ma k = Some v \<Longrightarrow> authority_later v wa) \<Longrightarrow> map_later authority_later ma (ma(k \<mapsto> wa))"
  "(\<And>v. mr k = Some v \<Longrightarrow> receipt_later v wr) \<Longrightarrow> map_later receipt_later mr (mr(k \<mapsto> wr))"
  by (auto intro!: map_later_upd claim_later_refl authority_later_refl receipt_later_refl)

lemma stored_claim_status:
  "store_inv h c db \<Longrightarrow> db_claims db k = Some d \<Longrightarrow>
     doc_revision d mod 3 = status_remainder (cl_status (doc_value d))"
  by (auto simp: store_inv_def claim_ok_def)

lemma store_later_tx:
  assumes inv: "store_inv h c db" and ok: "tx_ok h c tx" and tx: "apply_tx tx db = Some db'"
  shows "store_later db db'"
proof (cases tx)
  case (CreateReceipt k d)
  with assms show ?thesis
    by (auto simp: store_later_def map_later_refls intro!: map_later_upds split: if_splits)
next
  case (ReplaceReceipt k s d)
  with assms show ?thesis
    by (auto simp: store_later_def map_later_refls holds_stored_Some
        intro!: map_later_upds receipt_follows_later split: if_splits)
next
  case (ResolveReceipt k s d ka sa kc sc)
  with assms show ?thesis
    by (auto simp: store_later_def map_later_refls holds_stored_Some
        intro!: map_later_upds receipt_follows_later split: if_splits)
next
  case (AdvanceAuthority k seen d)
  with assms show ?thesis
    by (auto simp: store_later_def map_later_refls
        intro!: map_later_upds authority_follows_later split: if_splits)
next
  case (FenceClaim kc s dc ka sa da)
  with assms show ?thesis
    by (auto simp: store_later_def map_later_refls holds_stored_Some
        store_invD(3) claim_ok_def wf_claim_active_unfenced
        dest!: store_invD(3)
        intro!: map_later_upds authority_follows_later claim_next_later split: if_splits)
next
  case (ReleaseClaim kc s dc ka sa)
  with assms show ?thesis
    by (auto simp: store_later_def map_later_refls holds_stored_Some
        intro!: map_later_upds claim_next_later split: if_splits)
next
  case (CreateRollout kr dr kc dc ka da)
  with assms show ?thesis
    by (auto simp: store_later_def map_later_refls
        intro!: map_later_upds split: if_splits)
next
  case (TakeOverClaim kr dr kc s dc ka da)
  with assms show ?thesis
    by (auto simp: store_later_def map_later_refls holds_stored_Some
        stored_claim_status
        intro!: map_later_upds claim_next_later split: if_splits)
qed

interpretation stores: guarded_machine "store_step h c" "store_inv h c" store_later
  for h :: hexdigest and c :: target_binding
proof unfold_locales
  fix db ev
  assume inv: "store_inv h c db"
  consider "store_step h c db ev = db"
    | op tx where "op_tx h c op = Some tx" "apply_tx tx db = Some (store_step h c db ev)"
    using store_step_cases by blast
  then show "store_inv h c (store_step h c db ev)"
    by cases (use inv in \<open>auto intro: store_inv_tx dest: op_tx_ok\<close>)
next
  fix db ev
  assume inv: "store_inv h c db"
  consider "store_step h c db ev = db"
    | op tx where "op_tx h c op = Some tx" "apply_tx tx db = Some (store_step h c db ev)"
    using store_step_cases by blast
  then show "store_later db (store_step h c db ev)"
    by cases (use inv in \<open>auto intro: store_later_tx store_later_refl dest: op_tx_ok\<close>)
qed (use store_later_refl store_later_trans in blast)+

lemma store_inv_empty: "store_inv h c empty_db"
  by (simp add: store_inv_def empty_db_def)

lemma store_run_inv: "store_inv h c (store_run h c events)"
  unfolding store_run_def by (intro stores.run_inv store_inv_empty)

lemma store_run_append: "store_run h c (events @ rest) = foldl (store_step h c) (store_run h c events) rest"
  by (simp add: store_run_def)

lemma store_run_later: "store_later (store_run h c events) (store_run h c (events @ rest))"
  unfolding store_run_append by (intro stores.run_le store_run_inv)

end
