(* ===== verification/StoreProps.thy ===== *)
theory StoreProps
  imports StoreHistory
begin

text \<open>
  Properties of every history of the authority store: a receipt claim is won once, receipts only
  move forward, an expected revision is replaced once, an ambiguous receipt is resolved under its
  current authority only, and a service is handed to another rollout only after its release.
\<close>

section \<open>Winning a receipt claim\<close>

fun wins_claim :: "hexdigest \<Rightarrow> target_binding \<Rightarrow> string \<Rightarrow> authority_db \<Rightarrow> store_event \<Rightarrow> bool" where
  "wins_claim h c key db (Called (ClaimReceipt receipt binding m) fate rb rb') =
     (case fst (claim_or_adopt_receipt h c receipt binding m fate rb rb' db) of
        Inr (ReceiptClaimCreated _ _) \<Rightarrow> er_idempotency_key receipt = key
      | _ \<Rightarrow> False)"
| "wins_claim h c key db _ = False"

text \<open>How many events of a history satisfy a condition on the database they meet.\<close>

fun occurrences :: "hexdigest \<Rightarrow> target_binding \<Rightarrow> (authority_db \<Rightarrow> store_event \<Rightarrow> bool) \<Rightarrow> authority_db
    \<Rightarrow> store_event list \<Rightarrow> nat" where
  "occurrences h c p db [] = 0"
| "occurrences h c p db (ev # evs) =
     (if p db ev then 1 else 0) + occurrences h c p (store_step h c db ev) evs"

text \<open>A condition that rules itself out for good is met at most once.\<close>

lemma occurrences_none:
  assumes "\<And>db ev. q db \<Longrightarrow> ok db \<Longrightarrow> \<not> p db ev" "\<And>db ev. q db \<Longrightarrow> ok db \<Longrightarrow> q (store_step h c db ev)"
    and "\<And>db ev. ok db \<Longrightarrow> ok (store_step h c db ev)"
  shows "q db \<Longrightarrow> ok db \<Longrightarrow> occurrences h c p db evs = 0"
  by (induction evs arbitrary: db) (simp_all add: assms)

lemma occurrences_once:
  assumes "\<And>db ev. q db \<Longrightarrow> ok db \<Longrightarrow> \<not> p db ev" "\<And>db ev. q db \<Longrightarrow> ok db \<Longrightarrow> q (store_step h c db ev)"
    and "\<And>db ev. ok db \<Longrightarrow> ok (store_step h c db ev)"
    and "\<And>db ev. ok db \<Longrightarrow> p db ev \<Longrightarrow> q (store_step h c db ev)"
  shows "ok db \<Longrightarrow> occurrences h c p db evs \<le> 1"
proof (induction evs arbitrary: db)
  case (Cons ev evs)
  show ?case
  proof (cases "p db ev")
    case True
    with Cons.prems assms have "occurrences h c p (store_step h c db ev) evs = 0"
      by (intro occurrences_none [of q ok p h c]) auto
    with True show ?thesis
      by simp
  next
    case False
    with Cons show ?thesis
      by (simp add: assms(3))
  qed
qed simp

definition receipt_stored :: "hexdigest \<Rightarrow> target_binding \<Rightarrow> string \<Rightarrow> authority_db \<Rightarrow> bool" where
  "receipt_stored h c key db \<longleftrightarrow>
     (\<exists>k. receipt_document_id h c key = Inr k \<and> db_receipts db k \<noteq> None)"

lemma map_later_Some: "map_later le m m' \<Longrightarrow> m k = Some v \<Longrightarrow> \<exists>v'. m' k = Some v' \<and> le v v'"
  by (simp add: map_later_def)

lemma receipt_stored_step:
  assumes "receipt_stored h c key db" "store_inv h c db"
  shows "receipt_stored h c key (store_step h c db ev)"
proof -
  have "map_later receipt_later (db_receipts db) (db_receipts (store_step h c db ev))"
    using stores.step_le [OF assms(2)] by (simp add: store_later_def)
  with assms(1) show ?thesis
    by (auto simp: receipt_stored_def dest: map_later_Some)
qed

lemma run_transaction_direct:
  assumes "fst (run_transaction tx fate rb db) = Inr CD_DIRECT_CONFIRMED"
  shows "apply_tx tx db = Some (snd (run_transaction tx fate rb db))"
  using assms by (cases fate) (auto simp: run_transaction_def Let_def split: option.splits)

text \<open>What winning means: the claim was stored by this very call, where none was before.\<close>

lemma claim_created_inv:
  assumes "fst (claim_or_adopt_receipt h c receipt binding m fate rb rb' db)
      = Inr (ReceiptClaimCreated stored proof)"
  shows "\<exists>k. receipt_document_id h c (er_idempotency_key receipt) = Inr k \<and> db_receipts db k = None
    \<and> snd (claim_or_adopt_receipt h c receipt binding m fate rb rb' db)
        = db\<lparr>db_receipts := (db_receipts db)(k \<mapsto> new_document 0 m receipt)\<rparr>
    \<and> stored = \<lparr>sr_value = receipt, sr_revision = 0\<rparr>
    \<and> proof = \<lparr>dc_claimed_receipt = stored, dc_binding = binding, dc_attempt_id = None,
        dc_request_sha256 = None, dc_available = True\<rparr>"
proof -
  obtain k d where p: "prepare_receipt_claim h c receipt binding m = Inr (k, d)"
    using assms by (cases "prepare_receipt_claim h c receipt binding m")
      (auto simp: claim_or_adopt_receipt_def)
  obtain res db' where run: "run_transaction (CreateReceipt k d) fate rb db = (res, db')"
    by fastforce
  have res: "res = Inr CD_DIRECT_CONFIRMED"
    and pr: "from_direct_store_create h (stored_of d) binding = Inr proof" "stored = stored_of d"
    using assms by (auto simp: claim_or_adopt_receipt_def p run adopt_existing_receipt_def
        split: sum.splits option.splits if_splits commit_disposition.splits)
  have "apply_tx (CreateReceipt k d) db = Some db'"
    using run_transaction_direct [of "CreateReceipt k d" fate rb db] by (simp add: run res)
  moreover have "d = new_document 0 m receipt \<and> receipt_document_id h c (er_idempotency_key receipt) = Inr k"
    using p by (auto simp: prepare_receipt_claim_def bindR_eq_Inr split: option.splits dest: prepare_receipt_Inr)
  moreover have "snd (claim_or_adopt_receipt h c receipt binding m fate rb rb' db) = db'"
    using pr by (simp add: claim_or_adopt_receipt_def p run res)
  ultimately show ?thesis
    using pr by (auto simp: from_direct_store_create_def new_direct_receipt_create_def stored_of_def
        new_document_def split: option.splits if_splits)
qed

lemma wins_claim_inv:
  assumes "wins_claim h c key db ev"
  shows "\<not> receipt_stored h c key db \<and> receipt_stored h c key (store_step h c db ev)"
proof -
  from assms obtain receipt binding m fate rb rb' stored "proof"
    where ev: "ev = Called (ClaimReceipt receipt binding m) fate rb rb'"
    and r: "fst (claim_or_adopt_receipt h c receipt binding m fate rb rb' db)
      = Inr (ReceiptClaimCreated stored proof)" "er_idempotency_key receipt = key"
    by (cases "(h, c, key, db, ev)" rule: wins_claim.cases) (auto split: sum.splits receipt_claim_result.splits)
  from claim_created_inv [OF r(1)] r(2) show ?thesis
    by (auto simp: ev receipt_stored_def)
qed

text \<open>
  C11: In a history of calls by any number of workers, interleaved in any order, with every kind of
  lost answer and with abandoned transactions that commit late, the claim of one idempotency key
  is created with the proof that permits dispatch at most once: everybody else adopts or is
  refused.
\<close>

theorem receipt_created_once: "occurrences h c (wins_claim h c key) empty_db events \<le> 1"
  by (rule occurrences_once [of "receipt_stored h c key" "store_inv h c"])
    (auto simp: wins_claim_inv receipt_stored_step stores.step_inv store_inv_empty dest: wins_claim_inv)

section \<open>Histories only move forward\<close>

lemma store_run_later_maps:
  "map_later (=) (db_roots (store_run h c events)) (db_roots (store_run h c (events @ rest)))"
  "map_later claim_later (db_claims (store_run h c events)) (db_claims (store_run h c (events @ rest)))"
  "map_later authority_later (db_authorities (store_run h c events)) (db_authorities (store_run h c (events @ rest)))"
  "map_later receipt_later (db_receipts (store_run h c events)) (db_receipts (store_run h c (events @ rest)))"
  using store_run_later [of h c events rest] by (simp_all add: store_later_def)

text \<open>
  C12: Receipts only move forward. Whatever happens after some moment of a history, a receipt
  stored at that moment is still there; it binds the same request, mutation, capability, root, epoch,
  precondition and deadline; its outcome has not moved back; its evidence was only appended to; an
  authority observation or a provider operation, once recorded, is the same; a closed receipt has
  not changed at all; and the document is the same one exactly when its revision is.
\<close>

theorem receipts_only_move_forward:
  "map_later receipt_later (db_receipts (store_run h c events)) (db_receipts (store_run h c (events @ rest)))"
  by (rule store_run_later_maps)

text \<open>
  C32: Roots are immutable, the epoch of an authority advances by exactly one with every write of
  its document and never goes back, and a service claim belongs to the same owner, at the same fence,
  from the write that made it active to the write that hands it on.
\<close>

theorem authority_only_moves_forward:
  "map_later (=) (db_roots (store_run h c events)) (db_roots (store_run h c (events @ rest)))
   \<and> map_later authority_later (db_authorities (store_run h c events))
       (db_authorities (store_run h c (events @ rest)))
   \<and> map_later claim_later (db_claims (store_run h c events)) (db_claims (store_run h c (events @ rest)))"
  by (intro conjI store_run_later_maps)

section \<open>A revision is replaced once\<close>

definition replaces_receipt :: "hexdigest \<Rightarrow> target_binding \<Rightarrow> string \<Rightarrow> execution_receipt stored_record
    \<Rightarrow> authority_db \<Rightarrow> store_event \<Rightarrow> bool" where
  "replaces_receipt h c k expected db ev \<longleftrightarrow>
     holds_stored (db_receipts db) k expected
     \<and> db_receipts (store_step h c db ev) k \<noteq> db_receipts db k"

definition receipt_past :: "string \<Rightarrow> int \<Rightarrow> authority_db \<Rightarrow> bool" where
  "receipt_past k n db \<longleftrightarrow> (\<exists>d. db_receipts db k = Some d \<and> n < doc_revision d)"

lemma receipt_step_later:
  assumes "store_inv h c db" "db_receipts db k = Some d"
  shows "\<exists>d'. db_receipts (store_step h c db ev) k = Some d' \<and> receipt_later d d'"
  using stores.step_le [OF assms(1), of ev] assms(2) by (auto simp: store_later_def dest: map_later_Some)

lemma receipt_past_step:
  "receipt_past k n db \<Longrightarrow> store_inv h c db \<Longrightarrow> receipt_past k n (store_step h c db ev)"
  by (auto simp: receipt_past_def receipt_later_def Let_def dest!: receipt_step_later [where ev = ev])

lemma replaces_receipt_past:
  assumes "replaces_receipt h c k expected db ev" "store_inv h c db"
  shows "receipt_past k (sr_revision expected) (store_step h c db ev)"
proof -
  obtain d where d: "db_receipts db k = Some d" "stored_of d = expected"
    using assms(1) by (auto simp: replaces_receipt_def holds_stored_Some)
  obtain d' where d': "db_receipts (store_step h c db ev) k = Some d'" "receipt_later d d'"
    using receipt_step_later [OF assms(2) d(1)] by blast
  have "d' \<noteq> d"
    using assms(1) d d' by (auto simp: replaces_receipt_def)
  then have "doc_revision d < doc_revision d'"
    using d'(2) by (auto simp: receipt_later_def Let_def)
  with d d' show ?thesis
    by (auto simp: receipt_past_def)
qed

lemma receipt_past_excludes: "receipt_past k (sr_revision expected) db \<Longrightarrow> \<not> replaces_receipt h c k expected db ev"
  by (auto simp: replaces_receipt_def receipt_past_def holds_stored_Some)

text \<open>
  C28: Compare and set is exact: of all replacements and resolutions that expect the same
  revision of a receipt, by any workers and in any interleaving, background commits included, at
  most one is ever written.
\<close>

theorem receipt_revision_replaced_once:
  "occurrences h c (replaces_receipt h c k expected) empty_db events \<le> 1"
  by (rule occurrences_once [of "receipt_past k (sr_revision expected)" "store_inv h c"])
    (auto simp: receipt_past_excludes receipt_past_step replaces_receipt_past stores.step_inv
      store_inv_empty)

section \<open>Handing a service to another rollout\<close>

definition orderly_handover :: "authority_db \<Rightarrow> authority_db \<Rightarrow> bool" where
  "orderly_handover db db' \<longleftrightarrow>
     (\<forall>k d d'. db_claims db k = Some d \<and> db_claims db' k = Some d'
        \<and> cl_root_id (doc_value d') \<noteq> cl_root_id (doc_value d) \<longrightarrow>
          cl_status (doc_value d) = CS_RELEASED \<and> cl_status (doc_value d') = CS_ACTIVE
          \<and> doc_revision d' = doc_revision d + 1
          \<and> (\<exists>a. a \<in> ran (db_authorities db') - ran (db_authorities db)
               \<and> au_root_id (doc_value a) = cl_root_id (doc_value d') \<and> au_revision (doc_value a) = 0))"

lemma orderly_handover_refl: "orderly_handover db db"
  by (simp add: orderly_handover_def)

lemma orderly_handover_tx:
  assumes inv: "store_inv h c db" and ok: "tx_ok h c tx" and tx: "apply_tx tx db = Some db'"
  shows "orderly_handover db db'"
proof (cases tx)
  case (FenceClaim kc s dc ka sa da)
  with ok tx show ?thesis
    by (auto simp: orderly_handover_def holds_stored_Some split: if_splits dest: claim_ownership_binding_root)
next
  case (ReleaseClaim kc s dc ka sa)
  with ok tx show ?thesis
    by (auto simp: orderly_handover_def holds_stored_Some split: if_splits dest: claim_ownership_binding_root)
next
  case (TakeOverClaim kr dr kc s dc ka da)
  then have db': "holds_stored (db_claims db) kc s" "db_authorities db ka = None"
    "db_claims db' = (db_claims db)(kc \<mapsto> dc)" "db_authorities db' = (db_authorities db)(ka \<mapsto> da)"
    using tx by (auto split: if_splits)
  have ok': "authority_ok h ka da" "starts_rollout dc da" "doc_revision dc = sr_revision s + 1"
    "cl_status (sr_value s) = CS_RELEASED"
    using ok TakeOverClaim by auto
  have "da \<notin> ran (db_authorities db)"
  proof
    assume "da \<in> ran (db_authorities db)"
    then obtain k where "db_authorities db k = Some da"
      by (auto simp: ran_def)
    with store_invD(2) [OF inv this] ok'(1) db'(2) show False
      by (auto simp: authority_ok_def)
  qed
  moreover have "da \<in> ran (db_authorities db')"
    by (simp add: db' ran_def) (metis fun_upd_same)
  ultimately show ?thesis
    using db' ok' by (auto simp: orderly_handover_def holds_stored_Some starts_rollout_def split: if_splits)
qed (use tx in \<open>auto simp: orderly_handover_def split: if_splits\<close>)

text \<open>
  C21: A protected service has at most one claim document, and a history changes the root that
  owns it only by replacing a released claim, in the one write that stores the new owner's active
  claim together with its brand-new authority at revision zero: two rollouts never own the service at
  once, whatever the interleaving.
\<close>

theorem service_handed_over_only_after_release:
  "orderly_handover (store_run h c events) (store_run h c (events @ [ev]))
   \<and> card (dom (db_claims (store_run h c events))) \<le> 1"
proof
  let ?db = "store_run h c events"
  show "orderly_handover ?db (store_run h c (events @ [ev]))"
    using store_step_cases [of h c ?db ev]
    by (auto simp: store_run_append orderly_handover_refl
        intro: orderly_handover_tx [OF store_run_inv op_tx_ok])
  have "dom (db_claims ?db) \<subseteq> {k. service_claim_document_id h c = Inr k}"
    using store_run_inv [of h c events] by (auto simp: store_inv_def claim_ok_def)
  moreover have "{k. service_claim_document_id h c = Inr k} \<subseteq> {projr (service_claim_document_id h c)}"
    by auto
  ultimately have "dom (db_claims ?db) \<subseteq> {projr (service_claim_document_id h c)}"
    by blast
  then show "card (dom (db_claims ?db)) \<le> 1"
    by (metis card.empty card_insert_if finite.emptyI card_mono finite.insertI empty_iff One_nat_def)
qed

section \<open>Fences\<close>

definition fence_reached :: "hexdigest \<Rightarrow> authority_db \<Rightarrow> service_claim document \<Rightarrow> bool" where
  "fence_reached h db d \<longleftrightarrow>
     (\<exists>ka a e. epoch_authority_document_id h (cl_root_id (doc_value d)) = Inr ka
        \<and> db_authorities db ka = Some a
        \<and> au_root_sha256 (doc_value a) = cl_root_sha256 (doc_value d)
        \<and> cl_release_fence_epoch (doc_value d) = Some e
        \<and> cl_initial_epoch (doc_value d) < e \<and> e \<le> au_current_epoch (doc_value a))"

definition releases_fenced :: "hexdigest \<Rightarrow> authority_db \<Rightarrow> bool" where
  "releases_fenced h db \<longleftrightarrow>
     (\<forall>k d. db_claims db k = Some d \<and> cl_status (doc_value d) \<noteq> CS_ACTIVE \<longrightarrow> fence_reached h db d)"

text \<open>
  C33: At every moment of a history, a service claim that is being released or is released
  carries a fence epoch above the epoch its rollout started with, and the authority stored for the
  same root has reached that epoch: nothing authorised at the rollout's initial epoch is current
  any more once the release has begun.
\<close>

theorem release_is_fenced: "releases_fenced h (store_run h c events)"
  unfolding releases_fenced_def
proof (intro allI impI, elim conjE)
  fix k d
  assume d: "db_claims (store_run h c events) k = Some d" "cl_status (doc_value d) \<noteq> CS_ACTIVE"
  have ok: "wf_claim (doc_value d)" "claim_anchored h (store_run h c events) (doc_value d)"
    using store_invD(3,4) [OF store_run_inv d(1)] by (auto simp: claim_ok_def)
  have "cl_initial_epoch (doc_value d) = 1"
    using ok(1) by (simp add: wf_claim_def validate_service_claim_def validate_claim_fields_def)
  with wf_claim_fenced [OF ok(1) d(2)] ok(2) show "fence_reached h (store_run h c events) d"
    by (auto simp: fence_reached_def claim_anchored_def split: sum.splits option.splits)
qed

end
