(* ===== verification/Epoch.thy ===== *)
theory Epoch
  imports PyText Reducer
begin

text \<open>
  Epoch fencing, \<open>backend/src/controlgraph_canary/authority/epoch.py\<close>: every rollout root has
  one current epoch; a fence (token) is good only at exactly that epoch, and authority
  moves from N to N+1 by compare-and-advance. Python's integers are unbounded, so epochs are
  \<open>int\<close>; the \<open>type(x) is int\<close> and \<open>isinstance(x, str)\<close> tests are discharged by typing.
\<close>

section \<open>Records and results\<close>

definition INITIAL_EPOCH :: int where
  "INITIAL_EPOCH = 1"

definition LOCAL_ROOT_ID :: string where
  "LOCAL_ROOT_ID = ''local-scaffold''"

datatype epoch_check_outcome = EC_CURRENT | EC_STALE | EC_FUTURE | EC_ROOT_MISMATCH | EC_INVALID

datatype epoch_advance_cause = REVOCATION | SUPERSESSION | RECOVERY

datatype epoch_advance_outcome =
  EA_ADVANCED | EA_STALE | EA_FUTURE | EA_ROOT_MISMATCH | EA_INVALID

record epoch_authority =
  ea_root_id :: string
  ea_epoch :: int

definition validate_epoch_authority :: "epoch_authority \<Rightarrow> check" where
  "validate_epoch_authority a =
     checks
      [fails_if (\<not> is_nonblank (ea_root_id a)) (ValueError ''root_id must not be blank''),
       fails_if (ea_epoch a < INITIAL_EPOCH) (ValueError ''epoch must be an integer at least 1'')]"

record epoch_check_result =
  ck_outcome :: epoch_check_outcome
  ck_token_root_id :: string
  ck_authority_root_id :: string
  ck_token_epoch :: int
  ck_current_epoch :: int
  ck_reason :: "denial_reason option"

definition authorized :: "epoch_check_result \<Rightarrow> bool" where
  "authorized r \<longleftrightarrow> ck_outcome r = EC_CURRENT"

record epoch_advance_request =
  rq_root_id :: string
  rq_expected_epoch :: int
  rq_requested_epoch :: int
  rq_actor_id :: string
  rq_cause :: epoch_advance_cause
  rq_request_id :: string
  rq_evidence_id :: string

record epoch_transition =
  tr_root_id :: string
  tr_actor_id :: string
  tr_cause :: epoch_advance_cause
  tr_request_id :: string
  tr_evidence_id :: string
  tr_prior_epoch :: int
  tr_new_epoch :: int

record epoch_advance_result =
  ar_outcome :: epoch_advance_outcome
  ar_authority :: epoch_authority
  ar_transition :: "epoch_transition option"
  ar_reason :: "denial_reason option"

definition advanced :: "epoch_advance_result \<Rightarrow> bool" where
  "advanced r \<longleftrightarrow> ar_outcome r = EA_ADVANCED"

record epoch_fence =
  fe_epoch :: int
  fe_controller_id :: string
  fe_root_id :: string

definition validate_epoch_fence :: "epoch_fence \<Rightarrow> check" where
  "validate_epoch_fence f =
     checks
      [fails_if (fe_epoch f < INITIAL_EPOCH) (ValueError ''epoch must be an integer at least 1''),
       fails_if (\<not> is_nonblank (fe_controller_id f)) (ValueError ''controller_id must not be blank''),
       fails_if (\<not> is_nonblank (fe_root_id f)) (ValueError ''root_id must not be blank'')]"

section \<open>Checking an epoch\<close>

definition check_epoch :: "string \<Rightarrow> int \<Rightarrow> string \<Rightarrow> int \<Rightarrow> epoch_check_result" where
  "check_epoch token_root token_epoch auth_root current =
    (let result = (\<lambda>outcome reason.
           \<lparr>ck_outcome = outcome, ck_token_root_id = token_root, ck_authority_root_id = auth_root,
            ck_token_epoch = token_epoch, ck_current_epoch = current, ck_reason = reason\<rparr>)
     in
     if \<not> is_nonblank token_root \<or> \<not> is_nonblank auth_root
        \<or> token_epoch < INITIAL_EPOCH \<or> current < INITIAL_EPOCH
     then result EC_INVALID (Some DR_CONTRACT_INVALID)
     else if token_root \<noteq> auth_root
     then result EC_ROOT_MISMATCH (Some DR_TARGET_BINDING_MISMATCH)
     else
       (let outcome =
          (if token_epoch < current then EC_STALE
           else if token_epoch > current then EC_FUTURE else EC_CURRENT)
        in result outcome (if outcome = EC_CURRENT then None else Some DR_EPOCH_MISMATCH)))"

definition check_fence :: "epoch_fence \<Rightarrow> epoch_authority \<Rightarrow> epoch_check_result" where
  "check_fence f a = check_epoch (fe_root_id f) (fe_epoch f) (ea_root_id a) (ea_epoch a)"

text \<open>\<open>require_current\<close> raises \<open>ValueError\<close> or \<open>EpochMismatchError\<close>, or returns.\<close>

datatype fence_guard = GuardPasses | GuardInvalid | GuardMismatch epoch_check_result

datatype guard_authority = AuthorityRecord epoch_authority | AuthorityEpoch int

definition require_current :: "epoch_fence \<Rightarrow> guard_authority \<Rightarrow> string option \<Rightarrow> fence_guard" where
  "require_current f auth root_id =
    (let result =
       (case auth of
          AuthorityRecord a \<Rightarrow> check_fence f a
        | AuthorityEpoch n \<Rightarrow>
            check_epoch (fe_root_id f) (fe_epoch f)
              (case root_id of None \<Rightarrow> fe_root_id f | Some r \<Rightarrow> r) n)
     in if ck_outcome result = EC_INVALID then GuardInvalid
        else if \<not> authorized result then GuardMismatch result
        else GuardPasses)"

section \<open>Advancing an epoch\<close>

definition initial_authority :: "string \<Rightarrow> epoch_authority result" where
  "initial_authority root_id =
     construct validate_epoch_authority \<lparr>ea_root_id = root_id, ea_epoch = INITIAL_EPOCH\<rparr>"

definition invalid_advance ::
  "epoch_authority \<Rightarrow> epoch_advance_outcome \<Rightarrow> denial_reason \<Rightarrow> epoch_advance_result" where
  "invalid_advance a outcome reason =
     \<lparr>ar_outcome = outcome, ar_authority = a, ar_transition = None, ar_reason = Some reason\<rparr>"

text \<open>
  The last step of \<open>compare_and_advance\<close> builds an \<open>EpochAuthority\<close>, whose validator may raise.
\<close>

definition compare_and_advance ::
  "epoch_authority \<Rightarrow> epoch_advance_request \<Rightarrow> epoch_advance_result result" where
  "compare_and_advance a q =
    (if \<not> is_nonblank (rq_root_id q) \<or> \<not> is_nonblank (rq_actor_id q)
        \<or> \<not> is_nonblank (rq_request_id q) \<or> \<not> is_nonblank (rq_evidence_id q)
        \<or> rq_expected_epoch q < INITIAL_EPOCH \<or> rq_requested_epoch q < INITIAL_EPOCH
     then Inr (invalid_advance a EA_INVALID DR_CONTRACT_INVALID)
     else if rq_root_id q \<noteq> ea_root_id a
     then Inr (invalid_advance a EA_ROOT_MISMATCH DR_TARGET_BINDING_MISMATCH)
     else if rq_expected_epoch q < ea_epoch a
     then Inr (invalid_advance a EA_STALE DR_EPOCH_MISMATCH)
     else if rq_expected_epoch q > ea_epoch a
     then Inr (invalid_advance a EA_FUTURE DR_EPOCH_MISMATCH)
     else if rq_requested_epoch q \<noteq> ea_epoch a + 1
     then Inr (invalid_advance a EA_INVALID DR_CONTRACT_INVALID)
     else
       bindR (construct validate_epoch_authority
               \<lparr>ea_root_id = ea_root_id a, ea_epoch = ea_epoch a + 1\<rparr>)
        (\<lambda>next_authority.
          Inr \<lparr>ar_outcome = EA_ADVANCED, ar_authority = next_authority,
               ar_transition = Some
                 \<lparr>tr_root_id = ea_root_id a, tr_actor_id = rq_actor_id q, tr_cause = rq_cause q,
                  tr_request_id = rq_request_id q, tr_evidence_id = rq_evidence_id q,
                  tr_prior_epoch = ea_epoch a, tr_new_epoch = ea_epoch next_authority\<rparr>,
               ar_reason = None\<rparr>))"

end
