(* ===== verification/EpochProps.thy ===== *)
theory EpochProps
  imports Epoch
begin

text \<open>
  What the epoch fence guarantees: the classification of a check, the only way an epoch
  moves, and, over any sequence of advance requests, that authority only grows, that its
  transition log is gap-free and that a fence left behind is never current again.
\<close>

definition wf_authority :: "epoch_authority \<Rightarrow> bool" where
  "wf_authority a \<longleftrightarrow> validate_epoch_authority a = None"

lemma wf_authority_iff: "wf_authority a \<longleftrightarrow> is_nonblank (ea_root_id a) \<and> INITIAL_EPOCH \<le> ea_epoch a"
  by (auto simp: wf_authority_def validate_epoch_authority_def)

lemma initial_authority_wf: "initial_authority r = Inr a \<Longrightarrow> wf_authority a \<and> ea_epoch a = 1"
  by (auto simp: initial_authority_def wf_authority_def INITIAL_EPOCH_def)

section \<open>Checks\<close>

lemma check_epoch_current_iff:
  "ck_outcome (check_epoch tr te ar ce) = EC_CURRENT \<longleftrightarrow>
     is_nonblank tr \<and> tr = ar \<and> te = ce \<and> INITIAL_EPOCH \<le> te"
  by (auto simp: check_epoch_def Let_def)

lemma check_epoch_reason: "ck_reason (check_epoch tr te ar ce) = None \<longleftrightarrow>
    ck_outcome (check_epoch tr te ar ce) = EC_CURRENT"
  by (auto simp: check_epoch_def Let_def)

lemma check_fence_stale_iff:
  assumes "wf_authority a"
  shows "ck_outcome (check_fence f a) = EC_STALE \<longleftrightarrow>
    fe_root_id f = ea_root_id a \<and> INITIAL_EPOCH \<le> fe_epoch f \<and> fe_epoch f < ea_epoch a"
  using assms by (auto simp: check_fence_def check_epoch_def Let_def wf_authority_iff)

text \<open>
  The guard lets a token through exactly when its root and its epoch equal those of the
  authority and both are well formed; every other token is classified as invalid or raises
  the mismatch with a reason, and a token that is not current is never authorized.
\<close>

theorem require_current_passes_iff:
  "(require_current f (AuthorityRecord a) r = GuardPasses \<longleftrightarrow>
      is_nonblank (fe_root_id f) \<and> fe_root_id f = ea_root_id a \<and> fe_epoch f = ea_epoch a
      \<and> INITIAL_EPOCH \<le> fe_epoch f)
   \<and> (require_current f (AuthorityRecord a) r \<noteq> GuardPasses \<longleftrightarrow>
      ck_reason (check_fence f a)
        \<in> {Some DR_CONTRACT_INVALID, Some DR_TARGET_BINDING_MISMATCH, Some DR_EPOCH_MISMATCH})"
  by (auto simp: require_current_def Let_def authorized_def check_fence_def check_epoch_def
      split: if_splits)

section \<open>Advances\<close>

lemma compare_and_advance_ok: "wf_authority a \<Longrightarrow> \<exists>r. compare_and_advance a q = Inr r"
  by (auto simp: compare_and_advance_def validate_epoch_authority_def wf_authority_iff construct_def)

lemma compare_and_advance_advanced:
  assumes "compare_and_advance a q = Inr r" "advanced r"
  shows "rq_expected_epoch q = ea_epoch a \<and> rq_requested_epoch q = ea_epoch a + 1
    \<and> rq_root_id q = ea_root_id a
    \<and> ar_authority r = \<lparr>ea_root_id = ea_root_id a, ea_epoch = ea_epoch a + 1\<rparr>
    \<and> wf_authority (ar_authority r)
    \<and> (\<exists>t. ar_transition r = Some t \<and> tr_prior_epoch t = ea_epoch a \<and> tr_new_epoch t = ea_epoch a + 1
         \<and> tr_root_id t = ea_root_id a \<and> tr_cause t = rq_cause q \<and> tr_actor_id t = rq_actor_id q)"
  using assms
  by (auto simp: compare_and_advance_def invalid_advance_def advanced_def wf_authority_def
      bindR_eq_Inr_iff split: if_splits)

lemma compare_and_advance_rejected:
  assumes "compare_and_advance a q = Inr r" "\<not> advanced r"
  shows "ar_authority r = a \<and> ar_transition r = None \<and> ar_reason r \<noteq> None"
  using assms
  by (auto simp: compare_and_advance_def invalid_advance_def advanced_def bindR_eq_Inr_iff
      split: if_splits)

text \<open>
  On a well-formed authority compare-and-advance never raises; it advances exactly when
  the request is complete, names this root, expects the current epoch and asks for the next
  one, and then the only change is the epoch, by one.
\<close>

theorem compare_and_advance_exact:
  assumes "wf_authority a"
  shows "\<exists>r. compare_and_advance a q = Inr r
    \<and> (advanced r \<longleftrightarrow>
         is_nonblank (rq_root_id q) \<and> is_nonblank (rq_actor_id q) \<and> is_nonblank (rq_request_id q)
         \<and> is_nonblank (rq_evidence_id q) \<and> rq_root_id q = ea_root_id a
         \<and> rq_expected_epoch q = ea_epoch a \<and> rq_requested_epoch q = ea_epoch a + 1)
    \<and> ar_authority r = (if advanced r then a\<lparr>ea_epoch := ea_epoch a + 1\<rparr> else a)
    \<and> (ar_reason r = None \<longleftrightarrow> advanced r)"
  using assms
  by (auto simp: compare_and_advance_def invalid_advance_def advanced_def construct_def
      validate_epoch_authority_def wf_authority_iff INITIAL_EPOCH_def split: option.split)

definition sample_authority :: epoch_authority where
  "sample_authority = \<lparr>ea_root_id = ''root-1'', ea_epoch = 4\<rparr>"

definition sample_advance :: "int \<Rightarrow> epoch_advance_request" where
  "sample_advance n =
     \<lparr>rq_root_id = ''root-1'', rq_expected_epoch = n, rq_requested_epoch = n + 1,
      rq_actor_id = ''operator'', rq_cause = REVOCATION, rq_request_id = ''request-1'',
      rq_evidence_id = ''evidence-1''\<rparr>"

lemmas eval_text = is_nonblank_iff py_space_def char_code_def Let_def

lemma sample_authority_wf: "wf_authority sample_authority"
  by (simp add: wf_authority_iff sample_authority_def INITIAL_EPOCH_def eval_text)

theorem compare_and_advance_exact_witness:
  "\<exists>r. compare_and_advance sample_authority (sample_advance 4) = Inr r \<and> advanced r
    \<and> ea_epoch (ar_authority r) = 5"
  using compare_and_advance_exact [OF sample_authority_wf, of "sample_advance 4"]
  by (auto simp: sample_authority_def sample_advance_def eval_text)

section \<open>Sequences of requests\<close>

text \<open>
  The persistence layer keeps whatever authority the result carries; a request is applied
  to the authority the previous ones left.
\<close>

definition advance_step :: "epoch_authority \<Rightarrow> epoch_advance_request \<Rightarrow> epoch_authority" where
  "advance_step a q = (case compare_and_advance a q of Inl _ \<Rightarrow> a | Inr r \<Rightarrow> ar_authority r)"

fun advance_log :: "epoch_authority \<Rightarrow> epoch_advance_request list \<Rightarrow> epoch_transition list" where
  "advance_log a [] = []"
| "advance_log a (q # qs) =
     (case compare_and_advance a q of
        Inr r \<Rightarrow> (case ar_transition r of None \<Rightarrow> [] | Some t \<Rightarrow> [t])
      | Inl _ \<Rightarrow> []) @ advance_log (advance_step a q) qs"

declare advance_log.simps(2) [simp del]

definition later_authority :: "epoch_authority \<Rightarrow> epoch_authority \<Rightarrow> bool" where
  "later_authority a b \<longleftrightarrow> ea_root_id b = ea_root_id a \<and> ea_epoch a \<le> ea_epoch b"

lemma advance_step_cases:
  assumes "wf_authority a"
  obtains (kept) "advance_step a q = a" "advance_log a [q] = []"
  | (moved) t where "advance_step a q = a\<lparr>ea_epoch := ea_epoch a + 1\<rparr>" "advance_log a [q] = [t]"
      "tr_prior_epoch t = ea_epoch a" "tr_new_epoch t = ea_epoch a + 1"
      "rq_expected_epoch q = ea_epoch a"
proof -
  obtain r where r: "compare_and_advance a q = Inr r"
    using compare_and_advance_ok [OF assms] by blast
  show thesis
  proof (cases "advanced r")
    case True
    with r compare_and_advance_advanced [OF r True] show thesis
      by (auto simp: advance_step_def advance_log.simps(2) intro!: moved)
  next
    case False
    with r compare_and_advance_rejected [OF r False] show thesis
      by (intro kept) (auto simp: advance_step_def advance_log.simps(2))
  qed
qed

lemma advance_log_Cons: "advance_log a (q # qs) = advance_log a [q] @ advance_log (advance_step a q) qs"
  by (simp add: advance_log.simps(2))

lemma advance_step_wf: "wf_authority a \<Longrightarrow> wf_authority (advance_step a q)"
  by (rule advance_step_cases [of a q]) (auto simp: wf_authority_iff)

interpretation epochs: guarded_machine advance_step wf_authority later_authority
proof
  show "later_authority a (advance_step a q)" if "wf_authority a" for a q
    using that by (rule advance_step_cases [of a q]) (auto simp: later_authority_def)
qed (auto simp: advance_step_wf later_authority_def)

lemma advance_log_numbers:
  assumes "wf_authority a"
  shows "map tr_new_epoch (advance_log a qs) = [ea_epoch a + 1 .. ea_epoch (foldl advance_step a qs)]
    \<and> distinct (map tr_prior_epoch (advance_log a qs))"
proof -
  have "map tr_new_epoch (advance_log a qs) = [ea_epoch a + 1 .. ea_epoch (foldl advance_step a qs)]
      \<and> map tr_prior_epoch (advance_log a qs) = [ea_epoch a .. ea_epoch (foldl advance_step a qs) - 1]"
    using assms
  proof (induction qs arbitrary: a)
    case (Cons q qs)
    have le: "ea_epoch (advance_step a q) \<le> ea_epoch (foldl advance_step (advance_step a q) qs)"
      using epochs.run_le [OF advance_step_wf [OF Cons.prems]] by (simp add: later_authority_def)
    from Cons.prems show ?case
    proof (rule advance_step_cases [of a q])
      assume "advance_step a q = a" "advance_log a [q] = []"
      then show ?thesis
        using Cons.IH [OF Cons.prems] by (simp add: advance_log_Cons [of a q qs])
    next
      fix t
      assume step: "advance_step a q = a\<lparr>ea_epoch := ea_epoch a + 1\<rparr>" "advance_log a [q] = [t]"
        "tr_prior_epoch t = ea_epoch a" "tr_new_epoch t = ea_epoch a + 1"
      then show ?thesis
        using Cons.IH [OF advance_step_wf [OF Cons.prems, of q]] le
        by (simp add: advance_log_Cons [of a q qs] upto_rec1)
    qed
  qed simp
  then show ?thesis by simp
qed

text \<open>
  Over any sequence of advance requests the transition log is gap-free: it records, in
  order, exactly the epochs from the one after the start up to the final one. So no epoch is
  skipped, reissued or decremented, and of the requests that expect one epoch at most one
  commits.
\<close>

theorem advance_log_gap_free:
  assumes "wf_authority a"
  shows "map tr_new_epoch (advance_log a qs) = [ea_epoch a + 1 .. ea_epoch (foldl advance_step a qs)]
    \<and> distinct (map tr_prior_epoch (advance_log a qs))"
  using assms by (rule advance_log_numbers)

theorem advance_log_gap_free_witness:
  "map tr_new_epoch (advance_log sample_authority [sample_advance 4, sample_advance 4, sample_advance 5])
    = [5 .. ea_epoch (foldl advance_step sample_authority [sample_advance 4, sample_advance 4, sample_advance 5])]"
  using advance_log_gap_free [OF sample_authority_wf, of "[sample_advance 4, sample_advance 4, sample_advance 5]"]
  by (simp add: sample_authority_def)

text \<open>
  C29: revocation is permanent. Once one request has advanced the epoch past a fence, the
  fence is stale, and no later sequence of requests makes it current again.
\<close>

theorem stale_fence_stays_stale:
  assumes "wf_authority a" and "ck_outcome (check_fence f a) = EC_CURRENT"
    and "advance_log a qs \<noteq> []"
  shows "ck_outcome (check_fence f (foldl advance_step a (qs @ qs'))) = EC_STALE"
proof -
  let ?b = "foldl advance_step a qs" and ?c = "foldl advance_step (foldl advance_step a qs) qs'"
  have log: "[ea_epoch a + 1 .. ea_epoch ?b] = map tr_new_epoch (advance_log a qs)"
    using assms(1) by (simp add: advance_log_numbers)
  have "ea_epoch a < ea_epoch ?b"
    using assms(3) log by (cases "ea_epoch a + 1 \<le> ea_epoch ?b") auto
  moreover have wf: "wf_authority ?b"
    using assms(1) by (rule epochs.run_inv)
  moreover have "later_authority ?b ?c" "later_authority a ?b"
    using wf assms(1) by (auto intro: epochs.run_le)
  moreover have "wf_authority ?c"
    using wf by (rule epochs.run_inv)
  moreover have "fe_root_id f = ea_root_id a \<and> fe_epoch f = ea_epoch a \<and> INITIAL_EPOCH \<le> fe_epoch f"
    using assms(2) by (auto simp: check_fence_def check_epoch_current_iff)
  ultimately show ?thesis
    by (simp add: check_fence_stale_iff later_authority_def)
qed

definition sample_fence :: epoch_fence where
  "sample_fence = \<lparr>fe_epoch = 4, fe_controller_id = ''executor'', fe_root_id = ''root-1''\<rparr>"

theorem stale_fence_stays_stale_witness:
  "ck_outcome (check_fence sample_fence sample_authority) = EC_CURRENT
    \<and> ck_outcome (check_fence sample_fence
        (foldl advance_step sample_authority ([sample_advance 4] @ [sample_advance 5]))) = EC_STALE"
proof -
  have current: "ck_outcome (check_fence sample_fence sample_authority) = EC_CURRENT"
    by (simp add: check_fence_def check_epoch_current_iff sample_fence_def sample_authority_def
        INITIAL_EPOCH_def eval_text)
  have "advance_log sample_authority [sample_advance 4] \<noteq> []"
    by (simp add: compare_and_advance_def sample_authority_def sample_advance_def construct_def
        validate_epoch_authority_def INITIAL_EPOCH_def eval_text advance_log.simps(2))
  from stale_fence_stays_stale [OF sample_authority_wf current this, of "[sample_advance 5]"] current
  show ?thesis by simp
qed

end
