(* ===== verification/EpochRefinement.thy ===== *)
theory EpochRefinement
  imports StoreProps EpochProps
begin

text \<open>
  The durable authorities refine \<open>authority/epoch.py\<close>: read as an \<open>EpochAuthority\<close>, a stored authority
  starts as \<open>initial_authority\<close> and moves only as \<open>compare_and_advance\<close> moves it on the request its
  next record names.
\<close>

section \<open>The abstraction\<close>

definition abs_authority :: "epoch_authority_record \<Rightarrow> epoch_authority" where
  "abs_authority a = \<lparr>ea_root_id = au_root_id a, ea_epoch = au_current_epoch a\<rparr>"

fun advance_cause_of :: "epoch_change_cause \<Rightarrow> epoch_advance_cause option" where
  "advance_cause_of EC_ROOT_CREATED = None"
| "advance_cause_of EC_OPERATOR_REVOCATION = Some REVOCATION"
| "advance_cause_of EC_SUPERSESSION = Some SUPERSESSION"
| "advance_cause_of EC_RECOVERY = Some RECOVERY"

text \<open>The request that a written record answers; a first record answers none.\<close>

definition advance_request_of :: "epoch_authority_record \<Rightarrow> epoch_advance_request option" where
  "advance_request_of a =
    (case (advance_cause_of (au_cause a), au_previous_epoch a) of
       (Some cause, Some previous) \<Rightarrow>
         Some \<lparr>rq_root_id = au_root_id a, rq_expected_epoch = previous,
               rq_requested_epoch = au_current_epoch a, rq_actor_id = au_changed_by a, rq_cause = cause,
               rq_request_id = au_request_id a, rq_evidence_id = au_evidence_id a\<rparr>
     | _ \<Rightarrow> None)"

text \<open>
  One write against one step. The durable record admits an actor of blanks only, which the pure
  module refuses: that is the only difference.
\<close>

definition advances_like :: "epoch_authority \<Rightarrow> epoch_authority_record \<Rightarrow> bool" where
  "advances_like before a \<longleftrightarrow>
    (case advance_request_of a of
       None \<Rightarrow> False
     | Some q \<Rightarrow>
         (case compare_and_advance before q of
            Inl _ \<Rightarrow> False
          | Inr r \<Rightarrow>
              abs_authority a = before\<lparr>ea_epoch := ea_epoch before + 1\<rparr>
              \<and> (if is_nonblank (au_changed_by a) then advanced r \<and> ar_authority r = abs_authority a
                 else ar_outcome r = EA_INVALID)))"

definition authority_simulated ::
  "epoch_authority_record document option \<Rightarrow> epoch_authority_record document option \<Rightarrow> bool" where
  "authority_simulated old new \<longleftrightarrow>
    (case (old, new) of
       (None, None) \<Rightarrow> True
     | (None, Some d) \<Rightarrow> initial_authority (au_root_id (doc_value d)) = Inr (abs_authority (doc_value d))
     | (Some d, Some d') \<Rightarrow> d' = d \<or> advances_like (abs_authority (doc_value d)) (doc_value d')
     | (Some d, None) \<Rightarrow> False)"

section \<open>One write\<close>

lemma identifier_nonblank: "is_identifier s \<Longrightarrow> is_nonblank s"
proof -
  assume "is_identifier s"
  then have "s \<noteq> []" "alnum_char (hd s)" by (auto simp: is_identifier_def)
  moreover have "alnum_char c \<Longrightarrow> \<not> py_space c" for c
    by (auto simp: alnum_char_def upper_char_def Let_def lower_char_def is_digit_char_def py_space_def char_code_def)
  ultimately show ?thesis
    by (auto simp: is_nonblank_iff intro!: bexI [of _ "hd s"])
qed

lemma stored_authority_fields:
  assumes "wf_authority_record a"
  shows "is_nonblank (au_root_id a) \<and> is_nonblank (au_request_id a) \<and> is_nonblank (au_evidence_id a)
    \<and> 1 \<le> au_current_epoch a"
  using assms
  by (auto simp: wf_authority_record_def validate_authority_record_def validate_authority_fields_def
      positive_safe_integer_def intro: identifier_nonblank)

lemma follows_advances:
  assumes "authority_ok h k d'" "authority_follows (stored_of d) d'" "wf_authority_record (doc_value d)"
  shows "advances_like (abs_authority (doc_value d)) (doc_value d')"
proof -
  let ?a = "doc_value d" and ?b = "doc_value d'"
  have wf: "wf_authority_record ?b" using assms(1) by (simp add: authority_ok_def)
  have succ: "au_root_id ?b = au_root_id ?a" "au_current_epoch ?b = au_current_epoch ?a + 1"
    "au_previous_epoch ?b = Some (au_current_epoch ?a)"
    using assms(2) by (auto simp: authority_follows_def Let_def)
  have "au_cause ?b \<noteq> EC_ROOT_CREATED"
    using wf_authority_record_epoch [OF wf] wf_authority_record_epoch [OF assms(3)] succ by auto
  then obtain cause where "advance_cause_of (au_cause ?b) = Some cause"
    by (cases "au_cause ?b") auto
  then show ?thesis
    using stored_authority_fields [OF wf] stored_authority_fields [OF assms(3)] succ
    by (auto simp: advances_like_def advance_request_of_def compare_and_advance_def abs_authority_def
        invalid_advance_def advanced_def construct_def validate_epoch_authority_def INITIAL_EPOCH_def)
qed

lemma first_is_initial:
  assumes "authority_ok h k d" "au_revision (doc_value d) = 0"
  shows "initial_authority (au_root_id (doc_value d)) = Inr (abs_authority (doc_value d))"
  using assms stored_authority_fields [of "doc_value d"] wf_authority_record_epoch [of "doc_value d"]
  by (auto simp: authority_ok_def initial_authority_def construct_def validate_epoch_authority_def
      INITIAL_EPOCH_def abs_authority_def)

lemma authority_written:
  assumes "tx_ok h c tx" "apply_tx tx db = Some db'"
  shows "db_authorities db' k = db_authorities db k
    \<or> (\<exists>d'. db_authorities db' k = Some d' \<and> authority_ok h k d'
        \<and> (case db_authorities db k of
             None \<Rightarrow> au_revision (doc_value d') = 0
           | Some d \<Rightarrow> authority_follows (stored_of d) d'))"
  using assms
  by (cases tx) (auto simp: starts_rollout_def holds_stored_Some split: if_splits)

lemma step_simulated:
  assumes "store_inv h c db"
  shows "authority_simulated (db_authorities db k) (db_authorities (store_step h c db ev) k)"
proof -
  consider "store_step h c db ev = db"
    | op tx where "op_tx h c op = Some tx" "apply_tx tx db = Some (store_step h c db ev)"
    using store_step_cases by blast
  then have "db_authorities (store_step h c db ev) k = db_authorities db k
    \<or> (\<exists>d'. db_authorities (store_step h c db ev) k = Some d' \<and> authority_ok h k d'
        \<and> (case db_authorities db k of
             None \<Rightarrow> au_revision (doc_value d') = 0
           | Some d \<Rightarrow> authority_follows (stored_of d) d'))"
    by cases (auto dest!: op_tx_ok authority_written [where k = k])
  moreover have "wf_authority_record (doc_value d)" if "db_authorities db k = Some d" for d
    using assms that by (auto simp: store_inv_def authority_ok_def)
  ultimately show ?thesis
    by (auto simp: authority_simulated_def first_is_initial follows_advances split: option.splits)
qed

section \<open>Histories\<close>

text \<open>
  C20: the store refines the pure epoch machine: in every history, each event leaves a stored
  authority as it is, or creates it as \<open>initial_authority\<close> does, or moves it exactly as
  \<open>compare_and_advance\<close> does on the request the new record names. The one difference is an actor
  of blanks only, which the durable record admits and the pure module refuses.
\<close>

theorem store_refines_epoch_machine:
  "authority_simulated (db_authorities (store_run h c events) k) (db_authorities (store_run h c (events @ [ev])) k)"
  by (simp add: store_run_append step_simulated [OF store_run_inv])

end
