(* ===== verification/ReplayProps.thy ===== *)
theory ReplayProps
  imports Replay
begin

text \<open>
  What the replay module guarantees: its two identities are domain-separated and injective
  up to SHA-256, its operations fail exactly outside their phase, a terminal receipt is
  immutable, a receipt is VERIFIED only after the expected state was read back, and no
  failure after dispatch is retried.
\<close>

section \<open>Identities\<close>

lemma target_json_inject [simp]: "target_json s = target_json t \<longleftrightarrow> s = t"
  by (auto simp: target_json_def)

lemma sort_key_sorted: "sorted (map fst xs) \<Longrightarrow> sort_key fst xs = xs"
  by (simp add: sort_key_id_if_sorted)

lemma list_le_code:
  "(x # xs \<le> y # ys) = (char_code x < char_code y \<or> x = y \<and> xs \<le> ys)"
  by (simp add: Cons_le_Cons char_less_code)

lemmas eval_list_le = list_le_code Nil_le_Cons char_code_def

lemma sort_keys_target [simp]: "sort_keys (target_json t) = target_json t"
  unfolding target_json_def sort_keys.simps
  by (subst sort_key_sorted) (simp_all add: eval_list_le)

lemma sort_keys_mutation: "sort_keys (mutation_identity_value b) = mutation_identity_value b"
  unfolding mutation_identity_value_def
  by (simp only: sort_keys.simps list.map prod.case sort_keys_target, subst sort_key_sorted)
    (simp_all add: eval_list_le)

lemma mutation_action_value_inject [simp]:
  "mutation_action_value a = mutation_action_value b \<longleftrightarrow> a = b"
  by (cases a; cases b) simp_all

lemma mutation_identity_value_inject: "mutation_identity_value b = mutation_identity_value c \<longleftrightarrow> b = c"
  by (auto simp: mutation_identity_value_def)

lemma claim_value_sorted:
  "sort_keys (JObj [(''idempotency_key'', JStr k),
      (''schema_version'', JStr ''controlgraph.receipt-claim-identity/v1''),
      (''target'', target_json t)])
    = JObj [(''idempotency_key'', JStr k),
      (''schema_version'', JStr ''controlgraph.receipt-claim-identity/v1''),
      (''target'', target_json t)]"
  by (simp only: sort_keys.simps list.map prod.case sort_keys_target, subst sort_key_sorted)
    (simp_all add: eval_list_le)

lemma domains_differ: "MUTATION_IDENTITY_DOMAIN @ x \<noteq> RECEIPT_CLAIM_IDENTITY_DOMAIN @ y"
proof
  assume "MUTATION_IDENTITY_DOMAIN @ x = RECEIPT_CLAIM_IDENTITY_DOMAIN @ y"
  from arg_cong [OF this, of "\<lambda>xs. xs ! 13"] show False
    by (simp add: MUTATION_IDENTITY_DOMAIN_def RECEIPT_CLAIM_IDENTITY_DOMAIN_def ascii_bytes_def
        octet_inject char_code_def)
qed

text \<open>
  what the two identities hash determines what they identify: equal mutation preimages
  come from equal bindings, equal receipt-claim preimages from the same target and key, and
  no mutation preimage is a receipt-claim preimage. Two bindings share an identity only if
  SHA-256 collides on two of these byte strings.
\<close>

theorem identity_preimages_unambiguous:
  "(mutation_preimage b = mutation_preimage c \<longleftrightarrow> b = c)
   \<and> (receipt_claim_preimage s k = receipt_claim_preimage t l \<longleftrightarrow> s = t \<and> k = l)
   \<and> mutation_preimage b \<noteq> receipt_claim_preimage s k"
  by (simp add: mutation_preimage_def receipt_claim_preimage_def encode_utf8_inject
      json_dumps_inject sort_keys_mutation mutation_identity_value_inject claim_value_sorted
      domains_differ conj_commute)

section \<open>One operation\<close>

datatype replay_input =
    DenyBeforeDispatch denial_reason
  | ProviderResult provider_attempt_result
  | Readback "string option"
  | CloseAmbiguity

fun replay_apply :: "replay_receipt \<Rightarrow> replay_input \<Rightarrow> replay_receipt result" where
  "replay_apply r (DenyBeforeDispatch d) = deny_before_dispatch r d"
| "replay_apply r (ProviderResult p) = record_provider_result r p"
| "replay_apply r (Readback o') = record_readback r o'"
| "replay_apply r CloseAmbiguity = close_unresolved_ambiguity r"

definition wf_replay :: "replay_receipt \<Rightarrow> bool" where
  "wf_replay r \<longleftrightarrow> validate_replay_receipt r = None"

text \<open>When an operation applies, and the receipt it then leaves.\<close>

fun replay_enabled :: "replay_receipt \<Rightarrow> replay_input \<Rightarrow> bool" where
  "replay_enabled r (DenyBeforeDispatch d) \<longleftrightarrow> rr_phase r = PH_CLAIMED"
| "replay_enabled r (ProviderResult p) \<longleftrightarrow> rr_phase r = PH_CLAIMED"
| "replay_enabled r (Readback o') \<longleftrightarrow>
     rr_phase r = PH_READBACK_REQUIRED \<and> (\<forall>s. o' = Some s \<longrightarrow> is_sha256 s)"
| "replay_enabled r CloseAmbiguity \<longleftrightarrow>
     rr_phase r = PH_READBACK_REQUIRED \<and> rr_readback_attempted r"

fun phase_rank :: "receipt_phase \<Rightarrow> nat" where
  "phase_rank PH_CLAIMED = 0"
| "phase_rank PH_READBACK_REQUIRED = 1"
| "phase_rank PH_TERMINAL = 2"

lemmas replay_op_defs = deny_before_dispatch_def record_provider_result_def record_readback_def
  close_unresolved_ambiguity_def awaits_readback_def

lemma wf_replay_cases:
  assumes "wf_replay r"
  obtains (claimed) "rr_phase r = PH_CLAIMED" "rr_outcome r = RO_CLAIMED" "rr_reason r = None"
      "rr_result_sha256 r = None" "\<not> rr_readback_attempted r"
  | (applied) "rr_phase r = PH_READBACK_REQUIRED" "rr_outcome r = RO_APPLIED" "rr_reason r = None"
      "rr_result_sha256 r = None" "\<not> rr_readback_attempted r"
  | (ambiguous) "rr_phase r = PH_READBACK_REQUIRED" "rr_outcome r = RO_AMBIGUOUS"
      "rr_reason r = Some DR_PROVIDER_OUTCOME_AMBIGUOUS"
      "\<forall>s. rr_result_sha256 r = Some s \<longrightarrow> is_sha256 s \<and> rr_readback_attempted r"
  | (terminal) "rr_phase r = PH_TERMINAL"
  using assms
  by (cases "rr_phase r")
    (auto simp: wf_replay_def validate_replay_receipt_def validate_shape_def
      split: if_splits option.splits)

lemma replay_apply_result:
  assumes "wf_replay r"
  shows "if replay_enabled r i
    then \<exists>r'. replay_apply r i = Inr r' \<and> wf_replay r' \<and> rr_binding r' = rr_binding r
      \<and> phase_rank (rr_phase r) \<le> phase_rank (rr_phase r')
    else \<exists>m. replay_apply r i = Inl (ValueError m)"
  using assms
proof (cases rule: wf_replay_cases)
  case claimed
  then show ?thesis
    by (cases i) (auto simp: replay_op_defs construct_def wf_replay_def validate_replay_receipt_def
        validate_shape_def)
next
  case applied
  then show ?thesis
    by (cases i) (auto simp: replay_op_defs construct_def wf_replay_def validate_replay_receipt_def
        validate_shape_def validate_sha256_def split: option.split)
next
  case ambiguous
  then show ?thesis
    by (cases i) (auto simp: replay_op_defs construct_def wf_replay_def validate_replay_receipt_def
        validate_shape_def validate_sha256_def split: option.split)
next
  case terminal
  then show ?thesis
    by (cases i) (auto simp: replay_op_defs)
qed

text \<open>
  C36: the operations on a well-formed receipt fail exactly outside their phase (or on a
  malformed observed digest): inside it they return a well-formed receipt of the same
  binding whose phase is no earlier, so the shape check of the new receipt never fires.
\<close>

theorem replay_operations_total:
  assumes "wf_replay r"
  shows "if replay_enabled r i
    then \<exists>r'. replay_apply r i = Inr r' \<and> wf_replay r' \<and> rr_binding r' = rr_binding r
      \<and> phase_rank (rr_phase r) \<le> phase_rank (rr_phase r')
    else \<exists>m. replay_apply r i = Inl (ValueError m)"
  using assms by (rule replay_apply_result)

definition sample_poststate :: string where
  "sample_poststate = replicate 64 CHR ''e''"

definition sample_binding :: mutation_binding where
  "sample_binding =
     \<lparr>mb_idempotency_key = ''key-1'', mb_request_id = ''request-1'', mb_root_id = ''root-1'',
      mb_root_sha256 = replicate 64 CHR ''a'', mb_epoch = 4, mb_action = MA_APPLY_CANARY,
      mb_target = \<lparr>tk_project_id = ''project'', tk_region = ''region'', tk_environment = ''canary'',
        tk_service_name = ''target''\<rparr>,
      mb_provider_precondition = ''etag-1'', mb_plan_sha256 = replicate 64 CHR ''b'',
      mb_capability_sha256 = replicate 64 CHR ''c'', mb_payload_sha256 = replicate 64 CHR ''d'',
      mb_expected_poststate_sha256 = sample_poststate\<rparr>"

definition applied_receipt :: replay_receipt where
  "applied_receipt =
     \<lparr>rr_binding = sample_binding, rr_phase = PH_READBACK_REQUIRED, rr_outcome = RO_APPLIED,
      rr_reason = None, rr_result_sha256 = None, rr_readback_attempted = False\<rparr>"

theorem replay_operations_total_witness:
  "\<exists>r'. replay_apply applied_receipt (Readback None) = Inr r' \<and> wf_replay r'
      \<and> rr_binding r' = sample_binding"
proof -
  have "wf_replay applied_receipt"
    by (simp add: applied_receipt_def wf_replay_def validate_replay_receipt_def validate_shape_def)
  from replay_operations_total [OF this, of "Readback None"] show ?thesis
    by (auto simp: applied_receipt_def)
qed

section \<open>Runs\<close>

definition replay_step :: "replay_receipt \<Rightarrow> replay_input \<Rightarrow> replay_receipt" where
  "replay_step r i = (case replay_apply r i of Inl _ \<Rightarrow> r | Inr r' \<Rightarrow> r')"

definition replay_le :: "replay_receipt \<Rightarrow> replay_receipt \<Rightarrow> bool" where
  "replay_le r r' \<longleftrightarrow> rr_binding r' = rr_binding r \<and> phase_rank (rr_phase r) \<le> phase_rank (rr_phase r')"

lemma replay_terminal_apply: "rr_phase r = PH_TERMINAL \<Longrightarrow> \<exists>e. replay_apply r i = Inl e"
  by (cases i) (auto simp: replay_op_defs)

interpretation replays: absorbing_machine replay_step wf_replay replay_le receipt_terminal
proof
  fix r i
  assume wf: "wf_replay r"
  show "wf_replay (replay_step r i)" "replay_le r (replay_step r i)"
    using replay_apply_result [OF wf, of i] wf
    by (auto simp: replay_step_def replay_le_def split: if_splits)
  assume "receipt_terminal r"
  then show "replay_step r i = r"
    using replay_terminal_apply [of r i] by (auto simp: replay_step_def receipt_terminal_def)
qed (auto simp: replay_le_def)

definition claimed_receipt :: "mutation_binding \<Rightarrow> replay_receipt" where
  "claimed_receipt b =
     \<lparr>rr_binding = b, rr_phase = PH_CLAIMED, rr_outcome = RO_CLAIMED, rr_reason = None,
      rr_result_sha256 = None, rr_readback_attempted = False\<rparr>"

lemma claim_receipt_eq: "claim_receipt b = Inr (claimed_receipt b)"
  by (simp add: claim_receipt_def claimed_receipt_def construct_def validate_replay_receipt_def
      validate_shape_def)

lemma claimed_receipt_wf: "wf_replay (claimed_receipt b)"
  by (simp add: wf_replay_def claimed_receipt_def validate_replay_receipt_def validate_shape_def)

abbreviation replay_run :: "mutation_binding \<Rightarrow> replay_input list \<Rightarrow> replay_receipt" where
  "replay_run b xs \<equiv> foldl replay_step (claimed_receipt b) xs"

lemma replay_run_wf: "wf_replay (replay_run b xs)"
  by (rule replays.run_inv) (rule claimed_receipt_wf)

lemma replay_run_binding: "rr_binding (replay_run b xs) = b"
  using replays.run_le [OF claimed_receipt_wf, of b xs] by (simp add: replay_le_def claimed_receipt_def)

text \<open>What must have arrived for the receipt to be where it is.\<close>

definition maybe_dispatched :: "replay_input list \<Rightarrow> bool" where
  "maybe_dispatched xs \<longleftrightarrow>
     (\<exists>p. ProviderResult p \<in> set xs \<and> p \<noteq> PA_PRECONDITION_REJECTED \<and> p \<noteq> PA_REQUEST_REJECTED)"

definition explained :: "mutation_binding \<Rightarrow> replay_input list \<Rightarrow> replay_receipt \<Rightarrow> bool" where
  "explained b xs r \<longleftrightarrow>
     (rr_phase r = PH_READBACK_REQUIRED \<longrightarrow> maybe_dispatched xs)
     \<and> (rr_outcome r = RO_VERIFIED \<longrightarrow>
         rr_result_sha256 r = Some (mb_expected_poststate_sha256 b)
         \<and> (\<exists>ys zs. xs = ys @ Readback (Some (mb_expected_poststate_sha256 b)) # zs
              \<and> maybe_dispatched ys))"

lemma maybe_dispatched_append: "maybe_dispatched xs \<Longrightarrow> maybe_dispatched (xs @ ys)"
  by (auto simp: maybe_dispatched_def)

lemma explained_append:
  assumes "explained b xs r" shows "explained b (xs @ ys) r"
proof -
  have "\<exists>us vs. xs @ ys = us @ i # vs \<and> maybe_dispatched us"
    if "\<exists>us vs. xs = us @ i # vs \<and> maybe_dispatched us" for i
    using that by fastforce
  with assms show ?thesis
    by (simp add: explained_def maybe_dispatched_append)
qed

text \<open>How an operation enters the two phases \<open>explained\<close> speaks of.\<close>

lemma replay_apply_entry:
  assumes r: "wf_replay r" "replay_apply r i = Inr r'"
  shows "(rr_phase r' = PH_READBACK_REQUIRED \<longrightarrow>
      rr_phase r = PH_READBACK_REQUIRED \<or> maybe_dispatched [i])
    \<and> (rr_outcome r' = RO_VERIFIED \<longrightarrow>
      rr_phase r = PH_READBACK_REQUIRED
      \<and> i = Readback (Some (mb_expected_poststate_sha256 (rr_binding r)))
      \<and> rr_result_sha256 r' = Some (mb_expected_poststate_sha256 (rr_binding r)))"
proof (cases i)
  case (ProviderResult p)
  with r show ?thesis
    by (auto simp: replay_op_defs maybe_dispatched_def split: if_splits)
next
  case (Readback x)
  with r(2) show ?thesis
    by (auto simp: replay_op_defs split: if_splits option.splits)
qed (use r(2) in \<open>auto simp: replay_op_defs split: if_splits\<close>)

lemma explained_snoc:
  assumes r: "wf_replay r" "rr_binding r = b" "explained b xs r"
  shows "explained b (xs @ [i]) (replay_step r i)"
proof (cases "replay_apply r i")
  case Inl
  with r(3) show ?thesis by (simp add: replay_step_def explained_append)
next
  case (Inr r')
  have new: "replay_step r i = r'" by (simp add: replay_step_def Inr)
  note entry = replay_apply_entry [OF r(1) Inr]
  have dispatched: "rr_phase r = PH_READBACK_REQUIRED \<Longrightarrow> maybe_dispatched xs"
    using r(3) by (simp add: explained_def)
  have "maybe_dispatched (xs @ [i])" if "rr_phase r' = PH_READBACK_REQUIRED"
    using that entry dispatched by (auto simp: maybe_dispatched_def)
  moreover have "\<exists>us vs. xs @ [i] = us @ Readback (Some (mb_expected_poststate_sha256 b)) # vs
      \<and> maybe_dispatched us" if "rr_outcome r' = RO_VERIFIED"
    using that entry dispatched r(2) by (intro exI [of _ xs] exI [of _ "[]"]) simp
  ultimately show ?thesis
    using entry r(2) by (simp add: explained_def new)
qed

lemma replay_run_explained: "explained b xs (replay_run b xs)"
proof (induction xs rule: rev_induct)
  case Nil
  show ?case by (simp add: explained_def claimed_receipt_def)
next
  case (snoc i xs)
  then show ?case
    using explained_snoc [OF replay_run_wf replay_run_binding] by simp
qed

text \<open>
  C30: success is only ever adopted from a readback. In every sequence of operations on a new
  claim, a receipt that is VERIFIED carries the digest its binding expects, and that digest
  was observed by a readback that followed a provider attempt which may have dispatched; a
  receipt that was denied or rejected before is never VERIFIED.
\<close>

theorem verified_only_by_readback:
  assumes "rr_outcome (replay_run b xs) = RO_VERIFIED"
  shows "rr_result_sha256 (replay_run b xs) = Some (mb_expected_poststate_sha256 b)
    \<and> (\<exists>ys zs. xs = ys @ Readback (Some (mb_expected_poststate_sha256 b)) # zs \<and> maybe_dispatched ys)"
  using assms replay_run_explained [of b xs] by (simp add: explained_def)


definition verified_run :: "replay_input list" where
  "verified_run = [ProviderResult PA_TIMEOUT, Readback None, Readback (Some sample_poststate)]"

lemma sample_digest: "is_sha256 sample_poststate"
  by (simp add: sample_poststate_def is_sha256_def hex_char_def char_code_def list_all_iff)

lemma verified_run_receipt:
  "replay_run sample_binding verified_run =
     \<lparr>rr_binding = sample_binding, rr_phase = PH_TERMINAL, rr_outcome = RO_VERIFIED,
      rr_reason = None, rr_result_sha256 = Some sample_poststate,
      rr_readback_attempted = True\<rparr>"
proof -
  have expected: "mb_expected_poststate_sha256 sample_binding = sample_poststate"
    by (simp add: sample_binding_def)
  show ?thesis
    using sample_digest
    by (simp add: verified_run_def replay_step_def replay_op_defs claimed_receipt_def construct_def
        validate_replay_receipt_def validate_shape_def validate_sha256_def expected)
qed

lemma verified_run_outcome:
  "rr_outcome (replay_run sample_binding verified_run) = RO_VERIFIED"
  "receipt_terminal (replay_run sample_binding verified_run)"
  by (simp_all only: verified_run_receipt replay_receipt.simps receipt_terminal_def)

theorem verified_only_by_readback_witness:
  "rr_result_sha256 (replay_run sample_binding verified_run) = Some sample_poststate"
  using verified_only_by_readback [OF verified_run_outcome(1)] by (simp add: sample_binding_def)

text \<open>
  Redelivery of a claimed mutation never creates a second claim. Whatever happened to
  the first one, the same binding is answered from the stored receipt, by its phase, and a
  different binding under the key is denied as a conflict that leaves the receipt alone.
\<close>

theorem redelivery_never_claims_again:
  "\<exists>d. decide_replay c (Some (replay_run b xs)) = Inr d
    \<and> rd_receipt d = Some (replay_run b xs)
    \<and> rd_action d =
        (if c \<noteq> b then RA_DENY_CONFLICT
         else case rr_phase (replay_run b xs) of
                PH_CLAIMED \<Rightarrow> RA_RETURN_IN_PROGRESS
              | PH_READBACK_REQUIRED \<Rightarrow> RA_REQUIRE_READBACK
              | PH_TERMINAL \<Rightarrow> RA_RETURN_STORED)"
  by (auto simp: decide_replay_def replay_run_binding receipt_terminal_def split: receipt_phase.split)

text \<open>
  A terminal receipt is immutable: no later operation changes it, so every redelivery of
  its binding is answered with the same stored receipt.
\<close>

theorem terminal_receipt_is_immutable:
  assumes "receipt_terminal (replay_run b xs)"
  shows "replay_run b (xs @ ys) = replay_run b xs
    \<and> decide_replay b (Some (replay_run b (xs @ ys)))
        = Inr \<lparr>rd_action = RA_RETURN_STORED, rd_receipt = Some (replay_run b xs),
               rd_reason = rr_reason (replay_run b xs)\<rparr>"
proof -
  have "replay_run b (xs @ ys) = replay_run b xs"
    using assms claimed_receipt_wf by (intro replays.final_after)
  with assms show ?thesis
    by (simp add: decide_replay_def replay_run_binding)
qed

theorem terminal_receipt_is_immutable_witness:
  "replay_run sample_binding (verified_run @ [DenyBeforeDispatch DR_EPOCH_MISMATCH])
    = replay_run sample_binding verified_run"
  using terminal_receipt_is_immutable [OF verified_run_outcome(2)] by blast

section \<open>Transport retries\<close>

text \<open>
  A transport failure is retried only when dispatch is known not to have started and an
  attempt is left, so at most twice; every other failure inside the attempt bounds asks for
  a readback, and exhausted attempts stop without one.
\<close>

theorem retry_only_before_dispatch:
  "((\<exists>d. decide_transport_failure f n m = Inr d \<and> retry_permitted d)
       \<longleftrightarrow> f = TF_BEFORE_DISPATCH \<and> 1 \<le> n \<and> n < m \<and> m \<le> 3)
   \<and> ((\<exists>d. decide_transport_failure f n m = Inr d \<and> td_action d = TA_REQUIRE_READBACK)
       \<longleftrightarrow> f \<noteq> TF_BEFORE_DISPATCH \<and> 1 \<le> n \<and> n \<le> m \<and> m \<le> 3)
   \<and> ((\<exists>d. decide_transport_failure f n m = Inr d \<and> td_action d = TA_STOP_BEFORE_DISPATCH)
       \<longleftrightarrow> f = TF_BEFORE_DISPATCH \<and> 1 \<le> n \<and> n = m \<and> m \<le> 3)"
  by (auto simp: decide_transport_failure_def retry_permitted_def Let_def
      MAX_PRE_DISPATCH_TRANSPORT_ATTEMPTS_def)

end
