(* ===== verification/HealthData.thy ===== *)
theory HealthData
  imports CanonicalJson
begin

text \<open>
  The data of the health evaluator, \<open>backend/src/controlgraph_canary/authority/health.py\<close>:
  the frozen policy, one aggregated window sample, the anti-flap state carried between
  evaluations and the decision record, each with the validator its \<open>__post_init__\<close> runs.
  The lemmas unfold a validator once into the facts a proof uses.
\<close>

definition BASIS_POINTS :: int where "BASIS_POINTS = 10000"
definition MAX_WINDOWS :: int where "MAX_WINDOWS = 10"

definition SAMPLE_SET_DIGEST_DOMAIN :: bytes where
  "SAMPLE_SET_DIGEST_DOMAIN =
     map (\<lambda>c. octet (char_code c)) ''controlgraph.monitoring-sample-set/v1'' @ [0]"

datatype health_decision_kind = HD_HEALTHY | HD_UNHEALTHY | HD_WAIT | HD_INSUFFICIENT_EVIDENCE

datatype health_reason =
    NO_SAMPLES | TOO_MANY_WINDOWS | STATE_SCOPE_MISMATCH | STATE_TERMINAL
  | SAMPLE_SCOPE_MISMATCH | WINDOW_BOUNDARY_INVALID | WINDOW_OUT_OF_ORDER | WINDOW_DUPLICATE
  | WINDOW_GAP | WINDOW_NOT_READY | SAMPLE_EARLY | SAMPLE_LATE | SAMPLE_MISSING | SAMPLE_PARTIAL
  | SAMPLE_CONFLICTING_DUPLICATE | MINIMUM_REQUESTS_NOT_MET | HEALTHY_THRESHOLDS_MET
  | UNHEALTHY_ERROR_RATE | UNHEALTHY_LATENCY | UNHEALTHY_AVAILABILITY | THRESHOLD_INCONCLUSIVE
  | HEALTHY_STREAK_PENDING | UNHEALTHY_STREAK_PENDING | HEALTHY_STREAK_MET
  | UNHEALTHY_STREAK_MET | MAXIMUM_WINDOWS_EXHAUSTED

section \<open>Field checks\<close>

definition require_int :: "string \<Rightarrow> int \<Rightarrow> int \<Rightarrow> int \<Rightarrow> check" where
  "require_int name value minimum maximum =
     fails_if (value < minimum \<or> value > maximum)
       (ValueError (name @ '' must be an integer from '' @ show_int minimum @ '' through ''
          @ show_int maximum))"

definition require_root_binding :: "string \<Rightarrow> string \<Rightarrow> check" where
  "require_root_binding root_id root_sha256 =
     fails_if (root_id \<noteq> ''cgroot:'' @ root_sha256) (ValueError ''root_id must bind root_sha256'')"

lemma require_int_None [simp, check_simps]: "require_int n v lo hi = None \<longleftrightarrow> lo \<le> v \<and> v \<le> hi"
  by (auto simp: require_int_def)

lemma require_root_binding_None [simp, check_simps]:
  "require_root_binding r s = None \<longleftrightarrow> r = ''cgroot:'' @ s"
  by (simp add: require_root_binding_def)

section \<open>Policy\<close>

record health_policy =
  hp_policy_version :: string
  hp_policy_sha256 :: string
  hp_project_id :: string
  hp_region :: string
  hp_environment :: string
  hp_service_name :: string
  hp_root_id :: string
  hp_root_sha256 :: string
  hp_epoch :: int
  hp_candidate_revision :: string
  hp_observation_started_at :: int
  hp_window_seconds :: int
  hp_observation_delay_seconds :: int
  hp_maximum_observation_delay_seconds :: int
  hp_minimum_request_count :: int
  hp_healthy_maximum_error_rate_basis_points :: int
  hp_unhealthy_minimum_error_rate_basis_points :: int
  hp_healthy_maximum_p95_latency_ms :: int
  hp_unhealthy_minimum_p95_latency_ms :: int
  hp_healthy_minimum_availability_basis_points :: int
  hp_unhealthy_maximum_availability_basis_points :: int
  hp_healthy_consecutive_windows :: int
  hp_unhealthy_consecutive_windows :: int
  hp_maximum_windows :: int

definition validate_health_policy :: "health_policy \<Rightarrow> check" where
  "validate_health_policy p =
     checks
      [validate_identifier ''policy_version'' (hp_policy_version p),
       validate_identifier ''project_id'' (hp_project_id p),
       validate_identifier ''region'' (hp_region p),
       validate_identifier ''environment'' (hp_environment p),
       validate_identifier ''service_name'' (hp_service_name p),
       validate_identifier ''root_id'' (hp_root_id p),
       validate_identifier ''candidate_revision'' (hp_candidate_revision p),
       validate_sha256 ''policy_sha256'' (hp_policy_sha256 p),
       validate_sha256 ''root_sha256'' (hp_root_sha256 p),
       require_root_binding (hp_root_id p) (hp_root_sha256 p),
       require_int ''epoch'' (hp_epoch p) 1 MAX_SAFE_INTEGER,
       require_int ''observation_started_at'' (hp_observation_started_at p) 0 MAX_SAFE_INTEGER,
       require_int ''window_seconds'' (hp_window_seconds p) 1 86400,
       require_int ''observation_delay_seconds'' (hp_observation_delay_seconds p) 0 86400,
       require_int ''maximum_observation_delay_seconds'' (hp_maximum_observation_delay_seconds p) 0 86400,
       fails_if (hp_maximum_observation_delay_seconds p < hp_observation_delay_seconds p)
         (ValueError ''maximum observation delay cannot precede the earliest observation''),
       require_int ''minimum_request_count'' (hp_minimum_request_count p) 1 MAX_SAFE_INTEGER,
       require_int ''healthy_maximum_error_rate_basis_points''
         (hp_healthy_maximum_error_rate_basis_points p) 0 BASIS_POINTS,
       require_int ''unhealthy_minimum_error_rate_basis_points''
         (hp_unhealthy_minimum_error_rate_basis_points p) 0 BASIS_POINTS,
       require_int ''healthy_minimum_availability_basis_points''
         (hp_healthy_minimum_availability_basis_points p) 0 BASIS_POINTS,
       require_int ''unhealthy_maximum_availability_basis_points''
         (hp_unhealthy_maximum_availability_basis_points p) 0 BASIS_POINTS,
       require_int ''healthy_maximum_p95_latency_ms'' (hp_healthy_maximum_p95_latency_ms p) 0 MAX_SAFE_INTEGER,
       require_int ''unhealthy_minimum_p95_latency_ms'' (hp_unhealthy_minimum_p95_latency_ms p) 0 MAX_SAFE_INTEGER,
       require_int ''healthy_consecutive_windows'' (hp_healthy_consecutive_windows p) 1 64,
       require_int ''unhealthy_consecutive_windows'' (hp_unhealthy_consecutive_windows p) 1 64,
       require_int ''maximum_windows'' (hp_maximum_windows p) 1 MAX_WINDOWS,
       fails_if (hp_observation_started_at p + hp_maximum_windows p * hp_window_seconds p
            + hp_maximum_observation_delay_seconds p > MAX_SAFE_INTEGER)
         (ValueError ''health policy window horizon exceeds the safe timestamp range''),
       fails_if (hp_healthy_consecutive_windows p > hp_maximum_windows p
            \<or> hp_unhealthy_consecutive_windows p > hp_maximum_windows p)
         (ValueError ''health streak requirements cannot exceed maximum windows''),
       fails_if (hp_healthy_maximum_error_rate_basis_points p
            \<ge> hp_unhealthy_minimum_error_rate_basis_points p)
         (ValueError ''healthy and unhealthy error thresholds must leave a wait band''),
       fails_if (hp_healthy_maximum_p95_latency_ms p \<ge> hp_unhealthy_minimum_p95_latency_ms p)
         (ValueError ''healthy and unhealthy latency thresholds must leave a wait band''),
       fails_if (hp_unhealthy_maximum_availability_basis_points p
            \<ge> hp_healthy_minimum_availability_basis_points p)
         (ValueError ''healthy and unhealthy availability thresholds must leave a wait band'')]"

section \<open>Samples\<close>

record health_sample =
  hw_observation_sha256 :: string
  hw_query_sha256s :: "string list"
  hw_sample_sha256s :: "string list"
  hw_policy_sha256 :: string
  hw_project_id :: string
  hw_region :: string
  hw_environment :: string
  hw_service_name :: string
  hw_root_id :: string
  hw_root_sha256 :: string
  hw_epoch :: int
  hw_candidate_revision :: string
  hw_observation_started_at :: int
  hw_window_index :: int
  hw_window_started_at :: int
  hw_window_ended_at :: int
  hw_observed_at :: int
  hw_request_count :: int
  hw_response_1xx_count :: int
  hw_successful_request_count :: int
  hw_response_3xx_count :: int
  hw_response_4xx_count :: int
  hw_server_error_count :: int
  hw_p95_latency_ms :: int
  hw_complete :: bool
  hw_missing :: bool
  hw_duplicate_count :: int
  hw_conflicting_duplicate :: bool

definition response_total :: "health_sample \<Rightarrow> int" where
  "response_total s =
     hw_response_1xx_count s + hw_successful_request_count s + hw_response_3xx_count s
     + hw_response_4xx_count s + hw_server_error_count s"

definition validate_health_sample :: "health_sample \<Rightarrow> check" where
  "validate_health_sample s =
     checks
      ([validate_sha256 ''observation_sha256'' (hw_observation_sha256 s),
        fails_if (length (hw_query_sha256s s) \<noteq> 2)
          (ValueError ''query_sha256s must contain the two policy query digests''),
        fails_if (length (hw_sample_sha256s s) > 64)
          (ValueError ''sample_sha256s must contain at most 64 source digests'')]
       @ map (validate_sha256 ''query_sha256s'') (hw_query_sha256s s)
       @ map (validate_sha256 ''sample_sha256s'') (hw_sample_sha256s s)
       @ [fails_if (has_duplicates (hw_query_sha256s s)) (ValueError ''query digests must be unique''),
          fails_if (has_duplicates (hw_sample_sha256s s)) (ValueError ''sample digests must be unique''),
          validate_sha256 ''policy_sha256'' (hw_policy_sha256 s),
          validate_identifier ''project_id'' (hw_project_id s),
          validate_identifier ''region'' (hw_region s),
          validate_identifier ''environment'' (hw_environment s),
          validate_identifier ''service_name'' (hw_service_name s),
          validate_identifier ''root_id'' (hw_root_id s),
          validate_identifier ''candidate_revision'' (hw_candidate_revision s),
          validate_sha256 ''root_sha256'' (hw_root_sha256 s),
          require_root_binding (hw_root_id s) (hw_root_sha256 s),
          require_int ''epoch'' (hw_epoch s) 1 MAX_SAFE_INTEGER,
          require_int ''observation_started_at'' (hw_observation_started_at s) 0 MAX_SAFE_INTEGER,
          require_int ''window_started_at'' (hw_window_started_at s) 0 MAX_SAFE_INTEGER,
          require_int ''window_ended_at'' (hw_window_ended_at s) 0 MAX_SAFE_INTEGER,
          require_int ''observed_at'' (hw_observed_at s) 0 MAX_SAFE_INTEGER,
          require_int ''window_index'' (hw_window_index s) 1 MAX_SAFE_INTEGER,
          require_int ''request_count'' (hw_request_count s) 0 MAX_SAFE_INTEGER,
          require_int ''response_1xx_count'' (hw_response_1xx_count s) 0 MAX_SAFE_INTEGER,
          require_int ''successful_request_count'' (hw_successful_request_count s) 0 MAX_SAFE_INTEGER,
          require_int ''response_3xx_count'' (hw_response_3xx_count s) 0 MAX_SAFE_INTEGER,
          require_int ''response_4xx_count'' (hw_response_4xx_count s) 0 MAX_SAFE_INTEGER,
          require_int ''server_error_count'' (hw_server_error_count s) 0 MAX_SAFE_INTEGER,
          require_int ''p95_latency_ms'' (hw_p95_latency_ms s) 0 MAX_SAFE_INTEGER,
          require_int ''duplicate_count'' (hw_duplicate_count s) 0 MAX_SAFE_INTEGER,
          fails_if (hw_complete s \<and> hw_missing s)
            (ValueError ''a complete health sample cannot be missing''),
          fails_if (hw_complete s \<and> length (hw_sample_sha256s s) < 2)
            (ValueError ''complete health sample requires request and latency sample digests''),
          fails_if (hw_conflicting_duplicate s \<and> hw_duplicate_count s = 0)
            (ValueError ''a conflicting duplicate requires a positive duplicate count''),
          fails_if (hw_missing s
              \<and> (hw_sample_sha256s s \<noteq> [] \<or> hw_request_count s \<noteq> 0 \<or> hw_response_1xx_count s \<noteq> 0
                 \<or> hw_successful_request_count s \<noteq> 0 \<or> hw_response_3xx_count s \<noteq> 0
                 \<or> hw_response_4xx_count s \<noteq> 0 \<or> hw_server_error_count s \<noteq> 0
                 \<or> hw_p95_latency_ms s \<noteq> 0))
            (ValueError ''a missing health sample cannot contain aggregates''),
          fails_if (hw_window_ended_at s \<le> hw_window_started_at s)
            (ValueError ''health window must have positive duration''),
          fails_if (hw_observed_at s < hw_window_ended_at s)
            (ValueError ''health sample cannot be observed before its window ends''),
          fails_if (hw_complete s \<and> response_total s \<noteq> hw_request_count s)
            (ValueError ''total requests must equal the five known response-code classes''),
          fails_if (response_total s > hw_request_count s)
            (ValueError ''known response-code classes cannot exceed total requests'')])"

section \<open>State\<close>

record health_state =
  he_policy_version :: string
  he_policy_sha256 :: string
  he_project_id :: string
  he_region :: string
  he_environment :: string
  he_service_name :: string
  he_root_id :: string
  he_root_sha256 :: string
  he_epoch :: int
  he_candidate_revision :: string
  he_observation_started_at :: int
  he_last_window_ended_at :: "int option"
  he_consecutive_healthy_windows :: int
  he_consecutive_unhealthy_windows :: int
  he_evaluated_windows :: int
  he_last_observation_sha256 :: "string option"
  he_consumed_sample_set_sha256s :: "string list"
  he_prior_decision_sha256 :: "string option"

definition check_optional :: "('a \<Rightarrow> check) \<Rightarrow> 'a option \<Rightarrow> check" where
  "check_optional f x = (case x of None \<Rightarrow> None | Some v \<Rightarrow> f v)"

lemma check_optional_None [simp, check_simps]:
  "check_optional f x = None \<longleftrightarrow> (\<forall>v. x = Some v \<longrightarrow> f v = None)"
  by (simp add: check_optional_def split: option.split)

definition validate_health_state :: "health_state \<Rightarrow> check" where
  "validate_health_state s =
     checks
      ([validate_identifier ''policy_version'' (he_policy_version s),
        validate_identifier ''project_id'' (he_project_id s),
        validate_identifier ''region'' (he_region s),
        validate_identifier ''environment'' (he_environment s),
        validate_identifier ''service_name'' (he_service_name s),
        validate_identifier ''root_id'' (he_root_id s),
        validate_identifier ''candidate_revision'' (he_candidate_revision s),
        validate_sha256 ''policy_sha256'' (he_policy_sha256 s),
        validate_sha256 ''root_sha256'' (he_root_sha256 s),
        require_root_binding (he_root_id s) (he_root_sha256 s),
        require_int ''epoch'' (he_epoch s) 1 MAX_SAFE_INTEGER,
        require_int ''observation_started_at'' (he_observation_started_at s) 0 MAX_SAFE_INTEGER,
        check_optional (\<lambda>v. require_int ''last_window_ended_at'' v 0 MAX_SAFE_INTEGER)
          (he_last_window_ended_at s),
        check_optional (validate_sha256 ''last_observation_sha256'') (he_last_observation_sha256 s),
        fails_if (int (length (he_consumed_sample_set_sha256s s)) > MAX_WINDOWS)
          (ValueError ''consumed_sample_set_sha256s must contain at most 10 digests'')]
       @ map (validate_sha256 ''consumed_sample_set_sha256s'') (he_consumed_sample_set_sha256s s)
       @ [fails_if (has_duplicates (he_consumed_sample_set_sha256s s))
            (ValueError ''consumed sample-set digests must be unique''),
          check_optional (validate_sha256 ''prior_decision_sha256'') (he_prior_decision_sha256 s),
          require_int ''consecutive_healthy_windows'' (he_consecutive_healthy_windows s) 0 64,
          require_int ''consecutive_unhealthy_windows'' (he_consecutive_unhealthy_windows s) 0 64,
          require_int ''evaluated_windows'' (he_evaluated_windows s) 0 MAX_WINDOWS,
          fails_if (he_consecutive_healthy_windows s \<noteq> 0 \<and> he_consecutive_unhealthy_windows s \<noteq> 0)
            (ValueError ''healthy and unhealthy streaks cannot both be active''),
          fails_if (he_last_window_ended_at s = None
              \<and> (he_consecutive_healthy_windows s \<noteq> 0 \<or> he_consecutive_unhealthy_windows s \<noteq> 0
                 \<or> he_evaluated_windows s \<noteq> 0 \<or> he_last_observation_sha256 s \<noteq> None
                 \<or> he_consumed_sample_set_sha256s s \<noteq> []))
            (ValueError ''evaluated health state requires a prior window''),
          fails_if (he_evaluated_windows s = 0 \<and> he_last_window_ended_at s \<noteq> None)
            (ValueError ''initial health state cannot cite a prior window''),
          fails_if (max (he_consecutive_healthy_windows s) (he_consecutive_unhealthy_windows s)
              > he_evaluated_windows s)
            (ValueError ''a health streak cannot exceed evaluated windows''),
          fails_if (he_evaluated_windows s \<noteq> 0 \<and> he_last_observation_sha256 s = None)
            (ValueError ''evaluated health state requires its last observation digest''),
          fails_if (int (length (he_consumed_sample_set_sha256s s)) > he_evaluated_windows s)
            (ValueError ''consumed sample-set digests cannot exceed evaluated windows'')])"

section \<open>Results\<close>

record health_result =
  hr_decision :: health_decision_kind
  hr_reasons :: "health_reason list"
  hr_policy_version :: string
  hr_policy_sha256 :: string
  hr_prior_state :: health_state
  hr_state :: health_state
  hr_window_started_at :: "int option"
  hr_window_ended_at :: "int option"
  hr_request_count :: "int option"
  hr_successful_request_count :: "int option"
  hr_server_error_count :: "int option"
  hr_error_rate_basis_points :: "int option"
  hr_availability_basis_points :: "int option"
  hr_p95_latency_ms :: "int option"
  hr_observation_digests :: "string list"
  hr_observation_sha256 :: "string option"
  hr_query_sha256s :: "string list"
  hr_sample_sha256s :: "string list"
  hr_duplicate_count :: "int option"
  hr_evaluated_at :: int
  hr_next_evaluation_at :: "int option"

section \<open>What a validator establishes\<close>

definition wf_policy :: "health_policy \<Rightarrow> bool" where
  "wf_policy p \<longleftrightarrow> validate_health_policy p = None"

definition wf_sample :: "health_sample \<Rightarrow> bool" where
  "wf_sample s \<longleftrightarrow> validate_health_sample s = None"

definition wf_health :: "health_state \<Rightarrow> bool" where
  "wf_health s \<longleftrightarrow> validate_health_state s = None"

text \<open>The part of a state no evaluation changes.\<close>

definition health_header :: "health_state \<Rightarrow> bool" where
  "health_header s \<longleftrightarrow>
     exact_identifier (he_policy_version s) \<and> exact_identifier (he_project_id s)
     \<and> exact_identifier (he_region s) \<and> exact_identifier (he_environment s)
     \<and> exact_identifier (he_service_name s) \<and> exact_identifier (he_root_id s)
     \<and> exact_identifier (he_candidate_revision s) \<and> is_sha256 (he_policy_sha256 s)
     \<and> is_sha256 (he_root_sha256 s) \<and> he_root_id s = ''cgroot:'' @ he_root_sha256 s
     \<and> 1 \<le> he_epoch s \<and> he_epoch s \<le> MAX_SAFE_INTEGER
     \<and> 0 \<le> he_observation_started_at s \<and> he_observation_started_at s \<le> MAX_SAFE_INTEGER
     \<and> (\<forall>v. he_prior_decision_sha256 s = Some v \<longrightarrow> is_sha256 v)"

definition health_counters :: "health_state \<Rightarrow> bool" where
  "health_counters s \<longleftrightarrow>
     (\<forall>v. he_last_window_ended_at s = Some v \<longrightarrow> 0 \<le> v \<and> v \<le> MAX_SAFE_INTEGER)
     \<and> (\<forall>v. he_last_observation_sha256 s = Some v \<longrightarrow> is_sha256 v)
     \<and> (\<forall>v \<in> set (he_consumed_sample_set_sha256s s). is_sha256 v)
     \<and> distinct (he_consumed_sample_set_sha256s s)
     \<and> 0 \<le> he_consecutive_healthy_windows s \<and> 0 \<le> he_consecutive_unhealthy_windows s
     \<and> he_evaluated_windows s \<le> MAX_WINDOWS
     \<and> (he_consecutive_healthy_windows s = 0 \<or> he_consecutive_unhealthy_windows s = 0)
     \<and> he_consecutive_healthy_windows s \<le> he_evaluated_windows s
     \<and> he_consecutive_unhealthy_windows s \<le> he_evaluated_windows s
     \<and> int (length (he_consumed_sample_set_sha256s s)) \<le> he_evaluated_windows s
     \<and> (he_evaluated_windows s = 0 \<longleftrightarrow> he_last_window_ended_at s = None)
     \<and> (he_evaluated_windows s = 0 \<longleftrightarrow> he_last_observation_sha256 s = None)"

lemma wf_health_iff: "wf_health s \<longleftrightarrow> health_header s \<and> health_counters s"
  by (auto simp: wf_health_def validate_health_state_def health_header_def health_counters_def
      checks_append_None checks_map_None MAX_WINDOWS_def)

lemma wf_policy_bounds:
  assumes "wf_policy p"
  shows "1 \<le> hp_window_seconds p \<and> 0 \<le> hp_observation_delay_seconds p
    \<and> hp_observation_delay_seconds p \<le> hp_maximum_observation_delay_seconds p
    \<and> 1 \<le> hp_minimum_request_count p
    \<and> 0 \<le> hp_observation_started_at p \<and> hp_observation_started_at p \<le> MAX_SAFE_INTEGER
    \<and> 1 \<le> hp_healthy_consecutive_windows p \<and> 1 \<le> hp_unhealthy_consecutive_windows p
    \<and> hp_healthy_consecutive_windows p \<le> hp_maximum_windows p
    \<and> hp_unhealthy_consecutive_windows p \<le> hp_maximum_windows p
    \<and> 1 \<le> hp_maximum_windows p \<and> hp_maximum_windows p \<le> MAX_WINDOWS"
  using assms by (simp add: wf_policy_def validate_health_policy_def)

lemma wf_policy_bands:
  assumes "wf_policy p"
  shows "hp_healthy_maximum_error_rate_basis_points p < hp_unhealthy_minimum_error_rate_basis_points p
    \<and> hp_healthy_maximum_p95_latency_ms p < hp_unhealthy_minimum_p95_latency_ms p
    \<and> hp_unhealthy_maximum_availability_basis_points p < hp_healthy_minimum_availability_basis_points p"
  using assms by (simp add: wf_policy_def validate_health_policy_def)

lemma wf_sample_facts:
  assumes "wf_sample s"
  shows "is_sha256 (hw_observation_sha256 s) \<and> length (hw_sample_sha256s s) \<le> 64
    \<and> (\<forall>d \<in> set (hw_sample_sha256s s). is_sha256 d)
    \<and> 0 \<le> hw_window_started_at s \<and> hw_window_started_at s < hw_window_ended_at s
    \<and> hw_window_ended_at s \<le> hw_observed_at s \<and> hw_window_ended_at s \<le> MAX_SAFE_INTEGER
    \<and> 0 \<le> hw_request_count s
    \<and> 0 \<le> hw_server_error_count s \<and> 0 \<le> hw_successful_request_count s
    \<and> (hw_complete s \<longrightarrow> \<not> hw_missing s \<and> 2 \<le> length (hw_sample_sha256s s))"
  using assms
  by (auto simp: wf_sample_def validate_health_sample_def checks_append_None checks_map_None)

end
