(* ===== verification/Health.thy ===== *)
theory Health
  imports HealthData
begin

text \<open>
  The health evaluator, \<open>evaluate_health\<close> of
  \<open>backend/src/controlgraph_canary/authority/health.py\<close>, and its helpers. The body of the
  loop over the samples is split where its comments would be: admission of a sample against
  the ones seen, the window checks, the checks after the window is consumed, and the
  classification. Each part returns early (\<open>Inl\<close> of the result of the whole call, which
  may be a raised error) or goes on (\<open>Inr\<close>).
\<close>

section \<open>Helpers\<close>

definition sample_set_preimage :: "string list \<Rightarrow> bytes" where
  "sample_set_preimage ss =
     SAMPLE_SET_DIGEST_DOMAIN
     @ [octet (length ss div 256), octet (length ss mod 256)]
     @ concat (map bytes_fromhex ss)"

definition sample_set_sha256 :: "hexdigest \<Rightarrow> string list \<Rightarrow> string option" where
  "sample_set_sha256 hexdigest ss =
     (if ss = [] then None else Some (hexdigest (sample_set_preimage ss)))"

type_synonym health_scope =
  "string \<times> string \<times> string \<times> string \<times> string \<times> string \<times> int \<times> string"

definition policy_scope :: "health_policy \<Rightarrow> health_scope" where
  "policy_scope p = (hp_project_id p, hp_region p, hp_environment p, hp_service_name p,
     hp_root_id p, hp_root_sha256 p, hp_epoch p, hp_candidate_revision p)"

definition state_scope :: "health_state \<Rightarrow> health_scope" where
  "state_scope p = (he_project_id p, he_region p, he_environment p, he_service_name p,
     he_root_id p, he_root_sha256 p, he_epoch p, he_candidate_revision p)"

definition window_scope :: "health_sample \<Rightarrow> health_scope" where
  "window_scope p = (hw_project_id p, hw_region p, hw_environment p, hw_service_name p,
     hw_root_id p, hw_root_sha256 p, hw_epoch p, hw_candidate_revision p)"

definition state_matches :: "health_policy \<Rightarrow> health_state \<Rightarrow> bool" where
  "state_matches policy state \<longleftrightarrow>
     (let expected_last_window_ended_at =
        (if he_evaluated_windows state = 0 then None
         else Some (he_observation_started_at state
                + he_evaluated_windows state * hp_window_seconds policy))
      in he_policy_version state = hp_policy_version policy
         \<and> he_policy_sha256 state = hp_policy_sha256 policy
         \<and> he_observation_started_at state = hp_observation_started_at policy
         \<and> he_last_window_ended_at state = expected_last_window_ended_at
         \<and> state_scope state = policy_scope policy)"

definition sample_matches :: "health_policy \<Rightarrow> health_sample \<Rightarrow> bool" where
  "sample_matches policy sample \<longleftrightarrow>
     hw_policy_sha256 sample = hp_policy_sha256 policy
     \<and> hw_observation_started_at sample = hp_observation_started_at policy
     \<and> window_scope sample = policy_scope policy"

text \<open>
  \<open>_reset\<close> is never called with its optional \<open>last_window_ended_at\<close>; that argument is
  absent here. \<open>replace\<close> validates the new state.
\<close>

definition reset_streaks :: "health_state \<Rightarrow> health_state result" where
  "reset_streaks state =
     construct validate_health_state
       (state\<lparr>he_consecutive_healthy_windows := 0, he_consecutive_unhealthy_windows := 0\<rparr>)"

definition advance_window ::
  "hexdigest \<Rightarrow> health_state \<Rightarrow> int \<Rightarrow> string option \<Rightarrow> string list \<Rightarrow> int \<Rightarrow> health_state result" where
  "advance_window hexdigest state last_window_ended_at last_observation sample_sha256s windows =
    (let consumed = he_consumed_sample_set_sha256s state;
         consumed' =
           (case sample_set_sha256 hexdigest sample_sha256s of
              None \<Rightarrow> consumed
            | Some d \<Rightarrow> if d \<in> set consumed then consumed else consumed @ [d])
     in construct validate_health_state
          (state\<lparr>he_last_window_ended_at := Some last_window_ended_at,
                 he_evaluated_windows := min (he_evaluated_windows state + windows) MAX_WINDOWS,
                 he_last_observation_sha256 := last_observation,
                 he_consumed_sample_set_sha256s := consumed'\<rparr>))"

definition floor_basis_points :: "int \<Rightarrow> int \<Rightarrow> int" where
  "floor_basis_points numerator denominator = numerator * BASIS_POINTS div denominator"

definition ceiling_basis_points :: "int \<Rightarrow> int \<Rightarrow> int" where
  "ceiling_basis_points numerator denominator =
     (numerator * BASIS_POINTS + denominator - 1) div denominator"

definition next_window_ready :: "health_policy \<Rightarrow> int \<Rightarrow> int" where
  "next_window_ready policy window_ended_at =
     window_ended_at + hp_window_seconds policy + hp_observation_delay_seconds policy"

definition next_after_consumed :: "health_policy \<Rightarrow> health_state \<Rightarrow> int \<Rightarrow> int \<Rightarrow> int option" where
  "next_after_consumed policy state evaluated_at window_ended_at =
     (if he_evaluated_windows state \<ge> hp_maximum_windows policy then None
      else Some (max evaluated_at (next_window_ready policy window_ended_at)))"

definition measured :: "health_sample option \<Rightarrow> health_sample option" where
  "measured sample =
     (case sample of
        None \<Rightarrow> None
      | Some s \<Rightarrow> if \<not> hw_complete s \<or> hw_request_count s = 0 then None else Some s)"

definition health_result_of ::
  "health_decision_kind \<Rightarrow> health_reason list \<Rightarrow> health_policy \<Rightarrow> health_state \<Rightarrow> health_state
    \<Rightarrow> int \<Rightarrow> health_sample list \<Rightarrow> health_sample option \<Rightarrow> int option \<Rightarrow> health_result" where
  "health_result_of decision reasons policy prior_state state evaluated_at samples sample next_at =
     (let m = measured sample;
          rate = (\<lambda>f s. if hw_request_count s > 0 then Some (f s (hw_request_count s)) else None)
      in
      \<lparr>hr_decision = decision, hr_reasons = reasons,
       hr_policy_version = hp_policy_version policy, hr_policy_sha256 = hp_policy_sha256 policy,
       hr_prior_state = prior_state, hr_state = state,
       hr_window_started_at = map_option hw_window_started_at sample,
       hr_window_ended_at = map_option hw_window_ended_at sample,
       hr_request_count = map_option hw_request_count m,
       hr_successful_request_count = map_option hw_successful_request_count m,
       hr_server_error_count = map_option hw_server_error_count m,
       hr_error_rate_basis_points =
         Option.bind m (rate (\<lambda>s n. ceiling_basis_points (hw_server_error_count s) n)),
       hr_availability_basis_points =
         Option.bind m (rate (\<lambda>s n. floor_basis_points (hw_successful_request_count s) n)),
       hr_p95_latency_ms = map_option hw_p95_latency_ms m,
       hr_observation_digests = map hw_observation_sha256 samples,
       hr_observation_sha256 = map_option hw_observation_sha256 sample,
       hr_query_sha256s = (case sample of None \<Rightarrow> [] | Some s \<Rightarrow> hw_query_sha256s s),
       hr_sample_sha256s = (case sample of None \<Rightarrow> [] | Some s \<Rightarrow> hw_sample_sha256s s),
       hr_duplicate_count = map_option hw_duplicate_count sample,
       hr_evaluated_at = evaluated_at,
       hr_next_evaluation_at = map_option (max evaluated_at) next_at\<rparr>)"

definition insufficient ::
  "health_reason \<Rightarrow> health_policy \<Rightarrow> health_state \<Rightarrow> health_state \<Rightarrow> int \<Rightarrow> health_sample list
    \<Rightarrow> health_sample option \<Rightarrow> bool \<Rightarrow> int option \<Rightarrow> health_result result" where
  "insufficient reason policy prior_state state evaluated_at samples sample reset next_at =
     bindR (if reset then reset_streaks state else Inr state)
       (\<lambda>next_state.
          Inr (health_result_of HD_INSUFFICIENT_EVIDENCE [reason] policy prior_state next_state
                 evaluated_at samples sample next_at))"

datatype window_class = WC_healthy | WC_unhealthy | WC_wait

definition classify_window :: "health_policy \<Rightarrow> health_sample \<Rightarrow> window_class \<times> health_reason list" where
  "classify_window policy sample =
    (let denominator = hw_request_count sample;
         error_numerator = hw_server_error_count sample * BASIS_POINTS;
         availability_numerator = hw_successful_request_count sample * BASIS_POINTS;
         unhealthy_reasons =
           (if error_numerator \<ge> hp_unhealthy_minimum_error_rate_basis_points policy * denominator
            then [UNHEALTHY_ERROR_RATE] else [])
           @ (if hw_p95_latency_ms sample \<ge> hp_unhealthy_minimum_p95_latency_ms policy
              then [UNHEALTHY_LATENCY] else [])
           @ (if availability_numerator
                 \<le> hp_unhealthy_maximum_availability_basis_points policy * denominator
              then [UNHEALTHY_AVAILABILITY] else []);
         healthy =
           (error_numerator \<le> hp_healthy_maximum_error_rate_basis_points policy * denominator
            \<and> hw_p95_latency_ms sample \<le> hp_healthy_maximum_p95_latency_ms policy
            \<and> availability_numerator
                \<ge> hp_healthy_minimum_availability_basis_points policy * denominator)
     in if unhealthy_reasons \<noteq> [] then (WC_unhealthy, unhealthy_reasons)
        else if healthy then (WC_healthy, [HEALTHY_THRESHOLDS_MET])
        else (WC_wait, [THRESHOLD_INCONCLUSIVE]))"

section \<open>Early returns\<close>

type_synonym 'a early = "(health_result result) + 'a"

definition and_then :: "'a early \<Rightarrow> ('a \<Rightarrow> 'b early) \<Rightarrow> 'b early" where
  "and_then m f = (case m of Inl r \<Rightarrow> Inl r | Inr x \<Rightarrow> f x)"

definition or_raise :: "'a result \<Rightarrow> 'a early" where
  "or_raise r = (case r of Inl e \<Rightarrow> Inl (Inl e) | Inr x \<Rightarrow> Inr x)"

definition return_if :: "bool \<Rightarrow> health_result result \<Rightarrow> unit early" where
  "return_if b r = (if b then Inl r else Inr ())"

section \<open>The loop over the samples\<close>

record health_loop =
  hl_state :: health_state
  hl_seen_windows :: "(int \<times> int) \<rightharpoonup> health_sample"
  hl_seen_digests :: "string \<rightharpoonup> health_sample"
  hl_seen_sample_sets :: "string \<rightharpoonup> health_sample"
  hl_accepted :: "health_sample list"
  hl_last_result :: "health_result option"

definition sample_window :: "health_sample \<Rightarrow> int \<times> int" where
  "sample_window s = (hw_window_started_at s, hw_window_ended_at s)"

definition repeats_seen :: "hexdigest \<Rightarrow> health_loop \<Rightarrow> health_sample \<Rightarrow> bool" where
  "repeats_seen hexdigest l sample \<longleftrightarrow>
     (case hl_seen_windows l (sample_window sample) of
        None \<Rightarrow> False
      | Some prior \<Rightarrow>
          \<not> hw_conflicting_duplicate prior \<and> \<not> hw_conflicting_duplicate sample
          \<and> (hw_observation_sha256 prior = hw_observation_sha256 sample
             \<or> (sample_set_sha256 hexdigest (hw_sample_sha256s sample) \<noteq> None
                \<and> sample_set_sha256 hexdigest (hw_sample_sha256s prior)
                    = sample_set_sha256 hexdigest (hw_sample_sha256s sample))))"

definition conflicts_seen :: "hexdigest \<Rightarrow> health_loop \<Rightarrow> health_sample \<Rightarrow> bool" where
  "conflicts_seen hexdigest l sample \<longleftrightarrow>
     hl_seen_windows l (sample_window sample) \<noteq> None
     \<or> hl_seen_digests l (hw_observation_sha256 sample) \<noteq> None
     \<or> (case sample_set_sha256 hexdigest (hw_sample_sha256s sample) of
          None \<Rightarrow> False | Some d \<Rightarrow> hl_seen_sample_sets l d \<noteq> None)"

text \<open>Lines 806 to 832: a sample that conflicts with one seen ends the call, another is recorded.\<close>

definition admit_sample ::
  "hexdigest \<Rightarrow> health_policy \<Rightarrow> health_state \<Rightarrow> int \<Rightarrow> health_loop \<Rightarrow> health_sample \<Rightarrow> health_loop early" where
  "admit_sample hexdigest policy prior_state evaluated_at l sample =
    (let cited = hl_accepted l @ [sample]; state = hl_state l in
     if conflicts_seen hexdigest l sample
     then Inl
       (bindR (reset_streaks state)
         (\<lambda>conflict_state.
            insufficient SAMPLE_CONFLICTING_DUPLICATE policy prior_state conflict_state evaluated_at
              cited (Some sample) True
              (next_after_consumed policy conflict_state evaluated_at (hw_window_ended_at sample))))
     else Inr
       (l\<lparr>hl_accepted := cited,
          hl_seen_windows := (hl_seen_windows l)(sample_window sample \<mapsto> sample),
          hl_seen_digests := (hl_seen_digests l)(hw_observation_sha256 sample \<mapsto> sample),
          hl_seen_sample_sets :=
            (case sample_set_sha256 hexdigest (hw_sample_sha256s sample) of
               None \<Rightarrow> hl_seen_sample_sets l
             | Some d \<Rightarrow> (hl_seen_sample_sets l)(d \<mapsto> sample))\<rparr>))"

definition boundary_valid :: "health_policy \<Rightarrow> health_sample \<Rightarrow> bool" where
  "boundary_valid policy sample \<longleftrightarrow>
     hw_window_ended_at sample - hw_window_started_at sample = hp_window_seconds policy
     \<and> hw_window_index sample
         = (hw_window_started_at sample - hp_observation_started_at policy)
             div hp_window_seconds policy + 1
     \<and> hw_window_started_at sample \<ge> hp_observation_started_at policy
     \<and> (hw_window_started_at sample - hp_observation_started_at policy)
         mod hp_window_seconds policy = 0"

definition identical_replay :: "hexdigest \<Rightarrow> health_state \<Rightarrow> health_sample \<Rightarrow> bool" where
  "identical_replay hexdigest state sample \<longleftrightarrow>
     \<not> hw_conflicting_duplicate sample
     \<and> (he_last_observation_sha256 state = Some (hw_observation_sha256 sample)
        \<or> (case sample_set_sha256 hexdigest (hw_sample_sha256s sample) of
             None \<Rightarrow> False | Some d \<Rightarrow> d \<in> set (he_consumed_sample_set_sha256s state)))"

definition expected_start :: "health_policy \<Rightarrow> health_state \<Rightarrow> int" where
  "expected_start policy state =
     (case he_last_window_ended_at state of
        Some e \<Rightarrow> e | None \<Rightarrow> hp_observation_started_at policy)"

definition ready_at :: "health_policy \<Rightarrow> health_sample \<Rightarrow> int" where
  "ready_at policy sample = hw_window_ended_at sample + hp_observation_delay_seconds policy"

definition collection_deadline :: "health_policy \<Rightarrow> health_sample \<Rightarrow> int" where
  "collection_deadline policy sample =
     hw_window_ended_at sample + hp_maximum_observation_delay_seconds policy"

text \<open>Lines 834 to 937: bounds, scope, boundaries, replays and order.\<close>

definition check_window ::
  "hexdigest \<Rightarrow> health_policy \<Rightarrow> health_state \<Rightarrow> int \<Rightarrow> health_state \<Rightarrow> health_sample list
    \<Rightarrow> health_sample \<Rightarrow> unit early" where
  "check_window hexdigest policy prior_state evaluated_at state cited sample =
    and_then (return_if (he_evaluated_windows state \<ge> hp_maximum_windows policy)
      (insufficient MAXIMUM_WINDOWS_EXHAUSTED policy prior_state state evaluated_at cited
        (Some sample) True None))
    (\<lambda>_. and_then (return_if (\<not> sample_matches policy sample)
      (insufficient SAMPLE_SCOPE_MISMATCH policy prior_state state evaluated_at cited
        (Some sample) True None))
    (\<lambda>_. and_then (return_if (\<not> boundary_valid policy sample)
      (insufficient WINDOW_BOUNDARY_INVALID policy prior_state state evaluated_at cited
        (Some sample) True None))
    (\<lambda>_. and_then (return_if (identical_replay hexdigest state sample)
      (case he_last_window_ended_at state of
         None \<Rightarrow> Inl (AssertionError '''')
       | Some next_window_base \<Rightarrow>
           Inr (health_result_of HD_WAIT [WINDOW_DUPLICATE] policy prior_state state evaluated_at cited
             (Some sample) (next_after_consumed policy state evaluated_at next_window_base))))
    (\<lambda>_. and_then (return_if (he_last_window_ended_at state = Some (hw_window_ended_at sample))
      (bindR (reset_streaks state)
        (\<lambda>conflict_state.
           insufficient SAMPLE_CONFLICTING_DUPLICATE policy prior_state conflict_state evaluated_at
             cited (Some sample) True
             (next_after_consumed policy conflict_state evaluated_at (hw_window_ended_at sample)))))
    (\<lambda>_. return_if (hw_window_started_at sample < expected_start policy state)
      (insufficient WINDOW_OUT_OF_ORDER policy prior_state state evaluated_at cited
        (Some sample) True None))))))"

text \<open>Lines 942 to 981: too early to read, or read before it is complete.\<close>

definition check_timing ::
  "health_policy \<Rightarrow> health_state \<Rightarrow> int \<Rightarrow> health_state \<Rightarrow> health_sample list \<Rightarrow> health_sample
    \<Rightarrow> unit early" where
  "check_timing policy prior_state evaluated_at state cited sample =
    and_then (return_if (evaluated_at < ready_at policy sample)
      (Inr (health_result_of HD_WAIT [WINDOW_NOT_READY] policy prior_state state evaluated_at cited
        (Some sample) (Some (ready_at policy sample)))))
    (\<lambda>_. and_then (return_if (hw_observed_at sample > evaluated_at)
      (insufficient SAMPLE_LATE policy prior_state state evaluated_at cited (Some sample) False
        (Some (min (hw_observed_at sample) (collection_deadline policy sample)))))
    (\<lambda>_. return_if (hw_observed_at sample < ready_at policy sample)
      (Inr (health_result_of HD_WAIT [SAMPLE_EARLY] policy prior_state state evaluated_at cited
        (Some sample) (Some (max evaluated_at (ready_at policy sample)))))))"

text \<open>Lines 989 to 1097: the window is consumed; late, gapped, missing, partial, conflicting or
  thin evidence ends the call.\<close>

definition check_evidence ::
  "health_policy \<Rightarrow> health_state \<Rightarrow> int \<Rightarrow> health_state \<Rightarrow> health_state \<Rightarrow> health_sample list
    \<Rightarrow> health_sample \<Rightarrow> unit early" where
  "check_evidence policy prior_state evaluated_at state advanced_state cited sample =
    (let consumed = (\<lambda>reason.
           insufficient reason policy prior_state advanced_state evaluated_at cited (Some sample) True
             (next_after_consumed policy advanced_state evaluated_at (hw_window_ended_at sample)));
         pending = (\<lambda>reason.
           insufficient reason policy prior_state state evaluated_at cited (Some sample) False
             (Some (collection_deadline policy sample)));
         has_gap = hw_window_started_at sample > expected_start policy state;
         reason = (if hw_missing sample then SAMPLE_MISSING else SAMPLE_PARTIAL)
     in
     and_then (return_if (hw_observed_at sample > collection_deadline policy sample)
       (consumed SAMPLE_LATE))
     (\<lambda>_. and_then (return_if has_gap (consumed WINDOW_GAP))
     (\<lambda>_. and_then (return_if (hw_missing sample \<or> \<not> hw_complete sample)
       (if evaluated_at < collection_deadline policy sample then pending reason
        else consumed reason))
     (\<lambda>_. and_then (return_if (hw_conflicting_duplicate sample)
       (consumed SAMPLE_CONFLICTING_DUPLICATE))
     (\<lambda>_. return_if (hw_request_count sample < hp_minimum_request_count policy)
       (if evaluated_at < collection_deadline policy sample then pending MINIMUM_REQUESTS_NOT_MET
        else consumed MINIMUM_REQUESTS_NOT_MET))))))"

text \<open>Lines 1099 to 1228: the streaks and the verdict.\<close>

definition streak_state :: "health_policy \<Rightarrow> health_state \<Rightarrow> health_state \<Rightarrow> window_class \<Rightarrow> health_state result" where
  "streak_state policy state advanced_state c =
    (case c of
       WC_healthy \<Rightarrow>
         construct validate_health_state
          (advanced_state\<lparr>he_consecutive_healthy_windows :=
              min (he_consecutive_healthy_windows state + 1) (hp_healthy_consecutive_windows policy),
            he_consecutive_unhealthy_windows := 0\<rparr>)
     | WC_unhealthy \<Rightarrow>
         construct validate_health_state
          (advanced_state\<lparr>he_consecutive_healthy_windows := 0,
            he_consecutive_unhealthy_windows :=
              min (he_consecutive_unhealthy_windows state + 1)
                (hp_unhealthy_consecutive_windows policy)\<rparr>)
     | WC_wait \<Rightarrow> reset_streaks advanced_state)"

definition exhausted ::
  "health_policy \<Rightarrow> health_state \<Rightarrow> int \<Rightarrow> health_state \<Rightarrow> bool \<Rightarrow> health_sample list \<Rightarrow> health_sample
    \<Rightarrow> health_reason list \<Rightarrow> unit early" where
  "exhausted policy prior_state evaluated_at state reset cited sample reasons =
     return_if (he_evaluated_windows state \<ge> hp_maximum_windows policy)
       (bindR (if reset then reset_streaks state else Inr state)
         (\<lambda>final_state.
            Inr (health_result_of HD_INSUFFICIENT_EVIDENCE (reasons @ [MAXIMUM_WINDOWS_EXHAUSTED]) policy
              prior_state final_state evaluated_at cited (Some sample) None)))"

definition classify_sample ::
  "health_policy \<Rightarrow> health_state \<Rightarrow> int \<Rightarrow> health_state \<Rightarrow> health_state \<Rightarrow> health_sample list
    \<Rightarrow> health_sample \<Rightarrow> (health_state \<times> health_result) early" where
  "classify_sample policy prior_state evaluated_at old_state advanced_state cited sample =
    (case classify_window policy sample of (c, reasons) \<Rightarrow>
     and_then (or_raise (streak_state policy old_state advanced_state c))
     (\<lambda>state.
      let waiting = (\<lambda>pending.
            Inr (state, health_result_of HD_WAIT (reasons @ pending) policy prior_state state evaluated_at
              cited (Some sample)
              (next_after_consumed policy state evaluated_at (hw_window_ended_at sample))))
      in case c of
        WC_healthy \<Rightarrow>
          and_then (return_if
            (he_consecutive_healthy_windows state \<ge> hp_healthy_consecutive_windows policy)
            (Inr (health_result_of HD_HEALTHY (reasons @ [HEALTHY_STREAK_MET]) policy prior_state state
              evaluated_at cited (Some sample) None)))
          (\<lambda>_. and_then (exhausted policy prior_state evaluated_at state True cited sample reasons)
          (\<lambda>_. waiting [HEALTHY_STREAK_PENDING]))
      | WC_unhealthy \<Rightarrow>
          and_then (return_if
            (he_consecutive_unhealthy_windows state \<ge> hp_unhealthy_consecutive_windows policy)
            (Inr (health_result_of HD_UNHEALTHY (reasons @ [UNHEALTHY_STREAK_MET]) policy prior_state state
              evaluated_at cited (Some sample) None)))
          (\<lambda>_. and_then (exhausted policy prior_state evaluated_at state True cited sample reasons)
          (\<lambda>_. waiting [UNHEALTHY_STREAK_PENDING]))
      | WC_wait \<Rightarrow>
          and_then (exhausted policy prior_state evaluated_at state False cited sample reasons)
          (\<lambda>_. waiting [])))"

definition evaluate_sample ::
  "hexdigest \<Rightarrow> health_policy \<Rightarrow> health_state \<Rightarrow> int \<Rightarrow> health_loop \<Rightarrow> health_sample \<Rightarrow> health_loop early" where
  "evaluate_sample hexdigest policy prior_state evaluated_at l sample =
    (if repeats_seen hexdigest l sample then Inr l
     else
      and_then (admit_sample hexdigest policy prior_state evaluated_at l sample)
      (\<lambda>l'.
       let state = hl_state l'; cited = hl_accepted l' in
       and_then (check_window hexdigest policy prior_state evaluated_at state cited sample)
       (\<lambda>_. and_then (check_timing policy prior_state evaluated_at state cited sample)
       (\<lambda>_. and_then (or_raise
          (advance_window hexdigest state (hw_window_ended_at sample)
             (Some (hw_observation_sha256 sample)) (hw_sample_sha256s sample)
             ((hw_window_ended_at sample - expected_start policy state) div hp_window_seconds policy)))
       (\<lambda>advanced_state.
        and_then (check_evidence policy prior_state evaluated_at state advanced_state cited sample)
       (\<lambda>_. and_then (classify_sample policy prior_state evaluated_at state advanced_state cited sample)
       (\<lambda>(state', last). Inr (l'\<lparr>hl_state := state', hl_last_result := Some last\<rparr>))))))))"

fun evaluate_samples ::
  "hexdigest \<Rightarrow> health_policy \<Rightarrow> health_state \<Rightarrow> int \<Rightarrow> health_loop \<Rightarrow> health_sample list
    \<Rightarrow> health_result result" where
  "evaluate_samples hexdigest policy prior_state evaluated_at l [] =
     (case hl_last_result l of
        None \<Rightarrow> Inl (AssertionError ''health evaluation produced no result'')
      | Some r \<Rightarrow> Inr r)"
| "evaluate_samples hexdigest policy prior_state evaluated_at l (s # ss) =
     (case evaluate_sample hexdigest policy prior_state evaluated_at l s of
        Inl r \<Rightarrow> r
      | Inr l' \<Rightarrow> evaluate_samples hexdigest policy prior_state evaluated_at l' ss)"

section \<open>The evaluator\<close>

text \<open>Lines 726 to 764: no sample was presented.\<close>

definition evaluate_absent :: "health_policy \<Rightarrow> health_state \<Rightarrow> int \<Rightarrow> health_result result" where
  "evaluate_absent policy prior_state evaluated_at =
    (let expected_end = expected_start policy prior_state + hp_window_seconds policy;
         ready = expected_end + hp_observation_delay_seconds policy;
         deadline = expected_end + hp_maximum_observation_delay_seconds policy
     in if evaluated_at < ready
        then Inr (health_result_of HD_WAIT [WINDOW_NOT_READY] policy prior_state prior_state evaluated_at
               [] None (Some ready))
        else if evaluated_at < deadline
        then insufficient NO_SAMPLES policy prior_state prior_state evaluated_at [] None False
               (Some deadline)
        else bindR (reset_streaks prior_state)
               (\<lambda>s. insufficient NO_SAMPLES policy prior_state s evaluated_at [] None True None))"

definition initial_loop :: "health_state \<Rightarrow> health_loop" where
  "initial_loop prior_state =
     \<lparr>hl_state = prior_state, hl_seen_windows = Map.empty, hl_seen_digests = Map.empty,
      hl_seen_sample_sets = Map.empty, hl_accepted = [], hl_last_result = None\<rparr>"

definition evaluate_health ::
  "hexdigest \<Rightarrow> health_policy \<Rightarrow> health_sample list \<Rightarrow> health_state \<Rightarrow> int \<Rightarrow> health_result result" where
  "evaluate_health hexdigest policy presented prior_state evaluated_at =
    (let samples = dict_fromkeys presented in
     case require_int ''evaluated_at'' evaluated_at 0 MAX_SAFE_INTEGER of
       Some e \<Rightarrow> Inl e
     | None \<Rightarrow>
      (if \<not> state_matches policy prior_state
       then insufficient STATE_SCOPE_MISMATCH policy prior_state prior_state evaluated_at samples None
              True None
       else if he_consecutive_healthy_windows prior_state \<ge> hp_healthy_consecutive_windows policy
           \<or> he_consecutive_unhealthy_windows prior_state \<ge> hp_unhealthy_consecutive_windows policy
       then insufficient STATE_TERMINAL policy prior_state prior_state evaluated_at samples None
              False None
       else if he_evaluated_windows prior_state \<ge> hp_maximum_windows policy
       then insufficient MAXIMUM_WINDOWS_EXHAUSTED policy prior_state prior_state evaluated_at samples
              None True None
       else if samples = [] then evaluate_absent policy prior_state evaluated_at
       else if int (length samples) > hp_maximum_windows policy
       then insufficient TOO_MANY_WINDOWS policy prior_state prior_state evaluated_at samples None
              True None
       else evaluate_samples hexdigest policy prior_state evaluated_at (initial_loop prior_state) samples))"

section \<open>Evaluations one after another\<close>

text \<open>
  \<open>backend/src/controlgraph_canary/application/health_evaluation.py\<close> calls the evaluator once
  per decision. A policy starts in its empty state, and the state of the next call is the one
  of the last decision with that decision's digest; a decision that asks for no further
  evaluation has no successor. The canonical digest of a decision is an argument here: it is
  a function of the result the decision is built from. What the source checks of a decision
  it is handed (its policy, its own id) holds of the decision the last call returned.
\<close>

definition initial_health_state :: "health_policy \<Rightarrow> health_state" where
  "initial_health_state policy =
     \<lparr>he_policy_version = hp_policy_version policy, he_policy_sha256 = hp_policy_sha256 policy,
      he_project_id = hp_project_id policy, he_region = hp_region policy,
      he_environment = hp_environment policy, he_service_name = hp_service_name policy,
      he_root_id = hp_root_id policy, he_root_sha256 = hp_root_sha256 policy,
      he_epoch = hp_epoch policy, he_candidate_revision = hp_candidate_revision policy,
      he_observation_started_at = hp_observation_started_at policy,
      he_last_window_ended_at = None, he_consecutive_healthy_windows = 0,
      he_consecutive_unhealthy_windows = 0, he_evaluated_windows = 0,
      he_last_observation_sha256 = None, he_consumed_sample_set_sha256s = [],
      he_prior_decision_sha256 = None\<rparr>"

definition derive_next_state :: "(health_result \<Rightarrow> string) \<Rightarrow> health_result \<Rightarrow> health_state result" where
  "derive_next_state decision_sha256 r =
     (if hr_next_evaluation_at r = None
      then Inl (ValueError ''terminal health decision cannot be used as a predecessor'')
      else construct validate_health_state
        ((hr_state r)\<lparr>he_prior_decision_sha256 := Some (decision_sha256 r)\<rparr>))"

text \<open>
  The prior state of a call is the initial one, or the one derived from the call before
  (\<open>_validate_predecessor_state\<close>). The rounds list what each call was given and when; the
  source presents at most one sample in a call, here any number is allowed.
\<close>

type_synonym health_round = "health_sample list \<times> int"

inductive evaluations ::
  "hexdigest \<Rightarrow> (health_result \<Rightarrow> string) \<Rightarrow> health_policy \<Rightarrow> health_round list \<Rightarrow> health_result \<Rightarrow> bool"
  for hexdigest decision_sha256 policy where
  first_evaluation:
    "\<forall>s \<in> set samples. wf_sample s \<Longrightarrow>
     evaluate_health hexdigest policy samples (initial_health_state policy) at = Inr r \<Longrightarrow>
     evaluations hexdigest decision_sha256 policy [(samples, at)] r"
| next_evaluation:
    "evaluations hexdigest decision_sha256 policy rounds r \<Longrightarrow>
     derive_next_state decision_sha256 r = Inr state \<Longrightarrow>
     \<forall>s \<in> set samples. wf_sample s \<Longrightarrow>
     evaluate_health hexdigest policy samples state at = Inr r' \<Longrightarrow>
     evaluations hexdigest decision_sha256 policy (rounds @ [(samples, at)]) r'"

end
