(* ===== verification/HealthProps.thy ===== *)
theory HealthProps
  imports Health
begin

text \<open>
  What the health evaluator guarantees. An evaluation of valid inputs never raises and leaves
  a valid state (\<open>early_ok\<close> carries that through the early returns, and \<open>health_loop_inv\<close>
  through the loop); a verdict is backed by as many contiguous complete windows of its class as
  the policy demands, across the evaluations that lead to it (\<open>streaks_logged\<close> links the
  counters of a state to the samples that earned them); and the integer comparisons agree with the rounded rates the result reports.
\<close>

section \<open>Early returns\<close>

definition early_ok :: "(health_result \<Rightarrow> bool) \<Rightarrow> ('a \<Rightarrow> bool) \<Rightarrow> 'a early \<Rightarrow> bool" where
  "early_ok P Q m \<longleftrightarrow>
     (case m of Inl r \<Rightarrow> (case r of Inl _ \<Rightarrow> False | Inr x \<Rightarrow> P x) | Inr y \<Rightarrow> Q y)"

lemma early_ok_simps [simp]:
  "early_ok P Q (Inr y) \<longleftrightarrow> Q y"
  "early_ok P Q (Inl (Inr x)) \<longleftrightarrow> P x"
  "\<not> early_ok P Q (Inl (Inl e))"
  by (simp_all add: early_ok_def)

lemma early_and_then:
  assumes "early_ok P R m" "\<And>x. R x \<Longrightarrow> early_ok P Q (f x)"
  shows "early_ok P Q (and_then m f)"
proof (cases m)
  case (Inl r)
  with assms(1) show ?thesis by (simp add: and_then_def early_ok_def)
next
  case (Inr x)
  with assms show ?thesis by (simp add: and_then_def)
qed

lemma early_return_if:
  assumes "b \<Longrightarrow> early_ok P Q (Inl r)" "\<not> b \<Longrightarrow> Q ()"
  shows "early_ok P Q (return_if b r)"
  using assms by (simp add: return_if_def)

lemma early_guard:
  assumes "b \<Longrightarrow> early_ok P Q (Inl r)" "\<not> b \<Longrightarrow> early_ok P Q (f ())"
  shows "early_ok P Q (and_then (return_if b r) f)"
  using assms by (auto simp: return_if_def and_then_def early_ok_def)

lemma early_or_raise: "r = Inr x \<Longrightarrow> Q x \<Longrightarrow> early_ok P Q (or_raise r)"
  by (simp add: or_raise_def)

section \<open>States\<close>

lemma health_header_update [simp]:
  "health_header (st\<lparr>he_last_window_ended_at := a\<rparr>) = health_header st"
  "health_header (st\<lparr>he_evaluated_windows := b\<rparr>) = health_header st"
  "health_header (st\<lparr>he_last_observation_sha256 := c\<rparr>) = health_header st"
  "health_header (st\<lparr>he_consumed_sample_set_sha256s := d\<rparr>) = health_header st"
  "health_header (st\<lparr>he_consecutive_healthy_windows := e\<rparr>) = health_header st"
  "health_header (st\<lparr>he_consecutive_unhealthy_windows := f\<rparr>) = health_header st"
  by (simp_all add: health_header_def)

lemma reset_streaks_ok:
  assumes "wf_health st"
  shows "reset_streaks st =
      Inr (st\<lparr>he_consecutive_healthy_windows := 0, he_consecutive_unhealthy_windows := 0\<rparr>)
    \<and> wf_health (st\<lparr>he_consecutive_healthy_windows := 0, he_consecutive_unhealthy_windows := 0\<rparr>)"
proof -
  have "wf_health (st\<lparr>he_consecutive_healthy_windows := 0, he_consecutive_unhealthy_windows := 0\<rparr>)"
    using assms by (auto simp: wf_health_iff health_counters_def)
  then show ?thesis
    by (simp add: reset_streaks_def wf_health_def)
qed

lemma state_matches_streaks [simp]:
  "state_matches p (st\<lparr>he_consecutive_healthy_windows := a, he_consecutive_unhealthy_windows := b\<rparr>)
     \<longleftrightarrow> state_matches p st"
  by (simp add: state_matches_def state_scope_def)

definition sha256_outputs :: "hexdigest \<Rightarrow> bool" where
  "sha256_outputs hexdigest \<longleftrightarrow> (\<forall>x. is_sha256 (hexdigest x))"

lemma advance_window_ok:
  assumes st: "wf_health st" "he_evaluated_windows st < MAX_WINDOWS" and s: "wf_sample s"
    and w: "1 \<le> w" and h: "sha256_outputs hexdigest"
  obtains st' where
    "advance_window hexdigest st (hw_window_ended_at s) (Some (hw_observation_sha256 s))
       (hw_sample_sha256s s) w = Inr st'"
    "wf_health st'" "he_last_window_ended_at st' = Some (hw_window_ended_at s)"
    "he_evaluated_windows st' = min (he_evaluated_windows st + w) MAX_WINDOWS"
    "he_consecutive_healthy_windows st' = he_consecutive_healthy_windows st"
    "he_consecutive_unhealthy_windows st' = he_consecutive_unhealthy_windows st"
    "he_policy_version st' = he_policy_version st" "he_policy_sha256 st' = he_policy_sha256 st"
    "he_observation_started_at st' = he_observation_started_at st" "state_scope st' = state_scope st"
proof -
  define consumed where "consumed =
    (case sample_set_sha256 hexdigest (hw_sample_sha256s s) of
       None \<Rightarrow> he_consumed_sample_set_sha256s st
     | Some d \<Rightarrow> if d \<in> set (he_consumed_sample_set_sha256s st)
         then he_consumed_sample_set_sha256s st else he_consumed_sample_set_sha256s st @ [d])"
  define st' where "st' = st\<lparr>he_last_window_ended_at := Some (hw_window_ended_at s),
    he_evaluated_windows := min (he_evaluated_windows st + w) MAX_WINDOWS,
    he_last_observation_sha256 := Some (hw_observation_sha256 s),
    he_consumed_sample_set_sha256s := consumed\<rparr>"
  have counters: "health_counters st" and header: "health_header st"
    using st(1) by (simp_all add: wf_health_iff)
  have c: "distinct consumed" "\<forall>d \<in> set consumed. is_sha256 d"
      "int (length consumed) \<le> he_evaluated_windows st + 1"
    using counters h
    by (auto simp: consumed_def health_counters_def sample_set_sha256_def sha256_outputs_def
        split: option.split)
  have facts: "0 \<le> hw_window_ended_at s" "hw_window_ended_at s \<le> MAX_SAFE_INTEGER"
      "is_sha256 (hw_observation_sha256 s)"
    using wf_sample_facts [OF s] by auto
  have "0 \<le> he_evaluated_windows st"
    using counters by (simp add: health_counters_def)
  then have "he_evaluated_windows st + 1 \<le> he_evaluated_windows st'" "0 < he_evaluated_windows st'"
    using w st(2) by (auto simp: st'_def)
  then have "health_counters st'"
    using counters c facts by (auto simp: health_counters_def st'_def)
  moreover have "health_header st'"
    using header by (simp add: st'_def)
  ultimately have wf: "wf_health st'"
    by (simp add: wf_health_iff)
  show thesis
  proof (rule that [of st'])
    show "advance_window hexdigest st (hw_window_ended_at s) (Some (hw_observation_sha256 s))
       (hw_sample_sha256s s) w = Inr st'"
      using wf unfolding advance_window_def Let_def consumed_def [symmetric] st'_def [symmetric]
      by (simp add: wf_health_def)
  qed (use wf in \<open>auto simp: st'_def state_scope_def\<close>)
qed

lemma expected_start_matches:
  assumes "state_matches p st"
  shows "expected_start p st = hp_observation_started_at p + he_evaluated_windows st * hp_window_seconds p"
  using assms by (auto simp: state_matches_def expected_start_def Let_def split: if_splits)

section \<open>Verdicts\<close>

text \<open>A window that counts towards a streak of class \<open>c\<close>.\<close>

definition counted :: "health_policy \<Rightarrow> int \<Rightarrow> window_class \<Rightarrow> health_sample \<Rightarrow> bool" where
  "counted p at c s \<longleftrightarrow>
     fst (classify_window p s) = c
     \<and> hw_complete s \<and> \<not> hw_missing s \<and> \<not> hw_conflicting_duplicate s
     \<and> hp_minimum_request_count p \<le> hw_request_count s
     \<and> sample_matches p s \<and> boundary_valid p s
     \<and> ready_at p s \<le> hw_observed_at s \<and> hw_observed_at s \<le> at
     \<and> hw_observed_at s \<le> collection_deadline p s"

definition contiguous :: "health_sample list \<Rightarrow> bool" where
  "contiguous = successively (\<lambda>a b. hw_window_ended_at a = hw_window_started_at b)"

text \<open>
  A log lists windows of one class with the time each was evaluated at: every entry comes
  from the presented pairs \<open>P\<close> and counted at its time, and each window starts where the one
  before it ends. A streak is logged when a log of exactly its length ends with the last
  window the state has consumed.
\<close>

definition streak_log ::
  "health_policy \<Rightarrow> (int \<times> health_sample) set \<Rightarrow> window_class \<Rightarrow> (int \<times> health_sample) list \<Rightarrow> bool" where
  "streak_log p P c log \<longleftrightarrow>
     set log \<subseteq> P \<and> (\<forall>(at, s) \<in> set log. counted p at c s) \<and> contiguous (map snd log)"

definition streak_logged ::
  "health_policy \<Rightarrow> (int \<times> health_sample) set \<Rightarrow> window_class \<Rightarrow> int \<Rightarrow> int option \<Rightarrow> bool" where
  "streak_logged p P c n e \<longleftrightarrow>
     n \<le> 0 \<or> (\<exists>log. int (length log) = n \<and> streak_log p P c log
        \<and> e = Some (hw_window_ended_at (snd (last log))))"

definition streaks_logged ::
  "health_policy \<Rightarrow> (int \<times> health_sample) set \<Rightarrow> health_state \<Rightarrow> bool" where
  "streaks_logged p P st \<longleftrightarrow>
     streak_logged p P WC_healthy (he_consecutive_healthy_windows st) (he_last_window_ended_at st)
     \<and> streak_logged p P WC_unhealthy (he_consecutive_unhealthy_windows st)
         (he_last_window_ended_at st)"

text \<open>What an evaluation keeps: when the streaks of the prior state are logged, those of \<open>st\<close> are.\<close>

definition carried ::
  "health_policy \<Rightarrow> (int \<times> health_sample) set \<Rightarrow> health_state \<Rightarrow> health_state \<Rightarrow> bool" where
  "carried p P prior st \<longleftrightarrow> (streaks_logged p P prior \<longrightarrow> streaks_logged p P st)"

text \<open>
  A verdict of class \<open>c\<close> is backed when a log of exactly \<open>n\<close> windows ends, at the time of the
  verdict, with the window the result reports, and the observations the result cites are
  presented samples of this evaluation that follow, without a gap, the last window of the
  prior state.
\<close>

definition verdict_backed ::
  "health_policy \<Rightarrow> (int \<times> health_sample) set \<Rightarrow> health_sample set \<Rightarrow> window_class \<Rightarrow> int
    \<Rightarrow> health_result \<Rightarrow> bool" where
  "verdict_backed p P S c n r \<longleftrightarrow>
     (\<exists>log acc. log \<noteq> [] \<and> int (length log) = n \<and> streak_log p P c log
        \<and> fst (last log) = hr_evaluated_at r
        \<and> hr_window_started_at r = Some (hw_window_started_at (snd (last log)))
        \<and> hr_window_ended_at r = Some (hw_window_ended_at (snd (last log)))
        \<and> acc \<noteq> [] \<and> set acc \<subseteq> S \<and> contiguous acc \<and> last acc = snd (last log)
        \<and> hw_window_started_at (hd acc) = expected_start p (hr_prior_state r)
        \<and> hr_observation_digests r = map hw_observation_sha256 acc)"

definition result_ok ::
  "health_policy \<Rightarrow> health_state \<Rightarrow> int \<Rightarrow> (int \<times> health_sample) set \<Rightarrow> health_sample set
    \<Rightarrow> health_result \<Rightarrow> bool" where
  "result_ok p prior at P S r \<longleftrightarrow>
     wf_health (hr_state r) \<and> hr_prior_state r = prior \<and> hr_evaluated_at r = at
     \<and> he_evaluated_windows prior \<le> he_evaluated_windows (hr_state r)
     \<and> (\<forall>t. hr_next_evaluation_at r = Some t \<longrightarrow> at \<le> t)
     \<and> (hr_reasons r \<in> {[WINDOW_GAP], [SAMPLE_LATE], [STATE_SCOPE_MISMATCH]}
         \<or> state_matches p (hr_state r))
     \<and> carried p P prior (hr_state r)
     \<and> (hr_decision r = HD_HEALTHY \<longrightarrow>
          hp_healthy_consecutive_windows p \<le> he_consecutive_healthy_windows (hr_state r)
          \<and> state_matches p (hr_state r)
          \<and> (streaks_logged p P prior \<longrightarrow>
                verdict_backed p P S WC_healthy (hp_healthy_consecutive_windows p) r))
     \<and> (hr_decision r = HD_UNHEALTHY \<longrightarrow>
          hp_unhealthy_consecutive_windows p \<le> he_consecutive_unhealthy_windows (hr_state r)
          \<and> state_matches p (hr_state r)
          \<and> (streaks_logged p P prior \<longrightarrow>
                verdict_backed p P S WC_unhealthy (hp_unhealthy_consecutive_windows p) r))"

text \<open>A state without streaks needs no log, and a log of a streak contains one of every shorter streak.\<close>

lemma streaks_logged_zero [simp]:
  "he_consecutive_healthy_windows st = 0 \<Longrightarrow> he_consecutive_unhealthy_windows st = 0 \<Longrightarrow>
     streaks_logged p P st"
  by (simp add: streaks_logged_def streak_logged_def)

lemma carried_trivial [simp]:
  "carried p P st st" "streaks_logged p P st \<Longrightarrow> carried p P prior st"
  by (simp_all add: carried_def)

lemma contiguous_short [simp]: "contiguous []" "contiguous [x]"
  by (simp_all add: contiguous_def)

lemma contiguous_drop: "contiguous xs \<Longrightarrow> contiguous (drop n xs)"
  unfolding contiguous_def using successively_append_iff [of _ "take n xs" "drop n xs"] by simp

lemma contiguous_snoc:
  "contiguous (xs @ [x]) \<longleftrightarrow>
     contiguous xs \<and> (xs = [] \<or> hw_window_ended_at (last xs) = hw_window_started_at x)"
  by (auto simp: contiguous_def successively_append_iff)

lemma streak_log_drop: "streak_log p P c log \<Longrightarrow> streak_log p P c (drop n log)"
  using set_drop_subset [of n log] contiguous_drop [of "map snd log" n]
  by (auto simp: streak_log_def drop_map)

lemma streak_log_mono: "P \<subseteq> P' \<Longrightarrow> streak_log p P c log \<Longrightarrow> streak_log p P' c log"
  by (auto simp: streak_log_def)

lemma streaks_logged_mono: "P \<subseteq> P' \<Longrightarrow> streaks_logged p P st \<Longrightarrow> streaks_logged p P' st"
  unfolding streaks_logged_def streak_logged_def using streak_log_mono by blast

text \<open>A window that starts where the state's last one ended lengthens its log.\<close>

lemma streak_logged_snoc:
  assumes "streak_logged p P c n (he_last_window_ended_at st)" "0 \<le> n"
    and "counted p at c s" "(at, s) \<in> P" "hw_window_started_at s = expected_start p st"
    and "1 \<le> m" "m \<le> n + 1"
  obtains log where "log \<noteq> []" "int (length log) = m" "streak_log p P c log" "last log = (at, s)"
proof -
  obtain log0 where log0: "int (length log0) = n" "streak_log p P c log0"
      "log0 = [] \<or> he_last_window_ended_at st = Some (hw_window_ended_at (snd (last log0)))"
    using assms(1,2) by (cases "n = 0") (auto simp: streak_logged_def streak_log_def contiguous_def)
  have "streak_log p P c (log0 @ [(at, s)])"
    using log0 assms(3-5)
    by (cases "log0 = []") (auto simp: streak_log_def contiguous_snoc expected_start_def last_map)
  then have log: "streak_log p P c (drop (nat (n + 1 - m)) (log0 @ [(at, s)]))"
    by (rule streak_log_drop)
  have len: "nat (n + 1 - m) \<le> length log0"
    using log0(1) assms(2,6,7) by linarith
  show thesis
    by (rule that [OF _ _ log]) (use len log0(1) assms(2,6,7) in auto)
qed

lemma health_result_sel [simp]:
  "hr_state (health_result_of d rs p prior st at acc s n) = st"
  "hr_prior_state (health_result_of d rs p prior st at acc s n) = prior"
  "hr_evaluated_at (health_result_of d rs p prior st at acc s n) = at"
  "hr_decision (health_result_of d rs p prior st at acc s n) = d"
  "hr_reasons (health_result_of d rs p prior st at acc s n) = rs"
  "hr_observation_digests (health_result_of d rs p prior st at acc s n) = map hw_observation_sha256 acc"
  "hr_window_started_at (health_result_of d rs p prior st at acc s n) = map_option hw_window_started_at s"
  "hr_window_ended_at (health_result_of d rs p prior st at acc s n) = map_option hw_window_ended_at s"
  "hr_next_evaluation_at (health_result_of d rs p prior st at acc s n) = map_option (max at) n"
  by (simp_all add: health_result_of_def Let_def)

text \<open>A result that is not a verdict is sound when its state is.\<close>

lemma result_ok_plain:
  assumes "wf_health st" "he_evaluated_windows prior \<le> he_evaluated_windows st"
    and "d \<noteq> HD_HEALTHY" "d \<noteq> HD_UNHEALTHY" and "carried p P prior st"
    and "rs \<in> {[WINDOW_GAP], [SAMPLE_LATE], [STATE_SCOPE_MISMATCH]} \<or> state_matches p st"
  shows "result_ok p prior at P S (health_result_of d rs p prior st at acc s n)"
  using assms by (auto simp: result_ok_def)

lemma insufficient_ok:
  assumes "wf_health st" "he_evaluated_windows prior \<le> he_evaluated_windows st"
    and "reset \<or> carried p P prior st"
    and "reason \<in> {WINDOW_GAP, SAMPLE_LATE, STATE_SCOPE_MISMATCH} \<or> state_matches p st"
  shows "early_ok (result_ok p prior at P S) Q (Inl (insufficient reason p prior st at acc s reset n))"
  using assms reset_streaks_ok [OF assms(1)]
  by (cases reset) (auto simp: insufficient_def intro!: result_ok_plain)

lemma reset_insufficient_ok:
  assumes "wf_health st" "he_evaluated_windows prior \<le> he_evaluated_windows st"
    and "reason \<in> {WINDOW_GAP, SAMPLE_LATE, STATE_SCOPE_MISMATCH} \<or> state_matches p st"
  shows "early_ok (result_ok p prior at P S) Q
    (Inl (bindR (reset_streaks st) (\<lambda>c. insufficient reason p prior c at acc s reset (n c))))"
  using assms reset_streaks_ok [OF assms(1)]
  by (auto intro!: insufficient_ok)

section \<open>The parts of one round\<close>

lemma check_window_ok:
  assumes st: "wf_health st" "state_matches p st" "he_evaluated_windows prior \<le> he_evaluated_windows st"
      "carried p P prior st"
  shows "early_ok (result_ok p prior at P S)
    (\<lambda>_. he_evaluated_windows st < hp_maximum_windows p \<and> sample_matches p s \<and> boundary_valid p s
       \<and> expected_start p st \<le> hw_window_started_at s)
    (check_window hexdigest p prior at st acc s)"
proof -
  have replay: "he_last_window_ended_at st \<noteq> None" if "identical_replay hexdigest st s"
    using that st(1)
    by (auto simp: identical_replay_def wf_health_iff health_counters_def split: option.splits)
  show ?thesis
    unfolding check_window_def
  proof (intro early_guard early_return_if)
    show "early_ok (result_ok p prior at P S) Q (Inl
        (case he_last_window_ended_at st of
           None \<Rightarrow> Inl (AssertionError '''')
         | Some b \<Rightarrow> Inr (health_result_of HD_WAIT [WINDOW_DUPLICATE] p prior st at acc (Some s)
             (next_after_consumed p st at b))))"
      if "identical_replay hexdigest st s" for Q :: "unit \<Rightarrow> bool"
      using replay [OF that] st by (auto intro!: result_ok_plain)
  qed (use st in \<open>auto intro!: insufficient_ok reset_insufficient_ok\<close>)
qed

lemma check_timing_ok:
  assumes st: "wf_health st" "state_matches p st" "he_evaluated_windows prior \<le> he_evaluated_windows st"
      "carried p P prior st"
  shows "early_ok (result_ok p prior at P S)
    (\<lambda>_. ready_at p s \<le> hw_observed_at s \<and> hw_observed_at s \<le> at)
    (check_timing p prior at st acc s)"
  unfolding check_timing_def
  by (intro early_guard early_return_if)
    (use st in \<open>auto intro!: insufficient_ok result_ok_plain\<close>)

lemma check_evidence_ok:
  assumes st: "wf_health st" "state_matches p st" "he_evaluated_windows prior \<le> he_evaluated_windows st"
      "carried p P prior st"
    and adv: "wf_health adv" "he_evaluated_windows prior \<le> he_evaluated_windows adv"
      "hw_window_started_at s = expected_start p st \<Longrightarrow> state_matches p adv"
    and order: "expected_start p st \<le> hw_window_started_at s"
  shows "early_ok (result_ok p prior at P S)
    (\<lambda>_. hw_observed_at s \<le> collection_deadline p s \<and> hw_window_started_at s = expected_start p st
       \<and> hw_complete s \<and> \<not> hw_missing s \<and> \<not> hw_conflicting_duplicate s
       \<and> hp_minimum_request_count p \<le> hw_request_count s)
    (check_evidence p prior at st adv acc s)"
proof -
  have consumed: "early_ok (result_ok p prior at P S) Q
      (Inl (insufficient reason p prior adv at acc (Some s) True n))"
    if "reason \<in> {WINDOW_GAP, SAMPLE_LATE} \<or> hw_window_started_at s = expected_start p st"
    for reason n and Q :: "unit \<Rightarrow> bool"
    using that adv by (intro insufficient_ok) auto
  have pending: "early_ok (result_ok p prior at P S) Q
      (Inl (insufficient reason p prior st at acc (Some s) False n))"
    for reason n and Q :: "unit \<Rightarrow> bool"
    using st by (intro insufficient_ok) auto
  show ?thesis
    unfolding check_evidence_def Let_def
    by (intro early_guard early_return_if)
      (use order in \<open>auto intro!: consumed pending\<close>)
qed

lemma streak_state_ok:
  assumes p: "wf_policy p"
    and st: "wf_health st" "carried p P prior st"
    and adv: "wf_health adv" "he_evaluated_windows st + 1 \<le> he_evaluated_windows adv"
      "he_last_window_ended_at adv = Some (hw_window_ended_at s)" "state_matches p adv"
    and s: "counted p at c s" "(at, s) \<in> P" "hw_window_started_at s = expected_start p st"
  obtains st' where "streak_state p st adv c = Inr st'" "wf_health st'" "state_matches p st'"
    "he_evaluated_windows st' = he_evaluated_windows adv"
    "he_last_window_ended_at st' = he_last_window_ended_at adv" "carried p P prior st'"
proof -
  note bounds = wf_policy_bounds [OF p]
  have st_streaks: "0 \<le> he_consecutive_healthy_windows st" "0 \<le> he_consecutive_unhealthy_windows st"
      "he_consecutive_healthy_windows st \<le> he_evaluated_windows st"
      "he_consecutive_unhealthy_windows st \<le> he_evaluated_windows st"
    using st(1) by (simp_all add: wf_health_iff health_counters_def)
  let ?h = "adv\<lparr>he_consecutive_healthy_windows :=
      min (he_consecutive_healthy_windows st + 1) (hp_healthy_consecutive_windows p),
      he_consecutive_unhealthy_windows := 0\<rparr>"
  let ?u = "adv\<lparr>he_consecutive_healthy_windows := 0, he_consecutive_unhealthy_windows :=
      min (he_consecutive_unhealthy_windows st + 1) (hp_unhealthy_consecutive_windows p)\<rparr>"
  let ?w = "adv\<lparr>he_consecutive_healthy_windows := 0, he_consecutive_unhealthy_windows := 0\<rparr>"
  have "wf_health ?h" "wf_health ?u" "wf_health ?w"
    using adv(1,2) st_streaks bounds by (auto simp: wf_health_iff health_counters_def)
  moreover have longer: "streak_logged p P c m (he_last_window_ended_at adv)"
    if "streak_logged p P c n (he_last_window_ended_at st)" "0 \<le> n" "1 \<le> m" "m \<le> n + 1" for n m
    using streak_logged_snoc [OF that(1,2) s that(3,4)] adv(3)
    by (metis snd_conv streak_logged_def)
  have "carried p P prior ?h" if "c = WC_healthy"
    using that st st_streaks bounds longer [of "he_consecutive_healthy_windows st"]
    by (auto simp: carried_def streaks_logged_def streak_logged_def [of _ _ _ 0])
  moreover have "carried p P prior ?u" if "c = WC_unhealthy"
    using that st st_streaks bounds longer [of "he_consecutive_unhealthy_windows st"]
    by (auto simp: carried_def streaks_logged_def streak_logged_def [of _ _ _ 0])
  ultimately show thesis
    using adv(4)
    by (cases c) (auto intro!: that simp: streak_state_def reset_streaks_def wf_health_def)
qed

text \<open>The counter of a class grows by one with each of its windows and stops at the policy's number.\<close>

lemma streak_state_counter:
  assumes "streak_state p st adv c = Inr st'"
  shows "c = WC_healthy \<Longrightarrow> he_consecutive_healthy_windows st'
      = min (he_consecutive_healthy_windows st + 1) (hp_healthy_consecutive_windows p)"
    and "c = WC_unhealthy \<Longrightarrow> he_consecutive_unhealthy_windows st'
      = min (he_consecutive_unhealthy_windows st + 1) (hp_unhealthy_consecutive_windows p)"
  using assms by (auto simp: streak_state_def construct_def split: option.splits)

lemma classify_sample_ok:
  assumes p: "wf_policy p"
    and st: "wf_health st" "carried p P prior st" "he_evaluated_windows prior \<le> he_evaluated_windows st"
    and adv: "wf_health adv" "he_evaluated_windows st + 1 \<le> he_evaluated_windows adv"
      "he_last_window_ended_at adv = Some (hw_window_ended_at s)" "state_matches p adv"
    and s: "counted p at (fst (classify_window p s)) s" "(at, s) \<in> P"
      "hw_window_started_at s = expected_start p st"
    and acc: "set (acc @ [s]) \<subseteq> S" "contiguous (acc @ [s])"
      "hw_window_started_at (hd (acc @ [s])) = expected_start p prior"
  shows "early_ok (result_ok p prior at P S)
    (\<lambda>(st', r). result_ok p prior at P S r \<and> wf_health st' \<and> state_matches p st'
       \<and> he_evaluated_windows st' = he_evaluated_windows adv
       \<and> he_last_window_ended_at st' = he_last_window_ended_at adv
       \<and> carried p P prior st')
    (classify_sample p prior at st adv (acc @ [s]) s)"
proof -
  obtain c rs where cw: "classify_window p s = (c, rs)" by fastforce
  with s have counted: "counted p at c s" by simp
  obtain st' where st': "streak_state p st adv c = Inr st'" "wf_health st'" "state_matches p st'"
      "he_evaluated_windows st' = he_evaluated_windows adv"
      "he_last_window_ended_at st' = he_last_window_ended_at adv" "carried p P prior st'"
    using streak_state_ok [OF p st(1,2) adv counted s(2,3)] by blast
  note counter = streak_state_counter [OF st'(1)] and bounds = wf_policy_bounds [OF p]
  have nonneg: "0 \<le> he_consecutive_healthy_windows st" "0 \<le> he_consecutive_unhealthy_windows st"
    using st(1) by (simp_all add: wf_health_iff health_counters_def)
  have le: "he_evaluated_windows prior \<le> he_evaluated_windows st'"
    using st(3) adv(2) st'(4) by simp
  have plain: "result_ok p prior at P S (health_result_of d r p prior st'' at (acc @ [s]) (Some s) n)"
    if "d \<in> {HD_WAIT, HD_INSUFFICIENT_EVIDENCE}" "wf_health st''" "state_matches p st''"
      "he_evaluated_windows st'' = he_evaluated_windows st'" "carried p P prior st''"
    for d r st'' n
    using that le by (intro result_ok_plain) auto
  have verdict: "verdict_backed p P S c m
      (health_result_of d r p prior st' at (acc @ [s]) (Some s) None)"
    if n: "streak_logged p P c n (he_last_window_ended_at st)" "0 \<le> n" and m: "1 \<le> m" "m \<le> n + 1"
    for n m d r
  proof -
    obtain log where "log \<noteq> []" "int (length log) = m" "streak_log p P c log" "last log = (at, s)"
      using streak_logged_snoc [OF n counted s(2,3) m] by blast
    then show ?thesis
      unfolding verdict_backed_def using acc by (intro exI [of _ log] exI [of _ "acc @ [s]"]) simp
  qed
  have healthy: "result_ok p prior at P S
      (health_result_of HD_HEALTHY r p prior st' at (acc @ [s]) (Some s) None)"
    if "c = WC_healthy" "hp_healthy_consecutive_windows p \<le> he_consecutive_healthy_windows st'" for r
    using that st' st(2) le nonneg bounds counter(1)
      verdict [of "he_consecutive_healthy_windows st" "hp_healthy_consecutive_windows p"]
    by (auto simp: result_ok_def carried_def streaks_logged_def)
  have unhealthy: "result_ok p prior at P S
      (health_result_of HD_UNHEALTHY r p prior st' at (acc @ [s]) (Some s) None)"
    if "c = WC_unhealthy" "hp_unhealthy_consecutive_windows p \<le> he_consecutive_unhealthy_windows st'" for r
    using that st' st(2) le nonneg bounds counter(2)
      verdict [of "he_consecutive_unhealthy_windows st" "hp_unhealthy_consecutive_windows p"]
    by (auto simp: result_ok_def carried_def streaks_logged_def)
  have exhausted: "early_ok (result_ok p prior at P S) (\<lambda>_. True)
      (exhausted p prior at st' reset (acc @ [s]) s r)" for reset r
    using reset_streaks_ok [OF st'(2)] st'(2,3,6)
    by (auto simp: exhausted_def intro!: early_return_if plain)
  show ?thesis
  proof (cases c)
    case WC_healthy
    with st' show ?thesis
      unfolding classify_sample_def cw
      by (auto simp: Let_def or_raise_def and_then_def [of "Inr st'"] intro!: healthy plain
          early_guard early_and_then [where R = "\<lambda>_. True", OF exhausted])
  next
    case WC_unhealthy
    with st' show ?thesis
      unfolding classify_sample_def cw
      by (auto simp: Let_def or_raise_def and_then_def [of "Inr st'"] intro!: unhealthy plain
          early_guard early_and_then [where R = "\<lambda>_. True", OF exhausted])
  next
    case WC_wait
    with st' show ?thesis
      unfolding classify_sample_def cw
      by (auto simp: Let_def or_raise_def and_then_def [of "Inr st'"] intro!: plain
          early_and_then [where R = "\<lambda>_. True", OF exhausted])
  qed
qed

section \<open>The loop\<close>

definition health_loop_inv ::
  "health_policy \<Rightarrow> health_state \<Rightarrow> int \<Rightarrow> (int \<times> health_sample) set \<Rightarrow> health_sample set
    \<Rightarrow> health_loop \<Rightarrow> bool" where
  "health_loop_inv p prior at P S l \<longleftrightarrow>
     wf_health (hl_state l) \<and> state_matches p (hl_state l)
     \<and> he_evaluated_windows prior \<le> he_evaluated_windows (hl_state l)
     \<and> set (hl_accepted l) \<subseteq> S \<and> contiguous (hl_accepted l)
     \<and> carried p P prior (hl_state l)
     \<and> (if hl_accepted l = [] then hl_seen_windows l = Map.empty \<and> hl_state l = prior
        else hw_window_started_at (hd (hl_accepted l)) = expected_start p prior
          \<and> he_last_window_ended_at (hl_state l) = Some (hw_window_ended_at (last (hl_accepted l)))
          \<and> (\<exists>r. hl_last_result l = Some r \<and> result_ok p prior at P S r))"

lemma evaluate_sample_ok:
  assumes p: "wf_policy p" and s: "wf_sample s" "s \<in> S" "(at, s) \<in> P"
    and inv: "health_loop_inv p prior at P S l" and h: "sha256_outputs hexdigest"
  shows "early_ok (result_ok p prior at P S) (\<lambda>l'. health_loop_inv p prior at P S l' \<and> hl_accepted l' \<noteq> [])
    (evaluate_sample hexdigest p prior at l s)"
proof (cases "repeats_seen hexdigest l s")
  case True
  then have "hl_accepted l \<noteq> []"
    using inv by (auto simp: repeats_seen_def health_loop_inv_def)
  with True inv show ?thesis by (simp add: evaluate_sample_def)
next
  case False
  define acc st where "acc = hl_accepted l" and "st = hl_state l"
  have st: "wf_health st" "state_matches p st" "he_evaluated_windows prior \<le> he_evaluated_windows st"
      "carried p P prior st"
    and cited: "set acc \<subseteq> S" "contiguous acc"
      "hd (acc @ [s]) = s \<and> expected_start p st = expected_start p prior
       \<or> hw_window_started_at (hd (acc @ [s])) = expected_start p prior"
    using inv by (auto simp: health_loop_inv_def st_def acc_def split: if_splits)
  note bounds = wf_policy_bounds [OF p]
  have start: "expected_start p st = hw_window_ended_at (last acc)" if "acc \<noteq> []"
    using inv that by (simp add: health_loop_inv_def st_def acc_def expected_start_def)
  show ?thesis
  proof (cases "conflicts_seen hexdigest l s")
    case True
    with False st show ?thesis
      by (auto simp: evaluate_sample_def admit_sample_def and_then_def st_def Let_def
          intro!: reset_insufficient_ok)
  next
    case fresh: False
    define l' where "l' = l\<lparr>hl_accepted := acc @ [s],
      hl_seen_windows := (hl_seen_windows l)(sample_window s \<mapsto> s),
      hl_seen_digests := (hl_seen_digests l)(hw_observation_sha256 s \<mapsto> s),
      hl_seen_sample_sets :=
        (case sample_set_sha256 hexdigest (hw_sample_sha256s s) of
           None \<Rightarrow> hl_seen_sample_sets l
         | Some d \<Rightarrow> (hl_seen_sample_sets l)(d \<mapsto> s))\<rparr>"
    have eval: "evaluate_sample hexdigest p prior at l s =
      and_then (check_window hexdigest p prior at st (acc @ [s]) s)
      (\<lambda>_. and_then (check_timing p prior at st (acc @ [s]) s)
      (\<lambda>_. and_then (or_raise (advance_window hexdigest st (hw_window_ended_at s)
         (Some (hw_observation_sha256 s)) (hw_sample_sha256s s)
         ((hw_window_ended_at s - expected_start p st) div hp_window_seconds p)))
      (\<lambda>adv. and_then (check_evidence p prior at st adv (acc @ [s]) s)
      (\<lambda>_. and_then (classify_sample p prior at st adv (acc @ [s]) s)
      (\<lambda>(st', r). Inr (l'\<lparr>hl_state := st', hl_last_result := Some r\<rparr>))))))"
      using False fresh
      by (simp add: evaluate_sample_def admit_sample_def l'_def acc_def st_def Let_def
          and_then_def [of "Inr _"])
    show ?thesis
      unfolding eval
    proof (rule early_and_then [OF check_window_ok [OF st]], rule early_and_then [OF check_timing_ok [OF st]])
      assume w: "he_evaluated_windows st < hp_maximum_windows p \<and> sample_matches p s \<and> boundary_valid p s
          \<and> expected_start p st \<le> hw_window_started_at s"
        and t: "ready_at p s \<le> hw_observed_at s \<and> hw_observed_at s \<le> at"
      define n where "n = (hw_window_ended_at s - expected_start p st) div hp_window_seconds p"
      have width: "hw_window_ended_at s - hw_window_started_at s = hp_window_seconds p"
        using w by (simp add: boundary_valid_def)
      have "hp_window_seconds p div hp_window_seconds p \<le> n"
        using w width bounds unfolding n_def by (intro zdiv_mono1) auto
      then have n: "1 \<le> n" using bounds by simp
      have ev: "he_evaluated_windows st < MAX_WINDOWS" using w bounds by simp
      obtain adv where adv:
        "advance_window hexdigest st (hw_window_ended_at s) (Some (hw_observation_sha256 s))
           (hw_sample_sha256s s) n = Inr adv"
        "wf_health adv" "he_last_window_ended_at adv = Some (hw_window_ended_at s)"
        "he_evaluated_windows adv = min (he_evaluated_windows st + n) MAX_WINDOWS"
        "he_consecutive_healthy_windows adv = he_consecutive_healthy_windows st"
        "he_consecutive_unhealthy_windows adv = he_consecutive_unhealthy_windows st"
        "he_policy_version adv = he_policy_version st" "he_policy_sha256 adv = he_policy_sha256 st"
        "he_observation_started_at adv = he_observation_started_at st" "state_scope adv = state_scope st"
        using advance_window_ok [OF st(1) ev s(1) n h] by blast
      have grown: "he_evaluated_windows st + 1 \<le> he_evaluated_windows adv"
        using adv(4) n ev by simp
      have matches: "state_matches p adv" if "hw_window_started_at s = expected_start p st"
      proof -
        have "n = 1" using that width bounds by (simp add: n_def)
        then show ?thesis
          using st adv ev that width expected_start_matches [OF st(2)]
          by (auto simp: state_matches_def Let_def algebra_simps wf_health_iff health_counters_def)
      qed
      show "early_ok (result_ok p prior at P S) (\<lambda>l'. health_loop_inv p prior at P S l' \<and> hl_accepted l' \<noteq> [])
        (and_then (or_raise (advance_window hexdigest st (hw_window_ended_at s)
           (Some (hw_observation_sha256 s)) (hw_sample_sha256s s)
           ((hw_window_ended_at s - expected_start p st) div hp_window_seconds p)))
        (\<lambda>adv. and_then (check_evidence p prior at st adv (acc @ [s]) s)
        (\<lambda>_. and_then (classify_sample p prior at st adv (acc @ [s]) s)
        (\<lambda>(st', r). Inr (l'\<lparr>hl_state := st', hl_last_result := Some r\<rparr>)))))"
        unfolding n_def [symmetric]
      proof (rule early_and_then [OF early_or_raise [OF adv(1), where Q = "\<lambda>x. x = adv"]], simp, simp,
          rule early_and_then [OF check_evidence_ok [OF st adv(2) _ matches]])
        assume e: "hw_observed_at s \<le> collection_deadline p s \<and> hw_window_started_at s = expected_start p st
          \<and> hw_complete s \<and> \<not> hw_missing s \<and> \<not> hw_conflicting_duplicate s
          \<and> hp_minimum_request_count p \<le> hw_request_count s"
        have counted: "counted p at (fst (classify_window p s)) s"
          using w t e by (simp add: counted_def)
        have "acc = [] \<or> hw_window_ended_at (last acc) = hw_window_started_at s"
          using start e by metis
        then have acc': "set (acc @ [s]) \<subseteq> S" "contiguous (acc @ [s])"
            "hw_window_started_at (hd (acc @ [s])) = expected_start p prior"
          using cited s(2) e by (auto simp: contiguous_snoc)
        show "early_ok (result_ok p prior at P S) (\<lambda>l'. health_loop_inv p prior at P S l' \<and> hl_accepted l' \<noteq> [])
          (and_then (classify_sample p prior at st adv (acc @ [s]) s)
          (\<lambda>(st', r). Inr (l'\<lparr>hl_state := st', hl_last_result := Some r\<rparr>)))"
        proof (rule early_and_then [OF classify_sample_ok
              [OF p st(1) st(4) st(3) adv(2) grown adv(3) _ counted s(3) _ acc']])
          show "state_matches p adv" "hw_window_started_at s = expected_start p st"
            using matches e by simp_all
        next
          fix x
          assume "case x of (st', r) \<Rightarrow> result_ok p prior at P S r \<and> wf_health st' \<and> state_matches p st'
            \<and> he_evaluated_windows st' = he_evaluated_windows adv
            \<and> he_last_window_ended_at st' = he_last_window_ended_at adv
            \<and> carried p P prior st'"
          then show "early_ok (result_ok p prior at P S)
            (\<lambda>l'. health_loop_inv p prior at P S l' \<and> hl_accepted l' \<noteq> [])
            (case x of (st', r) \<Rightarrow> Inr (l'\<lparr>hl_state := st', hl_last_result := Some r\<rparr>))"
            using acc' adv(3) grown st(3)
            by (auto simp: health_loop_inv_def l'_def split: prod.split)
        qed
      qed (use w grown st(3) in simp_all)
    qed
  qed
qed

lemma evaluate_samples_ok:
  assumes p: "wf_policy p" and h: "sha256_outputs hexdigest"
  shows "(\<And>s. s \<in> set ss \<Longrightarrow> wf_sample s \<and> s \<in> S \<and> (at, s) \<in> P) \<Longrightarrow> health_loop_inv p prior at P S l \<Longrightarrow>
    ss \<noteq> [] \<or> hl_accepted l \<noteq> [] \<Longrightarrow>
    \<exists>r. evaluate_samples hexdigest p prior at l ss = Inr r \<and> result_ok p prior at P S r"
proof (induction ss arbitrary: l)
  case Nil
  then show ?case by (auto simp: health_loop_inv_def split: if_splits)
next
  case (Cons s ss)
  have "early_ok (result_ok p prior at P S) (\<lambda>l'. health_loop_inv p prior at P S l' \<and> hl_accepted l' \<noteq> [])
    (evaluate_sample hexdigest p prior at l s)"
    using Cons.prems by (intro evaluate_sample_ok [OF p _ _ _ _ h]) auto
  with Cons.IH Cons.prems(1) show ?case
    by (auto simp: early_ok_def split: sum.splits)
qed

section \<open>Evaluations\<close>

lemma evaluate_absent_ok:
  assumes "wf_health prior" "state_matches p prior"
  shows "\<exists>r. evaluate_absent p prior at = Inr r \<and> result_ok p prior at P S r"
  using assms reset_streaks_ok [OF assms(1)]
  by (auto simp: evaluate_absent_def Let_def insufficient_def reset_streaks_ok intro!: result_ok_plain)

lemma evaluate_health_ok:
  assumes p: "wf_policy p" and prior: "wf_health prior" and h: "sha256_outputs hexdigest"
    and s: "\<And>s. s \<in> set samples \<Longrightarrow> wf_sample s \<and> (at, s) \<in> P"
    and at: "0 \<le> at" "at \<le> MAX_SAFE_INTEGER"
  shows "\<exists>r. evaluate_health hexdigest p samples prior at = Inr r \<and> result_ok p prior at P (set samples) r"
proof -
  have insufficient: "\<exists>r. insufficient reason p prior prior at acc sam b n = Inr r
      \<and> result_ok p prior at P (set samples) r"
    if "reason = STATE_SCOPE_MISMATCH \<or> state_matches p prior" for reason acc sam b n
    using that prior reset_streaks_ok [OF prior]
    by (cases b) (auto simp: insufficient_def intro!: result_ok_plain)
  have loop: "health_loop_inv p prior at P (set samples) (initial_loop prior)" if "state_matches p prior"
    using that prior by (simp add: health_loop_inv_def initial_loop_def contiguous_def)
  have "\<exists>r. evaluate_samples hexdigest p prior at (initial_loop prior) (dict_fromkeys samples) = Inr r
      \<and> result_ok p prior at P (set samples) r"
    if "state_matches p prior" "dict_fromkeys samples \<noteq> []"
    using that s by (intro evaluate_samples_ok [OF p h _ loop]) auto
  with at insufficient evaluate_absent_ok [OF prior] show ?thesis
    by (auto simp: evaluate_health_def Let_def require_int_def)
qed

text \<open>
  C31: an evaluation of valid inputs never raises: no construction of a new state is rejected
  and the unreachable assertions stay unreachable. Its result records the prior state, keeps
  a valid state that has evaluated no fewer windows, and asks for no evaluation in the past.
  The new state belongs to the policy again unless the evidence came late or left a gap.
\<close>

theorem evaluate_health_total:
  assumes "wf_policy p" "wf_health prior" "sha256_outputs hexdigest"
    and "\<forall>s \<in> set samples. wf_sample s" and "0 \<le> at" "at \<le> MAX_SAFE_INTEGER"
  shows "\<exists>r. evaluate_health hexdigest p samples prior at = Inr r
    \<and> wf_health (hr_state r) \<and> hr_prior_state r = prior
    \<and> he_evaluated_windows prior \<le> he_evaluated_windows (hr_state r)
    \<and> (\<forall>t. hr_next_evaluation_at r = Some t \<longrightarrow> at \<le> t)
    \<and> (state_matches p (hr_state r)
       \<or> hr_reasons r \<in> {[WINDOW_GAP], [SAMPLE_LATE], [STATE_SCOPE_MISMATCH]})"
  using evaluate_health_ok [of p prior hexdigest samples at "Pair at ` set samples"] assms by (auto simp: result_ok_def)

section \<open>Evaluations one after another\<close>

text \<open>What the rounds presented: every sample with the time of the round it came in.\<close>

definition presented :: "health_round list \<Rightarrow> (int \<times> health_sample) set" where
  "presented rounds = {(at, s). \<exists>samples. (samples, at) \<in> set rounds \<and> s \<in> set samples}"

lemma presented_append: "presented (rounds @ [(samples, at)]) = presented rounds \<union> Pair at ` set samples"
  by (auto simp: presented_def)

lemma presented_last: "presented [(samples, at)] = Pair at ` set samples"
  by (auto simp: presented_def)

lemma evaluated_at_bounds:
  assumes "evaluate_health hexdigest p samples prior at = Inr r"
  shows "0 \<le> at \<and> at \<le> MAX_SAFE_INTEGER"
proof -
  have "require_int ''evaluated_at'' at 0 MAX_SAFE_INTEGER = None"
    using assms unfolding evaluate_health_def Let_def
    by (cases "require_int ''evaluated_at'' at 0 MAX_SAFE_INTEGER") simp_all
  then show ?thesis by (simp add: require_int_def split: if_splits)
qed

lemma initial_health_state_ok:
  assumes "wf_policy p"
  shows "wf_health (initial_health_state p)" "streaks_logged p P (initial_health_state p)"
proof -
  show "wf_health (initial_health_state p)"
    using assms
    by (auto simp: wf_policy_def validate_health_policy_def wf_health_def validate_health_state_def
        initial_health_state_def checks_append_None split: option.splits if_splits)
  show "streaks_logged p P (initial_health_state p)"
    by (simp add: initial_health_state_def)
qed

lemma derive_next_state_ok:
  assumes "derive_next_state decision_sha256 r = Inr st" "streaks_logged p P (hr_state r)"
  shows "wf_health st" "streaks_logged p P st"
  using assms
  by (auto simp: derive_next_state_def construct_def wf_health_def streaks_logged_def
      split: if_splits option.splits)

lemma evaluations_logged:
  assumes "evaluations hexdigest decision_sha256 p rounds r"
    and p: "wf_policy p" and h: "sha256_outputs hexdigest"
  shows "streaks_logged p (presented rounds) (hr_state r)
    \<and> (\<exists>prior. streaks_logged p (presented rounds) prior
        \<and> result_ok p prior (snd (last rounds)) (presented rounds) (set (fst (last rounds))) r)"
  using assms(1)
proof induction
  case (first_evaluation samples at r)
  note start = initial_health_state_ok [OF p]
  have "result_ok p (initial_health_state p) at (presented [(samples, at)]) (set samples) r"
    using evaluate_health_ok [OF p start(1) h, of samples at "presented [(samples, at)]"]
      first_evaluation evaluated_at_bounds [OF first_evaluation(2)]
    by (auto simp: presented_last)
  with start(2) show ?case by (auto simp: result_ok_def carried_def)
next
  case (next_evaluation rounds r state samples at r')
  have "streaks_logged p (presented (rounds @ [(samples, at)])) (hr_state r)"
    using next_evaluation.IH by (auto simp: presented_append intro: streaks_logged_mono [rotated])
  note prior = derive_next_state_ok [OF next_evaluation.hyps(2) this]
  have "result_ok p state at (presented (rounds @ [(samples, at)])) (set samples) r'"
    using evaluate_health_ok [OF p prior(1) h, of samples at "presented (rounds @ [(samples, at)])"]
      next_evaluation.hyps evaluated_at_bounds [OF next_evaluation.hyps(4)]
    by (auto simp: presented_append)
  with prior(2) show ?case by (auto simp: result_ok_def carried_def)
qed

text \<open>
  C15: a verdict is backed by evidence, across all the evaluations that lead to it. Whatever
  samples are presented in however many rounds, a result is HEALTHY (UNHEALTHY) only when
  exactly as many windows as the policy demands, each presented in one of the rounds and then
  complete, in scope, on time and classified healthy (unhealthy), follow one another without
  a gap up to the window the result reports, which was presented in the last round. The
  observations the result cites are presented samples of that round, and the first of them
  starts where the last window of the prior state ended.
\<close>

theorem verdicts_are_backed:
  assumes "wf_policy p" "sha256_outputs hexdigest"
    and "evaluations hexdigest decision_sha256 p rounds r"
  shows "(hr_decision r = HD_HEALTHY \<longrightarrow>
      verdict_backed p (presented rounds) (set (fst (last rounds))) WC_healthy
        (hp_healthy_consecutive_windows p) r)
    \<and> (hr_decision r = HD_UNHEALTHY \<longrightarrow>
      verdict_backed p (presented rounds) (set (fst (last rounds))) WC_unhealthy
        (hp_unhealthy_consecutive_windows p) r)"
  using evaluations_logged [OF assms(3,1,2)] by (auto simp: result_ok_def)

text \<open>
  A verdict latches. The state a HEALTHY or UNHEALTHY result carries is terminal: any
  later evaluation under the policy, whatever samples it presents, reports insufficient
  evidence with the reason STATE\_TERMINAL and leaves that state unchanged.
\<close>

theorem verdict_latches:
  assumes "wf_policy p" "wf_health prior" "sha256_outputs hexdigest"
    and "\<forall>s \<in> set samples. wf_sample s" and "0 \<le> at" "at \<le> MAX_SAFE_INTEGER"
    and "evaluate_health hexdigest p samples prior at = Inr r"
    and "hr_decision r \<in> {HD_HEALTHY, HD_UNHEALTHY}"
    and "0 \<le> at'" "at' \<le> MAX_SAFE_INTEGER"
  shows "\<exists>r'. evaluate_health hexdigest p samples' (hr_state r) at' = Inr r'
    \<and> hr_decision r' = HD_INSUFFICIENT_EVIDENCE \<and> hr_reasons r' = [STATE_TERMINAL]
    \<and> hr_state r' = hr_state r"
proof -
  have "result_ok p prior at (Pair at ` set samples) (set samples) r"
    using evaluate_health_ok [of p prior hexdigest samples at "Pair at ` set samples"] assms by auto
  then have "state_matches p (hr_state r)"
    "hp_healthy_consecutive_windows p \<le> he_consecutive_healthy_windows (hr_state r)
     \<or> hp_unhealthy_consecutive_windows p \<le> he_consecutive_unhealthy_windows (hr_state r)"
    using assms(8) by (auto simp: result_ok_def)
  with assms(9,10) show ?thesis
    by (simp add: evaluate_health_def Let_def require_int_def insufficient_def)
qed

section \<open>Thresholds and reported rates\<close>

lemma le_div_iff:
  fixes n d t :: int
  assumes "0 < d" shows "t \<le> n div d \<longleftrightarrow> t * d \<le> n"
proof
  assume "t \<le> n div d"
  then have "t * d \<le> n div d * d" using assms by (simp add: mult_right_mono)
  also have "\<dots> \<le> n" using div_mult_mod_eq [of n d] pos_mod_sign [OF assms, of n] by linarith
  finally show "t * d \<le> n" .
next
  assume "t * d \<le> n"
  then have "t * d div d \<le> n div d" using assms by (rule zdiv_mono1)
  with assms show "t \<le> n div d" by simp
qed

lemma ceiling_le_iff:
  fixes n d t :: int
  assumes "0 < d" shows "(n + d - 1) div d \<le> t \<longleftrightarrow> n \<le> t * d"
  using le_div_iff [OF assms, of "t + 1" "n + d - 1"] by (auto simp: algebra_simps)

text \<open>
  the integer comparisons decide what the exact rates say. For a window with requests,
  healthy is equivalent to the reported rounded-up error rate, the latency and the reported
  rounded-down availability meeting the healthy thresholds; unhealthy to one of the opposite
  bounds; and no window is both, because the bands leave a gap.
\<close>

theorem classification_agrees_with_rates:
  assumes "wf_policy p" "0 < hw_request_count s"
  shows "(fst (classify_window p s) = WC_healthy \<longleftrightarrow>
      ceiling_basis_points (hw_server_error_count s) (hw_request_count s)
        \<le> hp_healthy_maximum_error_rate_basis_points p
      \<and> hw_p95_latency_ms s \<le> hp_healthy_maximum_p95_latency_ms p
      \<and> hp_healthy_minimum_availability_basis_points p
        \<le> floor_basis_points (hw_successful_request_count s) (hw_request_count s))
    \<and> (fst (classify_window p s) = WC_unhealthy \<longleftrightarrow>
      hp_unhealthy_minimum_error_rate_basis_points p
        \<le> floor_basis_points (hw_server_error_count s) (hw_request_count s)
      \<or> hp_unhealthy_minimum_p95_latency_ms p \<le> hw_p95_latency_ms s
      \<or> ceiling_basis_points (hw_successful_request_count s) (hw_request_count s)
        \<le> hp_unhealthy_maximum_availability_basis_points p)"
proof -
  note bands = wf_policy_bands [OF assms(1)]
  have "hp_healthy_maximum_error_rate_basis_points p * hw_request_count s
      < hp_unhealthy_minimum_error_rate_basis_points p * hw_request_count s"
    "hp_unhealthy_maximum_availability_basis_points p * hw_request_count s
      < hp_healthy_minimum_availability_basis_points p * hw_request_count s"
    using bands assms(2) by simp_all
  with bands show ?thesis
    unfolding ceiling_basis_points_def floor_basis_points_def ceiling_le_iff [OF assms(2)]
      le_div_iff [OF assms(2)]
    by (auto simp: classify_window_def Let_def)
qed

section \<open>A concrete evaluation\<close>

definition sample_digest :: "char \<Rightarrow> string" where
  "sample_digest c = replicate 64 c"

definition sample_policy :: health_policy where
  "sample_policy =
     \<lparr>hp_policy_version = ''v1'', hp_policy_sha256 = sample_digest CHR ''a'',
      hp_project_id = ''project'', hp_region = ''region'', hp_environment = ''canary'',
      hp_service_name = ''target'', hp_root_id = ''cgroot:'' @ sample_digest CHR ''b'',
      hp_root_sha256 = sample_digest CHR ''b'', hp_epoch = 4, hp_candidate_revision = ''candidate-1'',
      hp_observation_started_at = 1000, hp_window_seconds = 60, hp_observation_delay_seconds = 5,
      hp_maximum_observation_delay_seconds = 30, hp_minimum_request_count = 10,
      hp_healthy_maximum_error_rate_basis_points = 100,
      hp_unhealthy_minimum_error_rate_basis_points = 500,
      hp_healthy_maximum_p95_latency_ms = 200, hp_unhealthy_minimum_p95_latency_ms = 400,
      hp_healthy_minimum_availability_basis_points = 9900,
      hp_unhealthy_maximum_availability_basis_points = 9500,
      hp_healthy_consecutive_windows = 1, hp_unhealthy_consecutive_windows = 1,
      hp_maximum_windows = 3\<rparr>"

definition sample_state :: health_state where
  "sample_state =
     \<lparr>he_policy_version = ''v1'', he_policy_sha256 = sample_digest CHR ''a'',
      he_project_id = ''project'', he_region = ''region'', he_environment = ''canary'',
      he_service_name = ''target'', he_root_id = ''cgroot:'' @ sample_digest CHR ''b'',
      he_root_sha256 = sample_digest CHR ''b'', he_epoch = 4, he_candidate_revision = ''candidate-1'',
      he_observation_started_at = 1000, he_last_window_ended_at = None,
      he_consecutive_healthy_windows = 0, he_consecutive_unhealthy_windows = 0,
      he_evaluated_windows = 0, he_last_observation_sha256 = None,
      he_consumed_sample_set_sha256s = [], he_prior_decision_sha256 = None\<rparr>"

definition sample_window_1 :: health_sample where
  "sample_window_1 =
     \<lparr>hw_observation_sha256 = sample_digest CHR ''c'',
      hw_query_sha256s = [sample_digest CHR ''1'', sample_digest CHR ''2''],
      hw_sample_sha256s = [sample_digest CHR ''3'', sample_digest CHR ''4''],
      hw_policy_sha256 = sample_digest CHR ''a'', hw_project_id = ''project'', hw_region = ''region'',
      hw_environment = ''canary'', hw_service_name = ''target'',
      hw_root_id = ''cgroot:'' @ sample_digest CHR ''b'', hw_root_sha256 = sample_digest CHR ''b'',
      hw_epoch = 4, hw_candidate_revision = ''candidate-1'', hw_observation_started_at = 1000,
      hw_window_index = 1, hw_window_started_at = 1000, hw_window_ended_at = 1060,
      hw_observed_at = 1070, hw_request_count = 1000, hw_response_1xx_count = 0,
      hw_successful_request_count = 995, hw_response_3xx_count = 0, hw_response_4xx_count = 0,
      hw_server_error_count = 5, hw_p95_latency_ms = 120, hw_complete = True, hw_missing = False,
      hw_duplicate_count = 0, hw_conflicting_duplicate = False\<rparr>"

lemma sample_digest_ok: "hex_char c \<Longrightarrow> is_sha256 (sample_digest c)"
  by (simp add: is_sha256_def sample_digest_def list_all_iff)

lemma sample_digest_inject [simp]: "sample_digest c = sample_digest d \<longleftrightarrow> c = d"
  by (simp add: sample_digest_def replicate_eq_replicate)

lemmas eval_health_text = is_nonblank_iff py_space_def wildcard_def hex_char_def char_code_def Let_def

lemma sample_root_id: "exact_identifier (''cgroot:'' @ sample_digest CHR ''b'')"
  by (simp add: exact_identifier_def sample_digest_def eval_health_text list_ex_iff)

lemmas sample_defs = sample_policy_def sample_state_def sample_window_1_def

lemma sample_digest_plain: "list_ex wildcard (sample_digest CHR ''b'') = False"
  by (simp add: sample_digest_def eval_health_text list_ex_iff)

lemmas eval_fields = sample_digest_plain sample_digest_ok sample_root_id [simplified] exact_identifier_def eval_health_text
  MAX_SAFE_INTEGER_def MAX_WINDOWS_def BASIS_POINTS_def response_total_def

lemma sample_policy_wf: "wf_policy sample_policy"
  by (simp add: wf_policy_def validate_health_policy_def sample_policy_def eval_fields)

lemma sample_state_wf: "wf_health sample_state"
  by (simp add: wf_health_def validate_health_state_def sample_state_def eval_fields)

lemma sample_window_1_wf: "wf_sample sample_window_1"
  by (simp add: wf_sample_def validate_health_sample_def sample_window_1_def eval_fields checks_append)

definition sample_hash :: hexdigest where
  "sample_hash x = sample_digest CHR ''f''"

lemma sample_hash_ok: "sha256_outputs sample_hash"
  by (simp add: sha256_outputs_def sample_hash_def eval_fields)

definition sample_evaluation :: "health_result result" where
  "sample_evaluation = evaluate_health sample_hash sample_policy [sample_window_1] sample_state 1075"

text \<open>The state after the window is consumed, and after it counts as healthy.\<close>

definition sample_consumed :: health_state where
  "sample_consumed = sample_state\<lparr>he_last_window_ended_at := Some 1060, he_evaluated_windows := 1,
     he_last_observation_sha256 := Some (sample_digest CHR ''c''),
     he_consumed_sample_set_sha256s := [sample_digest CHR ''f'']\<rparr>"

definition sample_healthy :: health_state where
  "sample_healthy = sample_consumed\<lparr>he_consecutive_healthy_windows := 1\<rparr>"

lemma sample_advance:
  "advance_window sample_hash sample_state (hw_window_ended_at sample_window_1)
     (Some (hw_observation_sha256 sample_window_1)) (hw_sample_sha256s sample_window_1)
     ((hw_window_ended_at sample_window_1 - expected_start sample_policy sample_state)
        div hp_window_seconds sample_policy) = Inr sample_consumed"
  by (simp add: advance_window_def sample_set_sha256_def sample_hash_def checks_append_None
      validate_health_state_def sample_defs sample_consumed_def expected_start_def eval_fields)

lemma sample_streak:
  "streak_state sample_policy sample_state sample_consumed WC_healthy = Inr sample_healthy"
  by (simp add: streak_state_def checks_append_None validate_health_state_def sample_defs
      sample_consumed_def sample_healthy_def eval_fields)

lemma sample_class: "classify_window sample_policy sample_window_1 = (WC_healthy, [HEALTHY_THRESHOLDS_MET])"
  by (simp add: classify_window_def sample_defs BASIS_POINTS_def)

lemma sample_checks:
  "check_window sample_hash sample_policy sample_state 1075 sample_state acc sample_window_1 = Inr ()"
  "check_timing sample_policy sample_state 1075 sample_state acc sample_window_1 = Inr ()"
  "check_evidence sample_policy sample_state 1075 sample_state sample_consumed acc sample_window_1 = Inr ()"
  by (simp_all add: check_window_def check_timing_def check_evidence_def and_then_def return_if_def
      boundary_valid_def identical_replay_def sample_set_sha256_def expected_start_def ready_at_def
      collection_deadline_def sample_matches_def window_scope_def policy_scope_def sample_defs Let_def)

definition sample_result :: health_result where
  "sample_result = health_result_of HD_HEALTHY [HEALTHY_THRESHOLDS_MET, HEALTHY_STREAK_MET] sample_policy
     sample_state sample_healthy 1075 [sample_window_1] (Some sample_window_1) None"

lemma sample_classified:
  "classify_sample sample_policy sample_state 1075 sample_state sample_consumed [sample_window_1]
     sample_window_1 = Inl (Inr sample_result)"
proof -
  have "hp_healthy_consecutive_windows sample_policy \<le> he_consecutive_healthy_windows sample_healthy"
    by (simp add: sample_policy_def sample_healthy_def)
  then show ?thesis
    by (simp add: classify_sample_def sample_class sample_streak or_raise_def and_then_def return_if_def
        sample_result_def)
qed

text \<open>An evaluation of one sample that passes its checks is the classification of the sample.\<close>

lemma one_sample_evaluation:
  assumes "state_matches p st" "he_consecutive_healthy_windows st < hp_healthy_consecutive_windows p"
    "he_consecutive_unhealthy_windows st < hp_unhealthy_consecutive_windows p"
    "he_evaluated_windows st < hp_maximum_windows p" "0 \<le> at" "at \<le> MAX_SAFE_INTEGER"
    and "0 \<le> he_evaluated_windows st"
    and "check_window hexdigest p st at st [s] s = Inr ()" "check_timing p st at st [s] s = Inr ()"
    and "advance_window hexdigest st (hw_window_ended_at s) (Some (hw_observation_sha256 s))
      (hw_sample_sha256s s) ((hw_window_ended_at s - expected_start p st) div hp_window_seconds p) = Inr adv"
    and "check_evidence p st at st adv [s] s = Inr ()"
    and "classify_sample p st at st adv [s] s = Inl (Inr r)
      \<or> (\<exists>st'. classify_sample p st at st adv [s] s = Inr (st', r))"
  shows "evaluate_health hexdigest p [s] st at = Inr r"
  using assms
  by (auto simp: evaluate_health_def dict_fromkeys_def require_int_def evaluate_sample_def repeats_seen_def
      admit_sample_def conflicts_seen_def initial_loop_def and_then_def or_raise_def Let_def
      split: option.splits)

lemma sample_evaluation_result:
  "evaluate_health sample_hash sample_policy [sample_window_1] sample_state 1075 = Inr sample_result"
  by (rule one_sample_evaluation [OF _ _ _ _ _ _ _ sample_checks(1,2) sample_advance sample_checks(3)
        disjI1 [OF sample_classified]])
    (simp_all add: state_matches_def state_scope_def policy_scope_def sample_defs
      MAX_SAFE_INTEGER_def)

lemma sample_result_healthy: "hr_decision sample_result = HD_HEALTHY" "hr_state sample_result = sample_healthy"
  by (simp_all add: sample_result_def)

lemmas sample_valid = sample_policy_wf sample_state_wf sample_hash_ok

theorem evaluate_health_total_witness:
  "\<exists>r. evaluate_health sample_hash sample_policy [sample_window_1] sample_state 1075 = Inr r
    \<and> wf_health (hr_state r)"
  using evaluate_health_total [OF sample_valid, of "[sample_window_1]" 1075] sample_window_1_wf
  by (auto simp: MAX_SAFE_INTEGER_def)

text \<open>
  Two evaluations in a row: a policy that demands two healthy windows, the window after the
  first, and a digest that tells the samples of the two apart.
\<close>

definition pair_policy :: health_policy where
  "pair_policy = sample_policy\<lparr>hp_healthy_consecutive_windows := 2\<rparr>"

definition sample_window_2 :: health_sample where
  "sample_window_2 = sample_window_1\<lparr>hw_observation_sha256 := sample_digest CHR ''d'',
     hw_sample_sha256s := [sample_digest CHR ''5'', sample_digest CHR ''6''],
     hw_window_index := 2, hw_window_started_at := 1060, hw_window_ended_at := 1120,
     hw_observed_at := 1130\<rparr>"

definition pair_hash :: hexdigest where
  "pair_hash x = sample_digest (if octet 51 \<in> set x then CHR ''f'' else CHR ''e'')"

definition first_state :: health_state where
  "first_state = (initial_health_state pair_policy)\<lparr>he_last_window_ended_at := Some 1060,
     he_evaluated_windows := 1, he_last_observation_sha256 := Some (sample_digest CHR ''c''),
     he_consumed_sample_set_sha256s := [sample_digest CHR ''f''], he_consecutive_healthy_windows := 1\<rparr>"

definition first_result :: health_result where
  "first_result = health_result_of HD_WAIT [HEALTHY_THRESHOLDS_MET, HEALTHY_STREAK_PENDING] pair_policy
     (initial_health_state pair_policy) first_state 1075 [sample_window_1] (Some sample_window_1) (Some 1125)"

definition second_prior :: health_state where
  "second_prior = first_state\<lparr>he_prior_decision_sha256 := Some (sample_digest CHR ''9'')\<rparr>"

definition second_state :: health_state where
  "second_state = second_prior\<lparr>he_last_window_ended_at := Some 1120,
     he_evaluated_windows := 2, he_last_observation_sha256 := Some (sample_digest CHR ''d''),
     he_consumed_sample_set_sha256s := [sample_digest CHR ''f'', sample_digest CHR ''e''],
     he_consecutive_healthy_windows := 2\<rparr>"

definition second_result :: health_result where
  "second_result = health_result_of HD_HEALTHY [HEALTHY_THRESHOLDS_MET, HEALTHY_STREAK_MET] pair_policy
     second_prior second_state 1135 [sample_window_2] (Some sample_window_2) None"

lemmas pair_defs = pair_policy_def initial_health_state_def sample_window_2_def sample_defs
  first_state_def second_prior_def second_state_def first_result_def second_result_def

lemma pair_policy_wf: "wf_policy pair_policy"
  by (simp add: wf_policy_def validate_health_policy_def pair_policy_def sample_policy_def eval_fields)

lemma pair_hash_ok: "sha256_outputs pair_hash"
  by (simp add: sha256_outputs_def pair_hash_def eval_fields)

lemma sample_window_2_wf: "wf_sample sample_window_2"
  by (simp add: wf_sample_def validate_health_sample_def sample_window_2_def sample_window_1_def eval_fields
      checks_append)

lemma pair_sets:
  "sample_set_sha256 pair_hash [sample_digest CHR ''3'', sample_digest CHR ''4''] = Some (sample_digest CHR ''f'')"
  "sample_set_sha256 pair_hash [sample_digest CHR ''5'', sample_digest CHR ''6''] = Some (sample_digest CHR ''e'')"
  by (simp_all add: sample_set_sha256_def; code_simp)+

lemmas eval_checks = check_window_def check_timing_def check_evidence_def and_then_def return_if_def
  boundary_valid_def identical_replay_def pair_sets expected_start_def ready_at_def
  collection_deadline_def sample_matches_def window_scope_def policy_scope_def Let_def
  state_matches_def state_scope_def

lemmas eval_state = advance_window_def streak_state_def pair_sets checks_append_None validate_health_state_def
  expected_start_def eval_fields

lemmas eval_classified = classify_sample_def or_raise_def and_then_def return_if_def exhausted_def
  next_after_consumed_def next_window_ready_def

lemma pair_class:
  "classify_window pair_policy sample_window_1 = (WC_healthy, [HEALTHY_THRESHOLDS_MET])"
  "classify_window pair_policy sample_window_2 = (WC_healthy, [HEALTHY_THRESHOLDS_MET])"
  by (simp_all add: classify_window_def pair_defs BASIS_POINTS_def)

lemma first_round:
  "evaluate_health pair_hash pair_policy [sample_window_1] (initial_health_state pair_policy) 1075
   = Inr first_result"
proof (rule one_sample_evaluation [where adv = "first_state\<lparr>he_consecutive_healthy_windows := 0\<rparr>"])
  have "streak_state pair_policy (initial_health_state pair_policy)
      (first_state\<lparr>he_consecutive_healthy_windows := 0\<rparr>) WC_healthy = Inr first_state"
    by (simp add: eval_state pair_defs)
  then show "classify_sample pair_policy (initial_health_state pair_policy) 1075 (initial_health_state pair_policy)
        (first_state\<lparr>he_consecutive_healthy_windows := 0\<rparr>) [sample_window_1] sample_window_1 = Inl (Inr first_result)
      \<or> (\<exists>st'. classify_sample pair_policy (initial_health_state pair_policy) 1075 (initial_health_state pair_policy)
        (first_state\<lparr>he_consecutive_healthy_windows := 0\<rparr>) [sample_window_1] sample_window_1 = Inr (st', first_result))"
    by (simp add: eval_classified pair_class) (simp add: pair_defs)
qed (simp_all add: eval_state eval_checks pair_defs)

lemma second_round:
  "evaluate_health pair_hash pair_policy [sample_window_2] second_prior 1135 = Inr second_result"
proof (rule one_sample_evaluation [where adv = "second_state\<lparr>he_consecutive_healthy_windows := 1\<rparr>"])
  have "streak_state pair_policy second_prior
      (second_state\<lparr>he_consecutive_healthy_windows := 1\<rparr>) WC_healthy = Inr second_state"
    by (simp add: eval_state pair_defs)
  then show "classify_sample pair_policy second_prior 1135 second_prior
        (second_state\<lparr>he_consecutive_healthy_windows := 1\<rparr>) [sample_window_2] sample_window_2 = Inl (Inr second_result)
      \<or> (\<exists>st'. classify_sample pair_policy second_prior 1135 second_prior
        (second_state\<lparr>he_consecutive_healthy_windows := 1\<rparr>) [sample_window_2] sample_window_2 = Inr (st', second_result))"
    by (simp add: eval_classified pair_class) (simp add: pair_defs)
qed (simp_all add: eval_state eval_checks pair_defs)

lemma second_prior_derived: "derive_next_state (\<lambda>_. sample_digest CHR ''9'') first_result = Inr second_prior"
proof -
  have "validate_health_state second_prior = None" by (simp add: eval_state pair_defs)
  then show ?thesis
    by (simp add: derive_next_state_def construct_def first_result_def second_prior_def [symmetric])
qed

definition pair_rounds :: "health_round list" where
  "pair_rounds = [([sample_window_1], 1075), ([sample_window_2], 1135)]"

lemma pair_evaluations:
  "evaluations pair_hash (\<lambda>_. sample_digest CHR ''9'') pair_policy pair_rounds second_result"
  using next_evaluation [OF first_evaluation [OF _ first_round] second_prior_derived _ second_round]
    sample_window_1_wf sample_window_2_wf
  by (simp add: pair_rounds_def)

theorem verdicts_are_backed_witness:
  "hr_decision second_result = HD_HEALTHY
    \<and> verdict_backed pair_policy {(1075, sample_window_1), (1135, sample_window_2)} {sample_window_2}
        WC_healthy 2 second_result"
proof -
  have "hr_decision second_result = HD_HEALTHY" "hp_healthy_consecutive_windows pair_policy = 2"
    by (simp_all add: second_result_def pair_policy_def)
  moreover have "presented pair_rounds = {(1075, sample_window_1), (1135, sample_window_2)}"
    by (auto simp: presented_def pair_rounds_def)
  ultimately show ?thesis
    using verdicts_are_backed [OF pair_policy_wf pair_hash_ok pair_evaluations] by (simp add: pair_rounds_def)
qed

theorem verdict_latches_witness:
  "\<exists>r'. evaluate_health sample_hash sample_policy [] sample_healthy 2000 = Inr r'
    \<and> hr_reasons r' = [STATE_TERMINAL]"
  using verdict_latches [OF sample_valid _ _ _ sample_evaluation_result, of 2000 "[]"] sample_window_1_wf
  by (auto simp: sample_result_healthy MAX_SAFE_INTEGER_def)

theorem classification_agrees_with_rates_witness:
  "fst (classify_window sample_policy sample_window_1) = WC_healthy
    \<and> ceiling_basis_points 5 1000 \<le> 100 \<and> 9900 \<le> floor_basis_points 995 1000"
proof -
  have "0 < hw_request_count sample_window_1" by (simp add: sample_defs)
  from classification_agrees_with_rates [OF sample_policy_wf this] show ?thesis
    by (simp add: sample_class) (simp add: sample_defs)
qed

end
