(* ===== verification/Base64Url.thy ===== *)
theory Base64Url
  imports CanonicalJson
begin

text \<open>
  The unpadded base64url spelling of byte strings, \<open>encode_base64url\<close> and \<open>decode_base64url\<close> of
  \<open>contracts/codec.py\<close>. The standard library's \<open>urlsafe_b64encode\<close> and \<open>b64decode\<close> are written
  out: three octets are four sextets, a rest of one or two octets is two or three of them, and
  the decoder drops the bits of the last sextet that belong to no octet.
\<close>

definition octet_value :: "byte \<Rightarrow> nat" where
  "octet_value b = unat b"

definition sextet_char :: "nat \<Rightarrow> char" where
  "sextet_char n =
    (if n < 26 then char_of (65 + n) else if n < 52 then char_of (71 + n)
     else if n < 62 then char_of (n - 4) else if n = 62 then CHR ''-'' else CHR ''_'')"

definition base64url_char :: "char \<Rightarrow> bool" where
  "base64url_char c \<longleftrightarrow>
    (let n = char_code c in
     65 \<le> n \<and> n \<le> 90 \<or> 97 \<le> n \<and> n \<le> 122 \<or> 48 \<le> n \<and> n \<le> 57 \<or> n = 45 \<or> n = 95)"

definition sextet_of :: "char \<Rightarrow> nat" where
  "sextet_of c =
    (let n = char_code c in
     if 65 \<le> n \<and> n \<le> 90 then n - 65 else if 97 \<le> n then n - 71
     else if 48 \<le> n \<and> n \<le> 57 then n + 4 else if n = 45 then 62 else 63)"

fun octets_to_sextets :: "nat list \<Rightarrow> nat list" where
  "octets_to_sextets (a # b # c # rest) =
     a div 4 # ((a mod 4) * 16 + b div 16) # ((b mod 16) * 4 + c div 64) # c mod 64
     # octets_to_sextets rest"
| "octets_to_sextets [a, b] = [a div 4, (a mod 4) * 16 + b div 16, (b mod 16) * 4]"
| "octets_to_sextets [a] = [a div 4, (a mod 4) * 16]"
| "octets_to_sextets [] = []"

text \<open>\<open>None\<close> where \<open>b64decode\<close> raises: one sextet cannot stand alone.\<close>

fun sextets_to_octets :: "nat list \<Rightarrow> nat list option" where
  "sextets_to_octets (p # q # r # s # rest) =
     map_option (\<lambda>os. (p * 4 + q div 16) # ((q mod 16) * 16 + r div 4) # ((r mod 4) * 64 + s) # os)
       (sextets_to_octets rest)"
| "sextets_to_octets [p, q, r] = Some [p * 4 + q div 16, (q mod 16) * 16 + r div 4]"
| "sextets_to_octets [p, q] = Some [p * 4 + q div 16]"
| "sextets_to_octets [p] = None"
| "sextets_to_octets [] = Some []"

definition encode_base64url :: "bytes \<Rightarrow> string" where
  "encode_base64url value = map sextet_char (octets_to_sextets (map octet_value value))"

definition decode_base64url :: "nat \<Rightarrow> string \<Rightarrow> contract_error + bytes" where
  "decode_base64url maximum_bytes value =
    (if length value > maximum_bytes * 2 \<or> \<not> list_all base64url_char value
     then Inl (CONTRACT_INVALID ''base64url value is invalid'')
     else
       (case sextets_to_octets (map sextet_of value) of
          None \<Rightarrow> Inl (CONTRACT_INVALID ''base64url value is invalid'')
        | Some octets \<Rightarrow>
            (let decoded = map octet octets in
             if length decoded > maximum_bytes \<or> encode_base64url decoded \<noteq> value
             then Inl (CONTRACT_INVALID ''base64url value is not canonical'')
             else Inr decoded)))"

section \<open>Round trip\<close>

lemma sextet_char_valid: "n < 64 \<Longrightarrow> base64url_char (sextet_char n) \<and> sextet_of (sextet_char n) = n"
  by (auto simp: sextet_char_def base64url_char_def sextet_of_def Let_def char_code_def)

lemma octets_to_sextets_bound: "list_all (\<lambda>n. n < 256) os \<Longrightarrow> list_all (\<lambda>n. n < 64) (octets_to_sextets os)"
  by (induction os rule: octets_to_sextets.induct) auto

lemma unpack:
  fixes u v m :: nat
  assumes "v < m"
  shows "(u * m + v) div m = u" "(u * m + v) mod m = v"
  using assms by simp_all

lemma quotient_small:
  fixes n :: nat
  shows "n < 256 \<Longrightarrow> n div 16 < 16" "n < 256 \<Longrightarrow> n div 64 < 4"
  by simp_all

lemma sextets_round: "list_all (\<lambda>n. n < 256) os \<Longrightarrow> sextets_to_octets (octets_to_sextets os) = Some os"
proof (induction os rule: octets_to_sextets.induct)
  case (1 a b c rest)
  then show ?case by (simp add: unpack quotient_small)
next
  case (2 a b)
  then show ?case by (simp add: unpack quotient_small)
next
  case (3 a)
  then show ?case by simp
qed simp

lemma length_octets_to_sextets: "length (octets_to_sextets os) \<le> 2 * length os"
  by (induction os rule: octets_to_sextets.induct) auto

lemma octet_values: "list_all (\<lambda>n. n < 256) (map octet_value bs)" "map octet (map octet_value bs) = bs"
proof -
  have "octet_value b < 256" for b
    using unsigned_less [of b] by (simp add: octet_value_def)
  then show "list_all (\<lambda>n. n < 256) (map octet_value bs)"
    by (simp add: list_all_iff)
  show "map octet (map octet_value bs) = bs"
    by (induction bs) (simp_all add: octet_def octet_value_def)
qed

text \<open>
  Within its byte bound every byte string has exactly one accepted spelling, the encoder's:
  decoding the encoding gives the bytes back, and no other text decodes to them.
\<close>

theorem base64url_canonical:
  assumes "length bs \<le> maximum_bytes"
  shows "decode_base64url maximum_bytes value = Inr bs \<longleftrightarrow> value = encode_base64url bs"
proof
  assume "decode_base64url maximum_bytes value = Inr bs"
  then show "value = encode_base64url bs"
    by (auto simp: decode_base64url_def Let_def split: option.splits if_splits)
next
  assume v: "value = encode_base64url bs"
  let ?s = "octets_to_sextets (map octet_value bs)"
  have small: "list_all (\<lambda>n. n < 64) ?s"
    by (rule octets_to_sextets_bound) (rule octet_values)
  then have chars: "list_all base64url_char value" "map sextet_of value = ?s"
    unfolding v encode_base64url_def
    by (auto simp: list_all_iff sextet_char_valid intro!: map_idI)
  have "length value \<le> maximum_bytes * 2"
    using length_octets_to_sextets [of "map octet_value bs"] assms by (simp add: v encode_base64url_def)
  with chars assms v show "decode_base64url maximum_bytes value = Inr bs"
    by (simp only: decode_base64url_def sextets_round octet_values Let_def option.case if_False simp_thms)
      simp
qed

lemma sample_base64url: "encode_base64url [251, 255, 1] = ''-_8B''"
  by code_simp

theorem base64url_canonical_witness: "decode_base64url 4 ''-_8B'' = Inr [251, 255, 1]"
  using base64url_canonical [of "[251, 255, 1]" 4 "''-_8B''"] by (simp add: sample_base64url)

end
