(* ===== verification/Identity.thy ===== *)
theory Identity
  imports ServiceClaim CharBits
begin

text \<open>
  Workload identities of the protected routes, \<open>application/identity.py\<close>: which service accepts
  which caller on which path, and the policy a service builds from its startup environment. The
  parts of \<open>urllib.parse.urlsplit\<close> the module reads are defined here. Where \<open>urlsplit\<close> raises
  (unbalanced or malformed brackets, a netloc outside ASCII that normalises to a delimiter) the
  comparisons below fail with the same \<open>ValueError\<close>, so its exceptions need no case of their own.
\<close>

section \<open>URLs\<close>

record url_parts =
  up_scheme :: string
  up_netloc :: string
  up_path :: string
  up_query :: string
  up_fragment :: string

definition lower_ascii :: "char \<Rightarrow> char" where
  "lower_ascii c = (if upper_char c then char_of (char_code c + 32) else c)"

definition scheme_char :: "char \<Rightarrow> bool" where
  "scheme_char c \<longleftrightarrow> alnum_char c \<or> c \<in> set ''+-.''"

text \<open>The part before the first separator, and what follows it when there is one.\<close>

definition split_at :: "char \<Rightarrow> string \<Rightarrow> string \<times> string option" where
  "split_at sep s =
    (case dropWhile (\<lambda>c. c \<noteq> sep) s of
       [] \<Rightarrow> (s, None)
     | _ # rest \<Rightarrow> (takeWhile (\<lambda>c. c \<noteq> sep) s, Some rest))"

definition split_scheme :: "string \<Rightarrow> string \<times> string" where
  "split_scheme url =
    (case split_at (CHR '':'') url of
       (_, None) \<Rightarrow> ([], url)
     | (prefix, Some rest) \<Rightarrow>
         (if prefix \<noteq> [] \<and> (lower_char (hd prefix) \<or> upper_char (hd prefix))
             \<and> list_all scheme_char prefix
          then (map lower_ascii prefix, rest) else ([], url)))"

text \<open>\<open>urlsplit\<close>: leading controls and blanks are stripped, tabs and newlines removed.\<close>

definition clean_url :: "string \<Rightarrow> string" where
  "clean_url s = filter (\<lambda>c. char_code c \<notin> {9, 10, 13}) (dropWhile (\<lambda>c. char_code c \<le> 32) s)"

definition netloc_delimiter :: "char \<Rightarrow> bool" where
  "netloc_delimiter c \<longleftrightarrow> c \<in> {CHR ''/'', CHR ''?'', CHR ''#''}"

definition urlsplit :: "string \<Rightarrow> url_parts" where
  "urlsplit s =
    (let (scheme, url) = split_scheme (clean_url s);
         authority = starts_with ''//'' url;
         body = (if authority then drop 2 url else url);
         netloc = (if authority then takeWhile (\<lambda>c. \<not> netloc_delimiter c) body else []);
         rest = (if authority then dropWhile (\<lambda>c. \<not> netloc_delimiter c) body else body);
         (before_fragment, fragment) = split_at (CHR ''#'') rest;
         (path, query) = split_at (CHR ''?'') before_fragment
     in \<lparr>up_scheme = scheme, up_netloc = netloc, up_path = path,
         up_query = or_else query [], up_fragment = or_else fragment []\<rparr>)"

text \<open>\<open>SplitResult.hostname\<close> and the text after the port separator of \<open>_hostinfo\<close>.\<close>

definition hostinfo :: "string \<Rightarrow> string \<times> string" where
  "hostinfo netloc =
    (let info = rev (takeWhile (\<lambda>c. c \<noteq> CHR ''@'') (rev netloc)) in
     case split_at (CHR ''['') info of
       (_, Some bracketed) \<Rightarrow>
         (case split_at (CHR '']'') bracketed of
            (host, tail) \<Rightarrow> (host, or_else (snd (split_at (CHR '':'') (or_else tail []))) []))
     | (_, None) \<Rightarrow>
         (case split_at (CHR '':'') info of (host, port) \<Rightarrow> (host, or_else port [])))"

definition url_hostname :: "url_parts \<Rightarrow> string option" where
  "url_hostname u =
    (let host = fst (hostinfo (up_netloc u)) in
     if host = [] then None
     else (case split_at (CHR ''%'') host of
             (name, None) \<Rightarrow> Some (map lower_ascii name)
           | (name, Some zone) \<Rightarrow> Some (map lower_ascii name @ ''%'' @ zone)))"

definition url_has_port :: "url_parts \<Rightarrow> bool" where
  "url_has_port u \<longleftrightarrow> snd (hostinfo (up_netloc u)) \<noteq> []"

text \<open>Kernel evaluation of the two that look at single characters.\<close>

lemma lower_ascii_bits [code]:
  "lower_ascii (Char b0 b1 b2 b3 b4 b5 b6 b7)
     = (if upper_char (Char b0 b1 b2 b3 b4 b5 b6 b7) then Char b0 b1 b2 b3 b4 True b6 b7
        else Char b0 b1 b2 b3 b4 b5 b6 b7)"
  by (cases b0; cases b1; cases b2; cases b3; cases b4; cases b5; cases b6; cases b7)
    (simp_all add: lower_ascii_def upper_char_def char_code_def char_of_def bit_0)

lemma blank_bits:
  "char_code c \<le> 32 \<longleftrightarrow> \<not> digit7 c \<and> \<not> digit6 c \<and> (\<not> digit5 c \<or> c = CHR '' '')"
proof (cases c)
  case (Char b0 b1 b2 b3 b4 b5 b6 b7)
  then show ?thesis
    by (cases b0; cases b1; cases b2; cases b3; cases b4; cases b5; cases b6; cases b7)
      (simp_all add: char_code_def)
qed

lemma line_bits: "char_code c \<notin> {9, 10, 13} \<longleftrightarrow> c \<noteq> CHR 0x09 \<and> c \<noteq> CHR 0x0A \<and> c \<noteq> CHR 0x0D"
proof (cases c)
  case (Char b0 b1 b2 b3 b4 b5 b6 b7)
  then show ?thesis
    by (cases b0; cases b1; cases b2; cases b3; cases b4; cases b5; cases b6; cases b7)
      (simp_all add: char_code_def)
qed

lemma clean_url_code [code]:
  "clean_url s = filter (\<lambda>c. c \<noteq> CHR 0x09 \<and> c \<noteq> CHR 0x0A \<and> c \<noteq> CHR 0x0D)
     (dropWhile (\<lambda>c. \<not> digit7 c \<and> \<not> digit6 c \<and> (\<not> digit5 c \<or> c = CHR '' '')) s)"
  unfolding clean_url_def line_bits blank_bits ..

section \<open>Roles\<close>

datatype service_role =
    SVC_API | SVC_COORDINATOR | SVC_ISSUER | SVC_EXECUTOR | SVC_RECOVERY | SVC_VERIFIER
  | SVC_EVIDENCE_WRITER | SVC_ADVISOR

fun service_role_value :: "service_role \<Rightarrow> string" where
  "service_role_value SVC_API = ''api''"
| "service_role_value SVC_COORDINATOR = ''coordinator''"
| "service_role_value SVC_ISSUER = ''issuer''"
| "service_role_value SVC_EXECUTOR = ''executor''"
| "service_role_value SVC_RECOVERY = ''recovery''"
| "service_role_value SVC_VERIFIER = ''verifier''"
| "service_role_value SVC_EVIDENCE_WRITER = ''evidence_writer''"
| "service_role_value SVC_ADVISOR = ''advisor''"

datatype caller_role =
    CALL_OPERATOR | CALL_API | CALL_COORDINATOR | CALL_ISSUER | CALL_EXECUTOR | CALL_RECOVERY
  | CALL_VERIFIER | CALL_EVIDENCE_WRITER | CALL_ADVISOR | CALL_EXECUTION_TASK_CALLER
  | CALL_RECOVERY_TASK_CALLER | CALL_RETENTION_SWEEPER | CALL_SECURITY_AUDITOR
  | CALL_RESTRICTED_EXPORTER

definition caller_roles :: "(string \<times> caller_role) list" where
  "caller_roles =
    [(''operator'', CALL_OPERATOR), (''api'', CALL_API), (''coordinator'', CALL_COORDINATOR),
     (''issuer'', CALL_ISSUER), (''executor'', CALL_EXECUTOR), (''recovery'', CALL_RECOVERY),
     (''verifier'', CALL_VERIFIER), (''evidence_writer'', CALL_EVIDENCE_WRITER),
     (''advisor'', CALL_ADVISOR), (''execution_task_caller'', CALL_EXECUTION_TASK_CALLER),
     (''recovery_task_caller'', CALL_RECOVERY_TASK_CALLER),
     (''retention_sweeper'', CALL_RETENTION_SWEEPER), (''security_auditor'', CALL_SECURITY_AUDITOR),
     (''restricted_exporter'', CALL_RESTRICTED_EXPORTER)]"

fun service_account_id :: "caller_role \<Rightarrow> string option" where
  "service_account_id CALL_OPERATOR = None"
| "service_account_id CALL_API = Some ''controlgraph-api''"
| "service_account_id CALL_COORDINATOR = Some ''controlgraph-coordinator''"
| "service_account_id CALL_ISSUER = Some ''controlgraph-issuer''"
| "service_account_id CALL_EXECUTOR = Some ''controlgraph-executor''"
| "service_account_id CALL_RECOVERY = Some ''controlgraph-recovery''"
| "service_account_id CALL_VERIFIER = Some ''controlgraph-verifier''"
| "service_account_id CALL_EVIDENCE_WRITER = Some ''cg-evidence-writer''"
| "service_account_id CALL_ADVISOR = Some ''controlgraph-advisor''"
| "service_account_id CALL_EXECUTION_TASK_CALLER = Some ''cg-execution-task-caller''"
| "service_account_id CALL_RECOVERY_TASK_CALLER = Some ''cg-recovery-task-caller''"
| "service_account_id CALL_RETENTION_SWEEPER = Some ''cg-retention-sweeper''"
| "service_account_id CALL_SECURITY_AUDITOR = Some ''cg-security-auditor''"
| "service_account_id CALL_RESTRICTED_EXPORTER = Some ''cg-restricted-exporter''"

fun runtime_service_name :: "service_role \<Rightarrow> string" where
  "runtime_service_name SVC_API = ''controlgraph-api''"
| "runtime_service_name SVC_COORDINATOR = ''controlgraph-coordinator''"
| "runtime_service_name SVC_ISSUER = ''controlgraph-issuer''"
| "runtime_service_name SVC_EXECUTOR = ''controlgraph-executor''"
| "runtime_service_name SVC_RECOVERY = ''controlgraph-recovery''"
| "runtime_service_name SVC_VERIFIER = ''controlgraph-verifier''"
| "runtime_service_name SVC_EVIDENCE_WRITER = ''controlgraph-evidence-writer''"
| "runtime_service_name SVC_ADVISOR = ''controlgraph-advisor''"

definition EXECUTION_HANDLER_PATH :: string where
  "EXECUTION_HANDLER_PATH = ''/v1/internal/tasks/execute''"
definition RECOVERY_HANDLER_PATH :: string where
  "RECOVERY_HANDLER_PATH = ''/v1/internal/tasks/recover''"
definition RECEIPT_AUTHORITY_PATH :: string where
  "RECEIPT_AUTHORITY_PATH = ''/v1/internal/authority/receipts''"
definition RECOVERY_RECEIPT_AUTHORITY_PATH :: string where
  "RECOVERY_RECEIPT_AUTHORITY_PATH = ''/v1/internal/authority/recovery-receipts''"
definition RECOVERY_EXECUTION_FACADE_PATH :: string where
  "RECOVERY_EXECUTION_FACADE_PATH = ''/v1/internal/execute/recovery''"
definition TIMELINE_READ_PATH :: string where
  "TIMELINE_READ_PATH = ''/v1/operator/timeline''"
definition TIMELINE_RAW_EXPORT_PATH :: string where
  "TIMELINE_RAW_EXPORT_PATH = ''/v1/operator/timeline/raw-export''"
definition TIMELINE_RETENTION_PATH :: string where
  "TIMELINE_RETENTION_PATH = ''/v1/internal/timeline/retention''"

text \<open>The classification, health, verification and recovery-prestate evidence paths.\<close>

definition EVIDENCE_PATHS :: "string list" where
  "EVIDENCE_PATHS =
    [''/v1/internal/evidence/classifications/sign'', ''/v1/internal/evidence/health/attest'',
     ''/v1/internal/evidence/independent-verification/sign'',
     ''/v1/internal/evidence/recovery-prestate/attest'']"

fun protected_path :: "service_role \<Rightarrow> string" where
  "protected_path SVC_API = ''/v1/operator/commands''"
| "protected_path SVC_COORDINATOR = ''/v1/internal/coordinate''"
| "protected_path SVC_ISSUER = ''/v1/internal/issue''"
| "protected_path SVC_EXECUTOR = EXECUTION_HANDLER_PATH"
| "protected_path SVC_RECOVERY = RECOVERY_HANDLER_PATH"
| "protected_path SVC_VERIFIER = ''/v1/internal/verify''"
| "protected_path SVC_EVIDENCE_WRITER = ''/v1/internal/evidence/sign''"
| "protected_path SVC_ADVISOR = ''/v1/internal/advise''"

fun expected_route_caller_role :: "service_role \<Rightarrow> caller_role" where
  "expected_route_caller_role SVC_API = CALL_OPERATOR"
| "expected_route_caller_role SVC_COORDINATOR = CALL_API"
| "expected_route_caller_role SVC_EXECUTOR = CALL_EXECUTION_TASK_CALLER"
| "expected_route_caller_role SVC_RECOVERY = CALL_RECOVERY_TASK_CALLER"
| "expected_route_caller_role _ = CALL_COORDINATOR"

section \<open>Field formats\<close>

text \<open>\<open>^[1-9][0-9]{5,31}$\<close>, the shape of project numbers and Google subjects.\<close>

definition google_number :: "string \<Rightarrow> bool" where
  "google_number s \<longleftrightarrow>
     6 \<le> length s \<and> length s \<le> 32 \<and> list_all is_digit_char s \<and> hd s \<noteq> CHR ''0''"

definition local_char :: "char \<Rightarrow> bool" where
  "local_char c \<longleftrightarrow> lower_alnum c \<or> c \<in> set ''._%+-''"

definition domain_char :: "char \<Rightarrow> bool" where
  "domain_char c \<longleftrightarrow> lower_alnum c \<or> c \<in> set ''.-''"

text \<open>\<open>_EMAIL\<close>: no character class of the local part contains the separator.\<close>

definition is_email :: "string \<Rightarrow> bool" where
  "is_email s \<longleftrightarrow>
    (case split_at (CHR ''@'') s of
       (local, None) \<Rightarrow> False
     | (local, Some domain) \<Rightarrow>
         1 \<le> length local \<and> length local \<le> 64 \<and> lower_alnum (hd local) \<and> list_all local_char local
         \<and> 1 \<le> length domain \<and> length domain \<le> 253 \<and> lower_alnum (hd domain)
         \<and> lower_alnum (last domain) \<and> list_all domain_char domain)"

definition ends_with :: "string \<Rightarrow> string \<Rightarrow> bool" where
  "ends_with suffix s \<longleftrightarrow> length suffix \<le> length s \<and> drop (length s - length suffix) s = suffix"

definition validate_identity_project :: "string \<Rightarrow> check" where
  "validate_identity_project v =
     fails_if (\<not> controlgraph_project v) (ValueError ''project identity is invalid'')"

definition validate_project_number :: "string \<Rightarrow> check" where
  "validate_project_number v = fails_if (\<not> google_number v) (ValueError ''project number is invalid'')"

definition validate_subject :: "string \<Rightarrow> check" where
  "validate_subject v = fails_if (\<not> google_number v) (ValueError ''caller subject is invalid'')"

definition validate_email :: "string \<Rightarrow> check" where
  "validate_email v =
     checks
      [fails_if (length (encode_utf8 v) > 320) (ValueError ''caller email is invalid''),
       fails_if (list_ex (\<lambda>c. char_code c > 127) v) (ValueError ''caller email is invalid''),
       fails_if (\<not> is_email v) (ValueError ''caller email is invalid'')]"

definition validate_operator_email :: "string \<Rightarrow> check" where
  "validate_operator_email v =
     checks
      [validate_email v,
       fails_if (ends_with ''.iam.gserviceaccount.com'' v)
         (ValueError ''operator identity must be a human email'')]"

definition service_account_email :: "caller_role \<Rightarrow> string \<Rightarrow> string result" where
  "service_account_email role project_id =
    (case service_account_id role of
       None \<Rightarrow> Inl (ValueError ''caller role is not a workload identity'')
     | Some account \<Rightarrow> Inr (account @ ''@'' @ project_id @ ''.iam.gserviceaccount.com''))"

text \<open>\<open>^NAME-[1-9][0-9]{5,31}\.us-central1\.run\.app$\<close>.\<close>

definition service_hostname :: "string \<Rightarrow> string \<Rightarrow> bool" where
  "service_hostname name host \<longleftrightarrow>
     starts_with (name @ ''-'') host
     \<and> (let rest = drop (length name + 1) host in
         google_number (takeWhile is_digit_char rest)
         \<and> dropWhile is_digit_char rest = ''.us-central1.run.app'')"

definition service_audience :: "string \<Rightarrow> string \<Rightarrow> string" where
  "service_audience name number = ''https://'' @ name @ ''-'' @ number @ ''.us-central1.run.app''"

definition validate_route_audience :: "string \<Rightarrow> service_role \<Rightarrow> check" where
  "validate_route_audience v role =
    (let parsed = urlsplit v; hostname = url_hostname parsed in
     checks
      [fails_if (length (encode_utf8 v) > 2048) (ValueError ''route audience is invalid''),
       fails_if
         (up_scheme parsed \<noteq> ''https''
          \<or> (case hostname of
               None \<Rightarrow> True
             | Some host \<Rightarrow>
                 \<not> service_hostname (runtime_service_name role) host
                 \<or> up_netloc parsed \<noteq> host
                 \<or> v \<noteq> ''https://'' @ host)
          \<or> up_path parsed \<notin> {'''', ''/''}
          \<or> up_query parsed \<noteq> []
          \<or> up_fragment parsed \<noteq> []
          \<or> url_has_port parsed
          \<or> ends_with ''/'' v)
         (ValueError ''route audience is invalid'')])"

section \<open>Callers and routes\<close>

record caller_binding =
  cb_role :: caller_role
  cb_email :: string
  cb_subject :: string

definition validate_caller_binding :: "caller_binding \<Rightarrow> check" where
  "validate_caller_binding c = checks [validate_email (cb_email c), validate_subject (cb_subject c)]"

record route_policy =
  rp_project_id :: string
  rp_project_number :: string
  rp_service_role :: service_role
  rp_path :: string
  rp_audience :: string
  rp_caller :: caller_binding

datatype special_route =
    ReceiptAuthorityRoute | EvidenceRoute | RecoveryFacadeRoute | TimelineApiRoute
  | TimelineRetentionRoute

text \<open>
  The flags of \<open>__post_init__\<close>. Their services and paths are distinct, so at most one holds; the
  two receipt-authority flags and the four evidence flags are used only together.
\<close>

definition special_route_of :: "route_policy \<Rightarrow> special_route option" where
  "special_route_of p =
    (let role = rp_service_role p; path = rp_path p; caller = cb_role (rp_caller p) in
     if role = SVC_COORDINATOR \<and> path \<in> {RECEIPT_AUTHORITY_PATH, RECOVERY_RECEIPT_AUTHORITY_PATH}
     then Some ReceiptAuthorityRoute
     else if role = SVC_EVIDENCE_WRITER \<and> path \<in> set EVIDENCE_PATHS then Some EvidenceRoute
     else if role = SVC_EXECUTOR \<and> path = RECOVERY_EXECUTION_FACADE_PATH
     then Some RecoveryFacadeRoute
     else if role = SVC_API
        \<and> (path = TIMELINE_READ_PATH \<and> caller \<in> {CALL_OPERATOR, CALL_SECURITY_AUDITOR}
           \<or> path = TIMELINE_RAW_EXPORT_PATH \<and> caller = CALL_RESTRICTED_EXPORTER)
     then Some TimelineApiRoute
     else if role = SVC_COORDINATOR \<and> path = TIMELINE_RETENTION_PATH
     then Some TimelineRetentionRoute
     else None)"

definition route_caller_role :: "route_policy \<Rightarrow> caller_role" where
  "route_caller_role p =
    (case special_route_of p of
       Some ReceiptAuthorityRoute \<Rightarrow> CALL_EXECUTOR
     | Some RecoveryFacadeRoute \<Rightarrow> CALL_RECOVERY
     | Some TimelineApiRoute \<Rightarrow> cb_role (rp_caller p)
     | Some EvidenceRoute \<Rightarrow> CALL_VERIFIER
     | Some TimelineRetentionRoute \<Rightarrow> CALL_RETENTION_SWEEPER
     | None \<Rightarrow> expected_route_caller_role (rp_service_role p))"

definition validate_caller_email :: "route_policy \<Rightarrow> check" where
  "validate_caller_email p =
    (let caller = rp_caller p in
     if cb_role caller = CALL_OPERATOR then validate_operator_email (cb_email caller)
     else
       (case service_account_email (cb_role caller) (rp_project_id p) of
          Inl e \<Rightarrow> Some e
        | Inr email \<Rightarrow> fails_if (cb_email caller \<noteq> email)
            (ValueError ''caller email does not match its project role'')))"

definition validate_route_policy :: "route_policy \<Rightarrow> check" where
  "validate_route_policy p =
     checks
      [validate_identity_project (rp_project_id p),
       validate_project_number (rp_project_number p),
       fails_if (special_route_of p = None \<and> rp_path p \<noteq> protected_path (rp_service_role p))
         (ValueError ''protected path does not match the service role''),
       validate_route_audience (rp_audience p) (rp_service_role p),
       fails_if (rp_audience p
           \<noteq> service_audience (runtime_service_name (rp_service_role p)) (rp_project_number p))
         (ValueError ''route audience does not match its project coordinates''),
       fails_if (cb_role (rp_caller p) \<noteq> route_caller_role p)
         (ValueError ''caller role does not match the protected route''),
       validate_caller_email p]"

record authentication_context =
  ac_role :: caller_role
  ac_email :: string
  ac_subject :: string
  ac_issuer :: string
  ac_audience :: string
  ac_issued_at :: int
  ac_expires_at :: int
  ac_operator_session_nonce :: "string option"

section \<open>The policy of a running service\<close>

definition environment_value :: "(string \<rightharpoonup> string) \<Rightarrow> string \<Rightarrow> string" where
  "environment_value env key = (case env key of None \<Rightarrow> [] | Some v \<Rightarrow> py_strip v)"

definition ROUTE_ENVIRONMENT_KEYS :: "string list" where
  "ROUTE_ENVIRONMENT_KEYS =
    [''CONTROLGRAPH_PROJECT_ID'', ''CONTROLGRAPH_PROJECT_NUMBER'', ''CONTROLGRAPH_REGION'',
     ''CONTROLGRAPH_ROLE'', ''CONTROLGRAPH_AUTH_AUDIENCE'', ''CONTROLGRAPH_AUTH_CALLER_EMAIL'',
     ''CONTROLGRAPH_AUTH_CALLER_ROLE'', ''CONTROLGRAPH_AUTH_CALLER_SUBJECT'']"

definition check_environment ::
  "service_role \<Rightarrow> (string \<rightharpoonup> string) \<Rightarrow> caller_role option \<Rightarrow> check" where
  "check_environment role env caller_role =
    (let value = environment_value env;
         project_id = value ''CONTROLGRAPH_PROJECT_ID'';
         project_number = value ''CONTROLGRAPH_PROJECT_NUMBER'';
         caller_email = value ''CONTROLGRAPH_AUTH_CALLER_EMAIL'' in
     checks
      [fails_if (list_ex (\<lambda>key. value key = []) ROUTE_ENVIRONMENT_KEYS)
         (ValueError ''identity environment is incomplete''),
       validate_identity_project project_id,
       validate_project_number project_number,
       fails_if (value ''CONTROLGRAPH_REGION'' \<noteq> ''us-central1''
           \<or> value ''CONTROLGRAPH_ROLE'' \<noteq> service_role_value role)
         (ValueError ''identity service coordinates are invalid''),
       fails_if (caller_role = None) (ValueError ''identity caller role is invalid''),
       fails_if (caller_role \<noteq> Some (expected_route_caller_role role))
         (ValueError ''identity caller role does not match the protected route''),
       (if caller_role = Some CALL_OPERATOR then validate_operator_email caller_email
        else
          (case service_account_email (the caller_role) project_id of
             Inl e \<Rightarrow> Some e
           | Inr email \<Rightarrow> fails_if (caller_email \<noteq> email)
               (ValueError ''identity caller email does not match the protected route''))),
       fails_if (value ''CONTROLGRAPH_AUTH_AUDIENCE''
           \<noteq> ''https://'' @ runtime_service_name role @ ''-'' @ project_number @ ''.''
              @ value ''CONTROLGRAPH_REGION'' @ ''.run.app'')
         (ValueError ''identity audience does not match the service coordinates'')])"

definition runtime_route_policy :: "service_role \<Rightarrow> (string \<rightharpoonup> string) \<Rightarrow> route_policy result" where
  "runtime_route_policy role env =
    (let value = environment_value env;
         caller_role = map_of caller_roles (value ''CONTROLGRAPH_AUTH_CALLER_ROLE'') in
     case check_environment role env caller_role of
       Some e \<Rightarrow> Inl e
     | None \<Rightarrow>
         bindR (construct validate_caller_binding
           \<lparr>cb_role = the caller_role, cb_email = value ''CONTROLGRAPH_AUTH_CALLER_EMAIL'',
            cb_subject = value ''CONTROLGRAPH_AUTH_CALLER_SUBJECT''\<rparr>)
         (\<lambda>caller. construct validate_route_policy
           \<lparr>rp_project_id = value ''CONTROLGRAPH_PROJECT_ID'',
            rp_project_number = value ''CONTROLGRAPH_PROJECT_NUMBER'', rp_service_role = role,
            rp_path = protected_path role, rp_audience = value ''CONTROLGRAPH_AUTH_AUDIENCE'',
            rp_caller = caller\<rparr>))"

section \<open>What a valid policy fixes\<close>

lemma validate_route_policy_None:
  "validate_route_policy p = None \<Longrightarrow>
     cb_role (rp_caller p) = route_caller_role p
     \<and> rp_audience p = service_audience (runtime_service_name (rp_service_role p)) (rp_project_number p)
     \<and> (cb_role (rp_caller p) \<noteq> CALL_OPERATOR \<longrightarrow>
          service_account_email (cb_role (rp_caller p)) (rp_project_id p)
            = Inr (cb_email (rp_caller p)))"
  by (auto simp: validate_route_policy_def validate_caller_email_def Let_def split: sum.splits if_splits)

lemma executor_route_role:
  "validate_route_policy p = None \<Longrightarrow> rp_service_role p = SVC_EXECUTOR \<Longrightarrow>
     cb_role (rp_caller p)
       = (if rp_path p = RECOVERY_EXECUTION_FACADE_PATH then CALL_RECOVERY
          else CALL_EXECUTION_TASK_CALLER)"
  by (auto dest!: validate_route_policy_None simp: route_caller_role_def special_route_of_def Let_def)

lemma service_route_role:
  assumes "rp_service_role p = rp_service_role q" "rp_path p = rp_path q" "rp_service_role p \<noteq> SVC_API"
  shows "route_caller_role p = route_caller_role q"
  using assms by (simp add: route_caller_role_def special_route_of_def Let_def)

text \<open>
  outside the operator's own service a route has one caller: two valid policies for the same
  service, path and project accept the same role under the same service account, and a policy's
  audience names its own service and project number.
\<close>

theorem route_fixes_caller:
  assumes "validate_route_policy p = None" "validate_route_policy q = None"
    and "rp_service_role p = rp_service_role q" "rp_path p = rp_path q"
    and "rp_project_id p = rp_project_id q" "rp_service_role p \<noteq> SVC_API"
  shows "cb_role (rp_caller p) = cb_role (rp_caller q) \<and> cb_email (rp_caller p) = cb_email (rp_caller q)
    \<and> (rp_audience p = rp_audience q \<longleftrightarrow> rp_project_number p = rp_project_number q)"
proof -
  have role: "cb_role (rp_caller p) = cb_role (rp_caller q)"
    using validate_route_policy_None [OF assms(1)] validate_route_policy_None [OF assms(2)]
      service_route_role [OF assms(3,4,6)] by simp
  have "cb_role (rp_caller p) \<noteq> CALL_OPERATOR"
    using validate_route_policy_None [OF assms(1)] assms(6)
    by (cases "rp_service_role p")
      (auto simp: route_caller_role_def special_route_of_def Let_def split: if_splits)
  then have "Inr (cb_email (rp_caller p)) = (Inr (cb_email (rp_caller q)) :: string result)"
    using role validate_route_policy_None [OF assms(1)] validate_route_policy_None [OF assms(2)] assms(5)
    by metis
  with role validate_route_policy_None [OF assms(1)] validate_route_policy_None [OF assms(2)] assms(3)
  show ?thesis by (simp add: service_audience_def)
qed

definition sample_route :: "string \<Rightarrow> route_policy" where
  "sample_route subject =
     \<lparr>rp_project_id = ''controlgraph-canary-abc123'', rp_project_number = ''123456789012'',
      rp_service_role = SVC_EXECUTOR, rp_path = ''/v1/internal/tasks/execute'',
      rp_audience = ''https://controlgraph-executor-123456789012.us-central1.run.app'',
      rp_caller = \<lparr>cb_role = CALL_EXECUTION_TASK_CALLER,
        cb_email = ''cg-execution-task-caller@controlgraph-canary-abc123.iam.gserviceaccount.com'',
        cb_subject = subject\<rparr>\<rparr>"

lemma sample_route_valid: "validate_route_policy (sample_route s) = None"
  by code_simp

theorem route_fixes_caller_witness:
  "cb_role (rp_caller (sample_route ''100000000000000000001''))
      = cb_role (rp_caller (sample_route ''100000000000000000002''))
    \<and> rp_path (sample_route ''100000000000000000001'') = EXECUTION_HANDLER_PATH"
  using route_fixes_caller [OF sample_route_valid sample_route_valid,
      of "''100000000000000000001''" "''100000000000000000002''"]
  by (simp add: sample_route_def EXECUTION_HANDLER_PATH_def)

end
