(* ===== verification/Capability.thy ===== *)
theory Capability
  imports RolloutRecords Identity
begin

text \<open>
  Capabilities and the work they authorise (\<open>contracts/models.py\<close>): the claims a capability makes,
  the signed capability, the mutation intent, the task request that carries both, and the evidence
  event. Each has its field constraints, its after-validator and its canonical form. An \<open>Audience\<close> is
  split by the \<open>urlsplit\<close> of \<open>Identity\<close>; that the text between brackets is an IP address, which the
  standard library checks too, is not required here, so no audience of the source is refused.
\<close>

section \<open>Field types\<close>

text \<open>\<open>SplitResult.port\<close> is absent, or decimal digits of a port above 0.\<close>

definition port_admitted :: "string \<Rightarrow> bool" where
  "port_admitted port \<longleftrightarrow>
     port = [] \<or> (list_all is_digit_char port \<and> 1 \<le> digits_value port \<and> digits_value port \<le> 65535)"

definition is_audience_url :: "string \<Rightarrow> bool" where
  "is_audience_url s \<longleftrightarrow>
    (let u = urlsplit s; netloc = up_netloc u in
     up_scheme u = ''https'' \<and> url_hostname u \<noteq> None \<and> CHR ''@'' \<notin> set netloc
     \<and> up_query u = [] \<and> up_fragment u = []
     \<and> (CHR ''['' \<in> set netloc \<longleftrightarrow> CHR '']'' \<in> set netloc) \<and> port_admitted (snd (hostinfo netloc)))"

definition is_audience_text :: "string \<Rightarrow> bool" where
  "is_audience_text s \<longleftrightarrow> 9 \<le> length s \<and> length s \<le> 2048 \<and> is_audience_url s"

text \<open>\<open>str.split(sep)\<close> on one separator character.\<close>

fun split_on :: "char \<Rightarrow> string \<Rightarrow> string list" where
  "split_on sep [] = [[]]"
| "split_on sep (c # cs) =
     (if c = sep then [] # split_on sep cs
      else (case split_on sep cs of [] \<Rightarrow> [[c]] | x # xs \<Rightarrow> (c # x) # xs))"

definition key_name_char :: "char \<Rightarrow> bool" where
  "key_name_char c \<longleftrightarrow> alnum_char c \<or> c = CHR ''_'' \<or> c = CHR ''-''"

text \<open>\<open>[1-9][0-9]*\<close>.\<close>

definition is_key_number :: "string \<Rightarrow> bool" where
  "is_key_number s \<longleftrightarrow> s \<noteq> [] \<and> list_all is_digit_char s \<and> hd s \<noteq> CHR ''0''"

text \<open>No character class of the pattern contains the slash, so it splits the resource.\<close>

definition is_key_version_resource :: "string \<Rightarrow> bool" where
  "is_key_version_resource s \<longleftrightarrow>
     1 \<le> length s \<and> length s \<le> 512
     \<and> (case split_on (CHR ''/'') s of
          [l1, project, l2, location, l3, ring, l4, key, l5, version] \<Rightarrow>
            l1 = ''projects'' \<and> is_project_id project
            \<and> l2 = ''locations'' \<and> location \<noteq> [] \<and> list_all name_char location
            \<and> l3 = ''keyRings'' \<and> ring \<noteq> [] \<and> list_all key_name_char ring
            \<and> l4 = ''cryptoKeys'' \<and> key \<noteq> [] \<and> list_all key_name_char key
            \<and> l5 = ''cryptoKeyVersions'' \<and> is_key_number version
        | _ \<Rightarrow> False)"

definition is_base64url_text :: "string \<Rightarrow> bool" where
  "is_base64url_text s \<longleftrightarrow>
     1 \<le> length s \<and> length s \<le> 16384 \<and> list_all key_name_char s"

definition CAPABILITY_CLAIMS_V1 :: string where "CAPABILITY_CLAIMS_V1 = ''controlgraph.capability-claims/v1''"
definition SIGNED_CAPABILITY_V1 :: string where "SIGNED_CAPABILITY_V1 = ''controlgraph.signed-capability/v1''"
definition MUTATION_INTENT_V1 :: string where "MUTATION_INTENT_V1 = ''controlgraph.mutation-intent/v1''"
definition TASK_REQUEST_V1 :: string where "TASK_REQUEST_V1 = ''controlgraph.task-request/v1''"
definition EVIDENCE_EVENT_V1 :: string where "EVIDENCE_EVENT_V1 = ''controlgraph.evidence-event/v1''"

definition SIGNING_ALGORITHM :: string where "SIGNING_ALGORITHM = ''EC_SIGN_P256_SHA256''"

fun expected_traffic :: "capability_action \<Rightarrow> int \<times> int" where
  "expected_traffic AC_APPLY_CANARY = (90, 10)"
| "expected_traffic AC_PROMOTE_CANDIDATE = (0, 100)"
| "expected_traffic AC_RECOVER_STABLE = (100, 0)"

section \<open>Claims\<close>

record capability_claims =
  cc_capability_id :: string
  cc_issuer :: string
  cc_subject :: string
  cc_audience :: string
  cc_target :: target_binding
  cc_root_id :: string
  cc_root_sha256 :: string
  cc_epoch :: int
  cc_action :: capability_action
  cc_stable_revision :: string
  cc_candidate_revision :: string
  cc_stable_percent :: int
  cc_candidate_percent :: int
  cc_concurrency :: "int option"
  cc_plan_sha256 :: string
  cc_provider_etag :: string
  cc_request_id :: string
  cc_idempotency_key :: string
  cc_parent_capability_sha256 :: "string option"
  cc_issued_at :: string
  cc_not_before :: string
  cc_expires_at :: string
  cc_signing_algorithm :: string
  cc_signing_key_version :: string

definition is_concurrency :: "int \<Rightarrow> bool" where
  "is_concurrency i \<longleftrightarrow> 1 \<le> i \<and> i \<le> 1000"

definition validate_claims_fields :: "capability_claims \<Rightarrow> check" where
  "validate_claims_fields c =
     checks
      [field ''capability_id'' (is_identifier (cc_capability_id c)),
       field ''issuer'' (is_bounded_text (cc_issuer c)),
       field ''subject'' (is_bounded_text (cc_subject c)),
       field ''audience'' (is_audience_text (cc_audience c)),
       validate_target_binding (cc_target c),
       field ''root_id'' (is_identifier (cc_root_id c)),
       field ''root_sha256'' (is_sha256 (cc_root_sha256 c)),
       field ''epoch'' (positive_safe_integer (cc_epoch c)),
       field ''stable_revision'' (is_cloud_run_name (cc_stable_revision c)),
       field ''candidate_revision'' (is_cloud_run_name (cc_candidate_revision c)),
       field ''stable_percent'' (is_percent (cc_stable_percent c)),
       field ''candidate_percent'' (is_percent (cc_candidate_percent c)),
       field ''concurrency'' (pred_option is_concurrency (cc_concurrency c)),
       field ''plan_sha256'' (is_sha256 (cc_plan_sha256 c)),
       field ''provider_etag'' (is_opaque_token (cc_provider_etag c)),
       field ''request_id'' (is_identifier (cc_request_id c)),
       field ''idempotency_key'' (is_identifier (cc_idempotency_key c)),
       field ''parent_capability_sha256'' (pred_option is_sha256 (cc_parent_capability_sha256 c)),
       field ''issued_at'' (is_utc_second (cc_issued_at c)),
       field ''not_before'' (is_utc_second (cc_not_before c)),
       field ''expires_at'' (is_utc_second (cc_expires_at c)),
       field ''signing_algorithm'' (cc_signing_algorithm c = SIGNING_ALGORITHM),
       field ''signing_key_version'' (is_key_version_resource (cc_signing_key_version c))]"

text \<open>
  The timestamps are ordered as text; the lifetime is computed on the parsed ones, which exist
  because the fields were checked.
\<close>

definition utc_value :: "string \<Rightarrow> int" where
  "utc_value s = the (parse_utc_second s)"

definition validate_claim_bindings :: "capability_claims \<Rightarrow> check" where
  "validate_claim_bindings c =
     checks
      [fails_if (cc_stable_revision c = cc_candidate_revision c)
         (ValueError ''stable and candidate revisions must differ''),
       fails_if ((cc_stable_percent c, cc_candidate_percent c) \<noteq> expected_traffic (cc_action c))
         (ValueError ''traffic does not match the capability action''),
       fails_if (\<not> (cc_issued_at c \<le> cc_not_before c \<and> cc_not_before c < cc_expires_at c))
         (ValueError ''capability timestamps are not ordered''),
       fails_if (utc_value (cc_expires_at c) - utc_value (cc_issued_at c) > 900)
         (ValueError ''capability lifetime exceeds 900 seconds'')]"

definition validate_claims :: "capability_claims \<Rightarrow> check" where
  "validate_claims c = checks [validate_claims_fields c, validate_claim_bindings c]"

definition json_opt :: "('a \<Rightarrow> json) \<Rightarrow> 'a option \<Rightarrow> json" where
  "json_opt f x = (case x of None \<Rightarrow> JNull | Some v \<Rightarrow> f v)"

definition claims_json :: "capability_claims \<Rightarrow> json" where
  "claims_json c =
     JObj [(''schema_version'', JStr CAPABILITY_CLAIMS_V1), (''capability_id'', JStr (cc_capability_id c)),
           (''issuer'', JStr (cc_issuer c)), (''subject'', JStr (cc_subject c)),
           (''audience'', JStr (cc_audience c)), (''target'', target_binding_json (cc_target c)),
           (''root_id'', JStr (cc_root_id c)), (''root_sha256'', JStr (cc_root_sha256 c)),
           (''epoch'', JInt (cc_epoch c)), (''action'', JStr (capability_action_value (cc_action c))),
           (''stable_revision'', JStr (cc_stable_revision c)),
           (''candidate_revision'', JStr (cc_candidate_revision c)),
           (''stable_percent'', JInt (cc_stable_percent c)),
           (''candidate_percent'', JInt (cc_candidate_percent c)),
           (''concurrency'', json_opt JInt (cc_concurrency c)),
           (''plan_sha256'', JStr (cc_plan_sha256 c)), (''provider_etag'', JStr (cc_provider_etag c)),
           (''request_id'', JStr (cc_request_id c)), (''idempotency_key'', JStr (cc_idempotency_key c)),
           (''parent_capability_sha256'', json_opt JStr (cc_parent_capability_sha256 c)),
           (''issued_at'', JStr (cc_issued_at c)), (''not_before'', JStr (cc_not_before c)),
           (''expires_at'', JStr (cc_expires_at c)),
           (''signing_algorithm'', JStr (cc_signing_algorithm c)),
           (''signing_key_version'', JStr (cc_signing_key_version c))]"

definition claims_sha256_of :: "hexdigest \<Rightarrow> capability_claims \<Rightarrow> contract_error + string" where
  "claims_sha256_of hexdigest c = contract_sha256 hexdigest CAPABILITY_CLAIMS_V1 (claims_json c)"

record signed_capability =
  sg_claims :: capability_claims
  sg_claims_sha256 :: string
  sg_signature :: string

definition validate_signed_capability :: "hexdigest \<Rightarrow> signed_capability \<Rightarrow> check" where
  "validate_signed_capability hexdigest s =
     checks
      [validate_claims (sg_claims s),
       field ''claims_sha256'' (is_sha256 (sg_claims_sha256 s)),
       field ''signature'' (is_base64url_text (sg_signature s)),
       (case claims_sha256_of hexdigest (sg_claims s) of
          Inl e \<Rightarrow> Some (contract_invalid e)
        | Inr digest \<Rightarrow> fails_if (digest \<noteq> sg_claims_sha256 s)
            (ValueError ''claims digest does not match canonical claims''))]"

definition signed_capability_json :: "signed_capability \<Rightarrow> json" where
  "signed_capability_json s =
     JObj [(''schema_version'', JStr SIGNED_CAPABILITY_V1), (''claims'', claims_json (sg_claims s)),
           (''claims_sha256'', JStr (sg_claims_sha256 s)), (''signature'', JStr (sg_signature s))]"

section \<open>Intents and tasks\<close>

record mutation_intent =
  mi_request_id :: string
  mi_idempotency_key :: string
  mi_target :: target_binding
  mi_root_id :: string
  mi_root_sha256 :: string
  mi_epoch :: int
  mi_action :: capability_action
  mi_stable_revision :: string
  mi_candidate_revision :: string
  mi_stable_percent :: int
  mi_candidate_percent :: int
  mi_concurrency :: "int option"
  mi_plan_sha256 :: string
  mi_provider_etag :: string

definition validate_intent :: "mutation_intent \<Rightarrow> check" where
  "validate_intent i =
     checks
      [field ''request_id'' (is_identifier (mi_request_id i)),
       field ''idempotency_key'' (is_identifier (mi_idempotency_key i)),
       validate_target_binding (mi_target i),
       field ''root_id'' (is_identifier (mi_root_id i)),
       field ''root_sha256'' (is_sha256 (mi_root_sha256 i)),
       field ''epoch'' (positive_safe_integer (mi_epoch i)),
       field ''stable_revision'' (is_cloud_run_name (mi_stable_revision i)),
       field ''candidate_revision'' (is_cloud_run_name (mi_candidate_revision i)),
       field ''stable_percent'' (is_percent (mi_stable_percent i)),
       field ''candidate_percent'' (is_percent (mi_candidate_percent i)),
       field ''concurrency'' (pred_option is_concurrency (mi_concurrency i)),
       field ''plan_sha256'' (is_sha256 (mi_plan_sha256 i)),
       field ''provider_etag'' (is_opaque_token (mi_provider_etag i)),
       fails_if (mi_stable_revision i = mi_candidate_revision i)
         (ValueError ''stable and candidate revisions must differ''),
       fails_if ((mi_stable_percent i, mi_candidate_percent i) \<noteq> expected_traffic (mi_action i))
         (ValueError ''traffic does not match the mutation action'')]"

definition mutation_intent_json :: "mutation_intent \<Rightarrow> json" where
  "mutation_intent_json i =
     JObj [(''schema_version'', JStr MUTATION_INTENT_V1), (''request_id'', JStr (mi_request_id i)),
           (''idempotency_key'', JStr (mi_idempotency_key i)),
           (''target'', target_binding_json (mi_target i)), (''root_id'', JStr (mi_root_id i)),
           (''root_sha256'', JStr (mi_root_sha256 i)), (''epoch'', JInt (mi_epoch i)),
           (''action'', JStr (capability_action_value (mi_action i))),
           (''stable_revision'', JStr (mi_stable_revision i)),
           (''candidate_revision'', JStr (mi_candidate_revision i)),
           (''stable_percent'', JInt (mi_stable_percent i)),
           (''candidate_percent'', JInt (mi_candidate_percent i)),
           (''concurrency'', json_opt JInt (mi_concurrency i)),
           (''plan_sha256'', JStr (mi_plan_sha256 i)), (''provider_etag'', JStr (mi_provider_etag i))]"

record task_request =
  tr_task_id :: string
  tr_queue_region :: string
  tr_handler_audience :: string
  tr_scheduled_at :: string
  tr_expires_at :: string
  tr_capability :: signed_capability
  tr_intent :: mutation_intent

text \<open>The intent a capability's claims stand for.\<close>

definition claims_intent :: "capability_claims \<Rightarrow> mutation_intent" where
  "claims_intent c =
     \<lparr>mi_request_id = cc_request_id c, mi_idempotency_key = cc_idempotency_key c,
      mi_target = cc_target c, mi_root_id = cc_root_id c, mi_root_sha256 = cc_root_sha256 c,
      mi_epoch = cc_epoch c, mi_action = cc_action c, mi_stable_revision = cc_stable_revision c,
      mi_candidate_revision = cc_candidate_revision c, mi_stable_percent = cc_stable_percent c,
      mi_candidate_percent = cc_candidate_percent c, mi_concurrency = cc_concurrency c,
      mi_plan_sha256 = cc_plan_sha256 c, mi_provider_etag = cc_provider_etag c\<rparr>"

definition validate_task_fields :: "hexdigest \<Rightarrow> task_request \<Rightarrow> check" where
  "validate_task_fields hexdigest t =
     checks
      [field ''task_id'' (is_identifier (tr_task_id t)),
       field ''queue_region'' (is_region (tr_queue_region t)),
       field ''handler_audience'' (is_audience_text (tr_handler_audience t)),
       field ''scheduled_at'' (is_utc_second (tr_scheduled_at t)),
       field ''expires_at'' (is_utc_second (tr_expires_at t)),
       validate_signed_capability hexdigest (tr_capability t),
       validate_intent (tr_intent t)]"

definition validate_task_bindings :: "task_request \<Rightarrow> check" where
  "validate_task_bindings t =
    (let claims = sg_claims (tr_capability t); intent = tr_intent t in
     checks
      [fails_if (tr_handler_audience t \<noteq> cc_audience claims)
         (ValueError ''task audience does not match capability audience''),
       fails_if (\<not> (cc_not_before claims \<le> tr_scheduled_at t \<and> tr_scheduled_at t < tr_expires_at t
           \<and> tr_expires_at t \<le> cc_expires_at claims))
         (ValueError ''task timestamps exceed the capability window''),
       fails_if (cc_action claims = AC_PROMOTE_CANDIDATE \<and> tr_scheduled_at t \<noteq> cc_not_before claims)
         (ValueError ''promotion schedule does not match capability not-before''),
       fails_if
         (cc_target claims \<noteq> mi_target intent
          \<or> cc_root_id claims \<noteq> mi_root_id intent
          \<or> cc_root_sha256 claims \<noteq> mi_root_sha256 intent
          \<or> cc_epoch claims \<noteq> mi_epoch intent
          \<or> cc_action claims \<noteq> mi_action intent
          \<or> cc_stable_revision claims \<noteq> mi_stable_revision intent
          \<or> cc_candidate_revision claims \<noteq> mi_candidate_revision intent
          \<or> cc_stable_percent claims \<noteq> mi_stable_percent intent
          \<or> cc_candidate_percent claims \<noteq> mi_candidate_percent intent
          \<or> cc_concurrency claims \<noteq> mi_concurrency intent
          \<or> cc_plan_sha256 claims \<noteq> mi_plan_sha256 intent
          \<or> cc_provider_etag claims \<noteq> mi_provider_etag intent
          \<or> cc_request_id claims \<noteq> mi_request_id intent
          \<or> cc_idempotency_key claims \<noteq> mi_idempotency_key intent)
         (ValueError ''task intent does not match capability claims'')])"

definition validate_task_request :: "hexdigest \<Rightarrow> task_request \<Rightarrow> check" where
  "validate_task_request hexdigest t =
     checks [validate_task_fields hexdigest t, validate_task_bindings t]"

definition task_request_json :: "task_request \<Rightarrow> json" where
  "task_request_json t =
     JObj [(''schema_version'', JStr TASK_REQUEST_V1), (''task_id'', JStr (tr_task_id t)),
           (''queue_region'', JStr (tr_queue_region t)),
           (''handler_audience'', JStr (tr_handler_audience t)),
           (''scheduled_at'', JStr (tr_scheduled_at t)), (''expires_at'', JStr (tr_expires_at t)),
           (''capability'', signed_capability_json (tr_capability t)),
           (''intent'', mutation_intent_json (tr_intent t))]"

section \<open>Evidence events\<close>

datatype evidence_kind =
    EK_ROOT_CREATED | EK_CAPABILITY_ISSUED | EK_EPOCH_ADVANCED | EK_DELIVERY_AUTHENTICATED
  | EK_CAPABILITY_VERIFIED | EK_RECEIPT_CLAIMED | EK_MUTATION_APPLIED | EK_TARGET_VERIFIED
  | EK_EXECUTION_DENIED | EK_OUTCOME_AMBIGUOUS

fun evidence_kind_value :: "evidence_kind \<Rightarrow> string" where
  "evidence_kind_value EK_ROOT_CREATED = ''ROOT_CREATED''"
| "evidence_kind_value EK_CAPABILITY_ISSUED = ''CAPABILITY_ISSUED''"
| "evidence_kind_value EK_EPOCH_ADVANCED = ''EPOCH_ADVANCED''"
| "evidence_kind_value EK_DELIVERY_AUTHENTICATED = ''DELIVERY_AUTHENTICATED''"
| "evidence_kind_value EK_CAPABILITY_VERIFIED = ''CAPABILITY_VERIFIED''"
| "evidence_kind_value EK_RECEIPT_CLAIMED = ''RECEIPT_CLAIMED''"
| "evidence_kind_value EK_MUTATION_APPLIED = ''MUTATION_APPLIED''"
| "evidence_kind_value EK_TARGET_VERIFIED = ''TARGET_VERIFIED''"
| "evidence_kind_value EK_EXECUTION_DENIED = ''EXECUTION_DENIED''"
| "evidence_kind_value EK_OUTCOME_AMBIGUOUS = ''OUTCOME_AMBIGUOUS''"

fun reason_code_value :: "reason_code \<Rightarrow> string" where
  "reason_code_value RC_CONTRACT_INVALID = ''CONTRACT_INVALID''"
| "reason_code_value RC_CONTRACT_VERSION_UNSUPPORTED = ''CONTRACT_VERSION_UNSUPPORTED''"
| "reason_code_value RC_CALLER_UNAUTHENTICATED = ''CALLER_UNAUTHENTICATED''"
| "reason_code_value RC_CALLER_UNAUTHORIZED = ''CALLER_UNAUTHORIZED''"
| "reason_code_value RC_SIGNATURE_INVALID = ''SIGNATURE_INVALID''"
| "reason_code_value RC_KEY_VERSION_UNTRUSTED = ''KEY_VERSION_UNTRUSTED''"
| "reason_code_value RC_CAPABILITY_EXPIRED = ''CAPABILITY_EXPIRED''"
| "reason_code_value RC_CAPABILITY_NOT_YET_VALID = ''CAPABILITY_NOT_YET_VALID''"
| "reason_code_value RC_CLAIM_BINDING_MISMATCH = ''CLAIM_BINDING_MISMATCH''"
| "reason_code_value RC_TARGET_BINDING_MISMATCH = ''TARGET_BINDING_MISMATCH''"
| "reason_code_value RC_LINEAGE_INVALID = ''LINEAGE_INVALID''"
| "reason_code_value RC_SCOPE_AMPLIFICATION = ''SCOPE_AMPLIFICATION''"
| "reason_code_value RC_AUTHORITY_UNAVAILABLE = ''AUTHORITY_UNAVAILABLE''"
| "reason_code_value RC_EPOCH_MISMATCH = ''EPOCH_MISMATCH''"
| "reason_code_value RC_IDEMPOTENCY_CONFLICT = ''IDEMPOTENCY_CONFLICT''"
| "reason_code_value RC_RECEIPT_IN_PROGRESS = ''RECEIPT_IN_PROGRESS''"
| "reason_code_value RC_TRANSPORT_UNAVAILABLE = ''TRANSPORT_UNAVAILABLE''"
| "reason_code_value RC_PROVIDER_PRECONDITION_FAILED = ''PROVIDER_PRECONDITION_FAILED''"
| "reason_code_value RC_PROVIDER_REQUEST_REJECTED = ''PROVIDER_REQUEST_REJECTED''"
| "reason_code_value RC_PROVIDER_OUTCOME_AMBIGUOUS = ''PROVIDER_OUTCOME_AMBIGUOUS''"
| "reason_code_value RC_TRANSITION_INVALID = ''TRANSITION_INVALID''"
| "reason_code_value RC_POLICY_UNHEALTHY = ''POLICY_UNHEALTHY''"

record evidence_event =
  ev_evidence_id :: string
  ev_sequence :: int
  ev_root_id :: string
  ev_root_sha256 :: string
  ev_target :: target_binding
  ev_epoch :: int
  ev_kind :: evidence_kind
  ev_actor :: string
  ev_request_id :: "string option"
  ev_receipt_id :: "string option"
  ev_occurred_at :: string
  ev_subject_sha256 :: string
  ev_previous_event_sha256 :: "string option"
  ev_reason_code :: "reason_code option"
  ev_provider_operation :: "string option"
  ev_target_configuration_sha256 :: "string option"

definition validate_event_fields :: "evidence_event \<Rightarrow> check" where
  "validate_event_fields e =
     checks
      [field ''evidence_id'' (is_identifier (ev_evidence_id e)),
       field ''sequence'' (nonneg_safe_integer (ev_sequence e)),
       field ''root_id'' (is_identifier (ev_root_id e)),
       field ''root_sha256'' (is_sha256 (ev_root_sha256 e)),
       validate_target_binding (ev_target e),
       field ''epoch'' (positive_safe_integer (ev_epoch e)),
       field ''actor'' (is_bounded_text (ev_actor e)),
       field ''request_id'' (pred_option is_identifier (ev_request_id e)),
       field ''receipt_id'' (pred_option is_identifier (ev_receipt_id e)),
       field ''occurred_at'' (is_utc_second (ev_occurred_at e)),
       field ''subject_sha256'' (is_sha256 (ev_subject_sha256 e)),
       field ''previous_event_sha256'' (pred_option is_sha256 (ev_previous_event_sha256 e)),
       field ''provider_operation'' (pred_option is_bounded_text (ev_provider_operation e)),
       field ''target_configuration_sha256'' (pred_option is_sha256 (ev_target_configuration_sha256 e))]"

definition validate_event_shape :: "evidence_event \<Rightarrow> check" where
  "validate_event_shape e =
     checks
      [fails_if ((ev_sequence e = 0) \<noteq> (ev_previous_event_sha256 e = None))
         (ValueError ''evidence chain predecessor does not match sequence''),
       fails_if (ev_kind e = EK_EXECUTION_DENIED \<and> ev_reason_code e = None)
         (ValueError ''denial evidence requires a reason''),
       fails_if (ev_kind e \<noteq> EK_EXECUTION_DENIED \<and> ev_reason_code e \<noteq> None)
         (ValueError ''non-denial evidence cannot carry a denial reason''),
       fails_if (ev_kind e = EK_MUTATION_APPLIED \<and> ev_provider_operation e = None)
         (ValueError ''mutation evidence requires a provider operation''),
       fails_if (ev_kind e = EK_TARGET_VERIFIED \<and> ev_target_configuration_sha256 e = None)
         (ValueError ''verification evidence requires a target configuration digest'')]"

definition validate_evidence_event :: "evidence_event \<Rightarrow> check" where
  "validate_evidence_event e = checks [validate_event_fields e, validate_event_shape e]"

definition evidence_event_json :: "evidence_event \<Rightarrow> json" where
  "evidence_event_json e =
     JObj [(''schema_version'', JStr EVIDENCE_EVENT_V1), (''evidence_id'', JStr (ev_evidence_id e)),
           (''sequence'', JInt (ev_sequence e)), (''root_id'', JStr (ev_root_id e)),
           (''root_sha256'', JStr (ev_root_sha256 e)), (''target'', target_binding_json (ev_target e)),
           (''epoch'', JInt (ev_epoch e)), (''kind'', JStr (evidence_kind_value (ev_kind e))),
           (''actor'', JStr (ev_actor e)), (''request_id'', json_opt JStr (ev_request_id e)),
           (''receipt_id'', json_opt JStr (ev_receipt_id e)), (''occurred_at'', JStr (ev_occurred_at e)),
           (''subject_sha256'', JStr (ev_subject_sha256 e)),
           (''previous_event_sha256'', json_opt JStr (ev_previous_event_sha256 e)),
           (''reason_code'', json_opt (\<lambda>r. JStr (reason_code_value r)) (ev_reason_code e)),
           (''provider_operation'', json_opt JStr (ev_provider_operation e)),
           (''target_configuration_sha256'', json_opt JStr (ev_target_configuration_sha256 e))]"

section \<open>What the validators establish\<close>

lemma task_bindings_None:
  "validate_task_bindings t = None \<longleftrightarrow>
     (let claims = sg_claims (tr_capability t) in
      tr_handler_audience t = cc_audience claims \<and> tr_intent t = claims_intent claims
      \<and> cc_not_before claims \<le> tr_scheduled_at t \<and> tr_scheduled_at t < tr_expires_at t
      \<and> tr_expires_at t \<le> cc_expires_at claims
      \<and> (cc_action claims = AC_PROMOTE_CANDIDATE \<longrightarrow> tr_scheduled_at t = cc_not_before claims))"
  by (cases "tr_intent t") (auto simp: validate_task_bindings_def claims_intent_def Let_def)

lemma validate_claims_times:
  assumes "validate_claims c = None"
  obtains i n x where "parse_utc_second (cc_issued_at c) = Some i" "parse_utc_second (cc_not_before c) = Some n"
    "parse_utc_second (cc_expires_at c) = Some x" "i \<le> n" "n < x" "x - i \<le> 900"
proof -
  from assms have valid: "is_utc_second (cc_issued_at c)" "is_utc_second (cc_not_before c)"
    "is_utc_second (cc_expires_at c)"
    and order: "cc_issued_at c \<le> cc_not_before c" "cc_not_before c < cc_expires_at c"
      "utc_value (cc_expires_at c) - utc_value (cc_issued_at c) \<le> 900"
    by (auto simp: validate_claims_def validate_claims_fields_def validate_claim_bindings_def)
  from valid obtain i n x where p: "parse_utc_second (cc_issued_at c) = Some i"
      "parse_utc_second (cc_not_before c) = Some n" "parse_utc_second (cc_expires_at c) = Some x"
    by (auto simp: is_utc_second_parses)
  with order show thesis
    by (intro that [of i n x])
      (auto simp: utc_value_def text_order_is_time_order linorder_not_less [symmetric])
qed

end
