(* ===== verification/Signing.thy ===== *)
theory Signing
  imports Capability Base64Url
begin

text \<open>
  Purpose-sealed signatures, \<open>application/signing.py\<close>: signing profiles over one KMS key, the
  input that is signed, the trust bundle and the verification of a detached signature. The
  \<open>cryptography\<close> package is outside the repository: whether a text is the canonical PEM of a P-256
  key, and whether a signature is a canonical DER signature of a digest under it, are the
  arguments \<open>p256_key\<close> and \<open>p256_verifies\<close>. A digest is kept as its hexadecimal text.
\<close>

section \<open>Purposes, states and failures\<close>

datatype signing_purpose = SP_CAPABILITY | SP_EVIDENCE

fun signing_purpose_value :: "signing_purpose \<Rightarrow> string" where
  "signing_purpose_value SP_CAPABILITY = ''CAPABILITY''"
| "signing_purpose_value SP_EVIDENCE = ''EVIDENCE''"

datatype signing_key_state = SK_ENABLED | SK_DISABLED

datatype signing_error_code =
    SE_PROFILE_INVALID | SE_PURPOSE_MISMATCH | SE_PAYLOAD_VERSION_MISMATCH | SE_KEY_VERSION_MISMATCH
  | SE_KEY_VERSION_UNTRUSTED | SE_KEY_VERSION_DISABLED | SE_ALGORITHM_MISMATCH | SE_DIGEST_MISMATCH
  | SE_CRC_MISMATCH | SE_PUBLIC_KEY_INVALID | SE_TRUST_BUNDLE_INVALID | SE_SIGNATURE_INVALID
  | SE_PROVIDER_FAILURE

text \<open>A \<open>SigningError\<close>, or the \<open>ContractError\<close> of a payload outside the canonical form.\<close>

datatype signing_failure = SigningError signing_error_code | SigningContract contract_error

type_synonym 'a signing = "signing_failure + 'a"

definition signing_fails :: "bool \<Rightarrow> signing_error_code \<Rightarrow> signing_failure option" where
  "signing_fails b code = (if b then Some (SigningError code) else None)"

text \<open>Failures of any kind are sequenced alike; later modules reuse these.\<close>

fun first_failure :: "'e option list \<Rightarrow> 'e option" where
  "first_failure [] = None"
| "first_failure (c # cs) = (case c of None \<Rightarrow> first_failure cs | Some e \<Rightarrow> Some e)"

definition bindS :: "'e + 'a \<Rightarrow> ('a \<Rightarrow> 'e + 'b) \<Rightarrow> 'e + 'b" where
  "bindS r f = (case r of Inl e \<Rightarrow> Inl e | Inr x \<Rightarrow> f x)"

definition guardS :: "'e option \<Rightarrow> 'e + 'a \<Rightarrow> 'e + 'a" where
  "guardS c r = (case c of None \<Rightarrow> r | Some e \<Rightarrow> Inl e)"

definition SIGNATURE_INPUT_V1 :: string where "SIGNATURE_INPUT_V1 = ''controlgraph.signature-input/v1''"
definition DETACHED_SIGNATURE_V1 :: string where
  "DETACHED_SIGNATURE_V1 = ''controlgraph.detached-signature/v1''"
definition SIGNING_DOMAIN :: bytes where
  "SIGNING_DOMAIN = ascii_bytes ''controlgraph.signature-input/v1'' @ [0]"
definition MAX_TRUST_ENTRIES :: nat where "MAX_TRUST_ENTRIES = 32"
definition MAX_PUBLIC_KEY_PEM_BYTES :: nat where "MAX_PUBLIC_KEY_PEM_BYTES = 1024"

fun purpose_payload_version :: "signing_purpose \<Rightarrow> string" where
  "purpose_payload_version SP_CAPABILITY = CAPABILITY_CLAIMS_V1"
| "purpose_payload_version SP_EVIDENCE = EVIDENCE_EVENT_V1"

section \<open>Key resources\<close>

fun join_on :: "string \<Rightarrow> string list \<Rightarrow> string" where
  "join_on sep [] = []"
| "join_on sep [x] = x"
| "join_on sep (x # y # ys) = x @ sep @ join_on sep (y # ys)"

definition signing_key_segments :: "string list \<Rightarrow> bool" where
  "signing_key_segments parts \<longleftrightarrow>
    (case parts of
       [l1, project, l2, location, l3, ring, l4, key] \<Rightarrow>
         l1 = ''projects'' \<and> controlgraph_project project
         \<and> l2 = ''locations'' \<and> location = ''us-central1''
         \<and> l3 = ''keyRings'' \<and> ring = ''controlgraph-signing''
         \<and> l4 = ''cryptoKeys'' \<and> key \<in> {''capability-signing'', ''evidence-signing''}
     | _ \<Rightarrow> False)"

text \<open>\<open>_KEY_VERSION\<close>: the key resource and the version number.\<close>

definition parse_key_version :: "string \<Rightarrow> (string \<times> nat) signing" where
  "parse_key_version s =
    (let parts = split_on (CHR ''/'') s in
     if length parts = 10 \<and> signing_key_segments (take 8 parts) \<and> parts ! 8 = ''cryptoKeyVersions''
        \<and> is_key_number (parts ! 9)
     then Inr (join_on ''/'' (take 8 parts), digits_value (parts ! 9))
     else Inl (SigningError SE_PROFILE_INVALID))"

text \<open>\<open>_KEY_RESOURCE\<close>: the project and the key name.\<close>

definition parse_key_resource :: "string \<Rightarrow> (string \<times> string) signing" where
  "parse_key_resource s =
    (let parts = split_on (CHR ''/'') s in
     if signing_key_segments parts then Inr (parts ! 1, parts ! 7)
     else Inl (SigningError SE_PROFILE_INVALID))"

fun purpose_key_name :: "signing_purpose \<Rightarrow> string" where
  "purpose_key_name SP_CAPABILITY = ''capability-signing''"
| "purpose_key_name SP_EVIDENCE = ''evidence-signing''"

definition validate_purpose_key :: "signing_purpose \<Rightarrow> string \<Rightarrow> signing_failure option" where
  "validate_purpose_key purpose key_resource =
    (case parse_key_resource key_resource of
       Inl e \<Rightarrow> Some e
     | Inr (_, key_name) \<Rightarrow> signing_fails (key_name \<noteq> purpose_key_name purpose) SE_PROFILE_INVALID)"

section \<open>Profiles\<close>

text \<open>The algorithm and the payload version of a profile are fixed by its class and its purpose.\<close>

record signing_profile =
  pf_purpose :: signing_purpose
  pf_project_id :: string
  pf_key_version :: string

definition validate_signing_profile :: "signing_profile \<Rightarrow> signing_failure option" where
  "validate_signing_profile p =
    (if \<not> controlgraph_project (pf_project_id p) then Some (SigningError SE_PROFILE_INVALID)
     else
       (case bindS (parse_key_version (pf_key_version p))
           (\<lambda>(key_resource, _). bindS (parse_key_resource key_resource)
             (\<lambda>(key_project, _). Inr (key_resource, key_project))) of
          Inl e \<Rightarrow> Some e
        | Inr (key_resource, key_project) \<Rightarrow>
            first_failure
             [signing_fails (key_project \<noteq> pf_project_id p) SE_PROFILE_INVALID,
              validate_purpose_key (pf_purpose p) key_resource]))"

definition capability_signing_profile :: "string \<Rightarrow> string \<Rightarrow> signing_profile signing" where
  "capability_signing_profile project_id key_version =
    (let p = \<lparr>pf_purpose = SP_CAPABILITY, pf_project_id = project_id, pf_key_version = key_version\<rparr> in
     guardS (validate_signing_profile p) (Inr p))"

record verification_profile =
  vf_purpose :: signing_purpose
  vf_project_id :: string
  vf_key_resource :: string

definition validate_verification_profile :: "verification_profile \<Rightarrow> signing_failure option" where
  "validate_verification_profile p =
    (if \<not> controlgraph_project (vf_project_id p) then Some (SigningError SE_PROFILE_INVALID)
     else
       (case parse_key_resource (vf_key_resource p) of
          Inl e \<Rightarrow> Some e
        | Inr (key_project, _) \<Rightarrow>
            first_failure
             [signing_fails (key_project \<noteq> vf_project_id p) SE_PROFILE_INVALID,
              validate_purpose_key (vf_purpose p) (vf_key_resource p)]))"

section \<open>What is signed\<close>

datatype signing_payload = ClaimsPayload capability_claims | EventPayload evidence_event

fun payload_version :: "signing_payload \<Rightarrow> string" where
  "payload_version (ClaimsPayload _) = CAPABILITY_CLAIMS_V1"
| "payload_version (EventPayload _) = EVIDENCE_EVENT_V1"

fun payload_target :: "signing_payload \<Rightarrow> target_binding" where
  "payload_target (ClaimsPayload c) = cc_target c"
| "payload_target (EventPayload e) = ev_target e"

fun payload_json :: "signing_payload \<Rightarrow> json" where
  "payload_json (ClaimsPayload c) = claims_json c"
| "payload_json (EventPayload e) = evidence_event_json e"

text \<open>
  \<open>_validate_payload\<close>; the two kinds of profile differ in how a capability's key version is matched,
  which is the argument \<open>key_matches\<close>.
\<close>

definition validate_payload ::
  "signing_purpose \<Rightarrow> string \<Rightarrow> (string \<Rightarrow> bool) \<Rightarrow> signing_payload \<Rightarrow> signing_failure option" where
  "validate_payload purpose project_id key_matches payload =
     first_failure
      [signing_fails (payload_version payload \<noteq> purpose_payload_version purpose)
         SE_PAYLOAD_VERSION_MISMATCH,
       signing_fails (tb_project_id (payload_target payload) \<noteq> project_id
           \<or> tb_region (payload_target payload) \<noteq> ''us-central1'')
         SE_KEY_VERSION_MISMATCH,
       (case (purpose, payload) of
          (SP_CAPABILITY, ClaimsPayload c) \<Rightarrow>
            first_failure
             [signing_fails (\<not> key_matches (cc_signing_key_version c)) SE_KEY_VERSION_MISMATCH,
              signing_fails (cc_signing_algorithm c \<noteq> SIGNING_ALGORITHM) SE_ALGORITHM_MISMATCH]
        | (SP_EVIDENCE, EventPayload e) \<Rightarrow> None
        | _ \<Rightarrow> Some (SigningError SE_PURPOSE_MISMATCH))]"

definition signing_header :: "signing_purpose \<Rightarrow> string \<Rightarrow> json" where
  "signing_header purpose key_version =
     JObj [(''algorithm'', JStr SIGNING_ALGORITHM), (''key_version'', JStr key_version),
           (''payload_version'', JStr (purpose_payload_version purpose)),
           (''purpose'', JStr (signing_purpose_value purpose)),
           (''schema_version'', JStr SIGNATURE_INPUT_V1)]"

record signing_input =
  si_payload_sha256 :: string
  si_digest_sha256 :: string

text \<open>The canonical payload and the bytes that are hashed for the signature.\<close>

definition signing_material ::
  "signing_purpose \<Rightarrow> string \<Rightarrow> signing_payload \<Rightarrow> (bytes \<times> bytes) signing" where
  "signing_material purpose key_version payload =
    (case canonical_json_value_bytes (payload_json payload) of
       Inl e \<Rightarrow> Inl (SigningContract e)
     | Inr canonical \<Rightarrow>
         (case canonical_json_value_bytes (signing_header purpose key_version) of
            Inl e \<Rightarrow> Inl (SigningContract e)
          | Inr header \<Rightarrow> Inr (canonical, SIGNING_DOMAIN @ header @ [0] @ canonical)))"

definition hash_signing_input ::
  "hexdigest \<Rightarrow> signing_purpose \<Rightarrow> string \<Rightarrow> signing_payload \<Rightarrow> signing_input signing" where
  "hash_signing_input hexdigest purpose key_version payload =
     bindS (signing_material purpose key_version payload)
     (\<lambda>(canonical, material). Inr
       \<lparr>si_payload_sha256 = hexdigest canonical, si_digest_sha256 = hexdigest material\<rparr>)"

definition build_signing_input ::
  "hexdigest \<Rightarrow> signing_profile \<Rightarrow> signing_payload \<Rightarrow> signing_input signing" where
  "build_signing_input hexdigest p payload =
     guardS (validate_payload (pf_purpose p) (pf_project_id p) (\<lambda>v. v = pf_key_version p) payload)
       (hash_signing_input hexdigest (pf_purpose p) (pf_key_version p) payload)"

definition key_resource_matches :: "string \<Rightarrow> string \<Rightarrow> bool" where
  "key_resource_matches key_resource key_version \<longleftrightarrow>
    (case parse_key_version key_version of Inl _ \<Rightarrow> False | Inr (r, _) \<Rightarrow> r = key_resource)"

definition build_verification_input ::
  "hexdigest \<Rightarrow> verification_profile \<Rightarrow> string \<Rightarrow> signing_payload \<Rightarrow> signing_input signing" where
  "build_verification_input hexdigest p key_version payload =
     guardS (first_failure
       [validate_payload (vf_purpose p) (vf_project_id p) (key_resource_matches (vf_key_resource p)) payload,
        (case payload of
           ClaimsPayload c \<Rightarrow> signing_fails (cc_signing_key_version c \<noteq> key_version) SE_KEY_VERSION_MISMATCH
         | EventPayload _ \<Rightarrow> None)])
       (hash_signing_input hexdigest (vf_purpose p) key_version payload)"

record detached_signature =
  ds_schema_version :: string
  ds_purpose :: signing_purpose
  ds_key_version :: string
  ds_algorithm :: string
  ds_payload_version :: string
  ds_payload_sha256 :: string
  ds_digest_sha256 :: string
  ds_signature :: string

text \<open>
  \<open>PurposeSealedSigner.sign\<close>; the backend's \<open>sign_digest\<close> is the argument \<open>sign_digest\<close>.
\<close>

definition purpose_sealed_sign ::
  "hexdigest \<Rightarrow> (string \<Rightarrow> bytes) \<Rightarrow> signing_profile \<Rightarrow> signing_payload \<Rightarrow> detached_signature signing" where
  "purpose_sealed_sign hexdigest sign_digest p payload =
     bindS (build_signing_input hexdigest p payload)
     (\<lambda>input.
       let signature = sign_digest (si_digest_sha256 input) in
       if signature = [] \<or> length signature > 256 then Inl (SigningError SE_SIGNATURE_INVALID)
       else
         Inr \<lparr>ds_schema_version = DETACHED_SIGNATURE_V1, ds_purpose = pf_purpose p,
              ds_key_version = pf_key_version p, ds_algorithm = SIGNING_ALGORITHM,
              ds_payload_version = purpose_payload_version (pf_purpose p),
              ds_payload_sha256 = si_payload_sha256 input, ds_digest_sha256 = si_digest_sha256 input,
              ds_signature = encode_base64url signature\<rparr>)"

section \<open>Trust bundles\<close>

record trust_bundle_entry =
  te_purpose :: signing_purpose
  te_key_version :: string
  te_algorithm :: string
  te_payload_version :: string
  te_state :: signing_key_state
  te_public_key_pem :: string
  te_public_key_sha256 :: string

definition load_p256_public_key :: "(string \<Rightarrow> bool) \<Rightarrow> string \<Rightarrow> signing_failure option" where
  "load_p256_public_key p256_key pem =
     first_failure
      [signing_fails (list_ex (\<lambda>c. char_code c > 127) pem) SE_PUBLIC_KEY_INVALID,
       signing_fails (pem = [] \<or> length pem > MAX_PUBLIC_KEY_PEM_BYTES \<or> CHR 0x0D \<in> set pem)
         SE_PUBLIC_KEY_INVALID,
       signing_fails (\<not> p256_key pem) SE_PUBLIC_KEY_INVALID]"

text \<open>The local variables of the loop over the entries.\<close>

record trust_scan =
  ts_versions :: "string list"
  ts_projects :: "string list"
  ts_resources :: "(signing_purpose \<times> string) list"
  ts_public_keys :: "(signing_purpose \<times> string) list"

definition scan_trust_entry ::
  "hexdigest \<Rightarrow> (string \<Rightarrow> bool) \<Rightarrow> trust_scan \<Rightarrow> trust_bundle_entry \<Rightarrow> trust_scan signing" where
  "scan_trust_entry hexdigest p256_key scan entry =
    (if te_key_version entry \<in> set (ts_versions scan) then Inl (SigningError SE_TRUST_BUNDLE_INVALID)
     else
       (case bindS (parse_key_version (te_key_version entry))
           (\<lambda>(key_resource, _). bindS (parse_key_resource key_resource)
             (\<lambda>(project, _). guardS (validate_purpose_key (te_purpose entry) key_resource)
               (Inr (key_resource, project)))) of
          Inl _ \<Rightarrow> Inl (SigningError SE_TRUST_BUNDLE_INVALID)
        | Inr (key_resource, project) \<Rightarrow>
            guardS (first_failure
              [signing_fails (te_algorithm entry \<noteq> SIGNING_ALGORITHM) SE_ALGORITHM_MISMATCH,
               signing_fails (te_payload_version entry \<noteq> purpose_payload_version (te_purpose entry))
                 SE_PAYLOAD_VERSION_MISMATCH,
               load_p256_public_key p256_key (te_public_key_pem entry),
               signing_fails (hexdigest (ascii_bytes (te_public_key_pem entry))
                   \<noteq> te_public_key_sha256 entry) SE_DIGEST_MISMATCH,
               signing_fails
                 (case map_of (ts_resources scan) (te_purpose entry) of
                    None \<Rightarrow> False | Some r \<Rightarrow> r \<noteq> key_resource) SE_TRUST_BUNDLE_INVALID])
            (Inr \<lparr>ts_versions = te_key_version entry # ts_versions scan,
                  ts_projects = project # ts_projects scan,
                  ts_resources = (if map_of (ts_resources scan) (te_purpose entry) = None
                     then (te_purpose entry, key_resource) # ts_resources scan
                     else ts_resources scan),
                  ts_public_keys =
                    (te_purpose entry, te_public_key_sha256 entry) # ts_public_keys scan\<rparr>)))"

fun scan_trust_entries ::
  "hexdigest \<Rightarrow> (string \<Rightarrow> bool) \<Rightarrow> trust_scan \<Rightarrow> trust_bundle_entry list \<Rightarrow> trust_scan signing" where
  "scan_trust_entries hexdigest p256_key scan [] = Inr scan"
| "scan_trust_entries hexdigest p256_key scan (e # es) =
     bindS (scan_trust_entry hexdigest p256_key scan e)
       (\<lambda>scan. scan_trust_entries hexdigest p256_key scan es)"

definition purpose_keys :: "trust_scan \<Rightarrow> signing_purpose \<Rightarrow> string list" where
  "purpose_keys scan purpose =
     map snd (filter (\<lambda>(p, _). p = purpose) (ts_public_keys scan))"

definition check_trust_scan :: "trust_scan \<Rightarrow> signing_failure option" where
  "check_trust_scan scan =
     first_failure
      [signing_fails (length (remdups (ts_projects scan)) \<noteq> 1) SE_TRUST_BUNDLE_INVALID,
       signing_fails
         (map_of (ts_resources scan) SP_CAPABILITY \<noteq> None
          \<and> map_of (ts_resources scan) SP_CAPABILITY = map_of (ts_resources scan) SP_EVIDENCE)
         SE_TRUST_BUNDLE_INVALID,
       signing_fails
         (list_ex (\<lambda>k. k \<in> set (purpose_keys scan SP_EVIDENCE)) (purpose_keys scan SP_CAPABILITY))
         SE_TRUST_BUNDLE_INVALID]"

text \<open>
  \<open>__post_init__\<close>: the entries are kept sorted by purpose and key version, neither of which contains
  the separator.
\<close>

definition trust_bundle ::
  "hexdigest \<Rightarrow> (string \<Rightarrow> bool) \<Rightarrow> trust_bundle_entry list \<Rightarrow> trust_bundle_entry list signing" where
  "trust_bundle hexdigest p256_key entries =
    (if entries = [] \<or> length entries > MAX_TRUST_ENTRIES
     then Inl (SigningError SE_TRUST_BUNDLE_INVALID)
     else
       bindS (scan_trust_entries hexdigest p256_key
          \<lparr>ts_versions = [], ts_projects = [], ts_resources = [], ts_public_keys = []\<rparr> entries)
       (\<lambda>scan. guardS (check_trust_scan scan)
         (Inr (sort_key (\<lambda>e. (signing_purpose_value (te_purpose e)) @ [CHR 0x00] @ te_key_version e)
            entries))))"

definition trust_entry :: "trust_bundle_entry list \<Rightarrow> string \<Rightarrow> trust_bundle_entry option" where
  "trust_entry entries key_version = find (\<lambda>e. te_key_version e = key_version) entries"

section \<open>Verification\<close>

definition check_detached ::
  "verification_profile \<Rightarrow> trust_bundle_entry list \<Rightarrow> detached_signature \<Rightarrow> trust_bundle_entry signing" where
  "check_detached p entries d =
     guardS (first_failure
       [signing_fails (ds_schema_version d \<noteq> DETACHED_SIGNATURE_V1) SE_SIGNATURE_INVALID,
        signing_fails (ds_purpose d \<noteq> vf_purpose p) SE_PURPOSE_MISMATCH,
        signing_fails (ds_algorithm d \<noteq> SIGNING_ALGORITHM) SE_ALGORITHM_MISMATCH,
        signing_fails (ds_payload_version d \<noteq> purpose_payload_version (vf_purpose p))
          SE_PAYLOAD_VERSION_MISMATCH,
        signing_fails (\<not> key_resource_matches (vf_key_resource p) (ds_key_version d))
          SE_KEY_VERSION_UNTRUSTED])
     (case trust_entry entries (ds_key_version d) of
        None \<Rightarrow> Inl (SigningError SE_KEY_VERSION_UNTRUSTED)
      | Some entry \<Rightarrow>
          guardS (first_failure
            [signing_fails (te_purpose entry \<noteq> vf_purpose p) SE_KEY_VERSION_UNTRUSTED,
             signing_fails (te_state entry \<noteq> SK_ENABLED) SE_KEY_VERSION_DISABLED,
             signing_fails (te_algorithm entry \<noteq> ds_algorithm d
                 \<or> te_payload_version entry \<noteq> ds_payload_version d) SE_TRUST_BUNDLE_INVALID])
          (Inr entry))"

definition verify_detached ::
  "hexdigest \<Rightarrow> (string \<Rightarrow> bool) \<Rightarrow> (string \<Rightarrow> bytes \<Rightarrow> string \<Rightarrow> bool) \<Rightarrow> verification_profile
    \<Rightarrow> trust_bundle_entry list \<Rightarrow> signing_payload \<Rightarrow> detached_signature \<Rightarrow> signing_failure option" where
  "verify_detached hexdigest p256_key p256_verifies p entries payload d =
    (case bindS (check_detached p entries d)
       (\<lambda>entry. bindS (build_verification_input hexdigest p (ds_key_version d) payload)
         (\<lambda>expected. Inr (entry, expected))) of
       Inl e \<Rightarrow> Some e
     | Inr (entry, expected) \<Rightarrow>
         first_failure
          [signing_fails (\<not> is_sha256 (ds_payload_sha256 d)
               \<or> si_payload_sha256 expected \<noteq> ds_payload_sha256 d) SE_DIGEST_MISMATCH,
           signing_fails (\<not> is_sha256 (ds_digest_sha256 d)
               \<or> si_digest_sha256 expected \<noteq> ds_digest_sha256 d) SE_DIGEST_MISMATCH,
           (case decode_base64url 256 (ds_signature d) of
              Inl _ \<Rightarrow> Some (SigningError SE_SIGNATURE_INVALID)
            | Inr signature \<Rightarrow>
                signing_fails
                  (load_p256_public_key p256_key (te_public_key_pem entry) \<noteq> None
                   \<or> \<not> p256_verifies (te_public_key_pem entry) signature (si_digest_sha256 expected))
                  SE_SIGNATURE_INVALID)])"

section \<open>Reading an outcome back\<close>

lemma first_failure_None [simp]: "first_failure cs = None \<longleftrightarrow> (\<forall>c \<in> set cs. c = None)"
  by (induction cs) (auto split: option.splits)

declare first_failure.simps [simp del]

lemma signing_fails_None [simp]: "signing_fails b c = None \<longleftrightarrow> \<not> b"
  by (simp add: signing_fails_def)

lemma bindS_Inr: "bindS r f = Inr y \<longleftrightarrow> (\<exists>x. r = Inr x \<and> f x = Inr y)"
  by (cases r) (auto simp: bindS_def)

lemma guardS_Inr [simp]: "guardS c r = Inr y \<longleftrightarrow> c = None \<and> r = Inr y"
  by (cases c) (auto simp: guardS_def)

end
