(* ===== verification/RootRecords.thy ===== *)
theory RootRecords
  imports Identity Signing
begin

text \<open>
  The content-addressed rollout root, \<open>contracts/root_creation.py\<close>: health policy, plan, action
  grants, authority bounds and the content they form, the root that is named by the digest of its
  content, and the lineage anchor projected from it. Versions 2 and 3 of the content differ only in
  the health policy they embed, so one record holds both and the policy's constructor tells the
  version; the two classes and their validators are otherwise the same text. Version 2 of the policy
  has literal fields only and is one fixed value.
\<close>

definition ROLLOUT_HEALTH_POLICY_V1 :: string where
  "ROLLOUT_HEALTH_POLICY_V1 = ''controlgraph.rollout-health-policy/v1''"
definition ROLLOUT_HEALTH_POLICY_V2 :: string where
  "ROLLOUT_HEALTH_POLICY_V2 = ''controlgraph.rollout-health-policy/v2''"
definition ROLLOUT_PLAN_V1 :: string where "ROLLOUT_PLAN_V1 = ''controlgraph.rollout-plan/v1''"
definition ROOT_ACTION_GRANT_V1 :: string where
  "ROOT_ACTION_GRANT_V1 = ''controlgraph.root-action-grant/v1''"
definition ROOT_AUTHORITY_BOUNDS_V1 :: string where
  "ROOT_AUTHORITY_BOUNDS_V1 = ''controlgraph.root-authority-bounds/v1''"
definition ROLLOUT_ROOT_CONTENT_V2 :: string where
  "ROLLOUT_ROOT_CONTENT_V2 = ''controlgraph.rollout-root-content/v2''"
definition ROLLOUT_ROOT_CONTENT_V3 :: string where
  "ROLLOUT_ROOT_CONTENT_V3 = ''controlgraph.rollout-root-content/v3''"
definition CAPABILITY_LINEAGE_ANCHOR_V1 :: string where
  "CAPABILITY_LINEAGE_ANCHOR_V1 = ''controlgraph.capability-lineage-anchor/v1''"

section \<open>Identities and names\<close>

definition validate_root_target :: "target_binding \<Rightarrow> check" where
  "validate_root_target t =
     fails_if
      (\<not> controlgraph_project (tb_project_id t) \<or> contains_text ''reconcile'' (tb_project_id t)
       \<or> tb_region t \<noteq> ''us-central1'' \<or> tb_environment t \<noteq> ''nonprod''
       \<or> tb_service_name t \<noteq> ''controlgraph-reference-target'')
      (ValueError ''rollout root target is outside the dedicated ControlGraph boundary'')"

text \<open>\<open>_ROLE_IDENTITY\<close>: the role and the project of a workload identity.\<close>

definition role_identity :: "string \<Rightarrow> (string \<times> string) option" where
  "role_identity identity =
    (let suffix = ''.iam.gserviceaccount.com'' in
     case split_at (CHR ''@'') identity of
       (local, Some domain) \<Rightarrow>
         (if local \<in> {''controlgraph-issuer'', ''controlgraph-executor'', ''controlgraph-recovery''}
             \<and> ends_with suffix domain
             \<and> controlgraph_project (take (length domain - length suffix) domain)
          then Some (drop (length ''controlgraph-'') local, take (length domain - length suffix) domain)
          else None)
     | (_, None) \<Rightarrow> None)"

definition validate_role_identity :: "string \<Rightarrow> string \<Rightarrow> string \<Rightarrow> check" where
  "validate_role_identity identity role project_id =
     fails_if
      (case role_identity identity of
         None \<Rightarrow> True
       | Some (matched_role, matched_project) \<Rightarrow> matched_role \<noteq> role \<or> matched_project \<noteq> project_id)
      (ValueError ''root authority role identity is not exact'')"

definition validate_operator_identity :: "string \<Rightarrow> check" where
  "validate_operator_identity identity =
     fails_if
      (\<not> is_email identity \<or> ends_with ''.iam.gserviceaccount.com'' (map lower_ascii identity))
      (ValueError ''root operator identity must be one human email'')"

definition validate_service_audience :: "string \<Rightarrow> string \<Rightarrow> check" where
  "validate_service_audience audience role =
    (let parsed = urlsplit audience; hostname = or_else (url_hostname parsed) [] in
     fails_if
      (up_scheme parsed \<noteq> ''https''
       \<or> up_netloc parsed \<noteq> hostname
       \<or> \<not> service_hostname (''controlgraph-'' @ role) hostname
       \<or> up_path parsed \<notin> {'''', ''/''}
       \<or> up_query parsed \<noteq> []
       \<or> up_fragment parsed \<noteq> []
       \<or> url_has_port parsed
       \<or> ends_with ''/'' audience)
      (ValueError ''root authority audience is not exact''))"

text \<open>\<open>hostname.rsplit("-", 1)[-1].split(".", 1)[0]\<close>: what follows the last hyphen, up to a dot.\<close>

definition audience_project_number :: "string \<Rightarrow> string" where
  "audience_project_number audience =
    (let hostname = or_else (url_hostname (urlsplit audience)) [] in
     fst (split_at (CHR ''.'') (rev (takeWhile (\<lambda>c. c \<noteq> CHR ''-'') (rev hostname)))))"

definition validate_signing_key :: "string \<Rightarrow> string \<Rightarrow> string \<Rightarrow> check" where
  "validate_signing_key key_version project_id key_name =
    (let prefix = ''projects/'' @ project_id
           @ ''/locations/us-central1/keyRings/controlgraph-signing/cryptoKeys/'' @ key_name
           @ ''/cryptoKeyVersions/'' in
     fails_if (\<not> (starts_with prefix key_version \<and> is_key_number (drop (length prefix) key_version)))
       (ValueError ''signing key version is outside its exact purpose boundary''))"

section \<open>Health policies\<close>

record rollout_health_policy_v1 =
  p1_evaluation_window_seconds :: int
  p1_minimum_request_count :: int
  p1_maximum_error_rate_basis_points :: int
  p1_maximum_p95_latency_ms :: int
  p1_minimum_probe_count :: int
  p1_minimum_probe_success_basis_points :: int
  p1_healthy_consecutive_windows :: int
  p1_unhealthy_consecutive_windows :: int

definition validate_rollout_health_policy_v1 :: "rollout_health_policy_v1 \<Rightarrow> check" where
  "validate_rollout_health_policy_v1 p =
     checks
      [field ''evaluation_window_seconds''
         (1 \<le> p1_evaluation_window_seconds p \<and> p1_evaluation_window_seconds p \<le> 86400),
       field ''minimum_request_count'' (positive_safe_integer (p1_minimum_request_count p)),
       field ''maximum_error_rate_basis_points''
         (0 \<le> p1_maximum_error_rate_basis_points p \<and> p1_maximum_error_rate_basis_points p \<le> 10000),
       field ''maximum_p95_latency_ms'' (positive_safe_integer (p1_maximum_p95_latency_ms p)),
       field ''minimum_probe_count'' (positive_safe_integer (p1_minimum_probe_count p)),
       field ''minimum_probe_success_basis_points''
         (0 \<le> p1_minimum_probe_success_basis_points p \<and> p1_minimum_probe_success_basis_points p \<le> 10000),
       field ''healthy_consecutive_windows''
         (1 \<le> p1_healthy_consecutive_windows p \<and> p1_healthy_consecutive_windows p \<le> 64),
       field ''unhealthy_consecutive_windows''
         (1 \<le> p1_unhealthy_consecutive_windows p \<and> p1_unhealthy_consecutive_windows p \<le> 64)]"

definition rollout_health_policy_v1_json :: "rollout_health_policy_v1 \<Rightarrow> json" where
  "rollout_health_policy_v1_json p =
     JObj [(''schema_version'', JStr ROLLOUT_HEALTH_POLICY_V1),
           (''input_schema_version'', JStr ''controlgraph.health-input/v1''),
           (''evaluation_window_seconds'', JInt (p1_evaluation_window_seconds p)),
           (''minimum_request_count'', JInt (p1_minimum_request_count p)),
           (''maximum_error_rate_basis_points'', JInt (p1_maximum_error_rate_basis_points p)),
           (''maximum_p95_latency_ms'', JInt (p1_maximum_p95_latency_ms p)),
           (''minimum_probe_count'', JInt (p1_minimum_probe_count p)),
           (''minimum_probe_success_basis_points'', JInt (p1_minimum_probe_success_basis_points p)),
           (''healthy_consecutive_windows'', JInt (p1_healthy_consecutive_windows p)),
           (''unhealthy_consecutive_windows'', JInt (p1_unhealthy_consecutive_windows p)),
           (''window_semantics'', JStr ''HALF_OPEN_START_INCLUSIVE_END_EXCLUSIVE''),
           (''incomplete_data_action'', JStr ''INDETERMINATE_NO_MUTATION''),
           (''late_data_action'', JStr ''INDETERMINATE_NO_MUTATION''),
           (''duplicate_data_action'', JStr ''REJECT'')]"

definition rollout_health_policy_v2_json :: json where
  "rollout_health_policy_v2_json =
     JObj [(''schema_version'', JStr ''controlgraph.rollout-health-policy/v2''),
           (''observation_schema_version'', JStr ''controlgraph.monitoring-window-observation/v1''),
           (''decision_schema_version'', JStr ''controlgraph.health-decision/v1''),
           (''monitored_resource_type'', JStr ''cloud_run_revision''),
           (''request_count_metric_type'', JStr ''run.googleapis.com/request_count''),
           (''successful_response_code_class'', JStr ''2xx''),
           (''server_error_response_code_class'', JStr ''5xx''),
           (''latency_metric_type'', JStr ''run.googleapis.com/request_latencies''),
           (''request_unit'', JStr ''1''), (''latency_unit'', JStr ''ms''),
           (''latency_source_conversion'', JStr ''IEEE_754_BINARY64_MILLISECONDS_TO_INTEGER_MICROSECONDS_TIES_TO_EVEN''),
           (''alignment_period_seconds'', JInt 60),
           (''request_per_series_aligner'', JStr ''ALIGN_SUM''),
           (''request_cross_series_reducer'', JStr ''REDUCE_SUM''),
           (''request_group_by_field'', JStr ''metric.labels.response_code_class''),
           (''total_request_definition'', JStr ''SUM_1XX_2XX_3XX_4XX_5XX''),
           (''availability_definition'', JStr ''SUCCESSFUL_2XX_OVER_TOTAL_REQUESTS''),
           (''server_error_rate_definition'', JStr ''SERVER_ERROR_5XX_OVER_TOTAL_REQUESTS''),
           (''latency_definition'', JStr ''MERGED_DISTRIBUTION_PERCENTILE_95''),
           (''latency_primary_per_series_aligner'', JStr ''ALIGN_SUM''),
           (''latency_primary_cross_series_reducer'', JStr ''REDUCE_SUM''),
           (''latency_secondary_per_series_aligner'', JStr ''ALIGN_PERCENTILE_95''),
           (''latency_secondary_cross_series_reducer'', JStr ''REDUCE_NONE''),
           (''latency_secondary_output_metric_kind'', JStr ''GAUGE''),
           (''latency_secondary_output_value_type'', JStr ''DOUBLE''),
           (''latency_rounding'', JStr ''CEILING_TO_INTEGER_MILLISECOND''),
           (''configuration_name_source'', JStr ''TARGET_SERVICE_NAME''),
           (''route_filter'', JStr ''''),
           (''provider_interval_semantics'', JStr ''START_EXCLUSIVE_END_INCLUSIVE''),
           (''page_size'', JInt 1000), (''view'', JStr ''FULL''), (''order_by'', JNull),
           (''window_seconds'', JInt 60),
           (''window_semantics'', JStr ''HALF_OPEN_START_INCLUSIVE_END_EXCLUSIVE''),
           (''observation_delay_seconds'', JInt 180),
           (''maximum_observation_delay_seconds'', JInt 360), (''minimum_request_count'', JInt 100),
           (''healthy_maximum_error_rate_basis_points'', JInt 100),
           (''unhealthy_minimum_error_rate_basis_points'', JInt 500),
           (''healthy_maximum_p95_latency_ms'', JInt 500),
           (''unhealthy_minimum_p95_latency_ms'', JInt 1000),
           (''healthy_minimum_availability_basis_points'', JInt 9900),
           (''unhealthy_maximum_availability_basis_points'', JInt 9500),
           (''error_rate_rounding'', JStr ''CEILING_BASIS_POINTS''),
           (''availability_rate_rounding'', JStr ''FLOOR_BASIS_POINTS''),
           (''healthy_consecutive_windows'', JInt 2), (''unhealthy_consecutive_windows'', JInt 2),
           (''maximum_windows'', JInt 10), (''early_observation_action'', JStr ''WAIT''),
           (''missing_observation_action'', JStr ''INSUFFICIENT_EVIDENCE''),
           (''partial_observation_action'', JStr ''INSUFFICIENT_EVIDENCE''),
           (''late_observation_action'', JStr ''INSUFFICIENT_EVIDENCE''),
           (''malformed_observation_action'', JStr ''INSUFFICIENT_EVIDENCE''),
           (''unknown_response_code_class_action'', JStr ''INSUFFICIENT_EVIDENCE''),
           (''identical_duplicate_action'', JStr ''DEDUPLICATE_BY_SAMPLE_SHA256''),
           (''conflicting_duplicate_action'', JStr ''INSUFFICIENT_EVIDENCE''),
           (''sample_set_digest_domain'', JStr ''controlgraph.monitoring-sample-set/v1''),
           (''sample_set_digest_algorithm'', JStr ''SHA256_DOMAIN_NUL_UINT16_COUNT_ORDERED_32_BYTE_DIGESTS''),
           (''out_of_order_action'', JStr ''INSUFFICIENT_EVIDENCE''),
           (''boundary_sample_action'', JStr ''INCLUDE_START_EXCLUDE_END'')]"

datatype root_health_policy = HealthPolicyV1 rollout_health_policy_v1 | HealthPolicyV2

definition validate_root_health_policy :: "root_health_policy \<Rightarrow> check" where
  "validate_root_health_policy p =
    (case p of HealthPolicyV1 q \<Rightarrow> validate_rollout_health_policy_v1 q | HealthPolicyV2 \<Rightarrow> None)"

fun health_policy_json :: "root_health_policy \<Rightarrow> json" where
  "health_policy_json (HealthPolicyV1 p) = rollout_health_policy_v1_json p"
| "health_policy_json HealthPolicyV2 = rollout_health_policy_v2_json"

fun health_policy_version :: "root_health_policy \<Rightarrow> string" where
  "health_policy_version (HealthPolicyV1 _) = ROLLOUT_HEALTH_POLICY_V1"
| "health_policy_version HealthPolicyV2 = ROLLOUT_HEALTH_POLICY_V2"

section \<open>Plan, grants and bounds\<close>

record rollout_plan =
  pl_target :: target_binding
  pl_stable_snapshot_sha256 :: string
  pl_stable_revision :: string
  pl_stable_revision_configuration_sha256 :: string
  pl_candidate_revision :: string
  pl_candidate_revision_configuration_sha256 :: string
  pl_concurrency :: int
  pl_health_policy_sha256 :: string

text \<open>\<open>stable_percent\<close>, \<open>candidate_percent\<close>, \<open>maximum_recovery_attempts\<close> and \<open>initial_epoch\<close> are
  the literals 90, 10, 1 and 1.\<close>

definition validate_rollout_plan :: "rollout_plan \<Rightarrow> check" where
  "validate_rollout_plan p =
    (let prefix = tb_service_name (pl_target p) @ ''-'' in
     checks
      [validate_target_binding (pl_target p),
       field ''stable_snapshot_sha256'' (is_sha256 (pl_stable_snapshot_sha256 p)),
       field ''stable_revision'' (is_cloud_run_name (pl_stable_revision p)),
       field ''stable_revision_configuration_sha256''
         (is_sha256 (pl_stable_revision_configuration_sha256 p)),
       field ''candidate_revision'' (is_cloud_run_name (pl_candidate_revision p)),
       field ''candidate_revision_configuration_sha256''
         (is_sha256 (pl_candidate_revision_configuration_sha256 p)),
       field ''concurrency'' (is_concurrency (pl_concurrency p)),
       field ''health_policy_sha256'' (is_sha256 (pl_health_policy_sha256 p)),
       validate_root_target (pl_target p),
       fails_if
         (pl_stable_revision p = pl_candidate_revision p
          \<or> \<not> starts_with prefix (pl_stable_revision p)
          \<or> \<not> starts_with prefix (pl_candidate_revision p))
         (ValueError ''rollout plan revisions must be distinct and target-bound'')])"

definition rollout_plan_json :: "rollout_plan \<Rightarrow> json" where
  "rollout_plan_json p =
     JObj [(''schema_version'', JStr ROLLOUT_PLAN_V1), (''target'', target_binding_json (pl_target p)),
           (''stable_snapshot_sha256'', JStr (pl_stable_snapshot_sha256 p)),
           (''stable_revision'', JStr (pl_stable_revision p)),
           (''stable_revision_configuration_sha256'',
              JStr (pl_stable_revision_configuration_sha256 p)),
           (''candidate_revision'', JStr (pl_candidate_revision p)),
           (''candidate_revision_configuration_sha256'',
              JStr (pl_candidate_revision_configuration_sha256 p)),
           (''concurrency'', JInt (pl_concurrency p)), (''stable_percent'', JInt 90),
           (''candidate_percent'', JInt 10), (''health_policy_sha256'', JStr (pl_health_policy_sha256 p)),
           (''maximum_recovery_attempts'', JInt 1), (''initial_epoch'', JInt 1)]"

record root_action_grant =
  ag_action :: capability_action
  ag_subject_identity :: string
  ag_audience :: string
  ag_stable_percent :: int
  ag_candidate_percent :: int
  ag_maximum_attempts :: "int option"

fun closed_action :: "capability_action \<Rightarrow> int \<times> int \<times> int option" where
  "closed_action AC_APPLY_CANARY = (90, 10, None)"
| "closed_action AC_PROMOTE_CANDIDATE = (0, 100, None)"
| "closed_action AC_RECOVER_STABLE = (100, 0, Some 1)"

definition validate_root_action_grant :: "root_action_grant \<Rightarrow> check" where
  "validate_root_action_grant g =
     checks
      [field ''subject_identity'' (is_bounded_text (ag_subject_identity g)),
       field ''audience'' (is_audience_text (ag_audience g)),
       field ''stable_percent'' (is_percent (ag_stable_percent g)),
       field ''candidate_percent'' (is_percent (ag_candidate_percent g)),
       field ''maximum_attempts'' (ag_maximum_attempts g \<in> {None, Some 1}),
       fails_if
         ((ag_stable_percent g, ag_candidate_percent g, ag_maximum_attempts g)
            \<noteq> closed_action (ag_action g))
         (ValueError ''root action grant exceeds its closed action boundary'')]"

definition root_action_grant_json :: "root_action_grant \<Rightarrow> json" where
  "root_action_grant_json g =
     JObj [(''schema_version'', JStr ROOT_ACTION_GRANT_V1),
           (''action'', JStr (capability_action_value (ag_action g))),
           (''subject_identity'', JStr (ag_subject_identity g)), (''audience'', JStr (ag_audience g)),
           (''stable_percent'', JInt (ag_stable_percent g)),
           (''candidate_percent'', JInt (ag_candidate_percent g)),
           (''maximum_attempts'', json_opt JInt (ag_maximum_attempts g))]"

record root_authority_bounds =
  ab_target :: target_binding
  ab_stable_revision :: string
  ab_stable_revision_configuration_sha256 :: string
  ab_candidate_revision :: string
  ab_candidate_revision_configuration_sha256 :: string
  ab_concurrency :: int
  ab_plan_sha256 :: string
  ab_capability_signing_key_version :: string
  ab_issuer_identity :: string
  ab_executor_identity :: string
  ab_recovery_identity :: string
  ab_executor_audience :: string
  ab_recovery_audience :: string
  ab_maximum_capability_lifetime_seconds :: int
  ab_apply_canary :: root_action_grant
  ab_promote_candidate :: root_action_grant
  ab_recover_stable :: root_action_grant

definition grant_is_exact :: "root_action_grant \<Rightarrow> capability_action \<Rightarrow> string \<Rightarrow> string \<Rightarrow> check" where
  "grant_is_exact g action identity audience =
     fails_if (ag_action g \<noteq> action \<or> ag_subject_identity g \<noteq> identity \<or> ag_audience g \<noteq> audience)
       (ValueError ''root action grant identity or audience is not exact'')"

definition validate_closed_bounds :: "root_authority_bounds \<Rightarrow> check" where
  "validate_closed_bounds b =
    (let project_id = tb_project_id (ab_target b) in
     checks
      [validate_root_target (ab_target b),
       fails_if (ab_stable_revision b = ab_candidate_revision b)
         (ValueError ''root authority revisions must be distinct''),
       validate_role_identity (ab_issuer_identity b) ''issuer'' project_id,
       validate_role_identity (ab_executor_identity b) ''executor'' project_id,
       validate_role_identity (ab_recovery_identity b) ''recovery'' project_id,
       validate_service_audience (ab_executor_audience b) ''executor'',
       validate_service_audience (ab_recovery_audience b) ''recovery'',
       fails_if (audience_project_number (ab_executor_audience b)
           \<noteq> audience_project_number (ab_recovery_audience b))
         (ValueError ''root authority audiences must use one project number''),
       validate_signing_key (ab_capability_signing_key_version b) project_id ''capability-signing'',
       grant_is_exact (ab_apply_canary b) AC_APPLY_CANARY (ab_executor_identity b)
         (ab_executor_audience b),
       grant_is_exact (ab_promote_candidate b) AC_PROMOTE_CANDIDATE (ab_executor_identity b)
         (ab_executor_audience b),
       grant_is_exact (ab_recover_stable b) AC_RECOVER_STABLE (ab_recovery_identity b)
         (ab_recovery_audience b)])"

definition validate_bounds_fields :: "root_authority_bounds \<Rightarrow> check" where
  "validate_bounds_fields b =
     checks
      [validate_target_binding (ab_target b),
       field ''stable_revision'' (is_cloud_run_name (ab_stable_revision b)),
       field ''stable_revision_configuration_sha256''
         (is_sha256 (ab_stable_revision_configuration_sha256 b)),
       field ''candidate_revision'' (is_cloud_run_name (ab_candidate_revision b)),
       field ''candidate_revision_configuration_sha256''
         (is_sha256 (ab_candidate_revision_configuration_sha256 b)),
       field ''concurrency'' (is_concurrency (ab_concurrency b)),
       field ''plan_sha256'' (is_sha256 (ab_plan_sha256 b)),
       field ''capability_signing_key_version''
         (is_key_version_resource (ab_capability_signing_key_version b)),
       field ''issuer_identity'' (is_bounded_text (ab_issuer_identity b)),
       field ''executor_identity'' (is_bounded_text (ab_executor_identity b)),
       field ''recovery_identity'' (is_bounded_text (ab_recovery_identity b)),
       field ''executor_audience'' (is_audience_text (ab_executor_audience b)),
       field ''recovery_audience'' (is_audience_text (ab_recovery_audience b)),
       field ''maximum_capability_lifetime_seconds''
         (1 \<le> ab_maximum_capability_lifetime_seconds b
          \<and> ab_maximum_capability_lifetime_seconds b \<le> 900),
       validate_root_action_grant (ab_apply_canary b),
       validate_root_action_grant (ab_promote_candidate b),
       validate_root_action_grant (ab_recover_stable b)]"

definition validate_root_authority_bounds :: "root_authority_bounds \<Rightarrow> check" where
  "validate_root_authority_bounds b = checks [validate_bounds_fields b, validate_closed_bounds b]"

definition root_authority_bounds_json :: "root_authority_bounds \<Rightarrow> json" where
  "root_authority_bounds_json b =
     JObj [(''schema_version'', JStr ROOT_AUTHORITY_BOUNDS_V1),
           (''target'', target_binding_json (ab_target b)),
           (''stable_revision'', JStr (ab_stable_revision b)),
           (''stable_revision_configuration_sha256'',
              JStr (ab_stable_revision_configuration_sha256 b)),
           (''candidate_revision'', JStr (ab_candidate_revision b)),
           (''candidate_revision_configuration_sha256'',
              JStr (ab_candidate_revision_configuration_sha256 b)),
           (''concurrency'', JInt (ab_concurrency b)), (''plan_sha256'', JStr (ab_plan_sha256 b)),
           (''capability_signing_key_version'', JStr (ab_capability_signing_key_version b)),
           (''issuer_identity'', JStr (ab_issuer_identity b)),
           (''executor_identity'', JStr (ab_executor_identity b)),
           (''recovery_identity'', JStr (ab_recovery_identity b)),
           (''executor_audience'', JStr (ab_executor_audience b)),
           (''recovery_audience'', JStr (ab_recovery_audience b)),
           (''maximum_capability_lifetime_seconds'', JInt (ab_maximum_capability_lifetime_seconds b)),
           (''maximum_recovery_attempts'', JInt 1),
           (''apply_canary'', root_action_grant_json (ab_apply_canary b)),
           (''promote_candidate'', root_action_grant_json (ab_promote_candidate b)),
           (''recover_stable'', root_action_grant_json (ab_recover_stable b))]"

section \<open>Content and root\<close>

record root_content =
  rc_target :: target_binding
  rc_stable_snapshot :: stable_snapshot
  rc_health_policy :: root_health_policy
  rc_rollout_plan :: rollout_plan
  rc_authority_bounds :: root_authority_bounds
  rc_evidence_signing_key_version :: string
  rc_approved_by :: string
  rc_approved_by_subject :: string
  rc_approved_at :: string

definition stable_snapshot_sha256 :: "hexdigest \<Rightarrow> stable_snapshot \<Rightarrow> contract_error + string" where
  "stable_snapshot_sha256 hexdigest s = contract_sha256 hexdigest STABLE_SNAPSHOT_V1 (stable_snapshot_json s)"

definition health_policy_sha256 :: "hexdigest \<Rightarrow> root_health_policy \<Rightarrow> contract_error + string" where
  "health_policy_sha256 hexdigest p =
     contract_sha256 hexdigest (health_policy_version p) (health_policy_json p)"

definition plan_sha256 :: "hexdigest \<Rightarrow> rollout_plan \<Rightarrow> contract_error + string" where
  "plan_sha256 hexdigest p = contract_sha256 hexdigest ROLLOUT_PLAN_V1 (rollout_plan_json p)"

definition authority_bounds_sha256 :: "hexdigest \<Rightarrow> root_authority_bounds \<Rightarrow> contract_error + string" where
  "authority_bounds_sha256 hexdigest b =
     contract_sha256 hexdigest ROOT_AUTHORITY_BOUNDS_V1 (root_authority_bounds_json b)"

text \<open>\<open>canonical_sha256\<close> of a value compared with an expected digest; a digest that cannot be taken
  raises.\<close>

definition digest_differs :: "string \<Rightarrow> contract_error + string \<Rightarrow> string \<Rightarrow> check" where
  "digest_differs expected digest msg =
    (case digest of Inl e \<Rightarrow> Some (contract_invalid e) | Inr d \<Rightarrow> fails_if (expected \<noteq> d) (ValueError msg))"

definition validate_content_fields :: "root_content \<Rightarrow> check" where
  "validate_content_fields c =
     checks
      [validate_target_binding (rc_target c),
       validate_stable_snapshot (rc_stable_snapshot c),
       validate_root_health_policy (rc_health_policy c),
       validate_rollout_plan (rc_rollout_plan c),
       validate_root_authority_bounds (rc_authority_bounds c),
       field ''evidence_signing_key_version''
         (is_key_version_resource (rc_evidence_signing_key_version c)),
       field ''approved_by'' (is_bounded_text (rc_approved_by c)),
       field ''approved_by_subject'' (google_number (rc_approved_by_subject c)),
       field ''approved_at'' (is_utc_second (rc_approved_at c))]"

definition validate_content_bindings :: "hexdigest \<Rightarrow> root_content \<Rightarrow> check" where
  "validate_content_bindings hexdigest c =
    (let plan = rc_rollout_plan c; snapshot = rc_stable_snapshot c; bounds = rc_authority_bounds c in
     checks
      [validate_root_target (rc_target c),
       validate_operator_identity (rc_approved_by c),
       fails_if (ss_target snapshot \<noteq> rc_target c)
         (ValueError ''root snapshot target does not match root target''),
       fails_if (pl_target plan \<noteq> rc_target c)
         (ValueError ''root plan target does not match root target''),
       fails_if (ab_target bounds \<noteq> rc_target c)
         (ValueError ''root authority target does not match root target''),
       fails_if (ss_captured_by snapshot \<noteq> verifier_identity (rc_target c))
         (ValueError ''root snapshot was not captured by the configured verifier''),
       fails_if (rc_approved_at c < ss_captured_at snapshot)
         (ValueError ''root approval predates its stable snapshot''),
       digest_differs (pl_stable_snapshot_sha256 plan) (stable_snapshot_sha256 hexdigest snapshot)
         ''root plan does not bind the canonical stable snapshot'',
       digest_differs (pl_health_policy_sha256 plan) (health_policy_sha256 hexdigest (rc_health_policy c))
         ''root plan does not bind the canonical health policy'',
       fails_if
         (pl_stable_revision plan \<noteq> ss_stable_revision snapshot
          \<or> pl_stable_revision_configuration_sha256 plan
              \<noteq> ss_stable_revision_configuration_sha256 snapshot
          \<or> pl_concurrency plan \<noteq> ss_concurrency snapshot)
         (ValueError ''root plan does not bind the stable snapshot configuration''),
       fails_if
         (ab_stable_revision bounds \<noteq> pl_stable_revision plan
          \<or> ab_stable_revision_configuration_sha256 bounds
              \<noteq> pl_stable_revision_configuration_sha256 plan
          \<or> ab_candidate_revision bounds \<noteq> pl_candidate_revision plan
          \<or> ab_candidate_revision_configuration_sha256 bounds
              \<noteq> pl_candidate_revision_configuration_sha256 plan
          \<or> ab_concurrency bounds \<noteq> pl_concurrency plan)
         (ValueError ''root authority bounds do not match the canonical plan''),
       digest_differs (ab_plan_sha256 bounds) (plan_sha256 hexdigest plan)
         ''root authority bounds do not match the canonical plan'',
       validate_signing_key (rc_evidence_signing_key_version c) (tb_project_id (rc_target c))
         ''evidence-signing''])"

definition validate_root_content :: "hexdigest \<Rightarrow> root_content \<Rightarrow> check" where
  "validate_root_content hexdigest c =
     checks [validate_content_fields c, validate_content_bindings hexdigest c]"

fun content_version :: "root_health_policy \<Rightarrow> string" where
  "content_version (HealthPolicyV1 _) = ROLLOUT_ROOT_CONTENT_V2"
| "content_version HealthPolicyV2 = ROLLOUT_ROOT_CONTENT_V3"

definition root_content_json :: "root_content \<Rightarrow> json" where
  "root_content_json c =
     JObj [(''schema_version'', JStr (content_version (rc_health_policy c))),
           (''target'', target_binding_json (rc_target c)),
           (''stable_snapshot'', stable_snapshot_json (rc_stable_snapshot c)),
           (''health_policy'', health_policy_json (rc_health_policy c)),
           (''rollout_plan'', rollout_plan_json (rc_rollout_plan c)),
           (''authority_bounds'', root_authority_bounds_json (rc_authority_bounds c)),
           (''evidence_signing_key_version'', JStr (rc_evidence_signing_key_version c)),
           (''approved_by'', JStr (rc_approved_by c)),
           (''approved_by_subject'', JStr (rc_approved_by_subject c)),
           (''approved_at'', JStr (rc_approved_at c))]"

definition root_content_sha256 :: "hexdigest \<Rightarrow> root_content \<Rightarrow> contract_error + string" where
  "root_content_sha256 hexdigest c =
     contract_sha256 hexdigest (content_version (rc_health_policy c)) (root_content_json c)"

record addressed_root =
  ad_root_id :: string
  ad_root_sha256 :: string
  ad_content :: root_content

definition is_root_v3 :: "addressed_root \<Rightarrow> bool" where
  "is_root_v3 r \<longleftrightarrow> rc_health_policy (ad_content r) = HealthPolicyV2"

definition validate_content_address :: "hexdigest \<Rightarrow> addressed_root \<Rightarrow> check" where
  "validate_content_address hexdigest r =
    (case root_content_sha256 hexdigest (ad_content r) of
       Inl e \<Rightarrow> Some (contract_invalid e)
     | Inr digest \<Rightarrow>
         checks
          [fails_if (ad_root_sha256 r \<noteq> digest)
             (ValueError ''rollout root digest does not match its canonical content''),
           fails_if (ad_root_id r \<noteq> ''cgroot:'' @ digest)
             (ValueError ''rollout root identifier does not match its content digest'')])"

definition validate_addressed_root :: "hexdigest \<Rightarrow> addressed_root \<Rightarrow> check" where
  "validate_addressed_root hexdigest r =
     checks
      [field ''root_id'' (is_identifier (ad_root_id r)),
       field ''root_sha256'' (is_sha256 (ad_root_sha256 r)),
       validate_root_content hexdigest (ad_content r),
       validate_content_address hexdigest r]"

text \<open>\<open>create_rollout_root\<close> and \<open>create_rollout_root_v3\<close>.\<close>

definition create_rollout_root_of :: "hexdigest \<Rightarrow> root_content \<Rightarrow> addressed_root result" where
  "create_rollout_root_of hexdigest c =
    (case root_content_sha256 hexdigest c of
       Inl e \<Rightarrow> Inl (contract_invalid e)
     | Inr digest \<Rightarrow>
         construct (validate_addressed_root hexdigest)
           \<lparr>ad_root_id = ''cgroot:'' @ digest, ad_root_sha256 = digest, ad_content = c\<rparr>)"

section \<open>Lineage anchor\<close>

record lineage_anchor =
  la_root_id :: string
  la_root_sha256 :: string
  la_target :: target_binding
  la_stable_snapshot_sha256 :: string
  la_stable_revision :: string
  la_stable_revision_configuration_sha256 :: string
  la_candidate_revision :: string
  la_candidate_revision_configuration_sha256 :: string
  la_plan_sha256 :: string
  la_health_policy_sha256 :: string
  la_authority_bounds_sha256 :: string

definition capability_lineage_anchor :: "hexdigest \<Rightarrow> addressed_root \<Rightarrow> contract_error + lineage_anchor" where
  "capability_lineage_anchor hexdigest r =
    (let content = ad_content r; plan = rc_rollout_plan content in
     case plan_sha256 hexdigest plan of
       Inl e \<Rightarrow> Inl e
     | Inr plan_digest \<Rightarrow>
         (case health_policy_sha256 hexdigest (rc_health_policy content) of
            Inl e \<Rightarrow> Inl e
          | Inr policy_digest \<Rightarrow>
              (case authority_bounds_sha256 hexdigest (rc_authority_bounds content) of
                 Inl e \<Rightarrow> Inl e
               | Inr bounds_digest \<Rightarrow>
                   Inr \<lparr>la_root_id = ad_root_id r, la_root_sha256 = ad_root_sha256 r,
                        la_target = rc_target content,
                        la_stable_snapshot_sha256 = pl_stable_snapshot_sha256 plan,
                        la_stable_revision = pl_stable_revision plan,
                        la_stable_revision_configuration_sha256 =
                          pl_stable_revision_configuration_sha256 plan,
                        la_candidate_revision = pl_candidate_revision plan,
                        la_candidate_revision_configuration_sha256 =
                          pl_candidate_revision_configuration_sha256 plan,
                        la_plan_sha256 = plan_digest, la_health_policy_sha256 = policy_digest,
                        la_authority_bounds_sha256 = bounds_digest\<rparr>)))"

end
