(* ===== verification/Policy.thy ===== *)
theory Policy
  imports PyText Reducer
begin

text \<open>
  Capability attenuation and lineage, \<open>backend/src/controlgraph_canary/authority/policy.py\<close>.
  A scope is the maximum authority of one capability; \<open>check_attenuation\<close> proves field by
  field that a child is no wider than its parent, and \<open>validate_lineage\<close> accepts one
  ordered chain from the operator's anchor to the leaf. Frozen sets are \<open>'a set\<close>, the
  dictionary of grants an association list in insertion order.
\<close>

definition MAX_LINEAGE_DEPTH :: int where
  "MAX_LINEAGE_DEPTH = 16"

datatype canary_action =
    CA_APPLY_CANARY | CA_PROMOTE_CANDIDATE | CA_REVOKE_EPOCH | CA_RECOVER_STABLE
  | CA_READBACK_TARGET | CA_PROBE_DATA_PATH

datatype attenuation_failure =
    AF_TARGET | AF_ROOT | AF_ROOT_DIGEST | AF_EPOCH | AF_PLAN | AF_PRECONDITION | AF_REQUEST
  | AF_IDEMPOTENCY | AF_CALLERS | AF_AUDIENCES | AF_REVISIONS | AF_STABLE_REVISION
  | AF_CANDIDATE_REVISION | AF_ACTIONS | AF_TRAFFIC | AF_CONCURRENCY | AF_TIME

datatype lineage_failure =
    LF_MISSING | LF_CYCLIC | LF_DUPLICATE | LF_WRONG_PARENT | LF_WIDENED
  | LF_MAX_DEPTH_EXCEEDED | LF_INVALID_MAX_DEPTH

section \<open>Scopes\<close>

record integer_bounds =
  minimum :: int
  maximum :: int

definition validate_integer_bounds :: "integer_bounds \<Rightarrow> check" where
  "validate_integer_bounds b =
     fails_if (minimum b < 0 \<or> maximum b < minimum b)
       (ValueError ''bounds must be non-negative and ordered'')"

definition bounds_within :: "integer_bounds \<Rightarrow> integer_bounds \<Rightarrow> bool" where
  "bounds_within b parent \<longleftrightarrow> minimum b \<ge> minimum parent \<and> maximum b \<le> maximum parent"

record time_bounds =
  not_before :: int
  expires_at :: int

definition validate_time_bounds :: "time_bounds \<Rightarrow> check" where
  "validate_time_bounds b =
     fails_if (not_before b < 0 \<or> expires_at b \<le> not_before b)
       (ValueError ''time bounds must define a positive non-negative interval'')"

definition time_within :: "time_bounds \<Rightarrow> time_bounds \<Rightarrow> bool" where
  "time_within b parent \<longleftrightarrow> not_before b \<ge> not_before parent \<and> expires_at b \<le> expires_at parent"

record capability_scope =
  sc_project_id :: string
  sc_region :: string
  sc_environment :: string
  sc_service_name :: string
  sc_root_id :: string
  sc_root_sha256 :: string
  sc_epoch :: int
  sc_plan_sha256 :: string
  sc_provider_precondition :: string
  sc_request_id :: string
  sc_idempotency_key :: string
  sc_callers :: "string set"
  sc_audiences :: "string set"
  sc_stable_revision :: string
  sc_candidate_revision :: string
  sc_revisions :: "string set"
  sc_actions :: "canary_action set"
  sc_traffic_percent :: integer_bounds
  sc_concurrency :: integer_bounds
  sc_validity :: time_bounds

text \<open>
  Which of the two identifier errors a set with several bad members raises depends on the
  iteration order of the \<open>frozenset\<close>; the model reports a blank member first.
\<close>

definition validate_string_set :: "string \<Rightarrow> string set \<Rightarrow> check" where
  "validate_string_set name values =
     checks
      [fails_if (values = {}) (ValueError (name @ '' must be a non-empty frozenset'')),
       fails_if (\<exists>v \<in> values. \<not> is_nonblank v) (ValueError (name @ '' must not be blank'')),
       fails_if (\<exists>v \<in> values. list_ex wildcard v) (ValueError (name @ '' must not contain wildcards''))]"

definition validate_scope :: "capability_scope \<Rightarrow> check" where
  "validate_scope s =
     checks
      [validate_identifier ''project_id'' (sc_project_id s),
       validate_identifier ''region'' (sc_region s),
       validate_identifier ''environment'' (sc_environment s),
       validate_identifier ''service_name'' (sc_service_name s),
       validate_identifier ''root_id'' (sc_root_id s),
       validate_sha256 ''root_sha256'' (sc_root_sha256 s),
       fails_if (sc_epoch s < 1) (ValueError ''epoch must be an integer at least one''),
       validate_sha256 ''plan_sha256'' (sc_plan_sha256 s),
       validate_identifier ''provider_precondition'' (sc_provider_precondition s),
       validate_identifier ''request_id'' (sc_request_id s),
       validate_identifier ''idempotency_key'' (sc_idempotency_key s),
       validate_string_set ''callers'' (sc_callers s),
       validate_string_set ''audiences'' (sc_audiences s),
       validate_identifier ''stable_revision'' (sc_stable_revision s),
       validate_identifier ''candidate_revision'' (sc_candidate_revision s),
       fails_if (sc_stable_revision s = sc_candidate_revision s)
         (ValueError ''stable and candidate revisions must differ''),
       validate_string_set ''revisions'' (sc_revisions s),
       fails_if (\<not> sc_revisions s \<subseteq> {sc_stable_revision s, sc_candidate_revision s})
         (ValueError ''revisions must be bound to the stable or candidate role''),
       fails_if (sc_actions s = {}) (ValueError ''actions must be a non-empty frozenset''),
       fails_if (maximum (sc_traffic_percent s) > 100)
         (ValueError ''traffic bounds must remain between zero and one hundred''),
       fails_if (minimum (sc_concurrency s) < 1 \<or> maximum (sc_concurrency s) > 1000)
         (ValueError ''concurrency bounds must remain between one and one thousand'')]"

record attenuation_result =
  at_allowed :: bool
  at_reason :: "denial_reason option"
  at_failure :: "attenuation_failure option"

record operator_root_anchor =
  an_root_sha256 :: string
  an_scope :: capability_scope

definition validate_anchor :: "operator_root_anchor \<Rightarrow> check" where
  "validate_anchor a =
     checks
      [validate_sha256 ''root_sha256'' (an_root_sha256 a),
       fails_if (an_root_sha256 a \<noteq> sc_root_sha256 (an_scope a))
         (ValueError ''anchor digest must match the approved root scope'')]"

record capability_grant =
  gr_capability_sha256 :: string
  gr_parent_capability_sha256 :: "string option"
  gr_scope :: capability_scope

definition validate_grant :: "capability_grant \<Rightarrow> check" where
  "validate_grant g =
     checks
      [validate_sha256 ''capability_sha256'' (gr_capability_sha256 g),
       (case gr_parent_capability_sha256 g of
          None \<Rightarrow> None | Some p \<Rightarrow> validate_sha256 ''parent_capability_sha256'' p)]"

record lineage_result =
  li_allowed :: bool
  li_reason :: "denial_reason option"
  li_failure :: "lineage_failure option"
  li_depth :: int
  li_failed_capability_sha256 :: "string option"
  li_attenuation_failure :: "attenuation_failure option"

section \<open>Attenuation\<close>

definition attenuation_denial :: "denial_reason \<Rightarrow> attenuation_failure \<Rightarrow> attenuation_result" where
  "attenuation_denial reason failure =
     \<lparr>at_allowed = False, at_reason = Some reason, at_failure = Some failure\<rparr>"

definition check_attenuation :: "capability_scope \<Rightarrow> capability_scope \<Rightarrow> attenuation_result" where
  "check_attenuation parent child =
    (if sc_project_id child \<noteq> sc_project_id parent \<or> sc_region child \<noteq> sc_region parent
        \<or> sc_environment child \<noteq> sc_environment parent
        \<or> sc_service_name child \<noteq> sc_service_name parent
     then attenuation_denial DR_TARGET_BINDING_MISMATCH AF_TARGET
     else if sc_root_id child \<noteq> sc_root_id parent
     then attenuation_denial DR_LINEAGE_INVALID AF_ROOT
     else if sc_root_sha256 child \<noteq> sc_root_sha256 parent
     then attenuation_denial DR_LINEAGE_INVALID AF_ROOT_DIGEST
     else if sc_epoch child \<noteq> sc_epoch parent
     then attenuation_denial DR_EPOCH_MISMATCH AF_EPOCH
     else if sc_plan_sha256 child \<noteq> sc_plan_sha256 parent
     then attenuation_denial DR_CLAIM_BINDING_MISMATCH AF_PLAN
     else if sc_provider_precondition child \<noteq> sc_provider_precondition parent
     then attenuation_denial DR_TARGET_BINDING_MISMATCH AF_PRECONDITION
     else if sc_request_id child \<noteq> sc_request_id parent
     then attenuation_denial DR_CLAIM_BINDING_MISMATCH AF_REQUEST
     else if sc_idempotency_key child \<noteq> sc_idempotency_key parent
     then attenuation_denial DR_CLAIM_BINDING_MISMATCH AF_IDEMPOTENCY
     else if \<not> sc_callers child \<subseteq> sc_callers parent
     then attenuation_denial DR_SCOPE_AMPLIFICATION AF_CALLERS
     else if \<not> sc_audiences child \<subseteq> sc_audiences parent
     then attenuation_denial DR_SCOPE_AMPLIFICATION AF_AUDIENCES
     else if sc_stable_revision child \<noteq> sc_stable_revision parent
     then attenuation_denial DR_TARGET_BINDING_MISMATCH AF_STABLE_REVISION
     else if sc_candidate_revision child \<noteq> sc_candidate_revision parent
     then attenuation_denial DR_TARGET_BINDING_MISMATCH AF_CANDIDATE_REVISION
     else if \<not> sc_revisions child \<subseteq> sc_revisions parent
     then attenuation_denial DR_SCOPE_AMPLIFICATION AF_REVISIONS
     else if \<not> sc_actions child \<subseteq> sc_actions parent
     then attenuation_denial DR_SCOPE_AMPLIFICATION AF_ACTIONS
     else if \<not> bounds_within (sc_traffic_percent child) (sc_traffic_percent parent)
     then attenuation_denial DR_SCOPE_AMPLIFICATION AF_TRAFFIC
     else if \<not> bounds_within (sc_concurrency child) (sc_concurrency parent)
     then attenuation_denial DR_SCOPE_AMPLIFICATION AF_CONCURRENCY
     else if \<not> time_within (sc_validity child) (sc_validity parent)
     then attenuation_denial DR_SCOPE_AMPLIFICATION AF_TIME
     else \<lparr>at_allowed = True, at_reason = None, at_failure = None\<rparr>)"

section \<open>Lineage\<close>

definition lineage_denial ::
  "lineage_failure \<Rightarrow> int \<Rightarrow> string option \<Rightarrow> denial_reason \<Rightarrow> attenuation_failure option
    \<Rightarrow> lineage_result" where
  "lineage_denial failure depth failed reason af =
     \<lparr>li_allowed = False, li_reason = Some reason, li_failure = Some failure, li_depth = depth,
      li_failed_capability_sha256 = failed, li_attenuation_failure = af\<rparr>"

type_synonym grant_dict = "(string \<times> capability_grant) list"

text \<open>
  The inner \<open>while\<close> loop of \<open>_contains_cycle\<close>. It stops because every round marks one more
  key of the dictionary as visited.
\<close>

function follow_parents :: "grant_dict \<Rightarrow> string \<Rightarrow> string set \<Rightarrow> bool" where
  "follow_parents grants current visited =
     (case map_of grants current of
        None \<Rightarrow> False
      | Some grant \<Rightarrow>
          (if current \<in> visited then True
           else case gr_parent_capability_sha256 grant of
                  None \<Rightarrow> False
                | Some parent \<Rightarrow> follow_parents grants parent (insert current visited)))"
  by pat_completeness auto
termination
proof (relation "measure (\<lambda>(grants, current, visited). card (fst ` set grants - visited))", goal_cases)
  case 1
  show ?case by simp
next
  case (2 grants current visited grant parent)
  then have "current \<in> fst ` set grants - visited"
    by (auto dest: map_of_SomeD intro: rev_image_eqI)
  then have "fst ` set grants - insert current visited \<subset> fst ` set grants - visited"
    by blast
  then show ?case
    by (simp add: psubset_card_mono)
qed

declare follow_parents.simps [simp del]

definition contains_cycle :: "grant_dict \<Rightarrow> bool" where
  "contains_cycle grants \<longleftrightarrow> list_ex (\<lambda>(start, _). follow_parents grants start {}) grants"

text \<open>The loop that fills \<open>grants_by_id\<close>, stopping at the first repeated digest.\<close>

fun index_grants :: "capability_grant list \<Rightarrow> grant_dict \<Rightarrow> lineage_result + grant_dict" where
  "index_grants [] seen = Inr seen"
| "index_grants (g # gs) seen =
     (if map_of seen (gr_capability_sha256 g) \<noteq> None
      then Inl (lineage_denial LF_DUPLICATE (int (length seen)) (Some (gr_capability_sha256 g))
                  DR_LINEAGE_INVALID None)
      else index_grants gs (seen @ [(gr_capability_sha256 g, g)]))"

text \<open>The loop that looks for a parent outside the presented grants.\<close>

fun missing_parent :: "string set \<Rightarrow> int \<Rightarrow> capability_grant list \<Rightarrow> lineage_result option" where
  "missing_parent known index [] = None"
| "missing_parent known index (g # gs) =
     (case gr_parent_capability_sha256 g of
        Some p \<Rightarrow>
          (if p \<notin> known
           then Some (lineage_denial LF_MISSING index (Some (gr_capability_sha256 g))
                        DR_LINEAGE_INVALID None)
           else missing_parent known (index + 1) gs)
      | None \<Rightarrow> missing_parent known (index + 1) gs)"

text \<open>The loop over the ordered chain; \<open>depth\<close> counts from one.\<close>

fun follow_chain ::
  "string option \<Rightarrow> capability_scope \<Rightarrow> int \<Rightarrow> capability_grant list \<Rightarrow> lineage_result option" where
  "follow_chain expected_parent parent_scope depth [] = None"
| "follow_chain expected_parent parent_scope depth (g # gs) =
     (if gr_parent_capability_sha256 g \<noteq> expected_parent
      then Some (lineage_denial LF_WRONG_PARENT (depth - 1) (Some (gr_capability_sha256 g))
                   DR_LINEAGE_INVALID None)
      else
        (let attenuation = check_attenuation parent_scope (gr_scope g) in
         if \<not> at_allowed attenuation
         then Some (lineage_denial LF_WIDENED depth (Some (gr_capability_sha256 g))
                      (or_else (at_reason attenuation) DR_SCOPE_AMPLIFICATION)
                      (at_failure attenuation))
         else follow_chain (Some (gr_capability_sha256 g)) (gr_scope g) (depth + 1) gs))"

definition validate_lineage ::
  "operator_root_anchor \<Rightarrow> capability_grant list \<Rightarrow> int \<Rightarrow> lineage_result" where
  "validate_lineage anchor grants max_depth =
    (if \<not> (1 \<le> max_depth \<and> max_depth \<le> MAX_LINEAGE_DEPTH)
     then lineage_denial LF_INVALID_MAX_DEPTH 0 None DR_CONTRACT_INVALID None
     else if grants = [] then lineage_denial LF_MISSING 0 None DR_LINEAGE_INVALID None
     else if int (length grants) > max_depth
     then lineage_denial LF_MAX_DEPTH_EXCEEDED max_depth None DR_LINEAGE_INVALID None
     else
       (case index_grants grants [] of
          Inl denial \<Rightarrow> denial
        | Inr grants_by_id \<Rightarrow>
            (if contains_cycle grants_by_id
             then lineage_denial LF_CYCLIC 0 None DR_LINEAGE_INVALID None
             else
               (case missing_parent (fst ` set grants_by_id) 0 grants of
                  Some denial \<Rightarrow> denial
                | None \<Rightarrow>
                    (case follow_chain None (an_scope anchor) 1 grants of
                       Some denial \<Rightarrow> denial
                     | None \<Rightarrow>
                         \<lparr>li_allowed = True, li_reason = None, li_failure = None,
                          li_depth = int (length grants), li_failed_capability_sha256 = None,
                          li_attenuation_failure = None\<rparr>)))))"

end
