(* ===== verification/RootAuthority.thy ===== *)
theory RootAuthority
  imports RootRecords Policy
begin

text \<open>
  The persisted rollout-root boundary, \<open>application/root_authority.py\<close>: the inspection of one atomic
  read of root, claim, authority and anchor, the match of a claim and of a capability with the root,
  and the lineage policy projected from them. Claims are those of version 2
  (\<open>ServiceClaimRecord\<close>). A digest that cannot be taken raises, as \<open>canonical_sha256\<close> does.
\<close>

section \<open>The bundle\<close>

record root_bundle =
  bu_root :: "addressed_root stored_record"
  bu_service_claim :: "service_claim stored_record"
  bu_authority :: "epoch_authority_record stored_record"
  bu_lineage_anchor :: "lineage_anchor stored_record"

record trusted_root_authority =
  ra_root :: addressed_root
  ra_service_claim :: service_claim
  ra_authority :: epoch_authority_record
  ra_lineage_anchor :: lineage_anchor
  ra_root_revision :: int
  ra_service_claim_revision :: int
  ra_authority_revision :: int
  ra_lineage_anchor_revision :: int

text \<open>\<open>rollout_root_v2_target_configuration_sha256\<close> and its V3 twin.\<close>

definition root_target_configuration_sha256 ::
  "hexdigest \<Rightarrow> addressed_root \<Rightarrow> int \<Rightarrow> int \<Rightarrow> string result" where
  "root_target_configuration_sha256 hexdigest root stable_percent candidate_percent =
    (let plan = rc_rollout_plan (ad_content root) in
     bindR (construct validate_target_configuration
       \<lparr>tg_target = rc_target (ad_content root), tg_stable_revision = pl_stable_revision plan,
        tg_candidate_revision = pl_candidate_revision plan, tg_stable_percent = stable_percent,
        tg_candidate_percent = candidate_percent, tg_concurrency = pl_concurrency plan\<rparr>)
     (target_configuration_sha256 hexdigest))"

definition service_claim_matches_addressed_root ::
  "hexdigest \<Rightarrow> service_claim \<Rightarrow> addressed_root \<Rightarrow> bool" where
  "service_claim_matches_addressed_root hexdigest claim root \<longleftrightarrow>
    (let content = ad_content root; snapshot = rc_stable_snapshot content;
         plan = rc_rollout_plan content in
     case (root_target_configuration_sha256 hexdigest root 100 0,
           root_target_configuration_sha256 hexdigest root 0 100) of
       (Inr stable_target_sha, Inr candidate_target_sha) \<Rightarrow>
         cl_target claim = rc_target content
         \<and> cl_root_id claim = ad_root_id root
         \<and> cl_root_sha256 claim = ad_root_sha256 root
         \<and> cl_stable_revision claim = pl_stable_revision plan
         \<and> cl_candidate_revision claim = pl_candidate_revision plan
         \<and> cl_initial_epoch claim = 1
         \<and> cl_baseline_service_generation claim = ss_service_generation snapshot
         \<and> cl_baseline_configuration_sha256 claim = ss_configuration_sha256 snapshot
         \<and> cl_baseline_revision_configuration_sha256 claim = pl_stable_revision_configuration_sha256 plan
         \<and> cl_candidate_revision_configuration_sha256 claim
             = pl_candidate_revision_configuration_sha256 plan
         \<and> cl_stable_target_configuration_sha256 claim = stable_target_sha
         \<and> cl_candidate_target_configuration_sha256 claim = candidate_target_sha
         \<and> cl_operator_owner claim = rc_approved_by content
         \<and> cl_workload_creator claim = WORKLOAD_CREATOR
         \<and> cl_terminal_release_condition claim = SERVICE_CLAIM_TERMINAL_RELEASE_CONDITION
         \<and> rc_approved_at content \<le> cl_claimed_at claim
     | _ \<Rightarrow> False)"

definition claim_lifecycle_revision_matches :: "service_claim \<Rightarrow> int \<Rightarrow> bool" where
  "claim_lifecycle_revision_matches claim revision \<longleftrightarrow>
    (case cl_status claim of
       CS_ACTIVE \<Rightarrow> revision mod 3 = 0
     | CS_RELEASING \<Rightarrow> revision mod 3 = 1
     | CS_RELEASED \<Rightarrow> revision mod 3 = 2)"

definition inspect_root_authority_bundle ::
  "hexdigest \<Rightarrow> target_binding \<Rightarrow> root_bundle \<Rightarrow> trusted_root_authority option" where
  "inspect_root_authority_bundle hexdigest target bundle =
    (let root_record = bu_root bundle; claim_record = bu_service_claim bundle;
         auth_record = bu_authority bundle; anchor_record = bu_lineage_anchor bundle;
         root = sr_value root_record; claim = sr_value claim_record;
         auth = sr_value auth_record; anchor = sr_value anchor_record in
     case (root_content_sha256 hexdigest (ad_content root), capability_lineage_anchor hexdigest root) of
       (Inr content_sha, Inr expected_anchor) \<Rightarrow>
         (if sr_revision root_record \<noteq> 0
             \<or> sr_revision anchor_record \<noteq> 0
             \<or> rc_target (ad_content root) \<noteq> target
             \<or> ad_root_sha256 root \<noteq> content_sha
             \<or> ad_root_id root \<noteq> ''cgroot:'' @ ad_root_sha256 root
             \<or> anchor \<noteq> expected_anchor
             \<or> \<not> service_claim_matches_addressed_root hexdigest claim root
             \<or> \<not> claim_lifecycle_revision_matches claim (sr_revision claim_record)
             \<or> au_target auth \<noteq> target
             \<or> au_root_id auth \<noteq> ad_root_id root
             \<or> au_root_sha256 auth \<noteq> ad_root_sha256 root
             \<or> sr_revision auth_record \<noteq> au_revision auth
             \<or> au_current_epoch auth \<noteq> au_revision auth + 1
          then None
          else
            Some \<lparr>ra_root = root, ra_service_claim = claim, ra_authority = auth,
                  ra_lineage_anchor = anchor, ra_root_revision = sr_revision root_record,
                  ra_service_claim_revision = sr_revision claim_record,
                  ra_authority_revision = sr_revision auth_record,
                  ra_lineage_anchor_revision = sr_revision anchor_record\<rparr>)
     | _ \<Rightarrow> None)"

section \<open>Capabilities under a root\<close>

fun root_action_grant_of :: "root_authority_bounds \<Rightarrow> capability_action \<Rightarrow> root_action_grant" where
  "root_action_grant_of b AC_APPLY_CANARY = ab_apply_canary b"
| "root_action_grant_of b AC_PROMOTE_CANDIDATE = ab_promote_candidate b"
| "root_action_grant_of b AC_RECOVER_STABLE = ab_recover_stable b"

definition root_action_grant_for :: "addressed_root \<Rightarrow> capability_action \<Rightarrow> root_action_grant" where
  "root_action_grant_for root action =
     root_action_grant_of (rc_authority_bounds (ad_content root)) action"

definition expected_concurrency :: "root_authority_bounds \<Rightarrow> capability_action \<Rightarrow> int option" where
  "expected_concurrency b action =
     (if action = AC_RECOVER_STABLE then Some (ab_concurrency b) else None)"

text \<open>The closing conjunction, once the timestamps are parsed and the digests taken.\<close>

definition claims_bindings_hold ::
  "capability_claims \<Rightarrow> addressed_root \<Rightarrow> lineage_anchor \<Rightarrow> string \<Rightarrow> string \<Rightarrow> bool" where
  "claims_bindings_hold claims root anchor plan_sha bounds_sha \<longleftrightarrow>
    (let content = ad_content root; plan = rc_rollout_plan content;
         bounds = rc_authority_bounds content;
         grant = root_action_grant_for root (cc_action claims) in
     cc_target claims = la_target anchor \<and> la_target anchor = rc_target content
     \<and> cc_root_id claims = la_root_id anchor \<and> la_root_id anchor = ad_root_id root
     \<and> cc_root_sha256 claims = la_root_sha256 anchor \<and> la_root_sha256 anchor = ad_root_sha256 root
     \<and> cc_plan_sha256 claims = la_plan_sha256 anchor \<and> la_plan_sha256 anchor = plan_sha
     \<and> cc_stable_revision claims = la_stable_revision anchor
     \<and> la_stable_revision anchor = pl_stable_revision plan
     \<and> cc_candidate_revision claims = la_candidate_revision anchor
     \<and> la_candidate_revision anchor = pl_candidate_revision plan
     \<and> la_stable_revision_configuration_sha256 anchor = pl_stable_revision_configuration_sha256 plan
     \<and> la_candidate_revision_configuration_sha256 anchor
         = pl_candidate_revision_configuration_sha256 plan
     \<and> la_authority_bounds_sha256 anchor = bounds_sha
     \<and> cc_issuer claims = ab_issuer_identity bounds
     \<and> cc_subject claims = ag_subject_identity grant
     \<and> cc_audience claims = ag_audience grant
     \<and> cc_signing_key_version claims = ab_capability_signing_key_version bounds
     \<and> cc_signing_algorithm claims = SIGNING_ALGORITHM
     \<and> cc_stable_percent claims = ag_stable_percent grant
     \<and> cc_candidate_percent claims = ag_candidate_percent grant
     \<and> cc_concurrency claims = expected_concurrency bounds (cc_action claims))"

definition claims_times_hold ::
  "root_authority_bounds \<Rightarrow> int \<Rightarrow> int \<Rightarrow> int \<Rightarrow> int \<Rightarrow> bool" where
  "claims_times_hold bounds approved issued starts expires \<longleftrightarrow>
     approved \<le> issued \<and> issued \<le> starts \<and> starts < expires
     \<and> expires - issued \<le> ab_maximum_capability_lifetime_seconds bounds"

definition or_raise_contract :: "contract_error + 'a \<Rightarrow> 'a result" where
  "or_raise_contract r = (case r of Inl e \<Rightarrow> Inl (contract_invalid e) | Inr x \<Rightarrow> Inr x)"

definition parse_or_raise :: "string \<Rightarrow> int result" where
  "parse_or_raise s =
    (case parse_utc_second s of
       None \<Rightarrow> Inl (ValueError ''time data does not match format'') | Some t \<Rightarrow> Inr t)"

definition capability_claims_match_root_authority ::
  "hexdigest \<Rightarrow> capability_claims \<Rightarrow> addressed_root \<Rightarrow> lineage_anchor \<Rightarrow> bool result" where
  "capability_claims_match_root_authority hexdigest claims root anchor =
    (let content = ad_content root in
     bindR (or_raise_contract (capability_lineage_anchor hexdigest root))
     (\<lambda>expected_anchor.
       if anchor \<noteq> expected_anchor then Inr False
       else
         (case (parse_utc_second (cc_issued_at claims), parse_utc_second (cc_not_before claims),
                parse_utc_second (cc_expires_at claims)) of
            (Some issued, Some starts, Some expires) \<Rightarrow>
              (if cc_action claims = AC_APPLY_CANARY
                  \<and> cc_provider_etag claims \<noteq> ss_provider_etag (rc_stable_snapshot content)
               then Inr False
               else
                 bindR (or_raise_contract (plan_sha256 hexdigest (rc_rollout_plan content)))
                 (\<lambda>plan_sha. bindR (or_raise_contract
                     (authority_bounds_sha256 hexdigest (rc_authority_bounds content)))
                 (\<lambda>bounds_sha.
                   if \<not> claims_bindings_hold claims root anchor plan_sha bounds_sha then Inr False
                   else
                     bindR (parse_or_raise (rc_approved_at content))
                     (\<lambda>approved. Inr
                       (claims_times_hold (rc_authority_bounds content) approved issued starts
                          expires)))))
          | _ \<Rightarrow> Inr False)))"

fun canary_action_of :: "capability_action \<Rightarrow> canary_action" where
  "canary_action_of AC_APPLY_CANARY = CA_APPLY_CANARY"
| "canary_action_of AC_PROMOTE_CANDIDATE = CA_PROMOTE_CANDIDATE"
| "canary_action_of AC_RECOVER_STABLE = CA_RECOVER_STABLE"

text \<open>A scope is built with its bounds, each of which validates itself.\<close>

definition build_scope :: "capability_scope \<Rightarrow> capability_scope result" where
  "build_scope s =
    (case checks [validate_integer_bounds (sc_traffic_percent s), validate_integer_bounds (sc_concurrency s),
                  validate_time_bounds (sc_validity s)] of
       Some e \<Rightarrow> Inl e
     | None \<Rightarrow> construct validate_scope s)"

text \<open>\<open>claims.concurrency or bounds.concurrency\<close>.\<close>

definition scope_concurrency :: "capability_claims \<Rightarrow> addressed_root \<Rightarrow> int" where
  "scope_concurrency claims root =
    (case cc_concurrency claims of
       None \<Rightarrow> ab_concurrency (rc_authority_bounds (ad_content root))
     | Some n \<Rightarrow> if n = 0 then ab_concurrency (rc_authority_bounds (ad_content root)) else n)"

definition capability_scope_from_claims :: "capability_claims \<Rightarrow> addressed_root \<Rightarrow> capability_scope result" where
  "capability_scope_from_claims claims root =
    (let n = scope_concurrency claims root in
     bindR (parse_or_raise (cc_not_before claims))
     (\<lambda>start. bindR (parse_or_raise (cc_expires_at claims))
     (\<lambda>stop. build_scope
       \<lparr>sc_project_id = tb_project_id (cc_target claims), sc_region = tb_region (cc_target claims),
        sc_environment = tb_environment (cc_target claims),
        sc_service_name = tb_service_name (cc_target claims), sc_root_id = cc_root_id claims,
        sc_root_sha256 = cc_root_sha256 claims, sc_epoch = cc_epoch claims,
        sc_plan_sha256 = cc_plan_sha256 claims, sc_provider_precondition = cc_provider_etag claims,
        sc_request_id = cc_request_id claims, sc_idempotency_key = cc_idempotency_key claims,
        sc_callers = {cc_subject claims}, sc_audiences = {cc_audience claims},
        sc_stable_revision = cc_stable_revision claims,
        sc_candidate_revision = cc_candidate_revision claims,
        sc_revisions = {cc_stable_revision claims, cc_candidate_revision claims},
        sc_actions = {canary_action_of (cc_action claims)},
        sc_traffic_percent =
          \<lparr>minimum = cc_candidate_percent claims, maximum = cc_candidate_percent claims\<rparr>,
        sc_concurrency = \<lparr>minimum = n, maximum = n\<rparr>,
        sc_validity = \<lparr>not_before = start, expires_at = stop\<rparr>\<rparr>)))"

definition anchor_scope ::
  "addressed_root \<Rightarrow> lineage_anchor \<Rightarrow> capability_claims \<Rightarrow> int \<Rightarrow> capability_scope" where
  "anchor_scope root anchor first issued =
    (let content = ad_content root; bounds = rc_authority_bounds content;
         grant = root_action_grant_for root (cc_action first) in
     \<lparr>sc_project_id = tb_project_id (la_target anchor), sc_region = tb_region (la_target anchor),
      sc_environment = tb_environment (la_target anchor),
      sc_service_name = tb_service_name (la_target anchor), sc_root_id = la_root_id anchor,
      sc_root_sha256 = la_root_sha256 anchor, sc_epoch = cc_epoch first,
      sc_plan_sha256 = la_plan_sha256 anchor,
      sc_provider_precondition =
        (if cc_action first = AC_APPLY_CANARY then ss_provider_etag (rc_stable_snapshot content)
         else cc_provider_etag first),
      sc_request_id = cc_request_id first, sc_idempotency_key = cc_idempotency_key first,
      sc_callers = {ag_subject_identity grant}, sc_audiences = {ag_audience grant},
      sc_stable_revision = la_stable_revision anchor,
      sc_candidate_revision = la_candidate_revision anchor,
      sc_revisions = {la_stable_revision anchor, la_candidate_revision anchor},
      sc_actions = {canary_action_of (ag_action grant)},
      sc_traffic_percent = \<lparr>minimum = ag_candidate_percent grant, maximum = ag_candidate_percent grant\<rparr>,
      sc_concurrency = \<lparr>minimum = ab_concurrency bounds, maximum = ab_concurrency bounds\<rparr>,
      sc_validity =
        \<lparr>not_before = issued, expires_at = issued + ab_maximum_capability_lifetime_seconds bounds\<rparr>\<rparr>)"

definition operator_lineage_anchor ::
  "hexdigest \<Rightarrow> addressed_root \<Rightarrow> lineage_anchor \<Rightarrow> capability_claims \<Rightarrow> operator_root_anchor result" where
  "operator_lineage_anchor hexdigest root anchor first =
     bindR (capability_claims_match_root_authority hexdigest first root anchor)
     (\<lambda>matches.
       if \<not> matches then Inl (ValueError ''capability is outside the persisted root authority'')
       else
         bindR (parse_or_raise (cc_issued_at first))
         (\<lambda>issued. bindR (build_scope (anchor_scope root anchor first issued))
         (\<lambda>scope. construct validate_anchor
           \<lparr>an_root_sha256 = la_root_sha256 anchor, an_scope = scope\<rparr>)))"

end
