(* ===== verification/CapabilityVerification.thy ===== *)
theory CapabilityVerification
  imports RootAuthority Signing
begin

text \<open>
  The sole verifier of protected task requests, \<open>application/capability_verification.py\<close>, for the
  version 1 \<open>TaskRequest\<close>: caller, target, signature, time, route, persisted root, ancestors and
  lineage, in the order of \<open>CapabilityVerifier.verify\<close>. A denial is one \<open>reason_code\<close>; any other
  exception is kept as it was raised. What the clock, the root reader and the lineage reader
  answer, and the two facts of the \<open>cryptography\<close> package, are arguments. The branches of the
  promotion and recovery requests of version 2 are not modelled.
\<close>

section \<open>Failures and ports\<close>

datatype verification_failure = VerificationDenied reason_code | VerificationRaised py_error

type_synonym 'a verification = "verification_failure + 'a"

definition deny_if :: "bool \<Rightarrow> reason_code \<Rightarrow> verification_failure option" where
  "deny_if b code = (if b then Some (VerificationDenied code) else None)"

definition or_raised :: "'a result \<Rightarrow> 'a verification" where
  "or_raised r = (case r of Inl e \<Rightarrow> Inl (VerificationRaised e) | Inr x \<Rightarrow> Inr x)"

text \<open>\<open>except (TypeError, ValueError): raise _deny(code)\<close>.\<close>

definition or_denied :: "reason_code \<Rightarrow> 'a result \<Rightarrow> 'a verification" where
  "or_denied code r = (case r of Inl e \<Rightarrow> Inl (VerificationDenied code) | Inr x \<Rightarrow> Inr x)"

definition time_of :: "string \<Rightarrow> int verification" where
  "time_of s = or_raised (parse_or_raise s)"

datatype root_read = RootReadFailed | RootRead "root_bundle option"

datatype lineage_read = LineageReadFailed | LineageRead "signed_capability list option"

record crypto =
  cr_hexdigest :: hexdigest
  cr_p256_key :: "string \<Rightarrow> bool"
  cr_p256_verifies :: "string \<Rightarrow> bytes \<Rightarrow> string \<Rightarrow> bool"

section \<open>Configuration\<close>

record verifier_configuration =
  vc_target :: target_binding
  vc_route_policy :: route_policy
  vc_recovery_executor_facade :: bool

definition validate_verifier_configuration :: "verifier_configuration \<Rightarrow> check" where
  "validate_verifier_configuration c =
    (let policy = vc_route_policy c in
     checks
      [fails_if (\<not> controlgraph_project (tb_project_id (vc_target c))
           \<or> tb_region (vc_target c) \<noteq> ''us-central1'')
         (ValueError ''capability verification target is outside ControlGraph''),
       fails_if (rp_service_role policy \<notin> {SVC_EXECUTOR, SVC_RECOVERY})
         (ValueError ''capability verification requires an execution route''),
       fails_if (rp_project_id policy \<noteq> tb_project_id (vc_target c)
           \<or> rp_audience policy
             \<noteq> service_audience (''controlgraph-'' @ service_role_value (rp_service_role policy))
                 (rp_project_number policy))
         (ValueError ''capability route does not match the configured target''),
       fails_if (vc_recovery_executor_facade c
           \<noteq> (rp_service_role policy = SVC_EXECUTOR
              \<and> rp_path policy = RECOVERY_EXECUTION_FACADE_PATH
              \<and> cb_role (rp_caller policy) = CALL_RECOVERY))
         (ValueError ''recovery executor facade route is not exact'')])"

definition issuer_identity_of :: "verifier_configuration \<Rightarrow> string" where
  "issuer_identity_of c =
     ''controlgraph-issuer@'' @ tb_project_id (vc_target c) @ ''.iam.gserviceaccount.com''"

definition accepts_recovery_task :: "verifier_configuration \<Rightarrow> bool" where
  "accepts_recovery_task c \<longleftrightarrow>
     rp_service_role (vc_route_policy c) = SVC_RECOVERY \<or> vc_recovery_executor_facade c"

definition subject_identity_of :: "verifier_configuration \<Rightarrow> string" where
  "subject_identity_of c =
     ''controlgraph-''
     @ service_role_value (if accepts_recovery_task c then SVC_RECOVERY
         else rp_service_role (vc_route_policy c))
     @ ''@'' @ tb_project_id (vc_target c) @ ''.iam.gserviceaccount.com''"

definition capability_audience :: "verifier_configuration \<Rightarrow> string" where
  "capability_audience c =
    (if vc_recovery_executor_facade c
     then service_audience ''controlgraph-recovery'' (rp_project_number (vc_route_policy c))
     else rp_audience (vc_route_policy c))"

definition admitted_actions :: "verifier_configuration \<Rightarrow> capability_action set" where
  "admitted_actions c =
    (if accepts_recovery_task c then {AC_RECOVER_STABLE}
     else {AC_APPLY_CANARY, AC_PROMOTE_CANDIDATE})"

record capability_verifier =
  cv_profile :: verification_profile
  cv_trust :: "trust_bundle_entry list"
  cv_configuration :: verifier_configuration

text \<open>\<open>CapabilityVerifier.__init__\<close>; \<open>reader_target\<close> is the target the root reader is bound to.\<close>

definition validate_capability_verifier :: "target_binding \<Rightarrow> capability_verifier \<Rightarrow> check" where
  "validate_capability_verifier reader_target v =
     checks
      [fails_if (vf_purpose (cv_profile v) \<noteq> SP_CAPABILITY)
         (ValueError ''capability verification requires capability trust material''),
       fails_if (vf_project_id (cv_profile v) \<noteq> tb_project_id (vc_target (cv_configuration v)))
         (ValueError ''capability trust project does not match the configured target''),
       fails_if (reader_target \<noteq> vc_target (cv_configuration v))
         (ValueError ''rollout root reader target does not match configuration'')]"

record verified_mutation =
  vm_request :: task_request
  vm_root :: addressed_root
  vm_lineage_anchor :: lineage_anchor
  vm_caller :: authentication_context
  vm_capability_sha256 :: string
  vm_claims_sha256 :: string
  vm_earliest_lineage_issued_at :: int

section \<open>Caller, target and signature\<close>

definition GOOGLE_ISSUERS :: "string list" where
  "GOOGLE_ISSUERS = [''accounts.google.com'', ''https://accounts.google.com'']"

definition caller_is_bound :: "route_policy \<Rightarrow> authentication_context \<Rightarrow> int \<Rightarrow> bool" where
  "caller_is_bound policy caller now_second \<longleftrightarrow>
     ac_role caller = cb_role (rp_caller policy)
     \<and> ac_email caller = cb_email (rp_caller policy)
     \<and> ac_subject caller = cb_subject (rp_caller policy)
     \<and> ac_audience caller = rp_audience policy
     \<and> ac_issuer caller \<in> set GOOGLE_ISSUERS
     \<and> ac_issued_at caller \<le> now_second \<and> now_second < ac_expires_at caller"

definition validate_caller ::
  "verifier_configuration \<Rightarrow> authentication_context \<Rightarrow> int \<Rightarrow> verification_failure option" where
  "validate_caller c caller now_second =
     deny_if (\<not> caller_is_bound (vc_route_policy c) caller now_second) RC_CALLER_UNAUTHORIZED"

definition precheck_target :: "verifier_configuration \<Rightarrow> task_request \<Rightarrow> verification_failure option" where
  "precheck_target c request =
     deny_if (cc_target (sg_claims (tr_capability request)) \<noteq> vc_target c
         \<or> mi_target (tr_intent request) \<noteq> vc_target c
         \<or> tr_queue_region request \<noteq> tb_region (vc_target c))
       RC_TARGET_BINDING_MISMATCH"

fun signing_denial :: "signing_error_code \<Rightarrow> reason_code" where
  "signing_denial SE_DIGEST_MISMATCH = RC_SIGNATURE_INVALID"
| "signing_denial SE_CRC_MISMATCH = RC_SIGNATURE_INVALID"
| "signing_denial SE_SIGNATURE_INVALID = RC_SIGNATURE_INVALID"
| "signing_denial SE_PROVIDER_FAILURE = RC_SIGNATURE_INVALID"
| "signing_denial _ = RC_KEY_VERSION_UNTRUSTED"

fun envelope_denial :: "signing_failure \<Rightarrow> verification_failure" where
  "envelope_denial (SigningError code) = VerificationDenied (signing_denial code)"
| "envelope_denial (SigningContract _) = VerificationDenied RC_SIGNATURE_INVALID"

definition detached_of_capability ::
  "hexdigest \<Rightarrow> signed_capability \<Rightarrow> detached_signature signing" where
  "detached_of_capability hexdigest capability =
    (let claims = sg_claims capability in
     bindS (capability_signing_profile (tb_project_id (cc_target claims)) (cc_signing_key_version claims))
     (\<lambda>profile. bindS (build_signing_input hexdigest profile (ClaimsPayload claims))
     (\<lambda>input. Inr
       \<lparr>ds_schema_version = DETACHED_SIGNATURE_V1, ds_purpose = SP_CAPABILITY,
        ds_key_version = cc_signing_key_version claims, ds_algorithm = cc_signing_algorithm claims,
        ds_payload_version = CAPABILITY_CLAIMS_V1, ds_payload_sha256 = si_payload_sha256 input,
        ds_digest_sha256 = si_digest_sha256 input, ds_signature = sg_signature capability\<rparr>)))"

definition verify_envelope ::
  "crypto \<Rightarrow> capability_verifier \<Rightarrow> signed_capability \<Rightarrow> verification_failure option" where
  "verify_envelope cr v capability =
    (case claims_sha256_of (cr_hexdigest cr) (sg_claims capability) of
       Inl _ \<Rightarrow> Some (VerificationDenied RC_SIGNATURE_INVALID)
     | Inr expected \<Rightarrow>
         (if expected \<noteq> sg_claims_sha256 capability
          then Some (VerificationDenied RC_SIGNATURE_INVALID)
          else
            (case detached_of_capability (cr_hexdigest cr) capability of
               Inl e \<Rightarrow> Some (envelope_denial e)
             | Inr detached \<Rightarrow>
                 map_option envelope_denial
                   (verify_detached (cr_hexdigest cr) (cr_p256_key cr) (cr_p256_verifies cr)
                     (cv_profile v) (cv_trust v) (ClaimsPayload (sg_claims capability)) detached))))"

section \<open>Time, route and identity\<close>

definition validate_time :: "task_request \<Rightarrow> int \<Rightarrow> verification_failure option" where
  "validate_time request now_second =
    (let claims = sg_claims (tr_capability request) in
     case bindS (time_of (cc_not_before claims))
       (\<lambda>start. bindS (time_of (cc_expires_at claims))
       (\<lambda>stop. bindS (time_of (tr_scheduled_at request))
       (\<lambda>scheduled. bindS (time_of (tr_expires_at request))
       (\<lambda>task_stop. Inr (start, stop, scheduled, task_stop))))) of
       Inl e \<Rightarrow> Some e
     | Inr (start, stop, scheduled, task_stop) \<Rightarrow>
         first_failure
          [deny_if (now_second < start \<or> now_second < scheduled) RC_CAPABILITY_NOT_YET_VALID,
           deny_if (now_second \<ge> stop \<or> now_second \<ge> task_stop) RC_CAPABILITY_EXPIRED])"

definition claim_identity_matches :: "verifier_configuration \<Rightarrow> capability_claims \<Rightarrow> bool" where
  "claim_identity_matches c claims \<longleftrightarrow>
     cc_issuer claims = issuer_identity_of c
     \<and> cc_subject claims = subject_identity_of c
     \<and> cc_audience claims = capability_audience c"

text \<open>A \<open>TaskRequest\<close> is never a recovery request.\<close>

definition validate_route_and_identity ::
  "verifier_configuration \<Rightarrow> task_request \<Rightarrow> verification_failure option" where
  "validate_route_and_identity c request =
    (let claims = sg_claims (tr_capability request) in
     first_failure
      [deny_if (accepts_recovery_task c) RC_CLAIM_BINDING_MISMATCH,
       deny_if (\<not> claim_identity_matches c claims
           \<or> tr_handler_audience request \<noteq> capability_audience c)
         RC_CLAIM_BINDING_MISMATCH,
       deny_if (tr_queue_region request \<noteq> tb_region (vc_target c)) RC_TARGET_BINDING_MISMATCH,
       deny_if (cc_action claims \<notin> admitted_actions c) RC_CLAIM_BINDING_MISMATCH])"

section \<open>The persisted root\<close>

definition read_root_boundary ::
  "hexdigest \<Rightarrow> verifier_configuration \<Rightarrow> root_read \<Rightarrow> trusted_root_authority verification" where
  "read_root_boundary hexdigest c answer =
    (case answer of
       RootReadFailed \<Rightarrow> Inl (VerificationDenied RC_AUTHORITY_UNAVAILABLE)
     | RootRead None \<Rightarrow> Inl (VerificationDenied RC_LINEAGE_INVALID)
     | RootRead (Some bundle) \<Rightarrow>
         (case inspect_root_authority_bundle hexdigest (vc_target c) bundle of
            None \<Rightarrow> Inl (VerificationDenied RC_AUTHORITY_UNAVAILABLE)
          | Some state \<Rightarrow> Inr state))"

definition root_names_match ::
  "verifier_configuration \<Rightarrow> task_request \<Rightarrow> addressed_root \<Rightarrow> verification_failure option" where
  "root_names_match c request root =
    (let claims = sg_claims (tr_capability request); intent = tr_intent request;
         content = ad_content root; plan = rc_rollout_plan content in
     first_failure
      [deny_if (rc_target content \<noteq> vc_target c \<or> cc_target claims \<noteq> vc_target c)
         RC_TARGET_BINDING_MISMATCH,
       deny_if (mi_target intent \<noteq> vc_target c) RC_TARGET_BINDING_MISMATCH,
       deny_if (cc_root_id claims \<noteq> ad_root_id root \<or> mi_root_id intent \<noteq> ad_root_id root
           \<or> cc_root_sha256 claims \<noteq> ad_root_sha256 root
           \<or> mi_root_sha256 intent \<noteq> ad_root_sha256 root)
         RC_LINEAGE_INVALID,
       deny_if (cc_stable_revision claims \<noteq> pl_stable_revision plan
           \<or> cc_candidate_revision claims \<noteq> pl_candidate_revision plan
           \<or> mi_stable_revision intent \<noteq> pl_stable_revision plan
           \<or> mi_candidate_revision intent \<noteq> pl_candidate_revision plan)
         RC_TARGET_BINDING_MISMATCH])"

definition provider_bindings_match :: "task_request \<Rightarrow> addressed_root \<Rightarrow> verification_failure option" where
  "provider_bindings_match request root =
    (let claims = sg_claims (tr_capability request); content = ad_content root in
     first_failure
      [deny_if (cc_action claims = AC_APPLY_CANARY
           \<and> cc_provider_etag claims \<noteq> ss_provider_etag (rc_stable_snapshot content))
         RC_TARGET_BINDING_MISMATCH,
       (if cc_action claims = AC_RECOVER_STABLE
        then deny_if (cc_concurrency claims \<noteq> Some (ab_concurrency (rc_authority_bounds content)))
               RC_TARGET_BINDING_MISMATCH
        else deny_if (cc_concurrency claims \<noteq> None) RC_CLAIM_BINDING_MISMATCH)])"

definition validate_root_bindings ::
  "hexdigest \<Rightarrow> verifier_configuration \<Rightarrow> task_request \<Rightarrow> addressed_root \<Rightarrow> lineage_anchor \<Rightarrow> int
    \<Rightarrow> unit verification" where
  "validate_root_bindings hexdigest c request root anchor now_second =
    (let claims = sg_claims (tr_capability request); intent = tr_intent request;
         content = ad_content root in
     guardS (root_names_match c request root)
     (bindS (or_raised (or_raise_contract (plan_sha256 hexdigest (rc_rollout_plan content))))
     (\<lambda>plan_digest.
       guardS (deny_if (cc_plan_sha256 claims \<noteq> plan_digest \<or> mi_plan_sha256 intent \<noteq> plan_digest)
         RC_CLAIM_BINDING_MISMATCH)
       (guardS (provider_bindings_match request root)
       (bindS (or_raised (capability_claims_match_root_authority hexdigest claims root anchor))
       (\<lambda>matches.
         guardS (deny_if (\<not> matches) RC_CLAIM_BINDING_MISMATCH)
         (bindS (time_of (rc_approved_at content))
         (\<lambda>approved.
           guardS (deny_if (approved > now_second) RC_LINEAGE_INVALID)
           (bindS (time_of (cc_issued_at claims))
           (\<lambda>issued. guardS (deny_if (issued < approved) RC_LINEAGE_INVALID) (Inr ())))))))))))"

section \<open>Ancestors and lineage\<close>

definition read_ancestors ::
  "(string \<Rightarrow> lineage_read) option \<Rightarrow> signed_capability \<Rightarrow> signed_capability list verification" where
  "read_ancestors lineage_reader leaf =
    (case cc_parent_capability_sha256 (sg_claims leaf) of
       None \<Rightarrow> Inr []
     | Some parent_sha256 \<Rightarrow>
         (case lineage_reader of
            None \<Rightarrow> Inl (VerificationDenied RC_LINEAGE_INVALID)
          | Some resolve_lineage \<Rightarrow>
              (case resolve_lineage parent_sha256 of
                 LineageReadFailed \<Rightarrow> Inl (VerificationDenied RC_AUTHORITY_UNAVAILABLE)
               | LineageRead None \<Rightarrow> Inl (VerificationDenied RC_LINEAGE_INVALID)
               | LineageRead (Some ancestors) \<Rightarrow>
                   (if ancestors = [] \<or> int (length ancestors) \<ge> MAX_LINEAGE_DEPTH
                       \<or> sg_claims_sha256 (last ancestors) \<noteq> parent_sha256
                    then Inl (VerificationDenied RC_LINEAGE_INVALID)
                    else Inr ancestors))))"

definition validate_claim_time :: "capability_claims \<Rightarrow> int \<Rightarrow> verification_failure option" where
  "validate_claim_time claims now_second =
    (case time_of (cc_not_before claims) of
       Inl e \<Rightarrow> Some e
     | Inr start \<Rightarrow>
         (if now_second < start then Some (VerificationDenied RC_CAPABILITY_NOT_YET_VALID)
          else
            (case time_of (cc_expires_at claims) of
               Inl e \<Rightarrow> Some e
             | Inr stop \<Rightarrow> deny_if (now_second \<ge> stop) RC_CAPABILITY_EXPIRED)))"

text \<open>A capability is issued while its predecessor in the chain is valid.\<close>

definition issued_within :: "capability_claims option \<Rightarrow> int \<Rightarrow> verification_failure option" where
  "issued_within previous issued =
    (case previous of
       None \<Rightarrow> None
     | Some p \<Rightarrow>
         (case time_of (cc_not_before p) of
            Inl e \<Rightarrow> Some e
          | Inr start \<Rightarrow>
              (if \<not> start \<le> issued then Some (VerificationDenied RC_LINEAGE_INVALID)
               else
                 (case time_of (cc_expires_at p) of
                    Inl e \<Rightarrow> Some e
                  | Inr stop \<Rightarrow> deny_if (\<not> issued < stop) RC_LINEAGE_INVALID))))"

definition lineage_grant :: "signed_capability \<Rightarrow> addressed_root \<Rightarrow> capability_grant result" where
  "lineage_grant capability root =
     bindR (capability_scope_from_claims (sg_claims capability) root)
     (\<lambda>scope. construct validate_grant
       \<lparr>gr_capability_sha256 = sg_claims_sha256 capability,
        gr_parent_capability_sha256 = cc_parent_capability_sha256 (sg_claims capability),
        gr_scope = scope\<rparr>)"

text \<open>One round of the loop of \<open>_validate_lineage\<close>; the leaf's envelope was verified before.\<close>

definition check_lineage_entry ::
  "crypto \<Rightarrow> capability_verifier \<Rightarrow> addressed_root \<Rightarrow> lineage_anchor \<Rightarrow> int \<Rightarrow> int
    \<Rightarrow> capability_claims option \<Rightarrow> string list \<Rightarrow> bool \<Rightarrow> signed_capability \<Rightarrow> capability_grant verification" where
  "check_lineage_entry cr v root anchor approved now_second previous ids is_leaf capability =
    (let claims = sg_claims capability in
     guardS (if is_leaf then None else verify_envelope cr v capability)
     (guardS (deny_if (\<not> claim_identity_matches (cv_configuration v) claims) RC_CLAIM_BINDING_MISMATCH)
     (bindS (time_of (cc_issued_at claims))
     (\<lambda>issued. guardS (deny_if (issued < approved) RC_LINEAGE_INVALID)
     (bindS (or_raised (capability_claims_match_root_authority (cr_hexdigest cr) claims root anchor))
     (\<lambda>matches. guardS (deny_if (\<not> matches) RC_SCOPE_AMPLIFICATION)
     (guardS (validate_claim_time claims now_second)
     (guardS (issued_within previous issued)
     (guardS (deny_if (cc_capability_id claims \<in> set ids) RC_LINEAGE_INVALID)
     (or_denied RC_LINEAGE_INVALID (lineage_grant capability root)))))))))))"

fun check_lineage_entries ::
  "crypto \<Rightarrow> capability_verifier \<Rightarrow> addressed_root \<Rightarrow> lineage_anchor \<Rightarrow> int \<Rightarrow> int
    \<Rightarrow> capability_claims option \<Rightarrow> string list \<Rightarrow> signed_capability list
    \<Rightarrow> capability_grant list verification" where
  "check_lineage_entries cr v root anchor approved now_second previous ids [] = Inr []"
| "check_lineage_entries cr v root anchor approved now_second previous ids (c # cs) =
     bindS (check_lineage_entry cr v root anchor approved now_second previous ids (cs = []) c)
     (\<lambda>grant. bindS
       (check_lineage_entries cr v root anchor approved now_second (Some (sg_claims c))
          (cc_capability_id (sg_claims c) # ids) cs)
     (\<lambda>grants. Inr (grant # grants)))"

text \<open>\<open>ReasonCode(result.reason.value)\<close>: the two enumerations have the same values.\<close>

fun reason_of_denial :: "denial_reason \<Rightarrow> reason_code" where
  "reason_of_denial DR_CONTRACT_INVALID = RC_CONTRACT_INVALID"
| "reason_of_denial DR_CONTRACT_VERSION_UNSUPPORTED = RC_CONTRACT_VERSION_UNSUPPORTED"
| "reason_of_denial DR_CALLER_UNAUTHENTICATED = RC_CALLER_UNAUTHENTICATED"
| "reason_of_denial DR_CALLER_UNAUTHORIZED = RC_CALLER_UNAUTHORIZED"
| "reason_of_denial DR_SIGNATURE_INVALID = RC_SIGNATURE_INVALID"
| "reason_of_denial DR_KEY_VERSION_UNTRUSTED = RC_KEY_VERSION_UNTRUSTED"
| "reason_of_denial DR_CAPABILITY_EXPIRED = RC_CAPABILITY_EXPIRED"
| "reason_of_denial DR_CAPABILITY_NOT_YET_VALID = RC_CAPABILITY_NOT_YET_VALID"
| "reason_of_denial DR_CLAIM_BINDING_MISMATCH = RC_CLAIM_BINDING_MISMATCH"
| "reason_of_denial DR_TARGET_BINDING_MISMATCH = RC_TARGET_BINDING_MISMATCH"
| "reason_of_denial DR_LINEAGE_INVALID = RC_LINEAGE_INVALID"
| "reason_of_denial DR_SCOPE_AMPLIFICATION = RC_SCOPE_AMPLIFICATION"
| "reason_of_denial DR_AUTHORITY_UNAVAILABLE = RC_AUTHORITY_UNAVAILABLE"
| "reason_of_denial DR_EPOCH_MISMATCH = RC_EPOCH_MISMATCH"
| "reason_of_denial DR_IDEMPOTENCY_CONFLICT = RC_IDEMPOTENCY_CONFLICT"
| "reason_of_denial DR_RECEIPT_IN_PROGRESS = RC_RECEIPT_IN_PROGRESS"
| "reason_of_denial DR_TRANSPORT_UNAVAILABLE = RC_TRANSPORT_UNAVAILABLE"
| "reason_of_denial DR_PROVIDER_PRECONDITION_FAILED = RC_PROVIDER_PRECONDITION_FAILED"
| "reason_of_denial DR_PROVIDER_REQUEST_REJECTED = RC_PROVIDER_REQUEST_REJECTED"
| "reason_of_denial DR_PROVIDER_OUTCOME_AMBIGUOUS = RC_PROVIDER_OUTCOME_AMBIGUOUS"
| "reason_of_denial DR_TRANSITION_INVALID = RC_TRANSITION_INVALID"
| "reason_of_denial DR_POLICY_UNHEALTHY = RC_POLICY_UNHEALTHY"

definition validate_capability_lineage ::
  "crypto \<Rightarrow> capability_verifier \<Rightarrow> signed_capability list \<Rightarrow> addressed_root \<Rightarrow> lineage_anchor \<Rightarrow> int
    \<Rightarrow> int verification" where
  "validate_capability_lineage cr v lineage root anchor_record now_second =
    (if lineage = [] \<or> int (length lineage) > MAX_LINEAGE_DEPTH
     then Inl (VerificationDenied RC_LINEAGE_INVALID)
     else
       bindS (time_of (rc_approved_at (ad_content root)))
       (\<lambda>approved. bindS (time_of (cc_issued_at (sg_claims (hd lineage))))
       (\<lambda>earliest. bindS (check_lineage_entries cr v root anchor_record approved now_second None [] lineage)
       (\<lambda>grants. bindS (or_denied RC_LINEAGE_INVALID
           (operator_lineage_anchor (cr_hexdigest cr) root anchor_record (sg_claims (hd lineage))))
       (\<lambda>anchor.
         let outcome = validate_lineage anchor grants MAX_LINEAGE_DEPTH in
         if \<not> li_allowed outcome
         then Inl (VerificationDenied
                (case li_reason outcome of None \<Rightarrow> RC_LINEAGE_INVALID | Some r \<Rightarrow> reason_of_denial r))
         else Inr earliest)))))"

section \<open>Verification\<close>

text \<open>
  \<open>verify\<close> after the request is decoded; \<open>clock\<close> is what the clock answered, \<open>None\<close> when it is not
  one whole UTC second.
\<close>

definition verify_task_request ::
  "crypto \<Rightarrow> capability_verifier \<Rightarrow> (string \<Rightarrow> root_read) \<Rightarrow> (string \<Rightarrow> lineage_read) option
    \<Rightarrow> int option \<Rightarrow> task_request \<Rightarrow> authentication_context \<Rightarrow> verified_mutation verification" where
  "verify_task_request cr v root_reader lineage_reader clock request caller =
    (let c = cv_configuration v in
     if mi_action (tr_intent request) \<in> {AC_PROMOTE_CANDIDATE, AC_RECOVER_STABLE}
     then Inl (VerificationDenied RC_CLAIM_BINDING_MISMATCH)
     else
       (case clock of
          None \<Rightarrow> Inl (VerificationDenied RC_AUTHORITY_UNAVAILABLE)
        | Some now_second \<Rightarrow>
            guardS (first_failure
              [validate_caller c caller now_second,
               precheck_target c request,
               verify_envelope cr v (tr_capability request),
               validate_time request now_second,
               validate_route_and_identity c request])
            (bindS (read_root_boundary (cr_hexdigest cr) c (root_reader (mi_root_id (tr_intent request))))
            (\<lambda>state. bindS (validate_root_bindings (cr_hexdigest cr) c request (ra_root state)
                (ra_lineage_anchor state) now_second)
            (\<lambda>_. bindS (read_ancestors lineage_reader (tr_capability request))
            (\<lambda>ancestors. bindS (validate_capability_lineage cr v (ancestors @ [tr_capability request])
                (ra_root state) (ra_lineage_anchor state) now_second)
            (\<lambda>earliest. bindS (or_raised (or_raise_contract (contract_sha256 (cr_hexdigest cr)
                SIGNED_CAPABILITY_V1 (signed_capability_json (tr_capability request)))))
            (\<lambda>capability_sha256. Inr
              \<lparr>vm_request = request, vm_root = ra_root state,
               vm_lineage_anchor = ra_lineage_anchor state, vm_caller = caller,
               vm_capability_sha256 = capability_sha256,
               vm_claims_sha256 = sg_claims_sha256 (tr_capability request),
               vm_earliest_lineage_issued_at = earliest\<rparr>))))))))"

end
