(* ===== verification/Execution.thy ===== *)
theory Execution
  imports CapabilityVerification ReceiptClaims
begin

text \<open>
  The final mutation gate, \<open>application/execution.py\<close>, for version 1 task requests: the lease on a
  freshly created receipt, the permit it turns into, and \<open>FinalMutationGate.execute\<close>. The coroutine is
  cut at its awaits into \<open>gate_enter\<close>, \<open>gate_prepared\<close> and \<open>gate_authority\<close>; between two parts any other
  coroutine may run. What is awaited (the prepared provider call, the bundle read, the clock, the
  mutation) is an argument. Leases and permits are values: an operation returns the object it leaves.
\<close>

section \<open>Leases and permits\<close>

datatype mutation_purpose = MP_STANDARD_EXECUTION | MP_STABLE_RECOVERY

datatype lease_state = LS_FRESH | LS_ENTERED | LS_CLOSED

record dispatch_lease =
  dl_claimed_receipt :: "execution_receipt stored_record"
  dl_binding :: mutation_binding
  dl_state :: lease_state

text \<open>\<open>ReceiptDispatchLease.__init__\<close> with the issuing key.\<close>

definition new_dispatch_lease ::
  "hexdigest \<Rightarrow> execution_receipt stored_record \<Rightarrow> mutation_binding \<Rightarrow> dispatch_lease result" where
  "new_dispatch_lease hexdigest claimed binding =
    (case checks
      [validate_initial_receipt_claim hexdigest claimed,
       fails_if (\<not> receipt_matches_binding hexdigest (sr_value claimed) binding)
         (ValueError ''receipt dispatch lease binding is invalid'')] of
       Some e \<Rightarrow> Inl e
     | None \<Rightarrow>
         Inr \<lparr>dl_claimed_receipt = claimed, dl_binding = binding, dl_state = LS_FRESH\<rparr>)"

text \<open>\<open>DefinitiveFreshClaimLeaseFactory.mint\<close>; the proof is left spent.\<close>

definition mint_lease :: "hexdigest \<Rightarrow> direct_receipt_create \<Rightarrow> dispatch_lease result \<times> direct_receipt_create" where
  "mint_lease hexdigest created =
    (case take_claim created of
       (Inl e, spent) \<Rightarrow> (Inl e, spent)
     | (Inr (claimed, binding), spent) \<Rightarrow> (new_dispatch_lease hexdigest claimed binding, spent))"

text \<open>\<open>_binding_matches_verified\<close>: the conjunction is evaluated from the left, and the target key and the
  digests can raise.\<close>

definition binding_matches_verified ::
  "hexdigest \<Rightarrow> mutation_binding \<Rightarrow> verified_mutation \<Rightarrow> bool result" where
  "binding_matches_verified hexdigest b vm =
    (let request = vm_request vm; intent = tr_intent request in
     if \<not> (mb_idempotency_key b = mi_idempotency_key intent
           \<and> mb_request_id b = mi_request_id intent
           \<and> mb_root_id b = mi_root_id intent
           \<and> mb_root_sha256 b = mi_root_sha256 intent
           \<and> mb_epoch b = mi_epoch intent
           \<and> mutation_action_value (mb_action b) = capability_action_value (mi_action intent))
     then Inr False
     else
       bindR (construct validate_target_key (target_key (mi_target intent)))
       (\<lambda>key.
         if \<not> (mb_target b = key
               \<and> mb_provider_precondition b = mi_provider_etag intent
               \<and> mb_plan_sha256 b = mi_plan_sha256 intent
               \<and> mb_capability_sha256 b = vm_capability_sha256 vm)
         then Inr False
         else
           bindR (or_raise_contract (contract_sha256 hexdigest TASK_REQUEST_V1 (task_request_json request)))
           (\<lambda>payload_sha256.
             if mb_payload_sha256 b \<noteq> payload_sha256 then Inr False
             else
               bindR (or_raise_contract (contract_sha256 hexdigest SIGNED_CAPABILITY_V1
                 (signed_capability_json (tr_capability request))))
               (\<lambda>capability_sha256. Inr
                 (vm_capability_sha256 vm = capability_sha256
                  \<and> vm_claims_sha256 vm = sg_claims_sha256 (tr_capability request)
                  \<and> mi_action intent \<noteq> AC_RECOVER_STABLE)))))"

definition lease_enter ::
  "hexdigest \<Rightarrow> dispatch_lease \<Rightarrow> verified_mutation \<Rightarrow> reason_code option result \<times> dispatch_lease" where
  "lease_enter hexdigest l vm =
    (if dl_state l \<noteq> LS_FRESH then (Inr (Some RC_RECEIPT_IN_PROGRESS), l)
     else
       (case binding_matches_verified hexdigest (dl_binding l) vm of
          Inl e \<Rightarrow> (Inl e, l\<lparr>dl_state := LS_ENTERED\<rparr>)
        | Inr False \<Rightarrow> (Inr (Some RC_IDEMPOTENCY_CONFLICT), l\<lparr>dl_state := LS_CLOSED\<rparr>)
        | Inr True \<Rightarrow> (Inr None, l\<lparr>dl_state := LS_ENTERED\<rparr>)))"

record final_authority_denial =
  fd_reason_code :: reason_code
  fd_claimed_receipt :: "execution_receipt stored_record"
  fd_observed_authority_epoch :: "int option"

definition validate_final_denial :: "hexdigest \<Rightarrow> final_authority_denial \<Rightarrow> check" where
  "validate_final_denial hexdigest d =
     checks
      [fails_if (case fd_observed_authority_epoch d of None \<Rightarrow> False | Some e \<Rightarrow> e < 1)
         (ValueError ''observed authority epoch is invalid''),
       validate_initial_receipt_claim hexdigest (fd_claimed_receipt d)]"

definition lease_denial ::
  "hexdigest \<Rightarrow> dispatch_lease \<Rightarrow> reason_code \<Rightarrow> int option \<Rightarrow> final_authority_denial result" where
  "lease_denial hexdigest l code epoch =
     construct (validate_final_denial hexdigest)
       \<lparr>fd_reason_code = code, fd_claimed_receipt = dl_claimed_receipt l,
        fd_observed_authority_epoch = epoch\<rparr>"

definition lease_close :: "dispatch_lease \<Rightarrow> dispatch_lease" where
  "lease_close l = (if dl_state l = LS_ENTERED then l\<lparr>dl_state := LS_CLOSED\<rparr> else l)"

record mutation_permit =
  mp_target :: target_binding
  mp_service_role :: service_role
  mp_intent :: mutation_intent
  mp_receipt_id :: string
  mp_binding :: mutation_binding
  mp_available :: bool

definition new_permit ::
  "target_binding \<Rightarrow> service_role \<Rightarrow> mutation_intent \<Rightarrow> string \<Rightarrow> mutation_binding \<Rightarrow> mutation_permit result" where
  "new_permit target role intent logical_id binding =
    (if mi_target intent \<noteq> target then Inl (TypeError ''mutation permit binding is invalid'')
     else Inr \<lparr>mp_target = target, mp_service_role = role, mp_intent = intent, mp_receipt_id = logical_id,
              mp_binding = binding, mp_available = True\<rparr>)"

definition lease_authorize ::
  "dispatch_lease \<Rightarrow> verified_mutation \<Rightarrow> target_binding \<Rightarrow> service_role
    \<Rightarrow> mutation_permit result \<times> dispatch_lease" where
  "lease_authorize l vm target role =
    (if dl_state l \<noteq> LS_ENTERED then (Inl (RuntimeError ''receipt dispatch lease is not active''), l)
     else
       (new_permit target role (tr_intent (vm_request vm))
          (er_receipt_id (sr_value (dl_claimed_receipt l))) (dl_binding l),
        l\<lparr>dl_state := LS_CLOSED\<rparr>))"

text \<open>The property \<open>intent\<close> consumes the permit; \<open>_close\<close> withdraws it.\<close>

definition permit_intent :: "mutation_permit \<Rightarrow> mutation_intent result \<times> mutation_permit" where
  "permit_intent p =
    (if \<not> mp_available p then (Inl (RuntimeError ''mutation permit is already consumed or closed''), p)
     else (Inr (mp_intent p), p\<lparr>mp_available := False\<rparr>))"

definition permit_close :: "mutation_permit \<Rightarrow> mutation_permit" where
  "permit_close p = p\<lparr>mp_available := False\<rparr>"

section \<open>The gate\<close>

record mutation_gate =
  mg_target :: target_binding
  mg_service_role :: service_role
  mg_route_policy :: route_policy
  mg_mutation_purpose :: mutation_purpose

text \<open>\<open>FinalMutationGate.__init__\<close> on the coordinates its dependencies report.\<close>

definition new_mutation_gate ::
  "target_binding \<Rightarrow> target_binding \<Rightarrow> service_role \<Rightarrow> mutation_purpose \<Rightarrow> target_binding option
    \<Rightarrow> route_policy \<Rightarrow> mutation_purpose \<Rightarrow> mutation_gate result" where
  "new_mutation_gate reader_target adapter_target role adapter_purpose receipt_target policy purpose =
    (case checks
      [fails_if (reader_target \<noteq> adapter_target)
         (ValueError ''final mutation dependencies do not share one exact target''),
       fails_if (role \<noteq> SVC_EXECUTOR)
         (ValueError ''final mutation adapter must use the executor identity''),
       fails_if (adapter_purpose \<noteq> purpose)
         (ValueError ''final mutation adapter purpose does not match the gate''),
       fails_if (rp_service_role policy \<noteq> role \<or> rp_project_id policy \<noteq> tb_project_id reader_target)
         (ValueError ''final mutation route policy does not match the adapter''),
       fails_if (cb_role (rp_caller policy)
           \<noteq> (if purpose = MP_STABLE_RECOVERY then CALL_RECOVERY else CALL_EXECUTION_TASK_CALLER))
         (ValueError ''final mutation route does not match its purpose''),
       fails_if (case receipt_target of None \<Rightarrow> False | Some t \<Rightarrow> t \<noteq> reader_target)
         (ValueError ''promotion source receipt reader does not share the exact target'')] of
       Some e \<Rightarrow> Inl e
     | None \<Rightarrow>
         Inr \<lparr>mg_target = reader_target, mg_service_role = role, mg_route_policy = policy,
              mg_mutation_purpose = purpose\<rparr>)"

definition final_caller_denial ::
  "verified_mutation \<Rightarrow> route_policy \<Rightarrow> int \<Rightarrow> reason_code option" where
  "final_caller_denial vm policy now_second =
    (let caller = vm_caller vm; request = vm_request vm in
     if ac_role caller \<noteq> cb_role (rp_caller policy)
        \<or> ac_email caller \<noteq> cb_email (rp_caller policy)
        \<or> ac_subject caller \<noteq> cb_subject (rp_caller policy)
        \<or> ac_audience caller \<noteq> rp_audience policy
        \<or> tr_handler_audience request \<noteq> cc_audience (sg_claims (tr_capability request))
        \<or> ac_issuer caller \<notin> set GOOGLE_ISSUERS
        \<or> \<not> (ac_issued_at caller \<le> now_second \<and> now_second < ac_expires_at caller)
        \<or> ac_expires_at caller - ac_issued_at caller > 3660
     then Some RC_CALLER_UNAUTHORIZED else None)"

definition claim_fence_matches :: "service_claim \<Rightarrow> epoch_authority_record \<Rightarrow> bool" where
  "claim_fence_matches claim auth \<longleftrightarrow>
     cl_status claim = CS_ACTIVE
     \<or> (au_revision auth \<ge> 1
        \<and> au_cause auth = EC_OPERATOR_REVOCATION
        \<and> cl_release_fence_epoch claim = Some (au_current_epoch auth)
        \<and> cl_release_fence_authority_revision claim = Some (au_revision auth)
        \<and> cl_release_fenced_by claim = Some (au_changed_by auth)
        \<and> cl_release_fence_request_id claim = Some (au_request_id auth)
        \<and> cl_release_fence_evidence_id claim = Some (au_evidence_id auth)
        \<and> cl_release_fenced_at claim = Some (au_changed_at auth))"

definition coherent_authority_epoch ::
  "hexdigest \<Rightarrow> root_bundle option \<Rightarrow> verified_mutation \<Rightarrow> target_binding \<Rightarrow> int option" where
  "coherent_authority_epoch hexdigest snapshot vm target =
    (case Option.bind snapshot (inspect_root_authority_bundle hexdigest target) of
       None \<Rightarrow> None
     | Some state \<Rightarrow>
         (let root = ra_root state; claim = ra_service_claim state; auth = ra_authority state;
              intent = tr_intent (vm_request vm) in
          if root \<noteq> vm_root vm
             \<or> ra_lineage_anchor state \<noteq> vm_lineage_anchor vm
             \<or> rc_target (ad_content root) \<noteq> target
             \<or> mi_target intent \<noteq> target
             \<or> ad_root_id root \<noteq> mi_root_id intent
             \<or> ad_root_sha256 root \<noteq> mi_root_sha256 intent
             \<or> cl_target claim \<noteq> target
             \<or> cl_root_id claim \<noteq> mi_root_id intent
             \<or> cl_root_sha256 claim \<noteq> mi_root_sha256 intent
             \<or> \<not> claim_lifecycle_revision_matches claim (ra_service_claim_revision state)
             \<or> \<not> claim_fence_matches claim auth
             \<or> au_target auth \<noteq> target
             \<or> au_root_id auth \<noteq> mi_root_id intent
             \<or> au_root_sha256 auth \<noteq> mi_root_sha256 intent
             \<or> au_current_epoch auth < 1
             \<or> ra_authority_revision state \<noteq> au_revision auth
             \<or> au_current_epoch auth \<noteq> au_revision auth + 1
          then None else Some (au_current_epoch auth)))"

definition role_admits :: "service_role \<Rightarrow> mutation_purpose \<Rightarrow> capability_action \<Rightarrow> bool" where
  "role_admits role purpose action \<longleftrightarrow>
     role = SVC_EXECUTOR
     \<and> (if purpose = MP_STABLE_RECOVERY then action = AC_RECOVER_STABLE
        else action \<in> {AC_APPLY_CANARY, AC_PROMOTE_CANDIDATE})"

text \<open>The window checks; a chained \<open>or\<close> stops at its first true operand.\<close>

definition before_start :: "verified_mutation \<Rightarrow> int \<Rightarrow> bool result" where
  "before_start vm now_second =
     bindR (parse_or_raise (cc_not_before (sg_claims (tr_capability (vm_request vm)))))
     (\<lambda>start. if now_second < start then Inr True
       else bindR (parse_or_raise (tr_scheduled_at (vm_request vm))) (\<lambda>t. Inr (now_second < t)))"

definition after_end :: "verified_mutation \<Rightarrow> int \<Rightarrow> bool result" where
  "after_end vm now_second =
     bindR (parse_or_raise (cc_expires_at (sg_claims (tr_capability (vm_request vm)))))
     (\<lambda>stop. if now_second \<ge> stop then Inr True
       else bindR (parse_or_raise (tr_expires_at (vm_request vm))) (\<lambda>t. Inr (now_second \<ge> t)))"

text \<open>Whether the claim is out of its active phase or the lineage predates the last epoch change.\<close>

definition authority_superseded :: "trusted_root_authority \<Rightarrow> verified_mutation \<Rightarrow> bool result" where
  "authority_superseded state vm =
    (if ra_service_claim_revision state mod 3 \<noteq> 0 \<or> cl_status (ra_service_claim state) \<noteq> CS_ACTIVE
     then Inr True
     else bindR (parse_or_raise (au_changed_at (ra_authority state)))
       (\<lambda>changed. Inr (vm_earliest_lineage_issued_at vm < changed)))"

definition window_denial :: "verified_mutation \<Rightarrow> mutation_gate \<Rightarrow> int \<Rightarrow> reason_code option result" where
  "window_denial vm g now_second =
     bindR (before_start vm now_second)
     (\<lambda>early. if early then Inr (Some RC_CAPABILITY_NOT_YET_VALID)
       else
         bindR (after_end vm now_second)
         (\<lambda>late. if late then Inr (Some RC_CAPABILITY_EXPIRED)
           else if \<not> role_admits (mg_service_role g) (mg_mutation_purpose g)
                     (mi_action (tr_intent (vm_request vm)))
           then Inr (Some RC_CLAIM_BINDING_MISMATCH)
           else Inr None))"

definition final_authority_denial_of ::
  "hexdigest \<Rightarrow> mutation_gate \<Rightarrow> root_bundle option \<Rightarrow> verified_mutation \<Rightarrow> int \<Rightarrow> reason_code option result" where
  "final_authority_denial_of hexdigest g snapshot vm now_second =
    (case Option.bind snapshot (inspect_root_authority_bundle hexdigest (mg_target g)) of
       None \<Rightarrow> Inr (Some RC_AUTHORITY_UNAVAILABLE)
     | Some state \<Rightarrow>
         (case final_caller_denial vm (mg_route_policy g) now_second of
            Some code \<Rightarrow> Inr (Some code)
          | None \<Rightarrow>
              (case coherent_authority_epoch hexdigest snapshot vm (mg_target g) of
                 None \<Rightarrow> Inr (Some RC_AUTHORITY_UNAVAILABLE)
               | Some epoch \<Rightarrow>
                   (if epoch \<noteq> mi_epoch (tr_intent (vm_request vm)) then Inr (Some RC_EPOCH_MISMATCH)
                    else
                      bindR (authority_superseded state vm)
                      (\<lambda>gone. if gone then Inr (Some RC_AUTHORITY_UNAVAILABLE)
                        else window_denial vm g now_second)))))"

section \<open>One execution, cut at its awaits\<close>

datatype gate_outcome =
    GateDenied final_authority_denial
  | GateRaised py_error
  | GateCancelled

datatype gate_step =
    GateFinished gate_outcome
  | AwaitPrepare
  | AwaitAuthority
  | AwaitMutation mutation_permit int

datatype prepare_answer =
    PrepareCancelled
  | PrepareFailed
  | NotPrepared
  | PreparedMutation target_binding service_role mutation_intent

datatype authority_answer = AuthorityCancelled | AuthorityRead root_read

definition denied :: "final_authority_denial result \<Rightarrow> gate_step" where
  "denied r = GateFinished (case r of Inl e \<Rightarrow> GateRaised e | Inr d \<Rightarrow> GateDenied d)"

definition close_with_denial ::
  "hexdigest \<Rightarrow> dispatch_lease \<Rightarrow> reason_code \<Rightarrow> int option \<Rightarrow> gate_step \<times> dispatch_lease" where
  "close_with_denial hexdigest l code epoch =
     (denied (lease_denial hexdigest l code epoch), lease_close l)"

definition gate_enter ::
  "hexdigest \<Rightarrow> mutation_gate \<Rightarrow> dispatch_lease \<Rightarrow> verified_mutation \<Rightarrow> gate_step \<times> dispatch_lease" where
  "gate_enter hexdigest g l vm =
    (case lease_enter hexdigest l vm of
       (Inl e, l') \<Rightarrow> (GateFinished (GateRaised e), l')
     | (Inr (Some code), l') \<Rightarrow> (denied (lease_denial hexdigest l' code None), l')
     | (Inr None, l') \<Rightarrow>
         (if mg_mutation_purpose g = MP_STABLE_RECOVERY
          then close_with_denial hexdigest l' RC_CLAIM_BINDING_MISMATCH None
          else (AwaitPrepare, l')))"

definition gate_prepared ::
  "hexdigest \<Rightarrow> mutation_gate \<Rightarrow> dispatch_lease \<Rightarrow> verified_mutation \<Rightarrow> prepare_answer
    \<Rightarrow> gate_step \<times> dispatch_lease" where
  "gate_prepared hexdigest g l vm answer =
    (case answer of
       PrepareCancelled \<Rightarrow>
         (case lease_denial hexdigest l RC_AUTHORITY_UNAVAILABLE None of
            Inl e \<Rightarrow> (GateFinished (GateRaised e), lease_close l)
          | Inr _ \<Rightarrow> (GateFinished GateCancelled, lease_close l))
     | PrepareFailed \<Rightarrow> close_with_denial hexdigest l RC_AUTHORITY_UNAVAILABLE None
     | NotPrepared \<Rightarrow> close_with_denial hexdigest l RC_CLAIM_BINDING_MISMATCH None
     | PreparedMutation target role intent \<Rightarrow>
         (if target = mg_target g \<and> role = mg_service_role g \<and> intent = tr_intent (vm_request vm)
          then (AwaitAuthority, l)
          else close_with_denial hexdigest l RC_CLAIM_BINDING_MISMATCH None))"

definition gate_fence ::
  "hexdigest \<Rightarrow> mutation_gate \<Rightarrow> dispatch_lease \<Rightarrow> verified_mutation \<Rightarrow> root_bundle option \<Rightarrow> int
    \<Rightarrow> gate_step \<times> dispatch_lease" where
  "gate_fence hexdigest g l vm snapshot now_second =
    (case final_authority_denial_of hexdigest g snapshot vm now_second of
       Inl e \<Rightarrow> (GateFinished (GateRaised e), l)
     | Inr denial \<Rightarrow>
         (let observed = coherent_authority_epoch hexdigest snapshot vm (mg_target g) in
          case denial of
            Some code \<Rightarrow> close_with_denial hexdigest l code observed
          | None \<Rightarrow>
              (case observed of
                 None \<Rightarrow> close_with_denial hexdigest l RC_AUTHORITY_UNAVAILABLE None
               | Some epoch \<Rightarrow>
                   (case lease_authorize l vm (mg_target g) (mg_service_role g) of
                      (Inl e, l') \<Rightarrow> (GateFinished (GateRaised e), l')
                    | (Inr permit, l') \<Rightarrow> (AwaitMutation permit epoch, l')))))"

definition gate_authority ::
  "hexdigest \<Rightarrow> mutation_gate \<Rightarrow> dispatch_lease \<Rightarrow> verified_mutation \<Rightarrow> authority_answer \<Rightarrow> int option
    \<Rightarrow> gate_step \<times> dispatch_lease" where
  "gate_authority hexdigest g l vm answer clock =
    (case answer of
       AuthorityCancelled \<Rightarrow>
         (case lease_denial hexdigest l RC_AUTHORITY_UNAVAILABLE None of
            Inl e \<Rightarrow> (GateFinished (GateRaised e), lease_close l)
          | Inr _ \<Rightarrow> (GateFinished GateCancelled, lease_close l))
     | AuthorityRead RootReadFailed \<Rightarrow> close_with_denial hexdigest l RC_AUTHORITY_UNAVAILABLE None
     | AuthorityRead (RootRead snapshot) \<Rightarrow>
         (case clock of
            None \<Rightarrow> close_with_denial hexdigest l RC_AUTHORITY_UNAVAILABLE None
          | Some now_second \<Rightarrow> gate_fence hexdigest g l vm snapshot now_second))"

text \<open>One call of \<open>execute\<close> that runs to the dispatch without another coroutine in between.\<close>

definition gate_execute ::
  "hexdigest \<Rightarrow> mutation_gate \<Rightarrow> dispatch_lease \<Rightarrow> verified_mutation \<Rightarrow> prepare_answer
    \<Rightarrow> authority_answer \<Rightarrow> int option \<Rightarrow> gate_step \<times> dispatch_lease" where
  "gate_execute hexdigest g l vm prepare auth clock =
    (case gate_enter hexdigest g l vm of
       (AwaitPrepare, l1) \<Rightarrow>
         (case gate_prepared hexdigest g l1 vm prepare of
            (AwaitAuthority, l2) \<Rightarrow> gate_authority hexdigest g l2 vm auth clock
          | stopped \<Rightarrow> stopped)
     | stopped \<Rightarrow> stopped)"

end
