(* ===== verification/ReceiptExecution.thy ===== *)
theory ReceiptExecution
  imports Execution AuthorityStore
begin

text \<open>
  Receipt-backed execution, \<open>application/receipt_execution.py\<close>, for version 1 task requests. A coroutine
  is a \<open>prog\<close>: a tree that asks one port at each await or clock call and goes on with the answer, so any
  other coroutine may run between two of its asks. \<open>None\<close> is an answer that raised an exception; a
  cancelled coroutine is one that is never continued. A datetime is kept as the text that
  \<open>_utc_second_text\<close> gives, and compared through its instant.
\<close>

section \<open>Results and answers\<close>

definition RECEIPT_ORPHAN_GRACE_SECONDS :: int where "RECEIPT_ORPHAN_GRACE_SECONDS = 60"
definition RECEIPT_QUEUE_MAX_BACKOFF_SECONDS :: int where "RECEIPT_QUEUE_MAX_BACKOFF_SECONDS = 10"
definition RECEIPT_NEW_CLAIM_RECOVERY_WINDOW_SECONDS :: int where
  "RECEIPT_NEW_CLAIM_RECOVERY_WINDOW_SECONDS =
     RECEIPT_ORPHAN_GRACE_SECONDS + RECEIPT_QUEUE_MAX_BACKOFF_SECONDS"

datatype mutation_status = MS_APPLIED | MS_FAILED_SAFE | MS_AMBIGUOUS

record receipt_mutation_result =
  rm_status :: mutation_status
  rm_provider_operation :: "string option"
  rm_reason_code :: "reason_code option"

definition validate_mutation_result :: "receipt_mutation_result \<Rightarrow> check" where
  "validate_mutation_result r =
     checks
      [fails_if (case rm_provider_operation r of None \<Rightarrow> False
           | Some s \<Rightarrow> s = [] \<or> s \<noteq> py_strip s \<or> length s > 512)
         (ValueError ''provider operation is invalid''),
       (case rm_status r of
          MS_APPLIED \<Rightarrow>
            fails_if (rm_reason_code r \<noteq> None \<or> rm_provider_operation r = None)
              (ValueError ''applied mutation result shape is invalid'')
        | MS_FAILED_SAFE \<Rightarrow>
            fails_if (rm_provider_operation r \<noteq> None
                \<or> rm_reason_code r \<notin> {Some RC_PROVIDER_PRECONDITION_FAILED, Some RC_TARGET_BINDING_MISMATCH,
                    Some RC_PROVIDER_REQUEST_REJECTED})
              (ValueError ''failed-safe mutation result shape is invalid'')
        | MS_AMBIGUOUS \<Rightarrow>
            fails_if (rm_reason_code r \<noteq> Some RC_PROVIDER_OUTCOME_AMBIGUOUS)
              (ValueError ''ambiguous mutation result shape is invalid''))]"

datatype cloud_run_outcome = CO_APPLIED | CO_FAILED_SAFE | CO_AMBIGUOUS

datatype cloud_run_reason =
  CR_PRECONDITION_FAILED | CR_DECLARATION_MISMATCH | CR_PROVIDER_REJECTED | CR_OUTCOME_UNKNOWN

text \<open>The dictionary \<open>reason_codes\<close>.\<close>

fun cloud_run_reason_code :: "cloud_run_reason \<Rightarrow> reason_code option" where
  "cloud_run_reason_code CR_PRECONDITION_FAILED = Some RC_PROVIDER_PRECONDITION_FAILED"
| "cloud_run_reason_code CR_DECLARATION_MISMATCH = Some RC_TARGET_BINDING_MISMATCH"
| "cloud_run_reason_code CR_PROVIDER_REJECTED = Some RC_PROVIDER_REQUEST_REJECTED"
| "cloud_run_reason_code CR_OUTCOME_UNKNOWN = None"

text \<open>On the three fields of a \<open>CloudRunMutationResult\<close> that the mapping reads.\<close>

definition map_cloud_run_mutation_result ::
  "cloud_run_outcome \<Rightarrow> string option \<Rightarrow> cloud_run_reason option \<Rightarrow> receipt_mutation_result result" where
  "map_cloud_run_mutation_result outcome operation reason =
    (case outcome of
       CO_APPLIED \<Rightarrow>
         construct validate_mutation_result
           \<lparr>rm_status = MS_APPLIED, rm_provider_operation = operation, rm_reason_code = None\<rparr>
     | CO_AMBIGUOUS \<Rightarrow>
         construct validate_mutation_result
           \<lparr>rm_status = MS_AMBIGUOUS, rm_provider_operation = operation,
            rm_reason_code = Some RC_PROVIDER_OUTCOME_AMBIGUOUS\<rparr>
     | CO_FAILED_SAFE \<Rightarrow>
         (case Option.bind reason cloud_run_reason_code of
            None \<Rightarrow> Inl (ValueError ''failed-safe Cloud Run mutation reason is invalid'')
          | Some code \<Rightarrow>
              construct validate_mutation_result
                \<lparr>rm_status = MS_FAILED_SAFE, rm_provider_operation = None, rm_reason_code = Some code\<rparr>))"

record receipt_readback =
  ob_state :: "target_configuration option"
  ob_etag :: "string option"

definition validate_receipt_readback :: "receipt_readback \<Rightarrow> check" where
  "validate_receipt_readback ob =
     fails_if (case ob_etag ob of None \<Rightarrow> False
         | Some s \<Rightarrow> s = [] \<or> s \<noteq> py_strip s \<or> length s > 512)
       (ValueError ''readback etag is invalid'')"

definition no_observation :: receipt_readback where
  "no_observation = \<lparr>ob_state = None, ob_etag = None\<rparr>"

datatype receipt_response =
    ReceiptStored "execution_receipt stored_record" "reason_code option"
  | ReceiptDenied reason_code

fun validate_receipt_response :: "receipt_response \<Rightarrow> check" where
  "validate_receipt_response (ReceiptStored r reason) =
    (if er_outcome (sr_value r) = OC_CLAIMED
     then fails_if (reason \<noteq> Some RC_RECEIPT_IN_PROGRESS)
            (ValueError ''claimed receipt response must be in progress'')
     else fails_if (reason \<noteq> er_reason_code (sr_value r))
            (ValueError ''receipt response reason does not match durable state''))"
| "validate_receipt_response (ReceiptDenied reason) =
     fails_if (reason \<notin> {RC_IDEMPOTENCY_CONFLICT, RC_AUTHORITY_UNAVAILABLE, RC_CAPABILITY_EXPIRED,
         RC_TARGET_BINDING_MISMATCH})
       (ValueError ''receipt execution denial reason is invalid'')"

datatype gate_answer =
  GateException | GateDenial final_authority_denial | GateMutation receipt_mutation_result int

section \<open>Coroutines\<close>

datatype 'a prog =
    Finish 'a
  | Throw py_error
  | AskClock "string option \<Rightarrow> 'a prog"
  | AskClaim execution_receipt mutation_binding "receipt_claim_result option \<Rightarrow> 'a prog"
  | AskRead string "execution_receipt stored_record option option \<Rightarrow> 'a prog"
  | AskReplace "execution_receipt stored_record" execution_receipt
      "execution_receipt stored_record option \<Rightarrow> 'a prog"
  | AskGate dispatch_lease verified_mutation "gate_answer \<Rightarrow> 'a prog"
  | AskReadback target_configuration "receipt_readback option \<Rightarrow> 'a prog"

primrec bindP :: "'a prog \<Rightarrow> ('a \<Rightarrow> 'b prog) \<Rightarrow> 'b prog" where
  "bindP (Finish x) f = f x"
| "bindP (Throw e) f = Throw e"
| "bindP (AskClock k) f = AskClock (\<lambda>a. bindP (k a) f)"
| "bindP (AskClaim r b k) f = AskClaim r b (\<lambda>a. bindP (k a) f)"
| "bindP (AskRead key k) f = AskRead key (\<lambda>a. bindP (k a) f)"
| "bindP (AskReplace s r k) f = AskReplace s r (\<lambda>a. bindP (k a) f)"
| "bindP (AskGate l vm k) f = AskGate l vm (\<lambda>a. bindP (k a) f)"
| "bindP (AskReadback t k) f = AskReadback t (\<lambda>a. bindP (k a) f)"

definition liftP :: "'a result \<Rightarrow> ('a \<Rightarrow> 'b prog) \<Rightarrow> 'b prog" where
  "liftP r f = (case r of Inl e \<Rightarrow> Throw e | Inr x \<Rightarrow> f x)"

text \<open>\<open>_require_utc_second(self._clock())\<close>.\<close>

definition read_clock :: "(string \<Rightarrow> 'a prog) \<Rightarrow> 'a prog" where
  "read_clock f = AskClock (\<lambda>answer.
     case answer of
       None \<Rightarrow> Throw (ValueError ''receipt execution clock is invalid'')
     | Some now \<Rightarrow>
         if is_utc_second now then f now else Throw (ValueError ''receipt execution clock is invalid''))"

text \<open>A response validates itself when it is built.\<close>

definition respond :: "receipt_response \<Rightarrow> receipt_response prog" where
  "respond r = liftP (construct validate_receipt_response r) Finish"

section \<open>Expected state, binding and first receipt\<close>

definition target_configuration_projection :: "mutation_intent \<Rightarrow> int \<Rightarrow> target_configuration result" where
  "target_configuration_projection i expected =
    (if mi_action i = AC_RECOVER_STABLE then Inl (ValueError ''legacy recovery intent is not admitted'')
     else if mi_concurrency i \<noteq> None \<and> mi_concurrency i \<noteq> Some expected
     then Inl (ValueError ''mutation intent concurrency does not match the expected concurrency'')
     else
       construct validate_target_configuration
         \<lparr>tg_target = mi_target i, tg_stable_revision = mi_stable_revision i,
          tg_candidate_revision = mi_candidate_revision i, tg_stable_percent = mi_stable_percent i,
          tg_candidate_percent = mi_candidate_percent i, tg_concurrency = expected\<rparr>)"

definition intent_target_sha256 :: "hexdigest \<Rightarrow> mutation_intent \<Rightarrow> int \<Rightarrow> string result" where
  "intent_target_sha256 hexdigest i expected =
     bindR (target_configuration_projection i expected) (target_configuration_sha256 hexdigest)"

definition expected_target_state :: "verified_mutation \<Rightarrow> target_configuration result" where
  "expected_target_state vm =
    (let intent = tr_intent (vm_request vm) in
     if mi_action intent = AC_RECOVER_STABLE
     then Inl (TypeError ''recovery requires the exact V2 recovery task request'')
     else target_configuration_projection intent
       (ab_concurrency (rc_authority_bounds (ad_content (vm_root vm)))))"

text \<open>\<open>MutationAction(intent.action.value)\<close>.\<close>

fun mutation_action_of :: "capability_action \<Rightarrow> mutation_action" where
  "mutation_action_of AC_APPLY_CANARY = MA_APPLY_CANARY"
| "mutation_action_of AC_PROMOTE_CANDIDATE = MA_PROMOTE_CANDIDATE"
| "mutation_action_of AC_RECOVER_STABLE = MA_RECOVER_STABLE"

definition mutation_binding_of ::
  "hexdigest \<Rightarrow> verified_mutation \<Rightarrow> target_configuration \<Rightarrow> mutation_binding result" where
  "mutation_binding_of hexdigest vm expected =
    (let intent = tr_intent (vm_request vm) in
     bindR (construct validate_target_key (target_key (mi_target intent)))
     (\<lambda>key. bindR (or_raise_contract (contract_sha256 hexdigest TASK_REQUEST_V1
         (task_request_json (vm_request vm))))
     (\<lambda>payload. bindR (intent_target_sha256 hexdigest intent (tg_concurrency expected))
     (\<lambda>poststate. construct validate_mutation_binding
       \<lparr>mb_idempotency_key = mi_idempotency_key intent, mb_request_id = mi_request_id intent,
        mb_root_id = mi_root_id intent, mb_root_sha256 = mi_root_sha256 intent, mb_epoch = mi_epoch intent,
        mb_action = mutation_action_of (mi_action intent), mb_target = key,
        mb_provider_precondition = mi_provider_etag intent, mb_plan_sha256 = mi_plan_sha256 intent,
        mb_capability_sha256 = vm_capability_sha256 vm, mb_payload_sha256 = payload,
        mb_expected_poststate_sha256 = poststate\<rparr>))))"

definition claimed_receipt_of ::
  "hexdigest \<Rightarrow> verified_mutation \<Rightarrow> mutation_binding \<Rightarrow> string \<Rightarrow> execution_receipt result" where
  "claimed_receipt_of hexdigest vm binding created =
    (let intent = tr_intent (vm_request vm) in
     bindR (receipt_logical_id hexdigest (mi_target intent) (mi_idempotency_key intent))
     (\<lambda>logical_id. construct validate_execution_receipt
       \<lparr>er_receipt_id = logical_id, er_request_id = mi_request_id intent,
        er_idempotency_key = mi_idempotency_key intent, er_capability_sha256 = vm_capability_sha256 vm,
        er_mutation_sha256 = mutation_identity hexdigest binding, er_plan_sha256 = mi_plan_sha256 intent,
        er_expected_poststate_sha256 = mb_expected_poststate_sha256 binding, er_target = mi_target intent,
        er_root_id = mi_root_id intent, er_root_sha256 = mi_root_sha256 intent, er_epoch = mi_epoch intent,
        er_action = mi_action intent, er_provider_etag = mi_provider_etag intent,
        er_dispatch_not_after = tr_expires_at (vm_request vm), er_outcome = OC_CLAIMED,
        er_reason_code = None, er_provider_operation = None, er_observed_etag = None,
        er_observed_authority_epoch = None, er_created_at = created, er_updated_at = created,
        er_evidence_ids = []\<rparr>))"

section \<open>Checks of stored receipts\<close>

definition valid_adopted_receipt ::
  "hexdigest \<Rightarrow> mutation_binding \<Rightarrow> verified_mutation \<Rightarrow> execution_receipt stored_record \<Rightarrow> bool result" where
  "valid_adopted_receipt hexdigest binding vm stored =
    (let receipt = sr_value stored; intent = tr_intent (vm_request vm) in
     bindR (receipt_logical_id hexdigest (mi_target intent) (mi_idempotency_key intent))
     (\<lambda>logical_id. Inr
       (er_receipt_id receipt = logical_id
        \<and> er_dispatch_not_after receipt = tr_expires_at (vm_request vm)
        \<and> receipt_matches_binding hexdigest receipt binding
        \<and> (if er_outcome receipt = OC_CLAIMED then sr_revision stored = 0 else sr_revision stored \<ge> 1))))"

text \<open>The tuple \<open>_receipt_cas_identity\<close>, as the receipt with every other field blanked.\<close>

definition receipt_cas_identity :: "execution_receipt \<Rightarrow> execution_receipt" where
  "receipt_cas_identity r =
     r\<lparr>er_outcome := OC_CLAIMED, er_reason_code := None, er_provider_operation := None,
       er_observed_etag := None, er_observed_authority_epoch := None, er_updated_at := [],
       er_evidence_ids := []\<rparr>"

fun reachable_outcomes :: "receipt_outcome \<Rightarrow> receipt_outcome set" where
  "reachable_outcomes OC_CLAIMED = {OC_DENIED, OC_APPLIED, OC_FAILED_SAFE, OC_AMBIGUOUS, OC_VERIFIED}"
| "reachable_outcomes OC_APPLIED = {OC_AMBIGUOUS, OC_VERIFIED}"
| "reachable_outcomes OC_AMBIGUOUS = {OC_AMBIGUOUS, OC_VERIFIED}"
| "reachable_outcomes _ = {}"

definition valid_monotonic_resolution ::
  "execution_receipt stored_record \<Rightarrow> execution_receipt stored_record \<Rightarrow> bool" where
  "valid_monotonic_resolution expected current =
    (let before = sr_value expected; after = sr_value current in
     if sr_revision current < sr_revision expected then False
     else if sr_revision current = sr_revision expected then current = expected
     else
       receipt_cas_identity before = receipt_cas_identity after
       \<and> er_updated_at before \<le> er_updated_at after
       \<and> is_prefix_of (er_evidence_ids before) (er_evidence_ids after)
       \<and> (if er_observed_authority_epoch before \<noteq> None
          then er_observed_authority_epoch after = er_observed_authority_epoch before
          else er_outcome before = OC_CLAIMED \<or> er_observed_authority_epoch after = None)
       \<and> (if er_provider_operation before \<noteq> None
          then er_provider_operation after = er_provider_operation before
          else er_outcome before = OC_CLAIMED \<or> er_provider_operation after = None)
       \<and> er_outcome after \<in> reachable_outcomes (er_outcome before)
       \<and> \<not> (er_outcome before = OC_CLAIMED \<and> er_outcome after = OC_VERIFIED
            \<and> sr_revision current < sr_revision expected + 2))"

section \<open>Replacements\<close>

definition denied_receipt :: "final_authority_denial \<Rightarrow> string \<Rightarrow> execution_receipt result" where
  "denied_receipt d updated =
     construct validate_execution_receipt
       ((sr_value (fd_claimed_receipt d))\<lparr>er_outcome := OC_DENIED, er_reason_code := Some (fd_reason_code d),
          er_observed_authority_epoch := fd_observed_authority_epoch d, er_updated_at := updated\<rparr>)"

fun outcome_of_status :: "mutation_status \<Rightarrow> receipt_outcome" where
  "outcome_of_status MS_APPLIED = OC_APPLIED"
| "outcome_of_status MS_FAILED_SAFE = OC_FAILED_SAFE"
| "outcome_of_status MS_AMBIGUOUS = OC_AMBIGUOUS"

definition provider_result_receipt ::
  "execution_receipt \<Rightarrow> receipt_mutation_result \<Rightarrow> int option \<Rightarrow> string \<Rightarrow> execution_receipt result" where
  "provider_result_receipt claimed r epoch updated =
     construct validate_execution_receipt
       (claimed\<lparr>er_outcome := outcome_of_status (rm_status r), er_reason_code := rm_reason_code r,
          er_provider_operation := rm_provider_operation r, er_observed_authority_epoch := epoch,
          er_updated_at := updated\<rparr>)"

definition verified_readback_receipt ::
  "execution_receipt \<Rightarrow> string \<Rightarrow> string \<Rightarrow> execution_receipt result" where
  "verified_readback_receipt current etag updated =
     construct validate_execution_receipt
       (current\<lparr>er_outcome := OC_VERIFIED, er_reason_code := None, er_observed_etag := Some etag,
          er_updated_at := updated\<rparr>)"

definition ambiguous_readback_receipt ::
  "execution_receipt \<Rightarrow> receipt_readback \<Rightarrow> string \<Rightarrow> execution_receipt result" where
  "ambiguous_readback_receipt current ob updated =
     construct validate_execution_receipt
       (current\<lparr>er_outcome := OC_AMBIGUOUS, er_reason_code := Some RC_PROVIDER_OUTCOME_AMBIGUOUS,
          er_observed_etag := ob_etag ob, er_updated_at := updated\<rparr>)"

definition ambiguous_mutation :: receipt_mutation_result where
  "ambiguous_mutation =
     \<lparr>rm_status = MS_AMBIGUOUS, rm_provider_operation = None,
      rm_reason_code = Some RC_PROVIDER_OUTCOME_AMBIGUOUS\<rparr>"

section \<open>The coordinator\<close>

text \<open>\<open>_persist_or_read\<close>; \<open>attempts\<close> counts the rounds of the loop that are left.\<close>

fun persist_attempts ::
  "hexdigest \<Rightarrow> mutation_binding \<Rightarrow> verified_mutation \<Rightarrow> execution_receipt stored_record
    \<Rightarrow> execution_receipt stored_record \<Rightarrow> nat \<Rightarrow> execution_receipt stored_record option prog" where
  "persist_attempts hexdigest binding vm expected new 0 = Finish None"
| "persist_attempts hexdigest binding vm expected new (Suc attempts) =
     AskReplace expected (sr_value new) (\<lambda>answer.
       case answer of
         Some committed \<Rightarrow> Finish (if committed \<noteq> new then None else Some committed)
       | None \<Rightarrow>
           AskRead (er_idempotency_key (sr_value expected)) (\<lambda>read.
             case read of
               None \<Rightarrow> Finish None
             | Some None \<Rightarrow> Finish None
             | Some (Some current) \<Rightarrow>
                 liftP (valid_adopted_receipt hexdigest binding vm current) (\<lambda>ok.
                   if \<not> ok \<or> \<not> valid_monotonic_resolution expected current then Finish None
                   else if current \<noteq> expected then Finish (Some current)
                   else if attempts = 0 then Finish None
                   else persist_attempts hexdigest binding vm expected new attempts)))"

definition persist_or_read ::
  "hexdigest \<Rightarrow> mutation_binding \<Rightarrow> verified_mutation \<Rightarrow> execution_receipt stored_record
    \<Rightarrow> execution_receipt \<Rightarrow> execution_receipt stored_record option prog" where
  "persist_or_read hexdigest binding vm expected replacement =
     liftP (construct validate_stored_record
       \<lparr>sr_value = replacement, sr_revision = sr_revision expected + 1\<rparr>) (\<lambda>new.
     liftP (valid_adopted_receipt hexdigest binding vm expected) (\<lambda>old_ok.
       if \<not> old_ok then Finish None
       else
         liftP (valid_adopted_receipt hexdigest binding vm new) (\<lambda>new_ok.
           if \<not> new_ok \<or> \<not> valid_monotonic_resolution expected new then Finish None
           else persist_attempts hexdigest binding vm expected new 2)))"

text \<open>Persist, and continue with what is then known to be stored.\<close>

definition persisted ::
  "hexdigest \<Rightarrow> mutation_binding \<Rightarrow> verified_mutation \<Rightarrow> execution_receipt stored_record
    \<Rightarrow> execution_receipt result \<Rightarrow> (execution_receipt stored_record \<Rightarrow> receipt_response prog)
    \<Rightarrow> receipt_response prog" where
  "persisted hexdigest binding vm expected replacement f =
     liftP replacement (\<lambda>replacement.
       bindP (persist_or_read hexdigest binding vm expected replacement) (\<lambda>stored.
         case stored of None \<Rightarrow> respond (ReceiptDenied RC_AUTHORITY_UNAVAILABLE) | Some s \<Rightarrow> f s))"

text \<open>The part of \<open>_readback_only\<close> after a claimed receipt was made ambiguous.\<close>

definition settle_observation ::
  "hexdigest \<Rightarrow> target_configuration \<Rightarrow> mutation_binding \<Rightarrow> verified_mutation \<Rightarrow> receipt_readback
    \<Rightarrow> execution_receipt stored_record \<Rightarrow> receipt_response prog" where
  "settle_observation hexdigest expected binding vm ob current =
    (let receipt = sr_value current in
     if er_outcome receipt \<in> {OC_DENIED, OC_FAILED_SAFE, OC_VERIFIED}
     then respond (ReceiptStored current (er_reason_code receipt))
     else if er_outcome receipt \<notin> {OC_APPLIED, OC_AMBIGUOUS}
     then respond (ReceiptStored current (Some RC_RECEIPT_IN_PROGRESS))
     else
       (let finish = (\<lambda>replacement. persisted hexdigest binding vm current replacement
              (\<lambda>s. respond (ReceiptStored s (er_reason_code (sr_value s)))));
            unresolved = read_clock (\<lambda>now.
              liftP (ambiguous_readback_receipt receipt ob now) (\<lambda>replacement.
                if er_outcome receipt = OC_AMBIGUOUS \<and> ob_etag ob = er_observed_etag receipt
                then respond (ReceiptStored current (er_reason_code receipt))
                else finish (Inr replacement)))
        in
        case ob_etag ob of
          None \<Rightarrow> unresolved
        | Some etag \<Rightarrow>
            (if ob_state ob \<noteq> Some expected then unresolved
             else
               liftP (intent_target_sha256 hexdigest (tr_intent (vm_request vm)) (tg_concurrency expected))
               (\<lambda>digest.
                 if digest \<noteq> er_expected_poststate_sha256 receipt then unresolved
                 else read_clock (\<lambda>now. finish (verified_readback_receipt receipt etag now))))))"

definition readback_only ::
  "hexdigest \<Rightarrow> target_configuration \<Rightarrow> mutation_binding \<Rightarrow> verified_mutation
    \<Rightarrow> execution_receipt stored_record \<Rightarrow> receipt_response prog" where
  "readback_only hexdigest expected binding vm stored =
     AskReadback expected (\<lambda>answer.
       let ob = (case answer of None \<Rightarrow> no_observation | Some ob \<Rightarrow> ob) in
       if er_outcome (sr_value stored) = OC_CLAIMED
       then read_clock (\<lambda>now.
         persisted hexdigest binding vm stored (ambiguous_readback_receipt (sr_value stored) ob now)
           (settle_observation hexdigest expected binding vm ob))
       else settle_observation hexdigest expected binding vm ob stored)"

definition orphan_recovery_at :: "execution_receipt \<Rightarrow> int result" where
  "orphan_recovery_at r =
     bindR (parse_or_raise (er_created_at r))
     (\<lambda>created. bindR (parse_or_raise (er_dispatch_not_after r))
     (\<lambda>deadline. Inr (min (created + RECEIPT_ORPHAN_GRACE_SECONDS) (max created (deadline - 1)))))"

definition handle_existing ::
  "hexdigest \<Rightarrow> target_configuration \<Rightarrow> mutation_binding \<Rightarrow> verified_mutation
    \<Rightarrow> execution_receipt stored_record \<Rightarrow> receipt_response prog" where
  "handle_existing hexdigest expected binding vm stored =
    (let receipt = sr_value stored in
     if er_outcome receipt \<in> {OC_DENIED, OC_FAILED_SAFE, OC_VERIFIED}
     then respond (ReceiptStored stored (er_reason_code receipt))
     else if er_outcome receipt = OC_CLAIMED
     then read_clock (\<lambda>now.
       liftP (bindR (parse_or_raise now) (\<lambda>t. bindR (orphan_recovery_at receipt) (\<lambda>at. Inr (t < at))))
       (\<lambda>fresh. if fresh then respond (ReceiptStored stored (Some RC_RECEIPT_IN_PROGRESS))
         else readback_only hexdigest expected binding vm stored))
     else readback_only hexdigest expected binding vm stored)"

definition handle_after_provider ::
  "hexdigest \<Rightarrow> target_configuration \<Rightarrow> mutation_binding \<Rightarrow> verified_mutation
    \<Rightarrow> execution_receipt stored_record \<Rightarrow> receipt_response prog" where
  "handle_after_provider hexdigest expected binding vm stored =
    (if er_outcome (sr_value stored) = OC_CLAIMED
     then readback_only hexdigest expected binding vm stored
     else handle_existing hexdigest expected binding vm stored)"

text \<open>What follows a read receipt in \<open>recover_orphaned\<close> and \<open>_adopt_without_new_claim\<close>.\<close>

definition adopt_read ::
  "hexdigest \<Rightarrow> target_configuration \<Rightarrow> mutation_binding \<Rightarrow> verified_mutation \<Rightarrow> reason_code
    \<Rightarrow> receipt_response prog" where
  "adopt_read hexdigest expected binding vm missing =
     AskRead (mi_idempotency_key (tr_intent (vm_request vm))) (\<lambda>read.
       case read of
         None \<Rightarrow> respond (ReceiptDenied RC_AUTHORITY_UNAVAILABLE)
       | Some None \<Rightarrow> respond (ReceiptDenied missing)
       | Some (Some stored) \<Rightarrow>
           liftP (valid_adopted_receipt hexdigest binding vm stored) (\<lambda>ok.
             if \<not> ok then respond (ReceiptDenied RC_IDEMPOTENCY_CONFLICT)
             else handle_existing hexdigest expected binding vm stored))"

definition expected_work ::
  "hexdigest \<Rightarrow> verified_mutation \<Rightarrow> (target_configuration \<times> mutation_binding) result" where
  "expected_work hexdigest vm =
     bindR (expected_target_state vm)
     (\<lambda>expected. bindR (mutation_binding_of hexdigest vm expected) (\<lambda>binding. Inr (expected, binding)))"

definition recover_orphaned :: "hexdigest \<Rightarrow> verified_mutation \<Rightarrow> receipt_response prog" where
  "recover_orphaned hexdigest vm =
    (case expected_work hexdigest vm of
       Inl _ \<Rightarrow> respond (ReceiptDenied RC_TARGET_BINDING_MISMATCH)
     | Inr (expected, binding) \<Rightarrow>
         adopt_read hexdigest expected binding vm RC_AUTHORITY_UNAVAILABLE)"

text \<open>What \<open>execute\<close> does with the answer of the final gate.\<close>

definition after_gate ::
  "hexdigest \<Rightarrow> target_configuration \<Rightarrow> mutation_binding \<Rightarrow> verified_mutation
    \<Rightarrow> execution_receipt stored_record \<Rightarrow> gate_answer \<Rightarrow> receipt_response prog" where
  "after_gate hexdigest expected binding vm claimed answer =
    (case answer of
       GateException \<Rightarrow>
         read_clock (\<lambda>now.
           persisted hexdigest binding vm claimed
             (provider_result_receipt (sr_value claimed) ambiguous_mutation None now)
             (handle_after_provider hexdigest expected binding vm))
     | GateDenial denial \<Rightarrow>
         read_clock (\<lambda>now.
           persisted hexdigest binding vm claimed (denied_receipt denial now)
             (handle_existing hexdigest expected binding vm))
     | GateMutation r epoch \<Rightarrow>
         read_clock (\<lambda>now.
           persisted hexdigest binding vm claimed
             (provider_result_receipt (sr_value claimed) r (Some epoch) now)
             (handle_after_provider hexdigest expected binding vm)))"

text \<open>What \<open>execute\<close> does with the answer of the store to its claim.\<close>

definition after_claim ::
  "hexdigest \<Rightarrow> target_configuration \<Rightarrow> mutation_binding \<Rightarrow> verified_mutation
    \<Rightarrow> receipt_claim_result option \<Rightarrow> receipt_response prog" where
  "after_claim hexdigest expected binding vm answer =
    (case answer of
       None \<Rightarrow> respond (ReceiptDenied RC_AUTHORITY_UNAVAILABLE)
     | Some (ReceiptClaimConflict _) \<Rightarrow> respond (ReceiptDenied RC_IDEMPOTENCY_CONFLICT)
     | Some (ReceiptClaimAdopted stored) \<Rightarrow>
         liftP (valid_adopted_receipt hexdigest binding vm stored) (\<lambda>ok.
           if \<not> ok then respond (ReceiptDenied RC_AUTHORITY_UNAVAILABLE)
           else handle_existing hexdigest expected binding vm stored)
     | Some (ReceiptClaimCreated stored created) \<Rightarrow>
         liftP (valid_adopted_receipt hexdigest binding vm stored) (\<lambda>ok.
           if \<not> ok then respond (ReceiptDenied RC_AUTHORITY_UNAVAILABLE)
           else
             liftP (fst (mint_lease hexdigest created)) (\<lambda>lease.
               AskGate lease vm (after_gate hexdigest expected binding vm stored))))"

definition coordinator_execute :: "hexdigest \<Rightarrow> verified_mutation \<Rightarrow> receipt_response prog" where
  "coordinator_execute hexdigest vm =
    (case expected_work hexdigest vm of
       Inl _ \<Rightarrow> respond (ReceiptDenied RC_TARGET_BINDING_MISMATCH)
     | Inr (expected, binding) \<Rightarrow>
         read_clock (\<lambda>now.
           liftP (bindR (parse_or_raise now) (\<lambda>t. bindR (parse_or_raise (tr_expires_at (vm_request vm)))
             (\<lambda>stop. Inr (t + RECEIPT_NEW_CLAIM_RECOVERY_WINDOW_SECONDS \<ge> stop))))
           (\<lambda>late.
             if late then adopt_read hexdigest expected binding vm RC_CAPABILITY_EXPIRED
             else
               liftP (claimed_receipt_of hexdigest vm binding now) (\<lambda>claimed.
                 AskClaim claimed binding (after_claim hexdigest expected binding vm)))))"

end
