(* ===== verification/AmbiguousReadback.thy ===== *)
theory AmbiguousReadback
  imports ReceiptExecution CapabilityVerification
begin

text \<open>
  The readback-only resolution of one ambiguous receipt, \<open>contracts/ambiguous_receipt_readback.py\<close> and
  \<open>application/ambiguous_receipt_readback.py\<close>. The ports are functions of what they are asked; each
  read of the run is an argument of its own, because the store may have moved between two reads. \<open>None\<close>
  is an answer that raised.
\<close>

section \<open>The command\<close>

definition EXECUTION_RECEIPT_V1 :: string where
  "EXECUTION_RECEIPT_V1 = ''controlgraph.execution-receipt/v1''"
definition AMBIGUOUS_RECEIPT_READBACK_COMMAND_V1 :: string where
  "AMBIGUOUS_RECEIPT_READBACK_COMMAND_V1 = ''controlgraph.ambiguous-receipt-readback-command/v1''"
definition READBACK_ONLY_CONFIRMATION :: string where "READBACK_ONLY_CONFIRMATION = ''READBACK_ONLY''"
definition RESOLUTION_EVIDENCE_DOMAIN :: bytes where
  "RESOLUTION_EVIDENCE_DOMAIN =
     ascii_bytes ''controlgraph.ambiguous-receipt-readback-resolution-evidence/v1'' @ [0]"

datatype readback_disposition = RD_RESOLVED | RD_ADOPTED

record readback_command =
  rk_root_id :: string
  rk_expected_root_sha256 :: string
  rk_expected_epoch :: int
  rk_action :: capability_action
  rk_request_id :: string
  rk_idempotency_key :: string
  rk_capability_sha256 :: string
  rk_expected_receipt_sha256 :: string
  rk_expected_storage_revision :: int
  rk_expected_ambiguous_observed_etag :: string
  rk_expected_ambiguous_updated_at :: string

definition validate_readback_command :: "readback_command \<Rightarrow> check" where
  "validate_readback_command c =
     checks
      [field ''root_id'' (is_identifier (rk_root_id c)),
       field ''expected_root_sha256'' (is_sha256 (rk_expected_root_sha256 c)),
       field ''expected_epoch'' (positive_safe_integer (rk_expected_epoch c)),
       field ''action'' (rk_action c \<in> {AC_APPLY_CANARY, AC_RECOVER_STABLE}),
       field ''request_id'' (is_identifier (rk_request_id c)),
       field ''idempotency_key'' (is_identifier (rk_idempotency_key c)),
       field ''capability_sha256'' (is_sha256 (rk_capability_sha256 c)),
       field ''expected_receipt_sha256'' (is_sha256 (rk_expected_receipt_sha256 c)),
       field ''expected_storage_revision'' (nonneg_safe_integer (rk_expected_storage_revision c)),
       field ''expected_ambiguous_observed_etag'' (is_opaque_token (rk_expected_ambiguous_observed_etag c)),
       field ''expected_ambiguous_updated_at'' (is_utc_second (rk_expected_ambiguous_updated_at c))]"

definition readback_command_json :: "readback_command \<Rightarrow> json" where
  "readback_command_json c =
     JObj [(''schema_version'', JStr AMBIGUOUS_RECEIPT_READBACK_COMMAND_V1), (''root_id'', JStr (rk_root_id c)),
           (''expected_root_sha256'', JStr (rk_expected_root_sha256 c)),
           (''expected_epoch'', JInt (rk_expected_epoch c)),
           (''action'', JStr (capability_action_value (rk_action c))),
           (''request_id'', JStr (rk_request_id c)), (''idempotency_key'', JStr (rk_idempotency_key c)),
           (''capability_sha256'', JStr (rk_capability_sha256 c)),
           (''expected_receipt_sha256'', JStr (rk_expected_receipt_sha256 c)),
           (''expected_storage_revision'', JInt (rk_expected_storage_revision c)),
           (''expected_ambiguous_observed_etag'', JStr (rk_expected_ambiguous_observed_etag c)),
           (''expected_ambiguous_updated_at'', JStr (rk_expected_ambiguous_updated_at c)),
           (''confirmation'', JStr READBACK_ONLY_CONFIRMATION)]"

fun receipt_outcome_value :: "receipt_outcome \<Rightarrow> string" where
  "receipt_outcome_value OC_CLAIMED = ''CLAIMED''"
| "receipt_outcome_value OC_DENIED = ''DENIED''"
| "receipt_outcome_value OC_APPLIED = ''APPLIED''"
| "receipt_outcome_value OC_FAILED_SAFE = ''FAILED_SAFE''"
| "receipt_outcome_value OC_AMBIGUOUS = ''AMBIGUOUS''"
| "receipt_outcome_value OC_VERIFIED = ''VERIFIED''"

definition execution_receipt_json :: "execution_receipt \<Rightarrow> json" where
  "execution_receipt_json r =
     JObj [(''schema_version'', JStr EXECUTION_RECEIPT_V1), (''receipt_id'', JStr (er_receipt_id r)),
           (''request_id'', JStr (er_request_id r)), (''idempotency_key'', JStr (er_idempotency_key r)),
           (''capability_sha256'', JStr (er_capability_sha256 r)),
           (''mutation_sha256'', JStr (er_mutation_sha256 r)), (''plan_sha256'', JStr (er_plan_sha256 r)),
           (''expected_poststate_sha256'', JStr (er_expected_poststate_sha256 r)),
           (''target'', target_binding_json (er_target r)), (''root_id'', JStr (er_root_id r)),
           (''root_sha256'', JStr (er_root_sha256 r)), (''epoch'', JInt (er_epoch r)),
           (''action'', JStr (capability_action_value (er_action r))),
           (''provider_etag'', JStr (er_provider_etag r)),
           (''dispatch_not_after'', JStr (er_dispatch_not_after r)),
           (''outcome'', JStr (receipt_outcome_value (er_outcome r))),
           (''reason_code'', json_opt (\<lambda>x. JStr (reason_code_value x)) (er_reason_code r)),
           (''provider_operation'', json_opt JStr (er_provider_operation r)),
           (''observed_etag'', json_opt JStr (er_observed_etag r)),
           (''observed_authority_epoch'', json_opt JInt (er_observed_authority_epoch r)),
           (''created_at'', JStr (er_created_at r)), (''updated_at'', JStr (er_updated_at r)),
           (''evidence_ids'', JList (map JStr (er_evidence_ids r)))]"

definition execution_receipt_sha256 :: "hexdigest \<Rightarrow> execution_receipt \<Rightarrow> string result" where
  "execution_receipt_sha256 hexdigest r =
     or_raise_contract (contract_sha256 hexdigest EXECUTION_RECEIPT_V1 (execution_receipt_json r))"

definition resolution_evidence_id :: "hexdigest \<Rightarrow> readback_command \<Rightarrow> string result" where
  "resolution_evidence_id hexdigest c =
     bindR (or_raise_contract (canonical_json_value_bytes (readback_command_json c)))
     (\<lambda>encoded. Inr (''cgrrb:'' @ hexdigest (RESOLUTION_EVIDENCE_DOMAIN @ encoded)))"

text \<open>\<open>evidence_ids[-1] == marker\<close> and \<open>evidence_ids.count(marker) == 1\<close>.\<close>

definition marked_once :: "string \<Rightarrow> execution_receipt \<Rightarrow> bool" where
  "marked_once marker r \<longleftrightarrow>
     er_evidence_ids r \<noteq> [] \<and> last (er_evidence_ids r) = marker \<and> count_list (er_evidence_ids r) marker = 1"

definition reconstruct_ambiguous_receipt_predecessor ::
  "hexdigest \<Rightarrow> readback_command \<Rightarrow> execution_receipt \<Rightarrow> execution_receipt result" where
  "reconstruct_ambiguous_receipt_predecessor hexdigest c verified =
     bindR (resolution_evidence_id hexdigest c) (\<lambda>marker.
       if er_outcome verified \<noteq> OC_VERIFIED \<or> \<not> marked_once marker verified
       then Inl (ValueError ''verified receipt does not contain one resolution marker'')
       else construct validate_execution_receipt
         (verified\<lparr>er_outcome := OC_AMBIGUOUS, er_reason_code := Some RC_PROVIDER_OUTCOME_AMBIGUOUS,
            er_observed_etag := Some (rk_expected_ambiguous_observed_etag c),
            er_updated_at := rk_expected_ambiguous_updated_at c,
            er_evidence_ids := butlast (er_evidence_ids verified)\<rparr>))"

section \<open>The result\<close>

definition command_sha256 :: "hexdigest \<Rightarrow> readback_command \<Rightarrow> string result" where
  "command_sha256 hexdigest c =
     or_raise_contract (contract_sha256 hexdigest AMBIGUOUS_RECEIPT_READBACK_COMMAND_V1 (readback_command_json c))"

record readback_result =
  rr_disposition :: readback_disposition
  rr_command :: readback_command
  rr_command_sha256 :: string
  rr_resolution_evidence_id :: string
  rr_stored_receipt :: "execution_receipt stored_record"

definition result_bindings_hold :: "readback_result \<Rightarrow> bool" where
  "result_bindings_hold r \<longleftrightarrow>
    (let c = rr_command r; receipt = sr_value (rr_stored_receipt r) in
     sr_revision (rr_stored_receipt r) = rk_expected_storage_revision c + 1
     \<and> er_root_id receipt = rk_root_id c \<and> er_root_sha256 receipt = rk_expected_root_sha256 c
     \<and> er_epoch receipt = rk_expected_epoch c \<and> er_action receipt = rk_action c
     \<and> er_request_id receipt = rk_request_id c \<and> er_idempotency_key receipt = rk_idempotency_key c
     \<and> er_capability_sha256 receipt = rk_capability_sha256 c
     \<and> er_outcome receipt = OC_VERIFIED \<and> er_reason_code receipt = None
     \<and> er_observed_etag receipt \<noteq> None \<and> er_provider_operation receipt \<noteq> None
     \<and> er_observed_authority_epoch receipt = Some (rk_expected_epoch c)
     \<and> rk_expected_ambiguous_updated_at c \<le> er_updated_at receipt
     \<and> marked_once (rr_resolution_evidence_id r) receipt)"

definition validate_result_bindings :: "hexdigest \<Rightarrow> readback_result \<Rightarrow> unit result" where
  "validate_result_bindings hexdigest r =
    (let c = rr_command r; wrong = Inl (ValueError ''readback result does not contain one marked verified receipt'') in
     case reconstruct_ambiguous_receipt_predecessor hexdigest c (sr_value (rr_stored_receipt r)) of
       Inl _ \<Rightarrow> Inl (ValueError ''readback result does not reconstruct its pinned predecessor'')
     | Inr predecessor \<Rightarrow>
         bindR (command_sha256 hexdigest c) (\<lambda>sha.
           if rr_command_sha256 r \<noteq> sha then wrong
           else bindR (resolution_evidence_id hexdigest c) (\<lambda>marker.
             if rr_resolution_evidence_id r \<noteq> marker \<or> \<not> result_bindings_hold r then wrong
             else bindR (execution_receipt_sha256 hexdigest predecessor) (\<lambda>pinned.
               if pinned \<noteq> rk_expected_receipt_sha256 c then wrong else Inr ()))))"

definition ambiguous_receipt_readback_result ::
  "hexdigest \<Rightarrow> readback_command \<Rightarrow> readback_disposition \<Rightarrow> execution_receipt stored_record
    \<Rightarrow> readback_result result" where
  "ambiguous_receipt_readback_result hexdigest c disposition stored =
     bindR (command_sha256 hexdigest c)
     (\<lambda>sha. bindR (resolution_evidence_id hexdigest c)
     (\<lambda>marker. bindR (construct (\<lambda>s. checks
         [field ''command_sha256'' (is_sha256 sha), field ''resolution_evidence_id'' (is_identifier marker)]) ())
     (\<lambda>_.
       (let r = \<lparr>rr_disposition = disposition, rr_command = c, rr_command_sha256 = sha,
                rr_resolution_evidence_id = marker, rr_stored_receipt = stored\<rparr> in
        bindR (validate_result_bindings hexdigest r) (\<lambda>_. Inr r)))))"

section \<open>The checks of the resolver\<close>

datatype readback_error =
    RE_RECEIPT_UNAVAILABLE | RE_RECEIPT_MISSING | RE_RECEIPT_CONFLICT | RE_RECEIPT_STATE_DENIED
  | RE_ROOT_UNAVAILABLE | RE_ROOT_BINDING_MISMATCH | RE_AUTHORITY_STALE | RE_OPERATION_UNVERIFIED
  | RE_POSTSTATE_UNVERIFIED | RE_COMPARE_AND_SET_UNCONFIRMED

datatype resolver_failure = ReadbackError readback_error | ReadbackRaised py_error

type_synonym 'a resolution = "resolver_failure + 'a"

definition raising :: "'a result \<Rightarrow> 'a resolution" where
  "raising r = (case r of Inl e \<Rightarrow> Inl (ReadbackRaised e) | Inr x \<Rightarrow> Inr x)"

definition refuse_if :: "bool \<Rightarrow> readback_error \<Rightarrow> resolver_failure option" where
  "refuse_if b e = (if b then Some (ReadbackError e) else None)"

definition receipt_matches_locator ::
  "hexdigest \<Rightarrow> target_binding \<Rightarrow> readback_command \<Rightarrow> execution_receipt \<Rightarrow> bool result" where
  "receipt_matches_locator hexdigest target c r =
     bindR (receipt_logical_id hexdigest target (rk_idempotency_key c)) (\<lambda>logical_id. Inr
       (er_receipt_id r = logical_id \<and> er_target r = target \<and> er_root_id r = rk_root_id c
        \<and> er_root_sha256 r = rk_expected_root_sha256 c \<and> er_epoch r = rk_expected_epoch c
        \<and> er_action r = rk_action c \<and> er_request_id r = rk_request_id c
        \<and> er_idempotency_key r = rk_idempotency_key c \<and> er_capability_sha256 r = rk_capability_sha256 c))"

definition adoption_candidate ::
  "hexdigest \<Rightarrow> readback_command \<Rightarrow> execution_receipt stored_record \<Rightarrow> bool result" where
  "adoption_candidate hexdigest c stored =
     bindR (resolution_evidence_id hexdigest c) (\<lambda>marker. Inr
       (er_outcome (sr_value stored) = OC_VERIFIED
        \<and> sr_revision stored = rk_expected_storage_revision c + 1 \<and> marked_once marker (sr_value stored)))"

definition is_exact_adopted_receipt ::
  "hexdigest \<Rightarrow> readback_command \<Rightarrow> execution_receipt stored_record \<Rightarrow> bool result" where
  "is_exact_adopted_receipt hexdigest c stored =
    (let r = sr_value stored in
     bindR (resolution_evidence_id hexdigest c) (\<lambda>marker.
       if \<not> (sr_revision stored = rk_expected_storage_revision c + 1 \<and> er_outcome r = OC_VERIFIED
              \<and> er_reason_code r = None \<and> er_observed_etag r \<noteq> None \<and> er_provider_operation r \<noteq> None
              \<and> er_observed_authority_epoch r = Some (rk_expected_epoch c) \<and> marked_once marker r
              \<and> rk_expected_ambiguous_updated_at c \<le> er_updated_at r)
       then Inr False
       else
         (case reconstruct_ambiguous_receipt_predecessor hexdigest c r of
            Inl _ \<Rightarrow> Inr False
          | Inr predecessor \<Rightarrow>
              bindR (execution_receipt_sha256 hexdigest predecessor)
              (\<lambda>digest. Inr (digest = rk_expected_receipt_sha256 c)))))"

definition require_exact_ambiguous ::
  "hexdigest \<Rightarrow> target_binding \<Rightarrow> readback_command \<Rightarrow> execution_receipt stored_record \<Rightarrow> unit resolution" where
  "require_exact_ambiguous hexdigest target c stored =
    (let r = sr_value stored in
     bindS (raising (receipt_matches_locator hexdigest target c r)) (\<lambda>located.
     guardS (refuse_if (\<not> located) RE_RECEIPT_CONFLICT)
     (guardS (refuse_if (sr_revision stored \<noteq> rk_expected_storage_revision c) RE_RECEIPT_CONFLICT)
     (bindS (raising (execution_receipt_sha256 hexdigest r)) (\<lambda>digest.
     guardS (refuse_if (digest \<noteq> rk_expected_receipt_sha256 c) RE_RECEIPT_CONFLICT)
     (guardS (refuse_if
         (er_outcome r \<noteq> OC_AMBIGUOUS \<or> er_reason_code r \<noteq> Some RC_PROVIDER_OUTCOME_AMBIGUOUS
          \<or> er_provider_operation r = None
          \<or> er_observed_etag r \<noteq> Some (rk_expected_ambiguous_observed_etag c)
          \<or> er_updated_at r \<noteq> rk_expected_ambiguous_updated_at c)
       RE_RECEIPT_STATE_DENIED)
     (Inr ())))))))"

record resolved_boundary =
  rb_expected_poststate :: target_configuration
  rb_authority :: "epoch_authority_record stored_record"
  rb_service_claim :: "service_claim stored_record"

text \<open>The literals of a plan's traffic are 90 and 10.\<close>

definition boundary_poststate ::
  "target_binding \<Rightarrow> readback_command \<Rightarrow> addressed_root \<Rightarrow> target_configuration result" where
  "boundary_poststate target c root =
    (let plan = rc_rollout_plan (ad_content root) in
     construct validate_target_configuration
       \<lparr>tg_target = target, tg_stable_revision = pl_stable_revision plan,
        tg_candidate_revision = pl_candidate_revision plan,
        tg_stable_percent = (if rk_action c = AC_RECOVER_STABLE then 100 else 90),
        tg_candidate_percent = (if rk_action c = AC_RECOVER_STABLE then 0 else 10),
        tg_concurrency = pl_concurrency plan\<rparr>)"

definition boundary_of ::
  "hexdigest \<Rightarrow> target_binding \<Rightarrow> readback_command \<Rightarrow> execution_receipt \<Rightarrow> trusted_root_authority
    \<Rightarrow> resolved_boundary resolution" where
  "boundary_of hexdigest target c r trusted =
    (let root = ra_root trusted; content = ad_content root; claim = ra_service_claim trusted;
         auth = ra_authority trusted in
     bindS (raising (boundary_poststate target c root)) (\<lambda>expected.
     guardS (refuse_if
         (ad_root_id root \<noteq> rk_root_id c \<or> ad_root_sha256 root \<noteq> rk_expected_root_sha256 c
          \<or> er_root_id r \<noteq> ad_root_id root \<or> er_root_sha256 r \<noteq> ad_root_sha256 root
          \<or> er_target r \<noteq> rc_target content \<or> er_action r \<noteq> rk_action c)
       RE_ROOT_BINDING_MISMATCH)
     (bindS (raising (or_raise_contract (plan_sha256 hexdigest (rc_rollout_plan content)))) (\<lambda>plan_digest.
     guardS (refuse_if
         (er_plan_sha256 r \<noteq> plan_digest
          \<or> (rk_action c = AC_APPLY_CANARY
             \<and> er_provider_etag r \<noteq> ss_provider_etag (rc_stable_snapshot content)))
       RE_ROOT_BINDING_MISMATCH)
     (bindS (raising (target_configuration_sha256 hexdigest expected)) (\<lambda>post_digest.
     guardS (refuse_if (er_expected_poststate_sha256 r \<noteq> post_digest) RE_ROOT_BINDING_MISMATCH)
     (guardS (refuse_if
         (cl_status claim \<noteq> CS_ACTIVE \<or> au_current_epoch auth \<noteq> rk_expected_epoch c
          \<or> er_epoch r \<noteq> au_current_epoch auth
          \<or> er_observed_authority_epoch r \<noteq> Some (au_current_epoch auth))
       RE_AUTHORITY_STALE)
     (Inr \<lparr>rb_expected_poststate = expected,
           rb_authority = \<lparr>sr_value = auth, sr_revision = ra_authority_revision trusted\<rparr>,
           rb_service_claim = \<lparr>sr_value = claim, sr_revision = ra_service_claim_revision trusted\<rparr>\<rparr>))))))))"

definition read_and_validate_boundary ::
  "hexdigest \<Rightarrow> target_binding \<Rightarrow> readback_command \<Rightarrow> (string \<Rightarrow> root_read) \<Rightarrow> execution_receipt stored_record
    \<Rightarrow> resolved_boundary resolution" where
  "read_and_validate_boundary hexdigest target c read_bundle stored =
     bindS (raising (receipt_matches_locator hexdigest target c (sr_value stored))) (\<lambda>located.
     guardS (refuse_if (\<not> located) RE_RECEIPT_CONFLICT)
     (case read_bundle (rk_root_id c) of
        RootReadFailed \<Rightarrow> Inl (ReadbackError RE_ROOT_UNAVAILABLE)
      | RootRead None \<Rightarrow> Inl (ReadbackError RE_ROOT_UNAVAILABLE)
      | RootRead (Some bundle) \<Rightarrow>
          (case inspect_root_authority_bundle hexdigest target bundle of
             None \<Rightarrow> Inl (ReadbackError RE_ROOT_BINDING_MISMATCH)
           | Some trusted \<Rightarrow> boundary_of hexdigest target c (sr_value stored) trusted)))"

definition is_exact_resolution_replacement ::
  "execution_receipt \<Rightarrow> execution_receipt \<Rightarrow> string \<Rightarrow> string \<Rightarrow> bool" where
  "is_exact_resolution_replacement before after marker etag \<longleftrightarrow>
     after\<lparr>er_outcome := er_outcome before, er_reason_code := er_reason_code before,
        er_observed_etag := er_observed_etag before, er_updated_at := er_updated_at before,
        er_evidence_ids := er_evidence_ids before\<rparr> = before
     \<and> er_outcome after = OC_VERIFIED \<and> er_reason_code after = None \<and> er_observed_etag after = Some etag
     \<and> er_updated_at before \<le> er_updated_at after \<and> er_evidence_ids after = er_evidence_ids before @ [marker]"

section \<open>The run\<close>

record resolver_ports =
  rp_read_receipt :: "string \<Rightarrow> execution_receipt stored_record option option"
  rp_first_bundle :: "string \<Rightarrow> root_read"
  rp_terminal_success :: "string \<Rightarrow> bool option"
  rp_readback :: "target_configuration \<Rightarrow> receipt_readback option"
  rp_second_bundle :: "string \<Rightarrow> root_read"
  rp_clock :: string

record resolution_submission =
  su_stored :: "execution_receipt stored_record"
  su_replacement :: execution_receipt
  su_authority :: "epoch_authority_record stored_record"
  su_service_claim :: "service_claim stored_record"

datatype resolver_step = Answered readback_result | Submit resolution_submission

text \<open>\<open>resolve\<close> from the observed poststate to the call of the store.\<close>

definition prepare_submission ::
  "hexdigest \<Rightarrow> target_binding \<Rightarrow> readback_command \<Rightarrow> resolver_ports \<Rightarrow> execution_receipt stored_record
    \<Rightarrow> resolved_boundary \<Rightarrow> string \<Rightarrow> resolver_step resolution" where
  "prepare_submission hexdigest target c ports stored boundary etag =
    (let r = sr_value stored in
     bindS (read_and_validate_boundary hexdigest target c (rp_second_bundle ports) stored) (\<lambda>refreshed.
     guardS (refuse_if (rb_expected_poststate refreshed \<noteq> rb_expected_poststate boundary) RE_ROOT_BINDING_MISMATCH)
     (bindS (raising (resolution_evidence_id hexdigest c)) (\<lambda>marker.
     guardS (refuse_if (marker \<in> set (er_evidence_ids r) \<or> length (er_evidence_ids r) \<ge> 64) RE_RECEIPT_CONFLICT)
     (guardS (if is_utc_second (rp_clock ports) then None
         else Some (ReadbackRaised (ValueError ''readback-only resolver clock is invalid'')))
     (bindS (raising (bindR (parse_or_raise (er_updated_at r)) (\<lambda>updated.
         bindR (parse_or_raise (rp_clock ports)) (\<lambda>now. Inr (updated > now))))) (\<lambda>future.
     guardS (refuse_if future RE_RECEIPT_CONFLICT)
     (bindS (raising (construct validate_execution_receipt
         (r\<lparr>er_outcome := OC_VERIFIED, er_reason_code := None, er_observed_etag := Some etag,
            er_updated_at := rp_clock ports, er_evidence_ids := er_evidence_ids r @ [marker]\<rparr>)))
     (\<lambda>replacement.
     guardS (refuse_if (\<not> is_exact_resolution_replacement r replacement marker etag) RE_RECEIPT_CONFLICT)
     (Inr (Submit \<lparr>su_stored = stored, su_replacement = replacement, su_authority = rb_authority refreshed,
        su_service_claim = rb_service_claim refreshed\<rparr>)))))))))))"

definition resolve_before_store ::
  "hexdigest \<Rightarrow> target_binding \<Rightarrow> readback_command \<Rightarrow> resolver_ports \<Rightarrow> resolver_step resolution" where
  "resolve_before_store hexdigest target c ports =
    (case rp_read_receipt ports (rk_idempotency_key c) of
       None \<Rightarrow> Inl (ReadbackError RE_RECEIPT_UNAVAILABLE)
     | Some None \<Rightarrow> Inl (ReadbackError RE_RECEIPT_MISSING)
     | Some (Some stored) \<Rightarrow>
         bindS (raising (adoption_candidate hexdigest c stored)) (\<lambda>candidate.
         if candidate then
           bindS (raising (is_exact_adopted_receipt hexdigest c stored)) (\<lambda>exact.
           guardS (refuse_if (\<not> exact) RE_RECEIPT_STATE_DENIED)
           (bindS (raising (ambiguous_receipt_readback_result hexdigest c RD_ADOPTED stored))
           (\<lambda>result. Inr (Answered result))))
         else
           bindS (require_exact_ambiguous hexdigest target c stored) (\<lambda>_.
           bindS (read_and_validate_boundary hexdigest target c (rp_first_bundle ports) stored) (\<lambda>boundary.
           (case er_provider_operation (sr_value stored) of
              None \<Rightarrow> Inl (ReadbackError RE_OPERATION_UNVERIFIED)
            | Some operation \<Rightarrow>
                guardS (refuse_if (rp_terminal_success ports operation \<noteq> Some True) RE_OPERATION_UNVERIFIED)
                (case rp_readback ports (rb_expected_poststate boundary) of
                   None \<Rightarrow> Inl (ReadbackError RE_POSTSTATE_UNVERIFIED)
                 | Some observed \<Rightarrow>
                     (case ob_etag observed of
                        None \<Rightarrow> Inl (ReadbackError RE_POSTSTATE_UNVERIFIED)
                      | Some etag \<Rightarrow>
                          guardS (refuse_if (ob_state observed \<noteq> Some (rb_expected_poststate boundary))
                            RE_POSTSTATE_UNVERIFIED)
                          (prepare_submission hexdigest target c ports stored boundary etag))))))))"

text \<open>
  What follows the call of the store; \<open>None\<close> is a call that raised. The receipt is then read once more.
\<close>

definition resolve_after_store ::
  "hexdigest \<Rightarrow> readback_command \<Rightarrow> resolution_submission \<Rightarrow> execution_receipt stored_record option
    \<Rightarrow> (string \<Rightarrow> execution_receipt stored_record option option) \<Rightarrow> readback_result resolution" where
  "resolve_after_store hexdigest c s answer read_after =
    (case answer of
       Some updated \<Rightarrow>
         bindS (raising (construct validate_stored_record
             \<lparr>sr_value = su_replacement s, sr_revision = sr_revision (su_stored s) + 1\<rparr>)) (\<lambda>expected.
         guardS (refuse_if (updated \<noteq> expected) RE_COMPARE_AND_SET_UNCONFIRMED)
         (raising (ambiguous_receipt_readback_result hexdigest c RD_RESOLVED updated)))
     | None \<Rightarrow>
         (case read_after (rk_idempotency_key c) of
            Some (Some current) \<Rightarrow>
              bindS (raising (is_exact_adopted_receipt hexdigest c current)) (\<lambda>exact.
              guardS (refuse_if (\<not> exact) RE_COMPARE_AND_SET_UNCONFIRMED)
              (raising (ambiguous_receipt_readback_result hexdigest c RD_ADOPTED current)))
          | _ \<Rightarrow> Inl (ReadbackError RE_COMPARE_AND_SET_UNCONFIRMED)))"

definition resolve_command ::
  "hexdigest \<Rightarrow> target_binding \<Rightarrow> readback_command \<Rightarrow> resolver_ports
    \<Rightarrow> (resolution_submission \<Rightarrow> execution_receipt stored_record option)
    \<Rightarrow> (string \<Rightarrow> execution_receipt stored_record option option) \<Rightarrow> readback_result resolution" where
  "resolve_command hexdigest target c ports store read_after =
     bindS (resolve_before_store hexdigest target c ports) (\<lambda>step.
       case step of
         Answered result \<Rightarrow> Inr result
       | Submit s \<Rightarrow> resolve_after_store hexdigest c s (store s) read_after)"

end
