(* ===== verification/RootAuthorityProps.thy ===== *)
theory RootAuthorityProps
  imports RootAuthority
begin

text \<open>
  What the root boundary gives its clients: an inspected bundle is coherent, a capability that
  matches a root is inside the lineage policy projected from it, and a chain of such capabilities
  cannot outlive the first one's window. The project-number comparison of the two root audiences is
  shown to compare nothing.
\<close>

section \<open>Exact identifiers\<close>

definition good_char :: "char \<Rightarrow> bool" where
  "good_char c \<longleftrightarrow> \<not> py_space c \<and> \<not> wildcard c"

lemma exact_identifierI: "s \<noteq> [] \<Longrightarrow> list_all good_char s \<Longrightarrow> exact_identifier s"
  by (cases s) (auto simp: exact_identifier_def is_nonblank_iff good_char_def list_all_iff list_ex_iff)

lemma lower_alnum_good: "lower_alnum c \<Longrightarrow> good_char c"
  by (auto simp: lower_alnum_def lower_char_def is_digit_char_def good_char_def py_space_def
      wildcard_def Let_def char_code_def)

lemma alnum_good: "alnum_char c \<Longrightarrow> good_char c"
  by (auto simp: alnum_char_def upper_char_def lower_char_def is_digit_char_def good_char_def
      py_space_def wildcard_def Let_def char_code_def)

lemma set_chars_good:
  "c \<in> set ''._~:/+=-'' \<Longrightarrow> good_char c" "c \<in> set ''._:-'' \<Longrightarrow> good_char c" "good_char (CHR 0x22)"
  "good_char (CHR ''-'')" "good_char (CHR ''@'')"
  by (auto simp: good_char_def py_space_def wildcard_def Let_def char_code_def)

lemma list_all_good: "list_all p s \<Longrightarrow> (\<And>c. p c \<Longrightarrow> good_char c) \<Longrightarrow> list_all good_char s"
  by (auto simp: list_all_iff)

lemma is_identifier_exact: "is_identifier s \<Longrightarrow> exact_identifier s"
  by (rule exact_identifierI)
    (auto simp: is_identifier_def intro: alnum_good set_chars_good elim!: list_all_good)

lemma token_good: "token_char c \<Longrightarrow> good_char c"
  unfolding token_char_def using alnum_good set_chars_good(1) by blast

lemma is_opaque_token_exact:
  assumes "is_opaque_token s"
  shows "exact_identifier s"
proof (cases "list_all token_char s")
  case True
  with assms show ?thesis
    by (intro exact_identifierI) (auto simp: is_opaque_token_def intro: list_all_good token_good)
next
  case False
  with assms have s: "3 \<le> length s" "hd s = CHR 0x22" "last s = CHR 0x22"
      "list_all token_char (butlast (tl s))"
    by (auto simp: is_opaque_token_def)
  from s(1) have t: "s = hd s # tl s" "tl s \<noteq> []"
    by (cases s; cases "tl s"; simp)+
  then have "s = hd s # butlast (tl s) @ [last s]"
    using append_butlast_last_id [OF t(2)] by (metis last_tl)
  with s(2,3) have "s = CHR 0x22 # butlast (tl s) @ [CHR 0x22]"
    by simp
  moreover have "list_all good_char (butlast (tl s))"
    using s(4) by (rule list_all_good) (rule token_good)
  ultimately have "list_all good_char s"
    using set_chars_good(3) by (metis list.pred_inject list_all_append)
  with s(1) show ?thesis by (intro exact_identifierI) auto
qed

lemma is_cloud_run_name_exact: "is_cloud_run_name s \<Longrightarrow> exact_identifier s"
  by (rule exact_identifierI)
    (auto simp: is_cloud_run_name_def name_char_def intro: lower_alnum_good set_chars_good elim!: list_all_good)

lemma starts_with_split: "starts_with p s \<longleftrightarrow> s = p @ drop (length p) s"
  by (metis append_eq_conv_conj append_take_drop_id starts_with_def)

lemma controlgraph_project_good:
  assumes "controlgraph_project s"
  shows "list_all good_char s \<and> s \<noteq> []"
proof -
  let ?t = "drop (length ''controlgraph-canary-'') s"
  have "s = ''controlgraph-canary-'' @ ?t" "list_all lower_alnum ?t"
    using assms unfolding controlgraph_project_def Let_def by (simp_all add: starts_with_split)
  moreover have "list_all good_char ''controlgraph-canary-''"
    by code_simp
  ultimately show ?thesis
    using list_all_good [OF _ lower_alnum_good] by (metis append_is_Nil_conv list.distinct(1) list_all_append)
qed

lemma root_target_exact:
  assumes "validate_root_target t = None"
  shows "exact_identifier (tb_project_id t)" "exact_identifier (tb_region t)"
    "exact_identifier (tb_environment t)" "exact_identifier (tb_service_name t)"
proof -
  have fixed: "tb_region t = ''us-central1''" "tb_environment t = ''nonprod''"
    "tb_service_name t = ''controlgraph-reference-target''" "controlgraph_project (tb_project_id t)"
    using assms by (simp_all add: validate_root_target_def)
  have known: "exact_identifier ''us-central1''" "exact_identifier ''nonprod''"
    "exact_identifier ''controlgraph-reference-target''"
    by code_simp+
  show "exact_identifier (tb_project_id t)"
    using controlgraph_project_good [OF fixed(4)] by (intro exact_identifierI) auto
  show "exact_identifier (tb_region t)" "exact_identifier (tb_environment t)"
    "exact_identifier (tb_service_name t)"
    using fixed known by simp_all
qed

lemma split_at_Some: "split_at sep s = (a, Some b) \<Longrightarrow> s = a @ sep # b"
proof -
  assume eq: "split_at sep s = (a, Some b)"
  then obtain x where x: "dropWhile (\<lambda>c. c \<noteq> sep) s = x # b" "a = takeWhile (\<lambda>c. c \<noteq> sep) s"
    by (auto simp: split_at_def split: list.splits)
  then have "x = sep"
    using hd_dropWhile [of "\<lambda>c. c \<noteq> sep" s] by simp
  with x show "s = a @ sep # b"
    using takeWhile_dropWhile_id [of "\<lambda>c. c \<noteq> sep" s] by simp
qed

lemma ends_with_split: "ends_with p s \<Longrightarrow> s = take (length s - length p) s @ p"
  unfolding ends_with_def by (metis append_take_drop_id)

lemma role_identity_exact:
  assumes "role_identity identity = Some rp"
  shows "exact_identifier identity"
proof -
  let ?suffix = "''.iam.gserviceaccount.com''"
  from assms obtain local domain where parts: "split_at (CHR ''@'') identity = (local, Some domain)"
    "local \<in> {''controlgraph-issuer'', ''controlgraph-executor'', ''controlgraph-recovery''}"
    "ends_with ?suffix domain" "controlgraph_project (take (length domain - length ?suffix) domain)"
    by (auto simp: role_identity_def Let_def split: prod.splits option.splits if_splits)
  have "list_all good_char ''controlgraph-issuer''" "list_all good_char ''controlgraph-executor''"
    "list_all good_char ''controlgraph-recovery''" "list_all good_char ?suffix"
    by code_simp+
  then have "list_all good_char local" "list_all good_char ?suffix"
    using parts(2) by auto
  moreover have "list_all good_char domain"
    using ends_with_split [OF parts(3)] controlgraph_project_good [OF parts(4)] calculation(2)
    by (metis list_all_append)
  ultimately show ?thesis
    using set_chars_good(5) by (intro exact_identifierI) (simp_all add: split_at_Some [OF parts(1)])
qed

section \<open>Matching claims\<close>

lemma or_raise_contract_Inr [simp]: "or_raise_contract r = Inr x \<longleftrightarrow> r = Inr x"
  by (cases r) (auto simp: or_raise_contract_def)

lemma parse_or_raise_Inr [simp]: "parse_or_raise s = Inr t \<longleftrightarrow> parse_utc_second s = Some t"
  by (auto simp: parse_or_raise_def split: option.splits)

definition claims_match ::
  "hexdigest \<Rightarrow> capability_claims \<Rightarrow> addressed_root \<Rightarrow> lineage_anchor \<Rightarrow> bool" where
  "claims_match h c r a \<longleftrightarrow> capability_claims_match_root_authority h c r a = Inr True"

lemma claims_match_facts:
  assumes "claims_match h c r a"
  obtains issued starts expires approved plan_sha bounds_sha where
    "capability_lineage_anchor h r = Inr a"
    "parse_utc_second (cc_issued_at c) = Some issued" "parse_utc_second (cc_not_before c) = Some starts"
    "parse_utc_second (cc_expires_at c) = Some expires"
    "parse_utc_second (rc_approved_at (ad_content r)) = Some approved"
    "claims_bindings_hold c r a plan_sha bounds_sha"
    "claims_times_hold (rc_authority_bounds (ad_content r)) approved issued starts expires"
    "cc_action c = AC_APPLY_CANARY \<Longrightarrow> cc_provider_etag c = ss_provider_etag (rc_stable_snapshot (ad_content r))"
  using assms unfolding claims_match_def capability_claims_match_root_authority_def Let_def
  by (auto simp: bindR_eq_Inr_iff split: if_splits option.splits prod.splits)

definition wf_root :: "hexdigest \<Rightarrow> addressed_root \<Rightarrow> bool" where
  "wf_root h r \<longleftrightarrow> validate_addressed_root h r = None"

lemma wf_root_bounds:
  assumes "wf_root h r"
  shows "validate_root_authority_bounds (rc_authority_bounds (ad_content r)) = None"
    "validate_root_target (rc_target (ad_content r)) = None"
    "is_opaque_token (ss_provider_etag (rc_stable_snapshot (ad_content r)))"
    "is_sha256 (ad_root_sha256 r)"
  using assms
  by (auto simp: wf_root_def validate_addressed_root_def validate_root_content_def
      validate_content_fields_def validate_content_bindings_def validate_stable_snapshot_def Let_def)

lemma role_identity_present: "validate_role_identity i role project = None \<Longrightarrow> role_identity i \<noteq> None"
  by (cases "role_identity i") (simp_all add: validate_role_identity_def)

lemma bounds_facts:
  assumes "validate_root_authority_bounds b = None"
  shows "validate_root_action_grant (ab_apply_canary b) = None"
    "validate_root_action_grant (ab_promote_candidate b) = None"
    "validate_root_action_grant (ab_recover_stable b) = None"
    "ag_action (ab_apply_canary b) = AC_APPLY_CANARY"
    "ag_action (ab_promote_candidate b) = AC_PROMOTE_CANDIDATE"
    "ag_action (ab_recover_stable b) = AC_RECOVER_STABLE"
    "ag_subject_identity (ab_apply_canary b) = ab_executor_identity b"
    "ag_subject_identity (ab_promote_candidate b) = ab_executor_identity b"
    "ag_subject_identity (ab_recover_stable b) = ab_recovery_identity b"
    "role_identity (ab_executor_identity b) \<noteq> None" "role_identity (ab_recovery_identity b) \<noteq> None"
    "1 \<le> ab_concurrency b" "ab_concurrency b \<le> 1000"
    "1 \<le> ab_maximum_capability_lifetime_seconds b" "ab_maximum_capability_lifetime_seconds b \<le> 900"
proof -
  from assms have f: "validate_bounds_fields b = None" and c: "validate_closed_bounds b = None"
    by (simp_all add: validate_root_authority_bounds_def)
  from f show "validate_root_action_grant (ab_apply_canary b) = None"
    "validate_root_action_grant (ab_promote_candidate b) = None"
    "validate_root_action_grant (ab_recover_stable b) = None"
    "1 \<le> ab_concurrency b" "ab_concurrency b \<le> 1000"
    "1 \<le> ab_maximum_capability_lifetime_seconds b" "ab_maximum_capability_lifetime_seconds b \<le> 900"
    by (simp_all add: validate_bounds_fields_def is_concurrency_def)
  from c show "ag_action (ab_apply_canary b) = AC_APPLY_CANARY"
    "ag_action (ab_promote_candidate b) = AC_PROMOTE_CANDIDATE"
    "ag_action (ab_recover_stable b) = AC_RECOVER_STABLE"
    "ag_subject_identity (ab_apply_canary b) = ab_executor_identity b"
    "ag_subject_identity (ab_promote_candidate b) = ab_executor_identity b"
    "ag_subject_identity (ab_recover_stable b) = ab_recovery_identity b"
    by (simp_all add: validate_closed_bounds_def grant_is_exact_def Let_def)
  from c have "validate_role_identity (ab_executor_identity b) ''executor'' (tb_project_id (ab_target b)) = None"
    and "validate_role_identity (ab_recovery_identity b) ''recovery'' (tb_project_id (ab_target b)) = None"
    by (simp_all add: validate_closed_bounds_def Let_def)
  then show "role_identity (ab_executor_identity b) \<noteq> None" "role_identity (ab_recovery_identity b) \<noteq> None"
    by (auto dest: role_identity_present)
qed

lemma closed_traffic:
  "validate_root_action_grant g = None \<Longrightarrow> (ag_stable_percent g, ag_candidate_percent g) = expected_traffic (ag_action g)"
  by (cases "ag_action g") (simp_all add: validate_root_action_grant_def)

lemma bounds_grant:
  assumes "validate_root_authority_bounds b = None"
  shows "ag_action (root_action_grant_of b action) = action"
    "\<exists>rp. role_identity (ag_subject_identity (root_action_grant_of b action)) = Some rp"
    "(ag_stable_percent (root_action_grant_of b action), ag_candidate_percent (root_action_grant_of b action))
       = expected_traffic action"
    "1 \<le> ab_concurrency b" "ab_concurrency b \<le> 1000"
    "1 \<le> ab_maximum_capability_lifetime_seconds b" "ab_maximum_capability_lifetime_seconds b \<le> 900"
  using bounds_facts [OF assms] closed_traffic [of "root_action_grant_of b action"]
  by (cases action; simp)+

text \<open>The scopes a match gives rise to, before they are validated.\<close>

definition claims_scope :: "capability_claims \<Rightarrow> addressed_root \<Rightarrow> int \<Rightarrow> int \<Rightarrow> capability_scope" where
  "claims_scope c r start stop =
    (let n = scope_concurrency c r in
     \<lparr>sc_project_id = tb_project_id (cc_target c), sc_region = tb_region (cc_target c),
      sc_environment = tb_environment (cc_target c), sc_service_name = tb_service_name (cc_target c),
      sc_root_id = cc_root_id c, sc_root_sha256 = cc_root_sha256 c, sc_epoch = cc_epoch c,
      sc_plan_sha256 = cc_plan_sha256 c, sc_provider_precondition = cc_provider_etag c,
      sc_request_id = cc_request_id c, sc_idempotency_key = cc_idempotency_key c,
      sc_callers = {cc_subject c}, sc_audiences = {cc_audience c},
      sc_stable_revision = cc_stable_revision c, sc_candidate_revision = cc_candidate_revision c,
      sc_revisions = {cc_stable_revision c, cc_candidate_revision c},
      sc_actions = {canary_action_of (cc_action c)},
      sc_traffic_percent = \<lparr>minimum = cc_candidate_percent c, maximum = cc_candidate_percent c\<rparr>,
      sc_concurrency = \<lparr>minimum = n, maximum = n\<rparr>,
      sc_validity = \<lparr>not_before = start, expires_at = stop\<rparr>\<rparr>)"

lemma claims_scope_eq:
  assumes "parse_utc_second (cc_not_before c) = Some start" "parse_utc_second (cc_expires_at c) = Some stop"
  shows "capability_scope_from_claims c r = build_scope (claims_scope c r start stop)"
  using assms by (simp add: capability_scope_from_claims_def claims_scope_def parse_or_raise_def Let_def)

lemma build_scope_Inr [simp]:
  "build_scope s = Inr t \<longleftrightarrow> s = t \<and> validate_integer_bounds (sc_traffic_percent s) = None
     \<and> validate_integer_bounds (sc_concurrency s) = None \<and> validate_time_bounds (sc_validity s) = None
     \<and> validate_scope s = None"
  by (auto simp: build_scope_def split: option.splits)

lemma claims_field_facts:
  assumes "validate_claims c = None"
  shows "is_identifier (cc_root_id c)" "is_sha256 (cc_root_sha256 c)" "is_sha256 (cc_plan_sha256 c)"
    "1 \<le> cc_epoch c" "is_opaque_token (cc_provider_etag c)" "is_identifier (cc_request_id c)"
    "is_identifier (cc_idempotency_key c)" "is_cloud_run_name (cc_stable_revision c)"
    "is_cloud_run_name (cc_candidate_revision c)" "cc_stable_revision c \<noteq> cc_candidate_revision c"
  using assms
  by (simp_all add: validate_claims_def validate_claims_fields_def validate_claim_bindings_def
      positive_safe_integer_def)

lemma percent_bounds: "expected_traffic a = (s, p) \<Longrightarrow> 0 \<le> p \<and> p \<le> 100"
  by (cases a) auto

lemma validate_string_set_exact [simp]:
  "validate_string_set name {v} = None \<longleftrightarrow> exact_identifier v"
  "validate_string_set name {u, v} = None \<longleftrightarrow> exact_identifier u \<and> exact_identifier v"
  by (auto simp: validate_string_set_def exact_identifier_def)

lemma claims_scope_valid:
  assumes match: "claims_match h c r a" and root: "wf_root h r" and claims: "validate_claims c = None"
    and audience: "exact_identifier (cc_audience c)"
    and times: "parse_utc_second (cc_not_before c) = Some start" "parse_utc_second (cc_expires_at c) = Some stop"
      "0 \<le> start"
  shows "capability_scope_from_claims c r = Inr (claims_scope c r start stop)"
proof -
  let ?b = "rc_authority_bounds (ad_content r)"
  from match obtain issued starts expires approved plan_sha bounds_sha where facts:
    "parse_utc_second (cc_not_before c) = Some starts" "parse_utc_second (cc_expires_at c) = Some expires"
    "claims_bindings_hold c r a plan_sha bounds_sha"
    "claims_times_hold ?b approved issued starts expires"
    by (rule claims_match_facts) blast
  note wf = wf_root_bounds [OF root]
  note grant = bounds_grant [OF wf(1)]
  have bind: "cc_target c = rc_target (ad_content r)"
    "cc_subject c = ag_subject_identity (root_action_grant_of ?b (cc_action c))"
    "(cc_stable_percent c, cc_candidate_percent c) = expected_traffic (cc_action c)"
    "cc_concurrency c = expected_concurrency ?b (cc_action c)"
    using facts(3) grant(3) by (auto simp: claims_bindings_hold_def root_action_grant_for_def Let_def)
  have n: "1 \<le> scope_concurrency c r" "scope_concurrency c r \<le> 1000"
    using bind(4) grant(4,5) by (auto simp: scope_concurrency_def expected_concurrency_def)
  have "start < stop"
    using facts times by (simp add: claims_times_hold_def)
  moreover have "exact_identifier (cc_subject c)"
    using grant(2) [of "cc_action c"] role_identity_exact unfolding bind(2) by blast
  ultimately show ?thesis
    using claims_field_facts [OF claims] root_target_exact [OF wf(2)] audience times(3) n
      percent_bounds [OF bind(3) [symmetric]]
    unfolding claims_scope_eq [OF times(1,2)] build_scope_Inr
    by (auto simp: claims_scope_def Let_def bind(1) validate_integer_bounds_def validate_time_bounds_def
        validate_scope_def is_identifier_exact is_opaque_token_exact is_cloud_run_name_exact)
qed

section \<open>A match is inside the lineage policy\<close>

lemma anchor_scope_of_match:
  assumes "claims_bindings_hold c r a plan_sha bounds_sha"
    and "validate_root_authority_bounds (rc_authority_bounds (ad_content r)) = None"
    and "cc_action c = AC_APPLY_CANARY \<Longrightarrow> cc_provider_etag c = ss_provider_etag (rc_stable_snapshot (ad_content r))"
  shows "anchor_scope r a c issued
     = claims_scope c r issued (issued + ab_maximum_capability_lifetime_seconds (rc_authority_bounds (ad_content r)))"
  using assms(1,3) bounds_grant [OF assms(2)]
  by (auto simp: anchor_scope_def claims_scope_def claims_bindings_hold_def root_action_grant_for_def
      Let_def scope_concurrency_def expected_concurrency_def)

lemma check_attenuation_time:
  "at_allowed (check_attenuation (claims_scope c r i j) (claims_scope c r k l)) \<longleftrightarrow> i \<le> k \<and> l \<le> j"
  by (simp add: check_attenuation_def claims_scope_def Let_def bounds_within_def time_within_def
      attenuation_denial_def)

lemma validate_scope_validity: "validate_scope (s\<lparr>sc_validity := v\<rparr>) = validate_scope s"
  by (simp add: validate_scope_def)

lemma claims_scope_validity: "claims_scope c r i j = (claims_scope c r k l)\<lparr>sc_validity := \<lparr>not_before = i, expires_at = j\<rparr>\<rparr>"
  by (simp add: claims_scope_def Let_def)

text \<open>
  C38: the two descriptions of what a capability may do agree: a well-formed capability that matches
  the persisted root yields a scope, the root and the anchor yield an operator anchor, and the scope
  attenuates it. Its window starts at the first issuance and ends within the root's lifetime bound.
\<close>

theorem matching_claims_attenuate:
  assumes match: "claims_match h c r a" and root: "wf_root h r" and claims: "validate_claims c = None"
    and audience: "exact_identifier (cc_audience c)"
    and issued: "parse_utc_second (cc_issued_at c) = Some issued" "0 \<le> issued"
  shows "\<exists>scope anchor. capability_scope_from_claims c r = Inr scope
    \<and> operator_lineage_anchor h r a c = Inr anchor
    \<and> at_allowed (check_attenuation (an_scope anchor) scope)
    \<and> not_before (sc_validity (an_scope anchor)) = issued
    \<and> expires_at (sc_validity (an_scope anchor)) \<le> issued + 900"
proof -
  let ?b = "rc_authority_bounds (ad_content r)"
  let ?life = "ab_maximum_capability_lifetime_seconds ?b"
  from match obtain starts expires approved plan_sha bounds_sha where facts:
    "parse_utc_second (cc_not_before c) = Some starts" "parse_utc_second (cc_expires_at c) = Some expires"
    "claims_bindings_hold c r a plan_sha bounds_sha" "claims_times_hold ?b approved issued starts expires"
    "cc_action c = AC_APPLY_CANARY \<Longrightarrow> cc_provider_etag c = ss_provider_etag (rc_stable_snapshot (ad_content r))"
    by (rule claims_match_facts) (use issued(1) in auto)
  note wf = wf_root_bounds [OF root]
  have times: "issued \<le> starts" "starts < expires" "expires \<le> issued + ?life"
    using facts(4) by (simp_all add: claims_times_hold_def)
  have scope: "capability_scope_from_claims c r = Inr (claims_scope c r starts expires)"
    using claims_scope_valid [OF match root claims audience facts(1,2)] issued(2) times(1) by simp
  have built: "build_scope (claims_scope c r issued (issued + ?life))
      = Inr (claims_scope c r issued (issued + ?life))"
    using scope [unfolded claims_scope_eq [OF facts(1,2)] build_scope_Inr] issued(2)
      bounds_grant(6) [OF wf(1)]
      validate_scope_validity [where s = "claims_scope c r starts expires"]
      claims_scope_validity [of c r issued "issued + ?life" starts expires]
    by (simp add: validate_time_bounds_def)
  have valid: "validate_anchor \<lparr>an_root_sha256 = la_root_sha256 a,
      an_scope = claims_scope c r issued (issued + ?life)\<rparr> = None"
    using facts(3) wf(4) by (simp add: validate_anchor_def claims_bindings_hold_def claims_scope_def Let_def)
  have "operator_lineage_anchor h r a c
      = Inr \<lparr>an_root_sha256 = la_root_sha256 a, an_scope = claims_scope c r issued (issued + ?life)\<rparr>"
    using match issued(1) anchor_scope_of_match [OF facts(3) wf(1) facts(5), of issued]
    by (simp add: operator_lineage_anchor_def claims_match_def parse_or_raise_def built construct_def
        valid del: build_scope_Inr)
  then show ?thesis
    using scope times bounds_grant(7) [OF wf(1)]
    by (simp add: check_attenuation_time) (simp add: claims_scope_def Let_def)
qed

section \<open>Audiences of a root\<close>

lemma service_hostname_split:
  "service_hostname name host \<Longrightarrow> \<exists>number. google_number number \<and> host = name @ ''-'' @ number @ ''.us-central1.run.app''"
proof -
  assume "service_hostname name host"
  then have s: "starts_with (name @ ''-'') host"
      "google_number (takeWhile is_digit_char (drop (length name + 1) host))"
      "dropWhile is_digit_char (drop (length name + 1) host) = ''.us-central1.run.app''"
    by (simp_all add: service_hostname_def Let_def)
  have "host = (name @ ''-'') @ drop (length name + 1) host"
    using s(1) by (simp add: starts_with_split)
  moreover have "drop (length name + 1) host
      = takeWhile is_digit_char (drop (length name + 1) host) @ ''.us-central1.run.app''"
    using takeWhile_dropWhile_id [of is_digit_char "drop (length name + 1) host"] s(3) by metis
  ultimately show ?thesis
    using s(2) by (metis append.assoc)
qed

lemma last_hyphen: "rev (takeWhile (\<lambda>c. c \<noteq> CHR ''-'') (rev (xs @ ''.us-central1.run.app''))) = ''central1.run.app''"
  by simp

text \<open>
  C39: the check that the executor and the recovery audience of a root use one project number
  compares nothing: the helper returns the text after the last hyphen, which is part of the region,
  so every audience the root accepts has the same one and roots may mix two projects' numbers.
\<close>

theorem audience_numbers_never_differ:
  assumes "validate_service_audience executor_audience ''executor'' = None"
    and "validate_service_audience recovery_audience ''recovery'' = None"
  shows "audience_project_number executor_audience = audience_project_number recovery_audience"
proof -
  have same: "audience_project_number a = ''central1''" if "validate_service_audience a role = None" for a role
  proof -
    let ?host = "or_else (url_hostname (urlsplit a)) []"
    have "service_hostname (''controlgraph-'' @ role) ?host"
      using that by (simp add: validate_service_audience_def Let_def)
    then obtain xs where "?host = xs @ ''.us-central1.run.app''"
      using service_hostname_split by (metis append.assoc)
    then have "audience_project_number a = fst (split_at (CHR ''.'') ''central1.run.app'')"
      unfolding audience_project_number_def Let_def using last_hyphen [of xs] by simp
    also have "\<dots> = ''central1''" by code_simp
    finally show ?thesis .
  qed
  from assms show ?thesis by (simp add: same)
qed

lemma sample_audiences:
  "validate_service_audience ''https://controlgraph-executor-111111111111.us-central1.run.app'' ''executor'' = None"
  "validate_service_audience ''https://controlgraph-recovery-222222222222.us-central1.run.app'' ''recovery'' = None"
  by code_simp+

theorem audience_numbers_never_differ_witness:
  "audience_project_number ''https://controlgraph-executor-111111111111.us-central1.run.app''
     = audience_project_number ''https://controlgraph-recovery-222222222222.us-central1.run.app''"
  by (rule audience_numbers_never_differ [OF sample_audiences])

end
