(* ===== verification/AmbiguousReadbackProps.thy ===== *)
theory AmbiguousReadbackProps
  imports AmbiguousReadback RootAuthorityProps
begin

text \<open>
  What the readback-only resolver submits and answers: a submission rests on confirmed facts, the store
  admits it, and the command that was resolved is adopted when it is delivered again.
\<close>

lemma raising_Inr [simp]: "raising r = Inr x \<longleftrightarrow> r = Inr x"
  by (cases r) (auto simp: raising_def)

lemma refuse_if_None [simp]: "refuse_if b e = None \<longleftrightarrow> \<not> b"
  by (simp add: refuse_if_def)

section \<open>What a submission rests on\<close>

definition resolution_of :: "execution_receipt \<Rightarrow> string \<Rightarrow> string \<Rightarrow> string \<Rightarrow> execution_receipt" where
  "resolution_of r marker etag now =
     r\<lparr>er_outcome := OC_VERIFIED, er_reason_code := None, er_observed_etag := Some etag,
       er_updated_at := now, er_evidence_ids := er_evidence_ids r @ [marker]\<rparr>"

text \<open>The receipt is the pinned one.\<close>

definition pinned :: "hexdigest \<Rightarrow> target_binding \<Rightarrow> readback_command \<Rightarrow> execution_receipt stored_record \<Rightarrow> bool" where
  "pinned h target c stored \<longleftrightarrow>
     receipt_matches_locator h target c (sr_value stored) = Inr True
     \<and> sr_revision stored = rk_expected_storage_revision c
     \<and> execution_receipt_sha256 h (sr_value stored) = Inr (rk_expected_receipt_sha256 c)
     \<and> er_outcome (sr_value stored) = OC_AMBIGUOUS
     \<and> er_reason_code (sr_value stored) = Some RC_PROVIDER_OUTCOME_AMBIGUOUS
     \<and> er_provider_operation (sr_value stored) \<noteq> None
     \<and> er_observed_etag (sr_value stored) = Some (rk_expected_ambiguous_observed_etag c)
     \<and> er_updated_at (sr_value stored) = rk_expected_ambiguous_updated_at c"

lemma require_exact_ambiguous_Inr: "require_exact_ambiguous h target c stored = Inr u \<longleftrightarrow> pinned h target c stored"
  by (auto simp: require_exact_ambiguous_def pinned_def Let_def bindS_Inr)

text \<open>The root, its claim and its authority still carry the receipt.\<close>

definition carries :: "hexdigest \<Rightarrow> target_binding \<Rightarrow> readback_command \<Rightarrow> root_bundle \<Rightarrow> execution_receipt
    \<Rightarrow> resolved_boundary \<Rightarrow> bool" where
  "carries h target c bundle r b \<longleftrightarrow>
     (\<exists>trusted. inspect_root_authority_bundle h target bundle = Some trusted
        \<and> boundary_poststate target c (ra_root trusted) = Inr (rb_expected_poststate b)
        \<and> rb_authority b = \<lparr>sr_value = ra_authority trusted, sr_revision = ra_authority_revision trusted\<rparr>
        \<and> rb_service_claim b = \<lparr>sr_value = ra_service_claim trusted, sr_revision = ra_service_claim_revision trusted\<rparr>
        \<and> er_root_id r = ad_root_id (ra_root trusted) \<and> er_root_sha256 r = ad_root_sha256 (ra_root trusted)
        \<and> er_action r = rk_action c
        \<and> plan_sha256 h (rc_rollout_plan (ad_content (ra_root trusted))) = Inr (er_plan_sha256 r)
        \<and> target_configuration_sha256 h (rb_expected_poststate b) = Inr (er_expected_poststate_sha256 r)
        \<and> cl_status (ra_service_claim trusted) = CS_ACTIVE
        \<and> er_epoch r = au_current_epoch (ra_authority trusted)
        \<and> er_epoch r = rk_expected_epoch c \<and> er_observed_authority_epoch r = Some (er_epoch r))"

lemma boundary_of_Inr:
  assumes "boundary_of h target c r trusted = Inr b" "inspect_root_authority_bundle h target bundle = Some trusted"
  shows "carries h target c bundle r b"
  using assms by (auto simp: boundary_of_def carries_def Let_def bindS_Inr)

lemma boundary_Inr:
  assumes "read_and_validate_boundary h target c read_bundle stored = Inr b"
  obtains found where "read_bundle (rk_root_id c) = RootRead (Some found)"
    "carries h target c found (sr_value stored) b"
  using assms boundary_of_Inr
  by (auto simp: read_and_validate_boundary_def bindS_Inr split: root_read.splits option.splits)

lemma resolution_fields [simp]:
  "er_outcome (resolution_of r m e n) = OC_VERIFIED" "er_reason_code (resolution_of r m e n) = None"
  "er_observed_etag (resolution_of r m e n) = Some e" "er_updated_at (resolution_of r m e n) = n"
  "er_evidence_ids (resolution_of r m e n) = er_evidence_ids r @ [m]"
  "er_target (resolution_of r m e n) = er_target r" "er_receipt_id (resolution_of r m e n) = er_receipt_id r"
  "er_idempotency_key (resolution_of r m e n) = er_idempotency_key r"
  "er_provider_operation (resolution_of r m e n) = er_provider_operation r"
  "er_observed_authority_epoch (resolution_of r m e n) = er_observed_authority_epoch r"
  by (simp_all add: resolution_of_def)

lemma prepare_submission_Inr:
  assumes "prepare_submission h target c ports stored boundary etag = Inr (Submit s)"
  obtains refreshed marker where
    "read_and_validate_boundary h target c (rp_second_bundle ports) stored = Inr refreshed"
    "rb_expected_poststate refreshed = rb_expected_poststate boundary"
    "resolution_evidence_id h c = Inr marker" "marker \<notin> set (er_evidence_ids (sr_value stored))"
    "su_stored s = stored" "su_replacement s = resolution_of (sr_value stored) marker etag (rp_clock ports)"
    "su_authority s = rb_authority refreshed" "su_service_claim s = rb_service_claim refreshed"
    "er_updated_at (sr_value stored) \<le> rp_clock ports" "validate_execution_receipt (su_replacement s) = None"
  using assms
  by (auto simp: prepare_submission_def Let_def bindS_Inr is_exact_resolution_replacement_def resolution_of_def
      split: if_splits)

definition confirmed ::
  "hexdigest \<Rightarrow> target_binding \<Rightarrow> readback_command \<Rightarrow> resolver_ports \<Rightarrow> resolution_submission \<Rightarrow> bool" where
  "confirmed h target c ports s \<longleftrightarrow>
    (\<exists>operation ob etag marker first second before after.
       rp_read_receipt ports (rk_idempotency_key c) = Some (Some (su_stored s))
       \<and> pinned h target c (su_stored s)
       \<and> er_provider_operation (sr_value (su_stored s)) = Some operation
       \<and> rp_terminal_success ports operation = Some True
       \<and> rp_first_bundle ports (rk_root_id c) = RootRead (Some first)
       \<and> carries h target c first (sr_value (su_stored s)) before
       \<and> rp_readback ports (rb_expected_poststate before) = Some ob
       \<and> ob_state ob = Some (rb_expected_poststate before) \<and> ob_etag ob = Some etag
       \<and> rp_second_bundle ports (rk_root_id c) = RootRead (Some second)
       \<and> carries h target c second (sr_value (su_stored s)) after
       \<and> rb_expected_poststate after = rb_expected_poststate before
       \<and> su_authority s = rb_authority after \<and> su_service_claim s = rb_service_claim after
       \<and> resolution_evidence_id h c = Inr marker \<and> marker \<notin> set (er_evidence_ids (sr_value (su_stored s)))
       \<and> su_replacement s = resolution_of (sr_value (su_stored s)) marker etag (rp_clock ports)
       \<and> er_updated_at (sr_value (su_stored s)) \<le> rp_clock ports
       \<and> validate_execution_receipt (su_replacement s) = None)"

lemma submission_confirmed:
  assumes "resolve_before_store h target c ports = Inr (Submit s)"
  shows "confirmed h target c ports s"
proof -
  from assms obtain stored boundary operation ob etag where
    read: "rp_read_receipt ports (rk_idempotency_key c) = Some (Some stored)"
    and pin: "pinned h target c stored"
    and b: "read_and_validate_boundary h target c (rp_first_bundle ports) stored = Inr boundary"
    and op: "er_provider_operation (sr_value stored) = Some operation" "rp_terminal_success ports operation = Some True"
    and ob: "rp_readback ports (rb_expected_poststate boundary) = Some ob" "ob_etag ob = Some etag"
      "ob_state ob = Some (rb_expected_poststate boundary)"
    and sub: "prepare_submission h target c ports stored boundary etag = Inr (Submit s)"
    by (auto simp: resolve_before_store_def bindS_Inr require_exact_ambiguous_Inr split: option.splits if_splits)
  obtain refreshed marker where
    r: "read_and_validate_boundary h target c (rp_second_bundle ports) stored = Inr refreshed"
    and s: "rb_expected_poststate refreshed = rb_expected_poststate boundary"
    "resolution_evidence_id h c = Inr marker" "marker \<notin> set (er_evidence_ids (sr_value stored))"
    "su_stored s = stored" "su_replacement s = resolution_of (sr_value stored) marker etag (rp_clock ports)"
    "su_authority s = rb_authority refreshed" "su_service_claim s = rb_service_claim refreshed"
    "er_updated_at (sr_value stored) \<le> rp_clock ports" "validate_execution_receipt (su_replacement s) = None"
    by (rule prepare_submission_Inr [OF sub])
  obtain first where f: "rp_first_bundle ports (rk_root_id c) = RootRead (Some first)"
    "carries h target c first (sr_value stored) boundary"
    by (rule boundary_Inr [OF b])
  obtain second where g: "rp_second_bundle ports (rk_root_id c) = RootRead (Some second)"
    "carries h target c second (sr_value stored) refreshed"
    by (rule boundary_Inr [OF r])
  show ?thesis
    unfolding confirmed_def
    by (rule exI [of _ operation], rule exI [of _ ob], rule exI [of _ etag], rule exI [of _ marker],
        rule exI [of _ first], rule exI [of _ second], rule exI [of _ boundary], rule exI [of _ refreshed])
      (use read pin op ob s f g in simp)
qed

section \<open>The store admits it\<close>

lemma inspected_bindings:
  assumes "inspect_root_authority_bundle h target found = Some trusted"
  shows "au_target (ra_authority trusted) = target
    \<and> au_root_id (ra_authority trusted) = ad_root_id (ra_root trusted)
    \<and> au_root_sha256 (ra_authority trusted) = ad_root_sha256 (ra_root trusted)
    \<and> au_revision (ra_authority trusted) = ra_authority_revision trusted
    \<and> cl_target (ra_service_claim trusted) = target
    \<and> cl_root_id (ra_service_claim trusted) = ad_root_id (ra_root trusted)
    \<and> cl_root_sha256 (ra_service_claim trusted) = ad_root_sha256 (ra_root trusted)
    \<and> (cl_status (ra_service_claim trusted) = CS_ACTIVE \<longrightarrow> ra_service_claim_revision trusted mod 3 = 0)"
  using assms
  by (auto simp: inspect_root_authority_bundle_def Let_def service_claim_matches_addressed_root_def
      claim_lifecycle_revision_matches_def split: sum.splits if_splits)

lemma marker_of_digest:
  assumes "resolution_evidence_id h c = Inr marker" "\<And>b. is_sha256 (h b)"
  shows "readback_resolution_marker marker" "is_identifier marker"
proof -
  from assms obtain b where m: "marker = ''cgrrb:'' @ h b" by (auto simp: resolution_evidence_id_def bindR_eq_Inr)
  have h: "length (h b) = 64" "list_all hex_char (h b)" using assms(2) [of b] by (simp_all add: is_sha256_def)
  show "readback_resolution_marker marker"
    using assms(2) by (simp add: m readback_resolution_marker_def starts_with_def)
  have "list_all (\<lambda>x. alnum_char x \<or> x \<in> set ''._:-'') (h b)"
    using h(2) by (auto simp: list_all_iff hex_char_def alnum_char_def lower_char_def is_digit_char_def Let_def)
  then show "is_identifier marker"
    using h(1) by (simp add: m is_identifier_def) code_simp
qed

lemma resolution_cas: "receipt_cas_binding (resolution_of r m e n) = receipt_cas_binding r"
  by (simp add: receipt_cas_binding_def receipt_semantic_binding_def resolution_of_def)

lemma submission_admitted:
  assumes "confirmed h target c ports s" "\<And>b. is_sha256 (h b)"
  shows "validate_ambiguous_receipt_resolution h target (su_stored s) (su_replacement s) (su_authority s)
    (su_service_claim s) = None"
proof -
  let ?r = "sr_value (su_stored s)"
  from assms(1) obtain marker etag found b where pin: "pinned h target c (su_stored s)"
    and on: "carries h target c found ?r b" and s: "su_authority s = rb_authority b"
      "su_service_claim s = rb_service_claim b" "resolution_evidence_id h c = Inr marker"
      "su_replacement s = resolution_of ?r marker etag (rp_clock ports)" "er_updated_at ?r \<le> rp_clock ports"
    by (auto simp: confirmed_def)
  from on obtain trusted where t: "inspect_root_authority_bundle h target found = Some trusted"
    by (auto simp: carries_def)
  have identity: "\<exists>x. validate_receipt_identity h target ?r = Inr x"
    "\<exists>x. validate_receipt_identity h target (resolution_of ?r marker etag now) = Inr x" for now
    using pin by (auto simp: pinned_def receipt_matches_locator_def bindR_eq_Inr validate_receipt_identity_def)
  have changed: "resolution_of ?r marker etag now \<noteq> ?r" for now
  proof
    assume eq: "resolution_of ?r marker etag now = ?r"
    have "er_outcome (resolution_of ?r marker etag now) = er_outcome ?r" by (simp only: eq)
    with pin show False by (simp add: pinned_def)
  qed
  have "validate_receipt_replacement h target (su_stored s) (su_replacement s) = None"
    using pin s changed identity resolution_cas
    by (simp add: validate_receipt_replacement_def Let_def pinned_def is_prefix_of_def linorder_not_less)
      (cases "er_observed_authority_epoch ?r"; simp)
  moreover have "readback_resolution_marker marker"
    using marker_of_digest [OF s(3) assms(2)] by simp
  ultimately show ?thesis
    using pin on s inspected_bindings [OF t] t
    by (auto simp: validate_ambiguous_receipt_resolution_def Let_def pinned_def carries_def)
qed

section \<open>A delivery that follows is adopted\<close>

definition stored_resolution :: "resolution_submission \<Rightarrow> execution_receipt stored_record" where
  "stored_resolution s = \<lparr>sr_value = su_replacement s, sr_revision = sr_revision (su_stored s) + 1\<rparr>"

lemma marked_resolution:
  "marker \<notin> set (er_evidence_ids r) \<Longrightarrow> marked_once marker (resolution_of r marker etag now)"
  by (simp add: marked_once_def)

lemma predecessor_restored:
  assumes "confirmed h target c ports s" "validate_execution_receipt (sr_value (su_stored s)) = None"
  shows "reconstruct_ambiguous_receipt_predecessor h c (su_replacement s) = Inr (sr_value (su_stored s))"
proof -
  let ?r = "sr_value (su_stored s)"
  from assms(1) obtain marker etag where pin: "pinned h target c (su_stored s)"
    and m: "resolution_evidence_id h c = Inr marker" "marker \<notin> set (er_evidence_ids ?r)"
    and s: "su_replacement s = resolution_of ?r marker etag (rp_clock ports)"
    by (auto simp: confirmed_def)
  have "(resolution_of ?r marker etag now)\<lparr>er_outcome := OC_AMBIGUOUS,
      er_reason_code := Some RC_PROVIDER_OUTCOME_AMBIGUOUS,
      er_observed_etag := Some (rk_expected_ambiguous_observed_etag c),
      er_updated_at := rk_expected_ambiguous_updated_at c, er_evidence_ids := er_evidence_ids ?r\<rparr> = ?r" for now
    using pin by (simp add: resolution_of_def pinned_def)
  then show ?thesis
    using marked_resolution [OF m(2)] assms(2)
    by (simp add: reconstruct_ambiguous_receipt_predecessor_def m s construct_def)
qed

lemma resolution_adopted:
  assumes "confirmed h target c ports s" "validate_execution_receipt (sr_value (su_stored s)) = None"
  shows "adoption_candidate h c (stored_resolution s) = Inr True"
    and "is_exact_adopted_receipt h c (stored_resolution s) = Inr True"
proof -
  from assms(1) obtain marker etag found b where pin: "pinned h target c (su_stored s)"
    and m: "resolution_evidence_id h c = Inr marker" "marker \<notin> set (er_evidence_ids (sr_value (su_stored s)))"
    and s: "su_replacement s = resolution_of (sr_value (su_stored s)) marker etag (rp_clock ports)"
      "er_updated_at (sr_value (su_stored s)) \<le> rp_clock ports"
    and on: "carries h target c found (sr_value (su_stored s)) b"
    by (auto simp: confirmed_def)
  show "adoption_candidate h c (stored_resolution s) = Inr True"
    using pin marked_resolution [OF m(2)]
    by (simp add: adoption_candidate_def m s stored_resolution_def pinned_def)
  show "is_exact_adopted_receipt h c (stored_resolution s) = Inr True"
    using pin s(2) on marked_resolution [OF m(2)] predecessor_restored [OF assms]
    by (auto simp: is_exact_adopted_receipt_def Let_def m s(1) stored_resolution_def pinned_def carries_def)
qed

lemma fields_hold: "checks [field a True, field b True] = None"
  by simp

lemma resolution_result:
  assumes "confirmed h target c ports s" "validate_execution_receipt (sr_value (su_stored s)) = None"
    and "\<And>b. is_sha256 (h b)"
  shows "\<exists>r. ambiguous_receipt_readback_result h c d (stored_resolution s) = Inr r \<and> rr_disposition r = d
    \<and> rr_stored_receipt r = stored_resolution s"
proof -
  from assms(1) obtain marker etag found b where pin: "pinned h target c (su_stored s)"
    and m: "resolution_evidence_id h c = Inr marker" "marker \<notin> set (er_evidence_ids (sr_value (su_stored s)))"
    and s: "su_replacement s = resolution_of (sr_value (su_stored s)) marker etag (rp_clock ports)"
      "er_updated_at (sr_value (su_stored s)) \<le> rp_clock ports"
    and on: "carries h target c found (sr_value (su_stored s)) b"
    by (auto simp: confirmed_def)
  from m(1) obtain encoded where "canonical_json_value_bytes (readback_command_json c) = Inr encoded"
    by (auto simp: resolution_evidence_id_def bindR_eq_Inr)
  then have sha: "command_sha256 h c = Inr (h (DIGEST_DOMAIN @ ascii_bytes AMBIGUOUS_RECEIPT_READBACK_COMMAND_V1
      @ [0] @ encoded))"
    by (simp add: command_sha256_def contract_sha256_def or_raise_contract_def)
  have bindings: "result_bindings_hold \<lparr>rr_disposition = d, rr_command = c, rr_command_sha256 = sha,
      rr_resolution_evidence_id = marker, rr_stored_receipt = stored_resolution s\<rparr>" for sha
    using pin s(2) on marked_resolution [OF m(2)]
    by (auto simp: result_bindings_hold_def Let_def s(1) stored_resolution_def pinned_def carries_def
        receipt_matches_locator_def bindR_eq_Inr resolution_of_def)
  have "execution_receipt_sha256 h (sr_value (su_stored s)) = Inr (rk_expected_receipt_sha256 c)"
    "sr_value (stored_resolution s) = su_replacement s"
    using pin by (simp_all add: pinned_def stored_resolution_def)
  then show ?thesis
    using marker_of_digest(2) [OF m(1) assms(3)] assms(3) bindings predecessor_restored [OF assms(1,2)]
    by (simp add: ambiguous_receipt_readback_result_def Let_def sha m(1) construct_def validate_result_bindings_def
        fields_hold)
qed

section \<open>Properties of the resolver\<close>

text \<open>
  C16: A submission rests on confirmed facts. The resolver asks the store to verify a receipt only when it
  read exactly the receipt that the command pins, the provider confirmed the recorded operation, a
  readback observed the root's expected poststate, and two reads of the root's bundle, one before and one
  after it, carried the receipt under an active claim at the epoch it was applied under; the replacement
  only records that observation.
\<close>

theorem ambiguity_resolved_only_when_confirmed:
  assumes "resolve_before_store h target c ports = Inr (Submit s)"
  shows "confirmed h target c ports s"
  using assms by (rule submission_confirmed)

text \<open>
  C17: The store admits every submission of the resolver: its own validation of an ambiguous resolution,
  with the fences on authority and claim, raises on none of them.
\<close>

theorem store_admits_every_submission:
  assumes "resolve_before_store h target c ports = Inr (Submit s)" and "\<And>b. is_sha256 (h b)"
  shows "validate_ambiguous_receipt_resolution h target (su_stored s) (su_replacement s) (su_authority s)
    (su_service_claim s) = None"
  using submission_confirmed [OF assms(1)] assms(2) by (rule submission_admitted)

text \<open>
  C18: Resolution can be delivered again. Once a submission is stored, the same command is answered
  ADOPTED with that very receipt, whatever the other ports, the store and later reads answer; and the
  pinned receipt can be recovered from it.
\<close>

theorem resolution_is_adopted_again:
  assumes "resolve_before_store h target c ports = Inr (Submit s)" and "\<And>b. is_sha256 (h b)"
    and "validate_execution_receipt (sr_value (su_stored s)) = None"
    and "rp_read_receipt again (rk_idempotency_key c) = Some (Some (stored_resolution s))"
  shows "(\<exists>r. resolve_command h target c again store reread = Inr r \<and> rr_disposition r = RD_ADOPTED
      \<and> rr_stored_receipt r = stored_resolution s)
    \<and> reconstruct_ambiguous_receipt_predecessor h c (su_replacement s) = Inr (sr_value (su_stored s))"
proof -
  note ok = submission_confirmed [OF assms(1)]
  obtain r where "ambiguous_receipt_readback_result h c RD_ADOPTED (stored_resolution s) = Inr r"
    "rr_disposition r = RD_ADOPTED" "rr_stored_receipt r = stored_resolution s"
    using resolution_result [OF ok assms(3,2)] by blast
  with resolution_adopted [OF ok assms(3)] predecessor_restored [OF ok assms(3)] assms(4) show ?thesis
    by (simp add: resolve_command_def resolve_before_store_def raising_def bindS_def refuse_if_def guardS_def)
qed

end
