(* ===== verification/PolicyProps.thy ===== *)
theory PolicyProps
  imports Policy
begin

text \<open>
  Attenuation is a preorder on scopes, an accepted lineage is a chain in that order, and the
  acceptance of \<open>validate_lineage\<close> is characterised without its loops: the cycle search is
  the reflexive point of a transitive closure, and for a linked chain of distinct grants the
  searches for cycles and missing parents never fire.
\<close>

section \<open>Chains in a preorder\<close>

fun chain_from :: "('s \<Rightarrow> 's \<Rightarrow> bool) \<Rightarrow> 's \<Rightarrow> 's list \<Rightarrow> bool" where
  "chain_from le a [] \<longleftrightarrow> True"
| "chain_from le a (b # bs) \<longleftrightarrow> le a b \<and> chain_from le b bs"

text \<open>The contract a lineage needs of the relation between a scope and its child.\<close>

locale scope_order =
  fixes wider :: "'s \<Rightarrow> 's \<Rightarrow> bool"
  assumes wider_refl: "wider a a"
    and wider_trans: "wider a b \<Longrightarrow> wider b c \<Longrightarrow> wider a c"
begin

lemma chain_below: "chain_from wider a bs \<Longrightarrow> b \<in> set bs \<Longrightarrow> wider a b"
proof (induction bs arbitrary: a)
  case (Cons c cs)
  then show ?case by (auto intro: wider_trans)
qed simp

lemma chain_sorted: "chain_from wider a bs \<Longrightarrow> sorted_wrt wider (a # bs)"
proof (induction bs arbitrary: a)
  case (Cons b bs)
  then have "sorted_wrt wider (b # bs)" "wider a b" by auto
  then show ?case by (auto intro: wider_trans)
qed simp

end

section \<open>Attenuation\<close>

definition attenuates :: "capability_scope \<Rightarrow> capability_scope \<Rightarrow> bool" where
  "attenuates parent child \<longleftrightarrow> at_allowed (check_attenuation parent child)"

definition same_binding :: "capability_scope \<Rightarrow> capability_scope \<Rightarrow> bool" where
  "same_binding a b \<longleftrightarrow>
     sc_project_id a = sc_project_id b \<and> sc_region a = sc_region b
     \<and> sc_environment a = sc_environment b \<and> sc_service_name a = sc_service_name b
     \<and> sc_root_id a = sc_root_id b \<and> sc_root_sha256 a = sc_root_sha256 b
     \<and> sc_epoch a = sc_epoch b \<and> sc_plan_sha256 a = sc_plan_sha256 b
     \<and> sc_provider_precondition a = sc_provider_precondition b
     \<and> sc_request_id a = sc_request_id b \<and> sc_idempotency_key a = sc_idempotency_key b
     \<and> sc_stable_revision a = sc_stable_revision b
     \<and> sc_candidate_revision a = sc_candidate_revision b"

text \<open>What a scope permits: one caller doing one action at one point of the numeric ranges.\<close>

definition permits ::
  "capability_scope \<Rightarrow> string \<Rightarrow> string \<Rightarrow> string \<Rightarrow> canary_action \<Rightarrow> int \<Rightarrow> int \<Rightarrow> int \<Rightarrow> bool" where
  "permits s caller audience revision action traffic conc at \<longleftrightarrow>
     caller \<in> sc_callers s \<and> audience \<in> sc_audiences s \<and> revision \<in> sc_revisions s
     \<and> action \<in> sc_actions s
     \<and> minimum (sc_traffic_percent s) \<le> traffic \<and> traffic \<le> maximum (sc_traffic_percent s)
     \<and> minimum (sc_concurrency s) \<le> conc \<and> conc \<le> maximum (sc_concurrency s)
     \<and> not_before (sc_validity s) \<le> at \<and> at < expires_at (sc_validity s)"

definition wf_scope :: "capability_scope \<Rightarrow> bool" where
  "wf_scope s \<longleftrightarrow> validate_scope s = None
     \<and> validate_integer_bounds (sc_traffic_percent s) = None
     \<and> validate_integer_bounds (sc_concurrency s) = None
     \<and> validate_time_bounds (sc_validity s) = None"

lemma attenuates_iff:
  "attenuates p c \<longleftrightarrow> same_binding p c
     \<and> sc_callers c \<subseteq> sc_callers p \<and> sc_audiences c \<subseteq> sc_audiences p
     \<and> sc_revisions c \<subseteq> sc_revisions p \<and> sc_actions c \<subseteq> sc_actions p
     \<and> bounds_within (sc_traffic_percent c) (sc_traffic_percent p)
     \<and> bounds_within (sc_concurrency c) (sc_concurrency p)
     \<and> time_within (sc_validity c) (sc_validity p)"
  by (auto simp: attenuates_def check_attenuation_def attenuation_denial_def same_binding_def)

interpretation scopes: scope_order attenuates
  by unfold_locales
    (auto simp: attenuates_iff same_binding_def bounds_within_def time_within_def)

lemma wf_scope_nonempty:
  assumes "wf_scope s"
  shows "sc_callers s \<noteq> {} \<and> sc_audiences s \<noteq> {} \<and> sc_revisions s \<noteq> {} \<and> sc_actions s \<noteq> {}
    \<and> minimum (sc_traffic_percent s) \<le> maximum (sc_traffic_percent s)
    \<and> minimum (sc_concurrency s) \<le> maximum (sc_concurrency s)
    \<and> not_before (sc_validity s) < expires_at (sc_validity s)"
  using assms
  by (auto simp: wf_scope_def validate_scope_def validate_string_set_def
      validate_integer_bounds_def validate_time_bounds_def)

lemma attenuates_permits:
  "attenuates p c \<Longrightarrow> permits c x a r t n k m \<Longrightarrow> permits p x a r t n k m"
  by (auto simp: attenuates_iff permits_def bounds_within_def time_within_def)

lemma permits_attenuates:
  assumes c: "wf_scope c" and same: "same_binding p c"
    and sub: "\<And>x a r t n k m. permits c x a r t n k m \<Longrightarrow> permits p x a r t n k m"
  shows "attenuates p c"
proof -
  let ?lo = "minimum (sc_traffic_percent c)" and ?hi = "maximum (sc_traffic_percent c)"
  let ?lo' = "minimum (sc_concurrency c)" and ?hi' = "maximum (sc_concurrency c)"
  let ?nb = "not_before (sc_validity c)" and ?ex = "expires_at (sc_validity c)"
  obtain x a r t where mem: "x \<in> sc_callers c" "a \<in> sc_audiences c" "r \<in> sc_revisions c" "t \<in> sc_actions c"
    and ord: "?lo \<le> ?hi" "?lo' \<le> ?hi'" "?nb < ?ex"
    using wf_scope_nonempty [OF c] by blast
  have point: "permits p x' a' r' t' n k m"
    if "x' \<in> sc_callers c" "a' \<in> sc_audiences c" "r' \<in> sc_revisions c" "t' \<in> sc_actions c"
      "?lo \<le> n" "n \<le> ?hi" "?lo' \<le> k" "k \<le> ?hi'" "?nb \<le> m" "m < ?ex"
    for x' a' r' t' n k m
    using that by (intro sub) (simp add: permits_def)
  have "sc_callers c \<subseteq> sc_callers p" "sc_audiences c \<subseteq> sc_audiences p"
    "sc_revisions c \<subseteq> sc_revisions p" "sc_actions c \<subseteq> sc_actions p"
    using point [of _ a r t ?lo ?lo' ?nb] point [of x _ r t ?lo ?lo' ?nb]
      point [of x a _ t ?lo ?lo' ?nb] point [of x a r _ ?lo ?lo' ?nb] mem ord
    by (auto simp: permits_def)
  moreover have "minimum (sc_traffic_percent p) \<le> ?lo \<and> minimum (sc_concurrency p) \<le> ?lo'
      \<and> not_before (sc_validity p) \<le> ?nb"
    using point [of x a r t ?lo ?lo' ?nb] mem ord by (simp add: permits_def)
  moreover have "?hi \<le> maximum (sc_traffic_percent p) \<and> ?hi' \<le> maximum (sc_concurrency p)
      \<and> ?ex \<le> expires_at (sc_validity p)"
    using point [of x a r t ?hi ?hi' "?ex - 1"] mem ord by (simp add: permits_def)
  ultimately show ?thesis
    using same by (simp add: attenuates_iff bounds_within_def time_within_def)
qed

text \<open>
  C26: \<open>check_attenuation\<close> allows a child exactly when the child carries the same fixed
  bindings and permits nothing, at any caller, audience, revision, action, traffic,
  concurrency or instant, that the parent does not permit.
\<close>

theorem attenuation_is_no_amplification:
  assumes "wf_scope c"
  shows "at_allowed (check_attenuation p c) \<longleftrightarrow>
    same_binding p c
    \<and> (\<forall>x a r t n k m. permits c x a r t n k m \<longrightarrow> permits p x a r t n k m)"
  using permits_attenuates [OF assms, of p] attenuates_permits [of p c]
  by (auto simp: attenuates_def [symmetric] attenuates_iff)

definition sample_scope :: capability_scope where
  "sample_scope =
     \<lparr>sc_project_id = ''project'', sc_region = ''region'', sc_environment = ''canary'',
      sc_service_name = ''target'', sc_root_id = ''root-1'', sc_root_sha256 = replicate 64 CHR ''a'',
      sc_epoch = 4, sc_plan_sha256 = replicate 64 CHR ''b'', sc_provider_precondition = ''etag-1'',
      sc_request_id = ''request-1'', sc_idempotency_key = ''key-1'', sc_callers = {''executor''},
      sc_audiences = {''control''}, sc_stable_revision = ''stable-1'',
      sc_candidate_revision = ''candidate-1'', sc_revisions = {''candidate-1''},
      sc_actions = {CA_APPLY_CANARY}, sc_traffic_percent = \<lparr>minimum = 0, maximum = 10\<rparr>,
      sc_concurrency = \<lparr>minimum = 1, maximum = 4\<rparr>,
      sc_validity = \<lparr>not_before = 100, expires_at = 200\<rparr>\<rparr>"

lemmas eval_digest = is_sha256_def hex_char_def

lemma sample_scope_wf: "wf_scope sample_scope"
  by (simp add: wf_scope_def validate_scope_def validate_string_set_def exact_identifier_def
      validate_integer_bounds_def validate_time_bounds_def sample_scope_def wildcard_def
      eval_digest is_nonblank_iff py_space_def char_code_def Let_def list_all_iff)

definition narrow_scope :: capability_scope where
  "narrow_scope = sample_scope\<lparr>sc_traffic_percent := \<lparr>minimum = 0, maximum = 5\<rparr>\<rparr>"

lemma narrow_scope_wf: "wf_scope narrow_scope"
  using sample_scope_wf
  by (simp add: wf_scope_def validate_scope_def narrow_scope_def validate_integer_bounds_def)

lemma narrow_below_sample: "attenuates sample_scope narrow_scope" "\<not> attenuates narrow_scope sample_scope"
  by (simp_all add: attenuates_iff same_binding_def narrow_scope_def sample_scope_def
      bounds_within_def time_within_def)

theorem attenuation_is_no_amplification_witness:
  "\<not> (\<exists>x a r t n k m. permits narrow_scope x a r t n k m \<and> \<not> permits sample_scope x a r t n k m)
   \<and> (\<exists>x a r t n k m. permits sample_scope x a r t n k m \<and> \<not> permits narrow_scope x a r t n k m)"
  using attenuation_is_no_amplification [OF narrow_scope_wf, of sample_scope]
    attenuation_is_no_amplification [OF sample_scope_wf, of narrow_scope] narrow_below_sample
  by (auto simp: attenuates_def [symmetric] same_binding_def narrow_scope_def)

section \<open>The cycle search\<close>

definition parent_rel :: "grant_dict \<Rightarrow> (string \<times> string) set" where
  "parent_rel d = {(x, p). \<exists>g. map_of d x = Some g \<and> gr_parent_capability_sha256 g = Some p}"

lemma parent_rel_functional: "(x, p) \<in> parent_rel d \<Longrightarrow> (x, q) \<in> parent_rel d \<Longrightarrow> p = q"
  by (auto simp: parent_rel_def)

lemma follow_parents_cycle:
  assumes "follow_parents d x vis" "\<And>v. v \<in> vis \<Longrightarrow> (v, x) \<in> (parent_rel d)\<^sup>+"
  shows "\<exists>y. (y, y) \<in> (parent_rel d)\<^sup>+"
  using assms
proof (induction d x vis rule: follow_parents.induct)
  case (1 d x vis)
  obtain g where g: "map_of d x = Some g"
    using "1.prems"(1) by (subst (asm) follow_parents.simps) (auto split: option.splits)
  show ?case
  proof (cases "x \<in> vis")
    case True
    with "1.prems"(2) show ?thesis by blast
  next
    case False
    with "1.prems"(1) g obtain p where p: "gr_parent_capability_sha256 g = Some p"
        and rec: "follow_parents d p (insert x vis)"
      by (subst (asm) follow_parents.simps) (auto split: option.splits)
    have edge: "(x, p) \<in> parent_rel d"
      using g p by (auto simp: parent_rel_def)
    show ?thesis
    proof (rule "1.IH" [OF g False p rec])
      show "(v, p) \<in> (parent_rel d)\<^sup>+" if "v \<in> insert x vis" for v
        using that "1.prems"(2) [of v] edge by (auto intro: trancl_into_trancl)
    qed
  qed
qed

lemma follow_parents_stops:
  assumes "\<not> follow_parents d x vis"
  shows "\<exists>z. (x, z) \<in> (parent_rel d)\<^sup>* \<and> z \<notin> Domain (parent_rel d)"
  using assms
proof (induction d x vis rule: follow_parents.induct)
  case (1 d x vis)
  show ?case
  proof (cases "\<exists>g p. map_of d x = Some g \<and> gr_parent_capability_sha256 g = Some p")
    case False
    then have "x \<notin> Domain (parent_rel d)" by (auto simp: parent_rel_def)
    then show ?thesis by blast
  next
    case True
    then obtain g p where gp: "map_of d x = Some g" "gr_parent_capability_sha256 g = Some p" by blast
    with "1.prems" have "x \<notin> vis" and rec: "\<not> follow_parents d p (insert x vis)"
      by (subst (asm) follow_parents.simps, simp split: if_splits)+
    from "1.IH" [OF gp(1) this(1) gp(2) rec] obtain z
      where "(p, z) \<in> (parent_rel d)\<^sup>*" "z \<notin> Domain (parent_rel d)" by blast
    moreover have "(x, p) \<in> parent_rel d" using gp by (auto simp: parent_rel_def)
    ultimately show ?thesis by (meson converse_rtrancl_into_rtrancl)
  qed
qed

lemma cycle_reaches_back:
  assumes cyc: "(y, y) \<in> (parent_rel d)\<^sup>+" and "(y, z) \<in> (parent_rel d)\<^sup>*"
  shows "(z, y) \<in> (parent_rel d)\<^sup>+"
  using assms(2)
proof (induction rule: rtrancl_induct)
  case base
  show ?case by (rule cyc)
next
  case (step z z')
  from step.IH obtain w where "(z, w) \<in> parent_rel d" "(w, y) \<in> (parent_rel d)\<^sup>*"
    by (meson tranclD)
  with step.hyps(2) have "(z', y) \<in> (parent_rel d)\<^sup>*"
    using parent_rel_functional by blast
  with cyc show ?case by (meson rtrancl_trancl_trancl)
qed

lemma contains_cycle_iff_raw:
  "contains_cycle d \<longleftrightarrow> (\<exists>y. (y, y) \<in> (parent_rel d)\<^sup>+)"
proof
  assume "contains_cycle d"
  then obtain x where "follow_parents d x {}"
    by (auto simp: contains_cycle_def list_ex_iff)
  then show "\<exists>y. (y, y) \<in> (parent_rel d)\<^sup>+"
    by (rule follow_parents_cycle) simp
next
  assume "\<exists>y. (y, y) \<in> (parent_rel d)\<^sup>+"
  then obtain y where y: "(y, y) \<in> (parent_rel d)\<^sup>+" by blast
  have "follow_parents d y {}"
  proof (rule ccontr)
    assume "\<not> follow_parents d y {}"
    then obtain z where "(y, z) \<in> (parent_rel d)\<^sup>*" "z \<notin> Domain (parent_rel d)"
      using follow_parents_stops by blast
    with cycle_reaches_back [OF y] show False by (meson DomainI tranclD)
  qed
  moreover from y obtain g where "map_of d y = Some g"
    by (auto simp: parent_rel_def dest: tranclD)
  ultimately show "contains_cycle d"
    by (auto simp: contains_cycle_def list_ex_iff dest: map_of_SomeD)
qed

text \<open>
  the cycle search is correct and complete: it reports a cycle exactly when some grant
  is its own ancestor through presented parents.
\<close>

theorem contains_cycle_iff:
  "contains_cycle d \<longleftrightarrow> (\<exists>y. (y, y) \<in> (parent_rel d)\<^sup>+)"
  by (rule contains_cycle_iff_raw)

section \<open>Accepted lineages\<close>

fun linked :: "string option \<Rightarrow> capability_grant list \<Rightarrow> bool" where
  "linked expected [] \<longleftrightarrow> True"
| "linked expected (g # gs) \<longleftrightarrow>
     gr_parent_capability_sha256 g = expected \<and> linked (Some (gr_capability_sha256 g)) gs"

abbreviation grant_ids :: "capability_grant list \<Rightarrow> string list" where
  "grant_ids gs \<equiv> map gr_capability_sha256 gs"

definition grant_index :: "capability_grant list \<Rightarrow> grant_dict" where
  "grant_index gs = map (\<lambda>g. (gr_capability_sha256 g, g)) gs"

lemma index_grants_eq:
  "index_grants gs (grant_index ss) = Inr d \<longleftrightarrow>
     distinct (grant_ids gs) \<and> set (grant_ids gs) \<inter> set (grant_ids ss) = {}
     \<and> d = grant_index (ss @ gs)"
proof (induction gs arbitrary: ss)
  case Nil
  show ?case by auto
next
  case (Cons g gs)
  have known: "map_of (grant_index ss) x = None \<longleftrightarrow> x \<notin> set (grant_ids ss)" for x
    by (auto simp: grant_index_def map_of_eq_None_iff image_iff)
  show ?case
    using Cons.IH [of "ss @ [g]"] known [of "gr_capability_sha256 g"]
    by (auto simp: grant_index_def)
qed

lemma index_grants_Inl:
  "index_grants gs ss = Inl r \<Longrightarrow> \<not> li_allowed r \<and> li_failure r = Some LF_DUPLICATE"
  by (induction gs ss rule: index_grants.induct) (auto simp: lineage_denial_def split: if_splits)

lemma missing_parent_None:
  "missing_parent known i gs = None \<longleftrightarrow>
     (\<forall>g \<in> set gs. \<forall>p. gr_parent_capability_sha256 g = Some p \<longrightarrow> p \<in> known)"
  by (induction known i gs rule: missing_parent.induct) (auto split: option.splits)

lemma missing_parent_Some: "missing_parent known i gs = Some r \<Longrightarrow> \<not> li_allowed r"
  by (induction known i gs rule: missing_parent.induct)
    (auto simp: lineage_denial_def split: option.splits if_splits)

lemma follow_chain_None:
  "follow_chain e s i gs = None \<longleftrightarrow> linked e gs \<and> chain_from attenuates s (map gr_scope gs)"
  by (induction e s i gs rule: follow_chain.induct) (auto simp: attenuates_def Let_def)

lemma follow_chain_Some: "follow_chain e s i gs = Some r \<Longrightarrow> \<not> li_allowed r"
  by (induction e s i gs rule: follow_chain.induct)
    (auto simp: lineage_denial_def Let_def split: if_splits)

lemma linked_nth:
  "linked e gs \<Longrightarrow> i < length gs \<Longrightarrow>
     gr_parent_capability_sha256 (gs ! i)
       = (if i = 0 then e else Some (gr_capability_sha256 (gs ! (i - 1))))"
proof (induction gs arbitrary: e i)
  case (Cons g gs)
  then show ?case by (cases i) (auto simp: nth_Cons split: nat.split)
qed simp

lemma linked_parent_position:
  assumes "linked None gs" "distinct (grant_ids gs)" "(x, p) \<in> parent_rel (grant_index gs)"
  shows "\<exists>i. Suc i < length gs \<and> x = gr_capability_sha256 (gs ! Suc i)
    \<and> p = gr_capability_sha256 (gs ! i)"
proof -
  from assms(3) obtain g where "g \<in> set gs" "gr_capability_sha256 g = x"
      "gr_parent_capability_sha256 g = Some p"
    by (auto simp: parent_rel_def grant_index_def dest!: map_of_SomeD)
  then obtain i where i: "i < length gs" "gr_capability_sha256 (gs ! i) = x"
      "gr_parent_capability_sha256 (gs ! i) = Some p"
    by (auto simp: in_set_conv_nth)
  with linked_nth [OF assms(1) i(1)] have "i \<noteq> 0" "p = gr_capability_sha256 (gs ! (i - 1))"
    by (auto split: if_splits)
  with i show ?thesis
    by (intro exI [of _ "i - 1"]) auto
qed

lemma linked_acyclic:
  assumes gs: "linked None gs" "distinct (grant_ids gs)"
  shows "\<not> contains_cycle (grant_index gs)"
proof -
  have "\<exists>i j. i < j \<and> j < length gs \<and> y = gr_capability_sha256 (gs ! j)
      \<and> z = gr_capability_sha256 (gs ! i)"
    if "(y, z) \<in> (parent_rel (grant_index gs))\<^sup>+" for y z
    using that
  proof (induction rule: trancl_induct)
    case (base z)
    from linked_parent_position [OF gs base] show ?case by (auto intro: lessI)
  next
    case (step z w)
    from step.IH obtain i j where ij: "i < j" "j < length gs" "y = gr_capability_sha256 (gs ! j)"
        "z = gr_capability_sha256 (gs ! i)" by blast
    from linked_parent_position [OF gs step.hyps(2)] obtain k
      where k: "Suc k < length gs" "z = gr_capability_sha256 (gs ! Suc k)"
        "w = gr_capability_sha256 (gs ! k)" by blast
    have "i = Suc k"
      using ij k nth_eq_iff_index_eq [OF gs(2), of i "Suc k"] by simp
    with ij k show ?case by (intro exI [of _ k] exI [of _ j]) auto
  qed
  then have up: "\<exists>i j. i < j \<and> j < length gs
      \<and> gr_capability_sha256 (gs ! j) = gr_capability_sha256 (gs ! i)"
    if "(y, y) \<in> (parent_rel (grant_index gs))\<^sup>+" for y
    using that by fastforce
  have "\<not> (y, y) \<in> (parent_rel (grant_index gs))\<^sup>+" for y
  proof
    assume "(y, y) \<in> (parent_rel (grant_index gs))\<^sup>+"
    from up [OF this] obtain i j where "i < j" "j < length gs"
        "gr_capability_sha256 (gs ! j) = gr_capability_sha256 (gs ! i)" by blast
    then show False
      using nth_eq_iff_index_eq [OF gs(2), of j i] by simp
  qed
  then show ?thesis by (simp add: contains_cycle_iff_raw)
qed

lemma linked_parents_known:
  "linked e gs \<Longrightarrow> g \<in> set gs \<Longrightarrow> gr_parent_capability_sha256 g = Some p \<Longrightarrow>
     p \<in> set (grant_ids gs) \<or> e = Some p"
  by (induction e gs rule: linked.induct) auto

lemma lineage_allowed_iff_raw:
  "li_allowed (validate_lineage anchor gs max_depth) \<longleftrightarrow>
     1 \<le> max_depth \<and> max_depth \<le> MAX_LINEAGE_DEPTH
     \<and> gs \<noteq> [] \<and> int (length gs) \<le> max_depth
     \<and> distinct (grant_ids gs) \<and> linked None gs
     \<and> chain_from attenuates (an_scope anchor) (map gr_scope gs)"
proof (cases "1 \<le> max_depth \<and> max_depth \<le> MAX_LINEAGE_DEPTH \<and> gs \<noteq> [] \<and> int (length gs) \<le> max_depth")
  case False
  then show ?thesis by (auto simp: validate_lineage_def lineage_denial_def)
next
  case bounds: True
  have index: "index_grants gs [] = Inr d \<longleftrightarrow> distinct (grant_ids gs) \<and> d = grant_index gs" for d
    using index_grants_eq [of gs "[]" d] by (simp add: grant_index_def)
  show ?thesis
  proof (cases "index_grants gs []")
    case (Inl r)
    with bounds index [of "grant_index gs"] index_grants_Inl [OF Inl] show ?thesis
      by (auto simp: validate_lineage_def)
  next
    case (Inr d)
    then have d: "distinct (grant_ids gs)" "d = grant_index gs"
      using index [of d] by auto
    have known: "fst ` set (grant_index gs) = set (grant_ids gs)"
      by (auto simp: grant_index_def image_iff)
    have accepts: "\<not> contains_cycle d \<and> missing_parent (fst ` set d) 0 gs = None" if "linked None gs"
      using that d linked_acyclic [OF that d(1)] linked_parents_known [OF that] known
      by (auto simp: missing_parent_None)
    have chain: "follow_chain None (an_scope anchor) 1 gs = None \<longleftrightarrow>
        linked None gs \<and> chain_from attenuates (an_scope anchor) (map gr_scope gs)"
      by (rule follow_chain_None)
    show ?thesis
      using bounds d(1) Inr accepts chain
      by (auto simp: validate_lineage_def lineage_denial_def
          dest: missing_parent_Some follow_chain_Some split: option.split)
  qed
qed

text \<open>
  C27: \<open>validate_lineage\<close> accepts exactly the non-empty chains of at most \<open>max_depth\<close> grants
  (itself between one and sixteen) with distinct digests, each naming the previous one as
  its parent and the first naming none, whose scopes each attenuate the one before, the
  first attenuating the operator's anchor.
\<close>

theorem lineage_allowed_iff:
  "li_allowed (validate_lineage anchor gs max_depth) \<longleftrightarrow>
     1 \<le> max_depth \<and> max_depth \<le> MAX_LINEAGE_DEPTH
     \<and> gs \<noteq> [] \<and> int (length gs) \<le> max_depth
     \<and> distinct (grant_ids gs) \<and> linked None gs
     \<and> chain_from attenuates (an_scope anchor) (map gr_scope gs)"
  by (rule lineage_allowed_iff_raw)

text \<open>
  No grant of an accepted lineage is wider than the operator's anchor, nor than any
  grant before it: attenuation composes along the chain.
\<close>

theorem lineage_never_widens:
  assumes "li_allowed (validate_lineage anchor gs max_depth)"
  shows "sorted_wrt (\<lambda>parent child. at_allowed (check_attenuation parent child))
    (an_scope anchor # map gr_scope gs)"
  using assms scopes.chain_sorted [of "an_scope anchor" "map gr_scope gs"]
  by (simp add: lineage_allowed_iff_raw attenuates_def [abs_def])

definition sample_lineage :: "capability_grant list" where
  "sample_lineage =
     [\<lparr>gr_capability_sha256 = replicate 64 CHR ''c'', gr_parent_capability_sha256 = None,
       gr_scope = sample_scope\<rparr>,
      \<lparr>gr_capability_sha256 = replicate 64 CHR ''d'',
       gr_parent_capability_sha256 = Some (replicate 64 CHR ''c''), gr_scope = narrow_scope\<rparr>]"

definition sample_anchor :: operator_root_anchor where
  "sample_anchor = \<lparr>an_root_sha256 = replicate 64 CHR ''a'', an_scope = sample_scope\<rparr>"

lemma sample_lineage_allowed: "li_allowed (validate_lineage sample_anchor sample_lineage 2)"
  using narrow_below_sample
  by (simp add: lineage_allowed_iff_raw MAX_LINEAGE_DEPTH_def sample_lineage_def sample_anchor_def
      scopes.wider_refl)

theorem lineage_never_widens_witness:
  "at_allowed (check_attenuation sample_scope narrow_scope)"
  using lineage_never_widens [OF sample_lineage_allowed]
  by (simp add: sample_lineage_def sample_anchor_def)

end
