(* ===== verification/VerificationProps.thy ===== *)
theory VerificationProps
  imports CapabilityVerification SigningProps RootAuthorityProps PolicyProps
begin

text \<open>
  What a verified mutation rests on: signatures under enabled keys along the whole chain, one bound
  caller, the persisted root, and a window that the first issuance closes.
\<close>

section \<open>Reading an accepted request back\<close>

lemma deny_if_None [simp]: "deny_if b code = None \<longleftrightarrow> \<not> b"
  by (simp add: deny_if_def)

lemma or_raised_Inr [simp]: "or_raised r = Inr x \<longleftrightarrow> r = Inr x"
  by (cases r) (simp_all add: or_raised_def)

lemma or_denied_Inr [simp]: "or_denied code r = Inr x \<longleftrightarrow> r = Inr x"
  by (cases r) (simp_all add: or_denied_def)

lemma time_of_Inr [simp]: "time_of s = Inr t \<longleftrightarrow> parse_utc_second s = Some t"
  by (simp add: time_of_def)

lemma verify_Inr:
  assumes "verify_task_request cr v root_reader lineage_reader clock request caller = Inr vm"
  obtains now state ancestors where "clock = Some now" "mi_action (tr_intent request) = AC_APPLY_CANARY"
    "validate_caller (cv_configuration v) caller now = None"
    "precheck_target (cv_configuration v) request = None"
    "verify_envelope cr v (tr_capability request) = None"
    "validate_time request now = None"
    "validate_route_and_identity (cv_configuration v) request = None"
    "read_root_boundary (cr_hexdigest cr) (cv_configuration v) (root_reader (mi_root_id (tr_intent request)))
       = Inr state"
    "validate_root_bindings (cr_hexdigest cr) (cv_configuration v) request (ra_root state)
       (ra_lineage_anchor state) now = Inr ()"
    "read_ancestors lineage_reader (tr_capability request) = Inr ancestors"
    "validate_capability_lineage cr v (ancestors @ [tr_capability request]) (ra_root state)
       (ra_lineage_anchor state) now = Inr (vm_earliest_lineage_issued_at vm)"
    "vm_request vm = request" "vm_caller vm = caller" "vm_root vm = ra_root state"
    "vm_lineage_anchor vm = ra_lineage_anchor state"
    "vm_claims_sha256 vm = sg_claims_sha256 (tr_capability request)"
    "contract_sha256 (cr_hexdigest cr) SIGNED_CAPABILITY_V1
       (signed_capability_json (tr_capability request)) = Inr (vm_capability_sha256 vm)"
proof -
  from assms obtain now where now: "clock = Some now"
    and action: "mi_action (tr_intent request) \<notin> {AC_PROMOTE_CANDIDATE, AC_RECOVER_STABLE}"
    by (auto simp: verify_task_request_def Let_def split: if_splits option.splits)
  from action have canary: "mi_action (tr_intent request) = AC_APPLY_CANARY"
    by (cases "mi_action (tr_intent request)") auto
  from assms now action obtain state ancestors earliest digest where
    guards: "first_failure [validate_caller (cv_configuration v) caller now,
        precheck_target (cv_configuration v) request, verify_envelope cr v (tr_capability request),
        validate_time request now, validate_route_and_identity (cv_configuration v) request] = None"
    and steps: "read_root_boundary (cr_hexdigest cr) (cv_configuration v)
        (root_reader (mi_root_id (tr_intent request))) = Inr state"
      "validate_root_bindings (cr_hexdigest cr) (cv_configuration v) request (ra_root state)
        (ra_lineage_anchor state) now = Inr ()"
      "read_ancestors lineage_reader (tr_capability request) = Inr ancestors"
      "validate_capability_lineage cr v (ancestors @ [tr_capability request]) (ra_root state)
        (ra_lineage_anchor state) now = Inr earliest"
      "contract_sha256 (cr_hexdigest cr) SIGNED_CAPABILITY_V1
        (signed_capability_json (tr_capability request)) = Inr digest"
    and vm: "vm = \<lparr>vm_request = request, vm_root = ra_root state,
        vm_lineage_anchor = ra_lineage_anchor state, vm_caller = caller, vm_capability_sha256 = digest,
        vm_claims_sha256 = sg_claims_sha256 (tr_capability request),
        vm_earliest_lineage_issued_at = earliest\<rparr>"
    by (auto simp: verify_task_request_def Let_def bindS_Inr simp del: first_failure_None)
  show thesis
    by (rule that [OF now canary]) (use guards steps vm in simp_all)
qed

section \<open>Signatures\<close>

definition signed_under ::
  "crypto \<Rightarrow> trust_bundle_entry list \<Rightarrow> signed_capability \<Rightarrow> trust_bundle_entry \<Rightarrow> bool" where
  "signed_under cr entries s entry \<longleftrightarrow>
     entry \<in> set entries \<and> te_state entry = SK_ENABLED \<and> te_purpose entry = SP_CAPABILITY
     \<and> te_key_version entry = cc_signing_key_version (sg_claims s)
     \<and> claims_sha256_of (cr_hexdigest cr) (sg_claims s) = Inr (sg_claims_sha256 s)
     \<and> (\<exists>canonical material signature.
          signing_material SP_CAPABILITY (te_key_version entry) (ClaimsPayload (sg_claims s))
            = Inr (canonical, material)
          \<and> decode_base64url 256 (sg_signature s) = Inr signature
          \<and> cr_p256_verifies cr (te_public_key_pem entry) signature (cr_hexdigest cr material))"

lemma trust_entry_found: "trust_entry es k = Some e \<Longrightarrow> e \<in> set es \<and> te_key_version e = k"
  by (auto simp: trust_entry_def find_Some_iff)

lemma check_detached_Inr:
  "check_detached p es d = Inr e \<Longrightarrow>
     e \<in> set es \<and> te_key_version e = ds_key_version d \<and> te_purpose e = vf_purpose p
     \<and> te_state e = SK_ENABLED \<and> ds_purpose d = vf_purpose p"
  by (auto simp: check_detached_def dest: trust_entry_found split: option.splits)

lemma verify_envelope_None:
  assumes "verify_envelope cr v s = None"
  shows "\<exists>entry. signed_under cr (cv_trust v) s entry"
proof -
  let ?h = "cr_hexdigest cr" and ?c = "sg_claims s"
  from assms obtain d where digest: "claims_sha256_of ?h ?c = Inr (sg_claims_sha256 s)"
    and d: "detached_of_capability ?h s = Inr d"
    and ok: "verify_detached ?h (cr_p256_key cr) (cr_p256_verifies cr) (cv_profile v) (cv_trust v)
      (ClaimsPayload ?c) d = None"
    by (auto simp: verify_envelope_def split: sum.splits if_splits)
  from d have ds: "ds_purpose d = SP_CAPABILITY" "ds_key_version d = cc_signing_key_version ?c"
      "ds_signature d = sg_signature s"
    by (auto simp: detached_of_capability_def bindS_Inr Let_def)
  from ok obtain e x sig where e: "check_detached (cv_profile v) (cv_trust v) d = Inr e"
    and x: "build_verification_input ?h (cv_profile v) (ds_key_version d) (ClaimsPayload ?c) = Inr x"
    and sig: "decode_base64url 256 (ds_signature d) = Inr sig"
      "cr_p256_verifies cr (te_public_key_pem e) sig (si_digest_sha256 x)"
    by (auto simp: verify_detached_def bindS_Inr split: sum.splits)
  have entry: "e \<in> set (cv_trust v) \<and> te_key_version e = ds_key_version d \<and> te_purpose e = SP_CAPABILITY
      \<and> te_state e = SK_ENABLED" "vf_purpose (cv_profile v) = SP_CAPABILITY"
    using check_detached_Inr [OF e] ds by auto
  from x entry obtain canonical material where
      m: "signing_material SP_CAPABILITY (te_key_version e) (ClaimsPayload ?c) = Inr (canonical, material)"
      "si_digest_sha256 x = ?h material"
    by (auto simp: build_verification_input_def hash_signing_input_def bindS_Inr)
  show ?thesis
    using entry ds digest sig m by (intro exI [of _ e]) (auto simp: signed_under_def)
qed

section \<open>The lineage\<close>

definition valid_at :: "capability_claims \<Rightarrow> int \<Rightarrow> bool" where
  "valid_at c now \<longleftrightarrow>
     (\<exists>start stop. parse_utc_second (cc_not_before c) = Some start
        \<and> parse_utc_second (cc_expires_at c) = Some stop \<and> start \<le> now \<and> now < stop)"

lemma validate_claim_time_None: "validate_claim_time c now = None \<Longrightarrow> valid_at c now"
  by (auto simp: validate_claim_time_def valid_at_def split: sum.splits if_splits)

lemma check_lineage_entry_Inr:
  assumes "check_lineage_entry cr v root anchor approved now previous ids is_leaf s = Inr g"
  shows "(\<not> is_leaf \<longrightarrow> verify_envelope cr v s = None)
    \<and> claim_identity_matches (cv_configuration v) (sg_claims s)
    \<and> claims_match (cr_hexdigest cr) (sg_claims s) root anchor \<and> valid_at (sg_claims s) now
    \<and> lineage_grant s root = Inr g"
  using assms
  by (auto simp: check_lineage_entry_def Let_def bindS_Inr claims_match_def validate_claim_time_None
      split: if_splits)

definition link_in_force ::
  "hexdigest \<Rightarrow> addressed_root \<Rightarrow> lineage_anchor \<Rightarrow> int \<Rightarrow> signed_capability \<Rightarrow> bool" where
  "link_in_force h root anchor now s \<longleftrightarrow>
     claims_match h (sg_claims s) root anchor \<and> valid_at (sg_claims s) now"

lemma check_lineage_entries_Inr:
  "check_lineage_entries cr v root anchor approved now previous ids lineage = Inr grants \<Longrightarrow>
     list_all (link_in_force (cr_hexdigest cr) root anchor now) lineage
     \<and> list_all (\<lambda>s. verify_envelope cr v s = None) (butlast lineage)
     \<and> list_all2 (\<lambda>s g. lineage_grant s root = Inr g) lineage grants"
proof (induction lineage arbitrary: previous ids grants)
  case (Cons s ss)
  from Cons.prems obtain g gs where
    entry: "check_lineage_entry cr v root anchor approved now previous ids (ss = []) s = Inr g"
    and rest: "check_lineage_entries cr v root anchor approved now (Some (sg_claims s))
      (cc_capability_id (sg_claims s) # ids) ss = Inr gs"
    by (auto simp: bindS_Inr)
  moreover have "grants = g # gs"
    using Cons.prems entry rest by (simp add: bindS_def)
  ultimately show ?case
    using check_lineage_entry_Inr [OF entry] Cons.IH [OF rest] by (auto simp: link_in_force_def)
qed simp

lemma validate_capability_lineage_Inr:
  assumes "validate_capability_lineage cr v lineage root anchor now = Inr earliest"
  shows "lineage \<noteq> [] \<and> int (length lineage) \<le> MAX_LINEAGE_DEPTH
    \<and> parse_utc_second (cc_issued_at (sg_claims (hd lineage))) = Some earliest
    \<and> list_all (link_in_force (cr_hexdigest cr) root anchor now) lineage
    \<and> list_all (\<lambda>s. verify_envelope cr v s = None) (butlast lineage)"
  using assms
  by (auto simp: validate_capability_lineage_def bindS_Inr Let_def split: if_splits
      dest!: check_lineage_entries_Inr)

definition link_signed :: "crypto \<Rightarrow> trust_bundle_entry list \<Rightarrow> signed_capability \<Rightarrow> bool" where
  "link_signed cr entries s \<longleftrightarrow> (\<exists>entry. signed_under cr entries s entry)"

section \<open>What verification establishes\<close>

text \<open>
  C14: a request is verified only with a chain of at most sixteen capabilities in which every one,
  ancestors included, is signed under an enabled capability key, lies within the persisted root's
  authority, and is in force at the moment of verification.
\<close>

theorem verified_chain_signed_and_in_force:
  assumes "verify_task_request cr v root_reader lineage_reader clock request caller = Inr vm"
  shows "\<exists>now ancestors. clock = Some now
    \<and> read_ancestors lineage_reader (tr_capability request) = Inr ancestors
    \<and> length ancestors < 16
    \<and> list_all (link_signed cr (cv_trust v)) (ancestors @ [tr_capability request])
    \<and> list_all (link_in_force (cr_hexdigest cr) (vm_root vm) (vm_lineage_anchor vm) now)
        (ancestors @ [tr_capability request])"
  using assms
proof (rule verify_Inr, goal_cases)
  case (1 now state ancestors)
  note lineage = validate_capability_lineage_Inr [OF 1(11)]
  from lineage 1(5) have "list_all (\<lambda>s. verify_envelope cr v s = None) (ancestors @ [tr_capability request])"
    by simp
  then have "list_all (link_signed cr (cv_trust v)) (ancestors @ [tr_capability request])"
    by (auto simp: list_all_iff link_signed_def dest!: verify_envelope_None)
  with 1 lineage show ?case by (auto simp: MAX_LINEAGE_DEPTH_def)
qed

text \<open>Every scope of an accepted lineage lies within the anchor's window.\<close>

lemma scope_window:
  assumes "capability_scope_from_claims c r = Inr scope"
  shows "parse_utc_second (cc_not_before c) = Some (not_before (sc_validity scope))
    \<and> parse_utc_second (cc_expires_at c) = Some (expires_at (sc_validity scope))"
  using assms by (auto simp: capability_scope_from_claims_def bindR_eq_Inr_iff Let_def)

lemma anchor_window:
  assumes "operator_lineage_anchor h r a c = Inr anchor" "parse_utc_second (cc_issued_at c) = Some issued"
  shows "sc_validity (an_scope anchor) = \<lparr>not_before = issued,
    expires_at = issued + ab_maximum_capability_lifetime_seconds (rc_authority_bounds (ad_content r))\<rparr>"
  using assms
  by (auto simp: operator_lineage_anchor_def bindR_eq_Inr_iff anchor_scope_def Let_def split: if_splits)

lemma list_all2_member: "list_all2 P xs ys \<Longrightarrow> x \<in> set xs \<Longrightarrow> \<exists>y \<in> set ys. P x y"
  by (induction rule: list_all2_induct) auto

lemma lineage_windows:
  assumes "validate_capability_lineage cr v lineage root anchor now = Inr earliest"
    and "wf_root (cr_hexdigest cr) root" "s \<in> set lineage"
  shows "\<exists>start stop. parse_utc_second (cc_not_before (sg_claims s)) = Some start
    \<and> parse_utc_second (cc_expires_at (sg_claims s)) = Some stop
    \<and> earliest \<le> start \<and> stop \<le> earliest + 900"
proof -
  from assms(1) obtain approved grants oper where
    entries: "check_lineage_entries cr v root anchor approved now None [] lineage = Inr grants"
    and earliest: "parse_utc_second (cc_issued_at (sg_claims (hd lineage))) = Some earliest"
    and oper: "operator_lineage_anchor (cr_hexdigest cr) root anchor (sg_claims (hd lineage)) = Inr oper"
    and allowed: "li_allowed (validate_lineage oper grants MAX_LINEAGE_DEPTH)"
    by (auto simp: validate_capability_lineage_def bindS_Inr Let_def split: if_splits)
  from check_lineage_entries_Inr [OF entries]
  have "list_all2 (\<lambda>s g. lineage_grant s root = Inr g) lineage grants" by blast
  from list_all2_member [OF this assms(3)]
  obtain g where g: "g \<in> set grants" "lineage_grant s root = Inr g" by blast
  then have scope: "capability_scope_from_claims (sg_claims s) root = Inr (gr_scope g)"
    by (auto simp: lineage_grant_def bindR_eq_Inr_iff)
  have "chain_from attenuates (an_scope oper) (map gr_scope grants)"
    using allowed by (simp add: lineage_allowed_iff_raw)
  then have "attenuates (an_scope oper) (gr_scope g)"
    by (rule scopes.chain_below) (use g(1) in simp)
  then have "time_within (sc_validity (gr_scope g)) (sc_validity (an_scope oper))"
    by (simp add: attenuates_iff)
  then show ?thesis
    using scope_window [OF scope] anchor_window [OF oper earliest]
      bounds_grant(7) [OF wf_root_bounds(1) [OF assms(2)]]
    by (auto simp: time_within_def)
qed

text \<open>
  C13: re-issuing does not prolong authority: however long the chain, the verified capability and the
  moment of verification lie within 900 seconds of the first issuance in it.
\<close>

theorem chain_cannot_outlive_first_issuance:
  assumes "verify_task_request cr v root_reader lineage_reader clock request caller = Inr vm"
    and "wf_root (cr_hexdigest cr) (vm_root vm)"
  shows "\<exists>now start stop. clock = Some now
    \<and> parse_utc_second (cc_not_before (sg_claims (tr_capability request))) = Some start
    \<and> parse_utc_second (cc_expires_at (sg_claims (tr_capability request))) = Some stop
    \<and> vm_earliest_lineage_issued_at vm \<le> start \<and> start \<le> now \<and> now < stop
    \<and> stop \<le> vm_earliest_lineage_issued_at vm + 900"
  using assms(1)
proof (rule verify_Inr, goal_cases)
  case (1 now state ancestors)
  have "wf_root (cr_hexdigest cr) (ra_root state)" using assms(2) 1(14) by simp
  with lineage_windows [OF 1(11), of "tr_capability request"]
    validate_capability_lineage_Inr [OF 1(11)] 1(1)
  show ?case by (auto simp: link_in_force_def valid_at_def)
qed

section \<open>The command that is verified\<close>

definition canary_step_of :: "addressed_root \<Rightarrow> mutation_intent \<Rightarrow> bool" where
  "canary_step_of root i \<longleftrightarrow>
    (let content = ad_content root; plan = rc_rollout_plan content in
     mi_action i = AC_APPLY_CANARY \<and> mi_stable_percent i = 90 \<and> mi_candidate_percent i = 10
     \<and> mi_target i = rc_target content \<and> mi_root_id i = ad_root_id root
     \<and> mi_root_sha256 i = ad_root_sha256 root \<and> mi_concurrency i = None
     \<and> mi_stable_revision i = pl_stable_revision plan
     \<and> mi_candidate_revision i = pl_candidate_revision plan
     \<and> mi_provider_etag i = ss_provider_etag (rc_stable_snapshot content))"

text \<open>
  C23: the version 1 request that is verified can only be the one canary step of the root read from
  the store: its target, revisions, percentages and provider precondition are the approved root's,
  sent by the one caller of the route.
\<close>

theorem verified_request_is_canary_step:
  assumes "verify_task_request cr v root_reader lineage_reader clock request caller = Inr vm"
    and "wf_root (cr_hexdigest cr) (vm_root vm)" "validate_task_request (cr_hexdigest cr) request = None"
  shows "canary_step_of (vm_root vm) (tr_intent request)
    \<and> cc_subject (sg_claims (tr_capability request))
        = ab_executor_identity (rc_authority_bounds (ad_content (vm_root vm)))
    \<and> (\<exists>now. clock = Some now \<and> caller_is_bound (vc_route_policy (cv_configuration v)) caller now)"
  using assms(1)
proof (rule verify_Inr, goal_cases)
  case (1 now state ancestors)
  let ?c = "sg_claims (tr_capability request)" and ?r = "vm_root vm"
  have intent: "tr_intent request = claims_intent ?c"
    using assms(3) by (simp add: validate_task_request_def task_bindings_None Let_def)
  then have action: "cc_action ?c = AC_APPLY_CANARY"
    using 1(2) by (simp add: claims_intent_def)
  have "claims_match (cr_hexdigest cr) ?c ?r (vm_lineage_anchor vm)"
    using validate_capability_lineage_Inr [OF 1(11)] 1(14,15) by (simp add: link_in_force_def)
  then obtain plan_sha bounds_sha where bind: "claims_bindings_hold ?c ?r (vm_lineage_anchor vm) plan_sha bounds_sha"
    and etag: "cc_provider_etag ?c = ss_provider_etag (rc_stable_snapshot (ad_content ?r))"
    by (rule claims_match_facts) (use action in auto)
  note wf = bounds_facts(7) [OF wf_root_bounds(1) [OF assms(2)]]
    bounds_grant(3) [OF wf_root_bounds(1) [OF assms(2)], of AC_APPLY_CANARY]
  have "canary_step_of ?r (tr_intent request)"
    using bind action etag wf
    by (simp add: intent canary_step_of_def claims_intent_def claims_bindings_hold_def Let_def
        root_action_grant_for_def expected_concurrency_def)
  moreover have "cc_subject ?c = ab_executor_identity (rc_authority_bounds (ad_content ?r))"
    using bind action wf by (simp add: claims_bindings_hold_def Let_def root_action_grant_for_def)
  ultimately show ?case
    using 1(1,3) by (auto simp: validate_caller_def)
qed

text \<open>
  The caller is checked first: whatever the stores, the keys and the signatures say, a caller
  that is not the route's bound one is refused with the same code, and nothing else decides.
\<close>

theorem unbound_caller_is_refused:
  assumes "\<not> caller_is_bound (vc_route_policy (cv_configuration v)) caller now"
    and "mi_action (tr_intent request) = AC_APPLY_CANARY"
  shows "verify_task_request cr v root_reader lineage_reader (Some now) request caller
    = Inl (VerificationDenied RC_CALLER_UNAUTHORIZED)"
  using assms by (simp add: verify_task_request_def Let_def guardS_def first_failure.simps
      validate_caller_def deny_if_def)

end
