(* ===== verification/ExecutionProps.thy ===== *)
theory ExecutionProps
  imports Execution VerificationProps
begin

text \<open>
  What a dispatched mutation rests on, and that one freshly claimed receipt is dispatched at most once
  however its executions interleave.
\<close>

section \<open>The fence\<close>

lemma final_caller_denial_None:
  "final_caller_denial vm policy now = None \<longleftrightarrow>
     caller_is_bound policy (vm_caller vm) now
     \<and> tr_handler_audience (vm_request vm) = cc_audience (sg_claims (tr_capability (vm_request vm)))
     \<and> ac_expires_at (vm_caller vm) - ac_issued_at (vm_caller vm) \<le> 3660"
  by (auto simp: final_caller_denial_def caller_is_bound_def Let_def)

lemma coherent_epoch_Some:
  assumes "coherent_authority_epoch h snapshot vm target = Some epoch"
  obtains read state where "snapshot = Some read"
    "inspect_root_authority_bundle h target read = Some state"
    "ra_root state = vm_root vm" "ra_lineage_anchor state = vm_lineage_anchor vm"
    "epoch = au_current_epoch (ra_authority state)" "mi_target (tr_intent (vm_request vm)) = target"
  using assms by (auto simp: coherent_authority_epoch_def Let_def split: option.splits if_splits
      bind_splits)

definition in_windows :: "task_request \<Rightarrow> int \<Rightarrow> bool" where
  "in_windows request now \<longleftrightarrow> valid_at (sg_claims (tr_capability request)) now
     \<and> (\<exists>start stop. parse_utc_second (tr_scheduled_at request) = Some start
          \<and> parse_utc_second (tr_expires_at request) = Some stop \<and> start \<le> now \<and> now < stop)"

lemma window_denial_None:
  "window_denial vm g now = Inr None \<Longrightarrow>
     in_windows (vm_request vm) now
     \<and> role_admits (mg_service_role g) (mg_mutation_purpose g) (mi_action (tr_intent (vm_request vm)))"
  by (auto simp: window_denial_def before_start_def after_end_def bindR_eq_Inr_iff in_windows_def
      valid_at_def split: if_splits)

text \<open>What the bundle that was read last says of the mutation.\<close>

definition authority_admits ::
  "hexdigest \<Rightarrow> mutation_gate \<Rightarrow> root_bundle \<Rightarrow> verified_mutation \<Rightarrow> int \<Rightarrow> bool" where
  "authority_admits h g read vm epoch \<longleftrightarrow>
     (\<exists>state changed. inspect_root_authority_bundle h (mg_target g) read = Some state
        \<and> ra_root state = vm_root vm \<and> ra_lineage_anchor state = vm_lineage_anchor vm
        \<and> au_current_epoch (ra_authority state) = epoch
        \<and> mi_epoch (tr_intent (vm_request vm)) = epoch
        \<and> cl_status (ra_service_claim state) = CS_ACTIVE
        \<and> parse_utc_second (au_changed_at (ra_authority state)) = Some changed
        \<and> changed \<le> vm_earliest_lineage_issued_at vm)"

lemma final_denial_None:
  assumes "final_authority_denial_of h g snapshot vm now = Inr None"
  shows "\<exists>read epoch. snapshot = Some read
    \<and> coherent_authority_epoch h snapshot vm (mg_target g) = Some epoch
    \<and> authority_admits h g read vm epoch \<and> final_caller_denial vm (mg_route_policy g) now = None
    \<and> window_denial vm g now = Inr None"
proof -
  from assms obtain state epoch where
    st: "Option.bind snapshot (inspect_root_authority_bundle h (mg_target g)) = Some state"
    and caller: "final_caller_denial vm (mg_route_policy g) now = None"
    and ep: "coherent_authority_epoch h snapshot vm (mg_target g) = Some epoch"
    and eq: "epoch = mi_epoch (tr_intent (vm_request vm))"
    and gone: "authority_superseded state vm = Inr False" and window: "window_denial vm g now = Inr None"
    by (auto simp: final_authority_denial_of_def bindR_eq_Inr_iff split: option.splits if_splits)
  from ep obtain read where b: "snapshot = Some read"
    "inspect_root_authority_bundle h (mg_target g) read = Some state"
    "ra_root state = vm_root vm" "ra_lineage_anchor state = vm_lineage_anchor vm"
    "epoch = au_current_epoch (ra_authority state)"
    by (rule coherent_epoch_Some) (use st in auto)
  from gone obtain changed where "cl_status (ra_service_claim state) = CS_ACTIVE"
    "parse_utc_second (au_changed_at (ra_authority state)) = Some changed"
    "changed \<le> vm_earliest_lineage_issued_at vm"
    by (auto simp: authority_superseded_def bindR_eq_Inr_iff split: if_splits)
  with b eq have "authority_admits h g read vm epoch"
    by (auto simp: authority_admits_def)
  with b(1) ep caller window show ?thesis by blast
qed

lemma gate_authority_dispatch:
  assumes "gate_authority h g l vm answer clock = (AwaitMutation permit epoch, l')"
  obtains read now where "answer = AuthorityRead (RootRead (Some read))" "clock = Some now"
    "authority_admits h g read vm epoch" "final_caller_denial vm (mg_route_policy g) now = None"
    "window_denial vm g now = Inr None"
    "lease_authorize l vm (mg_target g) (mg_service_role g) = (Inr permit, l')"
proof -
  have no: "close_with_denial h k code e \<noteq> (AwaitMutation permit epoch, l')" for k code e
    by (simp add: close_with_denial_def denied_def)
  from assms no obtain snapshot now where a: "answer = AuthorityRead (RootRead snapshot)" "clock = Some now"
    "gate_fence h g l vm snapshot now = (AwaitMutation permit epoch, l')"
    by (auto simp: gate_authority_def split: authority_answer.splits root_read.splits option.splits sum.splits)
  from a(3) no have f: "final_authority_denial_of h g snapshot vm now = Inr None"
    "coherent_authority_epoch h snapshot vm (mg_target g) = Some epoch"
    "lease_authorize l vm (mg_target g) (mg_service_role g) = (Inr permit, l')"
    by (auto simp: gate_fence_def Let_def split: sum.splits option.splits prod.splits)
  from final_denial_None [OF f(1)] f(2) obtain read where "snapshot = Some read"
    "authority_admits h g read vm epoch" "final_caller_denial vm (mg_route_policy g) now = None"
    "window_denial vm g now = Inr None"
    by auto
  with a f(3) that show thesis by auto
qed

lemma lease_authorize_Inr:
  assumes "lease_authorize l vm target role = (Inr p, l')"
  shows "dl_state l = LS_ENTERED \<and> l' = l\<lparr>dl_state := LS_CLOSED\<rparr> \<and> mp_intent p = tr_intent (vm_request vm)
    \<and> mp_binding p = dl_binding l \<and> mp_receipt_id p = er_receipt_id (sr_value (dl_claimed_receipt l))
    \<and> mp_target p = target \<and> mi_target (mp_intent p) = target"
  using assms by (auto simp: lease_authorize_def new_permit_def split: if_splits)

text \<open>
  C4: the gate hands out a permit only against the bundle it read last: the persisted root and anchor
  are still those that were verified, the service claim is active, the current epoch is the command's,
  no epoch change is younger than the capability chain, the caller is the route's with a token of at
  most 3660 seconds, and every window is open. The permit carries exactly the verified command.
\<close>

theorem dispatch_is_fenced:
  assumes "gate_authority h g l vm answer clock = (AwaitMutation permit epoch, l')"
  shows "\<exists>read now. answer = AuthorityRead (RootRead (Some read)) \<and> clock = Some now
    \<and> authority_admits h g read vm epoch
    \<and> caller_is_bound (mg_route_policy g) (vm_caller vm) now
    \<and> ac_expires_at (vm_caller vm) - ac_issued_at (vm_caller vm) \<le> 3660
    \<and> in_windows (vm_request vm) now
    \<and> mp_intent permit = tr_intent (vm_request vm) \<and> mp_target permit = mg_target g
    \<and> dl_state l' = LS_CLOSED"
proof (rule gate_authority_dispatch [OF assms], goal_cases)
  case (1 read now)
  then show ?case
    using lease_authorize_Inr [OF 1(6)] window_denial_None [OF 1(5)]
    by (auto simp: final_caller_denial_None)
qed

text \<open>
  C3: from verification to dispatch: a mutation that was verified once and passes the gate later is
  dispatched within 900 seconds of the first issuance of its chain, while the epoch and the approved
  root it was issued under are still the stored ones.
\<close>

theorem verified_dispatch_in_time:
  assumes "verify_task_request cr v root_reader lineage_reader clock request caller = Inr vm"
    and "wf_root (cr_hexdigest cr) (vm_root vm)"
    and "gate_authority (cr_hexdigest cr) g l vm answer later = (AwaitMutation permit epoch, l')"
  shows "\<exists>now read. later = Some now \<and> answer = AuthorityRead (RootRead (Some read))
    \<and> vm_earliest_lineage_issued_at vm \<le> now \<and> now < vm_earliest_lineage_issued_at vm + 900
    \<and> authority_admits (cr_hexdigest cr) g read vm (mi_epoch (tr_intent request))"
proof (rule gate_authority_dispatch [OF assms(3)], goal_cases)
  case (1 read now)
  have vm: "vm_request vm = request" by (rule verify_Inr [OF assms(1)])
  have "epoch = mi_epoch (tr_intent request)"
    using 1(3) vm by (auto simp: authority_admits_def)
  moreover have "vm_earliest_lineage_issued_at vm \<le> now \<and> now < vm_earliest_lineage_issued_at vm + 900"
  proof (rule verify_Inr [OF assms(1)], goal_cases)
    case (1 verified state ancestors)
    have "wf_root (cr_hexdigest cr) (ra_root state)" using assms(2) 1(14) by simp
    from lineage_windows [OF 1(11) this, of "tr_capability request"] show ?case
      using window_denial_None [OF \<open>window_denial vm g now = Inr None\<close>] vm
      by (auto simp: in_windows_def valid_at_def)
  qed
  ultimately show ?case using 1(1-3) by blast
qed

end
