(* ===== verification/GateRuns.thy ===== *)
theory GateRuns
  imports ExecutionProps
begin

text \<open>
  Any number of executions of one lease, interleaved at their awaits. A step lets a new execution enter,
  or resumes one that awaits its prepared call or the authority; the world keeps the lease, what each
  execution awaits, and the permits that were handed to the provider adapter.
\<close>

record gate_world =
  gw_lease :: dispatch_lease
  gw_calls :: "nat \<rightharpoonup> mutation_gate \<times> verified_mutation \<times> gate_step"
  gw_dispatched :: "mutation_permit list"

fun dispatched_by :: "gate_step \<Rightarrow> mutation_permit list" where
  "dispatched_by (AwaitMutation permit epoch) = [permit]"
| "dispatched_by _ = []"

inductive gate_reachable :: "hexdigest \<Rightarrow> dispatch_lease \<Rightarrow> gate_world \<Rightarrow> bool" for h lease where
  start: "gate_reachable h lease \<lparr>gw_lease = lease, gw_calls = Map.empty, gw_dispatched = []\<rparr>"
| enter: "gate_reachable h lease w \<Longrightarrow> gw_calls w i = None \<Longrightarrow>
    gate_enter h g (gw_lease w) vm = (step, l) \<Longrightarrow>
    gate_reachable h lease (w\<lparr>gw_lease := l, gw_calls := (gw_calls w)(i \<mapsto> (g, vm, step))\<rparr>)"
| prepared: "gate_reachable h lease w \<Longrightarrow> gw_calls w i = Some (g, vm, AwaitPrepare) \<Longrightarrow>
    gate_prepared h g (gw_lease w) vm answer = (step, l) \<Longrightarrow>
    gate_reachable h lease (w\<lparr>gw_lease := l, gw_calls := (gw_calls w)(i \<mapsto> (g, vm, step))\<rparr>)"
| authority: "gate_reachable h lease w \<Longrightarrow> gw_calls w i = Some (g, vm, AwaitAuthority) \<Longrightarrow>
    gate_authority h g (gw_lease w) vm answer clock = (step, l) \<Longrightarrow>
    gate_reachable h lease (w\<lparr>gw_lease := l, gw_calls := (gw_calls w)(i \<mapsto> (g, vm, step)),
      gw_dispatched := dispatched_by step @ gw_dispatched w\<rparr>)"

section \<open>One part of an execution\<close>

definition suspended :: "gate_step \<Rightarrow> bool" where
  "suspended step \<longleftrightarrow> step = AwaitPrepare \<or> step = AwaitAuthority"

lemma suspended_finished [simp]: "\<not> suspended (GateFinished x)" "\<not> suspended (AwaitMutation p e)"
    "suspended AwaitPrepare" "suspended AwaitAuthority" "\<not> suspended (denied r)"
  by (simp_all add: suspended_def denied_def)

lemma dispatched_by_denied [simp]: "dispatched_by (denied r) = []"
  by (simp add: denied_def)

definition same_claim :: "dispatch_lease \<Rightarrow> dispatch_lease \<Rightarrow> bool" where
  "same_claim l m \<longleftrightarrow> dl_claimed_receipt l = dl_claimed_receipt m \<and> dl_binding l = dl_binding m"

lemma same_claim_simps [simp]: "same_claim l l" "same_claim (l\<lparr>dl_state := s\<rparr>) m \<longleftrightarrow> same_claim l m"
    "same_claim (lease_close l) m \<longleftrightarrow> same_claim l m"
  by (auto simp: same_claim_def lease_close_def)

lemma lease_close_state [simp]:
  "dl_state (lease_close l) = (if dl_state l = LS_ENTERED then LS_CLOSED else dl_state l)"
  by (simp add: lease_close_def)

definition matches_claim :: "hexdigest \<Rightarrow> dispatch_lease \<Rightarrow> verified_mutation \<Rightarrow> bool" where
  "matches_claim h l vm \<longleftrightarrow> binding_matches_verified h (dl_binding l) vm = Inr True"

lemma gate_enter_cases:
  assumes "gate_enter h g l vm = (step, l')"
  shows "same_claim l' l \<and> dispatched_by step = []
    \<and> (if dl_state l = LS_FRESH
       then dl_state l' \<noteq> LS_FRESH
         \<and> (suspended step \<longrightarrow> dl_state l' = LS_ENTERED \<and> matches_claim h l vm)
       else dl_state l' = dl_state l \<and> \<not> suspended step)"
  using assms
  by (auto simp: gate_enter_def lease_enter_def close_with_denial_def matches_claim_def
      split: if_splits sum.splits bool.splits)

lemma gate_prepared_cases:
  assumes "gate_prepared h g l vm answer = (step, l')" "dl_state l = LS_ENTERED"
  shows "same_claim l' l \<and> dispatched_by step = []
    \<and> (if suspended step then l' = l else dl_state l' = LS_CLOSED)"
  using assms
  by (auto simp: gate_prepared_def close_with_denial_def split: prepare_answer.splits sum.splits if_splits)

definition permit_of_claim :: "dispatch_lease \<Rightarrow> mutation_permit \<Rightarrow> bool" where
  "permit_of_claim l p \<longleftrightarrow>
     mp_receipt_id p = er_receipt_id (sr_value (dl_claimed_receipt l)) \<and> mp_binding p = dl_binding l
     \<and> mi_idempotency_key (mp_intent p) = mb_idempotency_key (dl_binding l)
     \<and> mi_epoch (mp_intent p) = mb_epoch (dl_binding l) \<and> mi_root_id (mp_intent p) = mb_root_id (dl_binding l)
     \<and> mi_provider_etag (mp_intent p) = mb_provider_precondition (dl_binding l)
     \<and> mi_action (mp_intent p) \<noteq> AC_RECOVER_STABLE"

lemma matches_claim_intent:
  assumes "matches_claim h l vm"
  shows "mi_idempotency_key (tr_intent (vm_request vm)) = mb_idempotency_key (dl_binding l)
    \<and> mi_epoch (tr_intent (vm_request vm)) = mb_epoch (dl_binding l)
    \<and> mi_root_id (tr_intent (vm_request vm)) = mb_root_id (dl_binding l)
    \<and> mi_provider_etag (tr_intent (vm_request vm)) = mb_provider_precondition (dl_binding l)
    \<and> mi_action (tr_intent (vm_request vm)) \<noteq> AC_RECOVER_STABLE"
  using assms
  by (auto simp: matches_claim_def binding_matches_verified_def bindR_eq_Inr_iff Let_def split: if_splits)

lemma gate_authority_cases:
  assumes "gate_authority h g l vm answer clock = (step, l')" "dl_state l = LS_ENTERED" "matches_claim h l vm"
  shows "same_claim l' l \<and> \<not> suspended step \<and> dl_state l' \<noteq> LS_FRESH
    \<and> (case dispatched_by step of [] \<Rightarrow> True | ps \<Rightarrow> dl_state l' = LS_CLOSED \<and> list_all (permit_of_claim l) ps)"
proof (cases step)
  case (AwaitMutation p e)
  with gate_authority_dispatch [of h g l vm answer clock p e l'] assms(1)
  have "lease_authorize l vm (mg_target g) (mg_service_role g) = (Inr p, l')" by metis
  from lease_authorize_Inr [OF this] matches_claim_intent [OF assms(3)] AwaitMutation show ?thesis
    by (auto simp: permit_of_claim_def)
next
  case (GateFinished x)
  then show ?thesis
    using assms(1,2)
    by (auto simp: gate_authority_def gate_fence_def close_with_denial_def lease_authorize_def Let_def
        split: authority_answer.splits root_read.splits option.splits sum.splits if_splits)
qed (use assms in \<open>auto simp: gate_authority_def gate_fence_def close_with_denial_def denied_def Let_def
    split: authority_answer.splits root_read.splits option.splits sum.splits prod.splits\<close>)

section \<open>At most one dispatch\<close>

definition waiting :: "gate_world \<Rightarrow> nat set" where
  "waiting w = {i. \<exists>g vm step. gw_calls w i = Some (g, vm, step) \<and> suspended step}"

definition gate_inv :: "hexdigest \<Rightarrow> dispatch_lease \<Rightarrow> gate_world \<Rightarrow> bool" where
  "gate_inv h lease w \<longleftrightarrow>
     same_claim (gw_lease w) lease
     \<and> (case dl_state (gw_lease w) of
          LS_FRESH \<Rightarrow> waiting w = {} \<and> gw_dispatched w = []
        | LS_ENTERED \<Rightarrow> (\<exists>i. waiting w \<subseteq> {i}) \<and> gw_dispatched w = []
        | LS_CLOSED \<Rightarrow> waiting w = {} \<and> length (gw_dispatched w) \<le> 1)
     \<and> (\<forall>i g vm step. gw_calls w i = Some (g, vm, step) \<longrightarrow> suspended step \<longrightarrow> matches_claim h lease vm)
     \<and> list_all (permit_of_claim lease) (gw_dispatched w)"

lemma waiting_upd:
  "waiting (w\<lparr>gw_lease := l, gw_calls := (gw_calls w)(i \<mapsto> (g, vm, step))\<rparr>)
     = (if suspended step then insert i (waiting w) else waiting w - {i})"
  "waiting (w\<lparr>gw_lease := l, gw_calls := (gw_calls w)(i \<mapsto> (g, vm, step)), gw_dispatched := ds\<rparr>)
     = (if suspended step then insert i (waiting w) else waiting w - {i})"
  "waiting (w\<lparr>gw_calls := (gw_calls w)(i \<mapsto> (g, vm, step))\<rparr>)
     = (if suspended step then insert i (waiting w) else waiting w - {i})"
  by (auto simp: waiting_def)

lemma waitingI: "gw_calls w i = Some (g, vm, step) \<Longrightarrow> suspended step \<Longrightarrow> i \<in> waiting w"
  by (auto simp: waiting_def)

lemma same_claim_trans: "same_claim a b \<Longrightarrow> same_claim b c \<Longrightarrow> same_claim a c"
  by (simp add: same_claim_def)

lemma same_claim_matches:
  "same_claim a b \<Longrightarrow> matches_claim h a vm \<longleftrightarrow> matches_claim h b vm"
  "same_claim a b \<Longrightarrow> permit_of_claim a = permit_of_claim b"
  by (auto simp: same_claim_def matches_claim_def permit_of_claim_def)

lemma waiting_entered:
  assumes "gate_inv h lease w" "i \<in> waiting w"
  shows "dl_state (gw_lease w) = LS_ENTERED \<and> waiting w = {i} \<and> gw_dispatched w = []"
  using assms by (auto simp: gate_inv_def split: lease_state.splits)

lemma gate_reachable_inv:
  assumes "gate_reachable h lease w" "dl_state lease = LS_FRESH"
  shows "gate_inv h lease w"
  using assms
proof (induction rule: gate_reachable.induct)
  case start
  then show ?case by (simp add: gate_inv_def waiting_def)
next
  case (enter w i g vm step l)
  then have inv: "gate_inv h lease w" by simp
  have "i \<notin> waiting w" using enter.hyps(2) by (simp add: waiting_def)
  with inv gate_enter_cases [OF enter.hyps(3)] show ?case
    by (auto simp: gate_inv_def waiting_upd same_claim_matches(1) intro: same_claim_trans
        split: if_splits lease_state.splits)
next
  case (prepared w i g vm answer step l)
  then have inv: "gate_inv h lease w" by simp
  from waitingI [OF prepared.hyps(2)] have w: "i \<in> waiting w" by simp
  have "matches_claim h lease vm" using inv prepared.hyps(2) by (auto simp: gate_inv_def)
  with inv waiting_entered [OF inv w] gate_prepared_cases [OF prepared.hyps(3)] show ?case
    by (auto simp: gate_inv_def waiting_upd intro: same_claim_trans split: if_splits lease_state.splits)
next
  case (authority w i g vm answer clock step l)
  then have inv: "gate_inv h lease w" by simp
  from waitingI [OF authority.hyps(2)] have w: "i \<in> waiting w" by simp
  have m: "matches_claim h lease vm" using inv authority.hyps(2) by (auto simp: gate_inv_def)
  have s: "same_claim (gw_lease w) lease" using inv by (simp add: gate_inv_def)
  show ?case
    using inv waiting_entered [OF inv w] s same_claim_matches [OF s] m
      gate_authority_cases [OF authority.hyps(3)]
    by (cases step) (auto simp: gate_inv_def waiting_upd intro: same_claim_trans split: lease_state.splits)
qed

text \<open>
  C22: the proof of one receipt creation buys at most one dispatch: it is spent by the first lease it
  mints, and however the executions of that lease interleave, one permit at most reaches the
  provider, for the claimed receipt and the command it was claimed for.
\<close>

theorem claim_dispatches_at_most_once:
  assumes "mint_lease h created = (Inr lease, spent)" and "gate_reachable h lease w"
  shows "length (gw_dispatched w) \<le> 1 \<and> list_all (permit_of_claim lease) (gw_dispatched w)
    \<and> dl_binding lease = dc_binding created
    \<and> (\<exists>e. mint_lease h spent = (Inl e, spent))"
proof -
  from assms(1) have fresh: "dl_state lease = LS_FRESH" "dl_binding lease = dc_binding created"
    and spent: "\<not> dc_available spent"
    by (auto simp: mint_lease_def take_claim_def new_dispatch_lease_def split: if_splits option.splits)
  have "gate_inv h lease w" by (rule gate_reachable_inv [OF assms(2) fresh(1)])
  then show ?thesis
    using fresh spent
    by (auto simp: gate_inv_def mint_lease_def take_claim_def split: lease_state.splits)
qed

end
