(* ===== verification/Dispatches.thy ===== *)
theory Dispatches
  imports GateRuns StoreProps
begin

text \<open>
  The receipt store and the final gate together: a call that creates a claim carries the proof that mints
  a lease, and the permits handed out under that lease are for the key that was claimed.
\<close>

fun claim_proof :: "hexdigest \<Rightarrow> target_binding \<Rightarrow> authority_db \<Rightarrow> store_event \<Rightarrow> direct_receipt_create option" where
  "claim_proof h c db (Called (ClaimReceipt receipt binding m) fate rb rb') =
     (case fst (claim_or_adopt_receipt h c receipt binding m fate rb rb' db) of
        Inr (ReceiptClaimCreated stored created) \<Rightarrow> Some created
      | _ \<Rightarrow> None)"
| "claim_proof h c db _ = None"

definition permits_for :: "string \<Rightarrow> gate_world list \<Rightarrow> mutation_permit list" where
  "permits_for key ws =
     filter (\<lambda>p. mi_idempotency_key (mp_intent p) = key) (concat (map gw_dispatched ws))"

section \<open>A claim in the store backs every permit\<close>

lemma claim_proof_inv:
  assumes "claim_proof h c db ev = Some created"
  obtains key where "\<not> receipt_stored h c key db" "receipt_stored h c key (store_step h c db ev)"
    "er_idempotency_key (sr_value (dc_claimed_receipt created)) = key"
proof -
  from assms obtain receipt binding m fate rb rb' stored
    where ev: "ev = Called (ClaimReceipt receipt binding m) fate rb rb'"
    and r: "fst (claim_or_adopt_receipt h c receipt binding m fate rb rb' db)
      = Inr (ReceiptClaimCreated stored created)"
    by (cases "(h, c, db, ev)" rule: claim_proof.cases) (auto split: sum.splits receipt_claim_result.splits)
  from claim_created_inv [OF r] obtain k where k:
    "receipt_document_id h c (er_idempotency_key receipt) = Inr k" "db_receipts db k = None"
    "snd (claim_or_adopt_receipt h c receipt binding m fate rb rb' db)
        = db\<lparr>db_receipts := (db_receipts db)(k \<mapsto> new_document 0 m receipt)\<rparr>"
    "er_idempotency_key (sr_value (dc_claimed_receipt created)) = er_idempotency_key receipt"
    by auto
  show thesis
    by (rule that [OF _ _ k(4)]) (use k ev in \<open>auto simp: receipt_stored_def\<close>)
qed

lemma mint_lease_key:
  assumes "mint_lease h created = (Inr lease, spent)"
  shows "dl_state lease = LS_FRESH \<and>
    mb_idempotency_key (dl_binding lease) = er_idempotency_key (sr_value (dc_claimed_receipt created))"
  using assms
  by (auto simp: mint_lease_def take_claim_def new_dispatch_lease_def receipt_matches_binding_def
      split: if_splits option.splits)

definition permits_backed :: "hexdigest \<Rightarrow> target_binding \<Rightarrow> authority_db \<Rightarrow> gate_world list \<Rightarrow> bool" where
  "permits_backed h c db ws \<longleftrightarrow>
     (\<forall>key. length (permits_for key ws) \<le> (if receipt_stored h c key db then 1 else 0))"

lemma lease_permits:
  assumes "mint_lease h created = (Inr lease, spent)" "gate_reachable h lease w"
  shows "length (gw_dispatched w) \<le> 1
    \<and> list_all (\<lambda>p. mi_idempotency_key (mp_intent p)
        = er_idempotency_key (sr_value (dc_claimed_receipt created))) (gw_dispatched w)"
proof -
  have "gate_inv h lease w"
    using gate_reachable_inv [OF assms(2)] mint_lease_key [OF assms(1)] by simp
  then show ?thesis
    using mint_lease_key [OF assms(1)]
    by (auto simp: gate_inv_def list_all_iff permit_of_claim_def split: lease_state.splits)
qed

end
