(* ===== verification/CoordinatorRuns.thy ===== *)
theory CoordinatorRuns
  imports ReceiptExecution Dispatches
begin

text \<open>
  Any number of coordinators over one receipt store. Each runs \<open>execute\<close> or \<open>recover_orphaned\<close> for a
  verified request and may be resumed, at each of its asks, after any events of the store and any steps
  of the others. Claims and replacements are answered by the store; the clock, reads and readbacks
  answer anything.
\<close>

section \<open>Where a coordinator may enter the gate\<close>

primrec gate_free :: "'a prog \<Rightarrow> bool" where
  "gate_free (Finish x) \<longleftrightarrow> True"
| "gate_free (Throw e) \<longleftrightarrow> True"
| "gate_free (AskClock k) \<longleftrightarrow> (\<forall>a. gate_free (k a))"
| "gate_free (AskClaim r b k) \<longleftrightarrow> False"
| "gate_free (AskRead key k) \<longleftrightarrow> (\<forall>a. gate_free (k a))"
| "gate_free (AskReplace s r k) \<longleftrightarrow> (\<forall>a. gate_free (k a))"
| "gate_free (AskGate l vm k) \<longleftrightarrow> False"
| "gate_free (AskReadback t k) \<longleftrightarrow> (\<forall>a. gate_free (k a))"

text \<open>The one call of the gate, with the lease that the created claim just minted.\<close>

definition gated_once :: "hexdigest \<Rightarrow> direct_receipt_create \<Rightarrow> 'a prog \<Rightarrow> bool" where
  "gated_once h created p \<longleftrightarrow>
     (\<exists>lease spent vm k. p = AskGate lease vm k \<and> mint_lease h created = (Inr lease, spent)
        \<and> (\<forall>a. gate_free (k a)))"

definition claim_guarded :: "hexdigest \<Rightarrow> receipt_claim_result option \<Rightarrow> 'a prog \<Rightarrow> bool" where
  "claim_guarded h answer p \<longleftrightarrow>
     gate_free p \<or> (\<exists>stored created. answer = Some (ReceiptClaimCreated stored created) \<and> gated_once h created p)"

primrec guarded :: "hexdigest \<Rightarrow> 'a prog \<Rightarrow> bool" where
  "guarded h (Finish x) \<longleftrightarrow> True"
| "guarded h (Throw e) \<longleftrightarrow> True"
| "guarded h (AskClock k) \<longleftrightarrow> (\<forall>a. guarded h (k a))"
| "guarded h (AskClaim r b k) \<longleftrightarrow> (\<forall>a. claim_guarded h a (k a))"
| "guarded h (AskRead key k) \<longleftrightarrow> (\<forall>a. guarded h (k a))"
| "guarded h (AskReplace s r k) \<longleftrightarrow> (\<forall>a. guarded h (k a))"
| "guarded h (AskGate l vm k) \<longleftrightarrow> False"
| "guarded h (AskReadback t k) \<longleftrightarrow> (\<forall>a. guarded h (k a))"

lemma gate_free_guarded: "gate_free p \<Longrightarrow> guarded h p"
  by (induction p) auto

lemma gate_free_bindP: "gate_free p \<Longrightarrow> (\<And>x. gate_free (f x)) \<Longrightarrow> gate_free (bindP p f)"
  by (induction p) auto

lemma gate_free_liftP: "(\<And>x. r = Inr x \<Longrightarrow> gate_free (f x)) \<Longrightarrow> gate_free (liftP r f)"
  by (simp add: liftP_def split: sum.splits)

lemma guarded_liftP: "(\<And>x. r = Inr x \<Longrightarrow> guarded h (f x)) \<Longrightarrow> guarded h (liftP r f)"
  by (simp add: liftP_def split: sum.splits)

lemma gate_free_read_clock: "(\<And>now. gate_free (f now)) \<Longrightarrow> gate_free (read_clock f)"
  by (simp add: read_clock_def split: option.splits)

lemma guarded_read_clock: "(\<And>now. guarded h (f now)) \<Longrightarrow> guarded h (read_clock f)"
  by (simp add: read_clock_def split: option.splits)

lemma gate_free_respond [simp]: "gate_free (respond r)"
  by (simp add: respond_def gate_free_liftP)

lemma gate_free_persist_attempts: "gate_free (persist_attempts h b vm expected new n)"
  by (induction n) (auto simp: liftP_def split: option.splits sum.splits)

lemma gate_free_persist_or_read: "gate_free (persist_or_read h b vm expected r)"
  by (simp add: persist_or_read_def gate_free_liftP gate_free_persist_attempts)

lemma gate_free_persisted: "(\<And>s. gate_free (f s)) \<Longrightarrow> gate_free (persisted h b vm expected r f)"
  by (auto simp: persisted_def gate_free_persist_or_read split: option.splits
      intro!: gate_free_liftP gate_free_bindP)

lemma gate_free_settle: "gate_free (settle_observation h e b vm ob s)"
  by (auto simp: settle_observation_def Let_def split: option.splits
      intro!: gate_free_liftP gate_free_read_clock gate_free_persisted)

lemma gate_free_readback_only: "gate_free (readback_only h e b vm s)"
  by (auto simp: readback_only_def Let_def gate_free_settle intro!: gate_free_read_clock gate_free_persisted)

lemma gate_free_handle_existing: "gate_free (handle_existing h e b vm s)"
  by (auto simp: handle_existing_def Let_def gate_free_readback_only
      intro!: gate_free_read_clock gate_free_liftP)

lemma gate_free_adopt_read: "gate_free (adopt_read h e b vm missing)"
  by (auto simp: adopt_read_def gate_free_handle_existing split: option.splits intro!: gate_free_liftP)

lemma gate_free_after_gate: "gate_free (after_gate h e b vm s answer)"
  by (auto simp: after_gate_def handle_after_provider_def gate_free_readback_only gate_free_handle_existing
      split: gate_answer.splits intro!: gate_free_read_clock gate_free_persisted)

lemma after_claim_guarded: "claim_guarded h answer (after_claim h e b vm answer)"
  by (auto simp: after_claim_def liftP_def claim_guarded_def gated_once_def gate_free_handle_existing
      gate_free_after_gate prod_eq_iff split: option.splits receipt_claim_result.splits sum.splits)

lemma guarded_execute: "guarded h (coordinator_execute h vm)"
  by (auto simp: coordinator_execute_def after_claim_guarded split: sum.splits
      intro!: guarded_read_clock guarded_liftP gate_free_guarded [OF gate_free_adopt_read]
        gate_free_guarded [OF gate_free_respond])

lemma guarded_recover: "guarded h (recover_orphaned h vm)"
  by (auto simp: recover_orphaned_def split: sum.splits
      intro!: gate_free_guarded [OF gate_free_adopt_read] gate_free_guarded [OF gate_free_respond])

text \<open>
  C25: A recovery never claims a receipt and never enters the gate, and neither does an execution whose
  clock shows less than the recovery window of 70 seconds left before the request expires: what they
  find claimed they only read back.
\<close>

theorem recovery_and_late_execution_never_dispatch:
  assumes "coordinator_execute h vm = AskClock k"
    and "parse_utc_second now = Some t" and "parse_utc_second (tr_expires_at (vm_request vm)) = Some stop"
    and "stop \<le> t + 70"
  shows "gate_free (k (Some now)) \<and> gate_free (recover_orphaned h vm)"
proof -
  have "gate_free (recover_orphaned h vm)"
    by (auto simp: recover_orphaned_def gate_free_adopt_read split: sum.splits)
  moreover have "gate_free (k (Some now))"
    using assms by (auto simp: coordinator_execute_def read_clock_def liftP_def parse_or_raise_def respond_def
        gate_free_adopt_read RECEIPT_NEW_CLAIM_RECOVERY_WINDOW_SECONDS_def RECEIPT_ORPHAN_GRACE_SECONDS_def
        RECEIPT_QUEUE_MAX_BACKOFF_SECONDS_def split: sum.splits)
  ultimately show ?thesis by simp
qed

section \<open>Coordinators over the store\<close>

record coordination =
  co_db :: authority_db
  co_workers :: "nat \<rightharpoonup> receipt_response prog"
  co_gates :: "gate_world list"

definition resumed :: "nat \<Rightarrow> receipt_response prog \<Rightarrow> coordination \<Rightarrow> coordination" where
  "resumed i p w = w\<lparr>co_workers := (co_workers w)(i \<mapsto> p)\<rparr>"

text \<open>A store call that raised is the answer \<open>None\<close>.\<close>

definition answered :: "'e + 'a \<Rightarrow> 'a option" where
  "answered r = (case r of Inl _ \<Rightarrow> None | Inr x \<Rightarrow> Some x)"

inductive coordinated :: "hexdigest \<Rightarrow> target_binding \<Rightarrow> coordination \<Rightarrow> bool" for h c where
  empty: "coordinated h c \<lparr>co_db = empty_db, co_workers = Map.empty, co_gates = []\<rparr>"
| execute: "coordinated h c w \<Longrightarrow> co_workers w i = None \<Longrightarrow>
    coordinated h c (resumed i (coordinator_execute h vm) w)"
| recover: "coordinated h c w \<Longrightarrow> co_workers w i = None \<Longrightarrow>
    coordinated h c (resumed i (recover_orphaned h vm) w)"
| store: "coordinated h c w \<Longrightarrow> coordinated h c (w\<lparr>co_db := store_step h c (co_db w) ev\<rparr>)"
| clock: "coordinated h c w \<Longrightarrow> co_workers w i = Some (AskClock k) \<Longrightarrow>
    coordinated h c (resumed i (k answer) w)"
| read: "coordinated h c w \<Longrightarrow> co_workers w i = Some (AskRead key k) \<Longrightarrow>
    coordinated h c (resumed i (k read_answer) w)"
| readback: "coordinated h c w \<Longrightarrow> co_workers w i = Some (AskReadback t k) \<Longrightarrow>
    coordinated h c (resumed i (k observed) w)"
| claim: "coordinated h c w \<Longrightarrow> co_workers w i = Some (AskClaim receipt binding k) \<Longrightarrow>
    coordinated h c (resumed i
      (k (answered (fst (claim_or_adopt_receipt h c receipt binding m fate rb rb' (co_db w)))))
      (w\<lparr>co_db := store_step h c (co_db w) (Called (ClaimReceipt receipt binding m) fate rb rb')\<rparr>))"
| replace: "coordinated h c w \<Longrightarrow> co_workers w i = Some (AskReplace expected replacement k) \<Longrightarrow>
    coordinated h c (resumed i
      (k (answered (fst (compare_and_set_receipt h c expected replacement m fate rb (co_db w)))))
      (w\<lparr>co_db := store_step h c (co_db w) (Called (ReplaceReceiptOp expected replacement m) fate rb rb)\<rparr>))"
| gate: "coordinated h c w \<Longrightarrow> co_workers w i = Some (AskGate lease vm k) \<Longrightarrow>
    gate_reachable h lease g \<Longrightarrow>
    coordinated h c (resumed i (k gate_answer) (w\<lparr>co_gates := g # co_gates w\<rparr>))"

section \<open>Who may still dispatch\<close>

definition lease_key :: "dispatch_lease \<Rightarrow> string" where
  "lease_key l = mb_idempotency_key (dl_binding l)"

text \<open>A worker at the gate holds the only claim of its key, which is stored and not dispatched yet.\<close>

definition holds_claim :: "hexdigest \<Rightarrow> target_binding \<Rightarrow> coordination \<Rightarrow> direct_receipt_create \<Rightarrow> bool" where
  "holds_claim h c w created \<longleftrightarrow>
     receipt_stored h c (er_idempotency_key (sr_value (dc_claimed_receipt created))) (co_db w)
     \<and> permits_for (er_idempotency_key (sr_value (dc_claimed_receipt created))) (co_gates w) = []"

definition worker_ok :: "hexdigest \<Rightarrow> target_binding \<Rightarrow> coordination \<Rightarrow> receipt_response prog \<Rightarrow> bool" where
  "worker_ok h c w p \<longleftrightarrow> guarded h p \<or> (\<exists>created. gated_once h created p \<and> holds_claim h c w created)"

fun gate_key :: "receipt_response prog \<Rightarrow> string option" where
  "gate_key (AskGate lease vm k) = Some (lease_key lease)"
| "gate_key _ = None"

definition gates_apart :: "(nat \<rightharpoonup> receipt_response prog) \<Rightarrow> bool" where
  "gates_apart ps \<longleftrightarrow>
     (\<forall>i j p q. ps i = Some p \<longrightarrow> ps j = Some q \<longrightarrow> gate_key p \<noteq> None \<longrightarrow> gate_key p = gate_key q \<longrightarrow> i = j)"

definition coordination_inv :: "hexdigest \<Rightarrow> target_binding \<Rightarrow> coordination \<Rightarrow> bool" where
  "coordination_inv h c w \<longleftrightarrow>
     store_inv h c (co_db w) \<and> permits_backed h c (co_db w) (co_gates w)
     \<and> (\<forall>i p. co_workers w i = Some p \<longrightarrow> worker_ok h c w p)
     \<and> gates_apart (co_workers w)"

lemma guarded_gate_key: "guarded h p \<Longrightarrow> gate_key p = None"
  by (cases p) auto

lemma gated_once_key:
  "gated_once h created p \<Longrightarrow> gate_key p = Some (er_idempotency_key (sr_value (dc_claimed_receipt created)))"
  by (auto simp: gated_once_def lease_key_def dest: mint_lease_key)

lemma holds_claim_step:
  assumes "holds_claim h c w created" "store_inv h c (co_db w)"
  shows "holds_claim h c (w\<lparr>co_db := store_step h c (co_db w) ev\<rparr>) created"
  using assms receipt_stored_step by (simp add: holds_claim_def)

lemma permits_backed_step:
  assumes "permits_backed h c db ws" "store_inv h c db"
  shows "permits_backed h c (store_step h c db ev) ws"
proof -
  have "length (permits_for key ws) \<le> (if receipt_stored h c key (store_step h c db ev) then 1 else 0)" for key
    using assms(1) receipt_stored_step [OF _ assms(2), of key ev]
    by (cases "receipt_stored h c key db") (auto simp: permits_backed_def split: if_splits)
  then show ?thesis by (simp add: permits_backed_def)
qed

lemma resumed_sel [simp]:
  "co_db (resumed i p w) = co_db w" "co_gates (resumed i p w) = co_gates w"
  "co_workers (resumed i p w) = (co_workers w)(i \<mapsto> p)"
  "holds_claim h c (resumed i p w) = holds_claim h c w" "worker_ok h c (resumed i p w) = worker_ok h c w"
  by (auto simp: resumed_def holds_claim_def worker_ok_def)

lemma worker_ok_guarded: "guarded h p \<Longrightarrow> worker_ok h c w p"
  by (simp add: worker_ok_def)

lemma gates_apart_upd:
  assumes "gates_apart ps" "gate_key p = None \<or> (\<forall>j q. ps j = Some q \<longrightarrow> gate_key q \<noteq> gate_key p)"
  shows "gates_apart (ps(i \<mapsto> p))"
  using assms unfolding gates_apart_def by (metis fun_upd_other fun_upd_same option.inject)

lemma inv_resumed:
  assumes "coordination_inv h c w" "guarded h p"
  shows "coordination_inv h c (resumed i p w)"
  using assms guarded_gate_key [OF assms(2)]
  by (auto simp: coordination_inv_def worker_ok_guarded intro: gates_apart_upd)

lemma worker_ok_ask:
  assumes "coordination_inv h c w" "co_workers w i = Some p" "gate_key p = None"
  shows "guarded h p"
  using assms gated_once_key by (fastforce simp: coordination_inv_def worker_ok_def)

lemma inv_store_step:
  assumes "coordination_inv h c w"
  shows "coordination_inv h c (w\<lparr>co_db := store_step h c (co_db w) ev\<rparr>)"
proof -
  let ?w = "w\<lparr>co_db := store_step h c (co_db w) ev\<rparr>"
  have inv: "store_inv h c (co_db w)" using assms by (simp add: coordination_inv_def)
  have "worker_ok h c w p \<Longrightarrow> worker_ok h c ?w p" for p
    using holds_claim_step [OF _ inv] by (auto simp: worker_ok_def)
  then show ?thesis
    using assms permits_backed_step [OF _ inv] stores.step_inv [OF inv]
    by (simp add: coordination_inv_def)
qed

lemma holder_at_gate:
  assumes "coordination_inv h c w" "co_workers w j = Some q" "gate_key q = Some key"
  shows "receipt_stored h c key (co_db w) \<and> permits_for key (co_gates w) = []"
proof -
  have "worker_ok h c w q" "\<not> guarded h q"
    using assms guarded_gate_key by (auto simp: coordination_inv_def)
  then obtain created where "gated_once h created q" "holds_claim h c w created"
    by (auto simp: worker_ok_def)
  with assms(3) gated_once_key show ?thesis by (fastforce simp: holds_claim_def)
qed

lemma inv_claimed:
  assumes inv: "coordination_inv h c w" and created: "claim_proof h c (co_db w) ev = Some created"
    and p: "gated_once h created p"
  shows "coordination_inv h c (resumed i p (w\<lparr>co_db := store_step h c (co_db w) ev\<rparr>))"
proof -
  let ?w = "w\<lparr>co_db := store_step h c (co_db w) ev\<rparr>"
  let ?key = "er_idempotency_key (sr_value (dc_claimed_receipt created))"
  from claim_proof_inv [OF created] have key: "\<not> receipt_stored h c ?key (co_db w)"
    "receipt_stored h c ?key (co_db ?w)" by auto
  have "permits_for ?key (co_gates w) = []"
    using inv key(1) by (auto simp: coordination_inv_def permits_backed_def split: if_splits)
  then have "worker_ok h c ?w p" using key p by (auto simp: worker_ok_def holds_claim_def)
  moreover have "gate_key q \<noteq> Some ?key" if "co_workers w j = Some q" for j q
    using holder_at_gate [OF inv that] key(1) by blast
  then have "gates_apart ((co_workers w)(i \<mapsto> p))"
    using inv gated_once_key [OF p] by (auto simp: coordination_inv_def intro!: gates_apart_upd)
  ultimately show ?thesis
    using inv_store_step [OF inv, of ev] by (simp add: coordination_inv_def)
qed

lemma answered_created:
  "answered (fst (claim_or_adopt_receipt h c receipt binding m fate rb rb' db))
     = Some (ReceiptClaimCreated stored created) \<Longrightarrow>
   claim_proof h c db (Called (ClaimReceipt receipt binding m) fate rb rb') = Some created"
  by (auto simp: answered_def split: sum.splits)

lemma permits_for_other:
  assumes "list_all (\<lambda>p. mi_idempotency_key (mp_intent p) = k) (gw_dispatched g)" "key \<noteq> k"
  shows "permits_for key (g # ws) = permits_for key ws"
  using assms by (auto simp: permits_for_def list_all_iff intro: filter_False)

lemma permits_for_same:
  assumes "list_all (\<lambda>p. mi_idempotency_key (mp_intent p) = k) (gw_dispatched g)" "permits_for k ws = []"
  shows "permits_for k (g # ws) = gw_dispatched g"
  using assms by (auto simp: permits_for_def list_all_iff intro: filter_True)

lemma inv_gated:
  assumes inv: "coordination_inv h c w" and at: "co_workers w i = Some (AskGate lease vm k)"
    and g: "gate_reachable h lease g"
  shows "coordination_inv h c (resumed i (k answer) (w\<lparr>co_gates := g # co_gates w\<rparr>))"
proof -
  let ?w = "w\<lparr>co_gates := g # co_gates w\<rparr>"
  have ok: "worker_ok h c w (AskGate lease vm k)" using inv at by (auto simp: coordination_inv_def)
  then obtain created spent where minted: "mint_lease h created = (Inr lease, spent)"
    and free: "\<forall>a. gate_free (k a)" and held: "holds_claim h c w created"
    by (auto simp: worker_ok_def gated_once_def)
  let ?key = "er_idempotency_key (sr_value (dc_claimed_receipt created))"
  note permits = lease_permits [OF minted g]
  have "length (permits_for key (co_gates ?w)) \<le> (if receipt_stored h c key (co_db w) then 1 else 0)" for key
    using inv held permits permits_for_other [of ?key g key] permits_for_same [of ?key g]
    by (cases "key = ?key") (auto simp: coordination_inv_def permits_backed_def holds_claim_def)
  then have backed: "permits_backed h c (co_db w) (co_gates ?w)" by (simp add: permits_backed_def)
  have "worker_ok h c ?w q" if q: "co_workers w j = Some q" "j \<noteq> i" for j q
  proof (cases "guarded h q")
    case False
    with q inv obtain other where other: "gated_once h other q" "holds_claim h c w other"
      by (auto simp: coordination_inv_def worker_ok_def)
    have "gate_key (AskGate lease vm k) = Some ?key"
      using mint_lease_key [OF minted] by (simp add: lease_key_def)
    moreover have "gate_key q \<noteq> gate_key (AskGate lease vm k)"
      using inv q at by (auto simp: coordination_inv_def gates_apart_def)
    ultimately have "er_idempotency_key (sr_value (dc_claimed_receipt other)) \<noteq> ?key"
      using gated_once_key [OF other(1)] by simp
    with other permits permits_for_other show ?thesis
      by (auto simp: worker_ok_def holds_claim_def intro!: exI [of _ other])
  qed (rule worker_ok_guarded)
  moreover have "guarded h (k answer)" using free gate_free_guarded by blast
  ultimately show ?thesis
    using inv backed guarded_gate_key
    by (auto simp: coordination_inv_def worker_ok_guarded intro!: gates_apart_upd)
qed

lemma coordinated_inv: "coordinated h c w \<Longrightarrow> coordination_inv h c w"
proof (induction rule: coordinated.induct)
  case empty
  then show ?case
    by (simp add: coordination_inv_def gates_apart_def store_inv_empty permits_backed_def permits_for_def)
next
  case (claim w i receipt binding k m fate rb rb')
  let ?ev = "Called (ClaimReceipt receipt binding m) fate rb rb'"
  let ?answer = "answered (fst (claim_or_adopt_receipt h c receipt binding m fate rb rb' (co_db w)))"
  have "claim_guarded h ?answer (k ?answer)"
    using worker_ok_ask [OF claim.IH claim.hyps(2)] by simp
  then consider (free) "gate_free (k ?answer)"
    | (won) stored created where "?answer = Some (ReceiptClaimCreated stored created)"
        "gated_once h created (k ?answer)"
    by (auto simp: claim_guarded_def)
  then show ?case
  proof cases
    case free
    then show ?thesis by (intro inv_resumed inv_store_step claim.IH gate_free_guarded)
  next
    case won
    then show ?thesis by (intro inv_claimed claim.IH) (auto dest: answered_created)
  qed
next
  case (gate w i lease vm k g answer)
  then show ?case by (intro inv_gated)
qed (use worker_ok_ask in \<open>fastforce intro!: inv_resumed inv_store_step simp: guarded_execute guarded_recover\<close>)+

end
