(* ===== verification/CoordinatorProps.thy ===== *)
theory CoordinatorProps
  imports ReceiptExecution
begin

text \<open>
  What one run of the coordinator does, whatever its ports answer: which answers back the outcome it
  writes, how long it can take, what it answers, and when it does not claim.
\<close>

section \<open>What backs an outcome\<close>

datatype heard = HeardGate gate_answer | HeardReadback target_configuration "receipt_readback option"

text \<open>Every replacement that is asked for satisfies a condition on the answers heard before it.\<close>

primrec replaces_only ::
  "(heard list \<Rightarrow> execution_receipt stored_record \<Rightarrow> execution_receipt \<Rightarrow> bool) \<Rightarrow> 'a prog \<Rightarrow> heard list \<Rightarrow> bool" where
  "replaces_only ok (Finish x) = (\<lambda>hs. True)"
| "replaces_only ok (Throw e) = (\<lambda>hs. True)"
| "replaces_only ok (AskClock k) = (\<lambda>hs. \<forall>a. replaces_only ok (k a) hs)"
| "replaces_only ok (AskClaim r b k) = (\<lambda>hs. \<forall>a. replaces_only ok (k a) hs)"
| "replaces_only ok (AskRead key k) = (\<lambda>hs. \<forall>a. replaces_only ok (k a) hs)"
| "replaces_only ok (AskReplace s r k) = (\<lambda>hs. ok hs s r \<and> (\<forall>a. replaces_only ok (k a) hs))"
| "replaces_only ok (AskGate l vm k) = (\<lambda>hs. \<forall>a. replaces_only ok (k a) (HeardGate a # hs))"
| "replaces_only ok (AskReadback t k) = (\<lambda>hs. \<forall>a. replaces_only ok (k a) (HeardReadback t a # hs))"

fun outcome_backed :: "hexdigest \<Rightarrow> verified_mutation \<Rightarrow> heard list \<Rightarrow> receipt_outcome \<Rightarrow> execution_receipt \<Rightarrow> bool" where
  "outcome_backed h vm hs OC_CLAIMED r \<longleftrightarrow> False"
| "outcome_backed h vm hs OC_VERIFIED r \<longleftrightarrow>
     (\<exists>expected binding ob. expected_work h vm = Inr (expected, binding) \<and> HeardReadback expected (Some ob) \<in> set hs
        \<and> ob_state ob = Some expected \<and> er_observed_etag r = ob_etag ob \<and> ob_etag ob \<noteq> None)"
| "outcome_backed h vm hs OC_DENIED r \<longleftrightarrow>
     (\<exists>d. HeardGate (GateDenial d) \<in> set hs \<and> er_reason_code r = Some (fd_reason_code d)
        \<and> er_observed_authority_epoch r = fd_observed_authority_epoch d)"
| "outcome_backed h vm hs OC_APPLIED r \<longleftrightarrow>
     (\<exists>m epoch. HeardGate (GateMutation m epoch) \<in> set hs \<and> rm_status m = MS_APPLIED
        \<and> er_provider_operation r = rm_provider_operation m \<and> er_observed_authority_epoch r = Some epoch)"
| "outcome_backed h vm hs OC_FAILED_SAFE r \<longleftrightarrow>
     (\<exists>m epoch. HeardGate (GateMutation m epoch) \<in> set hs \<and> rm_status m = MS_FAILED_SAFE
        \<and> er_reason_code r = rm_reason_code m \<and> er_observed_authority_epoch r = Some epoch)"
| "outcome_backed h vm hs OC_AMBIGUOUS r \<longleftrightarrow>
     (HeardGate GateException \<in> set hs
      \<or> (\<exists>m epoch. HeardGate (GateMutation m epoch) \<in> set hs \<and> rm_status m = MS_AMBIGUOUS)
      \<or> (\<exists>expected answer. HeardReadback expected answer \<in> set hs))"

definition replacement_backed ::
  "hexdigest \<Rightarrow> verified_mutation \<Rightarrow> heard list \<Rightarrow> execution_receipt stored_record \<Rightarrow> execution_receipt \<Rightarrow> bool" where
  "replacement_backed h vm hs stored r \<longleftrightarrow>
     receipt_cas_identity r = receipt_cas_identity (sr_value stored)
     \<and> er_outcome r \<in> reachable_outcomes (er_outcome (sr_value stored))
     \<and> outcome_backed h vm hs (er_outcome r) r"

lemma replaces_liftP: "(\<And>x. r = Inr x \<Longrightarrow> replaces_only ok (f x) hs) \<Longrightarrow> replaces_only ok (liftP r f) hs"
  by (simp add: liftP_def split: sum.splits)

lemma replaces_read_clock: "(\<And>now. replaces_only ok (f now) hs) \<Longrightarrow> replaces_only ok (read_clock f) hs"
  by (simp add: read_clock_def split: option.splits)

lemma replaces_respond [simp]: "replaces_only ok (respond r) hs"
  by (simp add: respond_def replaces_liftP)

lemma replaces_attempts:
  assumes "ok hs expected (sr_value new)" "\<And>s. replaces_only ok (f s) hs"
  shows "replaces_only ok (bindP (persist_attempts h b vm expected new n) f) hs"
  using assms by (induction n) (auto simp: liftP_def split: option.splits sum.splits)

lemma resolution_step:
  assumes "valid_monotonic_resolution expected \<lparr>sr_value = r, sr_revision = sr_revision expected + 1\<rparr>"
  shows "receipt_cas_identity r = receipt_cas_identity (sr_value expected)
    \<and> er_outcome r \<in> reachable_outcomes (er_outcome (sr_value expected))"
  using assms by (simp add: valid_monotonic_resolution_def Let_def)

lemma replaces_persist_or_read:
  assumes "receipt_cas_identity r = receipt_cas_identity (sr_value expected) \<Longrightarrow>
      er_outcome r \<in> reachable_outcomes (er_outcome (sr_value expected)) \<Longrightarrow> ok hs expected r"
    and "\<And>s. replaces_only ok (f s) hs"
  shows "replaces_only ok (bindP (persist_or_read h b vm expected r) f) hs"
proof (cases "valid_monotonic_resolution expected \<lparr>sr_value = r, sr_revision = sr_revision expected + 1\<rparr>")
  case True
  with assms(1) resolution_step have "ok hs expected r" by blast
  then have "replaces_only ok (bindP (persist_attempts h b vm expected
      \<lparr>sr_value = r, sr_revision = sr_revision expected + 1\<rparr> n) f) hs" for n
    using assms(2) by (intro replaces_attempts) simp_all
  with assms(2) show ?thesis
    by (simp add: persist_or_read_def liftP_def split: sum.splits)
next
  case False
  with assms(2) show ?thesis
    by (simp add: persist_or_read_def liftP_def split: sum.splits)
qed

lemma replaces_persisted:
  assumes "\<And>r. replacement = Inr r \<Longrightarrow> receipt_cas_identity r = receipt_cas_identity (sr_value expected) \<Longrightarrow>
      er_outcome r \<in> reachable_outcomes (er_outcome (sr_value expected)) \<Longrightarrow> ok hs expected r"
    and "\<And>s. replaces_only ok (f s) hs"
  shows "replaces_only ok (persisted h b vm expected replacement f) hs"
  unfolding persisted_def
  using assms by (intro replaces_liftP replaces_persist_or_read) (simp_all split: option.split)

definition observed :: "target_configuration \<Rightarrow> receipt_readback \<Rightarrow> heard list \<Rightarrow> bool" where
  "observed expected ob hs \<longleftrightarrow>
     HeardReadback expected (Some ob) \<in> set hs \<or> (HeardReadback expected None \<in> set hs \<and> ob = no_observation)"

lemma backed_by_readback:
  assumes "expected_work h vm = Inr (expected, binding)" "observed expected ob hs"
  shows "ob_state ob = Some expected \<Longrightarrow> ob_etag ob = Some etag \<Longrightarrow>
      verified_readback_receipt current etag now = Inr r \<Longrightarrow> outcome_backed h vm hs (er_outcome r) r"
    and "ambiguous_readback_receipt current ob now = Inr r \<Longrightarrow> outcome_backed h vm hs (er_outcome r) r"
  using assms
  by (auto simp: observed_def no_observation_def verified_readback_receipt_def ambiguous_readback_receipt_def)

lemma replaces_settle:
  assumes "expected_work h vm = Inr (expected, binding)" "observed expected ob hs"
  shows "replaces_only (replacement_backed h vm) (settle_observation h expected binding vm ob s) hs"
  using backed_by_readback [OF assms]
  by (auto simp: settle_observation_def Let_def replacement_backed_def split: option.splits
      intro!: replaces_liftP replaces_read_clock replaces_persisted)

lemma replaces_readback_only:
  assumes "expected_work h vm = Inr (expected, binding)"
  shows "replaces_only (replacement_backed h vm) (readback_only h expected binding vm s) hs"
proof -
  have seen: "observed expected (case answer of None \<Rightarrow> no_observation | Some ob \<Rightarrow> ob) (HeardReadback expected answer # hs)"
    for answer by (simp add: observed_def split: option.splits)
  show ?thesis
    using replaces_settle [OF assms seen] backed_by_readback(2) [OF assms seen]
    by (auto simp: readback_only_def Let_def replacement_backed_def
        intro!: replaces_read_clock replaces_persisted)
qed

lemma replaces_handle_existing:
  assumes "expected_work h vm = Inr (expected, binding)"
  shows "replaces_only (replacement_backed h vm) (handle_existing h expected binding vm s) hs"
  using replaces_readback_only [OF assms]
  by (auto simp: handle_existing_def Let_def intro!: replaces_read_clock replaces_liftP)

lemma replaces_adopt_read:
  assumes "expected_work h vm = Inr (expected, binding)"
  shows "replaces_only (replacement_backed h vm) (adopt_read h expected binding vm missing) hs"
  using replaces_handle_existing [OF assms]
  by (auto simp: adopt_read_def split: option.splits intro!: replaces_liftP)

lemma backed_by_gate:
  "HeardGate GateException \<in> set hs \<Longrightarrow>
     provider_result_receipt claimed ambiguous_mutation None now = Inr r \<Longrightarrow> outcome_backed h vm hs (er_outcome r) r"
  "HeardGate (GateMutation m epoch) \<in> set hs \<Longrightarrow>
     provider_result_receipt claimed m (Some epoch) now = Inr r \<Longrightarrow> outcome_backed h vm hs (er_outcome r) r"
  "HeardGate (GateDenial d) \<in> set hs \<Longrightarrow> denied_receipt d now = Inr r \<Longrightarrow> outcome_backed h vm hs (er_outcome r) r"
  by (cases "rm_status m"; auto simp: provider_result_receipt_def denied_receipt_def ambiguous_mutation_def)+

lemma replaces_after_gate:
  assumes "expected_work h vm = Inr (expected, binding)" "HeardGate answer \<in> set hs"
  shows "replaces_only (replacement_backed h vm) (after_gate h expected binding vm s answer) hs"
  using assms(2) backed_by_gate replaces_handle_existing [OF assms(1)] replaces_readback_only [OF assms(1)]
  by (auto simp: after_gate_def handle_after_provider_def replacement_backed_def split: gate_answer.splits
      intro!: replaces_read_clock replaces_persisted)

lemma replaces_after_claim:
  assumes "expected_work h vm = Inr (expected, binding)"
  shows "replaces_only (replacement_backed h vm) (after_claim h expected binding vm answer) hs"
  using replaces_handle_existing [OF assms] replaces_after_gate [OF assms]
  by (auto simp: after_claim_def split: option.splits receipt_claim_result.splits intro!: replaces_liftP)

lemma replaces_execute: "replaces_only (replacement_backed h vm) (coordinator_execute h vm) hs"
  using replaces_adopt_read replaces_after_claim
  by (auto simp: coordinator_execute_def split: sum.splits intro!: replaces_read_clock replaces_liftP)

lemma replaces_recover: "replaces_only (replacement_backed h vm) (recover_orphaned h vm) hs"
  using replaces_adopt_read by (auto simp: recover_orphaned_def split: sum.splits)

section \<open>How long it takes and what it answers\<close>

primrec ends_within :: "('a \<Rightarrow> bool) \<Rightarrow> 'a prog \<Rightarrow> nat \<Rightarrow> bool" where
  "ends_within ok (Finish x) = (\<lambda>n. ok x)"
| "ends_within ok (Throw e) = (\<lambda>n. True)"
| "ends_within ok (AskClock k) = (\<lambda>n. 0 < n \<and> (\<forall>a. ends_within ok (k a) (n - 1)))"
| "ends_within ok (AskClaim r b k) = (\<lambda>n. 0 < n \<and> (\<forall>a. ends_within ok (k a) (n - 1)))"
| "ends_within ok (AskRead key k) = (\<lambda>n. 0 < n \<and> (\<forall>a. ends_within ok (k a) (n - 1)))"
| "ends_within ok (AskReplace s r k) = (\<lambda>n. 0 < n \<and> (\<forall>a. ends_within ok (k a) (n - 1)))"
| "ends_within ok (AskGate l vm k) = (\<lambda>n. 0 < n \<and> (\<forall>a. ends_within ok (k a) (n - 1)))"
| "ends_within ok (AskReadback t k) = (\<lambda>n. 0 < n \<and> (\<forall>a. ends_within ok (k a) (n - 1)))"

text \<open>A response that shows a receipt shows one bound to this request, with the reason that its outcome has.\<close>

definition own_response :: "hexdigest \<Rightarrow> verified_mutation \<Rightarrow> receipt_response \<Rightarrow> bool" where
  "own_response h vm response \<longleftrightarrow>
     validate_receipt_response response = None
     \<and> (case response of
          ReceiptDenied reason \<Rightarrow> True
        | ReceiptStored s reason \<Rightarrow>
            (\<exists>expected binding. expected_work h vm = Inr (expected, binding)
               \<and> valid_adopted_receipt h binding vm s = Inr True))"

lemma ends_within_mono: "ends_within ok p m \<Longrightarrow> m \<le> n \<Longrightarrow> ends_within ok p n"
  by (induction p arbitrary: m n) (simp_all, (meson diff_le_mono less_le_trans rangeI)+)

lemma ends_liftP: "(\<And>x. r = Inr x \<Longrightarrow> ends_within ok (f x) n) \<Longrightarrow> ends_within ok (liftP r f) n"
  by (simp add: liftP_def split: sum.splits)

lemma ends_read_clock: "(\<And>now. ends_within ok (f now) n) \<Longrightarrow> ends_within ok (read_clock f) (Suc n)"
  by (simp add: read_clock_def split: option.splits)

lemma ends_respond:
  assumes "\<And>s reason. r = ReceiptStored s reason \<Longrightarrow>
      \<exists>expected binding. expected_work h vm = Inr (expected, binding) \<and> valid_adopted_receipt h binding vm s = Inr True"
  shows "ends_within (own_response h vm) (respond r) n"
  using assms by (cases r) (auto simp: respond_def liftP_def own_response_def split: sum.splits)

lemma ends_attempts:
  assumes "ends_within ok (f None) m" "valid_adopted_receipt h b vm new = Inr True"
    and "\<And>s. valid_adopted_receipt h b vm s = Inr True \<Longrightarrow> ends_within ok (f (Some s)) m"
  shows "ends_within ok (bindP (persist_attempts h b vm expected new n) f) (2 * n + m)"
proof -
  have "ends_within ok (f None) k" if "m \<le> k" for k
    using ends_within_mono [OF assms(1) that] .
  moreover have "ends_within ok (f (Some s)) k" if "valid_adopted_receipt h b vm s = Inr True" "m \<le> k" for s k
    using ends_within_mono [OF assms(3) [OF that(1)] that(2)] .
  ultimately show ?thesis
    using assms(2) by (induction n) (auto simp: liftP_def split: option.split sum.split)
qed

lemma ends_persisted:
  assumes "\<And>s. valid_adopted_receipt h b vm s = Inr True \<Longrightarrow> ends_within (own_response h vm) (f s) m"
  shows "ends_within (own_response h vm) (persisted h b vm expected replacement f) (4 + m)"
proof -
  let ?f = "\<lambda>stored. case stored of None \<Rightarrow> respond (ReceiptDenied RC_AUTHORITY_UNAVAILABLE) | Some s \<Rightarrow> f s"
  have denied: "ends_within (own_response h vm) (respond (ReceiptDenied RC_AUTHORITY_UNAVAILABLE)) n" for n
    by (rule ends_respond) simp
  have "ends_within (own_response h vm) (bindP (persist_or_read h b vm expected r) ?f) (4 + m)" for r
  proof (cases "valid_adopted_receipt h b vm \<lparr>sr_value = r, sr_revision = sr_revision expected + 1\<rparr> = Inr True")
    case True
    with assms denied have "ends_within (own_response h vm) (bindP (persist_attempts h b vm expected
        \<lparr>sr_value = r, sr_revision = sr_revision expected + 1\<rparr> 2) ?f) (2 * 2 + m)"
      by (intro ends_attempts) simp_all
    with denied show ?thesis by (simp add: persist_or_read_def liftP_def split: sum.splits)
  next
    case False
    with denied show ?thesis by (auto simp: persist_or_read_def liftP_def split: sum.splits)
  qed
  then show ?thesis by (simp add: persisted_def ends_liftP)
qed

lemma ends_settle:
  assumes "expected_work h vm = Inr (expected, binding)" "valid_adopted_receipt h binding vm s = Inr True"
  shows "ends_within (own_response h vm) (settle_observation h expected binding vm ob s) 5"
proof -
  have own: "ends_within (own_response h vm) (respond (ReceiptStored s reason)) n"
    if "valid_adopted_receipt h binding vm s = Inr True" for s reason n
    using assms(1) that by (intro ends_respond) auto
  have finish: "ends_within (own_response h vm) (persisted h binding vm s replacement
      (\<lambda>s. respond (ReceiptStored s (er_reason_code (sr_value s))))) 4" for replacement
    using ends_persisted [where m = 0] own by fastforce
  have five: "ends_within (own_response h vm) (read_clock f) 5"
    if "\<And>now. ends_within (own_response h vm) (f now) 4" for f
    using ends_read_clock [OF that] by (simp add: eval_nat_numeral)
  show ?thesis
    using own [OF assms(2)]
    by (auto simp: settle_observation_def Let_def split: option.split intro!: ends_liftP five finish)
qed

lemma ends_readback_only:
  assumes "expected_work h vm = Inr (expected, binding)" "valid_adopted_receipt h binding vm s = Inr True"
  shows "ends_within (own_response h vm) (readback_only h expected binding vm s) 11"
proof -
  have "ends_within (own_response h vm) (read_clock (\<lambda>now. persisted h binding vm s (replacement now)
      (settle_observation h expected binding vm ob))) (Suc (4 + 5))" for replacement ob
    by (intro ends_read_clock ends_persisted ends_settle assms(1))
  moreover have "ends_within (own_response h vm) (settle_observation h expected binding vm ob s) 10" for ob
    using ends_within_mono [OF ends_settle [OF assms]] by simp
  ultimately show ?thesis by (simp add: readback_only_def Let_def)
qed

lemma ends_handle_existing:
  assumes "expected_work h vm = Inr (expected, binding)" "valid_adopted_receipt h binding vm s = Inr True"
  shows "ends_within (own_response h vm) (handle_existing h expected binding vm s) 12"
proof -
  have own: "ends_within (own_response h vm) (respond (ReceiptStored s reason)) n" for reason n
    using assms by (intro ends_respond) auto
  have clock: "ends_within (own_response h vm) (read_clock f) 12"
    if "\<And>now. ends_within (own_response h vm) (f now) 11" for f
    using ends_read_clock [OF that] by (simp add: eval_nat_numeral)
  show ?thesis
    using own ends_readback_only [OF assms] ends_within_mono [OF ends_readback_only [OF assms], of 12]
    by (auto simp: handle_existing_def Let_def intro!: clock ends_liftP)
qed

lemma ends_adopt_read:
  assumes "expected_work h vm = Inr (expected, binding)"
  shows "ends_within (own_response h vm) (adopt_read h expected binding vm missing) 13"
  using ends_handle_existing [OF assms]
  by (auto simp: adopt_read_def split: option.split intro!: ends_liftP ends_respond)

lemma ends_after_gate:
  assumes "expected_work h vm = Inr (expected, binding)"
  shows "ends_within (own_response h vm) (after_gate h expected binding vm s answer) 17"
proof -
  have after: "ends_within (own_response h vm) (handle_after_provider h expected binding vm s) 12"
    if "valid_adopted_receipt h binding vm s = Inr True" for s
    using ends_handle_existing [OF assms that] ends_within_mono [OF ends_readback_only [OF assms that], of 12]
    by (simp add: handle_after_provider_def)
  have "ends_within (own_response h vm) (read_clock (\<lambda>now. persisted h binding vm s (replacement now) f)) (Suc (4 + 12))"
    if "\<And>s. valid_adopted_receipt h binding vm s = Inr True \<Longrightarrow> ends_within (own_response h vm) (f s) 12"
    for replacement f
    by (intro ends_read_clock ends_persisted that)
  then show ?thesis
    using after ends_handle_existing [OF assms] by (simp add: after_gate_def split: gate_answer.split)
qed

lemma ends_after_claim:
  assumes "expected_work h vm = Inr (expected, binding)"
  shows "ends_within (own_response h vm) (after_claim h expected binding vm answer) 18"
proof -
  have "ends_within (own_response h vm) (handle_existing h expected binding vm s) 18"
    if "valid_adopted_receipt h binding vm s = Inr True" for s
    using ends_within_mono [OF ends_handle_existing [OF assms that]] by simp
  then show ?thesis
    using ends_after_gate [OF assms]
    by (auto simp: after_claim_def split: option.split receipt_claim_result.split
        intro!: ends_liftP ends_respond)
qed

lemma ends_execute: "ends_within (own_response h vm) (coordinator_execute h vm) 20"
proof -
  have work: "ends_within (own_response h vm) (adopt_read h expected binding vm missing) 19"
    "ends_within (own_response h vm) (AskClaim r binding (after_claim h expected binding vm)) 19"
    if "expected_work h vm = Inr (expected, binding)" for expected binding missing r
    using ends_within_mono [OF ends_adopt_read [OF that]] ends_after_claim [OF that] by simp_all
  have clock: "ends_within (own_response h vm) (read_clock f) 20"
    if "\<And>now. ends_within (own_response h vm) (f now) 19" for f
    using ends_read_clock [OF that] by (simp add: eval_nat_numeral)
  show ?thesis
    using work by (auto simp: coordinator_execute_def split: sum.split intro!: clock ends_liftP ends_respond)
qed

lemma ends_recover: "ends_within (own_response h vm) (recover_orphaned h vm) 13"
  using ends_adopt_read by (auto simp: recover_orphaned_def split: sum.split intro!: ends_respond)

section \<open>Properties of one run\<close>

text \<open>
  C2: The coordinator never invents an outcome. Whatever its ports answer, every replacement that it asks
  for keeps the identity of the receipt and moves its outcome forward; it is VERIFIED only on a readback
  that observed the expected state with that etag, DENIED only with the reason of a denial of the final
  gate, APPLIED or FAILED_SAFE only as the gate's mutation reported, and AMBIGUOUS only when the gate
  raised or reported so, or a readback followed.
\<close>

theorem outcomes_are_backed:
  "replaces_only (replacement_backed h vm) (coordinator_execute h vm) []
    \<and> replaces_only (replacement_backed h vm) (recover_orphaned h vm) []"
  by (simp add: replaces_execute replaces_recover)

text \<open>
  C24: Whatever its ports answer, an execution ends after at most 20 asks and a recovery after at most 13,
  in an error or in a response that validates; a receipt that it shows is bound to this very request, and
  its revision fits its outcome.
\<close>

theorem coordinator_ends_with_own_receipt:
  "ends_within (own_response h vm) (coordinator_execute h vm) 20
    \<and> ends_within (own_response h vm) (recover_orphaned h vm) 13"
  by (simp add: ends_execute ends_recover)

end
