(* ===== verification/JsonSize.thy ===== *)
theory JsonSize
  imports CharBits "HOL-Library.Multiset"
begin

text \<open>
  A bound on the size of canonical bytes that is cheap to evaluate: with it a concrete value is shown
  to be inside the 64 KiB limit of \<open>canonical_json_value_bytes\<close> without encoding it.
\<close>

definition plain_char :: "char \<Rightarrow> bool" where
  "plain_char c \<longleftrightarrow> 32 \<le> char_code c \<and> char_code c < 127 \<and> char_code c \<noteq> 34 \<and> char_code c \<noteq> 92"

fun text_weight :: "string \<Rightarrow> int" where
  "text_weight [] = 2"
| "text_weight (c # s) = (if plain_char c then 1 else 12) + text_weight s"

fun json_weight :: "json \<Rightarrow> int" where
  "json_weight JNull = 4"
| "json_weight (JBool b) = 5"
| "json_weight (JInt i) = (if abs i < 10 ^ 20 then 21 else int (length (show_int i)))"
| "json_weight (JStr s) = text_weight s"
| "json_weight (JList xs) = 2 + sum_list (map (\<lambda>x. json_weight x + 1) xs)"
| "json_weight (JObj kvs) = 2 + sum_list (map (\<lambda>(k, v). text_weight k + json_weight v + 2) kvs)"

definition octets :: "string \<Rightarrow> int" where
  "octets s = int (length (encode_utf8 s))"

definition char_octets :: "char \<Rightarrow> int" where
  "char_octets c = int (length (utf8_char c))"

lemma octets_simps [simp]: "octets [] = 0" "octets (s @ t) = octets s + octets t"
  "octets (c # s) = char_octets c + octets s"
  by (simp_all add: octets_def encode_utf8_def char_octets_def)

lemma octets_char: "char_octets c \<le> 2" "char_code c < 128 \<Longrightarrow> char_octets c = 1"
  by (simp_all add: char_octets_def utf8_char_def)

lemma syntax_octets [simp]:
  "char_octets (CHR 0x22) = 1" "char_octets (CHR '','') = 1" "char_octets (CHR '':'') = 1"
  "char_octets (CHR ''['') = 1" "char_octets (CHR '']'') = 1" "char_octets (CHR ''{'') = 1"
  "char_octets (CHR ''}'') = 1" "char_octets (CHR ''-'') = 1"
  by (simp_all add: octets_char(2) char_code_def)

lemma octets_le: "octets s \<le> 2 * int (length s)"
proof (induction s)
  case (Cons c s)
  with octets_char(1) [of c] show ?case by simp
qed simp

lemma octets_digits: "list_all (\<lambda>c. char_code c < 128) s \<Longrightarrow> octets s = int (length s)"
  by (induction s) (simp_all add: octets_char(2))

lemma octets_escape: "octets (escape c) \<le> (if plain_char c then 1 else 12)"
proof (cases "plain_char c")
  case True
  then have "c \<noteq> CHR 0x5C" "c \<noteq> CHR 0x22" "c \<noteq> CHR 0x08" "c \<noteq> CHR 0x0C" "c \<noteq> CHR 0x0A"
    "c \<noteq> CHR 0x0D" "c \<noteq> CHR 0x09" "\<not> char_code c < 32"
    by (auto simp: plain_char_def char_code_def)
  then have "escape c = [c]"
    by (simp only: escape_def if_False)
  with True show ?thesis using octets_char(2) [of c] by (simp add: plain_char_def)
next
  case False
  have "length (escape c) \<le> 6" by (simp add: escape_def)
  with False octets_le [of "escape c"] show ?thesis by simp
qed

lemma octets_concat: "octets (concat ss) = sum_list (map octets ss)"
  by (induction ss) simp_all

lemma octets_quote: "octets (quote_str s) \<le> text_weight s"
proof -
  have "octets (concat (map escape s)) + 2 \<le> text_weight s"
  proof (induction s)
    case (Cons c s)
    with octets_escape [of c] show ?case by simp
  qed simp
  then show ?thesis by (simp add: quote_str_def octets_char(2) char_code_def)
qed

lemma octets_joined: "octets (joined ss) \<le> sum_list (map (\<lambda>s. octets s + 1) ss)"
proof (cases ss)
  case (Cons y ys)
  have comma: "octets (CHR '','' # z) = octets z + 1" for z
    by (simp add: octets_char(2) char_code_def)
  have "octets (concat (map (\<lambda>z. CHR '','' # z) ys)) = sum_list (map (\<lambda>s. octets s + 1) ys)"
    by (induction ys) (simp_all add: comma)
  with Cons show ?thesis by (simp add: joined_def)
qed (simp add: joined_def)

lemma octets_show_nat: "octets (show_nat n) = int (length (show_nat n))"
proof (rule octets_digits)
  show "list_all (\<lambda>c. char_code c < 128) (show_nat n)"
    using show_nat_digits [of n] by (auto simp: list_all_iff is_digit_char_def)
qed

lemma show_nat_length: "n < 10 ^ k \<Longrightarrow> 0 < k \<Longrightarrow> length (show_nat n) \<le> k"
proof (induction n arbitrary: k rule: show_nat.induct)
  case (1 n)
  show ?case
  proof (cases "n < 10")
    case True
    with 1(3) show ?thesis by (subst show_nat.simps) simp
  next
    case False
    with 1(2,3) obtain m where k: "k = Suc m" "0 < m"
      by (cases k; cases "k - 1") auto
    with 1(2) have "n div 10 < 10 ^ m" by (simp add: less_mult_imp_div_less)
    with 1(1) [OF False] k False show ?thesis by (subst show_nat.simps) simp
  qed
qed

lemma octets_show_int: "octets (show_int i) = int (length (show_int i))"
  "abs i < 10 ^ 20 \<Longrightarrow> length (show_int i) \<le> 21"
proof -
  show "octets (show_int i) = int (length (show_int i))"
    by (simp add: show_int_def octets_show_nat)
  assume "abs i < 10 ^ 20"
  then have "nat (abs i) < nat (10 ^ 20)" by (subst nat_less_eq_zless) simp_all
  then have "nat (abs i) < 10 ^ 20" by (simp add: nat_power_eq)
  then have "length (show_nat (nat (abs i))) \<le> 20" by (rule show_nat_length) simp
  then show "length (show_int i) \<le> 21" by (auto simp: show_int_def split: if_splits)
qed

lemma octets_json: "octets (encode_json v) \<le> json_weight v"
proof (induction v rule: encode_json.induct)
  case (3 i)
  show ?case
  proof (cases "abs i < 10 ^ 20")
    case True
    then have "int (length (show_int i)) \<le> int 21"
      by (simp only: of_nat_le_iff octets_show_int(2))
    with True show ?thesis by (simp only: encode_json.simps json_weight.simps octets_show_int(1) if_True of_nat_numeral)
  next
    case False
    then show ?thesis by (simp only: encode_json.simps json_weight.simps octets_show_int(1) if_False)
  qed
next
  case (4 s)
  show ?case by (simp add: octets_quote)
next
  case (5 xs)
  have "sum_list (map (\<lambda>s. octets s + 1) (map encode_json xs)) \<le> sum_list (map (\<lambda>x. json_weight x + 1) xs)"
    unfolding map_map comp_def using "5.IH" by (intro sum_list_mono) simp
  with octets_joined [of "map encode_json xs"] show ?case
    by (simp add: octets_char(2) char_code_def)
next
  case (6 kvs)
  have colon: "octets (CHR '':'' # z) = octets z + 1" for z
    by (simp add: octets_char(2) char_code_def)
  let ?f = "\<lambda>(k, v). quote_str k @ CHR '':'' # encode_json v"
  have "octets (?f kv) + 1 \<le> (\<lambda>(k, v). text_weight k + json_weight v + 2) kv" if "kv \<in> set kvs" for kv
    using "6.IH" [OF that, of "fst kv" "snd kv"] octets_quote [of "fst kv"]
    by (cases kv) (simp add: colon)
  then have "sum_list (map (\<lambda>s. octets s + 1) (map ?f kvs))
      \<le> sum_list (map (\<lambda>(k, v). text_weight k + json_weight v + 2) kvs)"
    unfolding map_map comp_def by (intro sum_list_mono)
  with octets_joined [of "map ?f kvs"] show ?case
    by (simp add: octets_char(2) char_code_def)
qed (simp_all add: octets_char(2) char_code_def)

lemma sum_list_sort_key: "sum_list (map f (sort_key g xs)) = sum_list (map (f :: 'a \<Rightarrow> int) xs)"
  by (metis mset_map mset_sort sum_mset_sum_list)

lemma json_weight_sort_keys [simp]: "json_weight (sort_keys v) = json_weight v"
proof (induction v rule: sort_keys.induct)
  case (1 xs)
  then show ?case by (simp add: comp_def cong: map_cong)
next
  case (2 kvs)
  then have "map ((\<lambda>(k, v). text_weight k + json_weight v + 2) \<circ> (\<lambda>(k, v). (k, sort_keys v))) kvs
      = map (\<lambda>(k, v). text_weight k + json_weight v + 2) kvs"
    by (intro map_cong) auto
  then show ?case
    by (simp only: sort_keys.simps json_weight.simps sum_list_sort_key map_map)
qed simp_all

lemma canonical_within:
  assumes "validate_restricted 0 v = None" "json_weight v \<le> 65536"
  shows "canonical_json_value_bytes v = Inr (encode_utf8 (json_dumps v))"
proof -
  have "int (length (encode_utf8 (json_dumps v))) \<le> json_weight v"
    using octets_json [of "sort_keys v"] by (simp add: octets_def json_dumps_def)
  with assms show ?thesis
    by (simp add: canonical_json_value_bytes_def Let_def MAX_CONTRACT_BYTES_def json_dumps_nonempty)
qed

lemma plain_char_bits [code]:
  "plain_char (Char b0 b1 b2 b3 b4 b5 b6 b7) \<longleftrightarrow>
     \<not> b7 \<and> (b6 \<or> b5) \<and> \<not> (b6 \<and> b5 \<and> b4 \<and> b3 \<and> b2 \<and> b1 \<and> b0)
     \<and> \<not> (\<not> b6 \<and> \<not> b4 \<and> \<not> b3 \<and> \<not> b2 \<and> b1 \<and> \<not> b0)
     \<and> \<not> (b6 \<and> \<not> b5 \<and> b4 \<and> b3 \<and> b2 \<and> \<not> b1 \<and> \<not> b0)"
  by (cases b0; cases b1; cases b2; cases b3; cases b4; cases b5; cases b6; cases b7)
    (simp_all add: plain_char_def bits_code)

end
