(* ===== verification/SampleRoot.thy ===== *)
theory SampleRoot
  imports RootAuthorityProps JsonSize
begin

text \<open>
  A concrete rollout for the witnesses of the properties that speak of roots: one approved
  version 3 root, its anchor, its claim and authority, and the first canary capability under it.
  SHA-256 is instantiated by a constant digest, which is a legitimate value of the parameter.
\<close>

definition sample_digest :: string where
  "sample_digest = ''aaaaaaaaaaaaaaaaaaaaaaaaaaaaaaaaaaaaaaaaaaaaaaaaaaaaaaaaaaaaaaaa''"

definition sample_hash :: hexdigest where
  "sample_hash = (\<lambda>_. sample_digest)"

definition sample_target :: target_binding where
  "sample_target =
     \<lparr>tb_project_id = ''controlgraph-canary-abc123'', tb_region = ''us-central1'',
      tb_environment = ''nonprod'', tb_service_name = ''controlgraph-reference-target''\<rparr>"

definition sample_stable :: string where "sample_stable = ''controlgraph-reference-target-00001''"
definition sample_candidate :: string where "sample_candidate = ''controlgraph-reference-target-00002''"

definition sample_snapshot :: stable_snapshot where
  "sample_snapshot =
     \<lparr>ss_target = sample_target, ss_stable_revision = sample_stable,
      ss_traffic = [\<lparr>ta_revision = sample_stable, ta_percent = 100\<rparr>], ss_concurrency = 80,
      ss_service_generation = 7, ss_provider_etag = ''etag-1'', ss_configuration_sha256 = sample_digest,
      ss_stable_revision_configuration_sha256 = sample_digest,
      ss_captured_at = ''2025-01-01T00:00:00Z'',
      ss_captured_by = ''controlgraph-verifier@controlgraph-canary-abc123.iam.gserviceaccount.com''\<rparr>"

definition sample_plan :: rollout_plan where
  "sample_plan =
     \<lparr>pl_target = sample_target, pl_stable_snapshot_sha256 = sample_digest,
      pl_stable_revision = sample_stable, pl_stable_revision_configuration_sha256 = sample_digest,
      pl_candidate_revision = sample_candidate,
      pl_candidate_revision_configuration_sha256 = sample_digest, pl_concurrency = 80,
      pl_health_policy_sha256 = sample_digest\<rparr>"

definition sample_executor :: string where
  "sample_executor = ''controlgraph-executor@controlgraph-canary-abc123.iam.gserviceaccount.com''"
definition sample_recovery :: string where
  "sample_recovery = ''controlgraph-recovery@controlgraph-canary-abc123.iam.gserviceaccount.com''"
definition sample_audience :: string where
  "sample_audience = ''https://controlgraph-executor-123456789012.us-central1.run.app''"
definition sample_recovery_audience :: string where
  "sample_recovery_audience = ''https://controlgraph-recovery-123456789012.us-central1.run.app''"
definition sample_key_version :: string where
  "sample_key_version = ''projects/controlgraph-canary-abc123/locations/us-central1/keyRings/controlgraph-signing/cryptoKeys/capability-signing/cryptoKeyVersions/1''"

definition sample_bounds :: root_authority_bounds where
  "sample_bounds =
     \<lparr>ab_target = sample_target, ab_stable_revision = sample_stable,
      ab_stable_revision_configuration_sha256 = sample_digest, ab_candidate_revision = sample_candidate,
      ab_candidate_revision_configuration_sha256 = sample_digest, ab_concurrency = 80,
      ab_plan_sha256 = sample_digest, ab_capability_signing_key_version = sample_key_version,
      ab_issuer_identity = ''controlgraph-issuer@controlgraph-canary-abc123.iam.gserviceaccount.com'',
      ab_executor_identity = sample_executor, ab_recovery_identity = sample_recovery,
      ab_executor_audience = sample_audience, ab_recovery_audience = sample_recovery_audience,
      ab_maximum_capability_lifetime_seconds = 900,
      ab_apply_canary = \<lparr>ag_action = AC_APPLY_CANARY, ag_subject_identity = sample_executor,
        ag_audience = sample_audience, ag_stable_percent = 90, ag_candidate_percent = 10,
        ag_maximum_attempts = None\<rparr>,
      ab_promote_candidate = \<lparr>ag_action = AC_PROMOTE_CANDIDATE, ag_subject_identity = sample_executor,
        ag_audience = sample_audience, ag_stable_percent = 0, ag_candidate_percent = 100,
        ag_maximum_attempts = None\<rparr>,
      ab_recover_stable = \<lparr>ag_action = AC_RECOVER_STABLE, ag_subject_identity = sample_recovery,
        ag_audience = sample_recovery_audience, ag_stable_percent = 100, ag_candidate_percent = 0,
        ag_maximum_attempts = Some 1\<rparr>\<rparr>"

definition sample_content :: root_content where
  "sample_content =
     \<lparr>rc_target = sample_target, rc_stable_snapshot = sample_snapshot, rc_health_policy = HealthPolicyV2,
      rc_rollout_plan = sample_plan, rc_authority_bounds = sample_bounds,
      rc_evidence_signing_key_version = ''projects/controlgraph-canary-abc123/locations/us-central1/keyRings/controlgraph-signing/cryptoKeys/evidence-signing/cryptoKeyVersions/1'',
      rc_approved_by = ''operator@example.com'', rc_approved_by_subject = ''100000000000000000001'',
      rc_approved_at = ''2025-01-01T00:05:00Z''\<rparr>"

definition sample_root :: addressed_root where
  "sample_root =
     \<lparr>ad_root_id = ''cgroot:'' @ sample_digest, ad_root_sha256 = sample_digest,
      ad_content = sample_content\<rparr>"

definition sample_anchor :: lineage_anchor where
  "sample_anchor =
     \<lparr>la_root_id = ''cgroot:'' @ sample_digest, la_root_sha256 = sample_digest, la_target = sample_target,
      la_stable_snapshot_sha256 = sample_digest, la_stable_revision = sample_stable,
      la_stable_revision_configuration_sha256 = sample_digest, la_candidate_revision = sample_candidate,
      la_candidate_revision_configuration_sha256 = sample_digest, la_plan_sha256 = sample_digest,
      la_health_policy_sha256 = sample_digest, la_authority_bounds_sha256 = sample_digest\<rparr>"

text \<open>The first canary capability, issued for fifteen minutes.\<close>

definition sample_claims :: capability_claims where
  "sample_claims =
     \<lparr>cc_capability_id = ''capability-1'',
      cc_issuer = ''controlgraph-issuer@controlgraph-canary-abc123.iam.gserviceaccount.com'',
      cc_subject = sample_executor, cc_audience = sample_audience, cc_target = sample_target,
      cc_root_id = ''cgroot:'' @ sample_digest, cc_root_sha256 = sample_digest, cc_epoch = 1,
      cc_action = AC_APPLY_CANARY, cc_stable_revision = sample_stable,
      cc_candidate_revision = sample_candidate, cc_stable_percent = 90, cc_candidate_percent = 10,
      cc_concurrency = None, cc_plan_sha256 = sample_digest, cc_provider_etag = ''etag-1'',
      cc_request_id = ''request-1'', cc_idempotency_key = ''key-1'', cc_parent_capability_sha256 = None,
      cc_issued_at = ''2025-01-01T00:10:00Z'', cc_not_before = ''2025-01-01T00:10:00Z'',
      cc_expires_at = ''2025-01-01T00:25:00Z'', cc_signing_algorithm = SIGNING_ALGORITHM,
      cc_signing_key_version = sample_key_version\<rparr>"

section \<open>Every digest of the sample can be taken\<close>

lemma sample_digest_taken:
  "validate_restricted 0 v = None \<Longrightarrow> json_weight v \<le> 65536 \<Longrightarrow> contract_sha256 sample_hash ver v = Inr sample_digest"
  by (simp add: contract_sha256_def canonical_within sample_hash_def)

lemma sample_snapshot_digest [simp]: "stable_snapshot_sha256 sample_hash sample_snapshot = Inr sample_digest"
  unfolding stable_snapshot_sha256_def by (rule sample_digest_taken; code_simp)

lemma sample_policy_digest [simp]: "health_policy_sha256 sample_hash HealthPolicyV2 = Inr sample_digest"
  unfolding health_policy_sha256_def by (rule sample_digest_taken; code_simp)

lemma sample_plan_digest [simp]: "plan_sha256 sample_hash sample_plan = Inr sample_digest"
  unfolding plan_sha256_def by (rule sample_digest_taken; code_simp)

lemma sample_bounds_digest [simp]: "authority_bounds_sha256 sample_hash sample_bounds = Inr sample_digest"
  unfolding authority_bounds_sha256_def by (rule sample_digest_taken; code_simp)

lemma sample_content_digest [simp]: "root_content_sha256 sample_hash sample_content = Inr sample_digest"
  unfolding root_content_sha256_def by (rule sample_digest_taken; code_simp)

lemma sample_claims_digest [simp]: "claims_sha256_of sample_hash sample_claims = Inr sample_digest"
  unfolding claims_sha256_of_def by (rule sample_digest_taken; code_simp)

section \<open>The sample is accepted\<close>

lemma sample_instants:
  "parse_utc_second ''2025-01-01T00:00:00Z'' = Some 1735689600"
  "parse_utc_second ''2025-01-01T00:05:00Z'' = Some 1735689900"
  "parse_utc_second ''2025-01-01T00:10:00Z'' = Some 1735690200"
  "parse_utc_second ''2025-01-01T00:25:00Z'' = Some 1735691100"
  by (simp_all add: parse_utc_second_def utc_fields_of_def digits_value_def char_code_def
      is_digit_char_def valid_utc_fields_def timestamp_of_def date_ordinal_def days_before_year_def
      days_before_month_def days_in_month_def is_leap_def upt_rec)

lemma sample_utc: "is_utc_second ''2025-01-01T00:00:00Z''" "is_utc_second ''2025-01-01T00:05:00Z''"
    "is_utc_second ''2025-01-01T00:10:00Z''" "is_utc_second ''2025-01-01T00:25:00Z''"
  by (simp_all add: is_utc_second_parses sample_instants)

lemma sample_bounds_fields: "validate_bounds_fields sample_bounds = None"
  unfolding validate_bounds_fields_def checks_Cons_None checks_Nil
  by (intro conjI TrueI; code_simp)

lemma sample_names:
  "validate_root_target sample_target = None"
  "validate_role_identity sample_executor ''executor'' ''controlgraph-canary-abc123'' = None"
  "validate_role_identity sample_recovery ''recovery'' ''controlgraph-canary-abc123'' = None"
  "validate_role_identity ''controlgraph-issuer@controlgraph-canary-abc123.iam.gserviceaccount.com''
     ''issuer'' ''controlgraph-canary-abc123'' = None"
  "validate_service_audience sample_audience ''executor'' = None"
  "validate_service_audience sample_recovery_audience ''recovery'' = None"
  "audience_project_number sample_audience = audience_project_number sample_recovery_audience"
  "validate_signing_key sample_key_version ''controlgraph-canary-abc123'' ''capability-signing'' = None"
  by code_simp+

lemma sample_bounds_valid: "validate_root_authority_bounds sample_bounds = None"
  using sample_names sample_bounds_fields
  by (simp add: validate_root_authority_bounds_def validate_closed_bounds_def Let_def)
    (simp add: sample_bounds_def sample_target_def grant_is_exact_def sample_stable_def sample_candidate_def)

lemma sample_claims_fields: "validate_claims_fields sample_claims = None"
  by code_simp

lemma sample_claims_valid: "validate_claims sample_claims = None"
  by (simp add: validate_claims_def sample_claims_fields validate_claim_bindings_def)
    (simp add: sample_claims_def sample_stable_def sample_candidate_def utc_value_def sample_instants)

lemma sample_snapshot_valid: "validate_stable_snapshot sample_snapshot = None"
  by code_simp

lemma sample_plan_valid: "validate_rollout_plan sample_plan = None"
  by code_simp

lemma sample_root_fields:
  "ad_content sample_root = sample_content" "rc_rollout_plan sample_content = sample_plan"
  "rc_authority_bounds sample_content = sample_bounds" "rc_stable_snapshot sample_content = sample_snapshot"
  "rc_health_policy sample_content = HealthPolicyV2" "rc_target sample_content = sample_target"
  by (simp_all add: sample_root_def sample_content_def)

lemma sample_anchored: "capability_lineage_anchor sample_hash sample_root = Inr sample_anchor"
  by (simp add: capability_lineage_anchor_def Let_def sample_root_fields)
    (simp add: sample_anchor_def sample_root_def sample_content_def sample_plan_def)

lemma sample_fields_valid: "validate_content_fields sample_content = None"
  unfolding validate_content_fields_def sample_root_fields checks_Cons_None checks_Nil
  by (intro conjI TrueI sample_bounds_valid sample_snapshot_valid sample_plan_valid; code_simp)

lemma sample_bindings_valid: "validate_content_bindings sample_hash sample_content = None"
  unfolding validate_content_bindings_def sample_root_fields Let_def checks_Cons_None checks_Nil
    sample_snapshot_digest sample_policy_digest sample_plan_digest digest_differs_def sum.case
  by (intro conjI TrueI; code_simp)

lemma sample_root_wf: "wf_root sample_hash sample_root"
  by (simp add: wf_root_def validate_addressed_root_def validate_root_content_def
      validate_content_address_def sample_fields_valid sample_bindings_valid sample_root_fields)
    (simp add: sample_root_def, code_simp)

lemma sample_claims_match: "claims_match sample_hash sample_claims sample_root sample_anchor"
proof -
  have bind: "claims_bindings_hold sample_claims sample_root sample_anchor sample_digest sample_digest"
    by code_simp
  have times: "cc_issued_at sample_claims = ''2025-01-01T00:10:00Z''"
    "cc_not_before sample_claims = ''2025-01-01T00:10:00Z''"
    "cc_expires_at sample_claims = ''2025-01-01T00:25:00Z''"
    "rc_approved_at sample_content = ''2025-01-01T00:05:00Z''"
    "cc_provider_etag sample_claims = ss_provider_etag sample_snapshot"
    "ab_maximum_capability_lifetime_seconds sample_bounds = 900"
    by (simp_all add: sample_claims_def sample_content_def sample_snapshot_def sample_bounds_def)
  show ?thesis
    by (simp add: claims_match_def capability_claims_match_root_authority_def sample_anchored bind Let_def
        sample_root_fields or_raise_contract_def times sample_instants parse_or_raise_def claims_times_hold_def)
qed

lemma sample_issue:
  "exact_identifier (cc_audience sample_claims)"
  "parse_utc_second (cc_issued_at sample_claims) = Some 1735690200"
  by code_simp (simp add: sample_claims_def sample_instants)

theorem matching_claims_attenuate_witness:
  "\<exists>scope anchor. capability_scope_from_claims sample_claims sample_root = Inr scope
    \<and> operator_lineage_anchor sample_hash sample_root sample_anchor sample_claims = Inr anchor
    \<and> at_allowed (check_attenuation (an_scope anchor) scope)
    \<and> not_before (sc_validity (an_scope anchor)) = 1735690200
    \<and> expires_at (sc_validity (an_scope anchor)) \<le> 1735690200 + 900"
  using matching_claims_attenuate [OF sample_claims_match sample_root_wf sample_claims_valid sample_issue]
  by simp

end
