(* ===== verification/SampleRun.thy ===== *)
theory SampleRun
  imports Dispatches SampleRoot
begin

text \<open>
  One complete run over the sample rollout: the signed capability is verified, its receipt is claimed in
  the store, the lease is minted, and the gate hands the permit to the provider. It shows that the
  hypotheses of the properties of verification and dispatch can be met together.
\<close>

section \<open>The request and the verifier\<close>

definition sample_signed :: signed_capability where
  "sample_signed =
     \<lparr>sg_claims = sample_claims, sg_claims_sha256 = sample_digest, sg_signature = ''AAAA''\<rparr>"

definition sample_task :: task_request where
  "sample_task =
     \<lparr>tr_task_id = ''task-1'', tr_queue_region = ''us-central1'', tr_handler_audience = sample_audience,
      tr_scheduled_at = ''2025-01-01T00:10:00Z'', tr_expires_at = ''2025-01-01T00:25:00Z'',
      tr_capability = sample_signed, tr_intent = claims_intent sample_claims\<rparr>"

definition sample_crypto :: crypto where
  "sample_crypto =
     \<lparr>cr_hexdigest = sample_hash, cr_p256_key = (\<lambda>pem. pem = ''key''),
      cr_p256_verifies = (\<lambda>pem signature digest. pem = ''key'' \<and> signature = [0, 0, 0])\<rparr>"

definition sample_policy :: route_policy where
  "sample_policy = sample_route ''100000000000000000001''"

definition sample_trust_entry :: trust_bundle_entry where
  "sample_trust_entry =
     \<lparr>te_purpose = SP_CAPABILITY, te_key_version = sample_key_version, te_algorithm = SIGNING_ALGORITHM,
      te_payload_version = CAPABILITY_CLAIMS_V1, te_state = SK_ENABLED, te_public_key_pem = ''key'',
      te_public_key_sha256 = sample_digest\<rparr>"

definition sample_verifier :: capability_verifier where
  "sample_verifier =
     \<lparr>cv_profile = \<lparr>vf_purpose = SP_CAPABILITY, vf_project_id = ''controlgraph-canary-abc123'',
        vf_key_resource = ''projects/controlgraph-canary-abc123/locations/us-central1/keyRings/controlgraph-signing/cryptoKeys/capability-signing''\<rparr>,
      cv_trust = [sample_trust_entry],
      cv_configuration = \<lparr>vc_target = sample_target, vc_route_policy = sample_policy,
        vc_recovery_executor_facade = False\<rparr>\<rparr>"

definition sample_now :: int where "sample_now = 1735690260"

definition sample_caller :: authentication_context where
  "sample_caller =
     \<lparr>ac_role = CALL_EXECUTION_TASK_CALLER,
      ac_email = ''cg-execution-task-caller@controlgraph-canary-abc123.iam.gserviceaccount.com'',
      ac_subject = ''100000000000000000001'', ac_issuer = ''https://accounts.google.com'',
      ac_audience = sample_audience, ac_issued_at = 1735690200, ac_expires_at = 1735693800,
      ac_operator_session_nonce = None\<rparr>"

section \<open>The stored authority\<close>

definition sample_service_claim :: service_claim where
  "sample_service_claim =
     \<lparr>cl_target = sample_target, cl_root_id = ''cgroot:'' @ sample_digest, cl_root_sha256 = sample_digest,
      cl_stable_revision = sample_stable, cl_candidate_revision = sample_candidate, cl_initial_epoch = 1,
      cl_baseline_service_generation = 7, cl_baseline_configuration_sha256 = sample_digest,
      cl_baseline_revision_configuration_sha256 = sample_digest,
      cl_candidate_revision_configuration_sha256 = sample_digest,
      cl_stable_target_configuration_sha256 = sample_digest,
      cl_candidate_target_configuration_sha256 = sample_digest,
      cl_operator_owner = ''operator@example.com'', cl_workload_creator = WORKLOAD_CREATOR,
      cl_terminal_release_condition = SERVICE_CLAIM_TERMINAL_RELEASE_CONDITION, cl_status = CS_ACTIVE,
      cl_claim_request_id = ''request-0'', cl_claim_evidence_id = ''evidence-0'',
      cl_claimed_at = ''2025-01-01T00:05:00Z'', cl_release_fence_epoch = None,
      cl_release_fence_authority_revision = None, cl_release_fenced_by = None,
      cl_release_fence_request_id = None, cl_release_fence_evidence_id = None,
      cl_release_fenced_at = None, cl_released_by = None, cl_release_request_id = None,
      cl_release_evidence_id = None, cl_released_at = None, cl_terminal_root_proof = None,
      cl_target_classification_proof = None\<rparr>"

definition sample_authority :: epoch_authority_record where
  "sample_authority =
     \<lparr>au_root_id = ''cgroot:'' @ sample_digest, au_root_sha256 = sample_digest, au_target = sample_target,
      au_current_epoch = 1, au_previous_epoch = None, au_revision = 0, au_cause = EC_ROOT_CREATED,
      au_changed_by = ''operator@example.com'', au_request_id = ''request-0'',
      au_evidence_id = ''evidence-0'', au_changed_at = ''2025-01-01T00:05:00Z''\<rparr>"

definition sample_bundle :: root_bundle where
  "sample_bundle =
     \<lparr>bu_root = \<lparr>sr_value = sample_root, sr_revision = 0\<rparr>,
      bu_service_claim = \<lparr>sr_value = sample_service_claim, sr_revision = 0\<rparr>,
      bu_authority = \<lparr>sr_value = sample_authority, sr_revision = 0\<rparr>,
      bu_lineage_anchor = \<lparr>sr_value = sample_anchor, sr_revision = 0\<rparr>\<rparr>"

definition sample_state :: trusted_root_authority where
  "sample_state =
     \<lparr>ra_root = sample_root, ra_service_claim = sample_service_claim, ra_authority = sample_authority,
      ra_lineage_anchor = sample_anchor, ra_root_revision = 0, ra_service_claim_revision = 0,
      ra_authority_revision = 0, ra_lineage_anchor_revision = 0\<rparr>"

definition sample_verified :: verified_mutation where
  "sample_verified =
     \<lparr>vm_request = sample_task, vm_root = sample_root, vm_lineage_anchor = sample_anchor,
      vm_caller = sample_caller, vm_capability_sha256 = sample_digest, vm_claims_sha256 = sample_digest,
      vm_earliest_lineage_issued_at = 1735690200\<rparr>"

section \<open>The bundle is inspected\<close>

lemma sample_configuration_digest:
  "validate_target_configuration t = None \<Longrightarrow> validate_restricted 0 (target_configuration_json t) = None \<Longrightarrow>
     json_weight (target_configuration_json t) \<le> 65536 \<Longrightarrow>
     bindR (construct validate_target_configuration t) (target_configuration_sha256 sample_hash)
       = Inr sample_digest"
  by (simp add: construct_def target_configuration_sha256_def canonical_within sample_hash_def)

definition sample_configuration :: "int \<Rightarrow> int \<Rightarrow> target_configuration" where
  "sample_configuration stable_percent candidate_percent =
     \<lparr>tg_target = sample_target, tg_stable_revision = sample_stable,
      tg_candidate_revision = sample_candidate, tg_stable_percent = stable_percent,
      tg_candidate_percent = candidate_percent, tg_concurrency = 80\<rparr>"

lemma sample_configuration:
  "root_target_configuration_sha256 sample_hash sample_root s c
     = bindR (construct validate_target_configuration (sample_configuration s c))
         (target_configuration_sha256 sample_hash)"
  by (simp add: root_target_configuration_sha256_def sample_configuration_def sample_root_def
      sample_content_def sample_plan_def)

lemma sample_configurations:
  "root_target_configuration_sha256 sample_hash sample_root 100 0 = Inr sample_digest"
  "root_target_configuration_sha256 sample_hash sample_root 0 100 = Inr sample_digest"
  unfolding sample_configuration by (rule sample_configuration_digest; code_simp)+

lemma sample_claim_matches: "service_claim_matches_addressed_root sample_hash sample_service_claim sample_root"
  unfolding service_claim_matches_addressed_root_def Let_def sample_configurations prod.case sum.case
    sample_root_fields
  by (simp add: sample_service_claim_def sample_root_def sample_content_def sample_plan_def sample_snapshot_def)

lemma sample_inspected: "inspect_root_authority_bundle sample_hash sample_target sample_bundle = Some sample_state"
proof -
  have lifecycle: "claim_lifecycle_revision_matches sample_service_claim 0" by code_simp
  have fields: "rc_target sample_content = sample_target" "ad_root_sha256 sample_root = sample_digest"
    "ad_root_id sample_root = ''cgroot:'' @ sample_digest" "au_target sample_authority = sample_target"
    "au_root_id sample_authority = ''cgroot:'' @ sample_digest" "au_root_sha256 sample_authority = sample_digest"
    "au_revision sample_authority = 0" "au_current_epoch sample_authority = 1"
    by (simp_all add: sample_content_def sample_root_def sample_authority_def)
  show ?thesis
    by (simp add: inspect_root_authority_bundle_def Let_def sample_bundle_def sample_root_fields(1)
        sample_anchored sample_claim_matches lifecycle fields sample_state_def)
qed

section \<open>The request is verified\<close>

lemma sample_signed_digest:
  "contract_sha256 sample_hash SIGNED_CAPABILITY_V1 (signed_capability_json sample_signed) = Inr sample_digest"
  by (rule sample_digest_taken; code_simp)

lemma sample_task_digest:
  "contract_sha256 sample_hash TASK_REQUEST_V1 (task_request_json sample_task) = Inr sample_digest"
  by (rule sample_digest_taken; code_simp)

lemma sample_signing_input:
  "hash_signing_input sample_hash SP_CAPABILITY sample_key_version (ClaimsPayload sample_claims)
     = Inr \<lparr>si_payload_sha256 = sample_digest, si_digest_sha256 = sample_digest\<rparr>"
proof -
  have "validate_restricted 0 (claims_json sample_claims) = None"
    "validate_restricted 0 (signing_header SP_CAPABILITY sample_key_version) = None"
    "json_weight (claims_json sample_claims) \<le> 65536"
    "json_weight (signing_header SP_CAPABILITY sample_key_version) \<le> 65536"
    by code_simp+
  then show ?thesis
    by (simp add: hash_signing_input_def signing_material_def canonical_within bindS_def sample_hash_def)
qed


lemma sample_key_parsed:
  "parse_key_version sample_key_version
     = Inr (''projects/controlgraph-canary-abc123/locations/us-central1/keyRings/controlgraph-signing/cryptoKeys/capability-signing'', 1)"
  by code_simp

lemma sample_profile:
  "capability_signing_profile ''controlgraph-canary-abc123'' sample_key_version
     = Inr \<lparr>pf_purpose = SP_CAPABILITY, pf_project_id = ''controlgraph-canary-abc123'',
         pf_key_version = sample_key_version\<rparr>"
proof -
  have "validate_signing_profile \<lparr>pf_purpose = SP_CAPABILITY, pf_project_id = ''controlgraph-canary-abc123'',
         pf_key_version = sample_key_version\<rparr> = None"
    by code_simp
  then show ?thesis by (simp add: capability_signing_profile_def guardS_def)
qed

lemma sample_claim_fields:
  "cc_target sample_claims = sample_target" "cc_signing_key_version sample_claims = sample_key_version"
  "cc_signing_algorithm sample_claims = SIGNING_ALGORITHM"
  "cc_parent_capability_sha256 sample_claims = None" "cc_action sample_claims = AC_APPLY_CANARY"
  "cc_issued_at sample_claims = ''2025-01-01T00:10:00Z''" "cc_not_before sample_claims = ''2025-01-01T00:10:00Z''"
  "cc_expires_at sample_claims = ''2025-01-01T00:25:00Z''"
  by (simp_all add: sample_claims_def)

lemma sample_target_fields:
  "tb_project_id sample_target = ''controlgraph-canary-abc123''" "tb_region sample_target = ''us-central1''"
  by (simp_all add: sample_target_def)

lemma sample_payload_valid:
  "(\<And>k. key_matches sample_key_version) \<Longrightarrow>
     validate_payload SP_CAPABILITY ''controlgraph-canary-abc123'' key_matches (ClaimsPayload sample_claims) = None"
  by (simp add: validate_payload_def sample_claim_fields sample_target_fields)

definition sample_detached :: detached_signature where
  "sample_detached =
     \<lparr>ds_schema_version = DETACHED_SIGNATURE_V1, ds_purpose = SP_CAPABILITY, ds_key_version = sample_key_version,
      ds_algorithm = SIGNING_ALGORITHM, ds_payload_version = CAPABILITY_CLAIMS_V1,
      ds_payload_sha256 = sample_digest, ds_digest_sha256 = sample_digest, ds_signature = ''AAAA''\<rparr>"

lemma sample_detached_of: "detached_of_capability sample_hash sample_signed = Inr sample_detached"
  by (simp add: detached_of_capability_def sample_signed_def sample_claim_fields sample_target_fields
      sample_profile bindS_def build_signing_input_def guardS_def sample_payload_valid sample_signing_input
      sample_detached_def)

lemma sample_signature_decoded: "decode_base64url 256 ''AAAA'' = Inr [0, 0, 0]"
  by code_simp

lemma sample_key_of_profile:
  "key_resource_matches (vf_key_resource (cv_profile sample_verifier)) sample_key_version"
  "vf_purpose (cv_profile sample_verifier) = SP_CAPABILITY"
  "vf_project_id (cv_profile sample_verifier) = ''controlgraph-canary-abc123''"
  by (simp_all add: key_resource_matches_def sample_key_parsed sample_verifier_def)

lemma sample_detached_checked:
  "check_detached (cv_profile sample_verifier) (cv_trust sample_verifier) sample_detached = Inr sample_trust_entry"
proof -
  have "cv_trust sample_verifier = [sample_trust_entry]"
    by (simp add: sample_verifier_def)
  moreover have "te_key_version sample_trust_entry = sample_key_version" "te_purpose sample_trust_entry = SP_CAPABILITY"
    "te_state sample_trust_entry = SK_ENABLED" "te_algorithm sample_trust_entry = SIGNING_ALGORITHM"
    "te_payload_version sample_trust_entry = CAPABILITY_CLAIMS_V1"
    by (simp_all add: sample_trust_entry_def)
  moreover have "ds_schema_version sample_detached = DETACHED_SIGNATURE_V1"
    "ds_purpose sample_detached = SP_CAPABILITY" "ds_key_version sample_detached = sample_key_version"
    "ds_algorithm sample_detached = SIGNING_ALGORITHM" "ds_payload_version sample_detached = CAPABILITY_CLAIMS_V1"
    by (simp_all add: sample_detached_def)
  ultimately show ?thesis
    by (simp add: check_detached_def trust_entry_def guardS_def first_failure.simps signing_fails_def
        sample_key_of_profile)
qed

lemma sample_verification_input:
  "build_verification_input sample_hash (cv_profile sample_verifier) sample_key_version (ClaimsPayload sample_claims)
     = Inr \<lparr>si_payload_sha256 = sample_digest, si_digest_sha256 = sample_digest\<rparr>"
  by (simp add: build_verification_input_def guardS_def sample_key_of_profile sample_payload_valid
      sample_claim_fields sample_signing_input first_failure.simps signing_fails_def)

lemma sample_detached_verifies:
  "verify_detached sample_hash (cr_p256_key sample_crypto) (cr_p256_verifies sample_crypto)
     (cv_profile sample_verifier) (cv_trust sample_verifier) (ClaimsPayload sample_claims) sample_detached = None"
proof -
  have digest: "is_sha256 sample_digest" by code_simp
  have key: "load_p256_public_key (\<lambda>pem. pem = ''key'') ''key'' = None" by code_simp
  have fields: "ds_key_version sample_detached = sample_key_version" "ds_payload_sha256 sample_detached = sample_digest"
    "ds_digest_sha256 sample_detached = sample_digest" "ds_signature sample_detached = ''AAAA''"
    "te_public_key_pem sample_trust_entry = ''key''"
    by (simp_all add: sample_detached_def sample_trust_entry_def)
  show ?thesis
    by (simp add: verify_detached_def sample_detached_checked bindS_def fields sample_verification_input
        digest key sample_signature_decoded sample_crypto_def)
qed

lemma sample_envelope_valid: "verify_envelope sample_crypto sample_verifier sample_signed = None"
proof -
  have "cr_hexdigest sample_crypto = sample_hash" "sg_claims sample_signed = sample_claims"
    "sg_claims_sha256 sample_signed = sample_digest"
    by (simp_all add: sample_crypto_def sample_signed_def)
  then show ?thesis
    by (simp add: verify_envelope_def sample_detached_of sample_detached_verifies)
qed

section \<open>The lineage and the root\<close>

lemma sample_names_fields:
  "cr_hexdigest sample_crypto = sample_hash" "sg_claims sample_signed = sample_claims"
  "sg_claims_sha256 sample_signed = sample_digest" "tr_capability sample_task = sample_signed"
  "tr_intent sample_task = claims_intent sample_claims" "vc_target (cv_configuration sample_verifier) = sample_target"
  "vc_route_policy (cv_configuration sample_verifier) = sample_policy"
  by (simp_all add: sample_crypto_def sample_signed_def sample_task_def sample_verifier_def)

lemma sample_identity:
  "claim_identity_matches (cv_configuration sample_verifier) sample_claims"
  by code_simp

definition sample_canary_scope :: capability_scope where
  "sample_canary_scope =
     \<lparr>sc_project_id = ''controlgraph-canary-abc123'', sc_region = ''us-central1'',
      sc_environment = ''nonprod'', sc_service_name = ''controlgraph-reference-target'',
      sc_root_id = ''cgroot:'' @ sample_digest, sc_root_sha256 = sample_digest, sc_epoch = 1,
      sc_plan_sha256 = sample_digest, sc_provider_precondition = ''etag-1'', sc_request_id = ''request-1'',
      sc_idempotency_key = ''key-1'', sc_callers = {sample_executor}, sc_audiences = {sample_audience},
      sc_stable_revision = sample_stable, sc_candidate_revision = sample_candidate,
      sc_revisions = {sample_stable, sample_candidate}, sc_actions = {CA_APPLY_CANARY},
      sc_traffic_percent = \<lparr>minimum = 10, maximum = 10\<rparr>, sc_concurrency = \<lparr>minimum = 80, maximum = 80\<rparr>,
      sc_validity = \<lparr>not_before = 1735690200, expires_at = 1735691100\<rparr>\<rparr>"

lemma sample_scope_valid: "build_scope sample_canary_scope = Inr sample_canary_scope"
proof -
  have "checks [validate_integer_bounds (sc_traffic_percent sample_canary_scope),
      validate_integer_bounds (sc_concurrency sample_canary_scope), validate_time_bounds (sc_validity sample_canary_scope)] = None"
    "validate_scope sample_canary_scope = None"
    by code_simp+
  then show ?thesis by (simp add: build_scope_def construct_def)
qed

lemma sample_scope_fields:
  "scope_concurrency sample_claims sample_root = 80" "cc_root_id sample_claims = ''cgroot:'' @ sample_digest"
  "cc_root_sha256 sample_claims = sample_digest" "cc_epoch sample_claims = 1"
  "cc_plan_sha256 sample_claims = sample_digest" "cc_provider_etag sample_claims = ''etag-1''"
  "cc_request_id sample_claims = ''request-1''" "cc_idempotency_key sample_claims = ''key-1''"
  "cc_subject sample_claims = sample_executor" "cc_audience sample_claims = sample_audience"
  "cc_stable_revision sample_claims = sample_stable" "cc_candidate_revision sample_claims = sample_candidate"
  "cc_candidate_percent sample_claims = 10" "tb_environment sample_target = ''nonprod''"
  "tb_service_name sample_target = ''controlgraph-reference-target''"
  by (simp_all add: scope_concurrency_def sample_root_fields sample_claims_def sample_bounds_def sample_target_def)

lemma sample_scope_of_claims: "capability_scope_from_claims sample_claims sample_root = Inr sample_canary_scope"
  by (simp add: capability_scope_from_claims_def Let_def sample_scope_fields sample_claim_fields
      sample_target_fields parse_or_raise_def sample_instants flip: sample_scope_valid)
    (simp add: sample_canary_scope_def)

definition sample_operator_anchor :: operator_root_anchor where
  "sample_operator_anchor = \<lparr>an_root_sha256 = sample_digest, an_scope = sample_canary_scope\<rparr>"

lemma sample_operator_anchored:
  "operator_lineage_anchor sample_hash sample_root sample_anchor sample_claims = Inr sample_operator_anchor"
proof -
  have scope: "anchor_scope sample_root sample_anchor sample_claims 1735690200 = sample_canary_scope"
    by (simp add: anchor_scope_def Let_def sample_root_fields root_action_grant_for_def sample_claim_fields)
      (simp add: sample_claims_def sample_bounds_def sample_canary_scope_def sample_target_def sample_anchor_def
        sample_snapshot_def)
  have "validate_anchor sample_operator_anchor = None" by code_simp
  moreover have "la_root_sha256 sample_anchor = sample_digest"
    by (simp add: sample_anchor_def)
  moreover have "capability_claims_match_root_authority sample_hash sample_claims sample_root sample_anchor = Inr True"
    using sample_claims_match by (simp add: claims_match_def)
  ultimately show ?thesis
    by (simp add: operator_lineage_anchor_def scope parse_or_raise_def sample_claim_fields
        sample_instants construct_def sample_scope_valid sample_operator_anchor_def)
qed

definition sample_grant :: capability_grant where
  "sample_grant =
     \<lparr>gr_capability_sha256 = sample_digest, gr_parent_capability_sha256 = None,
      gr_scope = sample_canary_scope\<rparr>"

lemma sample_granted: "lineage_grant sample_signed sample_root = Inr sample_grant"
proof -
  have "validate_grant sample_grant = None" by code_simp
  then show ?thesis
    by (simp add: lineage_grant_def sample_names_fields sample_scope_of_claims sample_claim_fields
        construct_def sample_grant_def)
qed

lemma sample_valid_at: "validate_claim_time sample_claims sample_now = None"
  by (simp add: validate_claim_time_def time_of_def parse_or_raise_def sample_claim_fields sample_instants
      or_raised_def sample_now_def)

lemma sample_approved: "rc_approved_at (ad_content sample_root) = ''2025-01-01T00:05:00Z''"
  by (simp add: sample_root_def sample_content_def)

lemma sample_lineage_entry:
  "check_lineage_entry sample_crypto sample_verifier sample_root sample_anchor 1735689900 sample_now None [] True
     sample_signed = Inr sample_grant"
  using sample_claims_match
  by (simp add: check_lineage_entry_def Let_def guardS_def bindS_def sample_names_fields sample_identity
      deny_if_def time_of_def parse_or_raise_def sample_claim_fields sample_instants or_raised_def
      claims_match_def sample_valid_at issued_within_def sample_granted or_denied_def)

lemma sample_run_lineage_allowed: "li_allowed (validate_lineage sample_operator_anchor [sample_grant] MAX_LINEAGE_DEPTH)"
  by code_simp

lemma sample_lineage_valid:
  "validate_capability_lineage sample_crypto sample_verifier [sample_signed] sample_root sample_anchor sample_now
     = Inr 1735690200"
  using sample_run_lineage_allowed
  by (simp add: validate_capability_lineage_def MAX_LINEAGE_DEPTH_def bindS_def time_of_def parse_or_raise_def
      sample_approved sample_instants sample_claim_fields sample_names_fields or_raised_def sample_lineage_entry
      sample_operator_anchored or_denied_def Let_def)

lemma sample_intent_fields:
  "mi_target (claims_intent sample_claims) = sample_target"
  "mi_root_id (claims_intent sample_claims) = ''cgroot:'' @ sample_digest"
  "mi_action (claims_intent sample_claims) = AC_APPLY_CANARY" "mi_epoch (claims_intent sample_claims) = 1"
  by (simp_all add: claims_intent_def sample_claims_def)

lemma sample_task_fields:
  "tr_queue_region sample_task = ''us-central1''" "tr_handler_audience sample_task = sample_audience"
  "tr_scheduled_at sample_task = ''2025-01-01T00:10:00Z''" "tr_expires_at sample_task = ''2025-01-01T00:25:00Z''"
  by (simp_all add: sample_task_def)

lemma sample_guards:
  "validate_caller (cv_configuration sample_verifier) sample_caller sample_now = None"
  "precheck_target (cv_configuration sample_verifier) sample_task = None"
  "validate_time sample_task sample_now = None"
  "validate_route_and_identity (cv_configuration sample_verifier) sample_task = None"
proof -
  show "validate_caller (cv_configuration sample_verifier) sample_caller sample_now = None" by code_simp
  show "precheck_target (cv_configuration sample_verifier) sample_task = None"
    by (simp add: precheck_target_def sample_names_fields sample_claim_fields sample_intent_fields
        sample_task_fields sample_target_fields deny_if_def)
  show "validate_time sample_task sample_now = None"
    by (simp add: validate_time_def sample_names_fields sample_claim_fields sample_task_fields time_of_def
        parse_or_raise_def sample_instants or_raised_def bindS_def deny_if_def sample_now_def)
  have "\<not> accepts_recovery_task (cv_configuration sample_verifier)"
    "capability_audience (cv_configuration sample_verifier) = sample_audience"
    "AC_APPLY_CANARY \<in> admitted_actions (cv_configuration sample_verifier)"
    by code_simp+
  then show "validate_route_and_identity (cv_configuration sample_verifier) sample_task = None"
    by (simp add: validate_route_and_identity_def Let_def sample_names_fields sample_identity
        sample_task_fields sample_target_fields sample_claim_fields deny_if_def)
qed

lemma sample_root_bindings:
  "validate_root_bindings sample_hash (cv_configuration sample_verifier) sample_task sample_root sample_anchor
     sample_now = Inr ()"
proof -
  have names: "root_names_match (cv_configuration sample_verifier) sample_task sample_root = None"
    "provider_bindings_match sample_task sample_root = None"
    by code_simp+
  have plan: "mi_plan_sha256 (tr_intent sample_task) = sample_digest"
    by (simp add: sample_names_fields claims_intent_def sample_scope_fields)
  show ?thesis
    using sample_claims_match
    by (simp add: validate_root_bindings_def Let_def guardS_def bindS_def names sample_root_fields
        or_raise_contract_def or_raised_def sample_names_fields sample_scope_fields plan [unfolded sample_names_fields]
        deny_if_def claims_match_def sample_approved [unfolded sample_root_fields] time_of_def parse_or_raise_def sample_instants
        sample_claim_fields sample_now_def)
qed

theorem sample_verification:
  "verify_task_request sample_crypto sample_verifier (\<lambda>_. RootRead (Some sample_bundle)) None (Some sample_now)
     sample_task sample_caller = Inr sample_verified"
proof -
  have guards: "first_failure [validate_caller (cv_configuration sample_verifier) sample_caller sample_now,
      precheck_target (cv_configuration sample_verifier) sample_task,
      verify_envelope sample_crypto sample_verifier sample_signed, validate_time sample_task sample_now,
      validate_route_and_identity (cv_configuration sample_verifier) sample_task] = None"
    by (simp add: sample_guards sample_envelope_valid)
  have root: "read_root_boundary sample_hash (cv_configuration sample_verifier) (RootRead (Some sample_bundle))
      = Inr sample_state"
    by (simp add: read_root_boundary_def sample_names_fields sample_inspected)
  have state: "ra_root sample_state = sample_root" "ra_lineage_anchor sample_state = sample_anchor"
    by (simp_all add: sample_state_def)
  show ?thesis
    by (simp add: verify_task_request_def Let_def sample_names_fields sample_intent_fields guards guardS_def
        bindS_def root state sample_root_bindings read_ancestors_def sample_claim_fields sample_lineage_valid
        or_raise_contract_def or_raised_def sample_signed_digest sample_verified_def)
qed

section \<open>The receipt is claimed\<close>

definition sample_binding :: mutation_binding where
  "sample_binding =
     \<lparr>mb_idempotency_key = ''key-1'', mb_request_id = ''request-1'', mb_root_id = ''cgroot:'' @ sample_digest,
      mb_root_sha256 = sample_digest, mb_epoch = 1, mb_action = MA_APPLY_CANARY,
      mb_target = target_key sample_target, mb_provider_precondition = ''etag-1'',
      mb_plan_sha256 = sample_digest, mb_capability_sha256 = sample_digest, mb_payload_sha256 = sample_digest,
      mb_expected_poststate_sha256 = sample_digest\<rparr>"

definition sample_receipt :: execution_receipt where
  "sample_receipt =
     \<lparr>er_receipt_id = sample_digest, er_request_id = ''request-1'', er_idempotency_key = ''key-1'',
      er_capability_sha256 = sample_digest, er_mutation_sha256 = sample_digest, er_plan_sha256 = sample_digest,
      er_expected_poststate_sha256 = sample_digest, er_target = sample_target,
      er_root_id = ''cgroot:'' @ sample_digest, er_root_sha256 = sample_digest, er_epoch = 1,
      er_action = AC_APPLY_CANARY, er_provider_etag = ''etag-1'',
      er_dispatch_not_after = ''2025-01-01T00:25:00Z'', er_outcome = OC_CLAIMED, er_reason_code = None,
      er_provider_operation = None, er_observed_etag = None, er_observed_authority_epoch = None,
      er_created_at = ''2025-01-01T00:10:00Z'', er_updated_at = ''2025-01-01T00:10:00Z'',
      er_evidence_ids = []\<rparr>"

definition sample_stored :: "execution_receipt stored_record" where
  "sample_stored = \<lparr>sr_value = sample_receipt, sr_revision = 0\<rparr>"

lemma sample_receipt_fields:
  "er_target sample_receipt = sample_target" "er_idempotency_key sample_receipt = ''key-1''"
  "er_receipt_id sample_receipt = sample_digest" "er_outcome sample_receipt = OC_CLAIMED"
  by (simp_all add: sample_receipt_def)

lemma sample_receipt_names:
  "receipt_logical_id sample_hash sample_target ''key-1'' = Inr sample_digest"
  "receipt_document_id sample_hash sample_target ''key-1'' = Inr sample_digest"
proof -
  have ok: "validate_target_key (target_key sample_target) = None" "require_text ''idempotency_key'' ''key-1'' 128 = None"
    "is_identifier sample_digest"
    by code_simp+
  show l: "receipt_logical_id sample_hash sample_target ''key-1'' = Inr sample_digest"
    by (simp add: receipt_logical_id_def construct_def ok receipt_claim_identity_def sample_hash_def)
  show "receipt_document_id sample_hash sample_target ''key-1'' = Inr sample_digest"
    by (simp add: receipt_document_id_def l document_id_def ok) (simp add: sample_hash_def)
qed

lemma sample_receipt_bound: "receipt_matches_binding sample_hash sample_receipt sample_binding"
  unfolding receipt_matches_binding_def
  by (simp add: mutation_identity_def sample_hash_def)
    (simp add: sample_receipt_def sample_binding_def target_key_def)

lemma sample_receipt_initial: "validate_initial_receipt_claim sample_hash sample_stored = None"
  by (simp add: validate_initial_receipt_claim_def Let_def sample_stored_def sample_receipt_fields
      sample_receipt_names)

definition sample_created :: direct_receipt_create where
  "sample_created =
     \<lparr>dc_claimed_receipt = sample_stored, dc_binding = sample_binding, dc_attempt_id = None,
      dc_request_sha256 = None, dc_available = True\<rparr>"

lemma sample_create: "from_direct_store_create sample_hash sample_stored sample_binding = Inr sample_created"
  by (simp add: from_direct_store_create_def new_direct_receipt_create_def sample_receipt_initial sample_created_def)
    (simp add: sample_stored_def sample_receipt_bound)

definition no_readback :: readback where
  "no_readback = \<lparr>rb_db = empty_db, rb_failure = None\<rparr>"

definition sample_claiming :: store_event where
  "sample_claiming =
     Called (ClaimReceipt sample_receipt sample_binding ''mutation-1'') TxConfirmed no_readback no_readback"

lemma sample_receipt_prepared:
  "prepare_receipt_claim sample_hash sample_target sample_receipt sample_binding ''mutation-1''
     = Inr (sample_digest, new_document 0 ''mutation-1'' sample_receipt)"
proof -
  let ?d = "new_document 0 ''mutation-1'' sample_receipt"
  have "validate_wrapper_fields sample_digest ?d = None" "validate_execution_receipt sample_receipt = None"
    by code_simp+
  then have "validate_receipt_wrapper sample_hash sample_digest ?d = None"
    by (simp add: validate_receipt_wrapper_def Let_def new_document_def sample_receipt_fields
        sample_receipt_names wrong_identity_def)
  moreover have "validate_receipt_claim_binding sample_hash sample_receipt sample_binding = None"
    using sample_receipt_initial by (simp add: validate_receipt_claim_binding_def sample_stored_def sample_receipt_bound)
  ultimately show ?thesis
    by (simp add: prepare_receipt_claim_def validate_receipt_identity_def sample_receipt_fields
        sample_receipt_names prepare_receipt_def prepared_def construct_def)
qed

theorem sample_claimed:
  "claim_proof sample_hash sample_target empty_db sample_claiming = Some sample_created"
proof -
  have stored: "stored_of (new_document 0 ''mutation-1'' sample_receipt) = sample_stored"
    by (simp add: stored_of_def new_document_def sample_stored_def)
  show ?thesis
    by (simp add: sample_claiming_def claim_or_adopt_receipt_def sample_receipt_prepared run_transaction_def
        empty_db_def stored sample_create)
qed

section \<open>The permit is dispatched\<close>

definition sample_lease :: "lease_state \<Rightarrow> dispatch_lease" where
  "sample_lease state =
     \<lparr>dl_claimed_receipt = sample_stored, dl_binding = sample_binding, dl_state = state\<rparr>"

lemma sample_minted:
  "mint_lease sample_hash sample_created
     = (Inr (sample_lease LS_FRESH), sample_created\<lparr>dc_available := False\<rparr>)"
  by (simp add: mint_lease_def take_claim_def sample_created_def new_dispatch_lease_def sample_receipt_initial)
    (simp add: sample_stored_def sample_receipt_bound sample_lease_def)

definition sample_gate :: mutation_gate where
  "sample_gate =
     \<lparr>mg_target = sample_target, mg_service_role = SVC_EXECUTOR, mg_route_policy = sample_policy,
      mg_mutation_purpose = MP_STANDARD_EXECUTION\<rparr>"

lemma sample_binding_verified: "binding_matches_verified sample_hash sample_binding sample_verified = Inr True"
proof -
  have fields: "vm_request sample_verified = sample_task" "vm_capability_sha256 sample_verified = sample_digest"
    "vm_claims_sha256 sample_verified = sample_digest"
    by (simp_all add: sample_verified_def)
  have key: "construct validate_target_key (target_key sample_target) = Inr (target_key sample_target)"
  proof -
    have "validate_target_key (target_key sample_target) = None" by code_simp
    then show ?thesis by (simp add: construct_def target_key_def)
  qed
  show ?thesis
    by (simp add: binding_matches_verified_def Let_def fields sample_names_fields sample_intent_fields key
        or_raise_contract_def sample_signed_digest sample_task_digest)
      (simp add: sample_binding_def claims_intent_def sample_scope_fields)
qed

lemma sample_lease_simps [simp]:
  "dl_state (sample_lease s) = s" "dl_binding (sample_lease s) = sample_binding"
  "dl_claimed_receipt (sample_lease s) = sample_stored" "(sample_lease s)\<lparr>dl_state := t\<rparr> = sample_lease t"
  by (simp_all add: sample_lease_def)

lemma sample_verified_fields:
  "vm_request sample_verified = sample_task" "vm_root sample_verified = sample_root"
  "vm_lineage_anchor sample_verified = sample_anchor" "vm_caller sample_verified = sample_caller"
  "vm_earliest_lineage_issued_at sample_verified = 1735690200"
  by (simp_all add: sample_verified_def)

lemma sample_gate_fields:
  "mg_target sample_gate = sample_target" "mg_service_role sample_gate = SVC_EXECUTOR"
  "mg_route_policy sample_gate = sample_policy" "mg_mutation_purpose sample_gate = MP_STANDARD_EXECUTION"
  by (simp_all add: sample_gate_def)

lemma sample_entered:
  "gate_enter sample_hash sample_gate (sample_lease LS_FRESH) sample_verified
     = (AwaitPrepare, sample_lease LS_ENTERED)"
  by (simp add: gate_enter_def lease_enter_def sample_binding_verified sample_gate_fields)

lemma sample_prepared:
  "gate_prepared sample_hash sample_gate (sample_lease LS_ENTERED) sample_verified
     (PreparedMutation sample_target SVC_EXECUTOR (claims_intent sample_claims))
     = (AwaitAuthority, sample_lease LS_ENTERED)"
  by (simp add: gate_prepared_def sample_gate_fields sample_verified_fields sample_names_fields)

definition sample_permit :: mutation_permit where
  "sample_permit =
     \<lparr>mp_target = sample_target, mp_service_role = SVC_EXECUTOR, mp_intent = claims_intent sample_claims,
      mp_receipt_id = sample_digest, mp_binding = sample_binding, mp_available = True\<rparr>"

lemma sample_epoch:
  "coherent_authority_epoch sample_hash (Some sample_bundle) sample_verified sample_target = Some 1"
proof -
  have state: "ra_root sample_state = sample_root" "ra_service_claim sample_state = sample_service_claim"
    "ra_authority sample_state = sample_authority" "ra_lineage_anchor sample_state = sample_anchor"
    "ra_service_claim_revision sample_state = 0" "ra_authority_revision sample_state = 0"
    by (simp_all add: sample_state_def)
  have claim: "cl_target sample_service_claim = sample_target" "cl_status sample_service_claim = CS_ACTIVE"
    "cl_root_id sample_service_claim = ''cgroot:'' @ sample_digest"
    "cl_root_sha256 sample_service_claim = sample_digest"
    by (simp_all add: sample_service_claim_def)
  have auth: "au_target sample_authority = sample_target" "au_root_id sample_authority = ''cgroot:'' @ sample_digest"
    "au_root_sha256 sample_authority = sample_digest" "au_current_epoch sample_authority = 1"
    "au_revision sample_authority = 0"
    by (simp_all add: sample_authority_def)
  have root: "ad_root_id sample_root = ''cgroot:'' @ sample_digest" "ad_root_sha256 sample_root = sample_digest"
    by (simp_all add: sample_root_def)
  have intent: "mi_root_sha256 (claims_intent sample_claims) = sample_digest"
    by (simp add: claims_intent_def sample_scope_fields)
  show ?thesis
    by (simp add: coherent_authority_epoch_def sample_inspected Let_def state sample_verified_fields
        sample_root_fields sample_names_fields sample_intent_fields claim auth root intent
        claim_lifecycle_revision_matches_def claim_fence_matches_def)
qed

lemma sample_authority_granted:
  "final_authority_denial_of sample_hash sample_gate (Some sample_bundle) sample_verified sample_now = Inr None"
proof -
  have caller: "final_caller_denial sample_verified sample_policy sample_now = None"
  proof -
    have "ac_role sample_caller = cb_role (rp_caller sample_policy)"
      "ac_email sample_caller = cb_email (rp_caller sample_policy)"
      "ac_subject sample_caller = cb_subject (rp_caller sample_policy)"
      "ac_audience sample_caller = rp_audience sample_policy" "ac_issuer sample_caller \<in> set GOOGLE_ISSUERS"
      "ac_issued_at sample_caller = 1735690200" "ac_expires_at sample_caller = 1735693800"
      by code_simp+
    then show ?thesis
      by (simp add: final_caller_denial_def Let_def sample_verified_fields sample_names_fields sample_task_fields
          sample_scope_fields sample_now_def)
  qed
  have state: "ra_service_claim sample_state = sample_service_claim" "ra_authority sample_state = sample_authority"
    "ra_service_claim_revision sample_state = 0" "cl_status sample_service_claim = CS_ACTIVE"
    "au_changed_at sample_authority = ''2025-01-01T00:05:00Z''"
    by (simp_all add: sample_state_def sample_service_claim_def sample_authority_def)
  show ?thesis
    by (simp add: final_authority_denial_of_def sample_gate_fields sample_inspected caller [unfolded sample_now_def] sample_epoch
        sample_verified_fields sample_names_fields sample_intent_fields authority_superseded_def state
        parse_or_raise_def sample_instants window_denial_def before_start_def after_end_def
        sample_claim_fields sample_task_fields sample_now_def role_admits_def)
qed

lemma sample_authorized:
  "gate_authority sample_hash sample_gate (sample_lease LS_ENTERED) sample_verified
     (AuthorityRead (RootRead (Some sample_bundle))) (Some sample_now)
     = (AwaitMutation sample_permit 1, sample_lease LS_CLOSED)"
  by (simp add: gate_authority_def gate_fence_def sample_authority_granted sample_gate_fields sample_epoch
      lease_authorize_def new_permit_def sample_verified_fields sample_names_fields sample_intent_fields
      sample_stored_def sample_receipt_fields sample_permit_def)

definition sample_world :: "lease_state \<Rightarrow> gate_step \<Rightarrow> gate_world" where
  "sample_world state step =
     \<lparr>gw_lease = sample_lease state, gw_calls = [0 \<mapsto> (sample_gate, sample_verified, step)],
      gw_dispatched = dispatched_by step\<rparr>"

lemma sample_dispatched:
  "gate_reachable sample_hash (sample_lease LS_FRESH) (sample_world LS_CLOSED (AwaitMutation sample_permit 1))"
proof -
  let ?reach = "gate_reachable sample_hash (sample_lease LS_FRESH)"
  have world: "gw_lease (sample_world s t) = sample_lease s"
    "gw_calls (sample_world s t) = [0 \<mapsto> (sample_gate, sample_verified, t)]"
    "gw_dispatched (sample_world s t) = dispatched_by t" for s t
    by (simp_all add: sample_world_def)
  have enter: "?reach (sample_world LS_ENTERED AwaitPrepare)"
    using gate_reachable.enter [OF gate_reachable.start, of "sample_lease LS_FRESH" 0 sample_hash sample_gate
        sample_verified AwaitPrepare "sample_lease LS_ENTERED"]
    by (simp add: sample_entered sample_world_def)
  have prepare: "?reach (sample_world LS_ENTERED AwaitAuthority)"
    using gate_reachable.prepared [OF enter, of 0 sample_gate sample_verified
        "PreparedMutation sample_target SVC_EXECUTOR (claims_intent sample_claims)"]
    by (simp add: world sample_prepared) (simp add: sample_world_def)
  show ?thesis
    using gate_reachable.authority [OF prepare, of 0 sample_gate sample_verified
        "AuthorityRead (RootRead (Some sample_bundle))" "Some sample_now"]
    by (simp add: world sample_authorized) (simp add: sample_world_def)
qed

section \<open>The hypotheses can be met\<close>

theorem verified_chain_signed_and_in_force_witness:
  "link_signed sample_crypto (cv_trust sample_verifier) sample_signed
    \<and> link_in_force sample_hash sample_root sample_anchor sample_now sample_signed"
  using verified_chain_signed_and_in_force [OF sample_verification]
  by (auto simp: sample_verified_fields sample_names_fields)

theorem chain_cannot_outlive_first_issuance_witness:
  "1735690200 \<le> sample_now
    \<and> (\<exists>stop. parse_utc_second (cc_expires_at sample_claims) = Some stop \<and> sample_now < stop
         \<and> stop \<le> 1735690200 + 900)"
proof -
  have "wf_root (cr_hexdigest sample_crypto) (vm_root sample_verified)"
    using sample_root_wf by (simp add: sample_names_fields sample_verified_fields)
  from chain_cannot_outlive_first_issuance [OF sample_verification this] show ?thesis
    by (auto simp: sample_verified_fields sample_names_fields)
qed

lemma sample_task_valid: "validate_task_request sample_hash sample_task = None"
proof -
  have "validate_signed_capability sample_hash sample_signed = None"
  proof -
    have "field ''claims_sha256'' (is_sha256 sample_digest) = None" "field ''signature'' (is_base64url_text ''AAAA'') = None"
      by code_simp+
    then show ?thesis
      by (simp add: validate_signed_capability_def sample_names_fields sample_claims_valid)
        (simp add: sample_signed_def)
  qed
  moreover have "validate_intent (claims_intent sample_claims) = None" by code_simp
  moreover have "is_identifier ''task-1''" "is_region ''us-central1''" "is_audience_text sample_audience"
    by code_simp+
  moreover have "validate_task_bindings sample_task = None"
    by (simp add: task_bindings_None Let_def sample_names_fields sample_task_fields sample_scope_fields
        sample_claim_fields)
  ultimately show ?thesis
    by (simp add: validate_task_request_def validate_task_fields_def sample_names_fields sample_task_fields
        sample_utc)
      (simp add: sample_task_def)
qed

theorem verified_request_is_canary_step_witness:
  "canary_step_of sample_root (tr_intent sample_task) \<and> cc_subject sample_claims = sample_executor"
proof -
  have "wf_root (cr_hexdigest sample_crypto) (vm_root sample_verified)"
    "validate_task_request (cr_hexdigest sample_crypto) sample_task = None"
    using sample_root_wf sample_task_valid by (simp_all add: sample_names_fields sample_verified_fields)
  from verified_request_is_canary_step [OF sample_verification this] show ?thesis
    by (simp add: sample_verified_fields sample_scope_fields)
qed

theorem dispatch_is_fenced_witness:
  "authority_admits sample_hash sample_gate sample_bundle sample_verified 1
    \<and> caller_is_bound sample_policy sample_caller sample_now \<and> in_windows sample_task sample_now"
  using dispatch_is_fenced [OF sample_authorized]
  by (simp add: sample_verified_fields sample_gate_fields)

theorem verified_dispatch_in_time_witness:
  "sample_now < 1735690200 + 900
    \<and> authority_admits sample_hash sample_gate sample_bundle sample_verified 1"
proof -
  have "wf_root (cr_hexdigest sample_crypto) (vm_root sample_verified)"
    "gate_authority (cr_hexdigest sample_crypto) sample_gate (sample_lease LS_ENTERED) sample_verified
       (AuthorityRead (RootRead (Some sample_bundle))) (Some sample_now)
     = (AwaitMutation sample_permit 1, sample_lease LS_CLOSED)"
    using sample_root_wf sample_authorized by (simp_all add: sample_names_fields sample_verified_fields)
  from verified_dispatch_in_time [OF sample_verification this] show ?thesis
    by (simp add: sample_verified_fields sample_names_fields sample_intent_fields)
qed

theorem claim_dispatches_at_most_once_witness:
  "length (gw_dispatched (sample_world LS_CLOSED (AwaitMutation sample_permit 1))) \<le> 1
    \<and> permit_of_claim (sample_lease LS_FRESH) sample_permit"
  using claim_dispatches_at_most_once [OF sample_minted sample_dispatched]
  by (simp add: sample_world_def)

theorem unbound_caller_is_refused_witness:
  "verify_task_request sample_crypto sample_verifier (\<lambda>_. RootReadFailed) None (Some 0) sample_task sample_caller
     = Inl (VerificationDenied RC_CALLER_UNAUTHORIZED)"
proof -
  have "\<not> caller_is_bound (vc_route_policy (cv_configuration sample_verifier)) sample_caller 0"
    "mi_action (tr_intent sample_task) = AC_APPLY_CANARY"
    by (simp_all add: caller_is_bound_def sample_caller_def sample_names_fields sample_intent_fields)
  then show ?thesis by (rule unbound_caller_is_refused)
qed

end
