(* ===== verification/SampleCoordination.thy ===== *)
theory SampleCoordination
  imports CoordinatorRuns CoordinatorProps SampleRun
begin

text \<open>
  The sample request run by a coordinator: it claims the receipt, enters the gate with the lease of that
  claim, and its permit is dispatched.
\<close>

lemma sample_intent_rest:
  "mi_stable_revision (claims_intent sample_claims) = sample_stable"
  "mi_candidate_revision (claims_intent sample_claims) = sample_candidate"
  "mi_stable_percent (claims_intent sample_claims) = 90" "mi_candidate_percent (claims_intent sample_claims) = 10"
  "mi_concurrency (claims_intent sample_claims) = None"
  "mi_request_id (claims_intent sample_claims) = ''request-1''"
  "mi_idempotency_key (claims_intent sample_claims) = ''key-1''"
  "mi_root_sha256 (claims_intent sample_claims) = sample_digest"
  "mi_plan_sha256 (claims_intent sample_claims) = sample_digest"
  "mi_provider_etag (claims_intent sample_claims) = ''etag-1''"
  by (simp_all add: claims_intent_def sample_claims_def)

lemma sample_projection:
  "target_configuration_projection (claims_intent sample_claims) 80 = Inr (sample_configuration 90 10)"
proof -
  have "validate_target_configuration (sample_configuration 90 10) = None" by code_simp
  then show ?thesis
    by (simp add: target_configuration_projection_def sample_intent_fields sample_intent_rest sample_configuration_def)
qed

lemma sample_expected: "expected_target_state sample_verified = Inr (sample_configuration 90 10)"
proof -
  have "ab_concurrency (rc_authority_bounds (ad_content sample_root)) = 80" by code_simp
  then show ?thesis
    by (simp add: expected_target_state_def Let_def sample_verified_fields sample_names_fields sample_intent_fields
        sample_projection)
qed

lemma sample_poststate:
  "intent_target_sha256 sample_hash (claims_intent sample_claims) 80 = Inr sample_digest"
proof -
  have "validate_restricted 0 (target_configuration_json (sample_configuration 90 10)) = None"
    "json_weight (target_configuration_json (sample_configuration 90 10)) \<le> 65536"
    by code_simp+
  then show ?thesis
    by (simp add: intent_target_sha256_def sample_projection target_configuration_sha256_def canonical_within
        sample_hash_def)
qed

lemma sample_binding_valid: "validate_mutation_binding sample_binding = None"
  by code_simp

lemma sample_target_key: "construct validate_target_key (target_key sample_target) = Inr (target_key sample_target)"
proof -
  have "validate_target_key (target_key sample_target) = None" by code_simp
  then show ?thesis by simp
qed

lemma sample_work: "expected_work sample_hash sample_verified = Inr (sample_configuration 90 10, sample_binding)"
proof -
  have "vm_capability_sha256 sample_verified = sample_digest" "tg_concurrency (sample_configuration 90 10) = 80"
    by (simp_all add: sample_verified_def sample_configuration_def)
  then have "mutation_binding_of sample_hash sample_verified (sample_configuration 90 10)
      = construct validate_mutation_binding sample_binding"
    by (simp add: mutation_binding_of_def Let_def sample_verified_fields sample_names_fields sample_intent_fields
        sample_intent_rest sample_target_key or_raise_contract_def sample_task_digest sample_poststate)
      (simp add: sample_binding_def)
  then show ?thesis by (simp add: expected_work_def sample_expected construct_def sample_binding_valid)
qed

lemma sample_claimed_receipt:
  "claimed_receipt_of sample_hash sample_verified sample_binding ''2025-01-01T00:10:00Z'' = Inr sample_receipt"
proof -
  have "validate_execution_receipt sample_receipt = None" by code_simp
  moreover have "vm_capability_sha256 sample_verified = sample_digest"
    "mb_expected_poststate_sha256 sample_binding = sample_digest" "mutation_identity sample_hash sample_binding = sample_digest"
    by (simp_all add: sample_verified_def sample_binding_def mutation_identity_def sample_hash_def)
  moreover have "claimed_receipt_of sample_hash sample_verified sample_binding ''2025-01-01T00:10:00Z''
      = construct validate_execution_receipt sample_receipt"
    if "vm_capability_sha256 sample_verified = sample_digest"
      "mb_expected_poststate_sha256 sample_binding = sample_digest" "mutation_identity sample_hash sample_binding = sample_digest"
    using that
    by (simp add: claimed_receipt_of_def Let_def sample_verified_fields sample_names_fields sample_intent_fields
        sample_intent_rest sample_receipt_names sample_task_fields) (simp add: sample_receipt_def)
  ultimately show ?thesis by (simp add: construct_def)
qed

lemma sample_adopted: "valid_adopted_receipt sample_hash sample_binding sample_verified sample_stored = Inr True"
proof -
  have "er_dispatch_not_after sample_receipt = ''2025-01-01T00:25:00Z''" by (simp add: sample_receipt_def)
  then show ?thesis
    by (simp add: valid_adopted_receipt_def Let_def sample_verified_fields sample_names_fields sample_intent_fields
        sample_intent_rest sample_receipt_names sample_stored_def sample_receipt_fields sample_task_fields
        sample_receipt_bound)
qed

lemma sample_execute:
  obtains k where "coordinator_execute sample_hash sample_verified = AskClock k"
    "k (Some ''2025-01-01T00:10:00Z'') = AskClaim sample_receipt sample_binding
      (after_claim sample_hash (sample_configuration 90 10) sample_binding sample_verified)"
proof -
  show thesis
    by (rule that, simp only: coordinator_execute_def sample_work read_clock_def sum.case prod.case)
      (simp add: liftP_def sample_utc
        parse_or_raise_def sample_instants sample_verified_fields sample_task_fields sample_claimed_receipt
        RECEIPT_NEW_CLAIM_RECOVERY_WINDOW_SECONDS_def RECEIPT_ORPHAN_GRACE_SECONDS_def
        RECEIPT_QUEUE_MAX_BACKOFF_SECONDS_def)
qed

lemma sample_won:
  "fst (claim_or_adopt_receipt sample_hash sample_target sample_receipt sample_binding ''mutation-1'' TxConfirmed
      no_readback no_readback empty_db) = Inr (ReceiptClaimCreated sample_stored sample_created)"
  using sample_claimed
  by (auto simp: sample_claiming_def sample_created_def split: sum.splits receipt_claim_result.splits
      dest: claim_created_inv)

lemma sample_after_claim:
  "after_claim sample_hash (sample_configuration 90 10) sample_binding sample_verified
      (Some (ReceiptClaimCreated sample_stored sample_created))
    = AskGate (sample_lease LS_FRESH) sample_verified
        (after_gate sample_hash (sample_configuration 90 10) sample_binding sample_verified sample_stored)"
  by (simp add: after_claim_def sample_adopted liftP_def sample_minted)

definition sample_gates :: "gate_world list" where
  "sample_gates = [sample_world LS_CLOSED (AwaitMutation sample_permit 1)]"

lemma sample_coordination:
  obtains w where "coordinated sample_hash sample_target w" "co_gates w = sample_gates"
    "co_db w = store_step sample_hash sample_target empty_db sample_claiming"
proof -
  let ?run = "coordinated sample_hash sample_target"
  let ?start = "\<lparr>co_db = empty_db, co_workers = Map.empty, co_gates = []\<rparr>"
  obtain k where k: "coordinator_execute sample_hash sample_verified = AskClock k"
    "k (Some ''2025-01-01T00:10:00Z'') = AskClaim sample_receipt sample_binding
      (after_claim sample_hash (sample_configuration 90 10) sample_binding sample_verified)"
    by (rule sample_execute)
  have "?run (resumed 0 (AskClock k) ?start)"
    unfolding k(1) [symmetric] by (rule coordinated.execute) (simp_all add: coordinated.empty)
  from coordinated.clock [OF this, of 0 k "Some ''2025-01-01T00:10:00Z''"]
  have claim: "?run (resumed 0 (k (Some ''2025-01-01T00:10:00Z'')) (resumed 0 (AskClock k) ?start))" by simp
  let ?w = "resumed 0 (k (Some ''2025-01-01T00:10:00Z'')) (resumed 0 (AskClock k) ?start)"
  let ?v = "?w\<lparr>co_db := store_step sample_hash sample_target empty_db sample_claiming\<rparr>"
  have "?run (resumed 0 (after_claim sample_hash (sample_configuration 90 10) sample_binding sample_verified
      (Some (ReceiptClaimCreated sample_stored sample_created))) ?v)"
    using coordinated.claim [OF claim, where i = 0 and m = "''mutation-1''" and fate = TxConfirmed
        and rb = no_readback and rb' = no_readback] k(2)
    by (simp add: sample_won answered_def sample_claiming_def del: store_step.simps)
  then have gate: "?run (resumed 0 (AskGate (sample_lease LS_FRESH) sample_verified
      (after_gate sample_hash (sample_configuration 90 10) sample_binding sample_verified sample_stored)) ?v)"
    by (simp add: sample_after_claim)
  show thesis
    by (rule that [OF coordinated.gate [OF gate _ sample_dispatched, where i = 0]])
      (simp_all add: sample_gates_def)
qed

theorem recovery_and_late_execution_never_dispatch_witness:
  "\<exists>k. coordinator_execute sample_hash sample_verified = AskClock k
     \<and> gate_free (k (Some ''2025-01-01T00:25:00Z'')) \<and> gate_free (recover_orphaned sample_hash sample_verified)"
proof -
  obtain k where k: "coordinator_execute sample_hash sample_verified = AskClock k"
    by (rule sample_execute)
  have "parse_utc_second (tr_expires_at (vm_request sample_verified)) = Some 1735691100"
    by (simp add: sample_verified_fields sample_task_fields sample_instants)
  from recovery_and_late_execution_never_dispatch [OF k sample_instants(4) this] k show ?thesis by simp
qed

end
