(* ===== verification/SampleReadback.thy ===== *)
theory SampleReadback
  imports AmbiguousReadbackProps SampleCoordination
begin

text \<open>
  The sample receipt made ambiguous, and the command that resolves it: the run submits the verified
  receipt, which witnesses the properties of the resolver.
\<close>

definition sample_ambiguous :: execution_receipt where
  "sample_ambiguous =
     sample_receipt\<lparr>er_outcome := OC_AMBIGUOUS, er_reason_code := Some RC_PROVIDER_OUTCOME_AMBIGUOUS,
       er_provider_operation := Some ''operations/1'', er_observed_etag := Some ''etag-2'',
       er_observed_authority_epoch := Some 1\<rparr>"

definition sample_command :: readback_command where
  "sample_command =
     \<lparr>rk_root_id = ''cgroot:'' @ sample_digest, rk_expected_root_sha256 = sample_digest, rk_expected_epoch = 1,
      rk_action = AC_APPLY_CANARY, rk_request_id = ''request-1'', rk_idempotency_key = ''key-1'',
      rk_capability_sha256 = sample_digest, rk_expected_receipt_sha256 = sample_digest,
      rk_expected_storage_revision = 1, rk_expected_ambiguous_observed_etag = ''etag-2'',
      rk_expected_ambiguous_updated_at = ''2025-01-01T00:10:00Z''\<rparr>"

definition sample_held :: "execution_receipt stored_record" where
  "sample_held = \<lparr>sr_value = sample_ambiguous, sr_revision = 1\<rparr>"

definition sample_ports :: resolver_ports where
  "sample_ports =
     \<lparr>rp_read_receipt = (\<lambda>_. Some (Some sample_held)), rp_first_bundle = (\<lambda>_. RootRead (Some sample_bundle)),
      rp_terminal_success = (\<lambda>_. Some True),
      rp_readback = (\<lambda>t. Some \<lparr>ob_state = Some t, ob_etag = Some ''etag-3''\<rparr>),
      rp_second_bundle = (\<lambda>_. RootRead (Some sample_bundle)), rp_clock = ''2025-01-01T00:25:00Z''\<rparr>"

definition sample_marker :: string where "sample_marker = ''cgrrb:'' @ sample_digest"

definition sample_submission :: resolution_submission where
  "sample_submission =
     \<lparr>su_stored = sample_held,
      su_replacement = resolution_of sample_ambiguous sample_marker ''etag-3'' ''2025-01-01T00:25:00Z'',
      su_authority = \<lparr>sr_value = sample_authority, sr_revision = 0\<rparr>,
      su_service_claim = \<lparr>sr_value = sample_service_claim, sr_revision = 0\<rparr>\<rparr>"

lemma sample_ambiguous_fields:
  "er_receipt_id sample_ambiguous = sample_digest" "er_target sample_ambiguous = sample_target"
  "er_root_id sample_ambiguous = ''cgroot:'' @ sample_digest" "er_root_sha256 sample_ambiguous = sample_digest"
  "er_epoch sample_ambiguous = 1" "er_action sample_ambiguous = AC_APPLY_CANARY"
  "er_request_id sample_ambiguous = ''request-1''" "er_idempotency_key sample_ambiguous = ''key-1''"
  "er_capability_sha256 sample_ambiguous = sample_digest" "er_plan_sha256 sample_ambiguous = sample_digest"
  "er_expected_poststate_sha256 sample_ambiguous = sample_digest"
  "er_provider_etag sample_ambiguous = ''etag-1''" "er_outcome sample_ambiguous = OC_AMBIGUOUS"
  "er_reason_code sample_ambiguous = Some RC_PROVIDER_OUTCOME_AMBIGUOUS"
  "er_provider_operation sample_ambiguous = Some ''operations/1''"
  "er_observed_etag sample_ambiguous = Some ''etag-2''" "er_observed_authority_epoch sample_ambiguous = Some 1"
  "er_updated_at sample_ambiguous = ''2025-01-01T00:10:00Z''" "er_evidence_ids sample_ambiguous = []"
  by (simp_all add: sample_ambiguous_def sample_receipt_def)

lemma sample_command_fields:
  "rk_root_id sample_command = ''cgroot:'' @ sample_digest" "rk_expected_root_sha256 sample_command = sample_digest"
  "rk_expected_epoch sample_command = 1" "rk_action sample_command = AC_APPLY_CANARY"
  "rk_request_id sample_command = ''request-1''" "rk_idempotency_key sample_command = ''key-1''"
  "rk_capability_sha256 sample_command = sample_digest"
  "rk_expected_receipt_sha256 sample_command = sample_digest"
  "rk_expected_storage_revision sample_command = 1"
  "rk_expected_ambiguous_observed_etag sample_command = ''etag-2''"
  "rk_expected_ambiguous_updated_at sample_command = ''2025-01-01T00:10:00Z''"
  by (simp_all add: sample_command_def)

lemma sample_located: "receipt_matches_locator sample_hash sample_target sample_command sample_ambiguous = Inr True"
  by (simp add: receipt_matches_locator_def sample_command_fields sample_receipt_names sample_ambiguous_fields)

lemma sample_ambiguous_digest: "execution_receipt_sha256 sample_hash sample_ambiguous = Inr sample_digest"
proof -
  have "validate_restricted 0 (execution_receipt_json sample_ambiguous) = None"
    "json_weight (execution_receipt_json sample_ambiguous) \<le> 65536"
    by code_simp+
  then show ?thesis
    unfolding execution_receipt_sha256_def or_raise_contract_Inr by (rule sample_digest_taken)
qed

lemma sample_marked: "resolution_evidence_id sample_hash sample_command = Inr sample_marker"
proof -
  have "validate_restricted 0 (readback_command_json sample_command) = None"
    "json_weight (readback_command_json sample_command) \<le> 65536"
    by code_simp+
  then show ?thesis
    by (simp add: resolution_evidence_id_def canonical_within or_raise_contract_def sample_marker_def sample_hash_def)
qed

lemma sample_pinned: "pinned sample_hash sample_target sample_command sample_held"
  by (simp add: pinned_def sample_held_def sample_located sample_ambiguous_digest sample_command_fields
      sample_ambiguous_fields)

definition sample_boundary :: resolved_boundary where
  "sample_boundary =
     \<lparr>rb_expected_poststate = sample_configuration 90 10,
      rb_authority = \<lparr>sr_value = sample_authority, sr_revision = 0\<rparr>,
      rb_service_claim = \<lparr>sr_value = sample_service_claim, sr_revision = 0\<rparr>\<rparr>"

lemma sample_poststate_of_root:
  "boundary_poststate sample_target sample_command sample_root = Inr (sample_configuration 90 10)"
proof -
  have "validate_target_configuration (sample_configuration 90 10) = None" by code_simp
  moreover have "boundary_poststate sample_target sample_command sample_root
      = construct validate_target_configuration (sample_configuration 90 10)"
    by (simp add: boundary_poststate_def Let_def sample_command_fields sample_configuration_def)
      (simp add: sample_root_def sample_content_def sample_plan_def)
  ultimately show ?thesis by (simp add: construct_def)
qed

lemma sample_poststate_digest: "target_configuration_sha256 sample_hash (sample_configuration 90 10) = Inr sample_digest"
  using sample_poststate by (simp add: intent_target_sha256_def sample_projection)

lemma sample_boundary_of:
  "boundary_of sample_hash sample_target sample_command sample_ambiguous sample_state = Inr sample_boundary"
proof -
  have root: "ad_root_id sample_root = ''cgroot:'' @ sample_digest" "ad_root_sha256 sample_root = sample_digest"
    "rc_target (ad_content sample_root) = sample_target" "rc_rollout_plan (ad_content sample_root) = sample_plan"
    "ss_provider_etag (rc_stable_snapshot (ad_content sample_root)) = ''etag-1''"
    by (simp_all add: sample_root_def sample_content_def sample_snapshot_def)
  have claim: "cl_status sample_service_claim = CS_ACTIVE" "au_current_epoch sample_authority = 1"
    by (simp_all add: sample_service_claim_def sample_authority_def)
  have state: "ra_root sample_state = sample_root" "ra_service_claim sample_state = sample_service_claim"
    "ra_authority sample_state = sample_authority" "ra_authority_revision sample_state = 0"
    "ra_service_claim_revision sample_state = 0"
    by (simp_all add: sample_state_def)
  show ?thesis
    by (simp add: boundary_of_def Let_def state sample_poststate_of_root bindS_Inr root claim
        sample_poststate_digest sample_command_fields sample_ambiguous_fields sample_boundary_def)
qed

lemma sample_boundary_read:
  "read_and_validate_boundary sample_hash sample_target sample_command (\<lambda>_. RootRead (Some sample_bundle)) sample_held
     = Inr sample_boundary"
  by (auto simp: read_and_validate_boundary_def sample_held_def sample_located bindS_Inr sample_inspected
      sample_boundary_of)

lemma sample_ambiguous_valid: "validate_execution_receipt sample_ambiguous = None"
  by code_simp

lemma sample_resolution_valid:
  "validate_execution_receipt (resolution_of sample_ambiguous sample_marker ''etag-3'' ''2025-01-01T00:25:00Z'') = None"
  by code_simp

lemma sample_prepared_submission:
  "prepare_submission sample_hash sample_target sample_command sample_ports sample_held sample_boundary ''etag-3''
     = Inr (Submit sample_submission)"
proof -
  have boundary: "rb_authority sample_boundary = \<lparr>sr_value = sample_authority, sr_revision = 0\<rparr>"
    "rb_service_claim sample_boundary = \<lparr>sr_value = sample_service_claim, sr_revision = 0\<rparr>"
    by (simp_all add: sample_boundary_def)
  have ports: "rp_second_bundle sample_ports = (\<lambda>_. RootRead (Some sample_bundle))"
    "rp_clock sample_ports = ''2025-01-01T00:25:00Z''" "sr_value sample_held = sample_ambiguous"
    by (simp_all add: sample_ports_def sample_held_def)
  have exact: "is_exact_resolution_replacement sample_ambiguous
      (resolution_of sample_ambiguous sample_marker ''etag-3'' ''2025-01-01T00:25:00Z'') sample_marker ''etag-3''"
    by code_simp
  have "construct validate_execution_receipt (sample_ambiguous\<lparr>er_outcome := OC_VERIFIED, er_reason_code := None,
      er_observed_etag := Some ''etag-3'', er_updated_at := ''2025-01-01T00:25:00Z'',
      er_evidence_ids := er_evidence_ids sample_ambiguous @ [sample_marker]\<rparr>)
    = Inr (resolution_of sample_ambiguous sample_marker ''etag-3'' ''2025-01-01T00:25:00Z'')"
    using sample_resolution_valid by (simp add: construct_def resolution_of_def)
  then show ?thesis
    using exact
    by (auto simp: prepare_submission_def Let_def ports sample_boundary_read bindS_Inr sample_marked boundary
        sample_ambiguous_fields sample_utc parse_or_raise_def sample_instants sample_submission_def resolution_of_def)
qed

lemma sample_submitted:
  "resolve_before_store sample_hash sample_target sample_command sample_ports = Inr (Submit sample_submission)"
proof -
  have ports: "rp_read_receipt sample_ports = (\<lambda>_. Some (Some sample_held))"
    "rp_first_bundle sample_ports = (\<lambda>_. RootRead (Some sample_bundle))"
    "rp_terminal_success sample_ports = (\<lambda>_. Some True)"
    "rp_readback sample_ports = (\<lambda>t. Some \<lparr>ob_state = Some t, ob_etag = Some ''etag-3''\<rparr>)"
    "sr_value sample_held = sample_ambiguous"
    by (simp_all add: sample_ports_def sample_held_def)
  have "adoption_candidate sample_hash sample_command sample_held = Inr False"
    by (simp add: adoption_candidate_def sample_marked ports sample_ambiguous_fields)
  moreover have "\<exists>u. require_exact_ambiguous sample_hash sample_target sample_command sample_held = Inr u"
    using sample_pinned require_exact_ambiguous_Inr by blast
  ultimately show ?thesis
    by (auto simp: resolve_before_store_def ports bindS_Inr sample_boundary_read sample_ambiguous_fields
        sample_prepared_submission)
qed

section \<open>The hypotheses can be met\<close>

lemma sample_hash_digest: "is_sha256 (sample_hash b)"
proof -
  have "is_sha256 sample_digest" by code_simp
  then show ?thesis by (simp add: sample_hash_def)
qed

theorem ambiguity_resolved_only_when_confirmed_witness:
  "confirmed sample_hash sample_target sample_command sample_ports sample_submission"
  by (rule ambiguity_resolved_only_when_confirmed [OF sample_submitted])

theorem store_admits_every_submission_witness:
  "validate_ambiguous_receipt_resolution sample_hash sample_target (su_stored sample_submission)
     (su_replacement sample_submission) (su_authority sample_submission) (su_service_claim sample_submission) = None"
  by (rule store_admits_every_submission [OF sample_submitted sample_hash_digest])

theorem resolution_is_adopted_again_witness:
  "(\<exists>r. resolve_command sample_hash sample_target sample_command
        (sample_ports\<lparr>rp_read_receipt := (\<lambda>_. Some (Some (stored_resolution sample_submission)))\<rparr>)
        (\<lambda>_. None) (\<lambda>_. None) = Inr r \<and> rr_disposition r = RD_ADOPTED)"
proof -
  have valid: "validate_execution_receipt (sr_value (su_stored sample_submission)) = None"
    using sample_ambiguous_valid by (simp add: sample_submission_def sample_held_def)
  show ?thesis
    using resolution_is_adopted_again [OF sample_submitted sample_hash_digest valid,
        of "sample_ports\<lparr>rp_read_receipt := (\<lambda>_. Some (Some (stored_resolution sample_submission)))\<rparr>"
           "\<lambda>_. None" "\<lambda>_. None"]
    by auto
qed

end
