(* ===== verification/SignedEvidence.thy ===== *)
theory SignedEvidence
  imports Signing RootAuthority
begin

text \<open>
  Signed evidence: \<open>SignedEvidenceEventV1\<close> and its two digests from \<open>contracts/root_creation.py\<close>, the
  evidence writer of \<open>application/evidence_signing.py\<close>, and the canonical form of the two records that
  evidence digests, the epoch authority and the service claim. The signer is a function of the event:
  a payload-free failure or a detached signature.
\<close>

section \<open>Signed events\<close>

definition SIGNED_EVIDENCE_EVENT_V1 :: string where
  "SIGNED_EVIDENCE_EVENT_V1 = ''controlgraph.signed-evidence-event/v1''"
definition EPOCH_AUTHORITY_V1 :: string where "EPOCH_AUTHORITY_V1 = ''controlgraph.epoch-authority/v1''"
definition SERVICE_CLAIM_V2 :: string where "SERVICE_CLAIM_V2 = ''controlgraph.service-claim/v2''"

text \<open>Purpose and algorithm are literals of the contract.\<close>

record signed_evidence_event =
  se_event :: evidence_event
  se_signing_key_version :: string
  se_payload_sha256 :: string
  se_signing_input_sha256 :: string
  se_signature :: string

definition evidence_payload_sha256 :: "hexdigest \<Rightarrow> evidence_event \<Rightarrow> string result" where
  "evidence_payload_sha256 hexdigest event =
     bindR (or_raise_contract (canonical_json_value_bytes (evidence_event_json event)))
     (\<lambda>encoded. Inr (hexdigest encoded))"

definition evidence_signing_input_sha256 :: "hexdigest \<Rightarrow> evidence_event \<Rightarrow> string \<Rightarrow> string result" where
  "evidence_signing_input_sha256 hexdigest event key_version =
    (case validate_signing_key key_version (tb_project_id (ev_target event)) ''evidence-signing'' of
       Some e \<Rightarrow> Inl e
     | None \<Rightarrow>
         bindR (or_raise_contract (canonical_json_value_bytes
           (JObj [(''algorithm'', JStr SIGNING_ALGORITHM), (''key_version'', JStr key_version),
                  (''payload_version'', JStr EVIDENCE_EVENT_V1), (''purpose'', JStr ''EVIDENCE''),
                  (''schema_version'', JStr SIGNATURE_INPUT_V1)])))
         (\<lambda>header. bindR (or_raise_contract (canonical_json_value_bytes (evidence_event_json event)))
         (\<lambda>encoded. Inr (hexdigest (SIGNING_DOMAIN @ header @ [0] @ encoded)))))"

definition validate_signature_bindings :: "hexdigest \<Rightarrow> signed_evidence_event \<Rightarrow> check" where
  "validate_signature_bindings hexdigest s =
    (let event = se_event s in
     checks
      [validate_root_target (ev_target event),
       validate_signing_key (se_signing_key_version s) (tb_project_id (ev_target event)) ''evidence-signing'',
       (case evidence_payload_sha256 hexdigest event of
          Inl e \<Rightarrow> Some e
        | Inr expected \<Rightarrow> fails_if (se_payload_sha256 s \<noteq> expected)
            (ValueError ''evidence payload digest does not match its canonical event'')),
       (case evidence_signing_input_sha256 hexdigest event (se_signing_key_version s) of
          Inl e \<Rightarrow> Some e
        | Inr expected \<Rightarrow> fails_if (se_signing_input_sha256 s \<noteq> expected)
            (ValueError ''evidence signing-input digest does not match its bindings'')),
       fails_if (case decode_base64url 256 (se_signature s) of Inl _ \<Rightarrow> True | Inr signature \<Rightarrow> signature = [])
         (ValueError ''evidence signature is invalid'')])"

definition validate_signed_evidence :: "hexdigest \<Rightarrow> signed_evidence_event \<Rightarrow> check" where
  "validate_signed_evidence hexdigest s =
     checks
      [validate_evidence_event (se_event s),
       field ''signing_key_version'' (is_key_version_resource (se_signing_key_version s)),
       field ''payload_sha256'' (is_sha256 (se_payload_sha256 s)),
       field ''signing_input_sha256'' (is_sha256 (se_signing_input_sha256 s)),
       field ''signature'' (is_base64url_text (se_signature s)),
       validate_signature_bindings hexdigest s]"

definition signed_evidence_json :: "signed_evidence_event \<Rightarrow> json" where
  "signed_evidence_json s =
     JObj [(''schema_version'', JStr SIGNED_EVIDENCE_EVENT_V1), (''event'', evidence_event_json (se_event s)),
           (''purpose'', JStr ''EVIDENCE''), (''signing_key_version'', JStr (se_signing_key_version s)),
           (''signing_algorithm'', JStr SIGNING_ALGORITHM), (''payload_sha256'', JStr (se_payload_sha256 s)),
           (''signing_input_sha256'', JStr (se_signing_input_sha256 s)),
           (''signature'', JStr (se_signature s))]"

definition signed_evidence_sha256 :: "hexdigest \<Rightarrow> signed_evidence_event \<Rightarrow> string result" where
  "signed_evidence_sha256 hexdigest s =
     or_raise_contract (contract_sha256 hexdigest SIGNED_EVIDENCE_EVENT_V1 (signed_evidence_json s))"

section \<open>The evidence writer\<close>

datatype evidence_signing_error =
    ES_CONFIGURATION_INVALID | ES_CALLER_DENIED | ES_TARGET_DENIED | ES_ACTOR_DENIED | ES_UNAVAILABLE

record evidence_signing_service =
  es_project_id :: string
  es_policy :: route_policy
  es_profile :: signing_profile

definition validate_evidence_signing_service ::
  "evidence_signing_service \<Rightarrow> evidence_signing_error option" where
  "validate_evidence_signing_service s =
    (if \<not> controlgraph_project (es_project_id s) \<or> contains_text ''reconcile'' (es_project_id s)
        \<or> rp_project_id (es_policy s) \<noteq> es_project_id s
        \<or> rp_service_role (es_policy s) \<noteq> SVC_EVIDENCE_WRITER
        \<or> cb_role (rp_caller (es_policy s)) \<noteq> CALL_COORDINATOR
        \<or> pf_purpose (es_profile s) \<noteq> SP_EVIDENCE \<or> pf_project_id (es_profile s) \<noteq> es_project_id s
     then Some ES_CONFIGURATION_INVALID else None)"

definition evidence_target :: "evidence_signing_service \<Rightarrow> target_binding" where
  "evidence_target s =
     \<lparr>tb_project_id = es_project_id s, tb_region = ''us-central1'', tb_environment = ''nonprod'',
      tb_service_name = ''controlgraph-reference-target''\<rparr>"

definition evidence_caller_admitted :: "evidence_signing_service \<Rightarrow> authentication_context \<Rightarrow> bool" where
  "evidence_caller_admitted s caller \<longleftrightarrow>
     ac_role caller = CALL_COORDINATOR
     \<and> ac_email caller = ''controlgraph-coordinator@'' @ es_project_id s @ ''.iam.gserviceaccount.com''
     \<and> ac_email caller = cb_email (rp_caller (es_policy s))
     \<and> ac_subject caller = cb_subject (rp_caller (es_policy s))
     \<and> ac_issuer caller \<in> {''accounts.google.com'', ''https://accounts.google.com''}
     \<and> ac_audience caller = rp_audience (es_policy s)"

definition evidence_sign ::
  "hexdigest \<Rightarrow> evidence_signing_service \<Rightarrow> (evidence_event \<Rightarrow> detached_signature option)
    \<Rightarrow> evidence_event \<Rightarrow> authentication_context \<Rightarrow> evidence_signing_error + signed_evidence_event" where
  "evidence_sign hexdigest s signer event caller =
    (if \<not> evidence_caller_admitted s caller then Inl ES_CALLER_DENIED
     else if ev_target event \<noteq> evidence_target s then Inl ES_TARGET_DENIED
     else if ends_with ''.iam.gserviceaccount.com'' (ev_actor event) then Inl ES_ACTOR_DENIED
     else
       (case signer event of
          None \<Rightarrow> Inl ES_UNAVAILABLE
        | Some d \<Rightarrow>
            if ds_schema_version d \<noteq> DETACHED_SIGNATURE_V1 \<or> ds_purpose d \<noteq> SP_EVIDENCE
               \<or> ds_key_version d \<noteq> pf_key_version (es_profile s) \<or> ds_algorithm d \<noteq> SIGNING_ALGORITHM
               \<or> ds_payload_version d \<noteq> EVIDENCE_EVENT_V1
            then Inl ES_UNAVAILABLE
            else
              (let e = \<lparr>se_event = event, se_signing_key_version = ds_key_version d,
                   se_payload_sha256 = ds_payload_sha256 d, se_signing_input_sha256 = ds_digest_sha256 d,
                   se_signature = ds_signature d\<rparr> in
               case validate_signed_evidence hexdigest e of
                 Some _ \<Rightarrow> Inl ES_UNAVAILABLE
               | None \<Rightarrow> Inr e)))"

section \<open>Records that evidence digests\<close>

fun epoch_change_cause_value :: "epoch_change_cause \<Rightarrow> string" where
  "epoch_change_cause_value EC_ROOT_CREATED = ''ROOT_CREATED''"
| "epoch_change_cause_value EC_OPERATOR_REVOCATION = ''OPERATOR_REVOCATION''"
| "epoch_change_cause_value EC_SUPERSESSION = ''SUPERSESSION''"
| "epoch_change_cause_value EC_RECOVERY = ''RECOVERY''"

definition epoch_authority_json :: "epoch_authority_record \<Rightarrow> json" where
  "epoch_authority_json a =
     JObj [(''schema_version'', JStr EPOCH_AUTHORITY_V1), (''root_id'', JStr (au_root_id a)),
           (''root_sha256'', JStr (au_root_sha256 a)), (''target'', target_binding_json (au_target a)),
           (''current_epoch'', JInt (au_current_epoch a)),
           (''previous_epoch'', json_opt JInt (au_previous_epoch a)), (''revision'', JInt (au_revision a)),
           (''cause'', JStr (epoch_change_cause_value (au_cause a))), (''changed_by'', JStr (au_changed_by a)),
           (''request_id'', JStr (au_request_id a)), (''evidence_id'', JStr (au_evidence_id a)),
           (''changed_at'', JStr (au_changed_at a))]"

definition epoch_authority_sha256 :: "hexdigest \<Rightarrow> epoch_authority_record \<Rightarrow> string result" where
  "epoch_authority_sha256 hexdigest a =
     or_raise_contract (contract_sha256 hexdigest EPOCH_AUTHORITY_V1 (epoch_authority_json a))"

fun service_claim_status_value :: "service_claim_status \<Rightarrow> string" where
  "service_claim_status_value CS_ACTIVE = ''ACTIVE''"
| "service_claim_status_value CS_RELEASING = ''RELEASING''"
| "service_claim_status_value CS_RELEASED = ''RELEASED''"

fun terminal_root_state_value :: "terminal_root_state \<Rightarrow> string" where
  "terminal_root_state_value TS_PROMOTED = ''PROMOTED''"
| "terminal_root_state_value TS_RECOVERED = ''RECOVERED''"
| "terminal_root_state_value TS_STRANDED_STABLE = ''STRANDED_STABLE''"

fun target_classification_value :: "target_classification \<Rightarrow> string" where
  "target_classification_value TC_CANDIDATE_PROMOTED = ''CANDIDATE_PROMOTED''"
| "target_classification_value TC_STABLE_RESTORED = ''STABLE_RESTORED''"

definition terminal_root_proof_json :: "terminal_root_proof \<Rightarrow> json" where
  "terminal_root_proof_json p =
     JObj [(''schema_version'', JStr ''controlgraph.service-claim-terminal-root-proof/v1''),
           (''target'', target_binding_json (tp_target p)), (''root_id'', JStr (tp_root_id p)),
           (''root_sha256'', JStr (tp_root_sha256 p)),
           (''state'', JStr (terminal_root_state_value (tp_state p))),
           (''target_configuration_sha256'', JStr (tp_target_configuration_sha256 p)),
           (''evidence_id'', JStr (tp_evidence_id p)), (''evidence_sha256'', JStr (tp_evidence_sha256 p)),
           (''confirmed_by'', JStr ''controlgraph.coordinator/v1''),
           (''confirmed_at'', JStr (tp_confirmed_at p))]"

definition target_classification_proof_json :: "target_classification_proof \<Rightarrow> json" where
  "target_classification_proof_json p =
     JObj [(''schema_version'', JStr ''controlgraph.service-claim-target-classification-proof/v1''),
           (''target'', target_binding_json (cp_target p)), (''root_id'', JStr (cp_root_id p)),
           (''root_sha256'', JStr (cp_root_sha256 p)),
           (''classification'', JStr (target_classification_value (cp_classification p))),
           (''fenced_epoch'', JInt (cp_fenced_epoch p)),
           (''fenced_authority_revision'', JInt (cp_fenced_authority_revision p)),
           (''service_generation'', JInt (cp_service_generation p)),
           (''provider_etag'', JStr (cp_provider_etag p)),
           (''target_configuration_sha256'', JStr (cp_target_configuration_sha256 p)),
           (''evidence_id'', JStr (cp_evidence_id p)), (''evidence_sha256'', JStr (cp_evidence_sha256 p)),
           (''classified_by'', JStr (cp_classified_by p)), (''classified_at'', JStr (cp_classified_at p))]"

definition service_claim_json :: "service_claim \<Rightarrow> json" where
  "service_claim_json c =
     JObj [(''schema_version'', JStr SERVICE_CLAIM_V2), (''target'', target_binding_json (cl_target c)),
           (''root_id'', JStr (cl_root_id c)), (''root_sha256'', JStr (cl_root_sha256 c)),
           (''stable_revision'', JStr (cl_stable_revision c)),
           (''candidate_revision'', JStr (cl_candidate_revision c)),
           (''initial_epoch'', JInt (cl_initial_epoch c)),
           (''baseline_service_generation'', JInt (cl_baseline_service_generation c)),
           (''baseline_configuration_sha256'', JStr (cl_baseline_configuration_sha256 c)),
           (''baseline_revision_configuration_sha256'', JStr (cl_baseline_revision_configuration_sha256 c)),
           (''candidate_revision_configuration_sha256'', JStr (cl_candidate_revision_configuration_sha256 c)),
           (''stable_target_configuration_sha256'', JStr (cl_stable_target_configuration_sha256 c)),
           (''candidate_target_configuration_sha256'', JStr (cl_candidate_target_configuration_sha256 c)),
           (''operator_owner'', JStr (cl_operator_owner c)), (''workload_creator'', JStr (cl_workload_creator c)),
           (''terminal_release_condition'', JStr (cl_terminal_release_condition c)),
           (''status'', JStr (service_claim_status_value (cl_status c))),
           (''claim_request_id'', JStr (cl_claim_request_id c)),
           (''claim_evidence_id'', JStr (cl_claim_evidence_id c)), (''claimed_at'', JStr (cl_claimed_at c)),
           (''release_fence_epoch'', json_opt JInt (cl_release_fence_epoch c)),
           (''release_fence_authority_revision'', json_opt JInt (cl_release_fence_authority_revision c)),
           (''release_fenced_by'', json_opt JStr (cl_release_fenced_by c)),
           (''release_fence_request_id'', json_opt JStr (cl_release_fence_request_id c)),
           (''release_fence_evidence_id'', json_opt JStr (cl_release_fence_evidence_id c)),
           (''release_fenced_at'', json_opt JStr (cl_release_fenced_at c)),
           (''released_by'', json_opt JStr (cl_released_by c)),
           (''release_request_id'', json_opt JStr (cl_release_request_id c)),
           (''release_evidence_id'', json_opt JStr (cl_release_evidence_id c)),
           (''released_at'', json_opt JStr (cl_released_at c)),
           (''terminal_root_proof'', json_opt terminal_root_proof_json (cl_terminal_root_proof c)),
           (''target_classification_proof'',
              json_opt target_classification_proof_json (cl_target_classification_proof c))]"

definition service_claim_sha256 :: "hexdigest \<Rightarrow> service_claim \<Rightarrow> string result" where
  "service_claim_sha256 hexdigest c =
     or_raise_contract (contract_sha256 hexdigest SERVICE_CLAIM_V2 (service_claim_json c))"

section \<open>Two implementations of one signing input\<close>

text \<open>
  The contract recomputes what the evidence key signs exactly as the signer does: for a key version
  inside its project, the digests that a signed event must carry are those of the signer's input.
\<close>

theorem evidence_digests_are_the_signers:
  assumes "validate_signing_key key_version (tb_project_id (ev_target event)) ''evidence-signing'' = None"
  shows "hash_signing_input h SP_EVIDENCE key_version (EventPayload event)
      = Inr \<lparr>si_payload_sha256 = p, si_digest_sha256 = d\<rparr>
    \<longleftrightarrow> evidence_payload_sha256 h event = Inr p \<and> evidence_signing_input_sha256 h event key_version = Inr d"
  using assms
  by (auto simp: hash_signing_input_def signing_material_def evidence_payload_sha256_def signing_header_def
      evidence_signing_input_sha256_def bindS_def bindR_def or_raise_contract_def split: sum.splits)

end
