(* ===== verification/RootCreationRecords.thy ===== *)
theory RootCreationRecords
  imports SignedEvidence
begin

text \<open>
  The result of a root creation, \<open>contracts/root_creation.py\<close>: the request digest, the evidence subject,
  and \<open>RootCreationResultV1\<close>, whose V2 twin differs in the root it holds. The version of a result is that
  of its root.
\<close>

definition ROOT_CREATION_REQUEST_DOMAIN :: bytes where
  "ROOT_CREATION_REQUEST_DOMAIN = ascii_bytes ''controlgraph.root-creation-request-sha256/v1'' @ [0]"
definition ROOT_CREATION_EVIDENCE_SUBJECT_V1 :: string where
  "ROOT_CREATION_EVIDENCE_SUBJECT_V1 = ''controlgraph.root-creation-evidence-subject/v1''"

section \<open>The request\<close>

definition validate_request_projection :: "string \<Rightarrow> string \<Rightarrow> string \<Rightarrow> string \<Rightarrow> check" where
  "validate_request_projection request_id idempotency_key identity subject =
     checks
      [field ''request_id'' (is_identifier request_id),
       field ''idempotency_key'' (is_identifier idempotency_key),
       field ''operator_identity'' (is_bounded_text identity),
       field ''operator_subject'' (google_number subject),
       validate_operator_identity identity]"

definition root_creation_request_json ::
  "addressed_root \<Rightarrow> string \<Rightarrow> string \<Rightarrow> string \<Rightarrow> string \<Rightarrow> json" where
  "root_creation_request_json root request_id idempotency_key identity subject =
     JObj [(''idempotency_key'', JStr idempotency_key), (''operator_identity'', JStr identity),
           (''operator_subject'', JStr subject), (''request_id'', JStr request_id),
           (''root_id'', JStr (ad_root_id root)), (''root_sha256'', JStr (ad_root_sha256 root)),
           (''schema_version'', JStr ''controlgraph.root-creation-request/v1'')]"

definition root_creation_request_sha256 ::
  "hexdigest \<Rightarrow> addressed_root \<Rightarrow> string \<Rightarrow> string \<Rightarrow> string \<Rightarrow> string \<Rightarrow> string result" where
  "root_creation_request_sha256 hexdigest root request_id idempotency_key identity subject =
    (if validate_request_projection request_id idempotency_key identity subject \<noteq> None
     then Inl (ValueError ''root creation request identity is invalid'')
     else
       bindR (or_raise_contract (canonical_json_value_bytes
         (root_creation_request_json root request_id idempotency_key identity subject)))
       (\<lambda>encoded. Inr (hexdigest (ROOT_CREATION_REQUEST_DOMAIN @ encoded))))"

section \<open>Digests\<close>

definition lineage_anchor_json :: "lineage_anchor \<Rightarrow> json" where
  "lineage_anchor_json a =
     JObj [(''schema_version'', JStr CAPABILITY_LINEAGE_ANCHOR_V1), (''root_id'', JStr (la_root_id a)),
           (''root_sha256'', JStr (la_root_sha256 a)), (''target'', target_binding_json (la_target a)),
           (''stable_snapshot_sha256'', JStr (la_stable_snapshot_sha256 a)),
           (''stable_revision'', JStr (la_stable_revision a)),
           (''stable_revision_configuration_sha256'', JStr (la_stable_revision_configuration_sha256 a)),
           (''candidate_revision'', JStr (la_candidate_revision a)),
           (''candidate_revision_configuration_sha256'', JStr (la_candidate_revision_configuration_sha256 a)),
           (''plan_sha256'', JStr (la_plan_sha256 a)),
           (''health_policy_sha256'', JStr (la_health_policy_sha256 a)),
           (''authority_bounds_sha256'', JStr (la_authority_bounds_sha256 a)), (''initial_epoch'', JInt 1)]"

definition lineage_anchor_sha256 :: "hexdigest \<Rightarrow> lineage_anchor \<Rightarrow> string result" where
  "lineage_anchor_sha256 hexdigest a =
     or_raise_contract (contract_sha256 hexdigest CAPABILITY_LINEAGE_ANCHOR_V1 (lineage_anchor_json a))"

definition lineage_anchor_logical_id :: "hexdigest \<Rightarrow> lineage_anchor \<Rightarrow> string result" where
  "lineage_anchor_logical_id hexdigest a =
     bindR (lineage_anchor_sha256 hexdigest a) (\<lambda>sha. Inr (''cganchor:'' @ sha))"

definition target_binding_sha256 :: "hexdigest \<Rightarrow> target_binding \<Rightarrow> string result" where
  "target_binding_sha256 hexdigest t =
     or_raise_contract (contract_sha256 hexdigest TARGET_BINDING_V1 (target_binding_json t))"

record creation_subject =
  cs_root_id :: string
  cs_root_sha256 :: string
  cs_request_sha256 :: string
  cs_created_at :: string
  cs_service_claim_id :: string
  cs_service_claim_sha256 :: string
  cs_authority_id :: string
  cs_authority_sha256 :: string
  cs_lineage_anchor_id :: string
  cs_lineage_anchor_sha256 :: string
  cs_evidence_id :: string

definition validate_creation_subject :: "creation_subject \<Rightarrow> check" where
  "validate_creation_subject s =
     checks
      [field ''root_id'' (is_identifier (cs_root_id s)),
       field ''root_sha256'' (is_sha256 (cs_root_sha256 s)),
       field ''request_sha256'' (is_sha256 (cs_request_sha256 s)),
       field ''created_at'' (is_utc_second (cs_created_at s)),
       field ''service_claim_id'' (is_identifier (cs_service_claim_id s)),
       field ''service_claim_sha256'' (is_sha256 (cs_service_claim_sha256 s)),
       field ''authority_id'' (is_identifier (cs_authority_id s)),
       field ''authority_sha256'' (is_sha256 (cs_authority_sha256 s)),
       field ''lineage_anchor_id'' (is_identifier (cs_lineage_anchor_id s)),
       field ''lineage_anchor_sha256'' (is_sha256 (cs_lineage_anchor_sha256 s)),
       field ''evidence_id'' (is_identifier (cs_evidence_id s))]"

definition creation_subject_json :: "creation_subject \<Rightarrow> json" where
  "creation_subject_json s =
     JObj [(''schema_version'', JStr ROOT_CREATION_EVIDENCE_SUBJECT_V1), (''root_id'', JStr (cs_root_id s)),
           (''root_sha256'', JStr (cs_root_sha256 s)), (''request_sha256'', JStr (cs_request_sha256 s)),
           (''created_at'', JStr (cs_created_at s)), (''service_claim_id'', JStr (cs_service_claim_id s)),
           (''service_claim_sha256'', JStr (cs_service_claim_sha256 s)),
           (''authority_id'', JStr (cs_authority_id s)), (''authority_sha256'', JStr (cs_authority_sha256 s)),
           (''lineage_anchor_id'', JStr (cs_lineage_anchor_id s)),
           (''lineage_anchor_sha256'', JStr (cs_lineage_anchor_sha256 s)),
           (''evidence_id'', JStr (cs_evidence_id s))]"

definition creation_subject_sha256 :: "hexdigest \<Rightarrow> creation_subject \<Rightarrow> string result" where
  "creation_subject_sha256 hexdigest s =
     or_raise_contract (contract_sha256 hexdigest ROOT_CREATION_EVIDENCE_SUBJECT_V1 (creation_subject_json s))"

section \<open>The result\<close>

datatype creation_outcome = CREATED | ADOPTED

record root_creation_result =
  wr_outcome :: creation_outcome
  wr_request_id :: string
  wr_idempotency_key :: string
  wr_operator_identity :: string
  wr_operator_subject :: string
  wr_request_sha256 :: string
  wr_created_at :: string
  wr_winner_request_id :: string
  wr_winner_idempotency_key :: string
  wr_winner_operator_identity :: string
  wr_winner_operator_subject :: string
  wr_winner_request_sha256 :: string
  wr_winner_service_claim_id :: string
  wr_winner_service_claim_sha256 :: string
  wr_winner_authority_id :: string
  wr_winner_authority_sha256 :: string
  wr_winner_lineage_anchor_id :: string
  wr_winner_lineage_anchor_sha256 :: string
  wr_winner_evidence_id :: string
  wr_winner_evidence_sha256 :: string
  wr_root :: addressed_root
  wr_initial_authority :: epoch_authority_record
  wr_lineage_anchor :: lineage_anchor
  wr_evidence_subject :: creation_subject
  wr_signed_evidence :: signed_evidence_event

definition validate_creation_fields :: "root_creation_result \<Rightarrow> check" where
  "validate_creation_fields r =
     checks
      [field ''request_id'' (is_identifier (wr_request_id r)),
       field ''idempotency_key'' (is_identifier (wr_idempotency_key r)),
       field ''operator_identity'' (is_bounded_text (wr_operator_identity r)),
       field ''operator_subject'' (google_number (wr_operator_subject r)),
       field ''request_sha256'' (is_sha256 (wr_request_sha256 r)),
       field ''created_at'' (is_utc_second (wr_created_at r)),
       field ''winner_request_id'' (is_identifier (wr_winner_request_id r)),
       field ''winner_idempotency_key'' (is_identifier (wr_winner_idempotency_key r)),
       field ''winner_operator_identity'' (is_bounded_text (wr_winner_operator_identity r)),
       field ''winner_operator_subject'' (google_number (wr_winner_operator_subject r)),
       field ''winner_request_sha256'' (is_sha256 (wr_winner_request_sha256 r)),
       field ''winner_service_claim_id'' (is_identifier (wr_winner_service_claim_id r)),
       field ''winner_service_claim_sha256'' (is_sha256 (wr_winner_service_claim_sha256 r)),
       field ''winner_authority_id'' (is_identifier (wr_winner_authority_id r)),
       field ''winner_authority_sha256'' (is_sha256 (wr_winner_authority_sha256 r)),
       field ''winner_lineage_anchor_id'' (is_identifier (wr_winner_lineage_anchor_id r)),
       field ''winner_lineage_anchor_sha256'' (is_sha256 (wr_winner_lineage_anchor_sha256 r)),
       field ''winner_evidence_id'' (is_identifier (wr_winner_evidence_id r)),
       field ''winner_evidence_sha256'' (is_sha256 (wr_winner_evidence_sha256 r))]"

text \<open>The conjunctions of \<open>validate_deterministic_winner\<close>; the initial epoch of a plan is the literal 1.\<close>

definition creation_event_matches :: "root_creation_result \<Rightarrow> string \<Rightarrow> bool" where
  "creation_event_matches r subject_sha \<longleftrightarrow>
    (let event = se_event (wr_signed_evidence r); root = wr_root r; content = ad_content root in
     rc_approved_at content \<le> wr_created_at r \<and> ev_occurred_at event = wr_created_at r
     \<and> ev_kind event = EK_ROOT_CREATED \<and> ev_sequence event = 0 \<and> ev_previous_event_sha256 event = None
     \<and> ev_root_id event = ad_root_id root \<and> ev_root_sha256 event = ad_root_sha256 root
     \<and> ev_target event = rc_target content \<and> ev_epoch event = 1
     \<and> ev_actor event = wr_winner_operator_identity r \<and> ev_request_id event = Some (wr_winner_request_id r)
     \<and> ev_receipt_id event = None \<and> ev_reason_code event = None \<and> ev_provider_operation event = None
     \<and> ev_target_configuration_sha256 event = Some (ss_configuration_sha256 (rc_stable_snapshot content))
     \<and> ev_subject_sha256 event = subject_sha
     \<and> se_signing_key_version (wr_signed_evidence r) = rc_evidence_signing_key_version content)"

definition initial_authority_matches :: "root_creation_result \<Rightarrow> bool" where
  "initial_authority_matches r \<longleftrightarrow>
    (let a = wr_initial_authority r; root = wr_root r in
     au_root_id a = ad_root_id root \<and> au_root_sha256 a = ad_root_sha256 root
     \<and> au_target a = rc_target (ad_content root)
     \<and> au_current_epoch a = 1
     \<and> au_previous_epoch a = None \<and> au_revision a = 0 \<and> au_cause a = EC_ROOT_CREATED
     \<and> au_changed_by a = wr_winner_operator_identity r \<and> au_request_id a = wr_winner_request_id r
     \<and> au_evidence_id a = ev_evidence_id (se_event (wr_signed_evidence r))
     \<and> au_changed_at a = wr_created_at r)"

definition expected_creation_subject :: "root_creation_result \<Rightarrow> string \<Rightarrow> creation_subject" where
  "expected_creation_subject r request_sha =
     \<lparr>cs_root_id = ad_root_id (wr_root r), cs_root_sha256 = ad_root_sha256 (wr_root r),
      cs_request_sha256 = request_sha, cs_created_at = wr_created_at r,
      cs_service_claim_id = wr_winner_service_claim_id r,
      cs_service_claim_sha256 = wr_winner_service_claim_sha256 r,
      cs_authority_id = wr_winner_authority_id r, cs_authority_sha256 = wr_winner_authority_sha256 r,
      cs_lineage_anchor_id = wr_winner_lineage_anchor_id r,
      cs_lineage_anchor_sha256 = wr_winner_lineage_anchor_sha256 r,
      cs_evidence_id = wr_winner_evidence_id r\<rparr>"

definition artifact_identities_match ::
  "root_creation_result \<Rightarrow> string \<Rightarrow> string \<Rightarrow> string \<Rightarrow> string \<Rightarrow> string \<Rightarrow> bool" where
  "artifact_identities_match r request_sha claim_id anchor_sha authority_sha evidence_sha \<longleftrightarrow>
     wr_winner_service_claim_id r = claim_id \<and> wr_winner_authority_id r = ad_root_id (wr_root r)
     \<and> wr_winner_authority_sha256 r = authority_sha \<and> wr_winner_lineage_anchor_id r = ''cganchor:'' @ anchor_sha
     \<and> wr_winner_lineage_anchor_sha256 r = anchor_sha
     \<and> wr_winner_evidence_id r = ev_evidence_id (se_event (wr_signed_evidence r))
     \<and> wr_winner_evidence_sha256 r = evidence_sha
     \<and> wr_evidence_subject r = expected_creation_subject r request_sha"

definition winner_is_exact :: "root_creation_result \<Rightarrow> bool" where
  "winner_is_exact r \<longleftrightarrow>
     wr_request_id r = wr_winner_request_id r \<and> wr_idempotency_key r = wr_winner_idempotency_key r
     \<and> wr_operator_identity r = wr_winner_operator_identity r
     \<and> wr_operator_subject r = wr_winner_operator_subject r
     \<and> wr_winner_operator_identity r = rc_approved_by (ad_content (wr_root r))
     \<and> wr_winner_operator_subject r = rc_approved_by_subject (ad_content (wr_root r))"

definition validate_deterministic_winner :: "hexdigest \<Rightarrow> root_creation_result \<Rightarrow> unit result" where
  "validate_deterministic_winner hexdigest r =
     bindR (construct (\<lambda>r. checks
       [validate_operator_identity (wr_operator_identity r),
        validate_operator_identity (wr_winner_operator_identity r),
        fails_if (\<not> winner_is_exact r)
          (ValueError ''root creation may adopt only the exact winning request'')]) r) (\<lambda>_.
     bindR (root_creation_request_sha256 hexdigest (wr_root r) (wr_request_id r) (wr_idempotency_key r)
       (wr_operator_identity r) (wr_operator_subject r)) (\<lambda>request_sha.
     if wr_request_sha256 r \<noteq> request_sha \<or> wr_winner_request_sha256 r \<noteq> request_sha
     then Inl (ValueError ''root creation request digest does not match the winner'')
     else
       bindR (or_raise_contract (capability_lineage_anchor hexdigest (wr_root r))) (\<lambda>anchor.
       if wr_lineage_anchor r \<noteq> anchor
       then Inl (ValueError ''root creation lineage anchor does not match the root'')
       else
         bindR (lineage_anchor_sha256 hexdigest (wr_lineage_anchor r)) (\<lambda>anchor_sha.
         bindR (epoch_authority_sha256 hexdigest (wr_initial_authority r)) (\<lambda>authority_sha.
         bindR (signed_evidence_sha256 hexdigest (wr_signed_evidence r)) (\<lambda>evidence_sha.
         bindR (creation_subject_sha256 hexdigest (wr_evidence_subject r)) (\<lambda>subject_sha.
         if \<not> creation_event_matches r subject_sha
         then Inl (ValueError ''root creation evidence does not match the winning root'')
         else if \<not> initial_authority_matches r
         then Inl (ValueError ''initial authority does not match the winning root'')
         else
           bindR (target_binding_sha256 hexdigest (rc_target (ad_content (wr_root r)))) (\<lambda>claim_id.
           if \<not> artifact_identities_match r request_sha claim_id anchor_sha authority_sha evidence_sha
           then Inl (ValueError ''root creation artifact identity or digest does not match'')
           else Inr ()))))))))"

definition validate_root_creation_result :: "hexdigest \<Rightarrow> root_creation_result \<Rightarrow> check" where
  "validate_root_creation_result hexdigest r =
     checks
      [validate_creation_fields r,
       validate_addressed_root hexdigest (wr_root r),
       validate_authority_record (wr_initial_authority r),
       validate_creation_subject (wr_evidence_subject r),
       validate_signed_evidence hexdigest (wr_signed_evidence r),
       (case validate_deterministic_winner hexdigest r of Inl e \<Rightarrow> Some e | Inr _ \<Rightarrow> None)]"

text \<open>The bundle of a created root, \<open>RootCreationBundle\<close>: six stored records.\<close>

record root_creation_bundle = root_bundle +
  bu_signed_evidence :: "signed_evidence_event stored_record"
  bu_creation_result :: "root_creation_result stored_record"

end
