(* ===== verification/EvidenceChain.thy ===== *)
theory EvidenceChain
  imports RootCreationRecords
begin

text \<open>
  The head of a root's evidence chain: its contract in \<open>contracts/evidence.py\<close> and its inspection in
  \<open>application/evidence_chain.py\<close>.
\<close>

section \<open>The chain head\<close>

record evidence_chain_head =
  hd_root_id :: string
  hd_root_sha256 :: string
  hd_target :: target_binding
  hd_sequence :: int
  hd_evidence_id :: string
  hd_evidence_sha256 :: string
  hd_kind :: evidence_kind
  hd_epoch :: int
  hd_updated_at :: string

definition validate_head :: "evidence_chain_head \<Rightarrow> check" where
  "validate_head h =
     checks
      [fails_if ((hd_sequence h = 0) \<noteq> (hd_kind h = EK_ROOT_CREATED))
         (ValueError ''only sequence-zero evidence can identify root creation''),
       fails_if (hd_sequence h = 0 \<and> hd_epoch h \<noteq> 1)
         (ValueError ''sequence-zero evidence head must identify epoch one'')]"

definition validate_evidence_chain_head :: "evidence_chain_head \<Rightarrow> check" where
  "validate_evidence_chain_head h =
     checks
      [field ''root_id'' (is_identifier (hd_root_id h)),
       field ''root_sha256'' (is_sha256 (hd_root_sha256 h)),
       validate_target_binding (hd_target h),
       field ''sequence'' (nonneg_safe_integer (hd_sequence h)),
       field ''evidence_id'' (is_identifier (hd_evidence_id h)),
       field ''evidence_sha256'' (is_sha256 (hd_evidence_sha256 h)),
       field ''epoch'' (positive_safe_integer (hd_epoch h)),
       field ''updated_at'' (is_utc_second (hd_updated_at h)),
       validate_head h]"

definition chain_bootstraps ::
  "target_binding \<Rightarrow> addressed_root \<Rightarrow> epoch_authority_record \<Rightarrow> signed_evidence_event \<Rightarrow> bool" where
  "chain_bootstraps target root auth root_evidence \<longleftrightarrow>
    (let event = se_event root_evidence in
     au_revision auth = 0 \<and> au_current_epoch auth = 1
     \<and> ev_sequence event = 0 \<and> ev_kind event = EK_ROOT_CREATED \<and> ev_previous_event_sha256 event = None
     \<and> ev_evidence_id event = au_evidence_id auth \<and> ev_root_id event = ad_root_id root
     \<and> ev_root_sha256 event = ad_root_sha256 root \<and> ev_target event = target \<and> ev_epoch event = 1
     \<and> ev_request_id event = Some (au_request_id auth) \<and> ev_occurred_at event = au_changed_at auth
     \<and> se_signing_key_version root_evidence = rc_evidence_signing_key_version (ad_content root))"

definition head_matches_event ::
  "target_binding \<Rightarrow> addressed_root \<Rightarrow> epoch_authority_record \<Rightarrow> evidence_chain_head
    \<Rightarrow> signed_evidence_event \<Rightarrow> string \<Rightarrow> bool" where
  "head_matches_event target root auth head s digest \<longleftrightarrow>
    (let event = se_event s in
     hd_root_id head = ad_root_id root \<and> hd_root_sha256 head = ad_root_sha256 root \<and> hd_target head = target
     \<and> au_revision auth \<le> hd_sequence head
     \<and> (hd_kind head = EK_EPOCH_ADVANCED \<longrightarrow> hd_evidence_id head = au_evidence_id auth)
     \<and> hd_epoch head = au_current_epoch auth \<and> au_changed_at auth \<le> hd_updated_at head
     \<and> hd_evidence_sha256 head = digest \<and> ev_evidence_id event = hd_evidence_id head
     \<and> ev_sequence event = hd_sequence head \<and> ev_root_id event = hd_root_id head
     \<and> ev_root_sha256 event = hd_root_sha256 head \<and> ev_target event = hd_target head
     \<and> ev_epoch event = hd_epoch head \<and> ev_kind event = hd_kind head
     \<and> ev_occurred_at event = hd_updated_at head
     \<and> se_signing_key_version s = rc_evidence_signing_key_version (ad_content root))"

definition current_evidence_chain_head ::
  "hexdigest \<Rightarrow> root_creation_bundle \<Rightarrow> target_binding \<Rightarrow> evidence_chain_head stored_record option
    \<Rightarrow> signed_evidence_event stored_record option \<Rightarrow> evidence_chain_head result" where
  "current_evidence_chain_head hexdigest bundle target stored_head head_evidence =
    (let root = sr_value (bu_root bundle); auth = sr_value (bu_authority bundle);
         root_evidence = sr_value (bu_signed_evidence bundle); event = se_event root_evidence in
     case stored_head of
       None \<Rightarrow>
         (if head_evidence \<noteq> None \<or> \<not> chain_bootstraps target root auth root_evidence
          then Inl (ValueError ''evidence head cannot be bootstrapped'')
          else
            bindR (signed_evidence_sha256 hexdigest root_evidence)
            (\<lambda>digest. construct validate_evidence_chain_head
              \<lparr>hd_root_id = ev_root_id event, hd_root_sha256 = ev_root_sha256 event,
               hd_target = ev_target event, hd_sequence = 0, hd_evidence_id = ev_evidence_id event,
               hd_evidence_sha256 = digest, hd_kind = ev_kind event, hd_epoch = ev_epoch event,
               hd_updated_at = ev_occurred_at event\<rparr>))
     | Some stored \<Rightarrow>
         (case head_evidence of
            None \<Rightarrow> Inl (ValueError ''evidence head record is invalid'')
          | Some evidence \<Rightarrow>
              (if sr_revision stored \<noteq> hd_sequence (sr_value stored) \<or> sr_revision evidence \<noteq> 0
               then Inl (ValueError ''evidence head record is invalid'')
               else
                 bindR (signed_evidence_sha256 hexdigest (sr_value evidence))
                 (\<lambda>digest.
                   if \<not> head_matches_event target root auth (sr_value stored) (sr_value evidence) digest
                   then Inl (ValueError ''evidence head does not match its immutable event'')
                   else Inr (sr_value stored)))))"

end
