(* ===== verification/RevocationRecords.thy ===== *)
theory RevocationRecords
  imports EvidenceChain
begin

text \<open>
  The contracts of manual epoch revocation, \<open>contracts/revocation.py\<close>: command, invocation, evidence
  subject, reserved identities, result, audit, the bundle of one commit, and the proof an operator can
  fetch. Schema versions and confirmations are literals and are not fields.
\<close>

section \<open>Constants\<close>

definition EPOCH_REVOCATION_EVIDENCE_SUBJECT_V1 :: string where
  "EPOCH_REVOCATION_EVIDENCE_SUBJECT_V1 = ''controlgraph.epoch-revocation-evidence-subject/v1''"
definition REVOCATION_REQUEST_DIGEST_DOMAIN :: bytes where
  "REVOCATION_REQUEST_DIGEST_DOMAIN = ascii_bytes ''controlgraph.epoch-revocation-request-sha256/v1'' @ [0]"
definition REVOCATION_EVIDENCE_ID_DOMAIN :: bytes where
  "REVOCATION_EVIDENCE_ID_DOMAIN = ascii_bytes ''controlgraph.epoch-revocation-evidence-id/v1'' @ [0]"

datatype revocation_identity_kind = RI_REQUEST | RI_IDEMPOTENCY | RI_EPOCH

datatype revocation_audit_outcome = RA_COMMITTED | RA_ADOPTED | RA_DENIED

datatype revocation_failure_code =
    RF_CALLER_DENIED | RF_COMMAND_DENIED | RF_ROOT_NOT_FOUND | RF_ROOT_MISMATCH | RF_ACTIVE_CLAIM_REQUIRED
  | RF_EPOCH_MISMATCH | RF_IDENTITY_CONFLICT | RF_TRUSTED_STATE_INVALID | RF_EVIDENCE_DENIED
  | RF_STORE_UNAVAILABLE | RF_OUTCOME_UNKNOWN | RF_PROOF_DENIED

section \<open>Command and invocation\<close>

record revocation_command =
  vk_root_id :: string
  vk_expected_root_sha256 :: string
  vk_expected_epoch :: int
  vk_reason :: string
  vk_request_id :: string
  vk_idempotency_key :: string

definition validate_revocation_command :: "revocation_command \<Rightarrow> check" where
  "validate_revocation_command c =
     checks
      [field ''root_id'' (is_identifier (vk_root_id c)),
       field ''expected_root_sha256'' (is_sha256 (vk_expected_root_sha256 c)),
       field ''expected_epoch'' (positive_safe_integer (vk_expected_epoch c)),
       field ''reason'' (is_short_text (vk_reason c)),
       fails_if (vk_reason c \<noteq> py_strip (vk_reason c))
         (ValueError ''revocation reason must be exact non-whitespace text''),
       field ''request_id'' (is_identifier (vk_request_id c)),
       field ''idempotency_key'' (is_identifier (vk_idempotency_key c)),
       fails_if (vk_root_id c \<noteq> ''cgroot:'' @ vk_expected_root_sha256 c)
         (ValueError ''revocation root identifier and digest do not match'')]"

record revocation_invocation =
  vi_command :: revocation_command
  vi_attempt_id :: string
  vi_operator_identity :: string
  vi_operator_subject :: string
  vi_operator_issuer :: string
  vi_operator_audience :: string
  vi_operator_issued_at :: int
  vi_operator_expires_at :: int

definition is_api_audience :: "string \<Rightarrow> bool" where
  "is_api_audience s \<longleftrightarrow> starts_with ''https://'' s \<and> service_hostname ''controlgraph-api'' (drop 8 s)"

text \<open>The operator facts of an invocation; the proof invocation repeats them.\<close>

definition operator_facts_hold :: "string \<Rightarrow> string \<Rightarrow> int \<Rightarrow> int \<Rightarrow> bool" where
  "operator_facts_hold identity audience issued expires \<longleftrightarrow>
     is_email identity \<and> \<not> ends_with ''.iam.gserviceaccount.com'' identity \<and> is_api_audience audience
     \<and> issued < expires \<and> expires - issued \<le> 3660"

definition validate_revocation_invocation :: "revocation_invocation \<Rightarrow> check" where
  "validate_revocation_invocation i =
     checks
      [validate_revocation_command (vi_command i),
       field ''attempt_id'' (is_identifier (vi_attempt_id i)),
       field ''operator_identity'' (is_bounded_text (vi_operator_identity i)),
       field ''operator_subject'' (google_number (vi_operator_subject i)),
       field ''operator_issuer''
         (vi_operator_issuer i \<in> {''accounts.google.com'', ''https://accounts.google.com''}),
       field ''operator_audience'' (is_audience_text (vi_operator_audience i)),
       field ''operator_issued_at'' (positive_safe_integer (vi_operator_issued_at i)),
       field ''operator_expires_at'' (positive_safe_integer (vi_operator_expires_at i)),
       fails_if (\<not> operator_facts_hold (vi_operator_identity i) (vi_operator_audience i)
           (vi_operator_issued_at i) (vi_operator_expires_at i))
         (ValueError ''revocation invocation operator binding is invalid'')]"

section \<open>Digests and identities\<close>

definition revocation_request_json :: "revocation_command \<Rightarrow> string \<Rightarrow> string \<Rightarrow> json" where
  "revocation_request_json c identity subject =
     JObj [(''confirmation'', JStr ''REVOKE''), (''expected_epoch'', JInt (vk_expected_epoch c)),
           (''expected_root_sha256'', JStr (vk_expected_root_sha256 c)),
           (''idempotency_key'', JStr (vk_idempotency_key c)), (''operator_identity'', JStr identity),
           (''operator_subject'', JStr subject), (''reason'', JStr (vk_reason c)),
           (''request_id'', JStr (vk_request_id c)), (''root_id'', JStr (vk_root_id c)),
           (''schema_version'', JStr ''controlgraph.epoch-revocation-request/v1'')]"

definition revocation_request_digest :: "hexdigest \<Rightarrow> revocation_command \<Rightarrow> string \<Rightarrow> string \<Rightarrow> string result" where
  "revocation_request_digest hexdigest c identity subject =
     bindR (or_raise_contract (canonical_json_value_bytes (revocation_request_json c identity subject)))
     (\<lambda>encoded. Inr (hexdigest (REVOCATION_REQUEST_DIGEST_DOMAIN @ encoded)))"

definition epoch_revocation_request_sha256 :: "hexdigest \<Rightarrow> revocation_invocation \<Rightarrow> string result" where
  "epoch_revocation_request_sha256 hexdigest i =
     revocation_request_digest hexdigest (vi_command i) (vi_operator_identity i) (vi_operator_subject i)"

definition epoch_revocation_evidence_id :: "hexdigest \<Rightarrow> string \<Rightarrow> string \<Rightarrow> int \<Rightarrow> string result" where
  "epoch_revocation_evidence_id hexdigest request_sha root_sha new_epoch =
    (if is_sha256 request_sha \<and> is_sha256 root_sha \<and> 1 \<le> new_epoch \<and> new_epoch \<le> MAX_SAFE_INTEGER
     then Inr (''cgevidence:'' @ hexdigest (REVOCATION_EVIDENCE_ID_DOMAIN @ ascii_bytes request_sha @ [0]
            @ ascii_bytes root_sha @ [0] @ ascii_bytes (show_int new_epoch)))
     else Inl (ValueError ''revocation evidence identity input is invalid''))"

definition revocation_result_id :: "string \<Rightarrow> string" where
  "revocation_result_id request_sha = ''cgrevoke:'' @ request_sha"

section \<open>Evidence subject\<close>

record revocation_subject =
  vs_root_id :: string
  vs_root_sha256 :: string
  vs_request_sha256 :: string
  vs_request_id :: string
  vs_idempotency_key :: string
  vs_operator_identity :: string
  vs_operator_subject :: string
  vs_reason :: string
  vs_service_claim_sha256 :: string
  vs_previous_authority_sha256 :: string
  vs_replacement_authority_sha256 :: string
  vs_previous_epoch :: int
  vs_new_epoch :: int
  vs_evidence_id :: string
  vs_committed_at :: string

definition validate_revocation_subject :: "revocation_subject \<Rightarrow> check" where
  "validate_revocation_subject s =
     checks
      [field ''root_id'' (is_identifier (vs_root_id s)),
       field ''root_sha256'' (is_sha256 (vs_root_sha256 s)),
       field ''request_sha256'' (is_sha256 (vs_request_sha256 s)),
       field ''request_id'' (is_identifier (vs_request_id s)),
       field ''idempotency_key'' (is_identifier (vs_idempotency_key s)),
       field ''operator_identity'' (is_bounded_text (vs_operator_identity s)),
       field ''operator_subject'' (google_number (vs_operator_subject s)),
       field ''reason'' (is_short_text (vs_reason s)),
       field ''service_claim_sha256'' (is_sha256 (vs_service_claim_sha256 s)),
       field ''previous_authority_sha256'' (is_sha256 (vs_previous_authority_sha256 s)),
       field ''replacement_authority_sha256'' (is_sha256 (vs_replacement_authority_sha256 s)),
       field ''previous_epoch'' (positive_safe_integer (vs_previous_epoch s)),
       field ''new_epoch'' (positive_safe_integer (vs_new_epoch s)),
       field ''evidence_id'' (is_identifier (vs_evidence_id s)),
       field ''committed_at'' (is_utc_second (vs_committed_at s)),
       fails_if (vs_new_epoch s \<noteq> vs_previous_epoch s + 1)
         (ValueError ''revocation evidence must advance exactly one epoch'')]"

definition revocation_subject_json :: "revocation_subject \<Rightarrow> json" where
  "revocation_subject_json s =
     JObj [(''schema_version'', JStr EPOCH_REVOCATION_EVIDENCE_SUBJECT_V1), (''root_id'', JStr (vs_root_id s)),
           (''root_sha256'', JStr (vs_root_sha256 s)), (''request_sha256'', JStr (vs_request_sha256 s)),
           (''request_id'', JStr (vs_request_id s)), (''idempotency_key'', JStr (vs_idempotency_key s)),
           (''operator_identity'', JStr (vs_operator_identity s)),
           (''operator_subject'', JStr (vs_operator_subject s)), (''reason'', JStr (vs_reason s)),
           (''service_claim_sha256'', JStr (vs_service_claim_sha256 s)),
           (''previous_authority_sha256'', JStr (vs_previous_authority_sha256 s)),
           (''replacement_authority_sha256'', JStr (vs_replacement_authority_sha256 s)),
           (''previous_epoch'', JInt (vs_previous_epoch s)), (''new_epoch'', JInt (vs_new_epoch s)),
           (''evidence_id'', JStr (vs_evidence_id s)), (''committed_at'', JStr (vs_committed_at s))]"

definition revocation_subject_sha256 :: "hexdigest \<Rightarrow> revocation_subject \<Rightarrow> string result" where
  "revocation_subject_sha256 hexdigest s =
     or_raise_contract (contract_sha256 hexdigest EPOCH_REVOCATION_EVIDENCE_SUBJECT_V1 (revocation_subject_json s))"

section \<open>Identity, result and audit\<close>

record revocation_identity =
  vd_kind :: revocation_identity_kind
  vd_value :: string
  vd_root_id :: string
  vd_root_sha256 :: string
  vd_request_sha256 :: string
  vd_result_id :: string
  vd_claimed_at :: string

definition validate_revocation_identity :: "revocation_identity \<Rightarrow> check" where
  "validate_revocation_identity d =
     checks
      [field ''identity_value'' (is_identifier (vd_value d)),
       field ''root_id'' (is_identifier (vd_root_id d)),
       field ''root_sha256'' (is_sha256 (vd_root_sha256 d)),
       field ''request_sha256'' (is_sha256 (vd_request_sha256 d)),
       field ''result_id'' (is_identifier (vd_result_id d)),
       field ''claimed_at'' (is_utc_second (vd_claimed_at d))]"

record revocation_result =
  vr_result_id :: string
  vr_request_sha256 :: string
  vr_request_id :: string
  vr_idempotency_key :: string
  vr_root_id :: string
  vr_root_sha256 :: string
  vr_target :: target_binding
  vr_operator_identity :: string
  vr_operator_subject :: string
  vr_reason :: string
  vr_previous_epoch :: int
  vr_new_epoch :: int
  vr_evidence_id :: string
  vr_evidence_sha256 :: string
  vr_evidence_subject :: revocation_subject
  vr_committed_at :: string

definition validate_result_fields :: "revocation_result \<Rightarrow> check" where
  "validate_result_fields r =
     checks
      [field ''result_id'' (is_identifier (vr_result_id r)),
       field ''request_sha256'' (is_sha256 (vr_request_sha256 r)),
       field ''request_id'' (is_identifier (vr_request_id r)),
       field ''idempotency_key'' (is_identifier (vr_idempotency_key r)),
       field ''root_id'' (is_identifier (vr_root_id r)),
       field ''root_sha256'' (is_sha256 (vr_root_sha256 r)),
       validate_target_binding (vr_target r),
       field ''operator_identity'' (is_bounded_text (vr_operator_identity r)),
       field ''operator_subject'' (google_number (vr_operator_subject r)),
       field ''reason'' (is_short_text (vr_reason r)),
       field ''previous_epoch'' (positive_safe_integer (vr_previous_epoch r)),
       field ''new_epoch'' (positive_safe_integer (vr_new_epoch r)),
       field ''evidence_id'' (is_identifier (vr_evidence_id r)),
       field ''evidence_sha256'' (is_sha256 (vr_evidence_sha256 r)),
       validate_revocation_subject (vr_evidence_subject r),
       field ''committed_at'' (is_utc_second (vr_committed_at r))]"

definition subject_matches_result :: "revocation_result \<Rightarrow> bool" where
  "subject_matches_result r \<longleftrightarrow>
    (let s = vr_evidence_subject r in
     vs_root_id s = vr_root_id r \<and> vs_root_sha256 s = vr_root_sha256 r
     \<and> vs_request_sha256 s = vr_request_sha256 r \<and> vs_request_id s = vr_request_id r
     \<and> vs_idempotency_key s = vr_idempotency_key r \<and> vs_operator_identity s = vr_operator_identity r
     \<and> vs_operator_subject s = vr_operator_subject r \<and> vs_reason s = vr_reason r
     \<and> vs_previous_epoch s = vr_previous_epoch r \<and> vs_new_epoch s = vr_new_epoch r
     \<and> vs_evidence_id s = vr_evidence_id r \<and> vs_committed_at s = vr_committed_at r)"

definition validate_revocation_result :: "hexdigest \<Rightarrow> revocation_result \<Rightarrow> check" where
  "validate_revocation_result hexdigest r =
     checks
      [validate_result_fields r,
       fails_if
         (vr_root_id r \<noteq> ''cgroot:'' @ vr_root_sha256 r \<or> vr_new_epoch r \<noteq> vr_previous_epoch r + 1
          \<or> vr_result_id r \<noteq> revocation_result_id (vr_request_sha256 r))
         (ValueError ''revocation result identity or transition is invalid''),
       (case epoch_revocation_evidence_id hexdigest (vr_request_sha256 r) (vr_root_sha256 r) (vr_new_epoch r) of
          Inl e \<Rightarrow> Some e
        | Inr evidence_id \<Rightarrow>
            fails_if (vr_evidence_id r \<noteq> evidence_id \<or> \<not> subject_matches_result r)
              (ValueError ''revocation result identity or transition is invalid''))]"

record revocation_audit =
  va_audit_id :: string
  va_attempt_id :: string
  va_request_sha256 :: string
  va_root_id :: string
  va_root_sha256 :: string
  va_expected_epoch :: int
  va_request_id :: string
  va_idempotency_key :: string
  va_operator_identity :: string
  va_operator_subject :: string
  va_outcome :: revocation_audit_outcome
  va_failure_code :: "revocation_failure_code option"
  va_result_id :: "string option"
  va_evidence_id :: "string option"
  va_new_epoch :: "int option"
  va_recorded_at :: string

definition validate_audit_outcome :: "revocation_audit \<Rightarrow> check" where
  "validate_audit_outcome a =
    (if va_outcome a = RA_DENIED
     then fails_if (va_failure_code a = None \<or> va_result_id a \<noteq> None \<or> va_evidence_id a \<noteq> None
              \<or> va_new_epoch a \<noteq> None)
            (ValueError ''denied revocation audit shape is invalid'')
     else fails_if (va_failure_code a \<noteq> None \<or> va_result_id a = None \<or> va_evidence_id a = None
              \<or> va_new_epoch a = None)
            (ValueError ''successful revocation audit shape is invalid''))"

definition validate_revocation_audit :: "revocation_audit \<Rightarrow> check" where
  "validate_revocation_audit a =
     checks
      [field ''audit_id'' (is_identifier (va_audit_id a)),
       field ''attempt_id'' (is_identifier (va_attempt_id a)),
       field ''request_sha256'' (is_sha256 (va_request_sha256 a)),
       field ''root_id'' (is_identifier (va_root_id a)),
       field ''root_sha256'' (is_sha256 (va_root_sha256 a)),
       field ''expected_epoch'' (positive_safe_integer (va_expected_epoch a)),
       field ''request_id'' (is_identifier (va_request_id a)),
       field ''idempotency_key'' (is_identifier (va_idempotency_key a)),
       field ''operator_identity'' (is_bounded_text (va_operator_identity a)),
       field ''operator_subject'' (google_number (va_operator_subject a)),
       field ''result_id'' (pred_option is_identifier (va_result_id a)),
       field ''evidence_id'' (pred_option is_identifier (va_evidence_id a)),
       field ''new_epoch'' (pred_option positive_safe_integer (va_new_epoch a)),
       field ''recorded_at'' (is_utc_second (va_recorded_at a)),
       validate_audit_outcome a]"

record revocation_commit =
  vt_replacement_authority :: epoch_authority_record
  vt_evidence_subject :: revocation_subject
  vt_signed_evidence :: signed_evidence_event
  vt_chain_head :: evidence_chain_head
  vt_result :: revocation_result
  vt_request_identity :: revocation_identity
  vt_idempotency_identity :: revocation_identity
  vt_audit :: revocation_audit

section \<open>Proof\<close>

record revocation_proof_command =
  vq_root_id :: string
  vq_root_sha256 :: string
  vq_previous_epoch :: int
  vq_new_epoch :: int
  vq_reason :: string
  vq_request_sha256 :: string
  vq_request_id :: string
  vq_idempotency_key :: string
  vq_result_id :: string
  vq_evidence_id :: string
  vq_evidence_sha256 :: string
  vq_attempt_id :: string
  vq_audit_id :: string

definition validate_proof_command :: "hexdigest \<Rightarrow> revocation_proof_command \<Rightarrow> check" where
  "validate_proof_command hexdigest c =
     checks
      [field ''root_id'' (is_identifier (vq_root_id c)),
       field ''root_sha256'' (is_sha256 (vq_root_sha256 c)),
       field ''previous_epoch'' (positive_safe_integer (vq_previous_epoch c)),
       field ''new_epoch'' (positive_safe_integer (vq_new_epoch c)),
       field ''reason'' (is_short_text (vq_reason c)),
       fails_if (vq_reason c \<noteq> py_strip (vq_reason c))
         (ValueError ''revocation proof reason must be exact non-whitespace text''),
       field ''request_sha256'' (is_sha256 (vq_request_sha256 c)),
       field ''request_id'' (is_identifier (vq_request_id c)),
       field ''idempotency_key'' (is_identifier (vq_idempotency_key c)),
       field ''result_id'' (is_identifier (vq_result_id c)),
       field ''evidence_id'' (is_identifier (vq_evidence_id c)),
       field ''evidence_sha256'' (is_sha256 (vq_evidence_sha256 c)),
       field ''attempt_id'' (is_identifier (vq_attempt_id c)),
       field ''audit_id'' (is_identifier (vq_audit_id c)),
       fails_if
         (vq_root_id c \<noteq> ''cgroot:'' @ vq_root_sha256 c \<or> vq_new_epoch c \<noteq> vq_previous_epoch c + 1
          \<or> vq_result_id c \<noteq> revocation_result_id (vq_request_sha256 c))
         (ValueError ''revocation proof identities are invalid''),
       (case epoch_revocation_evidence_id hexdigest (vq_request_sha256 c) (vq_root_sha256 c) (vq_new_epoch c) of
          Inl e \<Rightarrow> Some e
        | Inr evidence_id \<Rightarrow>
            fails_if (vq_evidence_id c \<noteq> evidence_id \<or> vq_audit_id c \<noteq> vq_attempt_id c)
              (ValueError ''revocation proof identities are invalid''))]"

record revocation_proof =
  vp_authority :: epoch_authority_record
  vp_signed_evidence :: signed_evidence_event
  vp_result :: revocation_result
  vp_audit :: revocation_audit

text \<open>The event of a revocation, as every reader of it checks it.\<close>

definition event_records_result :: "evidence_event \<Rightarrow> revocation_result \<Rightarrow> string \<Rightarrow> bool" where
  "event_records_result event r subject_sha \<longleftrightarrow>
     ev_evidence_id event = vr_evidence_id r \<and> 0 < ev_sequence event \<and> ev_root_id event = vr_root_id r
     \<and> ev_root_sha256 event = vr_root_sha256 r \<and> ev_target event = vr_target r
     \<and> ev_epoch event = vr_new_epoch r \<and> ev_kind event = EK_EPOCH_ADVANCED
     \<and> ev_actor event = vr_operator_identity r \<and> ev_request_id event = Some (vr_request_id r)
     \<and> ev_receipt_id event = None \<and> ev_occurred_at event = vr_committed_at r
     \<and> ev_subject_sha256 event = subject_sha \<and> ev_previous_event_sha256 event \<noteq> None
     \<and> ev_reason_code event = None \<and> ev_provider_operation event = None
     \<and> ev_target_configuration_sha256 event = None"

definition authority_records_result :: "epoch_authority_record \<Rightarrow> revocation_result \<Rightarrow> bool" where
  "authority_records_result a r \<longleftrightarrow>
     au_previous_epoch a = Some (vr_previous_epoch r) \<and> au_cause a = EC_OPERATOR_REVOCATION
     \<and> au_changed_by a = vr_operator_identity r \<and> au_request_id a = vr_request_id r
     \<and> au_evidence_id a = vr_evidence_id r \<and> au_changed_at a = vr_committed_at r"

definition audit_records_result :: "revocation_audit \<Rightarrow> revocation_result \<Rightarrow> bool" where
  "audit_records_result a r \<longleftrightarrow>
     va_outcome a \<in> {RA_COMMITTED, RA_ADOPTED} \<and> va_failure_code a = None
     \<and> va_request_sha256 a = vr_request_sha256 r \<and> va_root_id a = vr_root_id r
     \<and> va_root_sha256 a = vr_root_sha256 r \<and> va_request_id a = vr_request_id r
     \<and> va_idempotency_key a = vr_idempotency_key r \<and> va_operator_identity a = vr_operator_identity r
     \<and> va_operator_subject a = vr_operator_subject r \<and> va_result_id a = Some (vr_result_id r)
     \<and> va_evidence_id a = Some (vr_evidence_id r) \<and> va_new_epoch a = Some (vr_new_epoch r)
     \<and> vr_committed_at r \<le> va_recorded_at a"

definition validate_revocation_proof :: "hexdigest \<Rightarrow> revocation_proof \<Rightarrow> check" where
  "validate_revocation_proof hexdigest p =
    (let a = vp_authority p; e = vp_signed_evidence p; r = vp_result p; audit = vp_audit p;
         wrong = ValueError ''revocation proof bindings are invalid'' in
     case bindR (signed_evidence_sha256 hexdigest e) (\<lambda>evidence_sha.
          bindR (epoch_authority_sha256 hexdigest a) (\<lambda>authority_sha.
          bindR (revocation_subject_sha256 hexdigest (vr_evidence_subject r)) (\<lambda>subject_sha.
          Inr (evidence_sha, authority_sha, subject_sha)))) of
       Inl err \<Rightarrow> Some err
     | Inr (evidence_sha, authority_sha, subject_sha) \<Rightarrow>
         fails_if
          (evidence_sha \<noteq> vr_evidence_sha256 r
           \<or> authority_sha \<noteq> vs_replacement_authority_sha256 (vr_evidence_subject r)
           \<or> \<not> event_records_result (se_event e) r subject_sha
           \<or> au_root_id a \<noteq> vr_root_id r \<or> au_root_sha256 a \<noteq> vr_root_sha256 r
           \<or> au_target a \<noteq> vr_target r \<or> au_current_epoch a \<noteq> vr_new_epoch r
           \<or> \<not> authority_records_result a r
           \<or> va_audit_id audit \<noteq> va_attempt_id audit \<or> va_expected_epoch audit \<noteq> vr_previous_epoch r
           \<or> \<not> audit_records_result audit r
           \<or> (va_outcome audit = RA_COMMITTED \<and> va_recorded_at audit \<noteq> vr_committed_at r))
          wrong)"

definition epoch_revocation_proof_matches_command :: "revocation_proof \<Rightarrow> revocation_proof_command \<Rightarrow> bool" where
  "epoch_revocation_proof_matches_command p c \<longleftrightarrow>
    (let r = vp_result p; audit = vp_audit p in
     vr_root_id r = vq_root_id c \<and> vr_root_sha256 r = vq_root_sha256 c
     \<and> vr_previous_epoch r = vq_previous_epoch c \<and> vr_new_epoch r = vq_new_epoch c
     \<and> vr_reason r = vq_reason c \<and> vr_request_sha256 r = vq_request_sha256 c
     \<and> vr_request_id r = vq_request_id c \<and> vr_idempotency_key r = vq_idempotency_key c
     \<and> vr_result_id r = vq_result_id c \<and> vr_evidence_id r = vq_evidence_id c
     \<and> vr_evidence_sha256 r = vq_evidence_sha256 c \<and> va_attempt_id audit = vq_attempt_id c
     \<and> va_audit_id audit = vq_audit_id c)"

end
