(* ===== verification/Revocation.thy ===== *)
theory Revocation
  imports RevocationRecords AuthorityStore
begin

text \<open>
  The revocation coordinator, \<open>EpochRevoker\<close> of \<open>application/revocation.py\<close>. A run is a tree that asks one
  port at each await or clock call and goes on with the answer. What the store raised is a
  \<open>store_failure\<close>; \<open>None\<close> is a clock or a signer that raised. The completion workflow that follows
  a returned result is not modelled.
\<close>

definition MAX_REVOCATION_COMMIT_ATTEMPTS :: nat where "MAX_REVOCATION_COMMIT_ATTEMPTS = 4"

section \<open>State and answers\<close>

record revocation_state =
  vx_invocation :: revocation_invocation
  vx_root_bundle :: "root_creation_bundle option"
  vx_chain_head :: "evidence_chain_head stored_record option"
  vx_head_evidence :: "signed_evidence_event stored_record option"
  vx_request_identity :: "revocation_identity stored_record option"
  vx_idempotency_identity :: "revocation_identity stored_record option"
  vx_result :: "revocation_result stored_record option"
  vx_result_evidence :: "signed_evidence_event stored_record option"
  vx_attempt_audit :: "revocation_audit stored_record option"

record revocation_write_result =
  vw_authority :: "epoch_authority_record stored_record"
  vw_signed_evidence :: "signed_evidence_event stored_record"
  vw_chain_head :: "evidence_chain_head stored_record"
  vw_result :: "revocation_result stored_record"
  vw_request_identity :: "revocation_identity stored_record"
  vw_idempotency_identity :: "revocation_identity stored_record"
  vw_audit :: "revocation_audit stored_record"

datatype revoke_failure = RevocationError revocation_failure_code | RevokeRaised py_error

type_synonym 'a revoking = "revoke_failure + 'a"

definition raises :: "'a result \<Rightarrow> 'a revoking" where
  "raises r = (case r of Inl e \<Rightarrow> Inl (RevokeRaised e) | Inr x \<Rightarrow> Inr x)"

definition denies :: "bool \<Rightarrow> revocation_failure_code \<Rightarrow> revoke_failure option" where
  "denies b code = (if b then Some (RevocationError code) else None)"

text \<open>An \<open>except (TypeError, ValueError)\<close> around a call that raises nothing else.\<close>

definition distrusts :: "'a result \<Rightarrow> 'a revoking" where
  "distrusts r = (case r of Inl _ \<Rightarrow> Inl (RevocationError RF_TRUSTED_STATE_INVALID) | Inr x \<Rightarrow> Inr x)"

definition inspect_creation_bundle ::
  "hexdigest \<Rightarrow> target_binding \<Rightarrow> root_creation_bundle \<Rightarrow> trusted_root_authority option" where
  "inspect_creation_bundle hexdigest target bundle =
     inspect_root_authority_bundle hexdigest target (root_bundle.truncate bundle)"

section \<open>The operator\<close>

definition operator_is_exact ::
  "route_policy \<Rightarrow> revocation_invocation \<Rightarrow> authentication_context option \<Rightarrow> string \<Rightarrow> bool result" where
  "operator_is_exact policy i caller now =
    (case caller of
       None \<Rightarrow> Inr False
     | Some p \<Rightarrow>
         bindR (parse_or_raise now) (\<lambda>now_second. Inr
           (ac_role p = CALL_OPERATOR \<and> ac_role p = cb_role (rp_caller policy)
            \<and> ac_email p = vi_operator_identity i \<and> vi_operator_identity i = cb_email (rp_caller policy)
            \<and> ac_subject p = vi_operator_subject i \<and> vi_operator_subject i = cb_subject (rp_caller policy)
            \<and> ac_issuer p = vi_operator_issuer i
            \<and> ac_issuer p \<in> {''accounts.google.com'', ''https://accounts.google.com''}
            \<and> ac_audience p = vi_operator_audience i \<and> vi_operator_audience i = rp_audience policy
            \<and> ac_issued_at p = vi_operator_issued_at i \<and> ac_expires_at p = vi_operator_expires_at i
            \<and> ac_issued_at p \<le> now_second \<and> now_second < ac_expires_at p)))"

section \<open>What a state holds\<close>

definition predecessor_head ::
  "hexdigest \<Rightarrow> target_binding \<Rightarrow> revocation_state \<Rightarrow> evidence_chain_head result" where
  "predecessor_head hexdigest target s =
    (case vx_root_bundle s of
       None \<Rightarrow> Inl (ValueError ''revocation predecessor root is missing'')
     | Some bundle \<Rightarrow> current_evidence_chain_head hexdigest bundle target (vx_chain_head s) (vx_head_evidence s))"

definition event_opens_result :: "evidence_event \<Rightarrow> revocation_result \<Rightarrow> int \<Rightarrow> bool" where
  "event_opens_result event r current \<longleftrightarrow>
     vs_evidence_id (vr_evidence_subject r) = vr_evidence_id r \<and> ev_evidence_id event = vr_evidence_id r
     \<and> 0 < ev_sequence event \<and> ev_sequence event \<le> current \<and> ev_root_id event = vr_root_id r
     \<and> ev_root_sha256 event = vr_root_sha256 r \<and> ev_target event = vr_target r
     \<and> ev_epoch event = vr_new_epoch r \<and> ev_kind event = EK_EPOCH_ADVANCED
     \<and> ev_actor event = vr_operator_identity r \<and> ev_request_id event = Some (vr_request_id r)
     \<and> ev_receipt_id event = None \<and> ev_occurred_at event = vr_committed_at r"

definition result_evidence_matches ::
  "hexdigest \<Rightarrow> signed_evidence_event stored_record option \<Rightarrow> revocation_result \<Rightarrow> evidence_chain_head
    \<Rightarrow> string \<Rightarrow> bool result" where
  "result_evidence_matches hexdigest stored r head key_version =
    (case stored of
       None \<Rightarrow> Inr False
     | Some s \<Rightarrow>
        (if sr_revision s \<noteq> 0 then Inr False
         else
          (let signed_event = sr_value s; event = se_event signed_event in
           bindR (signed_evidence_sha256 hexdigest signed_event) (\<lambda>evidence_sha.
             if \<not> (vr_evidence_sha256 r = evidence_sha \<and> event_opens_result event r (hd_sequence head))
             then Inr False
             else bindR (revocation_subject_sha256 hexdigest (vr_evidence_subject r)) (\<lambda>subject_sha. Inr
               (ev_subject_sha256 event = subject_sha \<and> ev_previous_event_sha256 event \<noteq> None
                \<and> ev_reason_code event = None \<and> ev_provider_operation event = None
                \<and> ev_target_configuration_sha256 event = None
                \<and> se_signing_key_version signed_event = key_version
                \<and> (ev_sequence event < hd_sequence head
                   \<or> hd_evidence_id head = vr_evidence_id r \<and> hd_evidence_sha256 head = evidence_sha)))))))"

definition identity_matches ::
  "revocation_identity stored_record option \<Rightarrow> revocation_identity_kind \<Rightarrow> string \<Rightarrow> revocation_result \<Rightarrow> bool" where
  "identity_matches stored kind value r \<longleftrightarrow>
    (case stored of
       None \<Rightarrow> False
     | Some s \<Rightarrow>
         sr_revision s = 0 \<and> vd_kind (sr_value s) = kind \<and> vd_value (sr_value s) = value
         \<and> vd_root_id (sr_value s) = vr_root_id r \<and> vd_root_sha256 (sr_value s) = vr_root_sha256 r
         \<and> vd_request_sha256 (sr_value s) = vr_request_sha256 r \<and> vd_result_id (sr_value s) = vr_result_id r)"

definition identities_match_result :: "revocation_state \<Rightarrow> revocation_result \<Rightarrow> bool" where
  "identities_match_result s r \<longleftrightarrow>
     identity_matches (vx_request_identity s) RI_REQUEST (vk_request_id (vi_command (vx_invocation s))) r
     \<and> identity_matches (vx_idempotency_identity s) RI_IDEMPOTENCY
         (vk_idempotency_key (vi_command (vx_invocation s))) r"

definition result_answers_request ::
  "target_binding \<Rightarrow> revocation_invocation \<Rightarrow> string \<Rightarrow> revocation_result \<Rightarrow> bool" where
  "result_answers_request target i request_sha r \<longleftrightarrow>
    (let c = vi_command i in
     vr_request_sha256 r = request_sha \<and> vr_result_id r = revocation_result_id request_sha
     \<and> vr_request_id r = vk_request_id c \<and> vr_idempotency_key r = vk_idempotency_key c
     \<and> vr_root_id r = vk_root_id c \<and> vr_root_sha256 r = vk_expected_root_sha256 c \<and> vr_target r = target
     \<and> vr_operator_identity r = vi_operator_identity i \<and> vr_operator_subject r = vi_operator_subject i
     \<and> vr_reason r = vk_reason c \<and> vr_previous_epoch r = vk_expected_epoch c
     \<and> vr_new_epoch r = vk_expected_epoch c + 1)"

text \<open>The authority digest is taken only when every other field of a current authority agrees.\<close>

definition authority_contradicts ::
  "hexdigest \<Rightarrow> epoch_authority_record \<Rightarrow> revocation_result \<Rightarrow> bool result" where
  "authority_contradicts hexdigest a r =
    (if au_current_epoch a \<noteq> vr_new_epoch r then Inr False
     else if \<not> authority_records_result a r then Inr True
     else bindR (epoch_authority_sha256 hexdigest a)
       (\<lambda>sha. Inr (sha \<noteq> vs_replacement_authority_sha256 (vr_evidence_subject r))))"

definition exact_result ::
  "hexdigest \<Rightarrow> target_binding \<Rightarrow> revocation_state \<Rightarrow> string \<Rightarrow> revocation_result option revoking" where
  "exact_result hexdigest target s request_sha =
    (case vx_result s of
       None \<Rightarrow> Inr None
     | Some stored \<Rightarrow>
        (let r = sr_value stored in
         guardS (denies (sr_revision stored \<noteq> 0) RF_TRUSTED_STATE_INVALID)
         (case Option.bind (vx_root_bundle s) (inspect_creation_bundle hexdigest target) of
            None \<Rightarrow> Inl (RevocationError RF_TRUSTED_STATE_INVALID)
          | Some trusted \<Rightarrow>
             guardS (denies (\<not> result_answers_request target (vx_invocation s) request_sha r)
               RF_TRUSTED_STATE_INVALID)
             (guardS (denies (au_current_epoch (ra_authority trusted) < vr_new_epoch r) RF_TRUSTED_STATE_INVALID)
             (bindS (raises (authority_contradicts hexdigest (ra_authority trusted) r)) (\<lambda>contradicts.
             guardS (denies contradicts RF_TRUSTED_STATE_INVALID)
             (guardS (denies (\<not> identities_match_result s r) RF_TRUSTED_STATE_INVALID)
             (bindS (distrusts (predecessor_head hexdigest target s)) (\<lambda>head.
             bindS (raises (result_evidence_matches hexdigest (vx_result_evidence s) r head
               (rc_evidence_signing_key_version (ad_content (ra_root trusted))))) (\<lambda>matches.
             guardS (denies (\<not> matches) RF_TRUSTED_STATE_INVALID)
             (Inr (Some r))))))))))))"

definition validated_attempt_audit ::
  "revocation_state \<Rightarrow> string \<Rightarrow> revocation_audit option revoking" where
  "validated_attempt_audit s request_sha =
    (case vx_attempt_audit s of
       None \<Rightarrow> Inr None
     | Some stored \<Rightarrow>
        (let i = vx_invocation s; c = vi_command i; a = sr_value stored in
         guardS (denies
           (sr_revision stored \<noteq> 0 \<or> va_audit_id a \<noteq> vi_attempt_id i \<or> va_attempt_id a \<noteq> vi_attempt_id i
            \<or> va_request_sha256 a \<noteq> request_sha \<or> va_root_id a \<noteq> vk_root_id c
            \<or> va_root_sha256 a \<noteq> vk_expected_root_sha256 c \<or> va_expected_epoch a \<noteq> vk_expected_epoch c
            \<or> va_request_id a \<noteq> vk_request_id c \<or> va_idempotency_key a \<noteq> vk_idempotency_key c
            \<or> va_operator_identity a \<noteq> vi_operator_identity i \<or> va_operator_subject a \<noteq> vi_operator_subject i)
           RF_TRUSTED_STATE_INVALID)
         (Inr (Some a))))"

definition successful_audit_matches ::
  "revocation_audit \<Rightarrow> revocation_invocation \<Rightarrow> revocation_result \<Rightarrow> string \<Rightarrow> bool" where
  "successful_audit_matches a i r request_sha \<longleftrightarrow>
     va_outcome a \<in> {RA_COMMITTED, RA_ADOPTED} \<and> va_failure_code a = None
     \<and> va_request_sha256 a = request_sha \<and> va_root_id a = vr_root_id r \<and> va_root_sha256 a = vr_root_sha256 r
     \<and> va_expected_epoch a = vk_expected_epoch (vi_command i) \<and> va_request_id a = vr_request_id r
     \<and> va_idempotency_key a = vr_idempotency_key r \<and> va_operator_identity a = vr_operator_identity r
     \<and> va_operator_subject a = vr_operator_subject r \<and> va_result_id a = Some (vr_result_id r)
     \<and> va_evidence_id a = Some (vr_evidence_id r) \<and> va_new_epoch a = Some (vr_new_epoch r)
     \<and> vr_committed_at r \<le> va_recorded_at a"

text \<open>
  How a read state settles the attempt, which the loop and the closing read do alike: the durable answer
  of this attempt, a result another attempt committed, or nothing yet.
\<close>

datatype settlement = Settled revocation_result | ToAdopt revocation_result | Unsettled

definition settle :: "hexdigest \<Rightarrow> target_binding \<Rightarrow> revocation_state \<Rightarrow> string \<Rightarrow> settlement revoking" where
  "settle hexdigest target s request_sha =
     bindS (exact_result hexdigest target s request_sha) (\<lambda>existing.
     bindS (validated_attempt_audit s request_sha) (\<lambda>attempt.
     case attempt of
       Some a \<Rightarrow>
         (if va_outcome a = RA_DENIED
          then Inl (RevocationError
            (case va_failure_code a of None \<Rightarrow> RF_TRUSTED_STATE_INVALID | Some code \<Rightarrow> code))
          else
            (case existing of
               None \<Rightarrow> Inl (RevocationError RF_TRUSTED_STATE_INVALID)
             | Some r \<Rightarrow>
                 guardS (denies (\<not> successful_audit_matches a (vx_invocation s) r request_sha)
                   RF_TRUSTED_STATE_INVALID)
                 (Inr (Settled r))))
     | None \<Rightarrow> (case existing of None \<Rightarrow> Inr Unsettled | Some r \<Rightarrow> Inr (ToAdopt r))))"

definition state_denial ::
  "hexdigest \<Rightarrow> target_binding \<Rightarrow> revocation_state \<Rightarrow> string \<Rightarrow> revocation_failure_code option result" where
  "state_denial hexdigest target s request_sha =
    (if vx_result s \<noteq> None then Inr (Some RF_IDENTITY_CONFLICT)
     else if vx_request_identity s \<noteq> None \<or> vx_idempotency_identity s \<noteq> None
     then Inr (Some
       (if pred_option (\<lambda>d. sr_revision d = 0) (vx_request_identity s)
           \<and> pred_option (\<lambda>d. sr_revision d = 0) (vx_idempotency_identity s)
        then RF_IDENTITY_CONFLICT else RF_TRUSTED_STATE_INVALID))
     else
      (case vx_root_bundle s of
         None \<Rightarrow> Inr (Some RF_ROOT_NOT_FOUND)
       | Some bundle \<Rightarrow>
          (case inspect_creation_bundle hexdigest target bundle of
             None \<Rightarrow> Inr (Some RF_TRUSTED_STATE_INVALID)
           | Some trusted \<Rightarrow>
              (let c = vi_command (vx_invocation s) in
               if ad_root_id (ra_root trusted) \<noteq> vk_root_id c
                  \<or> ad_root_sha256 (ra_root trusted) \<noteq> vk_expected_root_sha256 c
               then Inr (Some RF_ROOT_MISMATCH)
               else if cl_status (ra_service_claim trusted) \<noteq> CS_ACTIVE
                  \<or> ra_service_claim_revision trusted mod 3 \<noteq> 0
               then Inr (Some RF_ACTIVE_CLAIM_REQUIRED)
               else if au_current_epoch (ra_authority trusted) \<noteq> vk_expected_epoch c
               then Inr (Some RF_EPOCH_MISMATCH)
               else
                (case predecessor_head hexdigest target s of
                   Inl _ \<Rightarrow> Inr (Some RF_TRUSTED_STATE_INVALID)
                 | Inr _ \<Rightarrow>
                    bindR (epoch_revocation_request_sha256 hexdigest (vx_invocation s))
                    (\<lambda>sha. Inr (if request_sha \<noteq> sha then Some RF_TRUSTED_STATE_INVALID else None)))))))"

section \<open>One commit\<close>

record revocation_plan =
  pn_trusted :: trusted_root_authority
  pn_replacement :: epoch_authority_record
  pn_subject :: revocation_subject
  pn_event :: evidence_event

definition replacement_authority ::
  "target_binding \<Rightarrow> revocation_invocation \<Rightarrow> trusted_root_authority \<Rightarrow> string \<Rightarrow> string
    \<Rightarrow> epoch_authority_record" where
  "replacement_authority target i trusted evidence_id committed_at =
    (let a = ra_authority trusted in
     \<lparr>au_root_id = ad_root_id (ra_root trusted), au_root_sha256 = ad_root_sha256 (ra_root trusted),
      au_target = target, au_current_epoch = au_current_epoch a + 1,
      au_previous_epoch = Some (au_current_epoch a), au_revision = au_revision a + 1,
      au_cause = EC_OPERATOR_REVOCATION, au_changed_by = vi_operator_identity i,
      au_request_id = vk_request_id (vi_command i), au_evidence_id = evidence_id,
      au_changed_at = committed_at\<rparr>)"

definition revocation_subject_of ::
  "hexdigest \<Rightarrow> revocation_invocation \<Rightarrow> trusted_root_authority \<Rightarrow> epoch_authority_record \<Rightarrow> string
    \<Rightarrow> revocation_subject result" where
  "revocation_subject_of hexdigest i trusted replacement request_sha =
     bindR (or_raise_contract (contract_sha256 hexdigest SERVICE_CLAIM_V2
       (service_claim_json (ra_service_claim trusted)))) (\<lambda>claim_sha.
     bindR (epoch_authority_sha256 hexdigest (ra_authority trusted)) (\<lambda>previous_sha.
     bindR (epoch_authority_sha256 hexdigest replacement) (\<lambda>replacement_sha.
     construct validate_revocation_subject
       \<lparr>vs_root_id = ad_root_id (ra_root trusted), vs_root_sha256 = ad_root_sha256 (ra_root trusted),
        vs_request_sha256 = request_sha, vs_request_id = vk_request_id (vi_command i),
        vs_idempotency_key = vk_idempotency_key (vi_command i),
        vs_operator_identity = vi_operator_identity i, vs_operator_subject = vi_operator_subject i,
        vs_reason = vk_reason (vi_command i), vs_service_claim_sha256 = claim_sha,
        vs_previous_authority_sha256 = previous_sha, vs_replacement_authority_sha256 = replacement_sha,
        vs_previous_epoch = au_current_epoch (ra_authority trusted),
        vs_new_epoch = au_current_epoch replacement, vs_evidence_id = au_evidence_id replacement,
        vs_committed_at = au_changed_at replacement\<rparr>)))"

definition revocation_event ::
  "target_binding \<Rightarrow> revocation_invocation \<Rightarrow> trusted_root_authority \<Rightarrow> evidence_chain_head
    \<Rightarrow> epoch_authority_record \<Rightarrow> string \<Rightarrow> evidence_event" where
  "revocation_event target i trusted previous replacement subject_sha =
     \<lparr>ev_evidence_id = au_evidence_id replacement, ev_sequence = hd_sequence previous + 1,
      ev_root_id = ad_root_id (ra_root trusted), ev_root_sha256 = ad_root_sha256 (ra_root trusted),
      ev_target = target, ev_epoch = au_current_epoch replacement, ev_kind = EK_EPOCH_ADVANCED,
      ev_actor = vi_operator_identity i, ev_request_id = Some (vk_request_id (vi_command i)),
      ev_receipt_id = None, ev_occurred_at = au_changed_at replacement, ev_subject_sha256 = subject_sha,
      ev_previous_event_sha256 = Some (hd_evidence_sha256 previous), ev_reason_code = None,
      ev_provider_operation = None, ev_target_configuration_sha256 = None\<rparr>"

text \<open>\<open>_build_commit\<close> up to the call of the signer.\<close>

definition plan_commit ::
  "hexdigest \<Rightarrow> target_binding \<Rightarrow> revocation_state \<Rightarrow> string \<Rightarrow> string \<Rightarrow> revocation_plan revoking" where
  "plan_commit hexdigest target s request_sha committed_at =
    (case vx_root_bundle s of
       None \<Rightarrow> Inl (RevocationError RF_ROOT_NOT_FOUND)
     | Some bundle \<Rightarrow>
        (case inspect_creation_bundle hexdigest target bundle of
           None \<Rightarrow> Inl (RevocationError RF_TRUSTED_STATE_INVALID)
         | Some trusted \<Rightarrow>
            (let i = vx_invocation s in
             bindS (raises (predecessor_head hexdigest target s)) (\<lambda>previous.
             guardS (denies (committed_at < hd_updated_at previous) RF_TRUSTED_STATE_INVALID)
             (bindS (raises (epoch_revocation_evidence_id hexdigest request_sha
                (ad_root_sha256 (ra_root trusted)) (au_current_epoch (ra_authority trusted) + 1))) (\<lambda>evidence_id.
             bindS (raises (construct validate_authority_record
                (replacement_authority target i trusted evidence_id committed_at))) (\<lambda>replacement.
             bindS (raises (revocation_subject_of hexdigest i trusted replacement request_sha)) (\<lambda>subject.
             bindS (raises (revocation_subject_sha256 hexdigest subject)) (\<lambda>subject_sha.
             bindS (raises (construct validate_evidence_event
                (revocation_event target i trusted previous replacement subject_sha))) (\<lambda>event.
             Inr \<lparr>pn_trusted = trusted, pn_replacement = replacement, pn_subject = subject,
                  pn_event = event\<rparr>))))))))))"

definition revocation_head ::
  "target_binding \<Rightarrow> trusted_root_authority \<Rightarrow> evidence_event \<Rightarrow> string \<Rightarrow> evidence_chain_head" where
  "revocation_head target trusted event evidence_sha =
     \<lparr>hd_root_id = ad_root_id (ra_root trusted), hd_root_sha256 = ad_root_sha256 (ra_root trusted),
      hd_target = target, hd_sequence = ev_sequence event, hd_evidence_id = ev_evidence_id event,
      hd_evidence_sha256 = evidence_sha, hd_kind = ev_kind event, hd_epoch = ev_epoch event,
      hd_updated_at = ev_occurred_at event\<rparr>"

definition revocation_result_of ::
  "target_binding \<Rightarrow> revocation_invocation \<Rightarrow> revocation_plan \<Rightarrow> string \<Rightarrow> string \<Rightarrow> revocation_result" where
  "revocation_result_of target i p request_sha evidence_sha =
     \<lparr>vr_result_id = revocation_result_id request_sha, vr_request_sha256 = request_sha,
      vr_request_id = vk_request_id (vi_command i), vr_idempotency_key = vk_idempotency_key (vi_command i),
      vr_root_id = ad_root_id (ra_root (pn_trusted p)),
      vr_root_sha256 = ad_root_sha256 (ra_root (pn_trusted p)), vr_target = target,
      vr_operator_identity = vi_operator_identity i, vr_operator_subject = vi_operator_subject i,
      vr_reason = vk_reason (vi_command i),
      vr_previous_epoch = au_current_epoch (ra_authority (pn_trusted p)),
      vr_new_epoch = au_current_epoch (pn_replacement p),
      vr_evidence_id = au_evidence_id (pn_replacement p), vr_evidence_sha256 = evidence_sha,
      vr_evidence_subject = pn_subject p, vr_committed_at = au_changed_at (pn_replacement p)\<rparr>"

definition identity_claim ::
  "revocation_result \<Rightarrow> revocation_identity_kind \<Rightarrow> string \<Rightarrow> revocation_identity" where
  "identity_claim r kind value =
     \<lparr>vd_kind = kind, vd_value = value, vd_root_id = vr_root_id r, vd_root_sha256 = vr_root_sha256 r,
      vd_request_sha256 = vr_request_sha256 r, vd_result_id = vr_result_id r,
      vd_claimed_at = vr_committed_at r\<rparr>"

definition attempt_audit ::
  "revocation_invocation \<Rightarrow> string \<Rightarrow> string \<Rightarrow> revocation_audit" where
  "attempt_audit i request_sha recorded_at =
     \<lparr>va_audit_id = vi_attempt_id i, va_attempt_id = vi_attempt_id i, va_request_sha256 = request_sha,
      va_root_id = vk_root_id (vi_command i), va_root_sha256 = vk_expected_root_sha256 (vi_command i),
      va_expected_epoch = vk_expected_epoch (vi_command i), va_request_id = vk_request_id (vi_command i),
      va_idempotency_key = vk_idempotency_key (vi_command i),
      va_operator_identity = vi_operator_identity i, va_operator_subject = vi_operator_subject i,
      va_outcome = RA_DENIED, va_failure_code = None, va_result_id = None, va_evidence_id = None,
      va_new_epoch = None, va_recorded_at = recorded_at\<rparr>"

definition success_audit ::
  "revocation_invocation \<Rightarrow> revocation_result \<Rightarrow> string \<Rightarrow> revocation_audit_outcome \<Rightarrow> string
    \<Rightarrow> revocation_audit" where
  "success_audit i r request_sha outcome recorded_at =
     (attempt_audit i request_sha recorded_at)\<lparr>va_outcome := outcome, va_result_id := Some (vr_result_id r),
        va_evidence_id := Some (vr_evidence_id r), va_new_epoch := Some (vr_new_epoch r)\<rparr>"

definition denial_audit ::
  "revocation_invocation \<Rightarrow> string \<Rightarrow> revocation_failure_code \<Rightarrow> string \<Rightarrow> revocation_audit" where
  "denial_audit i request_sha code recorded_at =
     (attempt_audit i request_sha recorded_at)\<lparr>va_failure_code := Some code\<rparr>"

text \<open>\<open>_build_commit\<close> on the answer of the signer, \<open>None\<close> when it raised.\<close>

definition complete_commit ::
  "hexdigest \<Rightarrow> target_binding \<Rightarrow> revocation_invocation \<Rightarrow> string \<Rightarrow> revocation_plan
    \<Rightarrow> signed_evidence_event option \<Rightarrow> revocation_commit revoking" where
  "complete_commit hexdigest target i request_sha p answer =
    (case answer of
       None \<Rightarrow> Inl (RevocationError RF_EVIDENCE_DENIED)
     | Some s \<Rightarrow>
         guardS (denies (se_event s \<noteq> pn_event p
             \<or> se_signing_key_version s
                 \<noteq> rc_evidence_signing_key_version (ad_content (ra_root (pn_trusted p))))
           RF_EVIDENCE_DENIED)
         (bindS (raises (signed_evidence_sha256 hexdigest s)) (\<lambda>evidence_sha.
          bindS (raises (construct validate_evidence_chain_head
            (revocation_head target (pn_trusted p) (pn_event p) evidence_sha))) (\<lambda>head.
          bindS (raises (construct (validate_revocation_result hexdigest)
            (revocation_result_of target i p request_sha evidence_sha))) (\<lambda>r.
          bindS (raises (construct validate_revocation_identity
            (identity_claim r RI_REQUEST (vk_request_id (vi_command i))))) (\<lambda>request_identity.
          bindS (raises (construct validate_revocation_identity
            (identity_claim r RI_IDEMPOTENCY (vk_idempotency_key (vi_command i))))) (\<lambda>idempotency_identity.
          bindS (raises (construct validate_revocation_audit
            (success_audit i r request_sha RA_COMMITTED (vr_committed_at r)))) (\<lambda>audit.
          Inr \<lparr>vt_replacement_authority = pn_replacement p, vt_evidence_subject = pn_subject p,
               vt_signed_evidence = s, vt_chain_head = head, vt_result = r,
               vt_request_identity = request_identity, vt_idempotency_identity = idempotency_identity,
               vt_audit = audit\<rparr>))))))))"

definition is_stored :: "'a stored_record \<Rightarrow> 'a \<Rightarrow> int \<Rightarrow> bool" where
  "is_stored s x revision \<longleftrightarrow> sr_value s = x \<and> sr_revision s = revision"

definition write_result_matches :: "revocation_write_result \<Rightarrow> revocation_commit \<Rightarrow> bool" where
  "write_result_matches w t \<longleftrightarrow>
     is_stored (vw_authority w) (vt_replacement_authority t) (au_revision (vt_replacement_authority t))
     \<and> is_stored (vw_signed_evidence w) (vt_signed_evidence t) 0
     \<and> is_stored (vw_chain_head w) (vt_chain_head t) (hd_sequence (vt_chain_head t))
     \<and> is_stored (vw_result w) (vt_result t) 0
     \<and> is_stored (vw_request_identity w) (vt_request_identity t) 0
     \<and> is_stored (vw_idempotency_identity w) (vt_idempotency_identity t) 0
     \<and> is_stored (vw_audit w) (vt_audit t) 0"

section \<open>The coroutine\<close>

datatype 'a revoker =
    Returned 'a
  | Failed revoke_failure
  | AskTime "string option \<Rightarrow> 'a revoker"
  | AskState revocation_invocation "store_failure + revocation_state \<Rightarrow> 'a revoker"
  | AskSign evidence_event "signed_evidence_event option \<Rightarrow> 'a revoker"
  | AskCommit revocation_state revocation_commit "store_failure + revocation_write_result \<Rightarrow> 'a revoker"
  | AskAudit revocation_audit "store_failure + revocation_audit stored_record \<Rightarrow> 'a revoker"

definition liftV :: "'a revoking \<Rightarrow> ('a \<Rightarrow> 'b revoker) \<Rightarrow> 'b revoker" where
  "liftV r f = (case r of Inl e \<Rightarrow> Failed e | Inr x \<Rightarrow> f x)"

fun read_failure :: "store_failure \<Rightarrow> revocation_failure_code" where
  "read_failure (StoreError SE_CORRUPT_RECORD) = RF_TRUSTED_STATE_INVALID"
| "read_failure _ = RF_STORE_UNAVAILABLE"

fun audit_failure :: "store_failure \<Rightarrow> revocation_failure_code" where
  "audit_failure (StoreError SE_CONFLICT) = RF_TRUSTED_STATE_INVALID"
| "audit_failure (StoreError SE_CORRUPT_RECORD) = RF_TRUSTED_STATE_INVALID"
| "audit_failure (Raised (TypeError _)) = RF_TRUSTED_STATE_INVALID"
| "audit_failure (Raised (ValueError _)) = RF_TRUSTED_STATE_INVALID"
| "audit_failure _ = RF_STORE_UNAVAILABLE"

fun commit_failure :: "store_failure \<Rightarrow> revocation_failure_code" where
  "commit_failure (StoreError SE_CORRUPT_RECORD) = RF_TRUSTED_STATE_INVALID"
| "commit_failure (Raised (TypeError _)) = RF_TRUSTED_STATE_INVALID"
| "commit_failure (Raised (ValueError _)) = RF_TRUSTED_STATE_INVALID"
| "commit_failure _ = RF_STORE_UNAVAILABLE"

definition state_of_answer ::
  "revocation_invocation \<Rightarrow> store_failure + revocation_state \<Rightarrow> revocation_state revoking" where
  "state_of_answer i answer =
    (case answer of
       Inl e \<Rightarrow> Inl (RevocationError (read_failure e))
     | Inr s \<Rightarrow> guardS (denies (vx_invocation s \<noteq> i) RF_TRUSTED_STATE_INVALID) (Inr s))"

definition read_state :: "revocation_invocation \<Rightarrow> (revocation_state \<Rightarrow> 'a revoker) \<Rightarrow> 'a revoker" where
  "read_state i f = AskState i (\<lambda>answer. liftV (state_of_answer i answer) f)"

definition timestamp :: "(string \<Rightarrow> 'a revoker) \<Rightarrow> 'a revoker" where
  "timestamp f = AskTime (\<lambda>answer.
     case answer of None \<Rightarrow> Failed (RevocationError RF_TRUSTED_STATE_INVALID) | Some t \<Rightarrow> f t)"

definition record_audit :: "revocation_audit \<Rightarrow> 'a revoker \<Rightarrow> 'a revoker" where
  "record_audit a k =
     liftV (raises (construct validate_revocation_audit a)) (\<lambda>a. AskAudit a (\<lambda>answer.
       case answer of
         Inl e \<Rightarrow> Failed (RevocationError (audit_failure e))
       | Inr stored \<Rightarrow>
           (if sr_revision stored \<noteq> 0 \<or> sr_value stored \<noteq> a
            then Failed (RevocationError RF_TRUSTED_STATE_INVALID) else k)))"

definition deny_durably ::
  "revocation_invocation \<Rightarrow> string \<Rightarrow> string \<Rightarrow> revocation_failure_code \<Rightarrow> 'a revoker" where
  "deny_durably i request_sha recorded_at code =
     record_audit (denial_audit i request_sha code recorded_at) (Failed (RevocationError code))"

definition adopt_result ::
  "revocation_invocation \<Rightarrow> string \<Rightarrow> string \<Rightarrow> revocation_result \<Rightarrow> revocation_result revoker" where
  "adopt_result i request_sha recorded_at r =
     record_audit (success_audit i r request_sha RA_ADOPTED recorded_at) (Returned r)"

text \<open>\<open>_build_commit\<close>: its own denials are recorded, what else it raises is not.\<close>

definition build_or_deny ::
  "revocation_invocation \<Rightarrow> string \<Rightarrow> string \<Rightarrow> 'a revoking \<Rightarrow> ('a \<Rightarrow> 'b revoker) \<Rightarrow> 'b revoker" where
  "build_or_deny i request_sha recorded_at r f =
    (case r of
       Inl (RevocationError code) \<Rightarrow> deny_durably i request_sha recorded_at code
     | Inl (RevokeRaised e) \<Rightarrow> Failed (RevokeRaised e)
     | Inr x \<Rightarrow> f x)"

definition build_commit ::
  "hexdigest \<Rightarrow> target_binding \<Rightarrow> revocation_state \<Rightarrow> string \<Rightarrow> string
    \<Rightarrow> (revocation_commit \<Rightarrow> 'a revoker) \<Rightarrow> 'a revoker" where
  "build_commit hexdigest target s request_sha recorded_at f =
     build_or_deny (vx_invocation s) request_sha recorded_at (plan_commit hexdigest target s request_sha recorded_at)
     (\<lambda>p. AskSign (pn_event p) (\<lambda>answer.
       build_or_deny (vx_invocation s) request_sha recorded_at
         (complete_commit hexdigest target (vx_invocation s) request_sha p answer) f))"

text \<open>The second read after a commit whose outcome is unknown; a denial inside it leaves it unknown.\<close>

definition confirmed_commit ::
  "hexdigest \<Rightarrow> target_binding \<Rightarrow> revocation_invocation \<Rightarrow> string \<Rightarrow> revocation_state
    \<Rightarrow> revocation_result option revoking" where
  "confirmed_commit hexdigest target i request_sha s =
     bindS (exact_result hexdigest target s request_sha) (\<lambda>existing.
     bindS (validated_attempt_audit s request_sha) (\<lambda>attempt.
     case (existing, attempt) of
       (Some r, Some a) \<Rightarrow>
         Inr (if va_outcome a = RA_COMMITTED \<and> successful_audit_matches a i r request_sha
                 \<and> va_recorded_at a = vr_committed_at r
              then Some r else None)
     | _ \<Rightarrow> Inr None))"

definition resolve_unknown_commit ::
  "hexdigest \<Rightarrow> target_binding \<Rightarrow> revocation_invocation \<Rightarrow> string \<Rightarrow> revocation_result revoker" where
  "resolve_unknown_commit hexdigest target i request_sha = AskState i (\<lambda>answer.
     case bindS (state_of_answer i answer) (confirmed_commit hexdigest target i request_sha) of
       Inr (Some r) \<Rightarrow> Returned r
     | Inl (RevokeRaised e) \<Rightarrow> Failed (RevokeRaised e)
     | _ \<Rightarrow> Failed (RevocationError RF_OUTCOME_UNKNOWN))"

definition commit_or_retry ::
  "hexdigest \<Rightarrow> target_binding \<Rightarrow> revocation_invocation \<Rightarrow> string \<Rightarrow> revocation_state
    \<Rightarrow> revocation_result revoker \<Rightarrow> revocation_commit \<Rightarrow> revocation_result revoker" where
  "commit_or_retry hexdigest target i request_sha s retry t = AskCommit s t (\<lambda>answer.
     case answer of
       Inl (StoreError SE_CONFLICT) \<Rightarrow> retry
     | Inl (StoreError SE_OUTCOME_UNKNOWN) \<Rightarrow> resolve_unknown_commit hexdigest target i request_sha
     | Inl e \<Rightarrow> Failed (RevocationError (commit_failure e))
     | Inr w \<Rightarrow>
         (if write_result_matches w t then Returned (sr_value (vw_result w))
          else Failed (RevocationError RF_TRUSTED_STATE_INVALID)))"

definition attempt_revocation ::
  "hexdigest \<Rightarrow> target_binding \<Rightarrow> revocation_invocation \<Rightarrow> string \<Rightarrow> string
    \<Rightarrow> revocation_result revoker \<Rightarrow> revocation_result revoker" where
  "attempt_revocation hexdigest target i request_sha recorded_at retry = read_state i (\<lambda>s.
     liftV (settle hexdigest target s request_sha) (\<lambda>settlement.
     case settlement of
       Settled r \<Rightarrow> Returned r
     | ToAdopt r \<Rightarrow> adopt_result i request_sha recorded_at r
     | Unsettled \<Rightarrow>
         liftV (raises (state_denial hexdigest target s request_sha)) (\<lambda>denial.
         case denial of
           Some code \<Rightarrow> deny_durably i request_sha recorded_at code
         | None \<Rightarrow>
             build_commit hexdigest target s request_sha recorded_at
               (commit_or_retry hexdigest target i request_sha s retry))))"

definition final_read ::
  "hexdigest \<Rightarrow> target_binding \<Rightarrow> revocation_invocation \<Rightarrow> string \<Rightarrow> string \<Rightarrow> revocation_result revoker" where
  "final_read hexdigest target i request_sha recorded_at = read_state i (\<lambda>s.
     liftV (settle hexdigest target s request_sha) (\<lambda>settlement.
     case settlement of
       Settled r \<Rightarrow> Returned r
     | ToAdopt r \<Rightarrow> adopt_result i request_sha recorded_at r
     | Unsettled \<Rightarrow> Failed (RevocationError RF_STORE_UNAVAILABLE)))"

primrec attempt_revocations ::
  "hexdigest \<Rightarrow> target_binding \<Rightarrow> revocation_invocation \<Rightarrow> string \<Rightarrow> string \<Rightarrow> nat
    \<Rightarrow> revocation_result revoker" where
  "attempt_revocations hexdigest target i request_sha recorded_at 0 =
     final_read hexdigest target i request_sha recorded_at"
| "attempt_revocations hexdigest target i request_sha recorded_at (Suc n) =
     attempt_revocation hexdigest target i request_sha recorded_at
       (attempt_revocations hexdigest target i request_sha recorded_at n)"

definition revoke ::
  "hexdigest \<Rightarrow> target_binding \<Rightarrow> route_policy \<Rightarrow> revocation_invocation \<Rightarrow> authentication_context option
    \<Rightarrow> revocation_result revoker" where
  "revoke hexdigest target policy i caller = timestamp (\<lambda>recorded_at.
     liftV (raises (epoch_revocation_request_sha256 hexdigest i)) (\<lambda>request_sha.
     liftV (raises (operator_is_exact policy i caller recorded_at)) (\<lambda>exact.
     if \<not> exact then deny_durably i request_sha recorded_at RF_CALLER_DENIED
     else attempt_revocations hexdigest target i request_sha recorded_at MAX_REVOCATION_COMMIT_ATTEMPTS)))"

text \<open>\<open>record_authenticated_denial\<close>: a denial found at the relay before the coordinator runs.\<close>

definition record_authenticated_denial ::
  "hexdigest \<Rightarrow> revocation_invocation \<Rightarrow> revocation_failure_code \<Rightarrow> unit revoker" where
  "record_authenticated_denial hexdigest i code =
    (if code \<notin> {RF_CALLER_DENIED, RF_COMMAND_DENIED} then Failed (RevocationError RF_COMMAND_DENIED)
     else
       liftV (raises (epoch_revocation_request_sha256 hexdigest i)) (\<lambda>request_sha.
       timestamp (\<lambda>recorded_at.
       record_audit (denial_audit i request_sha code recorded_at) (Returned ()))))"

end
