(* ===== verification/RootCreation.thy ===== *)
theory RootCreation
  imports EvidenceChain StoreDocuments
begin

text \<open>
  The records of one new root, \<open>application/root_creation.py\<close>, with the candidate attestation of
  \<open>application/candidate_revision.py\<close> that it takes: the preflight checks, every record that precedes the
  signature, and the result that binds the signature. The root and its result are of version 3 and 2.
\<close>

definition ROOT_CREATION_MAX_SNAPSHOT_AGE_SECONDS :: int where "ROOT_CREATION_MAX_SNAPSHOT_AGE_SECONDS = 300"

section \<open>The candidate\<close>

record candidate_configuration =
  ck_target :: target_binding
  ck_candidate_revision :: string
  ck_expected_configuration_sha256 :: string
  ck_expected_concurrency :: int
  ck_reader_identity :: string

definition validate_candidate_identity :: "target_binding \<Rightarrow> string \<Rightarrow> string \<Rightarrow> string \<Rightarrow> check" where
  "validate_candidate_identity target revision digest_name configuration_sha =
     checks
      [fails_if (\<not> controlgraph_project (tb_project_id target) \<or> contains_text ''reconcile'' (tb_project_id target)
          \<or> tb_region target \<noteq> ''us-central1'' \<or> tb_environment target \<noteq> ''nonprod''
          \<or> tb_service_name target \<noteq> ''controlgraph-reference-target'')
         (ValueError ''candidate target is outside the ControlGraph boundary''),
       fails_if (\<not> is_cloud_run_name revision \<or> \<not> starts_with (tb_service_name target @ ''-'') revision)
         (ValueError ''candidate revision is not bound to the configured service''),
       fails_if (\<not> is_sha256 configuration_sha) (ValueError (digest_name @ '' is not a SHA-256 digest''))]"

definition validate_candidate_reader :: "target_binding \<Rightarrow> int \<Rightarrow> string \<Rightarrow> check" where
  "validate_candidate_reader target concurrency reader =
     checks
      [fails_if (\<not> (1 \<le> concurrency \<and> concurrency \<le> 1000))
         (ValueError ''candidate concurrency is outside the approved bound''),
       fails_if (reader \<noteq> verifier_identity target)
         (ValueError ''candidate reader is not the configured verifier identity'')]"

definition validate_candidate_configuration :: "candidate_configuration \<Rightarrow> check" where
  "validate_candidate_configuration c =
     checks
      [validate_candidate_identity (ck_target c) (ck_candidate_revision c) ''expected candidate configuration digest''
         (ck_expected_configuration_sha256 c),
       validate_candidate_reader (ck_target c) (ck_expected_concurrency c) (ck_reader_identity c)]"

record candidate_attestation =
  ct_target :: target_binding
  ct_candidate_revision :: string
  ct_configuration_sha256 :: string
  ct_generation :: int
  ct_etag :: string
  ct_concurrency :: int
  ct_reader_identity :: string
  ct_captured_at :: string

definition validate_candidate_attestation :: "candidate_attestation \<Rightarrow> check" where
  "validate_candidate_attestation c =
     checks
      [validate_candidate_identity (ct_target c) (ct_candidate_revision c) ''candidate configuration digest''
         (ct_configuration_sha256 c),
       fails_if (\<not> (1 \<le> ct_generation c \<and> ct_generation c \<le> MAX_SAFE_INTEGER))
         (ValueError ''candidate generation is not a positive safe integer''),
       fails_if (\<not> is_opaque_token (ct_etag c)) (ValueError ''candidate etag is not an opaque provider token''),
       validate_candidate_reader (ct_target c) (ct_concurrency c) (ct_reader_identity c),
       fails_if (\<not> is_utc_second (ct_captured_at c))
         (ValueError ''candidate capture time must be an exact UTC second'')]"

section \<open>Configuration\<close>

record root_creation_configuration =
  kf_target :: target_binding
  kf_verifier_identity :: string
  kf_candidate_revision :: string
  kf_candidate_revision_configuration_sha256 :: string
  kf_concurrency :: int
  kf_capability_signing_key_version :: string
  kf_evidence_signing_key_version :: string
  kf_issuer_identity :: string
  kf_executor_identity :: string
  kf_recovery_identity :: string
  kf_executor_audience :: string
  kf_recovery_audience :: string
  kf_maximum_capability_lifetime_seconds :: int
  kf_operator_identity :: string
  kf_operator_subject :: string

definition creation_operator_valid :: "string \<Rightarrow> string \<Rightarrow> check" where
  "creation_operator_valid identity subject =
     fails_if (\<not> is_email identity \<or> ends_with ''.iam.gserviceaccount.com'' identity \<or> \<not> google_number subject)
       (ValueError ''root creation operator identity is invalid'')"

fun action_traffic :: "capability_action \<Rightarrow> int \<times> int" where
  "action_traffic AC_APPLY_CANARY = (90, 10)"
| "action_traffic AC_PROMOTE_CANDIDATE = (0, 100)"
| "action_traffic AC_RECOVER_STABLE = (100, 0)"

definition action_grant :: "capability_action \<Rightarrow> string \<Rightarrow> string \<Rightarrow> root_action_grant" where
  "action_grant action identity audience =
     \<lparr>ag_action = action, ag_subject_identity = identity, ag_audience = audience,
      ag_stable_percent = fst (action_traffic action), ag_candidate_percent = snd (action_traffic action),
      ag_maximum_attempts = (if action = AC_RECOVER_STABLE then Some 1 else None)\<rparr>"

definition creation_bounds ::
  "root_creation_configuration \<Rightarrow> rollout_plan \<Rightarrow> string \<Rightarrow> root_authority_bounds" where
  "creation_bounds k plan plan_sha =
     \<lparr>ab_target = kf_target k, ab_stable_revision = pl_stable_revision plan,
      ab_stable_revision_configuration_sha256 = pl_stable_revision_configuration_sha256 plan,
      ab_candidate_revision = pl_candidate_revision plan,
      ab_candidate_revision_configuration_sha256 = pl_candidate_revision_configuration_sha256 plan,
      ab_concurrency = pl_concurrency plan, ab_plan_sha256 = plan_sha,
      ab_capability_signing_key_version = kf_capability_signing_key_version k,
      ab_issuer_identity = kf_issuer_identity k, ab_executor_identity = kf_executor_identity k,
      ab_recovery_identity = kf_recovery_identity k, ab_executor_audience = kf_executor_audience k,
      ab_recovery_audience = kf_recovery_audience k,
      ab_maximum_capability_lifetime_seconds = kf_maximum_capability_lifetime_seconds k,
      ab_apply_canary = action_grant AC_APPLY_CANARY (kf_executor_identity k) (kf_executor_audience k),
      ab_promote_candidate = action_grant AC_PROMOTE_CANDIDATE (kf_executor_identity k) (kf_executor_audience k),
      ab_recover_stable = action_grant AC_RECOVER_STABLE (kf_recovery_identity k) (kf_recovery_audience k)\<rparr>"

definition authority_bounds_of ::
  "hexdigest \<Rightarrow> root_creation_configuration \<Rightarrow> rollout_plan \<Rightarrow> root_authority_bounds result" where
  "authority_bounds_of hexdigest k plan =
     bindR (or_raise_contract (plan_sha256 hexdigest plan)) (\<lambda>plan_sha.
     construct validate_root_authority_bounds (creation_bounds k plan plan_sha))"

definition validation_plan :: "root_creation_configuration \<Rightarrow> string \<Rightarrow> rollout_plan" where
  "validation_plan k policy_sha =
    (let check_revision = tb_service_name (kf_target k) @ ''-stable-check'' in
     \<lparr>pl_target = kf_target k, pl_stable_snapshot_sha256 = replicate 64 (CHR ''0''),
      pl_stable_revision =
        (if check_revision = kf_candidate_revision k then tb_service_name (kf_target k) @ ''-stable-check-2''
         else check_revision),
      pl_stable_revision_configuration_sha256 = replicate 64 (CHR ''1''),
      pl_candidate_revision = kf_candidate_revision k,
      pl_candidate_revision_configuration_sha256 = kf_candidate_revision_configuration_sha256 k,
      pl_concurrency = kf_concurrency k, pl_health_policy_sha256 = policy_sha\<rparr>)"

definition validate_creation_configuration ::
  "hexdigest \<Rightarrow> root_creation_configuration \<Rightarrow> root_authority_bounds result" where
  "validate_creation_configuration hexdigest k =
     bindR (construct validate_candidate_configuration
       \<lparr>ck_target = kf_target k, ck_candidate_revision = kf_candidate_revision k,
        ck_expected_configuration_sha256 = kf_candidate_revision_configuration_sha256 k,
        ck_expected_concurrency = kf_concurrency k, ck_reader_identity = kf_verifier_identity k\<rparr>) (\<lambda>_.
     bindR (construct (\<lambda>k. checks
       [creation_operator_valid (kf_operator_identity k) (kf_operator_subject k),
        validate_signing_key (kf_capability_signing_key_version k) (tb_project_id (kf_target k)) ''capability-signing'',
        validate_signing_key (kf_evidence_signing_key_version k) (tb_project_id (kf_target k)) ''evidence-signing'']) k) (\<lambda>_.
     bindR (or_raise_contract (health_policy_sha256 hexdigest HealthPolicyV2)) (\<lambda>policy_sha.
     bindR (construct validate_rollout_plan (validation_plan k policy_sha)) (authority_bounds_of hexdigest k))))"

section \<open>Preflight\<close>

definition same_stable_state :: "stable_snapshot \<Rightarrow> stable_snapshot \<Rightarrow> bool" where
  "same_stable_state a b \<longleftrightarrow>
     ss_target a = ss_target b \<and> ss_stable_revision a = ss_stable_revision b \<and> ss_traffic a = ss_traffic b
     \<and> ss_concurrency a = ss_concurrency b \<and> ss_service_generation a = ss_service_generation b
     \<and> ss_provider_etag a = ss_provider_etag b \<and> ss_configuration_sha256 a = ss_configuration_sha256 b
     \<and> ss_stable_revision_configuration_sha256 a = ss_stable_revision_configuration_sha256 b
     \<and> ss_captured_by a = ss_captured_by b"

definition preflight_holds ::
  "root_creation_configuration \<Rightarrow> stable_snapshot \<Rightarrow> candidate_attestation \<Rightarrow> stable_snapshot
    \<Rightarrow> int \<Rightarrow> int \<Rightarrow> int \<Rightarrow> int \<Rightarrow> bool" where
  "preflight_holds k snapshot candidate approved created approved_captured stable_captured candidate_captured \<longleftrightarrow>
     same_stable_state approved snapshot \<and> ss_target snapshot = kf_target k \<and> ct_target candidate = kf_target k
     \<and> ss_captured_by snapshot = kf_verifier_identity k \<and> ct_reader_identity candidate = kf_verifier_identity k
     \<and> ct_candidate_revision candidate = kf_candidate_revision k
     \<and> ct_configuration_sha256 candidate = kf_candidate_revision_configuration_sha256 k
     \<and> ss_concurrency snapshot = kf_concurrency k \<and> ct_concurrency candidate = kf_concurrency k
     \<and> approved_captured \<le> candidate_captured \<and> candidate_captured \<le> stable_captured \<and> stable_captured \<le> created
     \<and> created - approved_captured \<le> ROOT_CREATION_MAX_SNAPSHOT_AGE_SECONDS
     \<and> created - stable_captured \<le> ROOT_CREATION_MAX_SNAPSHOT_AGE_SECONDS
     \<and> created - candidate_captured \<le> ROOT_CREATION_MAX_SNAPSHOT_AGE_SECONDS"

definition validate_preflight ::
  "root_creation_configuration \<Rightarrow> stable_snapshot \<Rightarrow> candidate_attestation \<Rightarrow> stable_snapshot \<Rightarrow> string
    \<Rightarrow> unit result" where
  "validate_preflight k snapshot candidate approved created_at =
     bindR (parse_or_raise created_at) (\<lambda>created.
     bindR (parse_or_raise (ss_captured_at approved)) (\<lambda>approved_captured.
     bindR (parse_or_raise (ss_captured_at snapshot)) (\<lambda>stable_captured.
     bindR (parse_or_raise (ct_captured_at candidate)) (\<lambda>candidate_captured.
     if preflight_holds k snapshot candidate approved created approved_captured stable_captured candidate_captured
     then Inr ()
     else Inl (ValueError ''root creation preflight does not match trusted fresh state'')))))"

section \<open>The unsigned bundle\<close>

record root_creation_command =
  cm_request_id :: string
  cm_idempotency_key :: string
  cm_expected_stable_snapshot :: stable_snapshot

record unsigned_root_creation =
  un_command :: root_creation_command
  un_created_at :: string
  un_request_sha256 :: string
  un_root :: addressed_root
  un_service_claim :: service_claim
  un_initial_authority :: epoch_authority_record
  un_lineage_anchor :: lineage_anchor
  un_evidence_subject :: creation_subject
  un_evidence_event :: evidence_event

definition creation_plan ::
  "root_creation_configuration \<Rightarrow> stable_snapshot \<Rightarrow> candidate_attestation \<Rightarrow> string \<Rightarrow> string \<Rightarrow> rollout_plan" where
  "creation_plan k snapshot candidate snapshot_sha policy_sha =
     \<lparr>pl_target = kf_target k, pl_stable_snapshot_sha256 = snapshot_sha,
      pl_stable_revision = ss_stable_revision snapshot,
      pl_stable_revision_configuration_sha256 = ss_stable_revision_configuration_sha256 snapshot,
      pl_candidate_revision = ct_candidate_revision candidate,
      pl_candidate_revision_configuration_sha256 = ct_configuration_sha256 candidate,
      pl_concurrency = ss_concurrency snapshot, pl_health_policy_sha256 = policy_sha\<rparr>"

definition creation_content ::
  "root_creation_configuration \<Rightarrow> stable_snapshot \<Rightarrow> rollout_plan \<Rightarrow> root_authority_bounds
    \<Rightarrow> string \<Rightarrow> string \<Rightarrow> string \<Rightarrow> root_content" where
  "creation_content k snapshot plan bounds identity subject created_at =
     \<lparr>rc_target = kf_target k, rc_stable_snapshot = snapshot, rc_health_policy = HealthPolicyV2,
      rc_rollout_plan = plan, rc_authority_bounds = bounds,
      rc_evidence_signing_key_version = kf_evidence_signing_key_version k, rc_approved_by = identity,
      rc_approved_by_subject = subject, rc_approved_at = created_at\<rparr>"

definition first_claim ::
  "addressed_root \<Rightarrow> string \<Rightarrow> string \<Rightarrow> string \<Rightarrow> string \<Rightarrow> string \<Rightarrow> service_claim" where
  "first_claim root request_id evidence_id created_at stable_sha candidate_sha =
    (let content = ad_content root; plan = rc_rollout_plan content; snapshot = rc_stable_snapshot content in
     \<lparr>cl_target = rc_target content, cl_root_id = ad_root_id root, cl_root_sha256 = ad_root_sha256 root,
      cl_stable_revision = pl_stable_revision plan, cl_candidate_revision = pl_candidate_revision plan,
      cl_initial_epoch = 1, cl_baseline_service_generation = ss_service_generation snapshot,
      cl_baseline_configuration_sha256 = ss_configuration_sha256 snapshot,
      cl_baseline_revision_configuration_sha256 = ss_stable_revision_configuration_sha256 snapshot,
      cl_candidate_revision_configuration_sha256 = pl_candidate_revision_configuration_sha256 plan,
      cl_stable_target_configuration_sha256 = stable_sha,
      cl_candidate_target_configuration_sha256 = candidate_sha, cl_operator_owner = rc_approved_by content,
      cl_workload_creator = WORKLOAD_CREATOR,
      cl_terminal_release_condition = SERVICE_CLAIM_TERMINAL_RELEASE_CONDITION, cl_status = CS_ACTIVE,
      cl_claim_request_id = request_id, cl_claim_evidence_id = evidence_id, cl_claimed_at = created_at,
      cl_release_fence_epoch = None, cl_release_fence_authority_revision = None, cl_release_fenced_by = None,
      cl_release_fence_request_id = None, cl_release_fence_evidence_id = None, cl_release_fenced_at = None,
      cl_released_by = None, cl_release_request_id = None, cl_release_evidence_id = None,
      cl_released_at = None, cl_terminal_root_proof = None, cl_target_classification_proof = None\<rparr>)"

definition service_claim_of ::
  "hexdigest \<Rightarrow> addressed_root \<Rightarrow> string \<Rightarrow> string \<Rightarrow> string \<Rightarrow> service_claim result" where
  "service_claim_of hexdigest root request_id evidence_id created_at =
     bindR (root_target_configuration_sha256 hexdigest root 100 0) (\<lambda>stable_sha.
     bindR (root_target_configuration_sha256 hexdigest root 0 100) (\<lambda>candidate_sha.
     construct validate_service_claim (first_claim root request_id evidence_id created_at stable_sha candidate_sha)))"

definition first_authority :: "addressed_root \<Rightarrow> string \<Rightarrow> string \<Rightarrow> string \<Rightarrow> string \<Rightarrow> epoch_authority_record" where
  "first_authority root identity request_id evidence_id created_at =
     \<lparr>au_root_id = ad_root_id root, au_root_sha256 = ad_root_sha256 root, au_target = rc_target (ad_content root),
      au_current_epoch = 1, au_previous_epoch = None, au_revision = 0, au_cause = EC_ROOT_CREATED,
      au_changed_by = identity, au_request_id = request_id, au_evidence_id = evidence_id,
      au_changed_at = created_at\<rparr>"

definition creation_subject_of ::
  "hexdigest \<Rightarrow> addressed_root \<Rightarrow> service_claim \<Rightarrow> epoch_authority_record \<Rightarrow> lineage_anchor \<Rightarrow> string \<Rightarrow> string
    \<Rightarrow> string \<Rightarrow> creation_subject result" where
  "creation_subject_of hexdigest root claim auth anchor request_sha evidence_id created_at =
     bindR (lineage_anchor_sha256 hexdigest anchor) (\<lambda>anchor_sha.
     bindR (service_claim_logical_id hexdigest (rc_target (ad_content root))) (\<lambda>claim_id.
     bindR (service_claim_sha256 hexdigest claim) (\<lambda>claim_sha.
     bindR (epoch_authority_sha256 hexdigest auth) (\<lambda>authority_sha.
     construct validate_creation_subject
       \<lparr>cs_root_id = ad_root_id root, cs_root_sha256 = ad_root_sha256 root, cs_request_sha256 = request_sha,
        cs_created_at = created_at, cs_service_claim_id = claim_id, cs_service_claim_sha256 = claim_sha,
        cs_authority_id = ad_root_id root, cs_authority_sha256 = authority_sha,
        cs_lineage_anchor_id = ''cganchor:'' @ anchor_sha, cs_lineage_anchor_sha256 = anchor_sha,
        cs_evidence_id = evidence_id\<rparr>))))"

definition first_event ::
  "addressed_root \<Rightarrow> string \<Rightarrow> string \<Rightarrow> string \<Rightarrow> string \<Rightarrow> string \<Rightarrow> evidence_event" where
  "first_event root identity request_id evidence_id created_at subject_sha =
     \<lparr>ev_evidence_id = evidence_id, ev_sequence = 0, ev_root_id = ad_root_id root,
      ev_root_sha256 = ad_root_sha256 root, ev_target = rc_target (ad_content root), ev_epoch = 1,
      ev_kind = EK_ROOT_CREATED, ev_actor = identity, ev_request_id = Some request_id, ev_receipt_id = None,
      ev_occurred_at = created_at, ev_subject_sha256 = subject_sha, ev_previous_event_sha256 = None,
      ev_reason_code = None, ev_provider_operation = None,
      ev_target_configuration_sha256 = Some (ss_configuration_sha256 (rc_stable_snapshot (ad_content root)))\<rparr>"

text \<open>From the operator to the addressed root, then from the root to the records that name it.\<close>

definition create_root ::
  "hexdigest \<Rightarrow> root_creation_command \<Rightarrow> string \<Rightarrow> string \<Rightarrow> stable_snapshot \<Rightarrow> candidate_attestation
    \<Rightarrow> root_creation_configuration \<Rightarrow> string \<Rightarrow> addressed_root result" where
  "create_root hexdigest cmd identity subject snapshot candidate k created_at =
     bindR (construct (\<lambda>k. checks
       [creation_operator_valid identity subject,
        fails_if (identity \<noteq> kf_operator_identity k \<or> subject \<noteq> kf_operator_subject k)
          (ValueError ''root creation operator does not match trusted configuration'')]) k) (\<lambda>_.
     bindR (validate_preflight k snapshot candidate (cm_expected_stable_snapshot cmd) created_at) (\<lambda>_.
     bindR (or_raise_contract (stable_snapshot_sha256 hexdigest snapshot)) (\<lambda>snapshot_sha.
     bindR (or_raise_contract (health_policy_sha256 hexdigest HealthPolicyV2)) (\<lambda>policy_sha.
     bindR (construct validate_rollout_plan (creation_plan k snapshot candidate snapshot_sha policy_sha)) (\<lambda>plan.
     bindR (authority_bounds_of hexdigest k plan) (\<lambda>bounds.
     bindR (construct (validate_root_content hexdigest)
       (creation_content k snapshot plan bounds identity subject created_at)) (create_rollout_root_of hexdigest)))))))"

definition build_unsigned_root_creation ::
  "hexdigest \<Rightarrow> root_creation_command \<Rightarrow> string \<Rightarrow> string \<Rightarrow> stable_snapshot \<Rightarrow> candidate_attestation
    \<Rightarrow> root_creation_configuration \<Rightarrow> string \<Rightarrow> unsigned_root_creation result" where
  "build_unsigned_root_creation hexdigest cmd identity subject snapshot candidate k created_at =
     bindR (create_root hexdigest cmd identity subject snapshot candidate k created_at) (\<lambda>root.
     bindR (root_creation_request_sha256 hexdigest root (cm_request_id cmd) (cm_idempotency_key cmd)
       identity subject) (\<lambda>request_sha.
     (let evidence_id = ''cgevidence:'' @ request_sha in
     bindR (service_claim_of hexdigest root (cm_request_id cmd) evidence_id created_at) (\<lambda>claim.
     bindR (construct validate_authority_record
       (first_authority root identity (cm_request_id cmd) evidence_id created_at)) (\<lambda>auth.
     bindR (or_raise_contract (capability_lineage_anchor hexdigest root)) (\<lambda>anchor.
     bindR (creation_subject_of hexdigest root claim auth anchor request_sha evidence_id created_at) (\<lambda>about.
     bindR (creation_subject_sha256 hexdigest about) (\<lambda>subject_sha.
     bindR (construct validate_evidence_event
       (first_event root identity (cm_request_id cmd) evidence_id created_at subject_sha)) (\<lambda>event.
     Inr \<lparr>un_command = cmd, un_created_at = created_at, un_request_sha256 = request_sha, un_root = root,
          un_service_claim = claim, un_initial_authority = auth, un_lineage_anchor = anchor,
          un_evidence_subject = about, un_evidence_event = event\<rparr>)))))))))"

section \<open>The signed bundle\<close>

record root_creation_artifacts =
  ra_new_root :: addressed_root
  ra_new_claim :: service_claim
  ra_new_authority :: epoch_authority_record
  ra_new_anchor :: lineage_anchor
  ra_new_evidence :: signed_evidence_event
  ra_creation_result :: root_creation_result

definition creation_result_of ::
  "unsigned_root_creation \<Rightarrow> signed_evidence_event \<Rightarrow> string \<Rightarrow> string \<Rightarrow> string \<Rightarrow> string \<Rightarrow> string
    \<Rightarrow> root_creation_result" where
  "creation_result_of u s claim_id claim_sha authority_sha anchor_sha evidence_sha =
    (let c = un_command u; content = ad_content (un_root u) in
     \<lparr>wr_outcome = CREATED, wr_request_id = cm_request_id c, wr_idempotency_key = cm_idempotency_key c,
      wr_operator_identity = rc_approved_by content, wr_operator_subject = rc_approved_by_subject content,
      wr_request_sha256 = un_request_sha256 u, wr_created_at = un_created_at u,
      wr_winner_request_id = cm_request_id c, wr_winner_idempotency_key = cm_idempotency_key c,
      wr_winner_operator_identity = rc_approved_by content,
      wr_winner_operator_subject = rc_approved_by_subject content,
      wr_winner_request_sha256 = un_request_sha256 u, wr_winner_service_claim_id = claim_id,
      wr_winner_service_claim_sha256 = claim_sha, wr_winner_authority_id = ad_root_id (un_root u),
      wr_winner_authority_sha256 = authority_sha, wr_winner_lineage_anchor_id = ''cganchor:'' @ anchor_sha,
      wr_winner_lineage_anchor_sha256 = anchor_sha, wr_winner_evidence_id = ev_evidence_id (se_event s),
      wr_winner_evidence_sha256 = evidence_sha, wr_root = un_root u,
      wr_initial_authority = un_initial_authority u, wr_lineage_anchor = un_lineage_anchor u,
      wr_evidence_subject = un_evidence_subject u, wr_signed_evidence = s\<rparr>)"

definition complete_root_creation ::
  "hexdigest \<Rightarrow> unsigned_root_creation \<Rightarrow> signed_evidence_event \<Rightarrow> root_creation_artifacts result" where
  "complete_root_creation hexdigest u s =
    (if se_event s \<noteq> un_evidence_event u
        \<or> se_signing_key_version s \<noteq> rc_evidence_signing_key_version (ad_content (un_root u))
     then Inl (ValueError ''signed evidence does not match the root creation event'')
     else
       bindR (service_claim_logical_id hexdigest (rc_target (ad_content (un_root u)))) (\<lambda>claim_id.
       bindR (service_claim_sha256 hexdigest (un_service_claim u)) (\<lambda>claim_sha.
       bindR (epoch_authority_sha256 hexdigest (un_initial_authority u)) (\<lambda>authority_sha.
       bindR (lineage_anchor_sha256 hexdigest (un_lineage_anchor u)) (\<lambda>anchor_sha.
       bindR (signed_evidence_sha256 hexdigest s) (\<lambda>evidence_sha.
       bindR (construct (validate_root_creation_result hexdigest)
         (creation_result_of u s claim_id claim_sha authority_sha anchor_sha evidence_sha)) (\<lambda>r.
       Inr \<lparr>ra_new_root = un_root u, ra_new_claim = un_service_claim u,
            ra_new_authority = un_initial_authority u, ra_new_anchor = un_lineage_anchor u,
            ra_new_evidence = s, ra_creation_result = r\<rparr>)))))))"

end
