(* ===== verification/RevocationStore.thy ===== *)
theory RevocationStore
  imports Revocation RootCreation
begin

text \<open>
  The persistence of a revocation, \<open>integrations/google/firestore.py\<close>: the store's own validation of a
  commit, the transaction that writes its eight documents, the consistent read of a revocation state, and
  the per-attempt audit. As in the receipt store, what Firestore did with a transaction is an argument and
  the database read back afterwards is another one. Each collection is keyed by logical identity: a
  document's path is a digest of it, so two records share a path only when the digest collides.
\<close>

section \<open>The store's validation\<close>

definition request_open :: "revocation_state \<Rightarrow> bool" where
  "request_open s \<longleftrightarrow>
     vx_request_identity s = None \<and> vx_idempotency_identity s = None \<and> vx_result s = None
     \<and> vx_attempt_audit s = None"

definition active_root_matches ::
  "target_binding \<Rightarrow> revocation_invocation \<Rightarrow> root_creation_bundle \<Rightarrow> epoch_authority_record \<Rightarrow> bool" where
  "active_root_matches configured i bundle replacement \<longleftrightarrow>
    (let c = vi_command i; root = sr_value (bu_root bundle); claim = sr_value (bu_service_claim bundle) in
     rc_target (ad_content root) = configured \<and> ad_root_id root = vk_root_id c
     \<and> ad_root_sha256 root = vk_expected_root_sha256 c \<and> cl_status claim = CS_ACTIVE
     \<and> sr_revision (bu_service_claim bundle) mod 3 = 0 \<and> cl_root_id claim = ad_root_id root
     \<and> cl_root_sha256 claim = ad_root_sha256 root
     \<and> au_current_epoch (sr_value (bu_authority bundle)) = vk_expected_epoch c
     \<and> au_cause replacement = EC_OPERATOR_REVOCATION \<and> au_changed_by replacement = vi_operator_identity i
     \<and> au_request_id replacement = vk_request_id c)"

definition result_matches_commit ::
  "target_binding \<Rightarrow> revocation_invocation \<Rightarrow> root_creation_bundle \<Rightarrow> revocation_commit \<Rightarrow> string \<Rightarrow> string \<Rightarrow> bool" where
  "result_matches_commit configured i bundle t request_sha evidence_sha \<longleftrightarrow>
    (let c = vi_command i; root = sr_value (bu_root bundle); r = vt_result t;
         replacement = vt_replacement_authority t in
     vr_request_sha256 r = request_sha \<and> vr_result_id r = ''cgrevoke:'' @ request_sha
     \<and> vr_request_id r = vk_request_id c \<and> vr_idempotency_key r = vk_idempotency_key c
     \<and> vr_root_id r = ad_root_id root \<and> vr_root_sha256 r = ad_root_sha256 root \<and> vr_target r = configured
     \<and> vr_operator_identity r = vi_operator_identity i \<and> vr_operator_subject r = vi_operator_subject i
     \<and> vr_reason r = vk_reason c \<and> vr_previous_epoch r = au_current_epoch (sr_value (bu_authority bundle))
     \<and> vr_new_epoch r = au_current_epoch replacement \<and> vr_evidence_id r = au_evidence_id replacement
     \<and> vr_evidence_sha256 r = evidence_sha \<and> vr_evidence_subject r = vt_evidence_subject t
     \<and> vr_committed_at r = au_changed_at replacement)"

definition subject_matches_commit ::
  "revocation_subject \<Rightarrow> revocation_result \<Rightarrow> string \<Rightarrow> string \<Rightarrow> string \<Rightarrow> string \<Rightarrow> bool" where
  "subject_matches_commit s r request_sha claim_sha previous_sha replacement_sha \<longleftrightarrow>
     vs_root_id s = vr_root_id r \<and> vs_root_sha256 s = vr_root_sha256 r \<and> vs_request_sha256 s = request_sha
     \<and> vs_request_id s = vr_request_id r \<and> vs_idempotency_key s = vr_idempotency_key r
     \<and> vs_operator_identity s = vr_operator_identity r \<and> vs_operator_subject s = vr_operator_subject r
     \<and> vs_reason s = vr_reason r \<and> vs_service_claim_sha256 s = claim_sha
     \<and> vs_previous_authority_sha256 s = previous_sha \<and> vs_replacement_authority_sha256 s = replacement_sha
     \<and> vs_previous_epoch s = vr_previous_epoch r \<and> vs_new_epoch s = vr_new_epoch r
     \<and> vs_evidence_id s = vr_evidence_id r \<and> vs_committed_at s = vr_committed_at r"

definition event_matches_commit ::
  "target_binding \<Rightarrow> revocation_invocation \<Rightarrow> root_creation_bundle \<Rightarrow> revocation_commit \<Rightarrow> string \<Rightarrow> bool" where
  "event_matches_commit configured i bundle t subject_sha \<longleftrightarrow>
    (let event = se_event (vt_signed_evidence t); r = vt_result t in
     ev_evidence_id event = vr_evidence_id r \<and> ev_root_id event = vr_root_id r
     \<and> ev_root_sha256 event = vr_root_sha256 r \<and> ev_target event = configured
     \<and> ev_epoch event = vr_new_epoch r \<and> ev_kind event = EK_EPOCH_ADVANCED
     \<and> ev_actor event = vi_operator_identity i \<and> ev_request_id event = Some (vk_request_id (vi_command i))
     \<and> ev_receipt_id event = None \<and> ev_occurred_at event = vr_committed_at r
     \<and> ev_subject_sha256 event = subject_sha \<and> ev_reason_code event = None
     \<and> ev_provider_operation event = None \<and> ev_target_configuration_sha256 event = None
     \<and> se_signing_key_version (vt_signed_evidence t)
         = rc_evidence_signing_key_version (ad_content (sr_value (bu_root bundle))))"

text \<open>The event the new one must follow: the root's, or the one the stored head names.\<close>

definition predecessor_record ::
  "revocation_state \<Rightarrow> root_creation_bundle \<Rightarrow> signed_evidence_event stored_record option" where
  "predecessor_record s bundle =
     (if vx_chain_head s = None then Some (bu_signed_evidence bundle) else vx_head_evidence s)"

definition chain_extended ::
  "target_binding \<Rightarrow> revocation_commit \<Rightarrow> evidence_chain_head \<Rightarrow> string \<Rightarrow> string \<Rightarrow> bool" where
  "chain_extended configured t previous predecessor_sha evidence_sha \<longleftrightarrow>
    (let event = se_event (vt_signed_evidence t); head = vt_chain_head t; r = vt_result t in
     ev_sequence event = hd_sequence previous + 1 \<and> ev_previous_event_sha256 event = Some predecessor_sha
     \<and> hd_updated_at previous \<le> ev_occurred_at event \<and> hd_root_id head = vr_root_id r
     \<and> hd_root_sha256 head = vr_root_sha256 r \<and> hd_target head = configured
     \<and> hd_sequence head = ev_sequence event \<and> hd_evidence_id head = ev_evidence_id event
     \<and> hd_evidence_sha256 head = evidence_sha \<and> hd_kind head = ev_kind event
     \<and> hd_epoch head = ev_epoch event \<and> hd_updated_at head = ev_occurred_at event)"

definition identity_claims_result ::
  "revocation_identity \<Rightarrow> revocation_identity_kind \<Rightarrow> string \<Rightarrow> revocation_result \<Rightarrow> string \<Rightarrow> bool" where
  "identity_claims_result d kind value r request_sha \<longleftrightarrow>
     vd_kind d = kind \<and> vd_value d = value \<and> vd_root_id d = vr_root_id r
     \<and> vd_root_sha256 d = vr_root_sha256 r \<and> vd_request_sha256 d = request_sha
     \<and> vd_result_id d = vr_result_id r \<and> vd_claimed_at d = vr_committed_at r"

definition audit_accepts ::
  "revocation_audit \<Rightarrow> revocation_invocation \<Rightarrow> revocation_result \<Rightarrow> string \<Rightarrow> bool" where
  "audit_accepts a i r request_sha \<longleftrightarrow>
     va_audit_id a = vi_attempt_id i \<and> va_attempt_id a = vi_attempt_id i \<and> va_request_sha256 a = request_sha
     \<and> va_root_id a = vr_root_id r \<and> va_root_sha256 a = vr_root_sha256 r
     \<and> va_expected_epoch a = vk_expected_epoch (vi_command i) \<and> va_request_id a = vr_request_id r
     \<and> va_idempotency_key a = vr_idempotency_key r \<and> va_operator_identity a = vr_operator_identity r
     \<and> va_operator_subject a = vr_operator_subject r \<and> va_outcome a = RA_COMMITTED
     \<and> va_result_id a = Some (vr_result_id r) \<and> va_evidence_id a = Some (vr_evidence_id r)
     \<and> va_new_epoch a = Some (vr_new_epoch r) \<and> va_recorded_at a = vr_committed_at r"

definition validate_epoch_revocation_commit ::
  "hexdigest \<Rightarrow> target_binding \<Rightarrow> revocation_state \<Rightarrow> revocation_commit \<Rightarrow> unit result" where
  "validate_epoch_revocation_commit hexdigest configured s t =
    (case vx_root_bundle s of
       None \<Rightarrow> Inl (TypeError ''epoch revocation commit requires exact state and records'')
     | Some bundle \<Rightarrow>
       (if \<not> request_open s then Inl (TypeError ''epoch revocation commit requires exact state and records'')
        else
        (let i = vx_invocation s; r = vt_result t; replacement = vt_replacement_authority t;
             incoherent = Inl (ValueError ''epoch revocation result and evidence are incoherent'') in
         bindR (epoch_revocation_request_sha256 hexdigest i) (\<lambda>request_sha.
         bindR (construct (validate_authority_advance configured (bu_authority bundle)) replacement) (\<lambda>_.
         if \<not> active_root_matches configured i bundle replacement
         then Inl (ValueError ''epoch revocation does not match active root authority'')
         else
         bindR (signed_evidence_sha256 hexdigest (vt_signed_evidence t)) (\<lambda>evidence_sha.
         if \<not> result_matches_commit configured i bundle t request_sha evidence_sha then incoherent
         else
         bindR (service_claim_sha256 hexdigest (sr_value (bu_service_claim bundle))) (\<lambda>claim_sha.
         bindR (epoch_authority_sha256 hexdigest (sr_value (bu_authority bundle))) (\<lambda>previous_sha.
         bindR (epoch_authority_sha256 hexdigest replacement) (\<lambda>replacement_sha.
         bindR (revocation_subject_sha256 hexdigest (vt_evidence_subject t)) (\<lambda>subject_sha.
         if \<not> subject_matches_commit (vt_evidence_subject t) r request_sha claim_sha previous_sha replacement_sha
            \<or> \<not> event_matches_commit configured i bundle t subject_sha
         then incoherent
         else
         bindR (predecessor_head hexdigest configured s) (\<lambda>previous.
         (case predecessor_record s bundle of
            None \<Rightarrow> Inl (ValueError ''evidence head record is invalid'')
          | Some predecessor \<Rightarrow>
         bindR (signed_evidence_sha256 hexdigest (sr_value predecessor)) (\<lambda>predecessor_sha.
         if \<not> chain_extended configured t previous predecessor_sha evidence_sha
         then Inl (ValueError ''epoch revocation evidence-chain update is invalid'')
         else if \<not> identity_claims_result (vt_request_identity t) RI_REQUEST
              (vk_request_id (vi_command i)) r request_sha
            \<or> \<not> identity_claims_result (vt_idempotency_identity t) RI_IDEMPOTENCY
              (vk_idempotency_key (vi_command i)) r request_sha
         then Inl (ValueError ''epoch revocation identity claims are invalid'')
         else if \<not> audit_accepts (vt_audit t) i r request_sha
         then Inl (ValueError ''epoch revocation accepted audit is invalid'')
         else Inr ())))))))))))))"

section \<open>Documents\<close>

text \<open>\<open>_LogicalIdentity\<close>, and the three kinds of identity in one collection.\<close>

fun revocation_identity_prefix :: "revocation_identity_kind \<Rightarrow> string" where
  "revocation_identity_prefix RI_REQUEST = ''REQUEST''"
| "revocation_identity_prefix RI_IDEMPOTENCY = ''IDEMPOTENCY''"
| "revocation_identity_prefix RI_EPOCH = ''EPOCH''"

definition logical_identity :: "string \<Rightarrow> string result" where
  "logical_identity v =
     (if is_identifier v then Inr v else Inl (ValueError ''authority storage logical identifier is invalid''))"

definition revocation_identity_logical_id :: "revocation_identity_kind \<Rightarrow> string \<Rightarrow> string result" where
  "revocation_identity_logical_id kind value =
     bindR (logical_identity value) (\<lambda>v. Inr (revocation_identity_prefix kind @ '':'' @ v))"

definition epoch_identity_value :: "string \<Rightarrow> int \<Rightarrow> string result" where
  "epoch_identity_value root_id epoch =
    (if starts_with ''cgroot:'' root_id \<and> is_sha256 (drop 7 root_id) \<and> 2 \<le> epoch \<and> epoch \<le> MAX_SAFE_INTEGER
     then Inr (root_id @ '':epoch:'' @ show_int epoch)
     else Inl (ValueError ''revocation epoch identity is invalid''))"

definition immutable_wrapper :: "('a \<Rightarrow> check) \<Rightarrow> ('a \<Rightarrow> string result) \<Rightarrow> string \<Rightarrow> 'a document \<Rightarrow> check" where
  "immutable_wrapper validate logical_of logical_id d =
     checks
      [validate_wrapper_fields logical_id d, validate (doc_value d),
       fails_if (doc_revision d \<noteq> 0) (ValueError ''immutable authority record must remain at revision zero''),
       wrong_identity (logical_of (doc_value d)) logical_id]"

definition validate_head_wrapper :: "string \<Rightarrow> evidence_chain_head document \<Rightarrow> check" where
  "validate_head_wrapper logical_id d =
     checks
      [validate_wrapper_fields logical_id d, validate_evidence_chain_head (doc_value d),
       fails_if (doc_revision d \<noteq> hd_sequence (doc_value d))
         (ValueError ''evidence head storage and sequence revisions do not match''),
       wrong_identity (Inr (hd_root_id (doc_value d))) logical_id]"

definition evidence_wrapper :: "hexdigest \<Rightarrow> string \<Rightarrow> signed_evidence_event document \<Rightarrow> check" where
  "evidence_wrapper hexdigest =
     immutable_wrapper (validate_signed_evidence hexdigest) (\<lambda>s. Inr (ev_evidence_id (se_event s)))"

definition identity_wrapper :: "string \<Rightarrow> revocation_identity document \<Rightarrow> check" where
  "identity_wrapper =
     immutable_wrapper validate_revocation_identity (\<lambda>d. revocation_identity_logical_id (vd_kind d) (vd_value d))"

definition result_wrapper :: "hexdigest \<Rightarrow> string \<Rightarrow> revocation_result document \<Rightarrow> check" where
  "result_wrapper hexdigest = immutable_wrapper (validate_revocation_result hexdigest) (\<lambda>r. Inr (vr_result_id r))"

definition audit_wrapper :: "string \<Rightarrow> revocation_audit document \<Rightarrow> check" where
  "audit_wrapper = immutable_wrapper validate_revocation_audit (\<lambda>a. Inr (va_audit_id a))"

text \<open>A document under its logical identity; the identity is one the path function accepts.\<close>

definition keyed ::
  "string result \<Rightarrow> (string \<Rightarrow> 'a document \<Rightarrow> check) \<Rightarrow> 'a document \<Rightarrow> (string \<times> 'a document) result" where
  "keyed logical validate d = prepared logical (bindR logical logical_identity) validate d"

record revocation_documents =
  xd_authority :: "string \<times> epoch_authority_record document"
  xd_evidence :: "string \<times> signed_evidence_event document"
  xd_head :: "string \<times> evidence_chain_head document"
  xd_result :: "string \<times> revocation_result document"
  xd_request :: "string \<times> revocation_identity document"
  xd_idempotency :: "string \<times> revocation_identity document"
  xd_epoch :: "string \<times> revocation_identity document"
  xd_audit :: "string \<times> revocation_audit document"

definition epoch_identity :: "revocation_commit \<Rightarrow> string \<Rightarrow> revocation_identity" where
  "epoch_identity t value = identity_claim (vt_result t) RI_EPOCH value"

definition identity_document :: "string \<Rightarrow> revocation_identity \<Rightarrow> (string \<times> revocation_identity document) result" where
  "identity_document m d =
     keyed (revocation_identity_logical_id (vd_kind d) (vd_value d)) identity_wrapper (new_document 0 m d)"

definition prepare_revocation_documents ::
  "hexdigest \<Rightarrow> (nat \<Rightarrow> string) \<Rightarrow> revocation_commit \<Rightarrow> revocation_documents result" where
  "prepare_revocation_documents hexdigest mutation t =
     bindR (keyed (Inr (au_root_id (vt_replacement_authority t))) validate_authority_wrapper
       (new_document (au_revision (vt_replacement_authority t)) (mutation 0) (vt_replacement_authority t))) (\<lambda>a.
     bindR (keyed (Inr (ev_evidence_id (se_event (vt_signed_evidence t)))) (evidence_wrapper hexdigest)
       (new_document 0 (mutation 1) (vt_signed_evidence t))) (\<lambda>e.
     bindR (keyed (Inr (hd_root_id (vt_chain_head t))) validate_head_wrapper
       (new_document (hd_sequence (vt_chain_head t)) (mutation 2) (vt_chain_head t))) (\<lambda>h.
     bindR (keyed (Inr (vr_result_id (vt_result t))) (result_wrapper hexdigest)
       (new_document 0 (mutation 3) (vt_result t))) (\<lambda>r.
     bindR (identity_document (mutation 4) (vt_request_identity t)) (\<lambda>q.
     bindR (identity_document (mutation 5) (vt_idempotency_identity t)) (\<lambda>k.
     bindR (epoch_identity_value (vr_root_id (vt_result t)) (vr_new_epoch (vt_result t))) (\<lambda>value.
     bindR (construct validate_revocation_identity (epoch_identity t value)) (\<lambda>identity.
     bindR (identity_document (mutation 6) identity) (\<lambda>n.
     bindR (keyed (Inr (va_audit_id (vt_audit t))) audit_wrapper (new_document 0 (mutation 7) (vt_audit t))) (\<lambda>u.
     Inr \<lparr>xd_authority = a, xd_evidence = e, xd_head = h, xd_result = r, xd_request = q, xd_idempotency = k,
          xd_epoch = n, xd_audit = u\<rparr>))))))))))"

section \<open>The database\<close>

record revocation_db =
  vb_roots_v2 :: "string \<rightharpoonup> addressed_root document"
  vb_roots_v3 :: "string \<rightharpoonup> addressed_root document"
  vb_claims :: "string \<rightharpoonup> service_claim document"
  vb_authorities :: "string \<rightharpoonup> epoch_authority_record document"
  vb_anchors :: "string \<rightharpoonup> lineage_anchor document"
  vb_evidence :: "string \<rightharpoonup> signed_evidence_event document"
  vb_creations_v1 :: "string \<rightharpoonup> root_creation_result document"
  vb_creations_v2 :: "string \<rightharpoonup> root_creation_result document"
  vb_heads :: "string \<rightharpoonup> evidence_chain_head document"
  vb_identities :: "string \<rightharpoonup> revocation_identity document"
  vb_results :: "string \<rightharpoonup> revocation_result document"
  vb_audits :: "string \<rightharpoonup> revocation_audit document"

definition stored_at :: "('k \<rightharpoonup> 'a document) \<Rightarrow> 'k \<Rightarrow> 'a stored_record option" where
  "stored_at coll k = map_option stored_of (coll k)"

text \<open>A record that may be in one of two versioned collections, with whether it is the newer one.\<close>

definition read_versioned ::
  "(string \<rightharpoonup> 'a document) \<Rightarrow> (string \<rightharpoonup> 'a document) \<Rightarrow> string \<Rightarrow> store_error + (bool \<times> 'a stored_record) option" where
  "read_versioned older newer k =
    (case (stored_at older k, stored_at newer k) of
       (Some _, Some _) \<Rightarrow> Inl SE_CORRUPT_RECORD
     | (None, Some x) \<Rightarrow> Inr (Some (True, x))
     | (Some x, None) \<Rightarrow> Inr (Some (False, x))
     | (None, None) \<Rightarrow> Inr None)"

definition content_addressed_root ::
  "revocation_db \<Rightarrow> string \<Rightarrow> store_error + (bool \<times> addressed_root stored_record) option" where
  "content_addressed_root db = read_versioned (vb_roots_v2 db) (vb_roots_v3 db)"

section \<open>Reading a state\<close>

text \<open>\<open>service_claim_matches_root_v2\<close> and \<open>service_claim_matches_root_v3\<close> of the storage contracts.\<close>

definition claim_binds_root :: "hexdigest \<Rightarrow> service_claim \<Rightarrow> addressed_root \<Rightarrow> bool" where
  "claim_binds_root hexdigest claim root \<longleftrightarrow>
    (let content = ad_content root; snapshot = rc_stable_snapshot content in
     service_claim_matches_addressed_root hexdigest claim root
     \<and> is_sha256 (cl_stable_target_configuration_sha256 claim)
     \<and> is_sha256 (cl_candidate_target_configuration_sha256 claim)
     \<and> ss_captured_by snapshot = verifier_identity (rc_target content)
     \<and> ss_captured_at snapshot \<le> rc_approved_at content)"

definition claim_coherent :: "hexdigest \<Rightarrow> root_creation_bundle \<Rightarrow> bool" where
  "claim_coherent hexdigest bundle \<longleftrightarrow>
    (let root = sr_value (bu_root bundle); claim = sr_value (bu_service_claim bundle) in
     cl_root_id claim = ad_root_id root \<longrightarrow>
       claim_binds_root hexdigest claim root
       \<and> (sr_revision (bu_service_claim bundle) = 0 \<longrightarrow>
            service_claim_sha256 hexdigest claim
              = Inr (wr_winner_service_claim_sha256 (sr_value (bu_creation_result bundle)))))"

definition read_bundle_valid :: "hexdigest \<Rightarrow> target_binding \<Rightarrow> root_creation_bundle \<Rightarrow> bool" where
  "read_bundle_valid hexdigest configured bundle \<longleftrightarrow>
    (let root = sr_value (bu_root bundle); claim = sr_value (bu_service_claim bundle);
         a = sr_value (bu_authority bundle); anchor = sr_value (bu_lineage_anchor bundle);
         evidence = sr_value (bu_signed_evidence bundle); r = sr_value (bu_creation_result bundle) in
     rc_target (ad_content root) = configured \<and> cl_target claim = configured \<and> au_target a = configured
     \<and> la_target anchor = configured \<and> ev_target (se_event evidence) = configured
     \<and> sr_revision (bu_root bundle) = 0 \<and> sr_revision (bu_lineage_anchor bundle) = 0
     \<and> sr_revision (bu_signed_evidence bundle) = 0 \<and> sr_revision (bu_creation_result bundle) = 0
     \<and> wr_outcome r = CREATED \<and> wr_root r = root \<and> wr_lineage_anchor r = anchor
     \<and> wr_signed_evidence r = evidence
     \<and> or_raise_contract (capability_lineage_anchor hexdigest root) = Inr anchor
     \<and> au_root_id a = ad_root_id root \<and> au_root_sha256 a = ad_root_sha256 root
     \<and> au_revision a = sr_revision (bu_authority bundle)
     \<and> service_claim_logical_id hexdigest configured = Inr (wr_winner_service_claim_id r)
     \<and> claim_coherent hexdigest bundle)"

text \<open>The root-specific records are all there or none is; the others follow from the creation result.\<close>

definition read_dependents ::
  "hexdigest \<Rightarrow> target_binding \<Rightarrow> revocation_db \<Rightarrow> addressed_root stored_record
    \<Rightarrow> epoch_authority_record stored_record \<Rightarrow> root_creation_result stored_record
    \<Rightarrow> store_failure + root_creation_bundle" where
  "read_dependents hexdigest configured db root auth creation =
    (case (service_claim_logical_id hexdigest configured,
           lineage_anchor_logical_id hexdigest (wr_lineage_anchor (sr_value creation))) of
       (Inl e, _) \<Rightarrow> Inl (Raised e)
     | (_, Inl e) \<Rightarrow> Inl (Raised e)
     | (Inr claim_key, Inr anchor_key) \<Rightarrow>
         (if anchor_key \<noteq> wr_winner_lineage_anchor_id (sr_value creation) then Inl (StoreError SE_CORRUPT_RECORD)
          else
           (case (stored_at (vb_claims db) claim_key, stored_at (vb_anchors db) anchor_key,
                  stored_at (vb_evidence db) (wr_winner_evidence_id (sr_value creation))) of
              (Some claim, Some anchor, Some evidence) \<Rightarrow>
                Inr \<lparr>bu_root = root, bu_service_claim = claim, bu_authority = auth, bu_lineage_anchor = anchor,
                     bu_signed_evidence = evidence, bu_creation_result = creation\<rparr>
            | _ \<Rightarrow> Inl (StoreError SE_CORRUPT_RECORD))))"

definition read_root_bundle ::
  "hexdigest \<Rightarrow> target_binding \<Rightarrow> string \<Rightarrow> revocation_db \<Rightarrow> store_failure + root_creation_bundle option" where
  "read_root_bundle hexdigest configured root_id db =
    (case (content_addressed_root db root_id, stored_at (vb_authorities db) root_id,
           read_versioned (vb_creations_v1 db) (vb_creations_v2 db) root_id) of
       (Inl e, _, _) \<Rightarrow> Inl (StoreError e)
     | (_, _, Inl e) \<Rightarrow> Inl (StoreError e)
     | (Inr None, None, Inr None) \<Rightarrow> Inr None
     | (Inr (Some (v3, root)), Some auth, Inr (Some (v2, creation))) \<Rightarrow>
         (if v3 \<noteq> v2 then Inl (StoreError SE_CORRUPT_RECORD)
          else
           (case read_dependents hexdigest configured db root auth creation of
              Inl e \<Rightarrow> Inl e
            | Inr bundle \<Rightarrow> Inr (Some bundle)))
     | _ \<Rightarrow> Inl (StoreError SE_CORRUPT_RECORD))"

text \<open>An evidence record already read under its identity is reused; a missing one is corrupt.\<close>

definition evidence_named ::
  "revocation_db \<Rightarrow> signed_evidence_event stored_record option list \<Rightarrow> string
    \<Rightarrow> store_failure + signed_evidence_event stored_record" where
  "evidence_named db known evidence_id =
    (case List.find (\<lambda>s. ev_evidence_id (se_event (sr_value s)) = evidence_id) (List.map_filter id known) of
       Some s \<Rightarrow> Inr s
     | None \<Rightarrow>
         (case stored_at (vb_evidence db) evidence_id of
            Some s \<Rightarrow> Inr s
          | None \<Rightarrow> Inl (StoreError SE_CORRUPT_RECORD)))"

definition evidence_for ::
  "revocation_db \<Rightarrow> signed_evidence_event stored_record option list \<Rightarrow> string option
    \<Rightarrow> store_failure + signed_evidence_event stored_record option" where
  "evidence_for db known wanted =
    (case wanted of
       None \<Rightarrow> Inr None
     | Some evidence_id \<Rightarrow> bindS (evidence_named db known evidence_id) (\<lambda>s. Inr (Some s)))"

definition raised_by_store :: "'a result \<Rightarrow> store_failure + 'a" where
  "raised_by_store r = (case r of Inl e \<Rightarrow> Inl (Raised e) | Inr x \<Rightarrow> Inr x)"

definition read_epoch_revocation_state ::
  "hexdigest \<Rightarrow> target_binding \<Rightarrow> revocation_invocation \<Rightarrow> revocation_db \<Rightarrow> store_failure + revocation_state" where
  "read_epoch_revocation_state hexdigest configured i db =
    (let c = vi_command i; head = stored_at (vb_heads db) (vk_root_id c) in
     bindS (raised_by_store (epoch_revocation_request_sha256 hexdigest i)) (\<lambda>request_sha.
     bindS (read_root_bundle hexdigest configured (vk_root_id c) db) (\<lambda>bundle.
     bindS (evidence_for db [map_option bu_signed_evidence bundle]
       (map_option (\<lambda>h. hd_evidence_id (sr_value h)) head)) (\<lambda>head_evidence.
     bindS (raised_by_store (revocation_identity_logical_id RI_REQUEST (vk_request_id c))) (\<lambda>request_key.
     bindS (raised_by_store (revocation_identity_logical_id RI_IDEMPOTENCY (vk_idempotency_key c))) (\<lambda>idempotency_key.
     let found = stored_at (vb_results db) (revocation_result_id request_sha) in
     bindS (evidence_for db [head_evidence, map_option bu_signed_evidence bundle]
       (map_option (\<lambda>r. vr_evidence_id (sr_value r)) found)) (\<lambda>result_evidence.
     guardS (if pred_option (read_bundle_valid hexdigest configured) bundle then None
         else Some (StoreError SE_CORRUPT_RECORD))
     (Inr \<lparr>vx_invocation = i, vx_root_bundle = bundle, vx_chain_head = head,
          vx_head_evidence = head_evidence,
          vx_request_identity = stored_at (vb_identities db) request_key,
          vx_idempotency_identity = stored_at (vb_identities db) idempotency_key,
          vx_result = found, vx_result_evidence = result_evidence,
          vx_attempt_audit = stored_at (vb_audits db) (vi_attempt_id i)\<rparr>))))))))"

section \<open>The commit\<close>

text \<open>
  The transaction body: everything the decision rested on must still be stored as it was read, no event,
  result, identity or audit of this revocation may exist, then the eight documents are written together.
\<close>

definition decision_unchanged ::
  "revocation_db \<Rightarrow> revocation_state \<Rightarrow> root_creation_bundle \<Rightarrow> string \<Rightarrow> revocation_documents \<Rightarrow> bool" where
  "decision_unchanged db s bundle claim_key docs \<longleftrightarrow>
     stored_at (vb_claims db) claim_key = Some (bu_service_claim bundle)
     \<and> stored_at (vb_authorities db) (fst (xd_authority docs)) = Some (bu_authority bundle)
     \<and> stored_at (vb_heads db) (fst (xd_head docs)) = vx_chain_head s
     \<and> (case predecessor_record s bundle of
          None \<Rightarrow> False
        | Some p \<Rightarrow> stored_at (vb_evidence db) (ev_evidence_id (se_event (sr_value p))) = Some p)
     \<and> stored_at (vb_identities db) (fst (xd_request docs)) = vx_request_identity s
     \<and> stored_at (vb_identities db) (fst (xd_idempotency docs)) = vx_idempotency_identity s
     \<and> vb_identities db (fst (xd_epoch docs)) = None
     \<and> stored_at (vb_results db) (fst (xd_result docs)) = vx_result s
     \<and> stored_at (vb_audits db) (fst (xd_audit docs)) = vx_attempt_audit s"

definition put :: "string \<times> 'a document \<Rightarrow> (string \<rightharpoonup> 'a document) \<Rightarrow> (string \<rightharpoonup> 'a document)" where
  "put kd coll = coll(fst kd \<mapsto> snd kd)"

definition write_documents :: "revocation_documents \<Rightarrow> revocation_db \<Rightarrow> revocation_db" where
  "write_documents docs db =
     db\<lparr>vb_authorities := put (xd_authority docs) (vb_authorities db),
        vb_evidence := put (xd_evidence docs) (vb_evidence db),
        vb_heads := put (xd_head docs) (vb_heads db),
        vb_results := put (xd_result docs) (vb_results db),
        vb_identities := put (xd_epoch docs) (put (xd_idempotency docs) (put (xd_request docs) (vb_identities db))),
        vb_audits := put (xd_audit docs) (vb_audits db)\<rparr>"

text \<open>
  A root stored under both of its versions is corrupt and ends the transaction with that error; creating a
  document that exists rejects it, like a root or any other record that changed.
\<close>

definition revocation_body ::
  "revocation_state \<Rightarrow> root_creation_bundle \<Rightarrow> string \<Rightarrow> revocation_documents \<Rightarrow> revocation_db
    \<Rightarrow> store_error + revocation_db" where
  "revocation_body s bundle claim_key docs db =
    (case content_addressed_root db (vr_root_id (doc_value (snd (xd_result docs)))) of
       Inl e \<Rightarrow> Inl e
     | Inr root \<Rightarrow>
     if map_option snd root = Some (bu_root bundle) \<and> decision_unchanged db s bundle claim_key docs
        \<and> vb_evidence db (fst (xd_evidence docs)) = None \<and> vb_results db (fst (xd_result docs)) = None
        \<and> vb_identities db (fst (xd_request docs)) = None \<and> vb_identities db (fst (xd_idempotency docs)) = None
        \<and> fst (xd_request docs) \<noteq> fst (xd_idempotency docs) \<and> fst (xd_request docs) \<noteq> fst (xd_epoch docs)
        \<and> fst (xd_idempotency docs) \<noteq> fst (xd_epoch docs)
        \<and> vb_audits db (fst (xd_audit docs)) = None
     then Inr (write_documents docs db) else Inl SE_CONFLICT)"

definition revocation_matches :: "revocation_documents \<Rightarrow> revocation_db \<Rightarrow> read_match list" where
  "revocation_matches docs db =
     [compare_prepared (vb_authorities db (fst (xd_authority docs))) (snd (xd_authority docs)),
      compare_prepared (vb_evidence db (fst (xd_evidence docs))) (snd (xd_evidence docs)),
      compare_prepared (vb_heads db (fst (xd_head docs))) (snd (xd_head docs)),
      compare_prepared (vb_results db (fst (xd_result docs))) (snd (xd_result docs)),
      compare_prepared (vb_identities db (fst (xd_request docs))) (snd (xd_request docs)),
      compare_prepared (vb_identities db (fst (xd_idempotency docs))) (snd (xd_idempotency docs)),
      compare_prepared (vb_identities db (fst (xd_epoch docs))) (snd (xd_epoch docs)),
      compare_prepared (vb_audits db (fst (xd_audit docs))) (snd (xd_audit docs))]"

definition resolve_reads :: "read_match list \<Rightarrow> store_error option \<Rightarrow> store_error option" where
  "resolve_reads reads failure =
    (if failure \<noteq> None then Some SE_OUTCOME_UNKNOWN
     else if list_all (\<lambda>m. m = RM_same) reads then None
     else if RM_competing_revision \<in> set reads then Some SE_CONFLICT
     else Some SE_OUTCOME_UNKNOWN)"

text \<open>\<open>_run_transaction\<close> for a body and the documents it is resolved by.\<close>

definition run_body ::
  "(revocation_db \<Rightarrow> store_error + revocation_db) \<Rightarrow> (revocation_db \<Rightarrow> read_match list) \<Rightarrow> tx_fate
    \<Rightarrow> revocation_db \<times> store_error option \<Rightarrow> revocation_db
    \<Rightarrow> store_error option \<times> revocation_db" where
  "run_body body matches fate rb db =
    (let applied = (case body db of Inl _ \<Rightarrow> db | Inr db' \<Rightarrow> db') in
     case fate of
       TxConfirmed \<Rightarrow> (case body db of Inl e \<Rightarrow> (Some e, db) | Inr db' \<Rightarrow> (None, db'))
     | TxContended committed \<Rightarrow> (Some SE_CONFLICT, if committed then applied else db)
     | TxCorruptRead \<Rightarrow> (Some SE_CORRUPT_RECORD, db)
     | TxLost committed \<Rightarrow> (resolve_reads (matches (fst rb)) (snd rb), if committed then applied else db))"

definition written :: "revocation_documents \<Rightarrow> revocation_write_result" where
  "written docs =
     \<lparr>vw_authority = stored_of (snd (xd_authority docs)), vw_signed_evidence = stored_of (snd (xd_evidence docs)),
      vw_chain_head = stored_of (snd (xd_head docs)), vw_result = stored_of (snd (xd_result docs)),
      vw_request_identity = stored_of (snd (xd_request docs)),
      vw_idempotency_identity = stored_of (snd (xd_idempotency docs)),
      vw_audit = stored_of (snd (xd_audit docs))\<rparr>"

definition prepare_epoch_revocation ::
  "hexdigest \<Rightarrow> target_binding \<Rightarrow> (nat \<Rightarrow> string) \<Rightarrow> revocation_state \<Rightarrow> revocation_commit
    \<Rightarrow> (string \<times> revocation_documents) result" where
  "prepare_epoch_revocation hexdigest configured mutation s t =
     bindR (validate_epoch_revocation_commit hexdigest configured s t) (\<lambda>_.
     bindR (prepare_revocation_documents hexdigest mutation t) (\<lambda>docs.
     bindR (service_claim_logical_id hexdigest configured) (\<lambda>claim_key. Inr (claim_key, docs))))"

definition commit_epoch_revocation ::
  "hexdigest \<Rightarrow> target_binding \<Rightarrow> (nat \<Rightarrow> string) \<Rightarrow> tx_fate \<Rightarrow> revocation_db \<times> store_error option
    \<Rightarrow> revocation_state \<Rightarrow> revocation_commit \<Rightarrow> revocation_db
    \<Rightarrow> (store_failure + revocation_write_result) \<times> revocation_db" where
  "commit_epoch_revocation hexdigest configured mutation fate rb s t db =
    (case (prepare_epoch_revocation hexdigest configured mutation s t, vx_root_bundle s) of
       (Inl e, _) \<Rightarrow> (Inl (Raised e), db)
     | (Inr _, None) \<Rightarrow> (Inl (Raised (TypeError ''epoch revocation commit requires exact state and records'')), db)
     | (Inr (claim_key, docs), Some bundle) \<Rightarrow>
         (case run_body (revocation_body s bundle claim_key docs) (revocation_matches docs) fate rb db of
            (Some e, db') \<Rightarrow> (Inl (StoreError e), db')
          | (None, db') \<Rightarrow> (Inr (written docs), db')))"

section \<open>The audit of an attempt\<close>

definition create_audit_body ::
  "string \<times> revocation_audit document \<Rightarrow> revocation_db \<Rightarrow> store_error + revocation_db" where
  "create_audit_body kd db =
     (if vb_audits db (fst kd) \<noteq> None then Inl SE_CONFLICT else Inr (db\<lparr>vb_audits := put kd (vb_audits db)\<rparr>))"

text \<open>After a conflict the audit already stored is adopted when it is the same one.\<close>

definition record_epoch_revocation_audit ::
  "string \<Rightarrow> tx_fate \<Rightarrow> revocation_db \<times> store_error option \<Rightarrow> revocation_db \<times> store_error option
    \<Rightarrow> revocation_audit \<Rightarrow> revocation_db
    \<Rightarrow> (store_failure + revocation_audit stored_record) \<times> revocation_db" where
  "record_epoch_revocation_audit mutation fate rb existing_rb a db =
    (case keyed (Inr (va_audit_id a)) audit_wrapper (new_document 0 mutation a) of
       Inl e \<Rightarrow> (Inl (Raised e), db)
     | Inr kd \<Rightarrow>
         (case run_body (create_audit_body kd)
            (\<lambda>db. [compare_prepared (vb_audits db (fst kd)) (snd kd)]) fate rb db of
            (None, db') \<Rightarrow> (Inr (stored_of (snd kd)), db')
          | (Some SE_CONFLICT, db') \<Rightarrow>
              ((case snd existing_rb of
                  Some e \<Rightarrow> Inl (StoreError e)
                | None \<Rightarrow>
                    (case vb_audits (fst existing_rb) (fst kd) of
                       None \<Rightarrow> Inl (StoreError SE_CONFLICT)
                     | Some d \<Rightarrow>
                         if doc_value d \<noteq> a \<or> doc_revision d \<noteq> 0 then Inl (StoreError SE_CONFLICT)
                         else Inr (stored_of d))), db')
          | (Some e, db') \<Rightarrow> (Inl (StoreError e), db')))"

end
