(* ===== verification/RootCreationStore.thy ===== *)
theory RootCreationStore
  imports RevocationStore
begin

text \<open>
  The persistence of a root creation, \<open>integrations/google/firestore.py\<close>: the store's validation of the six
  records, the transaction that creates them or takes over a released claim, the consistent read of the
  bundle, and the adoption of the stored winner by an exact retry. Operations that change or read the
  database are modelled as for revocations, with Firestore's answer as an argument.
\<close>

section \<open>The store's validation\<close>

definition validate_addressed_takeover ::
  "target_binding \<Rightarrow> service_claim stored_record \<Rightarrow> addressed_root \<Rightarrow> service_claim \<Rightarrow> check" where
  "validate_addressed_takeover configured released root claim =
    (let previous = sr_value released; content = ad_content root in
     fails_if
       (cl_target previous \<noteq> configured \<or> cl_status previous \<noteq> CS_RELEASED \<or> sr_revision released mod 3 \<noteq> 2
        \<or> cl_root_id previous = ad_root_id root
        \<or> (case cl_released_at previous of
             None \<Rightarrow> True
           | Some released_at \<Rightarrow> ss_captured_at (rc_stable_snapshot content) \<le> released_at)
        \<or> cl_claimed_at claim < rc_approved_at content)
       (ValueError ''new rollout does not follow one safely released claim''))"

definition one_authority_bundle :: "hexdigest \<Rightarrow> target_binding \<Rightarrow> root_creation_artifacts \<Rightarrow> bool" where
  "one_authority_bundle hexdigest configured a \<longleftrightarrow>
    (let r = ra_creation_result a; root = ra_new_root a; claim = ra_new_claim a; auth = ra_new_authority a;
         anchor = ra_new_anchor a; s = ra_new_evidence a in
     wr_outcome r = CREATED \<and> wr_root r = root \<and> wr_initial_authority r = auth \<and> wr_lineage_anchor r = anchor
     \<and> wr_signed_evidence r = s \<and> or_raise_contract (capability_lineage_anchor hexdigest root) = Inr anchor
     \<and> cl_status claim = CS_ACTIVE \<and> claim_binds_root hexdigest claim root
     \<and> service_claim_logical_id hexdigest configured = Inr (wr_winner_service_claim_id r)
     \<and> service_claim_sha256 hexdigest claim = Inr (wr_winner_service_claim_sha256 r)
     \<and> cl_claim_request_id claim = wr_winner_request_id r
     \<and> cl_claim_evidence_id claim = ev_evidence_id (se_event s) \<and> cl_claimed_at claim = wr_created_at r
     \<and> au_request_id auth = cl_claim_request_id claim \<and> au_evidence_id auth = cl_claim_evidence_id claim
     \<and> au_changed_at auth = cl_claimed_at claim)"

definition validate_initial_root_creation_bundle ::
  "hexdigest \<Rightarrow> target_binding \<Rightarrow> root_creation_artifacts \<Rightarrow> service_claim stored_record option \<Rightarrow> check" where
  "validate_initial_root_creation_bundle hexdigest configured a released =
    (let root = ra_new_root a; claim = ra_new_claim a in
     checks
      [fails_if (\<not> is_root_v3 root) (TypeError ''root creation requires exact bundle records''),
       fails_if (rc_target (ad_content root) \<noteq> configured \<or> cl_target claim \<noteq> configured
           \<or> au_target (ra_new_authority a) \<noteq> configured \<or> la_target (ra_new_anchor a) \<noteq> configured
           \<or> ev_target (se_event (ra_new_evidence a)) \<noteq> configured)
         (ValueError ''root creation records do not match the configured target''),
       fails_if (\<not> one_authority_bundle hexdigest configured a)
         (ValueError ''root creation records are not one atomic authority bundle''),
       (case released of
          None \<Rightarrow> None
        | Some x \<Rightarrow> validate_addressed_takeover configured x root claim)])"

section \<open>Documents\<close>

definition validate_lineage_anchor :: "lineage_anchor \<Rightarrow> check" where
  "validate_lineage_anchor a =
     checks
      [field ''root_id'' (is_identifier (la_root_id a)), field ''root_sha256'' (is_sha256 (la_root_sha256 a)),
       validate_target_binding (la_target a),
       field ''stable_snapshot_sha256'' (is_sha256 (la_stable_snapshot_sha256 a)),
       field ''stable_revision'' (is_cloud_run_name (la_stable_revision a)),
       field ''stable_revision_configuration_sha256'' (is_sha256 (la_stable_revision_configuration_sha256 a)),
       field ''candidate_revision'' (is_cloud_run_name (la_candidate_revision a)),
       field ''candidate_revision_configuration_sha256'' (is_sha256 (la_candidate_revision_configuration_sha256 a)),
       field ''plan_sha256'' (is_sha256 (la_plan_sha256 a)),
       field ''health_policy_sha256'' (is_sha256 (la_health_policy_sha256 a)),
       field ''authority_bounds_sha256'' (is_sha256 (la_authority_bounds_sha256 a))]"

definition root_wrapper :: "hexdigest \<Rightarrow> string \<Rightarrow> addressed_root document \<Rightarrow> check" where
  "root_wrapper hexdigest = immutable_wrapper (validate_addressed_root hexdigest) (\<lambda>r. Inr (ad_root_id r))"

definition anchor_wrapper :: "hexdigest \<Rightarrow> string \<Rightarrow> lineage_anchor document \<Rightarrow> check" where
  "anchor_wrapper hexdigest = immutable_wrapper validate_lineage_anchor (lineage_anchor_logical_id hexdigest)"

definition creation_wrapper :: "hexdigest \<Rightarrow> string \<Rightarrow> root_creation_result document \<Rightarrow> check" where
  "creation_wrapper hexdigest =
     immutable_wrapper
       (\<lambda>r. checks [validate_root_creation_result hexdigest r,
          fails_if (wr_outcome r \<noteq> CREATED)
            (ValueError ''persisted root creation result must identify the winner'')])
       (\<lambda>r. Inr (ad_root_id (wr_root r)))"

record creation_documents =
  cd_root :: "string \<times> addressed_root document"
  cd_claim :: "string \<times> service_claim document"
  cd_authority :: "string \<times> epoch_authority_record document"
  cd_anchor :: "string \<times> lineage_anchor document"
  cd_evidence :: "string \<times> signed_evidence_event document"
  cd_result :: "string \<times> root_creation_result document"

definition prepare_creation_documents ::
  "hexdigest \<Rightarrow> target_binding \<Rightarrow> (nat \<Rightarrow> string) \<Rightarrow> root_creation_artifacts
    \<Rightarrow> service_claim stored_record option \<Rightarrow> creation_documents result" where
  "prepare_creation_documents hexdigest configured mutation a released =
    (let root_id = ad_root_id (ra_new_root a); s = ra_new_evidence a;
         claim_revision = (case released of None \<Rightarrow> 0 | Some x \<Rightarrow> sr_revision x + 1) in
     bindR (keyed (Inr root_id) (root_wrapper hexdigest) (new_document 0 (mutation 0) (ra_new_root a))) (\<lambda>r.
     bindR (keyed (service_claim_logical_id hexdigest configured) (validate_claim_wrapper hexdigest)
       (new_document claim_revision (mutation 1) (ra_new_claim a))) (\<lambda>c.
     bindR (keyed (Inr (au_root_id (ra_new_authority a))) validate_authority_wrapper
       (new_document 0 (mutation 2) (ra_new_authority a))) (\<lambda>u.
     bindR (keyed (lineage_anchor_logical_id hexdigest (ra_new_anchor a)) (anchor_wrapper hexdigest)
       (new_document 0 (mutation 3) (ra_new_anchor a))) (\<lambda>n.
     bindR (keyed (Inr (ev_evidence_id (se_event s))) (evidence_wrapper hexdigest)
       (new_document 0 (mutation 4) s)) (\<lambda>e.
     bindR (keyed (Inr root_id) (creation_wrapper hexdigest) (new_document 0 (mutation 5) (ra_creation_result a))) (\<lambda>w.
     Inr \<lparr>cd_root = r, cd_claim = c, cd_authority = u, cd_anchor = n, cd_evidence = e, cd_result = w\<rparr>)))))))"

section \<open>The transaction\<close>

definition write_creation :: "creation_documents \<Rightarrow> revocation_db \<Rightarrow> revocation_db" where
  "write_creation docs db =
     db\<lparr>vb_roots_v3 := put (cd_root docs) (vb_roots_v3 db), vb_claims := put (cd_claim docs) (vb_claims db),
        vb_authorities := put (cd_authority docs) (vb_authorities db),
        vb_anchors := put (cd_anchor docs) (vb_anchors db), vb_evidence := put (cd_evidence docs) (vb_evidence db),
        vb_creations_v2 := put (cd_result docs) (vb_creations_v2 db)\<rparr>"

text \<open>Creating a document that exists rejects the transaction; a released claim is replaced instead.\<close>

definition creation_absent :: "creation_documents \<Rightarrow> revocation_db \<Rightarrow> bool" where
  "creation_absent docs db \<longleftrightarrow>
     vb_roots_v3 db (fst (cd_root docs)) = None \<and> vb_authorities db (fst (cd_authority docs)) = None
     \<and> vb_anchors db (fst (cd_anchor docs)) = None \<and> vb_evidence db (fst (cd_evidence docs)) = None
     \<and> vb_creations_v2 db (fst (cd_result docs)) = None"

definition claim_as_expected ::
  "creation_documents \<Rightarrow> service_claim stored_record option \<Rightarrow> revocation_db \<Rightarrow> bool" where
  "claim_as_expected docs released db \<longleftrightarrow> stored_at (vb_claims db) (fst (cd_claim docs)) = released"

definition creation_body ::
  "creation_documents \<Rightarrow> service_claim stored_record option \<Rightarrow> string \<Rightarrow> revocation_db
    \<Rightarrow> store_error + revocation_db" where
  "creation_body docs released root_id db =
    (case (content_addressed_root db root_id, read_versioned (vb_creations_v1 db) (vb_creations_v2 db) root_id) of
       (Inl e, _) \<Rightarrow> Inl e
     | (_, Inl e) \<Rightarrow> Inl e
     | (Inr None, Inr None) \<Rightarrow>
         (if claim_as_expected docs released db \<and> creation_absent docs db then Inr (write_creation docs db)
          else Inl SE_CONFLICT)
     | (Inr (Some _), Inr (Some _)) \<Rightarrow> Inl SE_CONFLICT
     | _ \<Rightarrow> Inl SE_CORRUPT_RECORD)"

definition creation_matches :: "creation_documents \<Rightarrow> revocation_db \<Rightarrow> read_match list" where
  "creation_matches docs db =
     [compare_prepared (vb_roots_v3 db (fst (cd_root docs))) (snd (cd_root docs)),
      compare_prepared (vb_claims db (fst (cd_claim docs))) (snd (cd_claim docs)),
      compare_prepared (vb_authorities db (fst (cd_authority docs))) (snd (cd_authority docs)),
      compare_prepared (vb_anchors db (fst (cd_anchor docs))) (snd (cd_anchor docs)),
      compare_prepared (vb_evidence db (fst (cd_evidence docs))) (snd (cd_evidence docs)),
      compare_prepared (vb_creations_v2 db (fst (cd_result docs))) (snd (cd_result docs))]"

definition run_creation ::
  "creation_documents \<Rightarrow> service_claim stored_record option \<Rightarrow> string \<Rightarrow> tx_fate
    \<Rightarrow> revocation_db \<times> store_error option \<Rightarrow> revocation_db
    \<Rightarrow> (store_error + commit_disposition) \<times> revocation_db" where
  "run_creation docs released root_id fate rb db =
    (let body = creation_body docs released root_id db;
         applied = (case body of Inl _ \<Rightarrow> db | Inr db' \<Rightarrow> db') in
     case fate of
       TxConfirmed \<Rightarrow> (case body of Inl e \<Rightarrow> (Inl e, db) | Inr db' \<Rightarrow> (Inr CD_DIRECT_CONFIRMED, db'))
     | TxContended committed \<Rightarrow> (Inl SE_CONFLICT, if committed then applied else db)
     | TxCorruptRead \<Rightarrow> (Inl SE_CORRUPT_RECORD, db)
     | TxLost committed \<Rightarrow>
         ((case resolve_reads (creation_matches docs (fst rb)) (snd rb) of
             Some e \<Rightarrow> Inl e
           | None \<Rightarrow> Inr CD_READBACK_RESOLVED),
          if committed then applied else db))"

section \<open>Reading the bundle\<close>

definition read_root_creation_bundle ::
  "hexdigest \<Rightarrow> target_binding \<Rightarrow> string \<Rightarrow> revocation_db \<Rightarrow> store_failure + root_creation_bundle option" where
  "read_root_creation_bundle hexdigest configured root_id db =
     bindS (read_root_bundle hexdigest configured root_id db) (\<lambda>bundle.
     guardS (if pred_option (read_bundle_valid hexdigest configured) bundle then None
         else Some (StoreError SE_CORRUPT_RECORD))
     (Inr bundle))"

section \<open>Creating or adopting\<close>

record creation_write_result =
  wc_result :: root_creation_result
  wc_bundle :: root_creation_bundle

definition adopted_root_creation_result :: "hexdigest \<Rightarrow> root_creation_result \<Rightarrow> root_creation_result result" where
  "adopted_root_creation_result hexdigest r =
     construct (validate_root_creation_result hexdigest) (r\<lparr>wr_outcome := ADOPTED\<rparr>)"

text \<open>The result that is returned names the stored winner.\<close>

definition validate_creation_write :: "creation_write_result \<Rightarrow> check" where
  "validate_creation_write w =
     fails_if (sr_value (bu_creation_result (wc_bundle w)) \<noteq> (wc_result w)\<lparr>wr_outcome := CREATED\<rparr>)
       (ValueError ''root creation write result does not match its stored winner'')"

definition bundle_of_documents :: "creation_documents \<Rightarrow> root_creation_bundle" where
  "bundle_of_documents docs =
     \<lparr>bu_root = stored_of (snd (cd_root docs)), bu_service_claim = stored_of (snd (cd_claim docs)),
      bu_authority = stored_of (snd (cd_authority docs)), bu_lineage_anchor = stored_of (snd (cd_anchor docs)),
      bu_signed_evidence = stored_of (snd (cd_evidence docs)),
      bu_creation_result = stored_of (snd (cd_result docs))\<rparr>"

definition bundle_matches_request :: "root_creation_bundle \<Rightarrow> root_creation_artifacts \<Rightarrow> bool" where
  "bundle_matches_request b a \<longleftrightarrow>
     bu_root b = \<lparr>sr_value = ra_new_root a, sr_revision = 0\<rparr>
     \<and> sr_value (bu_service_claim b) = ra_new_claim a \<and> sr_revision (bu_service_claim b) mod 3 = 0
     \<and> bu_authority b = \<lparr>sr_value = ra_new_authority a, sr_revision = 0\<rparr>
     \<and> bu_lineage_anchor b = \<lparr>sr_value = ra_new_anchor a, sr_revision = 0\<rparr>
     \<and> bu_signed_evidence b = \<lparr>sr_value = ra_new_evidence a, sr_revision = 0\<rparr>
     \<and> bu_creation_result b = \<lparr>sr_value = ra_creation_result a, sr_revision = 0\<rparr>"

definition creation_write :: "hexdigest \<Rightarrow> bool \<Rightarrow> root_creation_result \<Rightarrow> root_creation_bundle
    \<Rightarrow> store_failure + creation_write_result" where
  "creation_write hexdigest created r bundle =
    (case (if created then Inr r else adopted_root_creation_result hexdigest r) of
       Inl e \<Rightarrow> Inl (Raised e)
     | Inr named \<Rightarrow> raised_by_store (construct validate_creation_write \<lparr>wc_result = named, wc_bundle = bundle\<rparr>))"

text \<open>After a conflict, the stored bundle is adopted when it is this request's.\<close>

definition adopt_stored ::
  "hexdigest \<Rightarrow> target_binding \<Rightarrow> root_creation_artifacts \<Rightarrow> revocation_db \<times> store_error option
    \<Rightarrow> store_failure + creation_write_result" where
  "adopt_stored hexdigest configured a existing =
    (case snd existing of
       Some e \<Rightarrow> Inl (StoreError e)
     | None \<Rightarrow>
        (case read_root_creation_bundle hexdigest configured (ad_root_id (ra_new_root a)) (fst existing) of
           Inl e \<Rightarrow> Inl e
         | Inr None \<Rightarrow> Inl (StoreError SE_CONFLICT)
         | Inr (Some b) \<Rightarrow>
             (if \<not> bundle_matches_request b a then Inl (StoreError SE_CONFLICT)
              else creation_write hexdigest False (sr_value (bu_creation_result b)) b)))"

definition create_or_adopt_root_creation_bundle ::
  "hexdigest \<Rightarrow> target_binding \<Rightarrow> (nat \<Rightarrow> string) \<Rightarrow> root_creation_artifacts \<Rightarrow> service_claim stored_record option
    \<Rightarrow> tx_fate \<Rightarrow> revocation_db \<times> store_error option \<Rightarrow> revocation_db \<times> store_error option \<Rightarrow> revocation_db
    \<Rightarrow> (store_failure + creation_write_result) \<times> revocation_db" where
  "create_or_adopt_root_creation_bundle hexdigest configured mutation a released fate rb existing db =
    (case bindR (construct (\<lambda>a. validate_initial_root_creation_bundle hexdigest configured a released) a)
        (\<lambda>a. prepare_creation_documents hexdigest configured mutation a released) of
       Inl e \<Rightarrow> (Inl (Raised e), db)
     | Inr docs \<Rightarrow>
         (case run_creation docs released (ad_root_id (ra_new_root a)) fate rb db of
            (Inl e, db') \<Rightarrow>
              (if e = SE_CONFLICT then (adopt_stored hexdigest configured a existing, db')
               else (Inl (StoreError e), db'))
          | (Inr disposition, db') \<Rightarrow>
              (creation_write hexdigest (disposition = CD_DIRECT_CONFIRMED) (ra_creation_result a)
                 (bundle_of_documents docs), db')))"

end
