(* ===== verification/RootCreationService.thy ===== *)
theory RootCreationService
  imports RootCreationStore
begin

text \<open>
  The orchestration of a root creation, \<open>application/root_creation_service.py\<close>: authorize the operator,
  adopt an active claim of the same request, else gather the verifier's facts, build, have the event signed
  and ask the store to create the bundle. The ports are what the constructors of \<open>creator\<close> ask; each
  answer is arbitrary. The clock answers the text of a whole second and is compared through its instant.
\<close>

section \<open>Failures and ports\<close>

datatype creation_error =
    CE_CALLER_UNAUTHENTICATED | CE_CALLER_UNAUTHORIZED | CE_ACTIVE_CLAIM_CONFLICT | CE_PREFLIGHT_DENIED
  | CE_TRUSTED_STATE_INVALID | CE_EVIDENCE_DENIED | CE_STORE_UNAVAILABLE | CE_OUTCOME_UNKNOWN

datatype creation_failure = CreationError creation_error | CreationRaised py_error

record preflight_request =
  pq_target :: target_binding
  pq_expected_stable_snapshot :: stable_snapshot
  pq_candidate_revision :: string
  pq_candidate_revision_configuration_sha256 :: string
  pq_concurrency :: int

datatype creator =
    Created creation_write_result
  | NotCreated creation_failure
  | CreationSecond "string option \<Rightarrow> creator"
  | CurrentClaim "store_failure + service_claim stored_record option \<Rightarrow> creator"
  | CurrentBundle string "store_failure + root_creation_bundle option \<Rightarrow> creator"
  | Preflight preflight_request "(stable_snapshot \<times> candidate_attestation) option \<Rightarrow> creator"
  | SignEvidence evidence_event "signed_evidence_event option \<Rightarrow> creator"
  | CreateBundle root_creation_artifacts "service_claim stored_record option"
      "store_failure + creation_write_result \<Rightarrow> creator"

definition creation_refused :: "creation_error \<Rightarrow> creator" where
  "creation_refused e = NotCreated (CreationError e)"

section \<open>The preflight request\<close>

definition validate_preflight_request :: "preflight_request \<Rightarrow> check" where
  "validate_preflight_request q =
    (let snapshot = pq_expected_stable_snapshot q; prefix = tb_service_name (pq_target q) @ ''-'' in
     checks
      [validate_target_binding (pq_target q), validate_stable_snapshot snapshot,
       field ''candidate_revision'' (is_cloud_run_name (pq_candidate_revision q)),
       field ''candidate_revision_configuration_sha256''
         (is_sha256 (pq_candidate_revision_configuration_sha256 q)),
       field ''concurrency'' (is_concurrency (pq_concurrency q)),
       validate_root_target (pq_target q),
       fails_if (ss_target snapshot \<noteq> pq_target q \<or> ss_captured_by snapshot \<noteq> verifier_identity (pq_target q)
           \<or> \<not> starts_with prefix (ss_stable_revision snapshot) \<or> \<not> starts_with prefix (pq_candidate_revision q)
           \<or> ss_stable_revision snapshot = pq_candidate_revision q
           \<or> ss_concurrency snapshot \<noteq> pq_concurrency q)
         (ValueError ''root preflight request bindings are not exact'')])"

definition preflight_request_of :: "root_creation_configuration \<Rightarrow> root_creation_command \<Rightarrow> preflight_request" where
  "preflight_request_of k cmd =
     \<lparr>pq_target = kf_target k, pq_expected_stable_snapshot = cm_expected_stable_snapshot cmd,
      pq_candidate_revision = kf_candidate_revision k,
      pq_candidate_revision_configuration_sha256 = kf_candidate_revision_configuration_sha256 k,
      pq_concurrency = kf_concurrency k\<rparr>"

section \<open>Authorization\<close>

text \<open>The audience of the operator's API, derived from that of the executor.\<close>

definition creation_operator_audience :: "root_creation_configuration \<Rightarrow> string result" where
  "creation_operator_audience k =
    (let lead = ''https://controlgraph-executor-''; tail = ''.us-central1.run.app'';
         audience = kf_executor_audience k;
         number = take (length audience - length lead - length tail) (drop (length lead) audience) in
     if google_number number \<and> audience = lead @ number @ tail
     then Inr (''https://controlgraph-api-'' @ number @ tail)
     else Inl (ValueError ''root creation operator audience cannot be derived''))"

definition creation_caller_admitted ::
  "root_creation_configuration \<Rightarrow> string \<Rightarrow> authentication_context \<Rightarrow> int \<Rightarrow> bool" where
  "creation_caller_admitted k audience p second \<longleftrightarrow>
     ac_role p = CALL_OPERATOR \<and> ac_email p = kf_operator_identity k \<and> ac_subject p = kf_operator_subject k
     \<and> ac_issuer p \<in> {''accounts.google.com'', ''https://accounts.google.com''} \<and> ac_audience p = audience
     \<and> ac_issued_at p \<le> second \<and> second < ac_expires_at p"

definition creation_clock :: "(string \<Rightarrow> int \<Rightarrow> creator) \<Rightarrow> creator" where
  "creation_clock f = CreationSecond (\<lambda>answer.
     case Option.bind answer (\<lambda>text. map_option (Pair text) (parse_utc_second text)) of
       None \<Rightarrow> creation_refused CE_TRUSTED_STATE_INVALID
     | Some (text, second) \<Rightarrow> f text second)"

definition creation_authorized ::
  "root_creation_configuration \<Rightarrow> string \<Rightarrow> authentication_context option \<Rightarrow> int
    \<Rightarrow> (authentication_context \<Rightarrow> creator) \<Rightarrow> creator" where
  "creation_authorized k audience caller second f =
    (case caller of
       None \<Rightarrow> creation_refused CE_CALLER_UNAUTHENTICATED
     | Some p \<Rightarrow>
         (if creation_caller_admitted k audience p second then f p
          else creation_refused CE_CALLER_UNAUTHORIZED))"

section \<open>The claim that is already there\<close>

definition matches_existing ::
  "root_creation_configuration \<Rightarrow> root_creation_command \<Rightarrow> authentication_context \<Rightarrow> service_claim
    \<Rightarrow> root_creation_result \<Rightarrow> bool" where
  "matches_existing k cmd p claim winner \<longleftrightarrow>
    (let root = wr_root winner; snapshot = rc_stable_snapshot (ad_content root) in
     wr_outcome winner = CREATED \<and> wr_request_id winner = cm_request_id cmd
     \<and> wr_idempotency_key winner = cm_idempotency_key cmd \<and> wr_operator_identity winner = ac_email p
     \<and> wr_operator_subject winner = ac_subject p \<and> rc_target (ad_content root) = kf_target k
     \<and> cl_root_id claim = ad_root_id root \<and> cl_root_sha256 claim = ad_root_sha256 root
     \<and> same_stable_state snapshot (cm_expected_stable_snapshot cmd)
     \<and> ss_captured_at (cm_expected_stable_snapshot cmd) \<le> ss_captured_at snapshot)"

fun claim_read_failure :: "store_failure \<Rightarrow> creation_error" where
  "claim_read_failure (StoreError SE_OUTCOME_UNKNOWN) = CE_OUTCOME_UNKNOWN"
| "claim_read_failure _ = CE_STORE_UNAVAILABLE"

fun bundle_read_failure :: "store_failure \<Rightarrow> creation_error" where
  "bundle_read_failure (StoreError SE_CORRUPT_RECORD) = CE_TRUSTED_STATE_INVALID"
| "bundle_read_failure (StoreError SE_OUTCOME_UNKNOWN) = CE_OUTCOME_UNKNOWN"
| "bundle_read_failure _ = CE_STORE_UNAVAILABLE"

definition adopt_existing_bundle ::
  "hexdigest \<Rightarrow> root_creation_configuration \<Rightarrow> root_creation_command \<Rightarrow> authentication_context \<Rightarrow> service_claim
    \<Rightarrow> store_failure + root_creation_bundle option \<Rightarrow> creator" where
  "adopt_existing_bundle hexdigest k cmd p claim answer =
    (case answer of
       Inl e \<Rightarrow> creation_refused (bundle_read_failure e)
     | Inr None \<Rightarrow> creation_refused CE_TRUSTED_STATE_INVALID
     | Inr (Some b) \<Rightarrow>
         (let winner = sr_value (bu_creation_result b) in
          if \<not> matches_existing k cmd p claim winner then creation_refused CE_ACTIVE_CLAIM_CONFLICT
          else
            (case creation_write hexdigest False winner b of
               Inl _ \<Rightarrow> creation_refused CE_TRUSTED_STATE_INVALID
             | Inr w \<Rightarrow> Created w)))"

definition existing_claim ::
  "hexdigest \<Rightarrow> root_creation_configuration \<Rightarrow> root_creation_command \<Rightarrow> authentication_context
    \<Rightarrow> (service_claim stored_record option \<Rightarrow> creator) \<Rightarrow> creator" where
  "existing_claim hexdigest k cmd p f = CurrentClaim (\<lambda>answer.
     case answer of
       Inl e \<Rightarrow> creation_refused (claim_read_failure e)
     | Inr None \<Rightarrow> f None
     | Inr (Some stored) \<Rightarrow>
         (let claim = sr_value stored in
          if cl_target claim \<noteq> kf_target k then creation_refused CE_TRUSTED_STATE_INVALID
          else if cl_status claim = CS_RELEASED then f (Some stored)
          else if cl_status claim \<noteq> CS_ACTIVE then creation_refused CE_ACTIVE_CLAIM_CONFLICT
          else if cl_claim_request_id claim \<noteq> cm_request_id cmd \<or> cl_operator_owner claim \<noteq> ac_email p
          then creation_refused CE_ACTIVE_CLAIM_CONFLICT
          else CurrentBundle (cl_root_id claim) (adopt_existing_bundle hexdigest k cmd p claim)))"

section \<open>Creating\<close>

text \<open>After a conflict the claim is read again; anything but an adoption is a conflict.\<close>

definition after_creation ::
  "hexdigest \<Rightarrow> root_creation_configuration \<Rightarrow> root_creation_command \<Rightarrow> authentication_context
    \<Rightarrow> store_failure + creation_write_result \<Rightarrow> creator" where
  "after_creation hexdigest k cmd p answer =
    (case answer of
       Inr w \<Rightarrow> Created w
     | Inl (StoreError SE_CONFLICT) \<Rightarrow>
         existing_claim hexdigest k cmd p (\<lambda>_. creation_refused CE_ACTIVE_CLAIM_CONFLICT)
     | Inl (StoreError SE_OUTCOME_UNKNOWN) \<Rightarrow> creation_refused CE_OUTCOME_UNKNOWN
     | Inl _ \<Rightarrow> creation_refused CE_STORE_UNAVAILABLE)"

definition submit_creation ::
  "hexdigest \<Rightarrow> root_creation_configuration \<Rightarrow> root_creation_command \<Rightarrow> authentication_context
    \<Rightarrow> service_claim stored_record option \<Rightarrow> unsigned_root_creation \<Rightarrow> signed_evidence_event option \<Rightarrow> creator" where
  "submit_creation hexdigest k cmd p released u answer =
    (case answer of
       None \<Rightarrow> creation_refused CE_EVIDENCE_DENIED
     | Some s \<Rightarrow>
         (case complete_root_creation hexdigest u s of
            Inl _ \<Rightarrow> creation_refused CE_EVIDENCE_DENIED
          | Inr a \<Rightarrow> CreateBundle a released (after_creation hexdigest k cmd p)))"

definition build_creation ::
  "hexdigest \<Rightarrow> root_creation_configuration \<Rightarrow> root_creation_command \<Rightarrow> authentication_context
    \<Rightarrow> service_claim stored_record option \<Rightarrow> stable_snapshot \<Rightarrow> candidate_attestation \<Rightarrow> string \<Rightarrow> creator" where
  "build_creation hexdigest k cmd p released snapshot candidate created_at =
    (case build_unsigned_root_creation hexdigest cmd (ac_email p) (ac_subject p) snapshot candidate k created_at of
       Inl _ \<Rightarrow> creation_refused CE_TRUSTED_STATE_INVALID
     | Inr u \<Rightarrow> SignEvidence (un_evidence_event u) (submit_creation hexdigest k cmd p released u))"

text \<open>The operator is authorized again at the second the root is created.\<close>

definition after_preflight ::
  "hexdigest \<Rightarrow> root_creation_configuration \<Rightarrow> string \<Rightarrow> root_creation_command \<Rightarrow> authentication_context
    \<Rightarrow> service_claim stored_record option \<Rightarrow> int \<Rightarrow> (stable_snapshot \<times> candidate_attestation) option \<Rightarrow> creator" where
  "after_preflight hexdigest k audience cmd p released authorized_at answer =
    (case answer of
       None \<Rightarrow> creation_refused CE_PREFLIGHT_DENIED
     | Some (snapshot, candidate) \<Rightarrow>
         creation_clock (\<lambda>created_at created_second.
           if created_second < authorized_at then creation_refused CE_TRUSTED_STATE_INVALID
           else creation_authorized k audience (Some p) created_second (\<lambda>p.
             build_creation hexdigest k cmd p released snapshot candidate created_at)))"

definition create_rollout_root ::
  "hexdigest \<Rightarrow> root_creation_configuration \<Rightarrow> string \<Rightarrow> root_creation_command
    \<Rightarrow> authentication_context option \<Rightarrow> creator" where
  "create_rollout_root hexdigest k audience cmd caller =
     creation_clock (\<lambda>_ authorized_at.
     creation_authorized k audience caller authorized_at (\<lambda>p.
     existing_claim hexdigest k cmd p (\<lambda>released.
     case construct validate_preflight_request (preflight_request_of k cmd) of
       Inl e \<Rightarrow> NotCreated (CreationRaised e)
     | Inr q \<Rightarrow> Preflight q (after_preflight hexdigest k audience cmd p released authorized_at))))"

end
