(* ===== verification/RevocationProps.thy ===== *)
theory RevocationProps
  imports RevocationStore RootAuthorityProps
begin

text \<open>
  The coordinator and the store of revocations together: what the coordinator commits is what the store
  admits, and what the store has written is what the coordinator settles on when it reads again.
\<close>

section \<open>Inversion\<close>

lemma raises_Inr [simp]: "raises r = Inr x \<longleftrightarrow> r = Inr x"
  by (cases r) (auto simp: raises_def)

lemma distrusts_Inr [simp]: "distrusts r = Inr x \<longleftrightarrow> r = Inr x"
  by (cases r) (auto simp: distrusts_def)

lemma denies_None [simp]: "denies b e = None \<longleftrightarrow> \<not> b"
  by (simp add: denies_def)

lemma raised_by_store_Inr [simp]: "raised_by_store r = Inr x \<longleftrightarrow> r = Inr x"
  by (cases r) (auto simp: raised_by_store_def)

lemma creation_truncate [simp]:
  "bu_root (root_bundle.truncate b) = bu_root b"
  "bu_service_claim (root_bundle.truncate b) = bu_service_claim b"
  "bu_authority (root_bundle.truncate b) = bu_authority b"
  "bu_lineage_anchor (root_bundle.truncate b) = bu_lineage_anchor b"
  by (simp_all add: root_bundle.defs)

definition bundle_trusted :: "hexdigest \<Rightarrow> target_binding \<Rightarrow> root_creation_bundle \<Rightarrow> bool" where
  "bundle_trusted h target b \<longleftrightarrow>
    (let root = sr_value (bu_root b); claim = sr_value (bu_service_claim b); auth = sr_value (bu_authority b) in
     sr_revision (bu_root b) = 0 \<and> sr_revision (bu_lineage_anchor b) = 0
     \<and> rc_target (ad_content root) = target
     \<and> root_content_sha256 h (ad_content root) = Inr (ad_root_sha256 root)
     \<and> ad_root_id root = ''cgroot:'' @ ad_root_sha256 root
     \<and> capability_lineage_anchor h root = Inr (sr_value (bu_lineage_anchor b))
     \<and> service_claim_matches_addressed_root h claim root
     \<and> claim_lifecycle_revision_matches claim (sr_revision (bu_service_claim b))
     \<and> au_target auth = target \<and> au_root_id auth = ad_root_id root \<and> au_root_sha256 auth = ad_root_sha256 root
     \<and> sr_revision (bu_authority b) = au_revision auth \<and> au_current_epoch auth = au_revision auth + 1)"

definition trusted_of :: "root_creation_bundle \<Rightarrow> trusted_root_authority" where
  "trusted_of b =
     \<lparr>ra_root = sr_value (bu_root b), ra_service_claim = sr_value (bu_service_claim b),
      ra_authority = sr_value (bu_authority b), ra_lineage_anchor = sr_value (bu_lineage_anchor b),
      ra_root_revision = sr_revision (bu_root b), ra_service_claim_revision = sr_revision (bu_service_claim b),
      ra_authority_revision = sr_revision (bu_authority b),
      ra_lineage_anchor_revision = sr_revision (bu_lineage_anchor b)\<rparr>"

lemma inspect_iff: "inspect_creation_bundle h target b = Some t \<longleftrightarrow> bundle_trusted h target b \<and> t = trusted_of b"
  by (auto simp: inspect_creation_bundle_def inspect_root_authority_bundle_def bundle_trusted_def trusted_of_def
      Let_def split: sum.splits)

lemma trusted_of_sel [simp]:
  "ra_root (trusted_of b) = sr_value (bu_root b)"
  "ra_service_claim (trusted_of b) = sr_value (bu_service_claim b)"
  "ra_authority (trusted_of b) = sr_value (bu_authority b)"
  "ra_service_claim_revision (trusted_of b) = sr_revision (bu_service_claim b)"
  by (simp_all add: trusted_of_def)

lemma trusted_claim:
  assumes "bundle_trusted h target b"
  shows "cl_root_id (sr_value (bu_service_claim b)) = ad_root_id (sr_value (bu_root b))
    \<and> cl_root_sha256 (sr_value (bu_service_claim b)) = ad_root_sha256 (sr_value (bu_root b))
    \<and> cl_target (sr_value (bu_service_claim b)) = target"
  using assms
  by (auto simp: bundle_trusted_def service_claim_matches_addressed_root_def Let_def split: sum.splits)

section \<open>Heads\<close>

text \<open>A head that names the event stored as its predecessor.\<close>

lemma current_head_Inr:
  assumes "current_evidence_chain_head h b target stored found = Inr head"
  shows "au_changed_at (sr_value (bu_authority b)) \<le> hd_updated_at head"
    and "au_revision (sr_value (bu_authority b)) \<le> hd_sequence head"
    and "hd_root_id head = ad_root_id (sr_value (bu_root b))"
    and "\<exists>p. (if stored = None then Some (bu_signed_evidence b) else found) = Some p
          \<and> signed_evidence_sha256 h (sr_value p) = Inr (hd_evidence_sha256 head)
          \<and> ev_evidence_id (se_event (sr_value p)) = hd_evidence_id head
          \<and> ev_sequence (se_event (sr_value p)) = hd_sequence head"
  using assms
  by (auto simp: current_evidence_chain_head_def Let_def bindR_eq_Inr_iff chain_bootstraps_def
      head_matches_event_def split: option.splits if_splits)

lemma predecessor_head_Inr:
  "predecessor_head h target s = Inr head \<longleftrightarrow>
     (\<exists>b. vx_root_bundle s = Some b
        \<and> current_evidence_chain_head h b target (vx_chain_head s) (vx_head_evidence s) = Inr head)"
  by (auto simp: predecessor_head_def split: option.splits)

section \<open>What the coordinator plans\<close>

definition planned ::
  "hexdigest \<Rightarrow> target_binding \<Rightarrow> revocation_state \<Rightarrow> string \<Rightarrow> string \<Rightarrow> root_creation_bundle
    \<Rightarrow> evidence_chain_head \<Rightarrow> revocation_plan \<Rightarrow> bool" where
  "planned h target s request_sha at b previous p \<longleftrightarrow>
    (let i = vx_invocation s; auth = sr_value (bu_authority b); root = sr_value (bu_root b); r = pn_replacement p in
     vx_root_bundle s = Some b \<and> bundle_trusted h target b
     \<and> predecessor_head h target s = Inr previous \<and> hd_updated_at previous \<le> at
     \<and> epoch_revocation_evidence_id h request_sha (ad_root_sha256 root) (au_current_epoch auth + 1)
         = Inr (au_evidence_id r)
     \<and> pn_trusted p = trusted_of b
     \<and> r = replacement_authority target i (trusted_of b) (au_evidence_id r) at
     \<and> validate_authority_record r = None
     \<and> service_claim_sha256 h (sr_value (bu_service_claim b)) = Inr (vs_service_claim_sha256 (pn_subject p))
     \<and> epoch_authority_sha256 h auth = Inr (vs_previous_authority_sha256 (pn_subject p))
     \<and> epoch_authority_sha256 h r = Inr (vs_replacement_authority_sha256 (pn_subject p))
     \<and> pn_subject p =
         \<lparr>vs_root_id = ad_root_id root, vs_root_sha256 = ad_root_sha256 root, vs_request_sha256 = request_sha,
          vs_request_id = vk_request_id (vi_command i), vs_idempotency_key = vk_idempotency_key (vi_command i),
          vs_operator_identity = vi_operator_identity i, vs_operator_subject = vi_operator_subject i,
          vs_reason = vk_reason (vi_command i),
          vs_service_claim_sha256 = vs_service_claim_sha256 (pn_subject p),
          vs_previous_authority_sha256 = vs_previous_authority_sha256 (pn_subject p),
          vs_replacement_authority_sha256 = vs_replacement_authority_sha256 (pn_subject p),
          vs_previous_epoch = au_current_epoch auth, vs_new_epoch = au_current_epoch r,
          vs_evidence_id = au_evidence_id r, vs_committed_at = at\<rparr>
     \<and> validate_revocation_subject (pn_subject p) = None
     \<and> revocation_subject_sha256 h (pn_subject p) = Inr (ev_subject_sha256 (pn_event p))
     \<and> pn_event p = revocation_event target i (trusted_of b) previous r (ev_subject_sha256 (pn_event p))
     \<and> validate_evidence_event (pn_event p) = None)"

lemma replacement_sel [simp]:
  "au_evidence_id (replacement_authority target i t e at) = e"
  "au_changed_at (replacement_authority target i t e at) = at"
  "au_current_epoch (replacement_authority target i t e at) = au_current_epoch (ra_authority t) + 1"
  "au_previous_epoch (replacement_authority target i t e at) = Some (au_current_epoch (ra_authority t))"
  "au_revision (replacement_authority target i t e at) = au_revision (ra_authority t) + 1"
  "au_root_id (replacement_authority target i t e at) = ad_root_id (ra_root t)"
  "au_root_sha256 (replacement_authority target i t e at) = ad_root_sha256 (ra_root t)"
  "au_target (replacement_authority target i t e at) = target"
  "au_cause (replacement_authority target i t e at) = EC_OPERATOR_REVOCATION"
  "au_changed_by (replacement_authority target i t e at) = vi_operator_identity i"
  "au_request_id (replacement_authority target i t e at) = vk_request_id (vi_command i)"
  by (simp_all add: replacement_authority_def Let_def)

lemma planned_basics:
  assumes "planned h target s request_sha at b previous p"
  shows "vx_root_bundle s = Some b"
    and "\<exists>e. pn_replacement p = replacement_authority target (vx_invocation s) (trusted_of b) e at"
  using assms unfolding planned_def Let_def by blast+

lemma plan_commit_Inr:
  assumes "plan_commit h target s request_sha at = Inr p"
  obtains b previous where "planned h target s request_sha at b previous p"
proof -
  from assms obtain b previous where "planned h target s request_sha at b previous p"
    by (auto simp: plan_commit_def Let_def bindS_Inr inspect_iff service_claim_sha256_def revocation_subject_of_def
        bindR_eq_Inr_iff planned_def revocation_event_def split: option.splits)
  then show thesis by (rule that)
qed

text \<open>A commit is its plan, signed as planned.\<close>

lemma complete_commit_Inr:
  assumes "complete_commit h target i request_sha p answer = Inr t"
  shows "\<exists>evidence_sha. answer = Some (vt_signed_evidence t) \<and> se_event (vt_signed_evidence t) = pn_event p
    \<and> se_signing_key_version (vt_signed_evidence t)
        = rc_evidence_signing_key_version (ad_content (ra_root (pn_trusted p)))
    \<and> signed_evidence_sha256 h (vt_signed_evidence t) = Inr evidence_sha
    \<and> vt_replacement_authority t = pn_replacement p \<and> vt_evidence_subject t = pn_subject p
    \<and> vt_chain_head t = revocation_head target (pn_trusted p) (pn_event p) evidence_sha
    \<and> vt_result t = revocation_result_of target i p request_sha evidence_sha
    \<and> vt_request_identity t = identity_claim (vt_result t) RI_REQUEST (vk_request_id (vi_command i))
    \<and> vt_idempotency_identity t = identity_claim (vt_result t) RI_IDEMPOTENCY (vk_idempotency_key (vi_command i))
    \<and> vt_audit t = success_audit i (vt_result t) request_sha RA_COMMITTED (vr_committed_at (vt_result t))
    \<and> validate_evidence_chain_head (vt_chain_head t) = None
    \<and> validate_revocation_result h (vt_result t) = None
    \<and> validate_revocation_identity (vt_request_identity t) = None
    \<and> validate_revocation_identity (vt_idempotency_identity t) = None
    \<and> validate_revocation_audit (vt_audit t) = None"
  using assms by (auto simp: complete_commit_def bindS_Inr split: option.splits)

lemma state_denial_None:
  assumes "state_denial h target s request_sha = Inr None"
  shows "vx_result s = None \<and> vx_request_identity s = None \<and> vx_idempotency_identity s = None
    \<and> epoch_revocation_request_sha256 h (vx_invocation s) = Inr request_sha
    \<and> (\<exists>b head. vx_root_bundle s = Some b \<and> bundle_trusted h target b
         \<and> predecessor_head h target s = Inr head
         \<and> ad_root_id (sr_value (bu_root b)) = vk_root_id (vi_command (vx_invocation s))
         \<and> ad_root_sha256 (sr_value (bu_root b)) = vk_expected_root_sha256 (vi_command (vx_invocation s))
         \<and> cl_status (sr_value (bu_service_claim b)) = CS_ACTIVE
         \<and> sr_revision (bu_service_claim b) mod 3 = 0
         \<and> au_current_epoch (sr_value (bu_authority b)) = vk_expected_epoch (vi_command (vx_invocation s)))"
  using assms
  by (auto simp: state_denial_def Let_def inspect_iff bindR_eq_Inr_iff split: if_splits option.splits sum.splits)

section \<open>The store admits what the coordinator commits\<close>

lemma advance_planned:
  assumes "planned h target s request_sha at b previous p"
  shows "validate_authority_advance target (bu_authority b) (pn_replacement p) = None"
proof -
  have head: "current_evidence_chain_head h b target (vx_chain_head s) (vx_head_evidence s) = Inr previous"
    using assms by (auto simp: planned_def Let_def predecessor_head_Inr)
  have "au_changed_at (sr_value (bu_authority b)) \<le> at"
    using current_head_Inr(1) [OF head] assms by (auto simp: planned_def Let_def)
  moreover obtain e where r: "pn_replacement p = replacement_authority target (vx_invocation s) (trusted_of b) e at"
    using assms by (auto simp: planned_def Let_def)
  ultimately show ?thesis
    using assms
    by (auto simp: planned_def Let_def bundle_trusted_def validate_authority_advance_def r)
qed

lemma predecessor_planned:
  assumes "planned h target s request_sha at b previous p"
  obtains q where "predecessor_record s b = Some q"
    "signed_evidence_sha256 h (sr_value q) = Inr (hd_evidence_sha256 previous)"
    "ev_evidence_id (se_event (sr_value q)) = hd_evidence_id previous"
proof -
  have head: "current_evidence_chain_head h b target (vx_chain_head s) (vx_head_evidence s) = Inr previous"
    using assms by (auto simp: planned_def Let_def predecessor_head_Inr)
  show thesis
    using current_head_Inr(4) [OF head] that by (auto simp: predecessor_record_def)
qed

text \<open>The evidence fields that the coordinator builds from its plan.\<close>

lemma revocation_event_sel [simp]:
  "ev_evidence_id (revocation_event target i t previous r sha) = au_evidence_id r"
  "ev_sequence (revocation_event target i t previous r sha) = hd_sequence previous + 1"
  "ev_root_id (revocation_event target i t previous r sha) = ad_root_id (ra_root t)"
  "ev_root_sha256 (revocation_event target i t previous r sha) = ad_root_sha256 (ra_root t)"
  "ev_target (revocation_event target i t previous r sha) = target"
  "ev_epoch (revocation_event target i t previous r sha) = au_current_epoch r"
  "ev_kind (revocation_event target i t previous r sha) = EK_EPOCH_ADVANCED"
  "ev_actor (revocation_event target i t previous r sha) = vi_operator_identity i"
  "ev_request_id (revocation_event target i t previous r sha) = Some (vk_request_id (vi_command i))"
  "ev_receipt_id (revocation_event target i t previous r sha) = None"
  "ev_occurred_at (revocation_event target i t previous r sha) = au_changed_at r"
  "ev_subject_sha256 (revocation_event target i t previous r sha) = sha"
  "ev_previous_event_sha256 (revocation_event target i t previous r sha) = Some (hd_evidence_sha256 previous)"
  "ev_reason_code (revocation_event target i t previous r sha) = None"
  "ev_provider_operation (revocation_event target i t previous r sha) = None"
  "ev_target_configuration_sha256 (revocation_event target i t previous r sha) = None"
  by (simp_all add: revocation_event_def)

lemma revocation_result_sel [simp]:
  "vr_result_id (revocation_result_of target i p q e) = revocation_result_id q"
  "vr_request_sha256 (revocation_result_of target i p q e) = q"
  "vr_request_id (revocation_result_of target i p q e) = vk_request_id (vi_command i)"
  "vr_idempotency_key (revocation_result_of target i p q e) = vk_idempotency_key (vi_command i)"
  "vr_root_id (revocation_result_of target i p q e) = ad_root_id (ra_root (pn_trusted p))"
  "vr_root_sha256 (revocation_result_of target i p q e) = ad_root_sha256 (ra_root (pn_trusted p))"
  "vr_target (revocation_result_of target i p q e) = target"
  "vr_operator_identity (revocation_result_of target i p q e) = vi_operator_identity i"
  "vr_operator_subject (revocation_result_of target i p q e) = vi_operator_subject i"
  "vr_reason (revocation_result_of target i p q e) = vk_reason (vi_command i)"
  "vr_previous_epoch (revocation_result_of target i p q e) = au_current_epoch (ra_authority (pn_trusted p))"
  "vr_new_epoch (revocation_result_of target i p q e) = au_current_epoch (pn_replacement p)"
  "vr_evidence_id (revocation_result_of target i p q e) = au_evidence_id (pn_replacement p)"
  "vr_evidence_sha256 (revocation_result_of target i p q e) = e"
  "vr_evidence_subject (revocation_result_of target i p q e) = pn_subject p"
  "vr_committed_at (revocation_result_of target i p q e) = au_changed_at (pn_replacement p)"
  by (simp_all add: revocation_result_of_def)

lemma identity_claim_accepted: "identity_claims_result (identity_claim r kind v) kind v r (vr_request_sha256 r)"
  by (simp add: identity_claims_result_def identity_claim_def)

lemma success_audit_sel [simp]:
  "va_audit_id (success_audit i r q out at) = vi_attempt_id i"
  "va_attempt_id (success_audit i r q out at) = vi_attempt_id i"
  "va_request_sha256 (success_audit i r q out at) = q"
  "va_root_id (success_audit i r q out at) = vk_root_id (vi_command i)"
  "va_root_sha256 (success_audit i r q out at) = vk_expected_root_sha256 (vi_command i)"
  "va_expected_epoch (success_audit i r q out at) = vk_expected_epoch (vi_command i)"
  "va_request_id (success_audit i r q out at) = vk_request_id (vi_command i)"
  "va_idempotency_key (success_audit i r q out at) = vk_idempotency_key (vi_command i)"
  "va_operator_identity (success_audit i r q out at) = vi_operator_identity i"
  "va_operator_subject (success_audit i r q out at) = vi_operator_subject i"
  "va_outcome (success_audit i r q out at) = out"
  "va_failure_code (success_audit i r q out at) = None"
  "va_result_id (success_audit i r q out at) = Some (vr_result_id r)"
  "va_evidence_id (success_audit i r q out at) = Some (vr_evidence_id r)"
  "va_new_epoch (success_audit i r q out at) = Some (vr_new_epoch r)"
  "va_recorded_at (success_audit i r q out at) = at"
  by (simp_all add: success_audit_def attempt_audit_def)

text \<open>The facts of one decision to commit.\<close>

definition decided ::
  "hexdigest \<Rightarrow> target_binding \<Rightarrow> revocation_state \<Rightarrow> string \<Rightarrow> string \<Rightarrow> revocation_commit \<Rightarrow> bool" where
  "decided h target s request_sha at t \<longleftrightarrow>
     vx_attempt_audit s = None \<and> state_denial h target s request_sha = Inr None
     \<and> (\<exists>p e. plan_commit h target s request_sha at = Inr p
          \<and> complete_commit h target (vx_invocation s) request_sha p (Some e) = Inr t)"

lemma decided_facts:
  assumes "decided h target s request_sha at t"
  obtains b previous p evidence_sha where
    "planned h target s request_sha at b previous p"
    "state_denial h target s request_sha = Inr None"
    "se_event (vt_signed_evidence t) = pn_event p"
    "se_signing_key_version (vt_signed_evidence t)
        = rc_evidence_signing_key_version (ad_content (sr_value (bu_root b)))"
    "signed_evidence_sha256 h (vt_signed_evidence t) = Inr evidence_sha"
    "vt_replacement_authority t = pn_replacement p" "vt_evidence_subject t = pn_subject p"
    "vt_chain_head t = revocation_head target (trusted_of b) (pn_event p) evidence_sha"
    "vt_result t = revocation_result_of target (vx_invocation s) p request_sha evidence_sha"
    "vt_request_identity t
        = identity_claim (vt_result t) RI_REQUEST (vk_request_id (vi_command (vx_invocation s)))"
    "vt_idempotency_identity t
        = identity_claim (vt_result t) RI_IDEMPOTENCY (vk_idempotency_key (vi_command (vx_invocation s)))"
    "vt_audit t = success_audit (vx_invocation s) (vt_result t) request_sha RA_COMMITTED at"
    "pn_trusted p = trusted_of b"
proof -
  from assms obtain p e where pe: "plan_commit h target s request_sha at = Inr p"
    "complete_commit h target (vx_invocation s) request_sha p (Some e) = Inr t"
    by (auto simp: decided_def)
  obtain b previous where pl: "planned h target s request_sha at b previous p"
    using plan_commit_Inr [OF pe(1)] .
  have at: "au_changed_at (pn_replacement p) = at" and tr: "pn_trusted p = trusted_of b"
  proof -
    obtain e where "pn_replacement p = replacement_authority target (vx_invocation s) (trusted_of b) e at"
      using pl by (auto simp: planned_def Let_def)
    then show "au_changed_at (pn_replacement p) = at" by simp
    show "pn_trusted p = trusted_of b" using pl by (auto simp: planned_def Let_def)
  qed
  show thesis
    using complete_commit_Inr [OF pe(2)] assms that [OF pl] at tr by (auto simp: decided_def)
qed

lemma decided_admitted:
  assumes "decided h target s request_sha at t"
  shows "validate_epoch_revocation_commit h target s t = Inr ()"
proof -
  obtain b previous p evidence_sha where pl: "planned h target s request_sha at b previous p"
    and sd: "state_denial h target s request_sha = Inr None"
    and ev: "se_event (vt_signed_evidence t) = pn_event p"
    and key: "se_signing_key_version (vt_signed_evidence t)
        = rc_evidence_signing_key_version (ad_content (sr_value (bu_root b)))"
    and sha: "signed_evidence_sha256 h (vt_signed_evidence t) = Inr evidence_sha"
    and rep: "vt_replacement_authority t = pn_replacement p" and sub: "vt_evidence_subject t = pn_subject p"
    and hd: "vt_chain_head t = revocation_head target (trusted_of b) (pn_event p) evidence_sha"
    and res: "vt_result t = revocation_result_of target (vx_invocation s) p request_sha evidence_sha"
    and rq: "vt_request_identity t
        = identity_claim (vt_result t) RI_REQUEST (vk_request_id (vi_command (vx_invocation s)))"
    and ik: "vt_idempotency_identity t
        = identity_claim (vt_result t) RI_IDEMPOTENCY (vk_idempotency_key (vi_command (vx_invocation s)))"
    and au: "vt_audit t = success_audit (vx_invocation s) (vt_result t) request_sha RA_COMMITTED at"
    and tr: "pn_trusted p = trusted_of b"
    using decided_facts [OF assms] by blast
  note st = state_denial_None [OF sd]
  have b: "vx_root_bundle s = Some b" "bundle_trusted h target b" "predecessor_head h target s = Inr previous"
    using pl by (auto simp: planned_def Let_def)
  obtain e where r: "pn_replacement p = replacement_authority target (vx_invocation s) (trusted_of b) e at"
    using pl by (auto simp: planned_def Let_def)
  obtain x where x: "pn_event p = revocation_event target (vx_invocation s) (trusted_of b) previous (pn_replacement p) x"
    "revocation_subject_sha256 h (pn_subject p) = Inr x"
    using pl by (auto simp: planned_def Let_def)
  obtain q where q: "predecessor_record s b = Some q"
    "signed_evidence_sha256 h (sr_value q) = Inr (hd_evidence_sha256 previous)"
    using predecessor_planned [OF pl] by blast
  have open_s: "request_open s" using st assms by (simp add: request_open_def decided_def)
  have active: "active_root_matches target (vx_invocation s) b (pn_replacement p)"
    using st b trusted_claim [OF b(2)] by (auto simp: active_root_matches_def Let_def r bundle_trusted_def)
  have result_ok: "result_matches_commit target (vx_invocation s) b t request_sha evidence_sha"
    by (simp add: result_matches_commit_def Let_def res rep sub r tr revocation_result_id_def)
  obtain cl pv rp where digests: "service_claim_sha256 h (sr_value (bu_service_claim b)) = Inr cl"
    "epoch_authority_sha256 h (sr_value (bu_authority b)) = Inr pv"
    "epoch_authority_sha256 h (pn_replacement p) = Inr rp"
    "subject_matches_commit (pn_subject p) (vt_result t) request_sha cl pv rp"
  proof -
    let ?s = "pn_subject p"
    have "subject_matches_commit ?s (vt_result t) request_sha (vs_service_claim_sha256 ?s)
        (vs_previous_authority_sha256 ?s) (vs_replacement_authority_sha256 ?s)"
      using pl unfolding planned_def Let_def subject_matches_commit_def res
      by (auto simp: tr r dest: arg_cong [where f = vs_root_id])
        (metis revocation_subject.simps)+
    then show thesis using that pl by (auto simp: planned_def Let_def)
  qed
  have event_ok: "event_matches_commit target (vx_invocation s) b t x"
    by (simp add: event_matches_commit_def Let_def ev x(1) res r tr key)
  have chain: "chain_extended target t previous (hd_evidence_sha256 previous) evidence_sha"
    using pl by (simp add: chain_extended_def Let_def ev x(1) hd res r tr revocation_head_def planned_def)
  have ids: "identity_claims_result (vt_request_identity t) RI_REQUEST
        (vk_request_id (vi_command (vx_invocation s))) (vt_result t) request_sha"
      "identity_claims_result (vt_idempotency_identity t) RI_IDEMPOTENCY
        (vk_idempotency_key (vi_command (vx_invocation s))) (vt_result t) request_sha"
    using identity_claim_accepted [of "vt_result t"] by (simp_all add: rq ik res)
  have audit: "audit_accepts (vt_audit t) (vx_invocation s) (vt_result t) request_sha"
    using st b by (auto simp: audit_accepts_def au res r tr)
  show ?thesis
    unfolding validate_epoch_revocation_commit_def Let_def
    using st b open_s advance_planned [OF pl] active result_ok digests event_ok chain ids audit q sha x(2)
    by (simp add: rep sub construct_def)
qed

end
