(* ===== verification/RevocationReads.thy ===== *)
theory RevocationReads
  imports RevocationProps
begin

text \<open>
  What the store holds after a revocation was written, and what the coordinator makes of it when it reads
  again: the same bundle under the replacement authority, the new head, and a settled attempt.
\<close>

section \<open>An admitted commit\<close>

definition admitted ::
  "hexdigest \<Rightarrow> target_binding \<Rightarrow> revocation_state \<Rightarrow> root_creation_bundle \<Rightarrow> revocation_commit \<Rightarrow> string
    \<Rightarrow> evidence_chain_head \<Rightarrow> bool" where
  "admitted h c s b t request_sha previous \<longleftrightarrow>
    (\<exists>evidence_sha claim_sha previous_sha replacement_sha subject_sha predecessor predecessor_sha.
      vx_root_bundle s = Some b \<and> request_open s
      \<and> epoch_revocation_request_sha256 h (vx_invocation s) = Inr request_sha
      \<and> validate_authority_advance c (bu_authority b) (vt_replacement_authority t) = None
      \<and> active_root_matches c (vx_invocation s) b (vt_replacement_authority t)
      \<and> signed_evidence_sha256 h (vt_signed_evidence t) = Inr evidence_sha
      \<and> result_matches_commit c (vx_invocation s) b t request_sha evidence_sha
      \<and> epoch_authority_sha256 h (vt_replacement_authority t) = Inr replacement_sha
      \<and> revocation_subject_sha256 h (vt_evidence_subject t) = Inr subject_sha
      \<and> subject_matches_commit (vt_evidence_subject t) (vt_result t) request_sha claim_sha previous_sha
          replacement_sha
      \<and> event_matches_commit c (vx_invocation s) b t subject_sha
      \<and> predecessor_head h c s = Inr previous
      \<and> predecessor_record s b = Some predecessor
      \<and> signed_evidence_sha256 h (sr_value predecessor) = Inr predecessor_sha
      \<and> chain_extended c t previous predecessor_sha evidence_sha
      \<and> identity_claims_result (vt_request_identity t) RI_REQUEST
          (vk_request_id (vi_command (vx_invocation s))) (vt_result t) request_sha
      \<and> identity_claims_result (vt_idempotency_identity t) RI_IDEMPOTENCY
          (vk_idempotency_key (vi_command (vx_invocation s))) (vt_result t) request_sha
      \<and> audit_accepts (vt_audit t) (vx_invocation s) (vt_result t) request_sha)"

lemma validate_commit_Inr:
  assumes "validate_epoch_revocation_commit h c s t = Inr u"
  obtains b request_sha previous where "admitted h c s b t request_sha previous"
proof -
  from assms obtain b request_sha previous where "admitted h c s b t request_sha previous"
    unfolding validate_epoch_revocation_commit_def Let_def admitted_def
    by (auto simp: bindR_eq_Inr_iff split: option.splits if_splits)
  then show thesis by (rule that)
qed

lemma keyed_Inr: "keyed l v d = Inr (k, d') \<longleftrightarrow> l = Inr k \<and> is_identifier k \<and> d' = d \<and> v k d = None"
  by (auto simp: keyed_def prepared_Inr bindR_eq_Inr_iff logical_identity_def split: if_splits)

lemma prefixes_differ:
  assumes "revocation_identity_logical_id kind v = Inr x" "revocation_identity_logical_id kind' v' = Inr x"
  shows "kind = kind'"
  using assms
  by (cases kind; cases kind') (auto simp: revocation_identity_logical_id_def bindR_eq_Inr_iff)

text \<open>The documents of a commit, each under its own identity.\<close>

lemma prepare_documents_Inr:
  assumes "prepare_revocation_documents h m t = Inr docs"
  shows "xd_authority docs = (au_root_id (vt_replacement_authority t),
        new_document (au_revision (vt_replacement_authority t)) (m 0) (vt_replacement_authority t))"
    and "xd_evidence docs = (ev_evidence_id (se_event (vt_signed_evidence t)),
        new_document 0 (m 1) (vt_signed_evidence t))"
    and "xd_head docs = (hd_root_id (vt_chain_head t),
        new_document (hd_sequence (vt_chain_head t)) (m 2) (vt_chain_head t))"
    and "xd_result docs = (vr_result_id (vt_result t), new_document 0 (m 3) (vt_result t))"
    and "xd_audit docs = (va_audit_id (vt_audit t), new_document 0 (m 7) (vt_audit t))"
    and "revocation_identity_logical_id (vd_kind (vt_request_identity t)) (vd_value (vt_request_identity t))
        = Inr (fst (xd_request docs)) \<and> snd (xd_request docs) = new_document 0 (m 4) (vt_request_identity t)"
    and "revocation_identity_logical_id (vd_kind (vt_idempotency_identity t)) (vd_value (vt_idempotency_identity t))
        = Inr (fst (xd_idempotency docs)) \<and> snd (xd_idempotency docs) = new_document 0 (m 5) (vt_idempotency_identity t)"
    and "\<exists>v. revocation_identity_logical_id RI_EPOCH v = Inr (fst (xd_epoch docs))"
    and "validate_revocation_audit (vt_audit t) = None"
    and "validate_revocation_result h (vt_result t) = None"
    and "validate_authority_record (vt_replacement_authority t) = None"
    and "validate_signed_evidence h (vt_signed_evidence t) = None"
    and "validate_evidence_chain_head (vt_chain_head t) = None"
  using assms
  by (auto simp: prepare_revocation_documents_def bindR_eq_Inr_iff identity_document_def keyed_Inr
      epoch_identity_def identity_claim_def audit_wrapper_def result_wrapper_def evidence_wrapper_def
      validate_head_wrapper_def validate_authority_wrapper_def immutable_wrapper_def split: prod.splits)

section \<open>The state after the commit\<close>

definition advanced_bundle :: "root_creation_bundle \<Rightarrow> epoch_authority_record \<Rightarrow> root_creation_bundle" where
  "advanced_bundle b a = b\<lparr>bu_authority := \<lparr>sr_value = a, sr_revision = au_revision a\<rparr>\<rparr>"

definition committed_state :: "revocation_state \<Rightarrow> root_creation_bundle \<Rightarrow> revocation_commit \<Rightarrow> revocation_state" where
  "committed_state s b t =
     \<lparr>vx_invocation = vx_invocation s,
      vx_root_bundle = Some (advanced_bundle b (vt_replacement_authority t)),
      vx_chain_head = Some \<lparr>sr_value = vt_chain_head t, sr_revision = hd_sequence (vt_chain_head t)\<rparr>,
      vx_head_evidence = Some \<lparr>sr_value = vt_signed_evidence t, sr_revision = 0\<rparr>,
      vx_request_identity = Some \<lparr>sr_value = vt_request_identity t, sr_revision = 0\<rparr>,
      vx_idempotency_identity = Some \<lparr>sr_value = vt_idempotency_identity t, sr_revision = 0\<rparr>,
      vx_result = Some \<lparr>sr_value = vt_result t, sr_revision = 0\<rparr>,
      vx_result_evidence = Some \<lparr>sr_value = vt_signed_evidence t, sr_revision = 0\<rparr>,
      vx_attempt_audit = Some \<lparr>sr_value = vt_audit t, sr_revision = 0\<rparr>\<rparr>"

lemma advanced_bundle_sel [simp]:
  "bu_root (advanced_bundle b a) = bu_root b"
  "bu_service_claim (advanced_bundle b a) = bu_service_claim b"
  "bu_authority (advanced_bundle b a) = \<lparr>sr_value = a, sr_revision = au_revision a\<rparr>"
  "bu_lineage_anchor (advanced_bundle b a) = bu_lineage_anchor b"
  "bu_signed_evidence (advanced_bundle b a) = bu_signed_evidence b"
  "bu_creation_result (advanced_bundle b a) = bu_creation_result b"
  by (simp_all add: advanced_bundle_def)

lemma committed_state_sel [simp]:
  "vx_invocation (committed_state s b t) = vx_invocation s"
  "vx_root_bundle (committed_state s b t) = Some (advanced_bundle b (vt_replacement_authority t))"
  "vx_chain_head (committed_state s b t)
     = Some \<lparr>sr_value = vt_chain_head t, sr_revision = hd_sequence (vt_chain_head t)\<rparr>"
  "vx_head_evidence (committed_state s b t) = Some \<lparr>sr_value = vt_signed_evidence t, sr_revision = 0\<rparr>"
  "vx_request_identity (committed_state s b t) = Some \<lparr>sr_value = vt_request_identity t, sr_revision = 0\<rparr>"
  "vx_idempotency_identity (committed_state s b t) = Some \<lparr>sr_value = vt_idempotency_identity t, sr_revision = 0\<rparr>"
  "vx_result (committed_state s b t) = Some \<lparr>sr_value = vt_result t, sr_revision = 0\<rparr>"
  "vx_result_evidence (committed_state s b t) = Some \<lparr>sr_value = vt_signed_evidence t, sr_revision = 0\<rparr>"
  "vx_attempt_audit (committed_state s b t) = Some \<lparr>sr_value = vt_audit t, sr_revision = 0\<rparr>"
  by (simp_all add: committed_state_def)

lemma admitted_advance:
  assumes "admitted h c s b t request_sha previous"
  shows "au_root_id (vt_replacement_authority t) = au_root_id (sr_value (bu_authority b))"
    "au_root_sha256 (vt_replacement_authority t) = au_root_sha256 (sr_value (bu_authority b))"
    "au_target (vt_replacement_authority t) = c"
    "au_current_epoch (vt_replacement_authority t) = au_current_epoch (sr_value (bu_authority b)) + 1"
    "au_previous_epoch (vt_replacement_authority t) = Some (au_current_epoch (sr_value (bu_authority b)))"
    "au_revision (vt_replacement_authority t) = au_revision (sr_value (bu_authority b)) + 1"
  using assms by (auto simp: admitted_def validate_authority_advance_def Let_def)

lemma committed_bundle_trusted:
  assumes "admitted h c s b t request_sha previous" "bundle_trusted h c b"
  shows "bundle_trusted h c (advanced_bundle b (vt_replacement_authority t))"
  using assms(2) admitted_advance [OF assms(1)] by (simp add: bundle_trusted_def Let_def)

lemma admitted_revision_le:
  assumes "admitted h c s b t request_sha previous"
  shows "au_revision (sr_value (bu_authority b)) \<le> hd_sequence previous"
proof -
  have "current_evidence_chain_head h b c (vx_chain_head s) (vx_head_evidence s) = Inr previous"
    using assms by (auto simp: admitted_def predecessor_head_Inr)
  then show ?thesis by (rule current_head_Inr(2))
qed

lemma admitted_head:
  assumes "admitted h c s b t request_sha previous" "bundle_trusted h c b"
  shows "\<exists>evidence_sha. signed_evidence_sha256 h (vt_signed_evidence t) = Inr evidence_sha
    \<and> head_matches_event c (sr_value (bu_root b)) (vt_replacement_authority t) (vt_chain_head t)
        (vt_signed_evidence t) evidence_sha
    \<and> hd_evidence_sha256 (vt_chain_head t) = evidence_sha \<and> vr_evidence_sha256 (vt_result t) = evidence_sha"
proof -
  from assms(1) obtain evidence_sha subject_sha predecessor_sha where
    e: "signed_evidence_sha256 h (vt_signed_evidence t) = Inr evidence_sha"
    and r: "result_matches_commit c (vx_invocation s) b t request_sha evidence_sha"
    and ev: "event_matches_commit c (vx_invocation s) b t subject_sha"
    and ch: "chain_extended c t previous predecessor_sha evidence_sha"
    by (auto simp: admitted_def)
  show ?thesis
    using e r ev ch admitted_revision_le [OF assms(1)] admitted_advance [OF assms(1)]
    by (simp add: head_matches_event_def result_matches_commit_def event_matches_commit_def chain_extended_def Let_def)
qed

lemma committed_head:
  assumes "admitted h c s b t request_sha previous" "bundle_trusted h c b"
  shows "predecessor_head h c (committed_state s b t) = Inr (vt_chain_head t)"
  using admitted_head [OF assms]
  by (auto simp: predecessor_head_Inr current_evidence_chain_head_def Let_def)

lemma committed_evidence:
  assumes "admitted h c s b t request_sha previous" "validate_evidence_chain_head (vt_chain_head t) = None"
  shows "result_evidence_matches h (vx_result_evidence (committed_state s b t)) (vt_result t) (vt_chain_head t)
    (rc_evidence_signing_key_version (ad_content (sr_value (bu_root b)))) = Inr True"
proof -
  from assms(1) obtain evidence_sha subject_sha predecessor_sha claim_sha previous_sha replacement_sha where
    e: "signed_evidence_sha256 h (vt_signed_evidence t) = Inr evidence_sha"
    and x: "revocation_subject_sha256 h (vt_evidence_subject t) = Inr subject_sha"
    and r: "result_matches_commit c (vx_invocation s) b t request_sha evidence_sha"
    and su: "subject_matches_commit (vt_evidence_subject t) (vt_result t) request_sha claim_sha previous_sha
          replacement_sha"
    and ev: "event_matches_commit c (vx_invocation s) b t subject_sha"
    and ch: "chain_extended c t previous predecessor_sha evidence_sha"
    by (auto simp: admitted_def)
  have "0 < hd_sequence (vt_chain_head t)"
    using assms(2) ev ch
    by (auto simp: validate_evidence_chain_head_def validate_head_def chain_extended_def event_matches_commit_def
        Let_def nonneg_safe_integer_def field_def split: if_splits)
  then show ?thesis
    using e x r su ev ch
    by (simp add: result_evidence_matches_def result_matches_commit_def subject_matches_commit_def
        event_matches_commit_def chain_extended_def event_opens_result_def Let_def)
qed

section \<open>Reading again\<close>

lemma committed_exact:
  assumes "admitted h c s b t request_sha previous" "bundle_trusted h c b"
    "validate_evidence_chain_head (vt_chain_head t) = None"
  shows "exact_result h c (committed_state s b t) request_sha = Inr (Some (vt_result t))"
proof -
  from assms(1) obtain evidence_sha claim_sha previous_sha replacement_sha where
    p: "epoch_authority_sha256 h (vt_replacement_authority t) = Inr replacement_sha"
    and r: "result_matches_commit c (vx_invocation s) b t request_sha evidence_sha"
    and su: "subject_matches_commit (vt_evidence_subject t) (vt_result t) request_sha claim_sha previous_sha
          replacement_sha"
    and ac: "active_root_matches c (vx_invocation s) b (vt_replacement_authority t)"
    and q: "identity_claims_result (vt_request_identity t) RI_REQUEST
          (vk_request_id (vi_command (vx_invocation s))) (vt_result t) request_sha"
    and k: "identity_claims_result (vt_idempotency_identity t) RI_IDEMPOTENCY
          (vk_idempotency_key (vi_command (vx_invocation s))) (vt_result t) request_sha"
    by (auto simp: admitted_def)
  note adv = admitted_advance [OF assms(1)]
  have answers: "result_answers_request c (vx_invocation s) request_sha (vt_result t)"
    using r ac adv by (auto simp: result_answers_request_def result_matches_commit_def active_root_matches_def
        revocation_result_id_def Let_def)
  have auth: "authority_contradicts h (vt_replacement_authority t) (vt_result t) = Inr False"
    using r ac adv su p
    by (auto simp: authority_contradicts_def authority_records_result_def result_matches_commit_def
        active_root_matches_def subject_matches_commit_def Let_def)
  have ids: "identities_match_result (committed_state s b t) (vt_result t)"
    using q k r
    by (auto simp: identities_match_result_def identity_matches_def identity_claims_result_def
        result_matches_commit_def Let_def)
  have newer: "\<not> au_current_epoch (vt_replacement_authority t) < vr_new_epoch (vt_result t)"
    using r by (simp add: result_matches_commit_def Let_def)
  have inspected: "inspect_creation_bundle h c (advanced_bundle b (vt_replacement_authority t))
      = Some (trusted_of (advanced_bundle b (vt_replacement_authority t)))"
    using committed_bundle_trusted [OF assms(1,2)] by (simp add: inspect_iff)
  show ?thesis
    using answers auth ids newer inspected committed_head [OF assms(1,2)] committed_evidence [OF assms(1,3)]
    by (simp add: exact_result_def Let_def bindS_def raises_def distrusts_def denies_def guardS_def)
qed

lemma committed_settled:
  assumes "admitted h c s b t request_sha previous" "bundle_trusted h c b"
    "validate_evidence_chain_head (vt_chain_head t) = None" "validate_revocation_audit (vt_audit t) = None"
  shows "settle h c (committed_state s b t) request_sha = Inr (Settled (vt_result t))"
proof -
  from assms(1) obtain evidence_sha where
    r: "result_matches_commit c (vx_invocation s) b t request_sha evidence_sha"
    and ac: "active_root_matches c (vx_invocation s) b (vt_replacement_authority t)"
    and au: "audit_accepts (vt_audit t) (vx_invocation s) (vt_result t) request_sha"
    by (auto simp: admitted_def)
  have fc: "va_failure_code (vt_audit t) = None"
    using assms(4) au
    by (auto simp: validate_revocation_audit_def validate_audit_outcome_def audit_accepts_def)
  have v: "validated_attempt_audit (committed_state s b t) request_sha = Inr (Some (vt_audit t))"
    using au r ac
    by (auto simp: validated_attempt_audit_def Let_def audit_accepts_def result_matches_commit_def
        active_root_matches_def)
  have m: "successful_audit_matches (vt_audit t) (vx_invocation s) (vt_result t) request_sha"
    using au r fc by (auto simp: successful_audit_matches_def audit_accepts_def)
  show ?thesis
    using committed_exact [OF assms(1-3)] v m au
    by (simp add: settle_def bindS_Inr audit_accepts_def)
qed

end
