(* ===== verification/RevocationDurability.thy ===== *)
theory RevocationDurability
  imports RevocationReads
begin

text \<open>
  The transaction of a revocation against the read that follows it: once written, the same invocation reads
  its own commit, and no second commit of that request or epoch can be written.
\<close>

section \<open>What one read fixes\<close>

definition evidence_keyed :: "revocation_db \<Rightarrow> bool" where
  "evidence_keyed db \<longleftrightarrow> (\<forall>k d. vb_evidence db k = Some d \<longrightarrow> ev_evidence_id (se_event (doc_value d)) = k)"

lemma stored_at_Some: "stored_at coll k = Some x \<longleftrightarrow> (\<exists>d. coll k = Some d \<and> x = stored_of d)"
  by (auto simp: stored_at_def)

lemma stored_at_None [simp]: "stored_at coll k = None \<longleftrightarrow> coll k = None"
  by (simp add: stored_at_def)

lemma read_bundle_Some:
  assumes "read_root_bundle h c root_id db = Inr (Some b)"
  obtains v claim_key where "content_addressed_root db root_id = Inr (Some (v, bu_root b))"
    "stored_at (vb_authorities db) root_id = Some (bu_authority b)"
    "read_versioned (vb_creations_v1 db) (vb_creations_v2 db) root_id = Inr (Some (v, bu_creation_result b))"
    "service_claim_logical_id h c = Inr claim_key"
    "lineage_anchor_logical_id h (wr_lineage_anchor (sr_value (bu_creation_result b)))
       = Inr (wr_winner_lineage_anchor_id (sr_value (bu_creation_result b)))"
    "stored_at (vb_claims db) claim_key = Some (bu_service_claim b)"
    "stored_at (vb_anchors db) (wr_winner_lineage_anchor_id (sr_value (bu_creation_result b)))
       = Some (bu_lineage_anchor b)"
    "stored_at (vb_evidence db) (wr_winner_evidence_id (sr_value (bu_creation_result b)))
       = Some (bu_signed_evidence b)"
  using assms
  by (auto simp: read_root_bundle_def read_dependents_def split: sum.splits option.splits if_splits prod.splits)

lemma read_state_Inr:
  assumes "read_epoch_revocation_state h c i db = Inr s"
  obtains request_sha request_key idempotency_key where
    "epoch_revocation_request_sha256 h i = Inr request_sha"
    "read_root_bundle h c (vk_root_id (vi_command i)) db = Inr (vx_root_bundle s)"
    "vx_invocation s = i"
    "vx_chain_head s = stored_at (vb_heads db) (vk_root_id (vi_command i))"
    "revocation_identity_logical_id RI_REQUEST (vk_request_id (vi_command i)) = Inr request_key"
    "revocation_identity_logical_id RI_IDEMPOTENCY (vk_idempotency_key (vi_command i)) = Inr idempotency_key"
    "vx_request_identity s = stored_at (vb_identities db) request_key"
    "vx_idempotency_identity s = stored_at (vb_identities db) idempotency_key"
    "vx_result s = stored_at (vb_results db) (revocation_result_id request_sha)"
    "vx_attempt_audit s = stored_at (vb_audits db) (vi_attempt_id i)"
    "pred_option (read_bundle_valid h c) (vx_root_bundle s)"
  using assms
  by (auto simp: read_epoch_revocation_state_def Let_def bindS_Inr split: if_splits)

section \<open>The read after the commit\<close>

lemma prepare_epoch_Inr:
  assumes "prepare_epoch_revocation h c m s t = Inr (claim_key, docs)"
  shows "validate_epoch_revocation_commit h c s t = Inr ()" "prepare_revocation_documents h m t = Inr docs"
  using assms by (auto simp: prepare_epoch_revocation_def bindR_eq_Inr_iff)

lemma written_bundle:
  assumes "read_root_bundle h c root_id db = Inr (Some b)"
    and "vb_evidence db (fst (xd_evidence docs)) = None"
    and "xd_authority docs = (root_id, new_document (au_revision a) m a)"
  shows "read_root_bundle h c root_id (write_documents docs db) = Inr (Some (advanced_bundle b a))"
proof -
  obtain v claim_key where b: "content_addressed_root db root_id = Inr (Some (v, bu_root b))"
    "stored_at (vb_authorities db) root_id = Some (bu_authority b)"
    "read_versioned (vb_creations_v1 db) (vb_creations_v2 db) root_id = Inr (Some (v, bu_creation_result b))"
    "service_claim_logical_id h c = Inr claim_key"
    "lineage_anchor_logical_id h (wr_lineage_anchor (sr_value (bu_creation_result b)))
       = Inr (wr_winner_lineage_anchor_id (sr_value (bu_creation_result b)))"
    "stored_at (vb_claims db) claim_key = Some (bu_service_claim b)"
    "stored_at (vb_anchors db) (wr_winner_lineage_anchor_id (sr_value (bu_creation_result b)))
       = Some (bu_lineage_anchor b)"
    "stored_at (vb_evidence db) (wr_winner_evidence_id (sr_value (bu_creation_result b)))
       = Some (bu_signed_evidence b)"
    using read_bundle_Some [OF assms(1)] .
  let ?db = "write_documents docs db"
  have ne: "fst (xd_evidence docs) \<noteq> wr_winner_evidence_id (sr_value (bu_creation_result b))"
    using b(8) assms(2) by (auto simp: stored_at_Some)
  have same: "content_addressed_root ?db root_id = Inr (Some (v, bu_root b))"
      "read_versioned (vb_creations_v1 ?db) (vb_creations_v2 ?db) root_id = Inr (Some (v, bu_creation_result b))"
      "stored_at (vb_claims ?db) claim_key = Some (bu_service_claim b)"
      "stored_at (vb_anchors ?db) (wr_winner_lineage_anchor_id (sr_value (bu_creation_result b)))
         = Some (bu_lineage_anchor b)"
    using b by (simp_all add: write_documents_def content_addressed_root_def)
  have auth: "stored_at (vb_authorities ?db) root_id = Some \<lparr>sr_value = a, sr_revision = au_revision a\<rparr>"
    using assms(3) by (simp add: write_documents_def put_def stored_at_def stored_of_def)
  have evidence: "stored_at (vb_evidence ?db) (wr_winner_evidence_id (sr_value (bu_creation_result b)))
      = Some (bu_signed_evidence b)"
    using b(8) ne by (simp add: write_documents_def put_def stored_at_def)
  show ?thesis
    using same auth evidence b(4,5)
    by (simp add: read_root_bundle_def read_dependents_def advanced_bundle_def)
qed

lemma advanced_bundle_valid:
  assumes "read_bundle_valid h c b" "au_target a = c" "au_root_id a = au_root_id (sr_value (bu_authority b))"
    "au_root_sha256 a = au_root_sha256 (sr_value (bu_authority b))"
  shows "read_bundle_valid h c (advanced_bundle b a)"
  using assms by (simp add: read_bundle_valid_def claim_coherent_def Let_def)

lemma revocation_body_Inr:
  assumes "revocation_body s b claim_key docs db = Inr db'"
  shows "db' = write_documents docs db" "vb_evidence db (fst (xd_evidence docs)) = None"
    "fst (xd_request docs) \<noteq> fst (xd_idempotency docs)" "fst (xd_request docs) \<noteq> fst (xd_epoch docs)"
    "fst (xd_idempotency docs) \<noteq> fst (xd_epoch docs)"
  using assms by (auto simp: revocation_body_def split: if_splits sum.splits)

text \<open>The new event is found by its own identity, and not mistaken for the root's.\<close>

lemma evidence_named_new:
  assumes "\<And>e. Some e \<in> set known \<Longrightarrow> ev_evidence_id (se_event (sr_value e)) \<noteq> k" "vb_evidence db k = Some d"
  shows "evidence_named db known k = Inr (stored_of d)"
proof -
  have "List.find (\<lambda>s. ev_evidence_id (se_event (sr_value s)) = k) (List.map_filter id known) = None"
    using assms(1) by (auto simp: find_None_iff map_filter_def)
  then show ?thesis using assms(2) by (simp add: evidence_named_def stored_at_def)
qed

lemma evidence_named_first:
  assumes "ev_evidence_id (se_event (sr_value e)) = k"
  shows "evidence_named db (Some e # known) k = Inr e"
  using assms by (simp add: evidence_named_def map_filter_def)

lemma committed_read:
  assumes read: "read_epoch_revocation_state h c i db = Inr s"
    and prep: "prepare_epoch_revocation h c m s t = Inr (claim_key, docs)"
    and b: "vx_root_bundle s = Some b" and trusted: "bundle_trusted h c b"
    and body: "revocation_body s b claim_key docs db = Inr db'"
    and keyed: "evidence_keyed db"
  shows "read_epoch_revocation_state h c i db' = Inr (committed_state s b t)"
proof -
  obtain request_sha request_key idempotency_key where r:
    "epoch_revocation_request_sha256 h i = Inr request_sha"
    "read_root_bundle h c (vk_root_id (vi_command i)) db = Inr (vx_root_bundle s)" "vx_invocation s = i"
    "revocation_identity_logical_id RI_REQUEST (vk_request_id (vi_command i)) = Inr request_key"
    "revocation_identity_logical_id RI_IDEMPOTENCY (vk_idempotency_key (vi_command i)) = Inr idempotency_key"
    "pred_option (read_bundle_valid h c) (vx_root_bundle s)"
    using read_state_Inr [OF read] by metis
  obtain b' sha previous where "admitted h c s b' t sha previous"
    using validate_commit_Inr [OF prepare_epoch_Inr(1) [OF prep]] .
  moreover from this have "b' = b" "sha = request_sha" using b r by (auto simp: admitted_def)
  ultimately have ad: "admitted h c s b t request_sha previous" by simp
  then obtain evidence_sha subject_sha predecessor_sha where
    ac: "active_root_matches c i b (vt_replacement_authority t)"
    and rm: "result_matches_commit c i b t request_sha evidence_sha"
    and em: "event_matches_commit c i b t subject_sha"
    and ch: "chain_extended c t previous predecessor_sha evidence_sha"
    and q: "identity_claims_result (vt_request_identity t) RI_REQUEST
          (vk_request_id (vi_command i)) (vt_result t) request_sha"
    and k: "identity_claims_result (vt_idempotency_identity t) RI_IDEMPOTENCY
          (vk_idempotency_key (vi_command i)) (vt_result t) request_sha"
    and au: "audit_accepts (vt_audit t) i (vt_result t) request_sha"
    using r(3) by (auto simp: admitted_def)
  note docs = prepare_documents_Inr [OF prepare_epoch_Inr(2) [OF prep]]
  note bd = revocation_body_Inr [OF body]
  note adv = admitted_advance [OF ad]
  have root: "vk_root_id (vi_command i) = ad_root_id (sr_value (bu_root b))"
      "au_root_id (sr_value (bu_authority b)) = ad_root_id (sr_value (bu_root b))"
    using ac trusted by (auto simp: active_root_matches_def bundle_trusted_def Let_def)
  have root_read: "read_root_bundle h c (vk_root_id (vi_command i)) db'
      = Inr (Some (advanced_bundle b (vt_replacement_authority t)))"
    unfolding bd(1)
    by (rule written_bundle) (use r b bd(2) docs(1) adv root in auto)
  have head: "stored_at (vb_heads db') (vk_root_id (vi_command i))
      = Some \<lparr>sr_value = vt_chain_head t, sr_revision = hd_sequence (vt_chain_head t)\<rparr>"
    using docs(3) ch rm root
    by (simp add: bd(1) write_documents_def put_def stored_at_def stored_of_def chain_extended_def
        result_matches_commit_def Let_def)
  have new: "vb_evidence db' (ev_evidence_id (se_event (vt_signed_evidence t)))
      = Some (new_document 0 (m 1) (vt_signed_evidence t))"
    using docs(2) by (simp add: bd(1) write_documents_def put_def)
  have names: "hd_evidence_id (vt_chain_head t) = ev_evidence_id (se_event (vt_signed_evidence t))"
      "vr_evidence_id (vt_result t) = ev_evidence_id (se_event (vt_signed_evidence t))"
    using ch em by (auto simp: chain_extended_def event_matches_commit_def Let_def)
  have old: "ev_evidence_id (se_event (sr_value (bu_signed_evidence b)))
      \<noteq> ev_evidence_id (se_event (vt_signed_evidence t))"
  proof -
    obtain d where "vb_evidence db (wr_winner_evidence_id (sr_value (bu_creation_result b))) = Some d"
        "bu_signed_evidence b = stored_of d"
      using read_bundle_Some [of h c "vk_root_id (vi_command i)" db b] r(2) b by (metis stored_at_Some)
    then show ?thesis using keyed bd(2) docs(2) by (auto simp: evidence_keyed_def)
  qed
  let ?e = "\<lparr>sr_value = vt_signed_evidence t, sr_revision = 0\<rparr>"
  have found: "evidence_named db' [Some (bu_signed_evidence b)] (hd_evidence_id (vt_chain_head t)) = Inr ?e"
    using evidence_named_new [OF _ new, of "[Some (bu_signed_evidence b)]"] old
    by (simp add: names stored_of_def)
  have again: "evidence_named db' [Some ?e, Some (bu_signed_evidence b)] (vr_evidence_id (vt_result t)) = Inr ?e"
    by (rule evidence_named_first) (simp add: names)
  have keys: "request_key = fst (xd_request docs)" "idempotency_key = fst (xd_idempotency docs)"
    using r(4,5) docs(6,7) q k by (auto simp: identity_claims_result_def)
  have ids: "stored_at (vb_identities db') request_key = Some \<lparr>sr_value = vt_request_identity t, sr_revision = 0\<rparr>"
      "stored_at (vb_identities db') idempotency_key = Some \<lparr>sr_value = vt_idempotency_identity t, sr_revision = 0\<rparr>"
    using keys bd(3-5) docs(6,7)
    by (simp_all add: bd(1) write_documents_def put_def stored_at_def stored_of_def)
  have result: "stored_at (vb_results db') (revocation_result_id request_sha)
      = Some \<lparr>sr_value = vt_result t, sr_revision = 0\<rparr>"
    using docs(4) rm
    by (simp add: bd(1) write_documents_def put_def stored_at_def stored_of_def result_matches_commit_def
        revocation_result_id_def Let_def)
  have audit: "stored_at (vb_audits db') (vi_attempt_id i) = Some \<lparr>sr_value = vt_audit t, sr_revision = 0\<rparr>"
    using docs(5) au
    by (simp add: bd(1) write_documents_def put_def stored_at_def stored_of_def audit_accepts_def)
  have valid: "read_bundle_valid h c (advanced_bundle b (vt_replacement_authority t))"
    by (rule advanced_bundle_valid) (use r(6) b adv in simp_all)
  show ?thesis
    by (simp add: read_epoch_revocation_state_def Let_def r(1,4,5) raised_by_store_def bindS_def root_read head
        evidence_for_def found again ids result audit valid guardS_def committed_state_def r(3))
qed

end
