(* ===== verification/RevocationRuns.thy ===== *)
theory RevocationRuns
  imports RevocationDurability
begin

text \<open>
  Whole runs of the revocation coordinator, over every answer its ports can give: what it asks the store to
  commit and how often.
\<close>

section \<open>Every commit of a run\<close>

primrec every_commit :: "(revocation_state \<Rightarrow> revocation_commit \<Rightarrow> bool) \<Rightarrow> 'a revoker \<Rightarrow> bool" where
  "every_commit P (Returned x) \<longleftrightarrow> True"
| "every_commit P (Failed e) \<longleftrightarrow> True"
| "every_commit P (AskTime k) \<longleftrightarrow> (\<forall>a. every_commit P (k a))"
| "every_commit P (AskState i k) \<longleftrightarrow> (\<forall>a. every_commit P (k a))"
| "every_commit P (AskSign e k) \<longleftrightarrow> (\<forall>a. every_commit P (k a))"
| "every_commit P (AskCommit s t k) \<longleftrightarrow> P s t \<and> (\<forall>a. every_commit P (k a))"
| "every_commit P (AskAudit u k) \<longleftrightarrow> (\<forall>a. every_commit P (k a))"

primrec commits_within :: "'a revoker \<Rightarrow> nat \<Rightarrow> bool" where
  "commits_within (Returned x) n \<longleftrightarrow> True"
| "commits_within (Failed e) n \<longleftrightarrow> True"
| "commits_within (AskTime k) n \<longleftrightarrow> (\<forall>a. commits_within (k a) n)"
| "commits_within (AskState i k) n \<longleftrightarrow> (\<forall>a. commits_within (k a) n)"
| "commits_within (AskSign e k) n \<longleftrightarrow> (\<forall>a. commits_within (k a) n)"
| "commits_within (AskCommit s t k) n \<longleftrightarrow> (case n of 0 \<Rightarrow> False | Suc m \<Rightarrow> \<forall>a. commits_within (k a) m)"
| "commits_within (AskAudit u k) n \<longleftrightarrow> (\<forall>a. commits_within (k a) n)"

lemma liftV_commits [simp]:
  "every_commit P (liftV r f) \<longleftrightarrow> (\<forall>x. r = Inr x \<longrightarrow> every_commit P (f x))"
  "commits_within (liftV r f) n \<longleftrightarrow> (\<forall>x. r = Inr x \<longrightarrow> commits_within (f x) n)"
  by (auto simp: liftV_def split: sum.splits)

lemma record_audit_commits [simp]:
  "every_commit P k \<Longrightarrow> every_commit P (record_audit u k)"
  "commits_within k n \<Longrightarrow> commits_within (record_audit u k) n"
  by (auto simp: record_audit_def split: sum.splits)

lemma deny_durably_commits [simp]:
  "every_commit P (deny_durably i q at code)" "commits_within (deny_durably i q at code) n"
  by (simp_all add: deny_durably_def)

lemma adopt_result_commits [simp]:
  "every_commit P (adopt_result i q at r)" "commits_within (adopt_result i q at r) n"
  by (simp_all add: adopt_result_def)

lemma build_or_deny_commits [simp]:
  "every_commit P (build_or_deny i q at r f) \<longleftrightarrow> (\<forall>x. r = Inr x \<longrightarrow> every_commit P (f x))"
  "commits_within (build_or_deny i q at r f) n \<longleftrightarrow> (\<forall>x. r = Inr x \<longrightarrow> commits_within (f x) n)"
  by (auto simp: build_or_deny_def split: sum.splits revoke_failure.splits)

lemma resolve_commits [simp]:
  "every_commit P (resolve_unknown_commit h c i q)" "commits_within (resolve_unknown_commit h c i q) n"
  by (auto simp: resolve_unknown_commit_def split: sum.splits option.splits revoke_failure.splits)

lemma final_read_commits [simp]:
  "every_commit P (final_read h c i q at)" "commits_within (final_read h c i q at) n"
  by (auto simp: final_read_def read_state_def split: settlement.splits)

lemma commit_or_retry_commits:
  assumes "P s t" "every_commit P retry"
  shows "every_commit P (commit_or_retry h c i q s retry t)"
  using assms
  by (auto simp: commit_or_retry_def split: sum.splits store_failure.splits store_error.splits)

lemma commit_or_retry_within:
  assumes "commits_within retry n"
  shows "commits_within (commit_or_retry h c i q s retry t) (Suc n)"
  using assms
  by (auto simp: commit_or_retry_def split: sum.splits store_failure.splits store_error.splits)

lemma settle_Unsettled:
  "settle h c s q = Inr Unsettled \<Longrightarrow> vx_attempt_audit s = None \<and> vx_result s = None"
  by (auto simp: settle_def bindS_Inr validated_attempt_audit_def exact_result_def Let_def
      split: option.splits if_splits)

lemma state_of_answer_Inr: "state_of_answer i a = Inr s \<Longrightarrow> vx_invocation s = i"
  by (auto simp: state_of_answer_def split: sum.splits)

text \<open>A commit is asked for only after a decision.\<close>

lemma signed_answer: "complete_commit h c i q p answer = Inr t \<Longrightarrow> \<exists>e. answer = Some e"
  by (cases answer) (auto simp: complete_commit_def)

lemma decidedI:
  assumes "settle h c s q = Inr Unsettled" "state_denial h c s q = Inr None" "plan_commit h c s q at = Inr p"
    "complete_commit h c (vx_invocation s) q p answer = Inr t"
  shows "decided h c s q at t"
  using assms settle_Unsettled [OF assms(1)] signed_answer [OF assms(4)] by (auto simp: decided_def)

lemma attempt_every_commit:
  assumes "\<And>s t. vx_invocation s = i \<Longrightarrow> decided h c s q at t \<Longrightarrow> P s t" "every_commit P retry"
  shows "every_commit P (attempt_revocation h c i q at retry)"
  unfolding attempt_revocation_def read_state_def build_commit_def
  by (auto intro!: commit_or_retry_commits assms split: settlement.splits option.splits
      dest: state_of_answer_Inr intro: decidedI)

lemma attempt_within:
  assumes "commits_within retry n"
  shows "commits_within (attempt_revocation h c i q at retry) (Suc n)"
  unfolding attempt_revocation_def read_state_def build_commit_def
  by (auto intro!: commit_or_retry_within assms split: settlement.splits option.splits)

lemma attempts_every_commit:
  assumes "\<And>s t. vx_invocation s = i \<Longrightarrow> decided h c s q at t \<Longrightarrow> P s t"
  shows "every_commit P (attempt_revocations h c i q at n)"
  by (induction n) (auto intro!: attempt_every_commit assms)

lemma attempts_within: "commits_within (attempt_revocations h c i q at n) n"
  by (induction n) (auto intro!: attempt_within)

section \<open>Commits are exact\<close>

lemma decided_epoch:
  assumes "decided h c s q at t"
  shows "vr_committed_at (vt_result t) = at
    \<and> au_current_epoch (vt_replacement_authority t) = vk_expected_epoch (vi_command (vx_invocation s)) + 1
    \<and> vr_root_id (vt_result t) = vk_root_id (vi_command (vx_invocation s))"
proof -
  obtain b previous p evidence_sha where pl: "planned h c s q at b previous p"
    and sd: "state_denial h c s q = Inr None"
    and rep: "vt_replacement_authority t = pn_replacement p"
    and res: "vt_result t = revocation_result_of c (vx_invocation s) p q evidence_sha"
    and tr: "pn_trusted p = trusted_of b"
    by (rule decided_facts [OF assms]) (rule that; assumption)
  obtain e where r: "pn_replacement p = replacement_authority c (vx_invocation s) (trusted_of b) e at"
    and b: "vx_root_bundle s = Some b"
    using planned_basics [OF pl] by blast
  show ?thesis
    using state_denial_None [OF sd] b by (auto simp: rep res tr r)
qed

definition commit_is_exact ::
  "hexdigest \<Rightarrow> target_binding \<Rightarrow> route_policy \<Rightarrow> revocation_invocation \<Rightarrow> authentication_context option
    \<Rightarrow> revocation_state \<Rightarrow> revocation_commit \<Rightarrow> bool" where
  "commit_is_exact h c policy i caller s t \<longleftrightarrow>
     vx_invocation s = i
     \<and> operator_is_exact policy i caller (vr_committed_at (vt_result t)) = Inr True
     \<and> vr_root_id (vt_result t) = vk_root_id (vi_command i)
     \<and> au_current_epoch (vt_replacement_authority t) = vk_expected_epoch (vi_command i) + 1
     \<and> validate_epoch_revocation_commit h c s t = Inr ()"

text \<open>
  C9: Whatever its clock, its signer and its store answer, the revocation coordinator asks for a commit only
  for the one configured operator inside the token's window at the committed second, for the root that was
  named and the epoch after the expected one; the store's own validation, written separately, admits every
  such commit; and no run asks for more than four.
\<close>

theorem revocation_commits_are_exact:
  "every_commit (commit_is_exact h c policy i caller) (revoke h c policy i caller)
    \<and> commits_within (revoke h c policy i caller) MAX_REVOCATION_COMMIT_ATTEMPTS"
proof
  show "commits_within (revoke h c policy i caller) MAX_REVOCATION_COMMIT_ATTEMPTS"
    by (auto simp: revoke_def timestamp_def attempts_within split: option.splits)
  have exact: "commit_is_exact h c policy i caller s t"
    if "operator_is_exact policy i caller at = Inr True" "vx_invocation s = i" "decided h c s q at t" for at q s t
    using that decided_epoch [OF that(3)] decided_admitted [OF that(3)] by (auto simp: commit_is_exact_def)
  have "every_commit (commit_is_exact h c policy i caller) (attempt_revocations h c i q at n)"
    if "operator_is_exact policy i caller at = Inr True" for at q n
    by (rule attempts_every_commit) (rule exact [OF that])
  then show "every_commit (commit_is_exact h c policy i caller) (revoke h c policy i caller)"
    by (auto simp: revoke_def timestamp_def split: option.splits)
qed

section \<open>Commits are durable\<close>








end
