(* ===== verification/RootCreationProps.thy ===== *)
theory RootCreationProps
  imports RevocationProps
begin

text \<open>
  The creation of a root, end to end: the result contract re-derives what the builder built, and the bundle
  it leaves is one that the persisted-root inspection trusts and a chain of evidence can start from.
\<close>

section \<open>Inversion\<close>

definition created_root ::
  "hexdigest \<Rightarrow> root_creation_configuration \<Rightarrow> string \<Rightarrow> string \<Rightarrow> string \<Rightarrow> addressed_root \<Rightarrow> bool" where
  "created_root h k identity subject at root \<longleftrightarrow>
     validate_addressed_root h root = None
     \<and> root_content_sha256 h (ad_content root) = Inr (ad_root_sha256 root)
     \<and> ad_root_id root = ''cgroot:'' @ ad_root_sha256 root \<and> rc_target (ad_content root) = kf_target k
     \<and> rc_approved_by (ad_content root) = identity \<and> rc_approved_by_subject (ad_content root) = subject
     \<and> rc_approved_at (ad_content root) = at
     \<and> rc_evidence_signing_key_version (ad_content root) = kf_evidence_signing_key_version k
     \<and> pl_stable_revision_configuration_sha256 (rc_rollout_plan (ad_content root))
         = ss_stable_revision_configuration_sha256 (rc_stable_snapshot (ad_content root))"

lemma create_rollout_root_Inr:
  assumes "create_rollout_root_of h content = Inr root"
  shows "ad_content root = content \<and> root_content_sha256 h content = Inr (ad_root_sha256 root)
    \<and> ad_root_id root = ''cgroot:'' @ ad_root_sha256 root \<and> validate_addressed_root h root = None"
proof (cases "root_content_sha256 h content")
  case (Inr d)
  then have "construct (validate_addressed_root h)
      \<lparr>ad_root_id = ''cgroot:'' @ d, ad_root_sha256 = d, ad_content = content\<rparr> = Inr root"
    using assms by (simp add: create_rollout_root_of_def)
  then have "root = \<lparr>ad_root_id = ''cgroot:'' @ d, ad_root_sha256 = d, ad_content = content\<rparr>"
    "validate_addressed_root h root = None"
    by (auto simp only: construct_Inr_iff)
  then show ?thesis using Inr by simp
qed (use assms in \<open>simp add: create_rollout_root_of_def\<close>)

lemma create_root_Inr:
  assumes "create_root h cmd identity subject snapshot candidate k at = Inr root"
  shows "created_root h k identity subject at root"
proof -
  from assms obtain snapshot_sha policy_sha bounds where "create_rollout_root_of h (creation_content k snapshot
      (creation_plan k snapshot candidate snapshot_sha policy_sha) bounds identity subject at) = Inr root"
    by (auto simp: create_root_def bindR_eq_Inr_iff)
  from create_rollout_root_Inr [OF this] show ?thesis
    by (simp add: created_root_def creation_content_def creation_plan_def)
qed

definition unsigned_of ::
  "hexdigest \<Rightarrow> root_creation_configuration \<Rightarrow> string \<Rightarrow> string \<Rightarrow> string \<Rightarrow> unsigned_root_creation
    \<Rightarrow> string \<Rightarrow> string \<Rightarrow> string \<Rightarrow> string \<Rightarrow> string \<Rightarrow> bool" where
  "unsigned_of h k identity subject at u stable_sha candidate_sha subject_sha claim_sha authority_sha \<longleftrightarrow>
    (let root = un_root u; c = un_command u; request_sha = un_request_sha256 u;
         evidence_id = ''cgevidence:'' @ request_sha in
     created_root h k identity subject at root \<and> un_created_at u = at
     \<and> root_creation_request_sha256 h root (cm_request_id c) (cm_idempotency_key c) identity subject = Inr request_sha
     \<and> root_target_configuration_sha256 h root 100 0 = Inr stable_sha
     \<and> root_target_configuration_sha256 h root 0 100 = Inr candidate_sha
     \<and> un_service_claim u = first_claim root (cm_request_id c) evidence_id at stable_sha candidate_sha
     \<and> un_initial_authority u = first_authority root identity (cm_request_id c) evidence_id at
     \<and> validate_authority_record (un_initial_authority u) = None
     \<and> capability_lineage_anchor h root = Inr (un_lineage_anchor u)
     \<and> service_claim_sha256 h (un_service_claim u) = Inr claim_sha
     \<and> epoch_authority_sha256 h (un_initial_authority u) = Inr authority_sha
     \<and> creation_subject_of h root (un_service_claim u) (un_initial_authority u) (un_lineage_anchor u) request_sha
         evidence_id at = Inr (un_evidence_subject u)
     \<and> creation_subject_sha256 h (un_evidence_subject u) = Inr subject_sha
     \<and> un_evidence_event u = first_event root identity (cm_request_id c) evidence_id at subject_sha
     \<and> validate_evidence_event (un_evidence_event u) = None)"

lemma build_unsigned_Inr:
  assumes "build_unsigned_root_creation h cmd identity subject snapshot candidate k at = Inr u"
  obtains stable_sha candidate_sha subject_sha claim_sha authority_sha where
    "unsigned_of h k identity subject at u stable_sha candidate_sha subject_sha claim_sha authority_sha"
proof -
  from assms obtain stable_sha candidate_sha subject_sha claim_sha authority_sha where
    "unsigned_of h k identity subject at u stable_sha candidate_sha subject_sha claim_sha authority_sha"
    by (auto simp: build_unsigned_root_creation_def bindR_eq_Inr_iff Let_def service_claim_of_def
        creation_subject_of_def unsigned_of_def dest: create_root_Inr)
  then show thesis by (rule that)
qed

lemma first_event_sel [simp]:
  "ev_evidence_id (first_event root x q e at sha) = e" "ev_sequence (first_event root x q e at sha) = 0"
  "ev_root_id (first_event root x q e at sha) = ad_root_id root"
  "ev_root_sha256 (first_event root x q e at sha) = ad_root_sha256 root"
  "ev_target (first_event root x q e at sha) = rc_target (ad_content root)"
  "ev_epoch (first_event root x q e at sha) = 1" "ev_kind (first_event root x q e at sha) = EK_ROOT_CREATED"
  "ev_actor (first_event root x q e at sha) = x" "ev_request_id (first_event root x q e at sha) = Some q"
  "ev_receipt_id (first_event root x q e at sha) = None" "ev_occurred_at (first_event root x q e at sha) = at"
  "ev_subject_sha256 (first_event root x q e at sha) = sha"
  "ev_previous_event_sha256 (first_event root x q e at sha) = None"
  "ev_reason_code (first_event root x q e at sha) = None"
  "ev_provider_operation (first_event root x q e at sha) = None"
  "ev_target_configuration_sha256 (first_event root x q e at sha)
     = Some (ss_configuration_sha256 (rc_stable_snapshot (ad_content root)))"
  by (simp_all add: first_event_def)

lemma first_authority_sel [simp]:
  "au_root_id (first_authority root x q e at) = ad_root_id root"
  "au_root_sha256 (first_authority root x q e at) = ad_root_sha256 root"
  "au_target (first_authority root x q e at) = rc_target (ad_content root)"
  "au_current_epoch (first_authority root x q e at) = 1" "au_previous_epoch (first_authority root x q e at) = None"
  "au_revision (first_authority root x q e at) = 0" "au_cause (first_authority root x q e at) = EC_ROOT_CREATED"
  "au_changed_by (first_authority root x q e at) = x" "au_request_id (first_authority root x q e at) = q"
  "au_evidence_id (first_authority root x q e at) = e" "au_changed_at (first_authority root x q e at) = at"
  by (simp_all add: first_authority_def)

section \<open>The bundle a creation leaves\<close>

text \<open>The six records as the store creates them.\<close>

definition created_bundle :: "root_creation_artifacts \<Rightarrow> root_creation_bundle" where
  "created_bundle a =
     \<lparr>bu_root = \<lparr>sr_value = ra_new_root a, sr_revision = 0\<rparr>,
      bu_service_claim = \<lparr>sr_value = ra_new_claim a, sr_revision = 0\<rparr>,
      bu_authority = \<lparr>sr_value = ra_new_authority a, sr_revision = 0\<rparr>,
      bu_lineage_anchor = \<lparr>sr_value = ra_new_anchor a, sr_revision = 0\<rparr>,
      bu_signed_evidence = \<lparr>sr_value = ra_new_evidence a, sr_revision = 0\<rparr>,
      bu_creation_result = \<lparr>sr_value = ra_creation_result a, sr_revision = 0\<rparr>\<rparr>"

lemma first_claim_matches:
  assumes "root_target_configuration_sha256 h root 100 0 = Inr stable_sha"
    "root_target_configuration_sha256 h root 0 100 = Inr candidate_sha" "rc_approved_at (ad_content root) = at"
    "pl_stable_revision_configuration_sha256 (rc_rollout_plan (ad_content root))
       = ss_stable_revision_configuration_sha256 (rc_stable_snapshot (ad_content root))"
  shows "service_claim_matches_addressed_root h (first_claim root q e at stable_sha candidate_sha) root"
  using assms by (simp add: service_claim_matches_addressed_root_def first_claim_def Let_def)

lemma complete_Inr:
  assumes "complete_root_creation h u s = Inr art"
  shows "ra_new_root art = un_root u \<and> ra_new_claim art = un_service_claim u
    \<and> ra_new_authority art = un_initial_authority u \<and> ra_new_anchor art = un_lineage_anchor u
    \<and> ra_new_evidence art = s \<and> se_event s = un_evidence_event u
    \<and> se_signing_key_version s = rc_evidence_signing_key_version (ad_content (un_root u))
    \<and> validate_root_creation_result h (ra_creation_result art) = None
    \<and> signed_evidence_sha256 h s = Inr (wr_winner_evidence_sha256 (ra_creation_result art))"
  using assms
  by (auto simp: complete_root_creation_def bindR_eq_Inr_iff creation_result_of_def Let_def split: if_splits)

lemma created_trusted:
  assumes "unsigned_of h k identity subject at u stable_sha candidate_sha subject_sha claim_sha authority_sha"
    "complete_root_creation h u s = Inr art"
  shows "bundle_trusted h (kf_target k) (created_bundle art)"
proof -
  have r: "created_root h k identity subject at (un_root u)"
    using assms(1) by (simp add: unsigned_of_def Let_def)
  have m: "service_claim_matches_addressed_root h (un_service_claim u) (un_root u)"
    using assms(1) r
    by (simp add: unsigned_of_def Let_def first_claim_matches created_root_def)
  have "cl_status (un_service_claim u) = CS_ACTIVE"
    using assms(1) by (simp add: unsigned_of_def first_claim_def Let_def)
  then show ?thesis
    using assms(1) r m complete_Inr [OF assms(2)]
    by (simp add: bundle_trusted_def created_bundle_def created_root_def unsigned_of_def Let_def
        claim_lifecycle_revision_matches_def)
qed

lemma created_head:
  assumes "unsigned_of h k identity subject at u stable_sha candidate_sha subject_sha claim_sha authority_sha"
    "complete_root_creation h u s = Inr art"
  shows "\<exists>head. current_evidence_chain_head h (created_bundle art) (kf_target k) None None = Inr head
    \<and> hd_sequence head = 0 \<and> hd_epoch head = 1
    \<and> signed_evidence_sha256 h s = Inr (hd_evidence_sha256 head)"
proof -
  note c = complete_Inr [OF assms(2)]
  have r: "created_root h k identity subject at (un_root u)"
    using assms(1) by (simp add: unsigned_of_def Let_def)
  have ev: "un_evidence_event u = first_event (un_root u) identity (cm_request_id (un_command u))
      (''cgevidence:'' @ un_request_sha256 u) at subject_sha" "validate_evidence_event (un_evidence_event u) = None"
    "un_initial_authority u = first_authority (un_root u) identity (cm_request_id (un_command u))
      (''cgevidence:'' @ un_request_sha256 u) at"
    using assms(1) by (auto simp: unsigned_of_def Let_def)
  have digest: "is_sha256 (wr_winner_evidence_sha256 (ra_creation_result art))"
    using c by (auto simp: validate_root_creation_result_def validate_creation_fields_def field_def)
  have boots: "chain_bootstraps (kf_target k) (un_root u) (un_initial_authority u) s"
    using c ev r by (simp add: chain_bootstraps_def Let_def created_root_def)
  show ?thesis
    using c ev digest boots r
    by (simp add: current_evidence_chain_head_def created_bundle_def Let_def bindR_def construct_def
        validate_evidence_chain_head_def validate_head_def validate_evidence_event_def validate_event_fields_def
        field_def created_root_def)
qed

section \<open>The contract accepts what the builder built\<close>

lemma request_sha_Inr:
  assumes "root_creation_request_sha256 h root q k x y = Inr sha"
  shows "validate_request_projection q k x y = None" "\<exists>b. sha = h b"
  using assms by (auto simp: root_creation_request_sha256_def bindR_eq_Inr_iff split: if_splits)

lemma contract_sha_digest:
  "or_raise_contract (contract_sha256 h v j) = Inr sha \<Longrightarrow> \<exists>b. sha = h b"
  by (auto simp: contract_sha256_def Let_def split: sum.splits if_splits)

lemma claim_logical_id_Inr:
  assumes "service_claim_logical_id h t = Inr sha"
  shows "target_binding_sha256 h t = Inr sha"
  using assms
  by (auto simp: service_claim_logical_id_def target_binding_sha256_def split: option.splits sum.splits)

lemma creation_result_sel [simp]:
  "wr_outcome (creation_result_of u s i c a n e) = CREATED"
  "wr_request_id (creation_result_of u s i c a n e) = cm_request_id (un_command u)"
  "wr_idempotency_key (creation_result_of u s i c a n e) = cm_idempotency_key (un_command u)"
  "wr_operator_identity (creation_result_of u s i c a n e) = rc_approved_by (ad_content (un_root u))"
  "wr_operator_subject (creation_result_of u s i c a n e) = rc_approved_by_subject (ad_content (un_root u))"
  "wr_request_sha256 (creation_result_of u s i c a n e) = un_request_sha256 u"
  "wr_created_at (creation_result_of u s i c a n e) = un_created_at u"
  "wr_winner_request_id (creation_result_of u s i c a n e) = cm_request_id (un_command u)"
  "wr_winner_idempotency_key (creation_result_of u s i c a n e) = cm_idempotency_key (un_command u)"
  "wr_winner_operator_identity (creation_result_of u s i c a n e) = rc_approved_by (ad_content (un_root u))"
  "wr_winner_operator_subject (creation_result_of u s i c a n e) = rc_approved_by_subject (ad_content (un_root u))"
  "wr_winner_request_sha256 (creation_result_of u s i c a n e) = un_request_sha256 u"
  "wr_winner_service_claim_id (creation_result_of u s i c a n e) = i"
  "wr_winner_service_claim_sha256 (creation_result_of u s i c a n e) = c"
  "wr_winner_authority_id (creation_result_of u s i c a n e) = ad_root_id (un_root u)"
  "wr_winner_authority_sha256 (creation_result_of u s i c a n e) = a"
  "wr_winner_lineage_anchor_id (creation_result_of u s i c a n e) = ''cganchor:'' @ n"
  "wr_winner_lineage_anchor_sha256 (creation_result_of u s i c a n e) = n"
  "wr_winner_evidence_id (creation_result_of u s i c a n e) = ev_evidence_id (se_event s)"
  "wr_winner_evidence_sha256 (creation_result_of u s i c a n e) = e"
  "wr_root (creation_result_of u s i c a n e) = un_root u"
  "wr_initial_authority (creation_result_of u s i c a n e) = un_initial_authority u"
  "wr_lineage_anchor (creation_result_of u s i c a n e) = un_lineage_anchor u"
  "wr_evidence_subject (creation_result_of u s i c a n e) = un_evidence_subject u"
  "wr_signed_evidence (creation_result_of u s i c a n e) = s"
  by (simp_all add: creation_result_of_def Let_def)

lemma winner_accepted:
  assumes u: "unsigned_of h k identity subject at u stable_sha candidate_sha subject_sha claim_sha authority_sha"
    and s: "se_event s = un_evidence_event u"
      "se_signing_key_version s = rc_evidence_signing_key_version (ad_content (un_root u))"
    and d: "signed_evidence_sha256 h s = Inr evidence_sha"
    and ids: "target_binding_sha256 h (rc_target (ad_content (un_root u))) = Inr claim_id"
      "lineage_anchor_sha256 h (un_lineage_anchor u) = Inr anchor_sha"
    and about: "un_evidence_subject u =
        expected_creation_subject (creation_result_of u s claim_id claim_sha authority_sha anchor_sha evidence_sha)
          (un_request_sha256 u)"
    and op: "validate_operator_identity identity = None"
  shows "validate_deterministic_winner h
      (creation_result_of u s claim_id claim_sha authority_sha anchor_sha evidence_sha) = Inr ()"
proof -
  let ?r = "creation_result_of u s claim_id claim_sha authority_sha anchor_sha evidence_sha"
  have r: "created_root h k identity subject at (un_root u)" and at: "un_created_at u = at"
    using u by (auto simp: unsigned_of_def Let_def)
  have request: "root_creation_request_sha256 h (un_root u) (cm_request_id (un_command u))
        (cm_idempotency_key (un_command u)) identity subject = Inr (un_request_sha256 u)"
    and anchor: "capability_lineage_anchor h (un_root u) = Inr (un_lineage_anchor u)"
    and digests: "epoch_authority_sha256 h (un_initial_authority u) = Inr authority_sha"
      "creation_subject_sha256 h (un_evidence_subject u) = Inr subject_sha"
    using u by (auto simp: unsigned_of_def Let_def)
  have exact: "winner_is_exact ?r"
    by (simp add: winner_is_exact_def Let_def)
  have ev: "creation_event_matches ?r subject_sha"
    using u r s by (simp add: creation_event_matches_def unsigned_of_def Let_def created_root_def)
  have auth: "initial_authority_matches ?r"
    using u r s by (simp add: initial_authority_matches_def unsigned_of_def Let_def created_root_def)
  have art: "artifact_identities_match ?r (un_request_sha256 u) claim_id anchor_sha authority_sha evidence_sha"
    using about by (simp add: artifact_identities_match_def Let_def)
  show ?thesis
    using r exact ev auth art ids d op request anchor digests
    by (simp add: validate_deterministic_winner_def created_root_def construct_def or_raise_contract_def)
qed

lemma subject_expected:
  assumes "creation_subject_of h root claim auth anchor request_sha evidence_id at = Inr about"
    "service_claim_sha256 h claim = Inr claim_sha" "epoch_authority_sha256 h auth = Inr authority_sha"
  obtains claim_id anchor_sha where "service_claim_logical_id h (rc_target (ad_content root)) = Inr claim_id"
    "lineage_anchor_sha256 h anchor = Inr anchor_sha" "validate_creation_subject about = None"
    "about = \<lparr>cs_root_id = ad_root_id root, cs_root_sha256 = ad_root_sha256 root, cs_request_sha256 = request_sha,
        cs_created_at = at, cs_service_claim_id = claim_id, cs_service_claim_sha256 = claim_sha,
        cs_authority_id = ad_root_id root, cs_authority_sha256 = authority_sha,
        cs_lineage_anchor_id = ''cganchor:'' @ anchor_sha, cs_lineage_anchor_sha256 = anchor_sha,
        cs_evidence_id = evidence_id\<rparr>"
  using assms by (auto simp: creation_subject_of_def bindR_eq_Inr_iff)

lemma completion_accepted:
  assumes u: "unsigned_of h k identity subject at u stable_sha candidate_sha subject_sha claim_sha authority_sha"
    and s: "se_event s = un_evidence_event u" "validate_signed_evidence h s = None"
      "se_signing_key_version s = rc_evidence_signing_key_version (ad_content (un_root u))"
    and d: "signed_evidence_sha256 h s = Inr evidence_sha" and digests: "\<And>b. is_sha256 (h b)"
  shows "\<exists>art. complete_root_creation h u s = Inr art"
proof -
  let ?root = "un_root u" and ?q = "un_request_sha256 u"
  have cs: "creation_subject_of h ?root (un_service_claim u) (un_initial_authority u) (un_lineage_anchor u) ?q
      (''cgevidence:'' @ ?q) at = Inr (un_evidence_subject u)"
    and c: "service_claim_sha256 h (un_service_claim u) = Inr claim_sha"
    and a: "epoch_authority_sha256 h (un_initial_authority u) = Inr authority_sha"
    and rq: "root_creation_request_sha256 h ?root (cm_request_id (un_command u)) (cm_idempotency_key (un_command u))
      identity subject = Inr ?q"
    and r: "created_root h k identity subject at ?root"
    and ev: "un_evidence_event u = first_event ?root identity (cm_request_id (un_command u))
      (''cgevidence:'' @ ?q) at subject_sha"
    and at: "un_created_at u = at" and va: "validate_authority_record (un_initial_authority u) = None"
    using u by (auto simp: unsigned_of_def Let_def)
  obtain claim_id anchor_sha where id: "service_claim_logical_id h (rc_target (ad_content ?root)) = Inr claim_id"
    and an: "lineage_anchor_sha256 h (un_lineage_anchor u) = Inr anchor_sha"
    and vs: "validate_creation_subject (un_evidence_subject u) = None"
    and about: "un_evidence_subject u =
       \<lparr>cs_root_id = ad_root_id ?root, cs_root_sha256 = ad_root_sha256 ?root, cs_request_sha256 = ?q,
        cs_created_at = at, cs_service_claim_id = claim_id, cs_service_claim_sha256 = claim_sha,
        cs_authority_id = ad_root_id ?root, cs_authority_sha256 = authority_sha,
        cs_lineage_anchor_id = ''cganchor:'' @ anchor_sha, cs_lineage_anchor_sha256 = anchor_sha,
        cs_evidence_id = ''cgevidence:'' @ ?q\<rparr>"
    using subject_expected [OF cs c a] .
  let ?r = "creation_result_of u s claim_id claim_sha authority_sha anchor_sha evidence_sha"
  have op: "validate_operator_identity identity = None"
    using request_sha_Inr(1) [OF rq] by (simp add: validate_request_projection_def)
  have expected: "un_evidence_subject u = expected_creation_subject ?r ?q"
    by (simp add: about expected_creation_subject_def Let_def at s(1) ev)
  have win: "validate_deterministic_winner h ?r = Inr ()"
    by (rule winner_accepted [OF u s(1,3) d claim_logical_id_Inr [OF id] an expected op])
  have dig: "is_sha256 evidence_sha"
    using contract_sha_digest d digests by (metis signed_evidence_sha256_def)
  have fields: "validate_creation_fields ?r = None"
    using request_sha_Inr(1) [OF rq] vs dig r
    by (simp add: validate_creation_fields_def Let_def validate_request_projection_def
        validate_creation_subject_def about at created_root_def s(1) ev)
  have "validate_root_creation_result h ?r = None"
    using fields win r va vs s(2)
    by (simp add: validate_root_creation_result_def Let_def created_root_def)
  then show ?thesis
    using s id c a an d by (simp add: complete_root_creation_def construct_def)
qed

text \<open>
  C8: Root creation closes on itself. Once the builder has built the unsigned records, any valid signature
  over its event under the configured evidence key completes them: the result contract, which derives every
  digest, identity and binding again from the root, accepts. The six records then form a bundle that the
  persisted-root inspection trusts for the configured target, and the evidence chain starts at its event,
  at sequence 0 and epoch 1.
\<close>

theorem created_root_is_trusted:
  assumes "build_unsigned_root_creation h cmd identity subject snapshot candidate k at = Inr u"
    "validate_signed_evidence h s = None" "se_event s = un_evidence_event u"
    "se_signing_key_version s = kf_evidence_signing_key_version k"
    "signed_evidence_sha256 h s = Inr evidence_sha" "\<And>b. is_sha256 (h b)"
  shows "\<exists>art head. complete_root_creation h u s = Inr art
    \<and> inspect_creation_bundle h (kf_target k) (created_bundle art) = Some (trusted_of (created_bundle art))
    \<and> current_evidence_chain_head h (created_bundle art) (kf_target k) None None = Inr head
    \<and> hd_sequence head = 0 \<and> hd_epoch head = 1 \<and> hd_evidence_sha256 head = evidence_sha"
proof -
  obtain stable_sha candidate_sha subject_sha claim_sha authority_sha where
    u: "unsigned_of h k identity subject at u stable_sha candidate_sha subject_sha claim_sha authority_sha"
    using build_unsigned_Inr [OF assms(1)] .
  then have "rc_evidence_signing_key_version (ad_content (un_root u)) = kf_evidence_signing_key_version k"
    by (simp add: unsigned_of_def Let_def created_root_def)
  then obtain art where art: "complete_root_creation h u s = Inr art"
    using completion_accepted [OF u assms(3,2) _ assms(5,6)] assms(4) by auto
  show ?thesis
    using art created_trusted [OF u art] created_head [OF u art] assms(5) by (auto simp: inspect_iff)
qed

end
