(* ===== verification/RootCreationStoreProps.thy ===== *)
theory RootCreationStoreProps
  imports RootCreationService RevocationRuns RootCreationProps
begin

text \<open>
  The creation of a root and the store: what the service submits is what the store admits, and what the
  store has created is read back, adopted by a retry, and not created or replaced a second time.
\<close>

section \<open>What a valid result fixes\<close>

lemma creation_result_facts:
  assumes "validate_root_creation_result h r = None"
  shows "au_root_id (wr_initial_authority r) = ad_root_id (wr_root r)"
    and "au_root_sha256 (wr_initial_authority r) = ad_root_sha256 (wr_root r)"
    and "lineage_anchor_logical_id h (wr_lineage_anchor r) = Inr (wr_winner_lineage_anchor_id r)"
    and "wr_winner_evidence_id r = ev_evidence_id (se_event (wr_signed_evidence r))"
proof -
  have "validate_deterministic_winner h r = Inr ()"
    using assms by (auto simp: validate_root_creation_result_def split: sum.splits)
  then show "au_root_id (wr_initial_authority r) = ad_root_id (wr_root r)"
    "au_root_sha256 (wr_initial_authority r) = ad_root_sha256 (wr_root r)"
    "lineage_anchor_logical_id h (wr_lineage_anchor r) = Inr (wr_winner_lineage_anchor_id r)"
    "wr_winner_evidence_id r = ev_evidence_id (se_event (wr_signed_evidence r))"
    by (auto simp: validate_deterministic_winner_def bindR_eq_Inr_iff initial_authority_matches_def
        artifact_identities_match_def lineage_anchor_logical_id_def Let_def split: if_splits)
qed

lemma adopted_parts:
  "creation_event_matches (r\<lparr>wr_outcome := x\<rparr>) subject_sha = creation_event_matches r subject_sha"
  "initial_authority_matches (r\<lparr>wr_outcome := x\<rparr>) = initial_authority_matches r"
  "artifact_identities_match (r\<lparr>wr_outcome := x\<rparr>) q i n a e = artifact_identities_match r q i n a e"
  "winner_is_exact (r\<lparr>wr_outcome := x\<rparr>) = winner_is_exact r"
  by (simp_all add: creation_event_matches_def initial_authority_matches_def artifact_identities_match_def
      expected_creation_subject_def winner_is_exact_def)

lemma construct_ignored: "bindR (construct f v) (\<lambda>_. g) = (case f v of None \<Rightarrow> g | Some e \<Rightarrow> Inl e)"
  by (simp add: construct_def bindR_def split: option.split)

lemma adopted_winner: "validate_deterministic_winner h (r\<lparr>wr_outcome := x\<rparr>) = validate_deterministic_winner h r"
  unfolding validate_deterministic_winner_def construct_ignored adopted_parts by (simp cong: option.case_cong if_cong)

lemma adopted_valid [simp]: "validate_root_creation_result h (r\<lparr>wr_outcome := x\<rparr>) = validate_root_creation_result h r"
  by (simp add: validate_root_creation_result_def validate_creation_fields_def adopted_winner)

section \<open>The documents of a creation\<close>

lemma prepare_creation_Inr:
  assumes "prepare_creation_documents h c m a released = Inr docs"
  shows "cd_root docs = (ad_root_id (ra_new_root a), new_document 0 (m 0) (ra_new_root a))"
    and "snd (cd_claim docs) = new_document (case released of None \<Rightarrow> 0 | Some x \<Rightarrow> sr_revision x + 1) (m 1) (ra_new_claim a)"
    and "service_claim_logical_id h c = Inr (fst (cd_claim docs))"
    and "cd_authority docs = (au_root_id (ra_new_authority a), new_document 0 (m 2) (ra_new_authority a))"
    and "snd (cd_anchor docs) = new_document 0 (m 3) (ra_new_anchor a)"
    and "lineage_anchor_logical_id h (ra_new_anchor a) = Inr (fst (cd_anchor docs))"
    and "cd_evidence docs = (ev_evidence_id (se_event (ra_new_evidence a)), new_document 0 (m 4) (ra_new_evidence a))"
    and "cd_result docs = (ad_root_id (ra_new_root a), new_document 0 (m 5) (ra_creation_result a))"
    and "validate_root_creation_result h (ra_creation_result a) = None"
    and "au_revision (ra_new_authority a) = 0"
    and "(case released of None \<Rightarrow> 0 | Some x \<Rightarrow> sr_revision x + 1) mod 3 = status_remainder (cl_status (ra_new_claim a))"
  using assms
  by (auto simp: prepare_creation_documents_def Let_def bindR_eq_Inr_iff keyed_Inr creation_wrapper_def
      validate_authority_wrapper_def validate_claim_wrapper_def immutable_wrapper_def)

lemma creation_body_Inr:
  assumes "creation_body docs released root_id db = Inr db'"
  shows "db' = write_creation docs db" "claim_as_expected docs released db" "creation_absent docs db"
    "vb_roots_v2 db root_id = None" "vb_roots_v3 db root_id = None"
    "vb_creations_v1 db root_id = None" "vb_creations_v2 db root_id = None"
  using assms
  by (auto simp: creation_body_def content_addressed_root_def read_versioned_def
      split: sum.splits option.splits if_splits)

lemma initial_bundle_None:
  assumes "validate_initial_root_creation_bundle h c a released = None"
  shows "one_authority_bundle h c a" "is_root_v3 (ra_new_root a)"
    "rc_target (ad_content (ra_new_root a)) = c" "cl_target (ra_new_claim a) = c"
    "au_target (ra_new_authority a) = c" "la_target (ra_new_anchor a) = c"
    "ev_target (se_event (ra_new_evidence a)) = c"
    "\<And>x. released = Some x \<Longrightarrow> cl_status (sr_value x) = CS_RELEASED"
  using assms
  by (auto simp: validate_initial_root_creation_bundle_def validate_addressed_takeover_def Let_def
      split: option.splits)

section \<open>Reading what was created\<close>

lemma created_bundle_valid:
  assumes "validate_initial_root_creation_bundle h c a released = None"
    "prepare_creation_documents h c m a released = Inr docs"
  shows "read_bundle_valid h c (bundle_of_documents docs)"
  using initial_bundle_None [OF assms(1)] prepare_creation_Inr [OF assms(2)]
    creation_result_facts(1,2) [OF prepare_creation_Inr(9) [OF assms(2)]]
  by (auto simp: read_bundle_valid_def claim_coherent_def one_authority_bundle_def bundle_of_documents_def
      stored_of_def Let_def)

lemma created_read:
  assumes "validate_initial_root_creation_bundle h c a released = None"
    "prepare_creation_documents h c m a released = Inr docs"
    "creation_body docs released (ad_root_id (ra_new_root a)) db = Inr db'"
  shows "read_root_creation_bundle h c (ad_root_id (ra_new_root a)) db' = Inr (Some (bundle_of_documents docs))"
proof -
  let ?id = "ad_root_id (ra_new_root a)"
  note d = prepare_creation_Inr [OF assms(2)]
  note b = creation_body_Inr [OF assms(3)]
  note f = creation_result_facts [OF d(9)]
  have one: "wr_initial_authority (ra_creation_result a) = ra_new_authority a"
      "wr_root (ra_creation_result a) = ra_new_root a" "wr_lineage_anchor (ra_creation_result a) = ra_new_anchor a"
      "wr_signed_evidence (ra_creation_result a) = ra_new_evidence a"
    using initial_bundle_None(1) [OF assms(1)] by (auto simp: one_authority_bundle_def Let_def)
  have key: "fst (cd_authority docs) = ?id" using d(4) f(1) one by simp
  have anchor: "fst (cd_anchor docs) = wr_winner_lineage_anchor_id (ra_creation_result a)"
    using d(6) f(3) one by simp
  have root: "content_addressed_root db' ?id = Inr (Some (True, stored_of (snd (cd_root docs))))"
    using b(1,4) d(1) by (simp add: content_addressed_root_def read_versioned_def write_creation_def put_def stored_at_def)
  have creation: "read_versioned (vb_creations_v1 db') (vb_creations_v2 db') ?id
      = Inr (Some (True, stored_of (snd (cd_result docs))))"
    using b(1,6) d(8) by (simp add: read_versioned_def write_creation_def put_def stored_at_def)
  have found: "stored_at (vb_authorities db') ?id = Some (stored_of (snd (cd_authority docs)))"
      "stored_at (vb_claims db') (fst (cd_claim docs)) = Some (stored_of (snd (cd_claim docs)))"
      "stored_at (vb_anchors db') (wr_winner_lineage_anchor_id (ra_creation_result a))
        = Some (stored_of (snd (cd_anchor docs)))"
      "stored_at (vb_evidence db') (wr_winner_evidence_id (ra_creation_result a))
        = Some (stored_of (snd (cd_evidence docs)))"
    using b(1) key anchor f(4) one d(7) by (simp_all add: write_creation_def put_def stored_at_def)
  have result: "sr_value (stored_of (snd (cd_result docs))) = ra_creation_result a"
      "doc_value (snd (cd_result docs)) = ra_creation_result a"
    using d(8) by (simp_all add: stored_of_def new_document_def)
  have "read_root_bundle h c ?id db' = Inr (Some (bundle_of_documents docs))"
    using root creation found d(3) f(3) one
    by (simp add: read_root_bundle_def read_dependents_def result bundle_of_documents_def)
  then show ?thesis
    using created_bundle_valid [OF assms(1,2)]
    by (simp add: read_root_creation_bundle_def bindS_def guardS_def)
qed

lemma created_matches:
  assumes "validate_initial_root_creation_bundle h c a released = None"
    "prepare_creation_documents h c m a released = Inr docs"
  shows "bundle_matches_request (bundle_of_documents docs) a"
  using prepare_creation_Inr [OF assms(2)] initial_bundle_None(1) [OF assms(1)]
  by (auto simp: bundle_matches_request_def bundle_of_documents_def stored_of_def one_authority_bundle_def Let_def)

lemma evidence_keyed_created:
  assumes "evidence_keyed db" "prepare_creation_documents h c m a released = Inr docs"
    "creation_body docs released root_id db = Inr db'"
  shows "evidence_keyed db'"
  using assms(1) prepare_creation_Inr(7) [OF assms(2)] creation_body_Inr(1) [OF assms(3)]
  by (auto simp: evidence_keyed_def write_creation_def put_def)

section \<open>Exactly one creation\<close>

text \<open>While the claim of the created root is active, no creation can be written.\<close>

lemma claimed_body:
  assumes "validate_initial_root_creation_bundle h c a2 released2 = None"
    "prepare_creation_documents h c m2 a2 released2 = Inr docs2"
    "service_claim_logical_id h c = Inr k" "stored_at (vb_claims db) k = Some x" "cl_status (sr_value x) \<noteq> CS_RELEASED"
  shows "\<exists>e. creation_body docs2 released2 root_id db = Inl e"
proof (cases "creation_body docs2 released2 root_id db")
  case (Inr db')
  have "k = fst (cd_claim docs2)" using prepare_creation_Inr(3) [OF assms(2)] assms(3) by simp
  then have "released2 = Some x"
    using creation_body_Inr(2) [OF Inr] assms(4) by (simp add: claim_as_expected_def)
  then show ?thesis using initial_bundle_None(8) [OF assms(1)] assms(5) by simp
qed simp

lemma claimed_unchanged:
  assumes "service_claim_logical_id h c = Inr k" "stored_at (vb_claims db) k = Some x"
    "cl_status (sr_value x) \<noteq> CS_RELEASED"
  shows "snd (create_or_adopt_root_creation_bundle h c m2 a2 released2 fate rb2 ex2 db) = db"
proof (cases "bindR (construct (\<lambda>a. validate_initial_root_creation_bundle h c a released2) a2)
    (\<lambda>a. prepare_creation_documents h c m2 a released2)")
  case (Inr docs2)
  then have "validate_initial_root_creation_bundle h c a2 released2 = None"
    "prepare_creation_documents h c m2 a2 released2 = Inr docs2"
    by (auto simp: bindR_eq_Inr_iff)
  from claimed_body [OF this assms] obtain e where
    "creation_body docs2 released2 (ad_root_id (ra_new_root a2)) db = Inl e" by blast
  then have "snd (run_creation docs2 released2 (ad_root_id (ra_new_root a2)) fate rb2 db) = db"
    by (auto simp: run_creation_def Let_def split: tx_fate.splits)
  then show ?thesis
    using Inr by (auto simp: create_or_adopt_root_creation_bundle_def split: prod.splits sum.splits)
qed (simp add: create_or_adopt_root_creation_bundle_def)

lemma creation_write_adopted:
  assumes "validate_root_creation_result h r = None" "wr_outcome r = CREATED"
    "sr_value (bu_creation_result b) = r"
  shows "creation_write h False r b = Inr \<lparr>wc_result = r\<lparr>wr_outcome := ADOPTED\<rparr>, wc_bundle = b\<rparr>"
  using assms
  by (simp add: creation_write_def adopted_root_creation_result_def construct_def validate_creation_write_def
      raised_by_store_def)

lemma created_directly:
  assumes "create_or_adopt_root_creation_bundle h c m a released TxConfirmed rb ex db = (Inr w, db')"
    "wr_outcome (wc_result w) = CREATED"
  obtains docs where "validate_initial_root_creation_bundle h c a released = None"
    "prepare_creation_documents h c m a released = Inr docs"
    "creation_body docs released (ad_root_id (ra_new_root a)) db = Inr db'"
    "w = \<lparr>wc_result = ra_creation_result a, wc_bundle = bundle_of_documents docs\<rparr>"
proof -
  have adopted: "adopt_stored h c a ex \<noteq> Inr w"
    using assms(2)
    by (auto simp: adopt_stored_def creation_write_def adopted_root_creation_result_def
        split: option.splits sum.splits if_splits)
  obtain docs where d: "validate_initial_root_creation_bundle h c a released = None"
    "prepare_creation_documents h c m a released = Inr docs"
    using assms(1)
    by (auto simp: create_or_adopt_root_creation_bundle_def bindR_eq_Inr_iff split: sum.splits)
  show thesis
  proof (cases "creation_body docs released (ad_root_id (ra_new_root a)) db")
    case (Inl e)
    then show ?thesis
      using assms(1) d adopted
      by (auto simp: create_or_adopt_root_creation_bundle_def construct_def run_creation_def split: if_splits)
  next
    case (Inr db1)
    then show ?thesis
      using assms(1) d
      by (auto simp: create_or_adopt_root_creation_bundle_def construct_def run_creation_def creation_write_def
          intro!: that split: sum.splits option.splits)
  qed
qed

text \<open>
  C7: A root that the store created is there once. The bundle the creation returned is what a read of the root
  then finds; a retry of the same request, with other mutation identities, adopts it and says so, without a
  write; and it holds the service with an active claim. Whatever else has happened since, in every database
  where a claim of the service is stored that is not released, be it active or fenced for release, no
  creation whatsoever, of this root or another, of a fresh claim or one said to be released, and whatever
  Firestore answers, changes that database.
\<close>

theorem root_creation_is_exclusive:
  assumes "create_or_adopt_root_creation_bundle h c m a released TxConfirmed rb ex db = (Inr w, db')"
    "wr_outcome (wc_result w) = CREATED"
  shows "read_root_creation_bundle h c (ad_root_id (ra_new_root a)) db' = Inr (Some (wc_bundle w))
    \<and> (\<forall>m2 rb2 docs2. prepare_creation_documents h c m2 a released = Inr docs2 \<longrightarrow>
         create_or_adopt_root_creation_bundle h c m2 a released TxConfirmed rb2 (db', None) db'
           = (Inr \<lparr>wc_result = (wc_result w)\<lparr>wr_outcome := ADOPTED\<rparr>, wc_bundle = wc_bundle w\<rparr>, db'))
    \<and> (\<exists>k x. service_claim_logical_id h c = Inr k \<and> stored_at (vb_claims db') k = Some x
         \<and> sr_value x = ra_new_claim a \<and> cl_status (sr_value x) = CS_ACTIVE)
    \<and> (\<forall>k x db2 m2 a2 released2 fate rb2 ex2. service_claim_logical_id h c = Inr k
         \<and> stored_at (vb_claims db2) k = Some x \<and> cl_status (sr_value x) \<noteq> CS_RELEASED \<longrightarrow>
         snd (create_or_adopt_root_creation_bundle h c m2 a2 released2 fate rb2 ex2 db2) = db2)"
proof -
  obtain docs where d: "validate_initial_root_creation_bundle h c a released = None"
    "prepare_creation_documents h c m a released = Inr docs"
    "creation_body docs released (ad_root_id (ra_new_root a)) db = Inr db'"
    "w = \<lparr>wc_result = ra_creation_result a, wc_bundle = bundle_of_documents docs\<rparr>"
    using created_directly [OF assms] .
  note p = prepare_creation_Inr [OF d(2)]
  have read: "read_root_creation_bundle h c (ad_root_id (ra_new_root a)) db' = Inr (Some (bundle_of_documents docs))"
    by (rule created_read [OF d(1-3)])
  have stored_result: "sr_value (bu_creation_result (bundle_of_documents docs)) = ra_creation_result a"
    using p(8) by (simp add: bundle_of_documents_def stored_of_def)
  have there: "stored_at (vb_claims db') (fst (cd_claim docs)) = Some (stored_of (snd (cd_claim docs)))"
    using creation_body_Inr(1) [OF d(3)] by (simp add: write_creation_def put_def stored_at_def)
  have active: "sr_value (stored_of (snd (cd_claim docs))) = ra_new_claim a"
      "cl_status (ra_new_claim a) = CS_ACTIVE"
    using p(2) initial_bundle_None(1) [OF d(1)] by (simp_all add: stored_of_def one_authority_bundle_def Let_def)
  have retry: "create_or_adopt_root_creation_bundle h c m2 a released TxConfirmed rb2 (db', None) db'
      = (Inr \<lparr>wc_result = (wc_result w)\<lparr>wr_outcome := ADOPTED\<rparr>, wc_bundle = wc_bundle w\<rparr>, db')"
    if docs2: "prepare_creation_documents h c m2 a released = Inr docs2" for m2 rb2 docs2
  proof -
    have "creation_body docs2 released (ad_root_id (ra_new_root a)) db' = Inl SE_CONFLICT"
      using creation_body_Inr [OF d(3)] p(1,8)
      by (simp add: creation_body_def content_addressed_root_def read_versioned_def write_creation_def put_def
          stored_at_def)
    moreover have "adopt_stored h c a (db', None)
        = Inr \<lparr>wc_result = (wc_result w)\<lparr>wr_outcome := ADOPTED\<rparr>, wc_bundle = wc_bundle w\<rparr>"
      using assms(2) p(9) stored_result created_matches [OF d(1,2)]
      by (simp add: adopt_stored_def read creation_write_adopted d(4))
    ultimately show ?thesis
      using d(1) docs2 by (simp add: create_or_adopt_root_creation_bundle_def construct_def run_creation_def)
  qed
  show ?thesis
    using read retry p(3) there active claimed_unchanged d(4) by auto
qed

end
