(* ===== verification/EvidenceHistory.thy ===== *)
theory EvidenceHistory
  imports RootCreationStoreProps
begin

text \<open>
  The life of one root in the store: its creation, the revocations of its epochs, and everything the modelled
  operations do to other roots meanwhile, as a step relation over databases. The log it carries is the
  evidence of the root in the order of the commits; the invariant is that this log is one hash chain without
  gaps and that the stored authority and chain head are at its end.
\<close>

section \<open>Histories\<close>

inductive root_history ::
  "hexdigest \<Rightarrow> target_binding \<Rightarrow> string \<Rightarrow> revocation_db \<Rightarrow> signed_evidence_event list \<Rightarrow> bool"
  for h c root_id where
  history_created:
    "create_or_adopt_root_creation_bundle h c m a released TxConfirmed rb ex db = (Inr w, db') \<Longrightarrow>
     wr_outcome (wc_result w) = CREATED \<Longrightarrow> ad_root_id (ra_new_root a) = root_id \<Longrightarrow> vb_heads db root_id = None \<Longrightarrow>
     root_history h c root_id db' [ra_new_evidence a]"
| history_revoked:
    "root_history h c root_id db log \<Longrightarrow> decided h c s q at t \<Longrightarrow>
     commit_epoch_revocation h c m fate rb s t db = (r, db') \<Longrightarrow>
     root_history h c root_id db'
       (if db' = db \<or> vk_root_id (vi_command (vx_invocation s)) \<noteq> root_id then log
        else log @ [vt_signed_evidence t])"
| history_created_more:
    "root_history h c root_id db log \<Longrightarrow>
     create_or_adopt_root_creation_bundle h c m a released fate rb ex db = (r', db') \<Longrightarrow>
     root_history h c root_id db' log"
| history_audited:
    "root_history h c root_id db log \<Longrightarrow>
     record_epoch_revocation_audit mutation fate rb ex u db = (r'', db') \<Longrightarrow>
     root_history h c root_id db' log"

section \<open>The invariant\<close>

definition chained :: "hexdigest \<Rightarrow> string \<Rightarrow> signed_evidence_event list \<Rightarrow> bool" where
  "chained h root_id log \<longleftrightarrow>
    (\<forall>n<length log. let e = se_event (log ! n) in
       ev_root_id e = root_id \<and> ev_sequence e = int n \<and> ev_epoch e = int n + 1
       \<and> (if n = 0 then ev_previous_event_sha256 e = None
          else \<exists>sha. signed_evidence_sha256 h (log ! (n - 1)) = Inr sha \<and> ev_previous_event_sha256 e = Some sha))"

definition log_stored :: "revocation_db \<Rightarrow> signed_evidence_event list \<Rightarrow> bool" where
  "log_stored db log \<longleftrightarrow>
    (\<forall>e\<in>set log. \<exists>d. vb_evidence db (ev_evidence_id (se_event e)) = Some d \<and> doc_value d = e)"

text \<open>Before the first revocation there is no stored head, and the authority names the root's own event.\<close>

definition ends_log :: "revocation_db \<Rightarrow> string \<Rightarrow> signed_evidence_event list \<Rightarrow> bool" where
  "ends_log db root_id log \<longleftrightarrow>
    (\<exists>d. vb_authorities db root_id = Some d \<and> au_current_epoch (doc_value d) = int (length log)
       \<and> (case vb_heads db root_id of
            None \<Rightarrow> length log = 1 \<and> au_evidence_id (doc_value d) = ev_evidence_id (se_event (last log))
          | Some e \<Rightarrow> hd_evidence_id (doc_value e) = ev_evidence_id (se_event (last log))))"

definition history_holds :: "hexdigest \<Rightarrow> string \<Rightarrow> revocation_db \<Rightarrow> signed_evidence_event list \<Rightarrow> bool" where
  "history_holds h root_id db log \<longleftrightarrow>
     log \<noteq> [] \<and> chained h root_id log \<and> log_stored db log \<and> ends_log db root_id log"

lemma chained_snoc:
  assumes "chained h root_id log" "log \<noteq> []" "signed_evidence_sha256 h (last log) = Inr sha"
    "ev_root_id (se_event e) = root_id" "ev_sequence (se_event e) = int (length log)"
    "ev_epoch (se_event e) = int (length log) + 1" "ev_previous_event_sha256 (se_event e) = Some sha"
  shows "chained h root_id (log @ [e])"
  using assms by (auto simp: chained_def Let_def nth_append less_Suc_eq last_conv_nth)

lemma chained_last:
  assumes "chained h root_id log" "log \<noteq> []"
  shows "ev_sequence (se_event (last log)) = int (length log) - 1"
  using assms by (cases log rule: rev_cases) (auto simp: chained_def Let_def)

lemma stored_event:
  assumes "log_stored db log" "e \<in> set log" "stored_at (vb_evidence db) (ev_evidence_id (se_event e)) = Some p"
  shows "sr_value p = e"
  using assms by (auto simp: log_stored_def stored_at_Some stored_of_def)

lemma history_frame:
  assumes "history_holds h root_id db log" "vb_heads db' root_id = vb_heads db root_id"
    "vb_authorities db' root_id = vb_authorities db root_id"
    "\<And>k d. vb_evidence db k = Some d \<Longrightarrow> vb_evidence db' k = Some d"
  shows "history_holds h root_id db' log"
  using assms by (fastforce simp: history_holds_def log_stored_def ends_log_def)

section \<open>The steps\<close>

lemma creation_event_facts:
  assumes "validate_root_creation_result h r = None"
  shows "let e = se_event (wr_signed_evidence r); root = wr_root r in
    ev_root_id e = ad_root_id root \<and> ev_sequence e = 0 \<and> ev_epoch e = 1 \<and> ev_previous_event_sha256 e = None
    \<and> au_current_epoch (wr_initial_authority r) = 1
    \<and> au_evidence_id (wr_initial_authority r) = ev_evidence_id e"
proof -
  have "validate_deterministic_winner h r = Inr ()"
    using assms by (auto simp: validate_root_creation_result_def split: sum.splits)
  then show ?thesis
    by (auto simp: validate_deterministic_winner_def bindR_eq_Inr_iff initial_authority_matches_def
        creation_event_matches_def Let_def split: if_splits)
qed

lemma created_holds:
  assumes "create_or_adopt_root_creation_bundle h c m a released TxConfirmed rb ex db = (Inr w, db')"
    "wr_outcome (wc_result w) = CREATED" "ad_root_id (ra_new_root a) = root_id" "vb_heads db root_id = None"
  shows "history_holds h root_id db' [ra_new_evidence a]"
proof -
  obtain docs where d: "validate_initial_root_creation_bundle h c a released = None"
    "prepare_creation_documents h c m a released = Inr docs"
    "creation_body docs released (ad_root_id (ra_new_root a)) db = Inr db'"
    using created_directly [OF assms(1,2)] by metis
  note p = prepare_creation_Inr [OF d(2)]
  have one: "wr_initial_authority (ra_creation_result a) = ra_new_authority a"
      "wr_root (ra_creation_result a) = ra_new_root a" "wr_signed_evidence (ra_creation_result a) = ra_new_evidence a"
    using initial_bundle_None(1) [OF d(1)] by (auto simp: one_authority_bundle_def Let_def)
  have key: "fst (cd_authority docs) = root_id" using p(4) creation_result_facts(1) [OF p(9)] one assms(3) by simp
  show ?thesis
    using creation_event_facts [OF p(9)] creation_body_Inr(1) [OF d(3)] p(4,7) one key assms(3,4)
    by (auto simp: history_holds_def chained_def log_stored_def ends_log_def write_creation_def put_def Let_def
        new_document_def)
qed

lemma more_created_holds:
  assumes "history_holds h root_id db log"
    "create_or_adopt_root_creation_bundle h c m a released fate rb ex db = (r', db')"
  shows "history_holds h root_id db' log"
proof (cases "db' = db")
  case False
  obtain docs where d: "prepare_creation_documents h c m a released = Inr docs"
    "creation_body docs released (ad_root_id (ra_new_root a)) db = Inr db'"
    using assms(2) False
    by (auto simp: create_or_adopt_root_creation_bundle_def bindR_eq_Inr_iff run_creation_def Let_def
        split: sum.splits prod.splits tx_fate.splits if_splits)
  note b = creation_body_Inr [OF d(2)]
  obtain x where "vb_authorities db root_id = Some x" using assms(1) by (auto simp: history_holds_def ends_log_def)
  then have "fst (cd_authority docs) \<noteq> root_id" using b(3) by (auto simp: creation_absent_def)
  then show ?thesis
    using b(1,3) by (intro history_frame [OF assms(1)]) (auto simp: write_creation_def put_def creation_absent_def)
qed (use assms in simp)

lemma audited_holds:
  assumes "history_holds h root_id db log" "record_epoch_revocation_audit mutation fate rb ex u db = (r'', db')"
  shows "history_holds h root_id db' log"
proof -
  have "vb_heads db' = vb_heads db \<and> vb_authorities db' = vb_authorities db \<and> vb_evidence db' = vb_evidence db"
    using assms(2)
    by (auto simp: record_epoch_revocation_audit_def run_body_def create_audit_body_def Let_def
        split: sum.splits option.splits tx_fate.splits if_splits prod.splits store_error.splits)
  then show ?thesis by (intro history_frame [OF assms(1)]) simp_all
qed

text \<open>The event that a commit follows is the last of the log.\<close>

lemma predecessor_is_last:
  assumes "history_holds h root_id db log" "predecessor_head h c s = Inr previous" "vx_root_bundle s = Some b"
    "stored_at (vb_authorities db) root_id = Some (bu_authority b)"
    "stored_at (vb_heads db) root_id = vx_chain_head s"
    "predecessor_record s b = Some p" "stored_at (vb_evidence db) (ev_evidence_id (se_event (sr_value p))) = Some p"
  shows "sr_value p = last log \<and> hd_sequence previous = int (length log) - 1
    \<and> au_current_epoch (sr_value (bu_authority b)) = int (length log)"
proof -
  have head: "current_evidence_chain_head h b c (vx_chain_head s) (vx_head_evidence s) = Inr previous"
    using assms(2,3) by (auto simp: predecessor_head_Inr)
  have log: "log \<noteq> []" "chained h root_id log" using assms(1) by (auto simp: history_holds_def)
  have epoch: "au_current_epoch (sr_value (bu_authority b)) = int (length log)"
    using assms(1,4) by (auto simp: history_holds_def ends_log_def stored_at_Some stored_of_def)
  have id: "ev_evidence_id (se_event (sr_value p)) = ev_evidence_id (se_event (last log))"
  proof (cases "vx_chain_head s")
    case None
    then have "ev_evidence_id (se_event (sr_value p)) = au_evidence_id (sr_value (bu_authority b))"
      using head assms(6)
      by (auto simp: current_evidence_chain_head_def predecessor_record_def chain_bootstraps_def Let_def
          bindR_eq_Inr_iff split: if_splits)
    then show ?thesis
      using None assms(1,4,5) by (auto simp: history_holds_def ends_log_def stored_at_Some stored_of_def)
  next
    case (Some x)
    then have "ev_evidence_id (se_event (sr_value p)) = hd_evidence_id previous" "previous = sr_value x"
      using head assms(6)
      by (auto simp: current_evidence_chain_head_def predecessor_record_def head_matches_event_def Let_def
          bindR_eq_Inr_iff split: if_splits option.splits)
    then show ?thesis
      using Some assms(1,5) by (auto simp: history_holds_def ends_log_def stored_at_Some stored_of_def)
  qed
  have "last log \<in> set log" using log(1) by simp
  then have last: "sr_value p = last log"
    using assms(1,7) id stored_event [of db log "last log" p] by (simp add: history_holds_def)
  moreover have "hd_sequence previous = ev_sequence (se_event (sr_value p))"
    using current_head_Inr(4) [OF head] assms(6) by (auto simp: predecessor_record_def)
  ultimately show ?thesis using chained_last [OF log(2,1)] epoch by simp
qed

lemma body_unchanged:
  assumes "revocation_body s b k docs db = Inr db'"
  shows "stored_at (vb_authorities db) (fst (xd_authority docs)) = Some (bu_authority b)"
    "stored_at (vb_heads db) (fst (xd_head docs)) = vx_chain_head s"
    "predecessor_record s b = Some p \<Longrightarrow>
       stored_at (vb_evidence db) (ev_evidence_id (se_event (sr_value p))) = Some p"
  using assms by (auto simp: revocation_body_def decision_unchanged_def split: if_splits option.splits sum.splits)

lemma commit_applied:
  assumes "commit_epoch_revocation h c m fate rb s t db = (r, db')" "db' \<noteq> db"
  obtains k docs b where "prepare_epoch_revocation h c m s t = Inr (k, docs)" "vx_root_bundle s = Some b"
    "revocation_body s b k docs db = Inr db'"
  using assms
  by (auto simp: commit_epoch_revocation_def run_body_def Let_def
      split: sum.splits option.splits prod.splits tx_fate.splits if_splits)

lemma revoked_holds:
  assumes "history_holds h root_id db log" "decided h c s q at t"
    "commit_epoch_revocation h c m fate rb s t db = (r, db')" "db' \<noteq> db"
  shows "history_holds h root_id db'
    (if vk_root_id (vi_command (vx_invocation s)) \<noteq> root_id then log else log @ [vt_signed_evidence t])"
proof -
  obtain k docs b where p: "prepare_epoch_revocation h c m s t = Inr (k, docs)" "vx_root_bundle s = Some b"
    "revocation_body s b k docs db = Inr db'"
    using commit_applied [OF assms(3,4)] .
  obtain b1 q1 previous where ad: "admitted h c s b1 t q1 previous"
    using validate_commit_Inr [OF prepare_epoch_Inr(1) [OF p(1)]] .
  then obtain evidence_sha subject_sha predecessor predecessor_sha where
    b1: "b1 = b" and ac: "active_root_matches c (vx_invocation s) b (vt_replacement_authority t)"
    and rm: "result_matches_commit c (vx_invocation s) b t q1 evidence_sha"
    and em: "event_matches_commit c (vx_invocation s) b t subject_sha"
    and ph: "predecessor_head h c s = Inr previous" and pr: "predecessor_record s b = Some predecessor"
    and sha: "signed_evidence_sha256 h (sr_value predecessor) = Inr predecessor_sha"
    and ch: "chain_extended c t previous predecessor_sha evidence_sha"
    using p(2) by (auto simp: admitted_def)
  note adv = admitted_advance [OF ad, unfolded b1]
  note docs = prepare_documents_Inr [OF prepare_epoch_Inr(2) [OF p(1)]]
  note body = revocation_body_Inr [OF p(3)]
  note same = body_unchanged [OF p(3)]
  have "bundle_trusted h c b"
    using state_denial_None [of h c s q] assms(2) p(2) by (auto simp: decided_def)
  then have id: "au_root_id (sr_value (bu_authority b)) = vk_root_id (vi_command (vx_invocation s))"
      "ad_root_id (sr_value (bu_root b)) = vk_root_id (vi_command (vx_invocation s))"
    using ac by (auto simp: bundle_trusted_def active_root_matches_def Let_def)
  have keys: "fst (xd_authority docs) = vk_root_id (vi_command (vx_invocation s))"
      "fst (xd_head docs) = vk_root_id (vi_command (vx_invocation s))"
    using docs(1,3) adv(1) id rm ch by (auto simp: result_matches_commit_def chain_extended_def Let_def)
  show ?thesis
  proof (cases "vk_root_id (vi_command (vx_invocation s)) = root_id")
    case False
    then show ?thesis
      using keys body(2)
      by (simp, intro history_frame [OF assms(1)]) (auto simp: body(1) write_documents_def put_def)
  next
    case True
    have last: "sr_value predecessor = last log" "hd_sequence previous = int (length log) - 1"
        "au_current_epoch (sr_value (bu_authority b)) = int (length log)"
      using predecessor_is_last [OF assms(1) ph p(2) _ _ pr same(3) [OF pr]] same(1,2) keys True by simp_all
    have event: "ev_root_id (se_event (vt_signed_evidence t)) = root_id"
        "ev_sequence (se_event (vt_signed_evidence t)) = int (length log)"
        "ev_epoch (se_event (vt_signed_evidence t)) = int (length log) + 1"
        "ev_previous_event_sha256 (se_event (vt_signed_evidence t)) = Some predecessor_sha"
        "hd_evidence_id (vt_chain_head t) = ev_evidence_id (se_event (vt_signed_evidence t))"
      using em rm ch last adv(4) id True
      by (auto simp: event_matches_commit_def result_matches_commit_def chain_extended_def Let_def)
    have "chained h root_id (log @ [vt_signed_evidence t])"
      using assms(1) sha last(1) event by (intro chained_snoc) (auto simp: history_holds_def)
    moreover have "log_stored db' (log @ [vt_signed_evidence t])"
      using assms(1) docs(2) body(2)
      by (auto simp: history_holds_def log_stored_def body(1) write_documents_def put_def new_document_def)
    moreover have "ends_log db' root_id (log @ [vt_signed_evidence t])"
      using keys True docs(1,3) adv(4) last(3) event(5)
      by (simp add: ends_log_def body(1) write_documents_def put_def new_document_def)
    ultimately show ?thesis using True by (simp add: history_holds_def)
  qed
qed

text \<open>
  C5: The evidence of a root is one unbroken hash chain. From its creation on, through any revocations, whether
  Firestore confirmed them, lost their answer or refused them, and through anything the store does for other
  roots, the events recorded for the root are numbered 0, 1, 2 and so on; each carries the digest of the one
  before it and the first none; the event at position n opened epoch n + 1; none of them is ever overwritten;
  and the stored authority's epoch and the stored chain head are those of the last event.
\<close>

theorem history_is_hash_linked:
  assumes "root_history h c root_id db log"
  shows "history_holds h root_id db log"
  using assms
proof induction
  case (history_created m a released rb ex db w db')
  then show ?case by (rule created_holds)
next
  case (history_revoked db log s q at t m fate rb r db')
  then show ?case using revoked_holds [of h root_id db log c s q at t m fate rb r db'] by (cases "db' = db") simp_all
next
  case (history_created_more db log m a released fate rb ex r' db')
  show ?case by (rule more_created_holds [OF history_created_more.IH history_created_more.hyps(2)])
next
  case (history_audited db log mutation fate rb ex u r'' db')
  show ?case by (rule audited_holds [OF history_audited.IH history_audited.hyps(2)])
qed

end
