(* ===== verification/RootCreationRuns.thy ===== *)
theory RootCreationRuns
  imports RootCreationStoreProps
begin

text \<open>
  Whole runs of the root-creation service, over every answer its ports can give: what it asks the store to
  create, for whom, and how often.
\<close>

primrec every_creation ::
  "(root_creation_artifacts \<Rightarrow> service_claim stored_record option \<Rightarrow> bool) \<Rightarrow> creator \<Rightarrow> bool" where
  "every_creation P (Created w) \<longleftrightarrow> True"
| "every_creation P (NotCreated e) \<longleftrightarrow> True"
| "every_creation P (CreationSecond k) \<longleftrightarrow> (\<forall>x. every_creation P (k x))"
| "every_creation P (CurrentClaim k) \<longleftrightarrow> (\<forall>x. every_creation P (k x))"
| "every_creation P (CurrentBundle i k) \<longleftrightarrow> (\<forall>x. every_creation P (k x))"
| "every_creation P (Preflight q k) \<longleftrightarrow> (\<forall>x. every_creation P (k x))"
| "every_creation P (SignEvidence e k) \<longleftrightarrow> (\<forall>x. every_creation P (k x))"
| "every_creation P (CreateBundle a r k) \<longleftrightarrow> P a r \<and> (\<forall>x. every_creation P (k x))"

primrec creations_within :: "creator \<Rightarrow> nat \<Rightarrow> bool" where
  "creations_within (Created w) n \<longleftrightarrow> True"
| "creations_within (NotCreated e) n \<longleftrightarrow> True"
| "creations_within (CreationSecond k) n \<longleftrightarrow> (\<forall>x. creations_within (k x) n)"
| "creations_within (CurrentClaim k) n \<longleftrightarrow> (\<forall>x. creations_within (k x) n)"
| "creations_within (CurrentBundle i k) n \<longleftrightarrow> (\<forall>x. creations_within (k x) n)"
| "creations_within (Preflight q k) n \<longleftrightarrow> (\<forall>x. creations_within (k x) n)"
| "creations_within (SignEvidence e k) n \<longleftrightarrow> (\<forall>x. creations_within (k x) n)"
| "creations_within (CreateBundle a r k) n \<longleftrightarrow> (case n of 0 \<Rightarrow> False | Suc m \<Rightarrow> \<forall>x. creations_within (k x) m)"

section \<open>The records submitted\<close>

lemma complete_result:
  assumes "complete_root_creation h u s = Inr a"
  obtains claim_id claim_sha authority_sha anchor_sha evidence_sha where
    "service_claim_logical_id h (rc_target (ad_content (un_root u))) = Inr claim_id"
    "service_claim_sha256 h (un_service_claim u) = Inr claim_sha"
    "ra_creation_result a = creation_result_of u s claim_id claim_sha authority_sha anchor_sha evidence_sha"
  using assms by (auto simp: complete_root_creation_def bindR_eq_Inr_iff split: if_splits)

lemma built_claim:
  assumes "build_unsigned_root_creation h cmd identity subject snapshot candidate k at = Inr u"
  shows "validate_service_claim (un_service_claim u) = None \<and> un_command u = cmd \<and> is_root_v3 (un_root u)"
  using assms
  by (auto simp: build_unsigned_root_creation_def bindR_eq_Inr_iff Let_def service_claim_of_def create_root_def
      creation_content_def is_root_v3_def dest: create_rollout_root_Inr)

lemma anchor_target: "capability_lineage_anchor h root = Inr n \<Longrightarrow> la_target n = rc_target (ad_content root)"
  by (auto simp: capability_lineage_anchor_def Let_def split: sum.splits)

lemma addressed_snapshot:
  assumes "validate_addressed_root h root = None"
  shows "ss_captured_by (rc_stable_snapshot (ad_content root)) = verifier_identity (rc_target (ad_content root))"
    "ss_captured_at (rc_stable_snapshot (ad_content root)) \<le> rc_approved_at (ad_content root)"
  using assms
  by (auto simp: validate_addressed_root_def validate_root_content_def validate_content_bindings_def Let_def)

lemma claim_shas:
  assumes "validate_service_claim claim = None"
  shows "is_sha256 (cl_stable_target_configuration_sha256 claim)"
    "is_sha256 (cl_candidate_target_configuration_sha256 claim)"
  using assms by (auto simp: validate_service_claim_def validate_claim_fields_def field_def)

lemma creation_submission_admitted:
  assumes "build_unsigned_root_creation h cmd identity subject snapshot candidate k at = Inr u"
    "complete_root_creation h u s = Inr a"
  shows "validate_initial_root_creation_bundle h (kf_target k) a None = None"
proof -
  obtain stable_sha candidate_sha subject_sha claim_sha authority_sha where
    u: "unsigned_of h k identity subject at u stable_sha candidate_sha subject_sha claim_sha authority_sha"
    using build_unsigned_Inr [OF assms(1)] .
  obtain claim_id claim_sha' authority_sha' anchor_sha evidence_sha where
    r: "service_claim_logical_id h (rc_target (ad_content (un_root u))) = Inr claim_id"
    "service_claim_sha256 h (un_service_claim u) = Inr claim_sha'"
    "ra_creation_result a = creation_result_of u s claim_id claim_sha' authority_sha' anchor_sha evidence_sha"
    using complete_result [OF assms(2)] .
  have root: "created_root h k identity subject at (un_root u)"
    and anchor: "capability_lineage_anchor h (un_root u) = Inr (un_lineage_anchor u)"
    and digests: "root_target_configuration_sha256 h (un_root u) 100 0 = Inr stable_sha"
      "root_target_configuration_sha256 h (un_root u) 0 100 = Inr candidate_sha"
    and claim: "un_service_claim u = first_claim (un_root u) (cm_request_id (un_command u))
      (''cgevidence:'' @ un_request_sha256 u) at stable_sha candidate_sha"
    and auth: "un_initial_authority u = first_authority (un_root u) identity (cm_request_id (un_command u))
      (''cgevidence:'' @ un_request_sha256 u) at"
    and event: "un_evidence_event u = first_event (un_root u) identity (cm_request_id (un_command u))
      (''cgevidence:'' @ un_request_sha256 u) at subject_sha"
    and at: "un_created_at u = at"
    using u by (auto simp: unsigned_of_def Let_def)
  note c = complete_Inr [OF assms(2)]
  note built = built_claim [OF assms(1)]
  have valid: "validate_addressed_root h (un_root u) = None" and target: "rc_target (ad_content (un_root u)) = kf_target k"
    using root by (auto simp: created_root_def)
  have matches: "service_claim_matches_addressed_root h (un_service_claim u) (un_root u)"
    using first_claim_matches [OF digests] root by (simp add: claim created_root_def)
  have binds: "claim_binds_root h (un_service_claim u) (un_root u)"
    using matches claim_shas [OF conjunct1 [OF built]] addressed_snapshot [OF valid]
    by (simp add: claim_binds_root_def Let_def)
  have fields: "cl_status (un_service_claim u) = CS_ACTIVE"
      "cl_claim_request_id (un_service_claim u) = cm_request_id (un_command u)"
      "cl_claim_evidence_id (un_service_claim u) = ''cgevidence:'' @ un_request_sha256 u"
      "cl_claimed_at (un_service_claim u) = at" "cl_target (un_service_claim u) = kf_target k"
    using target by (simp_all add: claim first_claim_def Let_def)
  have "one_authority_bundle h (kf_target k) a"
    using c r binds fields anchor auth event at target
    by (simp add: one_authority_bundle_def Let_def or_raise_contract_def)
  then show ?thesis
    using c built fields anchor_target [OF anchor] auth event target
    by (simp add: validate_initial_root_creation_bundle_def Let_def)
qed

section \<open>Creations are exact\<close>

text \<open>
  What the store asks of the claim that is taken over, beyond what the service has read of it: it is stored at
  a released revision, of another root, and was released before the approved snapshot was captured.
\<close>

definition follows_release :: "root_creation_artifacts \<Rightarrow> service_claim stored_record \<Rightarrow> bool" where
  "follows_release a x \<longleftrightarrow>
     sr_revision x mod 3 = 2 \<and> cl_root_id (sr_value x) \<noteq> ad_root_id (ra_new_root a)
     \<and> (\<exists>released_at. cl_released_at (sr_value x) = Some released_at
          \<and> released_at < ss_captured_at (rc_stable_snapshot (ad_content (ra_new_root a))))"

lemma built_instants:
  assumes "build_unsigned_root_creation h cmd identity subject snapshot candidate k at = Inr u"
  shows "rc_approved_at (ad_content (un_root u)) = cl_claimed_at (un_service_claim u)"
proof -
  obtain stable_sha candidate_sha subject_sha claim_sha authority_sha where
    "unsigned_of h k identity subject at u stable_sha candidate_sha subject_sha claim_sha authority_sha"
    using build_unsigned_Inr [OF assms] .
  then show ?thesis by (simp add: unsigned_of_def created_root_def first_claim_def Let_def)
qed

definition creation_is_exact ::
  "hexdigest \<Rightarrow> root_creation_configuration \<Rightarrow> string \<Rightarrow> root_creation_command
    \<Rightarrow> authentication_context option \<Rightarrow> root_creation_artifacts \<Rightarrow> service_claim stored_record option \<Rightarrow> bool" where
  "creation_is_exact h k audience cmd caller a released \<longleftrightarrow>
     (\<exists>p second. caller = Some p \<and> parse_utc_second (wr_created_at (ra_creation_result a)) = Some second
        \<and> creation_caller_admitted k audience p second)
     \<and> wr_request_id (ra_creation_result a) = cm_request_id cmd
     \<and> wr_idempotency_key (ra_creation_result a) = cm_idempotency_key cmd
     \<and> wr_operator_identity (ra_creation_result a) = kf_operator_identity k
     \<and> (case released of
          None \<Rightarrow> validate_initial_root_creation_bundle h (kf_target k) a None = None
        | Some x \<Rightarrow>
            cl_status (sr_value x) = CS_RELEASED \<and> cl_target (sr_value x) = kf_target k
            \<and> (validate_initial_root_creation_bundle h (kf_target k) a (Some x) = None \<longleftrightarrow> follows_release a x))"

lemma takeover_admitted:
  assumes "build_unsigned_root_creation h cmd identity subject snapshot candidate k at = Inr u"
    "complete_root_creation h u s = Inr a"
    and x: "cl_status (sr_value x) = CS_RELEASED" "cl_target (sr_value x) = kf_target k"
  shows "validate_initial_root_creation_bundle h (kf_target k) a (Some x) = None \<longleftrightarrow> follows_release a x"
proof -
  have approved: "rc_approved_at (ad_content (ra_new_root a)) = cl_claimed_at (ra_new_claim a)"
    using built_instants [OF assms(1)] complete_Inr [OF assms(2)] by simp
  have "checks [c] = c" for c :: check by (cases c) simp_all
  then have "validate_initial_root_creation_bundle h (kf_target k) a (Some x)
      = validate_addressed_takeover (kf_target k) x (ra_new_root a) (ra_new_claim a)"
    using creation_submission_admitted [OF assms(1,2)]
    by (simp add: validate_initial_root_creation_bundle_def Let_def)
  then show ?thesis
    using x approved
    by (auto simp: validate_addressed_takeover_def follows_release_def Let_def fails_if_def split: option.splits)
qed

lemma existing_claim_every:
  assumes "every_creation P (f None)"
    "\<And>x. cl_status (sr_value x) = CS_RELEASED \<Longrightarrow> cl_target (sr_value x) = kf_target k \<Longrightarrow> every_creation P (f (Some x))"
  shows "every_creation P (existing_claim h k cmd p f)"
  using assms
  by (auto simp: existing_claim_def creation_refused_def adopt_existing_bundle_def Let_def
      split: sum.splits option.splits)

lemma existing_claim_within:
  assumes "\<And>x. creations_within (f x) n"
  shows "creations_within (existing_claim h k cmd p f) n"
  using assms
  by (auto simp: existing_claim_def creation_refused_def adopt_existing_bundle_def Let_def
      split: sum.splits option.splits)

lemma after_creation_every: "every_creation P (after_creation h k cmd p answer)"
  by (auto simp: after_creation_def creation_refused_def intro!: existing_claim_every
      split: sum.splits store_failure.splits store_error.splits)

lemma after_creation_within: "creations_within (after_creation h k cmd p answer) n"
  by (auto simp: after_creation_def creation_refused_def intro!: existing_claim_within
      split: sum.splits store_failure.splits store_error.splits)

lemma clock_every:
  assumes "\<And>text second. parse_utc_second text = Some second \<Longrightarrow> every_creation P (f text second)"
  shows "every_creation P (creation_clock f)"
  using assms by (auto simp: creation_clock_def creation_refused_def bind_eq_Some_conv split: option.splits)

lemma clock_within: "(\<And>text second. creations_within (f text second) n) \<Longrightarrow> creations_within (creation_clock f) n"
  by (auto simp: creation_clock_def creation_refused_def split: option.splits)

lemma authorized_every:
  assumes "\<And>p. caller = Some p \<Longrightarrow> creation_caller_admitted k audience p second \<Longrightarrow> every_creation P (f p)"
  shows "every_creation P (creation_authorized k audience caller second f)"
  using assms by (auto simp: creation_authorized_def creation_refused_def split: option.splits)

lemma authorized_within:
  assumes "\<And>p. creations_within (f p) n"
  shows "creations_within (creation_authorized k audience caller second f) n"
  using assms by (auto simp: creation_authorized_def creation_refused_def split: option.splits)

lemma completed_request:
  assumes "build_unsigned_root_creation h cmd identity subject snapshot candidate k at = Inr u"
    "complete_root_creation h u s = Inr a"
  shows "wr_created_at (ra_creation_result a) = at \<and> wr_request_id (ra_creation_result a) = cm_request_id cmd
    \<and> wr_idempotency_key (ra_creation_result a) = cm_idempotency_key cmd
    \<and> wr_operator_identity (ra_creation_result a) = identity"
proof -
  obtain stable_sha candidate_sha subject_sha claim_sha authority_sha where
    u: "unsigned_of h k identity subject at u stable_sha candidate_sha subject_sha claim_sha authority_sha"
    using build_unsigned_Inr [OF assms(1)] .
  obtain claim_id claim_sha' authority_sha' anchor_sha evidence_sha where
    "ra_creation_result a = creation_result_of u s claim_id claim_sha' authority_sha' anchor_sha evidence_sha"
    using complete_result [OF assms(2)] by metis
  then show ?thesis
    using u built_claim [OF assms(1)] by (simp add: unsigned_of_def created_root_def Let_def)
qed

lemma build_every:
  assumes "parse_utc_second at = Some second" "creation_caller_admitted k audience p second"
    "\<And>x. released = Some x \<Longrightarrow> cl_status (sr_value x) = CS_RELEASED \<and> cl_target (sr_value x) = kf_target k"
  shows "every_creation (creation_is_exact h k audience cmd (Some p))
    (build_creation h k cmd p released snapshot candidate at)"
proof -
  have identity: "ac_email p = kf_operator_identity k" using assms(2) by (simp add: creation_caller_admitted_def)
  have exact: "creation_is_exact h k audience cmd (Some p) a released"
    if "build_unsigned_root_creation h cmd (ac_email p) (ac_subject p) snapshot candidate k at = Inr u"
      "complete_root_creation h u s = Inr a" for u s a
    using completed_request [OF that] creation_submission_admitted [OF that] takeover_admitted [OF that] assms
      identity
    by (auto simp: creation_is_exact_def split: option.splits)
  show ?thesis
    by (auto simp: build_creation_def submit_creation_def creation_refused_def after_creation_every
        split: sum.splits option.splits intro: exact)
qed

lemma build_within: "creations_within (build_creation h k cmd p released snapshot candidate at) (Suc 0)"
  by (auto simp: build_creation_def submit_creation_def creation_refused_def after_creation_within
      split: sum.splits option.splits)

text \<open>
  C10: Whatever its clock, its store, the verifier and the evidence signer answer, a run of the root-creation
  service submits at most one bundle. It is submitted for the one configured operator, in the token's window
  at the very second the root is created, under the identifiers of the request. A first bundle always passes the
  store's own validation, which is written separately. A takeover is offered only of a released claim of the
  same target, and that validation then admits it exactly when the claim is stored at a released revision, of
  another root, and was released before the approved snapshot was captured; nothing else can refuse it.
\<close>

theorem creations_are_exact:
  "every_creation (creation_is_exact h k audience cmd caller) (create_rollout_root h k audience cmd caller)
    \<and> creations_within (create_rollout_root h k audience cmd caller) 1"
proof
  have preflight: "every_creation (creation_is_exact h k audience cmd (Some p))
      (after_preflight h k audience cmd p released authorized_at answer)"
    if "\<And>x. released = Some x \<Longrightarrow> cl_status (sr_value x) = CS_RELEASED \<and> cl_target (sr_value x) = kf_target k"
    for p released authorized_at answer
    using that
    by (auto simp: after_preflight_def creation_refused_def split: option.splits
        intro!: clock_every authorized_every build_every)
  show "every_creation (creation_is_exact h k audience cmd caller) (create_rollout_root h k audience cmd caller)"
    unfolding create_rollout_root_def
    by (auto intro!: clock_every authorized_every existing_claim_every preflight split: sum.splits)
  have within: "creations_within (after_preflight h k audience cmd p released authorized_at answer) (Suc 0)"
    for p released authorized_at answer
    by (auto simp: after_preflight_def creation_refused_def split: option.splits
        intro!: clock_within authorized_within build_within)
  show "creations_within (create_rollout_root h k audience cmd caller) 1"
    unfolding create_rollout_root_def
    by (auto intro!: clock_within authorized_within existing_claim_within simp: within split: sum.splits)
qed

end
