(* ===== verification/SampleCreation.thy ===== *)
theory SampleCreation
  imports RootCreationProps SampleRun
begin

text \<open>
  The creation of the sample root, as a witness of its property and the start of the sample revocation.
  SHA-256 is instantiated by a function of two values, one for the identities of revocation events.
\<close>

section \<open>A digest of two values\<close>

definition sample_other :: string where
  "sample_other = ''bbbbbbbbbbbbbbbbbbbbbbbbbbbbbbbbbbbbbbbbbbbbbbbbbbbbbbbbbbbbbbbb''"

definition sample_sha :: hexdigest where
  "sample_sha b =
     (if take (length REVOCATION_EVIDENCE_ID_DOMAIN) b = REVOCATION_EVIDENCE_ID_DOMAIN then sample_other
      else sample_digest)"

lemma sample_sha_is_digest: "is_sha256 (sample_sha b)"
proof -
  have "is_sha256 sample_other" "is_sha256 sample_digest" by code_simp+
  then show ?thesis by (simp add: sample_sha_def)
qed

lemma differs_early:
  assumes "take n A \<noteq> take n B" "n \<le> length A" "n \<le> length B"
  shows "take (length B) (A @ x) \<noteq> B"
proof
  assume "take (length B) (A @ x) = B"
  then have "take n (take (length B) (A @ x)) = take n B" by simp
  then show False using assms by (simp add: min_def split: if_splits)
qed

lemma signing_domains_differ:
  "take 21 DIGEST_DOMAIN \<noteq> take 21 REVOCATION_EVIDENCE_ID_DOMAIN \<and> 21 \<le> length DIGEST_DOMAIN"
  "take 21 TARGET_CONFIGURATION_DOMAIN \<noteq> take 21 REVOCATION_EVIDENCE_ID_DOMAIN \<and> 21 \<le> length TARGET_CONFIGURATION_DOMAIN"
  "21 \<le> length REVOCATION_EVIDENCE_ID_DOMAIN"
  by code_simp+

lemma sha_contract: "contract_sha256 sample_sha = contract_sha256 sample_hash"
proof -
  have early: "sample_sha (DIGEST_DOMAIN @ x) = sample_digest" for x
    using differs_early [of 21 DIGEST_DOMAIN REVOCATION_EVIDENCE_ID_DOMAIN x] signing_domains_differ
    by (simp add: sample_sha_def)
  show ?thesis by (intro ext) (simp add: contract_sha256_def sample_hash_def early split: sum.split)
qed

lemma sha_target: "target_configuration_sha256 sample_sha = target_configuration_sha256 sample_hash"
proof -
  have early: "sample_sha (TARGET_CONFIGURATION_DOMAIN @ x) = sample_digest" for x
    using differs_early [of 21 TARGET_CONFIGURATION_DOMAIN REVOCATION_EVIDENCE_ID_DOMAIN x] signing_domains_differ
    by (simp add: sample_sha_def)
  show ?thesis by (intro ext) (simp add: target_configuration_sha256_def sample_hash_def early split: sum.split)
qed

lemma sha_same:
  "stable_snapshot_sha256 sample_sha = stable_snapshot_sha256 sample_hash"
  "health_policy_sha256 sample_sha = health_policy_sha256 sample_hash"
  "plan_sha256 sample_sha = plan_sha256 sample_hash"
  "authority_bounds_sha256 sample_sha = authority_bounds_sha256 sample_hash"
  "root_content_sha256 sample_sha = root_content_sha256 sample_hash"
  "root_target_configuration_sha256 sample_sha = root_target_configuration_sha256 sample_hash"
  by (intro ext; simp add: stable_snapshot_sha256_def health_policy_sha256_def plan_sha256_def
      authority_bounds_sha256_def root_content_sha256_def root_target_configuration_sha256_def sha_contract sha_target)+

lemma sha_anchor: "capability_lineage_anchor sample_sha = capability_lineage_anchor sample_hash"
  by (intro ext) (unfold capability_lineage_anchor_def sha_same, rule refl)

lemma sha_content: "validate_root_content sample_sha = validate_root_content sample_hash"
  by (intro ext) (simp add: validate_root_content_def validate_content_bindings_def sha_same)

lemma sha_root: "validate_addressed_root sample_sha = validate_addressed_root sample_hash"
  by (intro ext) (simp add: validate_addressed_root_def validate_content_address_def sha_same sha_content)

section \<open>The request\<close>

definition creation_configuration :: root_creation_configuration where
  "creation_configuration =
     \<lparr>kf_target = sample_target,
      kf_verifier_identity = ''controlgraph-verifier@controlgraph-canary-abc123.iam.gserviceaccount.com'',
      kf_candidate_revision = sample_candidate, kf_candidate_revision_configuration_sha256 = sample_digest,
      kf_concurrency = 80, kf_capability_signing_key_version = sample_key_version,
      kf_evidence_signing_key_version = ''projects/controlgraph-canary-abc123/locations/us-central1/keyRings/controlgraph-signing/cryptoKeys/evidence-signing/cryptoKeyVersions/1'',
      kf_issuer_identity = ''controlgraph-issuer@controlgraph-canary-abc123.iam.gserviceaccount.com'',
      kf_executor_identity = sample_executor, kf_recovery_identity = sample_recovery,
      kf_executor_audience = sample_audience, kf_recovery_audience = sample_recovery_audience,
      kf_maximum_capability_lifetime_seconds = 900, kf_operator_identity = ''operator@example.com'',
      kf_operator_subject = ''100000000000000000001''\<rparr>"

definition creation_candidate :: candidate_attestation where
  "creation_candidate =
     \<lparr>ct_target = sample_target, ct_candidate_revision = sample_candidate, ct_configuration_sha256 = sample_digest,
      ct_generation = 1, ct_etag = ''etag-c'', ct_concurrency = 80,
      ct_reader_identity = ''controlgraph-verifier@controlgraph-canary-abc123.iam.gserviceaccount.com'',
      ct_captured_at = ''2025-01-01T00:00:00Z''\<rparr>"

definition creation_command :: root_creation_command where
  "creation_command =
     \<lparr>cm_request_id = ''request-0'', cm_idempotency_key = ''key-0'', cm_expected_stable_snapshot = sample_snapshot\<rparr>"

definition creation_time :: string where "creation_time = ''2025-01-01T00:05:00Z''"

lemma creation_preflight:
  "validate_preflight creation_configuration sample_snapshot creation_candidate
     (cm_expected_stable_snapshot creation_command) creation_time = Inr ()"
proof -
  have "preflight_holds creation_configuration sample_snapshot creation_candidate sample_snapshot
      1735689900 1735689600 1735689600 1735689600"
    by code_simp
  then show ?thesis
    by (simp add: validate_preflight_def creation_command_def creation_time_def creation_candidate_def
        sample_snapshot_def parse_or_raise_def sample_instants)
qed

lemma creation_records:
  "creation_plan creation_configuration sample_snapshot creation_candidate sample_digest sample_digest = sample_plan"
  "creation_bounds creation_configuration sample_plan sample_digest = sample_bounds"
  "creation_content creation_configuration sample_snapshot sample_plan sample_bounds ''operator@example.com''
     ''100000000000000000001'' creation_time = sample_content"
  by (simp_all add: creation_plan_def creation_bounds_def creation_content_def creation_configuration_def
      creation_candidate_def creation_time_def sample_plan_def sample_snapshot_def sample_bounds_def sample_content_def
      action_grant_def)

lemma creation_root:
  "create_root sample_sha creation_command ''operator@example.com'' ''100000000000000000001'' sample_snapshot
     creation_candidate creation_configuration creation_time = Inr sample_root"
proof -
  have op: "creation_operator_valid ''operator@example.com'' ''100000000000000000001'' = None" by code_simp
  have same: "kf_operator_identity creation_configuration = ''operator@example.com''"
    "kf_operator_subject creation_configuration = ''100000000000000000001''"
    by (simp_all add: creation_configuration_def)
  have content: "validate_root_content sample_hash sample_content = None"
    by (simp add: validate_root_content_def sample_fields_valid sample_bindings_valid)
  have rooted: "validate_addressed_root sample_hash sample_root = None"
    using sample_root_wf by (simp add: wf_root_def)
  have bounds: "authority_bounds_of sample_sha creation_configuration sample_plan = Inr sample_bounds"
    by (simp add: authority_bounds_of_def sha_same or_raise_contract_def creation_records sample_bounds_valid)
  have made: "create_rollout_root_of sample_sha sample_content = Inr sample_root"
    using rooted unfolding sample_root_def
    by (simp add: create_rollout_root_of_def sha_same sha_root construct_def)
  show ?thesis
    by (simp add: create_root_def op same creation_preflight sha_same sha_content or_raise_contract_def creation_records
        sample_plan_valid bounds content made construct_def)
qed

end
