(* ===== verification/SampleStore.thy ===== *)
theory SampleStore
  imports EvidenceHistory RootCreationRuns SampleCreation
begin

text \<open>
  The sample root built, signed and stored, for the witnesses of the properties of root creation.
\<close>

section \<open>Digests of the sample\<close>

lemma sha_early:
  assumes "take n A \<noteq> take n REVOCATION_EVIDENCE_ID_DOMAIN" "n \<le> length A" "n \<le> 21"
  shows "sample_sha (A @ x) = sample_digest"
  using differs_early [of n A REVOCATION_EVIDENCE_ID_DOMAIN x] assms signing_domains_differ(3)
  by (simp add: sample_sha_def)

lemma sha_taken:
  "validate_restricted 0 v = None \<Longrightarrow> json_weight v \<le> 65536 \<Longrightarrow>
     or_raise_contract (contract_sha256 sample_sha ver v) = Inr sample_digest"
  by (simp add: sha_contract sample_digest_taken or_raise_contract_def)

lemma creation_domain: "sample_sha (ROOT_CREATION_REQUEST_DOMAIN @ x) = sample_digest"
  by (rule sha_early [of 21]; code_simp)

lemma signing_domain: "sample_sha (SIGNING_DOMAIN @ x) = sample_digest"
  by (rule sha_early [of 21]; code_simp)

text \<open>A JSON object starts with a brace, which no domain does.\<close>

lemma object_start: "\<exists>r. encode_utf8 (json_dumps (JObj kvs)) = 123 # r"
proof -
  have "utf8_char (CHR 0x7B) = [123]" by code_simp
  then show ?thesis by (simp add: json_dumps_def encode_utf8_def)
qed

lemma object_sha: "sample_sha (encode_utf8 (json_dumps (JObj kvs))) = sample_digest"
proof -
  obtain r where "encode_utf8 (json_dumps (JObj kvs)) = [123] @ r" using object_start [of kvs] by auto
  moreover have "sample_sha ([123] @ r) = sample_digest" for r
    by (rule sha_early [of 1]; code_simp)
  ultimately show ?thesis by simp
qed

section \<open>The unsigned records\<close>

definition creation_evidence_id :: string where "creation_evidence_id = ''cgevidence:'' @ sample_digest"

definition creation_claim :: service_claim where
  "creation_claim =
     first_claim sample_root ''request-0'' creation_evidence_id creation_time sample_digest sample_digest"

definition creation_authority :: epoch_authority_record where
  "creation_authority =
     first_authority sample_root ''operator@example.com'' ''request-0'' creation_evidence_id creation_time"

definition creation_about :: creation_subject where
  "creation_about =
     \<lparr>cs_root_id = ''cgroot:'' @ sample_digest, cs_root_sha256 = sample_digest, cs_request_sha256 = sample_digest,
      cs_created_at = creation_time, cs_service_claim_id = sample_digest, cs_service_claim_sha256 = sample_digest,
      cs_authority_id = ''cgroot:'' @ sample_digest, cs_authority_sha256 = sample_digest,
      cs_lineage_anchor_id = ''cganchor:'' @ sample_digest, cs_lineage_anchor_sha256 = sample_digest,
      cs_evidence_id = creation_evidence_id\<rparr>"

definition creation_event :: evidence_event where
  "creation_event =
     first_event sample_root ''operator@example.com'' ''request-0'' creation_evidence_id creation_time sample_digest"

definition creation_unsigned :: unsigned_root_creation where
  "creation_unsigned =
     \<lparr>un_command = creation_command, un_created_at = creation_time, un_request_sha256 = sample_digest,
      un_root = sample_root, un_service_claim = creation_claim, un_initial_authority = creation_authority,
      un_lineage_anchor = sample_anchor, un_evidence_subject = creation_about, un_evidence_event = creation_event\<rparr>"

lemma creation_request:
  "root_creation_request_sha256 sample_sha sample_root ''request-0'' ''key-0'' ''operator@example.com''
     ''100000000000000000001'' = Inr sample_digest"
proof -
  let ?j = "root_creation_request_json sample_root ''request-0'' ''key-0'' ''operator@example.com'' ''100000000000000000001''"
  have "validate_request_projection ''request-0'' ''key-0'' ''operator@example.com'' ''100000000000000000001'' = None"
    "validate_restricted 0 ?j = None" "json_weight ?j \<le> 65536"
    by code_simp+
  then show ?thesis
    by (simp add: root_creation_request_sha256_def canonical_within or_raise_contract_def bindR_def creation_domain)
qed

lemma creation_valid:
  "validate_service_claim creation_claim = None" "validate_authority_record creation_authority = None"
  "validate_creation_subject creation_about = None" "validate_evidence_event creation_event = None"
  by code_simp+

lemma creation_claim_id: "service_claim_logical_id sample_sha sample_target = Inr sample_digest"
proof -
  have "require_service_claim_target sample_target = None" by code_simp
  moreover have "contract_sha256 sample_sha TARGET_BINDING_V1 (target_binding_json sample_target) = Inr sample_digest"
    unfolding sha_contract by (rule sample_digest_taken; code_simp)
  ultimately show ?thesis by (simp add: service_claim_logical_id_def)
qed

lemma creation_digests:
  "service_claim_sha256 sample_sha creation_claim = Inr sample_digest"
  "epoch_authority_sha256 sample_sha creation_authority = Inr sample_digest"
  "lineage_anchor_sha256 sample_sha sample_anchor = Inr sample_digest"
  "creation_subject_sha256 sample_sha creation_about = Inr sample_digest"
  unfolding service_claim_sha256_def epoch_authority_sha256_def lineage_anchor_sha256_def creation_subject_sha256_def
  by (rule sha_taken; code_simp)+

lemma creation_claim_of:
  "service_claim_of sample_sha sample_root ''request-0'' creation_evidence_id creation_time = Inr creation_claim"
  using creation_valid(1)
  by (simp add: service_claim_of_def sha_same sample_configurations construct_def creation_claim_def bindR_def)

lemma creation_subject_built:
  "creation_subject_of sample_sha sample_root creation_claim creation_authority sample_anchor sample_digest
     creation_evidence_id creation_time = Inr creation_about"
  using creation_valid(3) creation_claim_id
  by (simp add: creation_subject_of_def creation_digests sample_root_def sample_content_def construct_def
      creation_about_def bindR_def)

lemma creation_built:
  "build_unsigned_root_creation sample_sha creation_command ''operator@example.com'' ''100000000000000000001''
     sample_snapshot creation_candidate creation_configuration creation_time = Inr creation_unsigned"
proof -
  have cmd: "cm_request_id creation_command = ''request-0''" "cm_idempotency_key creation_command = ''key-0''"
    by (simp_all add: creation_command_def)
  have anchor: "capability_lineage_anchor sample_sha sample_root = Inr sample_anchor"
    using sample_anchored by (simp add: sha_anchor)
  have made: "construct validate_authority_record (first_authority sample_root ''operator@example.com'' ''request-0''
        (''cgevidence:'' @ sample_digest) creation_time) = Inr creation_authority"
      "construct validate_evidence_event (first_event sample_root ''operator@example.com'' ''request-0''
        (''cgevidence:'' @ sample_digest) creation_time sample_digest) = Inr creation_event"
    using creation_valid(2,4)
    by (simp_all add: construct_def creation_authority_def creation_event_def creation_evidence_id_def)
  show ?thesis
    using made creation_claim_of [unfolded creation_evidence_id_def]
      creation_subject_built [unfolded creation_evidence_id_def]
    by (simp add: build_unsigned_root_creation_def creation_root cmd creation_request Let_def anchor
        creation_digests or_raise_contract_def creation_unsigned_def bindR_def del: construct_Inr_iff)
qed

section \<open>The signed event\<close>

definition evidence_key :: string where
  "evidence_key = ''projects/controlgraph-canary-abc123/locations/us-central1/keyRings/controlgraph-signing/cryptoKeys/evidence-signing/cryptoKeyVersions/1''"

definition signed_sample :: "evidence_event \<Rightarrow> signed_evidence_event" where
  "signed_sample event =
     \<lparr>se_event = event, se_signing_key_version = evidence_key, se_payload_sha256 = sample_digest,
      se_signing_input_sha256 = sample_digest, se_signature = ''AAAA''\<rparr>"

lemma sample_is_digest: "is_sha256 sample_digest" by code_simp

lemma signed_sample_valid:
  assumes "validate_evidence_event event = None" "ev_target event = sample_target"
    "validate_restricted 0 (evidence_event_json event) = None" "json_weight (evidence_event_json event) \<le> 65536"
  shows "validate_signed_evidence sample_sha (signed_sample event) = None"
proof -
  let ?header = "JObj [(''algorithm'', JStr SIGNING_ALGORITHM), (''key_version'', JStr evidence_key),
                  (''payload_version'', JStr EVIDENCE_EVENT_V1), (''purpose'', JStr ''EVIDENCE''),
                  (''schema_version'', JStr SIGNATURE_INPUT_V1)]"
  have header: "validate_restricted 0 ?header = None" "json_weight ?header \<le> 65536"
    and key: "validate_signing_key evidence_key (tb_project_id sample_target) ''evidence-signing'' = None"
      "is_key_version_resource evidence_key" "is_base64url_text ''AAAA''" "validate_root_target sample_target = None"
    by code_simp+
  have "evidence_payload_sha256 sample_sha event = Inr sample_digest"
    using assms(3,4)
    by (simp add: evidence_payload_sha256_def canonical_within or_raise_contract_def bindR_def evidence_event_json_def
        object_sha)
  moreover have "evidence_signing_input_sha256 sample_sha event evidence_key = Inr sample_digest"
    using assms(2-4) header key(1)
    by (simp add: evidence_signing_input_sha256_def canonical_within or_raise_contract_def bindR_def signing_domain)
  ultimately show ?thesis
    using assms(1,2) key sample_is_digest sample_signature_decoded
    by (simp add: validate_signed_evidence_def validate_signature_bindings_def signed_sample_def field_def Let_def
        fails_if_def)
qed

definition creation_signed :: signed_evidence_event where "creation_signed = signed_sample creation_event"

lemma creation_event_json:
  "validate_restricted 0 (evidence_event_json creation_event) = None"
  "json_weight (evidence_event_json creation_event) \<le> 65536"
  by code_simp+

lemma creation_event_target: "ev_target creation_event = sample_target"
  by (simp add: creation_event_def sample_root_def sample_content_def)

lemma creation_signed_valid: "validate_signed_evidence sample_sha creation_signed = None"
  unfolding creation_signed_def
  by (rule signed_sample_valid [OF creation_valid(4) creation_event_target creation_event_json])

lemma creation_signed_sha: "signed_evidence_sha256 sample_sha creation_signed = Inr sample_digest"
  unfolding signed_evidence_sha256_def by (rule sha_taken; code_simp)

lemma creation_signed_sel:
  "se_event creation_signed = un_evidence_event creation_unsigned"
  "se_signing_key_version creation_signed = kf_evidence_signing_key_version creation_configuration"
  by (simp_all add: creation_signed_def signed_sample_def creation_unsigned_def creation_configuration_def
      evidence_key_def)

lemma creation_completed:
  obtains art where "complete_root_creation sample_sha creation_unsigned creation_signed = Inr art"
    "inspect_creation_bundle sample_sha sample_target (created_bundle art) = Some (trusted_of (created_bundle art))"
proof -
  obtain stable_sha candidate_sha subject_sha claim_sha authority_sha where
    u: "unsigned_of sample_sha creation_configuration ''operator@example.com'' ''100000000000000000001''
      creation_time creation_unsigned stable_sha candidate_sha subject_sha claim_sha authority_sha"
    using build_unsigned_Inr [OF creation_built] .
  have "rc_evidence_signing_key_version (ad_content (un_root creation_unsigned))
      = kf_evidence_signing_key_version creation_configuration"
    using u by (simp add: unsigned_of_def Let_def created_root_def)
  then obtain art where art: "complete_root_creation sample_sha creation_unsigned creation_signed = Inr art"
    using completion_accepted [OF u creation_signed_sel(1) creation_signed_valid _ creation_signed_sha sample_sha_is_digest]
      creation_signed_sel(2) by auto
  have "kf_target creation_configuration = sample_target" by (simp add: creation_configuration_def)
  then show thesis
    using that [OF art] created_trusted [OF u art] by (simp add: inspect_iff)
qed

lemma created_root_is_trusted_witness:
  "\<exists>art head. complete_root_creation sample_sha creation_unsigned creation_signed = Inr art
    \<and> inspect_creation_bundle sample_sha sample_target (created_bundle art) = Some (trusted_of (created_bundle art))
    \<and> current_evidence_chain_head sample_sha (created_bundle art) sample_target None None = Inr head
    \<and> hd_sequence head = 0 \<and> hd_epoch head = 1 \<and> hd_evidence_sha256 head = sample_digest"
  using created_root_is_trusted [OF creation_built creation_signed_valid creation_signed_sel creation_signed_sha
      sample_sha_is_digest]
  by (simp add: creation_configuration_def)

end
