(* ===== verification/SampleRevocation.thy ===== *)
theory SampleRevocation
  imports SampleStore
begin

text \<open>
  The sample root stored, and its first epoch revoked, for the witnesses of the properties of the store of
  creations and revocations.
\<close>

section \<open>The stored root\<close>

definition blank_db :: revocation_db where
  "blank_db =
     \<lparr>vb_roots_v2 = Map.empty, vb_roots_v3 = Map.empty, vb_claims = Map.empty, vb_authorities = Map.empty,
      vb_anchors = Map.empty, vb_evidence = Map.empty, vb_creations_v1 = Map.empty, vb_creations_v2 = Map.empty,
      vb_heads = Map.empty, vb_identities = Map.empty, vb_results = Map.empty, vb_audits = Map.empty\<rparr>"

definition created_result :: root_creation_result where
  "created_result = creation_result_of creation_unsigned creation_signed sample_digest sample_digest sample_digest
     sample_digest sample_digest"

definition creation_artifacts :: root_creation_artifacts where
  "creation_artifacts =
     \<lparr>ra_new_root = sample_root, ra_new_claim = creation_claim, ra_new_authority = creation_authority,
      ra_new_anchor = sample_anchor, ra_new_evidence = creation_signed, ra_creation_result = created_result\<rparr>"

definition root_key :: string where "root_key = ''cgroot:'' @ sample_digest"

lemma root_key [simp]: "ad_root_id sample_root = root_key" "ad_root_sha256 sample_root = sample_digest"
  "rc_target (ad_content sample_root) = sample_target"
  by (simp_all add: sample_root_def root_key_def sample_content_def)

lemma creation_unsigned_sel [simp]:
  "un_root creation_unsigned = sample_root" "un_service_claim creation_unsigned = creation_claim"
  "un_initial_authority creation_unsigned = creation_authority"
  "un_lineage_anchor creation_unsigned = sample_anchor" "un_evidence_event creation_unsigned = creation_event"
  by (simp_all add: creation_unsigned_def)

lemma completion:
  "complete_root_creation sample_sha creation_unsigned creation_signed = Inr creation_artifacts"
  "validate_root_creation_result sample_sha created_result = None"
proof -
  have key: "se_signing_key_version creation_signed = rc_evidence_signing_key_version (ad_content sample_root)"
    by (simp add: creation_signed_def signed_sample_def evidence_key_def sample_root_def sample_content_def)
  let ?r = "construct (validate_root_creation_result sample_sha) created_result"
  have made: "complete_root_creation sample_sha creation_unsigned creation_signed
      = bindR ?r (\<lambda>r.
          Inr \<lparr>ra_new_root = sample_root, ra_new_claim = creation_claim, ra_new_authority = creation_authority,
               ra_new_anchor = sample_anchor, ra_new_evidence = creation_signed, ra_creation_result = r\<rparr>)"
    using creation_signed_sel(1)
    by (simp add: complete_root_creation_def key creation_claim_id creation_digests creation_signed_sha
        created_result_def)
  obtain art where "complete_root_creation sample_sha creation_unsigned creation_signed = Inr art"
    by (rule creation_completed)
  then have valid: "?r = Inr created_result" by (auto simp: made bindR_eq_Inr_iff)
  show "complete_root_creation sample_sha creation_unsigned creation_signed = Inr creation_artifacts"
    unfolding made valid by (simp add: creation_artifacts_def)
  show "validate_root_creation_result sample_sha created_result = None" using valid by simp
qed

lemma creation_admitted:
  "validate_initial_root_creation_bundle sample_sha sample_target creation_artifacts None = None"
  using creation_submission_admitted [OF creation_built completion(1)] by (simp add: creation_configuration_def)

definition stored_docs :: creation_documents where
  "stored_docs =
     \<lparr>cd_root = (root_key, new_document 0 ''mutation-1'' sample_root),
      cd_claim = (sample_digest, new_document 0 ''mutation-1'' creation_claim),
      cd_authority = (root_key, new_document 0 ''mutation-1'' creation_authority),
      cd_anchor = (''cganchor:'' @ sample_digest, new_document 0 ''mutation-1'' sample_anchor),
      cd_evidence = (creation_evidence_id, new_document 0 ''mutation-1'' creation_signed),
      cd_result = (root_key, new_document 0 ''mutation-1'' created_result)\<rparr>"

lemma identifiers:
  "is_identifier root_key" "is_identifier sample_digest" "is_identifier (''cganchor:'' @ sample_digest)"
  "is_identifier creation_evidence_id" "is_identifier ''mutation-1''"
  by code_simp+

lemma anchor_valid: "validate_lineage_anchor sample_anchor = None" by code_simp

lemma stored_docs_prepared:
  "prepare_creation_documents sample_sha sample_target (\<lambda>_. ''mutation-1'') creation_artifacts None = Inr stored_docs"
proof -
  have authority: "au_root_id creation_authority = root_key" "au_revision creation_authority = 0"
    by (simp_all add: creation_authority_def)
  have claim: "cl_status creation_claim = CS_ACTIVE" "cl_target creation_claim = sample_target"
    by (simp_all add: creation_claim_def first_claim_def Let_def)
  have event: "ev_evidence_id (se_event creation_signed) = creation_evidence_id"
    by (simp add: creation_signed_sel(1) creation_event_def)
  have anchor: "lineage_anchor_logical_id sample_sha sample_anchor = Inr (''cganchor:'' @ sample_digest)"
    by (simp add: lineage_anchor_logical_id_def creation_digests)
  have root: "validate_addressed_root sample_sha sample_root = None"
    using sample_root_wf by (simp add: wf_root_def sha_root)
  have result: "wr_outcome created_result = CREATED" "wr_root created_result = sample_root"
    by (simp_all add: created_result_def)
  have docs: "keyed (Inr root_key) (root_wrapper sample_sha) (new_document 0 ''mutation-1'' sample_root)
        = Inr (root_key, new_document 0 ''mutation-1'' sample_root)"
      "keyed (Inr sample_digest) (validate_claim_wrapper sample_sha) (new_document 0 ''mutation-1'' creation_claim)
        = Inr (sample_digest, new_document 0 ''mutation-1'' creation_claim)"
      "keyed (Inr root_key) validate_authority_wrapper (new_document 0 ''mutation-1'' creation_authority)
        = Inr (root_key, new_document 0 ''mutation-1'' creation_authority)"
      "keyed (Inr (''cganchor:'' @ sample_digest)) (anchor_wrapper sample_sha) (new_document 0 ''mutation-1'' sample_anchor)
        = Inr (''cganchor:'' @ sample_digest, new_document 0 ''mutation-1'' sample_anchor)"
      "keyed (Inr creation_evidence_id) (evidence_wrapper sample_sha) (new_document 0 ''mutation-1'' creation_signed)
        = Inr (creation_evidence_id, new_document 0 ''mutation-1'' creation_signed)"
      "keyed (Inr root_key) (creation_wrapper sample_sha) (new_document 0 ''mutation-1'' created_result)
        = Inr (root_key, new_document 0 ''mutation-1'' created_result)"
    using identifiers creation_valid(1,2) anchor_valid creation_signed_valid completion(2) root
    by (simp_all add: keyed_Inr root_wrapper_def validate_claim_wrapper_def validate_authority_wrapper_def
        anchor_wrapper_def evidence_wrapper_def creation_wrapper_def immutable_wrapper_def
        validate_wrapper_fields_def field_def new_document_def wrong_identity_def authority claim event anchor
        creation_claim_id result MAX_SAFE_INTEGER_def)
  show ?thesis
    unfolding prepare_creation_documents_def creation_artifacts_def Let_def
    by (simp del: keyed_Inr append.simps add: docs creation_claim_id authority event anchor stored_docs_def)
qed

definition stored_db :: revocation_db where "stored_db = write_creation stored_docs blank_db"

lemma stored_body: "creation_body stored_docs None root_key blank_db = Inr stored_db"
  by (simp add: creation_body_def content_addressed_root_def read_versioned_def stored_at_def blank_db_def
      claim_as_expected_def creation_absent_def stored_db_def)

lemma stored_creation:
  "create_or_adopt_root_creation_bundle sample_sha sample_target (\<lambda>_. ''mutation-1'') creation_artifacts None
     TxConfirmed rb ex blank_db
   = (Inr \<lparr>wc_result = created_result, wc_bundle = bundle_of_documents stored_docs\<rparr>, stored_db)"
proof -
  have sel: "ra_new_root creation_artifacts = sample_root" "ra_creation_result creation_artifacts = created_result"
    by (simp_all add: creation_artifacts_def)
  have written_back: "creation_write sample_sha True created_result (bundle_of_documents stored_docs)
      = Inr \<lparr>wc_result = created_result, wc_bundle = bundle_of_documents stored_docs\<rparr>"
    by (simp add: creation_write_def validate_creation_write_def bundle_of_documents_def stored_docs_def
        stored_of_def new_document_def construct_def raised_by_store_def created_result_def creation_result_of_def Let_def)
  show ?thesis
    using creation_admitted stored_docs_prepared
    by (simp add: create_or_adopt_root_creation_bundle_def construct_def run_creation_def sel stored_body written_back)
qed

text \<open>The same store after the claim was fenced for release.\<close>

definition fenced_claim :: "service_claim document" where
  "fenced_claim = new_document 1 ''mutation-3'' (creation_claim\<lparr>cl_status := CS_RELEASING\<rparr>)"

definition fenced_db :: revocation_db where
  "fenced_db = stored_db\<lparr>vb_claims := [sample_digest \<mapsto> fenced_claim]\<rparr>"

lemma fenced_stored:
  "stored_at (vb_claims fenced_db) sample_digest = Some (stored_of fenced_claim)"
  "cl_status (sr_value (stored_of fenced_claim)) \<noteq> CS_RELEASED"
  by (simp_all add: fenced_db_def fenced_claim_def stored_at_def stored_of_def new_document_def)

lemma root_creation_is_exclusive_witness:
  "read_root_creation_bundle sample_sha sample_target root_key stored_db = Inr (Some (bundle_of_documents stored_docs))
   \<and> (\<exists>k x. stored_at (vb_claims stored_db) k = Some x \<and> sr_value x = creation_claim)
   \<and> snd (create_or_adopt_root_creation_bundle sample_sha sample_target (\<lambda>_. ''mutation-2'') creation_artifacts
        (Some (stored_of fenced_claim)) (TxLost True) (blank_db, None) (fenced_db, None) fenced_db) = fenced_db"
proof -
  have "wr_outcome (wc_result \<lparr>wc_result = created_result, wc_bundle = bundle_of_documents stored_docs\<rparr>) = CREATED"
    by (simp add: created_result_def)
  note exclusive = root_creation_is_exclusive [OF stored_creation this]
  note unchanged = exclusive [THEN conjunct2, THEN conjunct2, THEN conjunct2, rule_format]
  have "snd (create_or_adopt_root_creation_bundle sample_sha sample_target (\<lambda>_. ''mutation-2'') creation_artifacts
        (Some (stored_of fenced_claim)) (TxLost True) (blank_db, None) (fenced_db, None) fenced_db) = fenced_db"
    by (rule unchanged [of sample_digest fenced_db "stored_of fenced_claim"]) (simp add: creation_claim_id fenced_stored fenced_claim_def new_document_def)
  with exclusive [THEN conjunct1] exclusive [THEN conjunct2, THEN conjunct2, THEN conjunct1] show ?thesis
    by (auto simp: creation_artifacts_def)
qed

section \<open>The state a revocation reads\<close>

definition revocation_call :: revocation_invocation where
  "revocation_call =
     \<lparr>vi_command = \<lparr>vk_root_id = ''cgroot:'' @ sample_digest, vk_expected_root_sha256 = sample_digest,
        vk_expected_epoch = 1, vk_reason = ''candidate regressed'', vk_request_id = ''request-9'',
        vk_idempotency_key = ''key-9''\<rparr>,
      vi_attempt_id = ''attempt-9'', vi_operator_identity = ''operator@example.com'',
      vi_operator_subject = ''100000000000000000001'', vi_operator_issuer = ''https://accounts.google.com'',
      vi_operator_audience = ''https://controlgraph-api-123456789012.us-central1.run.app'',
      vi_operator_issued_at = 1735690200, vi_operator_expires_at = 1735693800\<rparr>"

definition revocation_start :: revocation_state where
  "revocation_start =
     \<lparr>vx_invocation = revocation_call, vx_root_bundle = Some (bundle_of_documents stored_docs), vx_chain_head = None,
      vx_head_evidence = None, vx_request_identity = None, vx_idempotency_identity = None, vx_result = None,
      vx_result_evidence = None, vx_attempt_audit = None\<rparr>"

lemma revocation_domain: "sample_sha (REVOCATION_REQUEST_DIGEST_DOMAIN @ x) = sample_digest"
proof -
  have "take (length REVOCATION_EVIDENCE_ID_DOMAIN) (REVOCATION_REQUEST_DIGEST_DOMAIN @ x) \<noteq> REVOCATION_EVIDENCE_ID_DOMAIN"
    by (rule differs_early [of 35]; code_simp)
  then show ?thesis by (simp add: sample_sha_def)
qed

lemma revocation_requested: "epoch_revocation_request_sha256 sample_sha revocation_call = Inr sample_digest"
proof -
  let ?j = "revocation_request_json (vi_command revocation_call) (vi_operator_identity revocation_call)
    (vi_operator_subject revocation_call)"
  have "validate_restricted 0 ?j = None" "json_weight ?j \<le> 65536" by code_simp+
  then show ?thesis
    by (simp add: epoch_revocation_request_sha256_def revocation_request_digest_def canonical_within
        or_raise_contract_def bindR_def revocation_domain)
qed

lemma revocation_call_sel [simp]:
  "vk_root_id (vi_command revocation_call) = root_key"
  "vk_expected_root_sha256 (vi_command revocation_call) = sample_digest"
  "vk_expected_epoch (vi_command revocation_call) = 1"
  "vk_request_id (vi_command revocation_call) = ''request-9''"
  "vk_idempotency_key (vi_command revocation_call) = ''key-9''"
  "vk_reason (vi_command revocation_call) = ''candidate regressed''"
  "vi_attempt_id revocation_call = ''attempt-9''" "vi_operator_identity revocation_call = ''operator@example.com''"
  "vi_operator_subject revocation_call = ''100000000000000000001''"
  by (simp_all add: revocation_call_def root_key_def)

lemma revocation_start_sel [simp]:
  "vx_invocation revocation_start = revocation_call"
  "vx_root_bundle revocation_start = Some (bundle_of_documents stored_docs)" "vx_chain_head revocation_start = None"
  "vx_head_evidence revocation_start = None" "vx_request_identity revocation_start = None"
  "vx_idempotency_identity revocation_start = None" "vx_result revocation_start = None"
  "vx_attempt_audit revocation_start = None"
  by (simp_all add: revocation_start_def)

lemma revocation_identities:
  "revocation_identity_logical_id RI_REQUEST ''request-9'' = Inr ''REQUEST:request-9''"
  "revocation_identity_logical_id RI_IDEMPOTENCY ''key-9'' = Inr ''IDEMPOTENCY:key-9''"
  "epoch_identity_value root_key 2 = Inr (root_key @ '':epoch:2'')"
  "revocation_identity_logical_id RI_EPOCH (root_key @ '':epoch:2'') = Inr (''EPOCH:'' @ root_key @ '':epoch:2'')"
  by code_simp+

lemma stored_db_sel [simp]:
  "vb_heads stored_db = Map.empty" "vb_results stored_db = Map.empty" "vb_identities stored_db = Map.empty"
  "vb_audits stored_db = Map.empty"
  by (simp_all add: stored_db_def write_creation_def blank_db_def)



section \<open>The decision\<close>

definition first_head :: evidence_chain_head where
  "first_head =
     \<lparr>hd_root_id = root_key, hd_root_sha256 = sample_digest, hd_target = sample_target, hd_sequence = 0,
      hd_evidence_id = creation_evidence_id, hd_evidence_sha256 = sample_digest, hd_kind = EK_ROOT_CREATED,
      hd_epoch = 1, hd_updated_at = creation_time\<rparr>"

lemma bundle_sel [simp]:
  "sr_value (bu_root (bundle_of_documents stored_docs)) = sample_root"
  "sr_revision (bu_service_claim (bundle_of_documents stored_docs)) = 0"
  "sr_value (bu_service_claim (bundle_of_documents stored_docs)) = creation_claim"
  "sr_value (bu_authority (bundle_of_documents stored_docs)) = creation_authority"
  "sr_value (bu_signed_evidence (bundle_of_documents stored_docs)) = creation_signed"
  by (simp_all add: bundle_of_documents_def stored_docs_def stored_of_def new_document_def)

lemma authority_sel [simp]:
  "au_current_epoch creation_authority = 1" "au_revision creation_authority = 0"
  "au_root_id creation_authority = root_key" "au_evidence_id creation_authority = creation_evidence_id"
  "au_changed_at creation_authority = creation_time" "au_request_id creation_authority = ''request-0''"
  by (simp_all add: creation_authority_def)

lemma bundle_inspected:
  "inspect_creation_bundle sample_sha sample_target (bundle_of_documents stored_docs)
     = Some (trusted_of (bundle_of_documents stored_docs))"
proof -
  have "bundle_of_documents stored_docs = created_bundle creation_artifacts"
    by (simp add: bundle_of_documents_def stored_docs_def created_bundle_def creation_artifacts_def stored_of_def
        new_document_def)
  moreover obtain art where art: "complete_root_creation sample_sha creation_unsigned creation_signed = Inr art"
    "inspect_creation_bundle sample_sha sample_target (created_bundle art) = Some (trusted_of (created_bundle art))"
    by (rule creation_completed)
  moreover have "art = creation_artifacts" using art(1) completion(1) by simp
  ultimately show ?thesis by simp
qed

lemma first_head_current: "predecessor_head sample_sha sample_target revocation_start = Inr first_head"
proof -
  have valid: "validate_evidence_chain_head first_head = None" by code_simp
  have event: "se_event creation_signed = creation_event" by (simp add: creation_signed_sel(1))
  have key: "se_signing_key_version creation_signed = rc_evidence_signing_key_version (ad_content sample_root)"
    by (simp add: creation_signed_def signed_sample_def evidence_key_def sample_root_def sample_content_def)
  have "chain_bootstraps sample_target sample_root creation_authority creation_signed"
    by (simp add: chain_bootstraps_def Let_def event key creation_event_def)
  then show ?thesis
    using valid
    by (simp add: predecessor_head_def current_evidence_chain_head_def Let_def creation_signed_sha event
        creation_event_def construct_def first_head_def)
qed

definition revoked_at :: string where "revoked_at = ''2025-01-01T00:20:00Z''"
definition revoked_evidence_id :: string where "revoked_evidence_id = ''cgevidence:'' @ sample_other"

definition revoked_authority :: epoch_authority_record where
  "revoked_authority =
     \<lparr>au_root_id = root_key, au_root_sha256 = sample_digest, au_target = sample_target, au_current_epoch = 2,
      au_previous_epoch = Some 1, au_revision = 1, au_cause = EC_OPERATOR_REVOCATION,
      au_changed_by = ''operator@example.com'', au_request_id = ''request-9'',
      au_evidence_id = revoked_evidence_id, au_changed_at = revoked_at\<rparr>"

definition revoked_subject :: revocation_subject where
  "revoked_subject =
     \<lparr>vs_root_id = root_key, vs_root_sha256 = sample_digest, vs_request_sha256 = sample_digest,
      vs_request_id = ''request-9'', vs_idempotency_key = ''key-9'', vs_operator_identity = ''operator@example.com'',
      vs_operator_subject = ''100000000000000000001'', vs_reason = ''candidate regressed'',
      vs_service_claim_sha256 = sample_digest, vs_previous_authority_sha256 = sample_digest,
      vs_replacement_authority_sha256 = sample_digest, vs_previous_epoch = 1, vs_new_epoch = 2,
      vs_evidence_id = revoked_evidence_id, vs_committed_at = revoked_at\<rparr>"

definition revoked_event :: evidence_event where
  "revoked_event =
     \<lparr>ev_evidence_id = revoked_evidence_id, ev_sequence = 1, ev_root_id = root_key, ev_root_sha256 = sample_digest,
      ev_target = sample_target, ev_epoch = 2, ev_kind = EK_EPOCH_ADVANCED, ev_actor = ''operator@example.com'',
      ev_request_id = Some ''request-9'', ev_receipt_id = None, ev_occurred_at = revoked_at,
      ev_subject_sha256 = sample_digest, ev_previous_event_sha256 = Some sample_digest, ev_reason_code = None,
      ev_provider_operation = None, ev_target_configuration_sha256 = None\<rparr>"

definition revocation_sample_plan :: revocation_plan where
  "revocation_sample_plan =
     \<lparr>pn_trusted = trusted_of (bundle_of_documents stored_docs), pn_replacement = revoked_authority,
      pn_subject = revoked_subject, pn_event = revoked_event\<rparr>"

lemma revoked_valid:
  "validate_authority_record revoked_authority = None" "validate_revocation_subject revoked_subject = None"
  "validate_evidence_event revoked_event = None"
  by code_simp+

lemma revoked_digests:
  "epoch_authority_sha256 sample_sha revoked_authority = Inr sample_digest"
  "revocation_subject_sha256 sample_sha revoked_subject = Inr sample_digest"
  unfolding epoch_authority_sha256_def revocation_subject_sha256_def by (rule sha_taken; code_simp)+

lemma revoked_id: "epoch_revocation_evidence_id sample_sha sample_digest sample_digest 2 = Inr revoked_evidence_id"
  using sample_is_digest
  by (simp add: epoch_revocation_evidence_id_def MAX_SAFE_INTEGER_def sample_sha_def revoked_evidence_id_def)

lemma revoked_authority_times:
  "au_current_epoch revoked_authority = 2" "au_evidence_id revoked_authority = revoked_evidence_id"
  "au_changed_at revoked_authority = revoked_at"
  by (simp_all add: revoked_authority_def)

lemma not_denied: "state_denial sample_sha sample_target revocation_start sample_digest = Inr None"
proof -
  have "cl_status creation_claim = CS_ACTIVE" by (simp add: creation_claim_def first_claim_def Let_def)
  then show ?thesis
    by (simp add: state_denial_def bundle_inspected Let_def first_head_current revocation_requested trusted_of_def)
qed

lemma revocation_planned:
  "plan_commit sample_sha sample_target revocation_start sample_digest revoked_at = Inr revocation_sample_plan"
proof -
  let ?t = "trusted_of (bundle_of_documents stored_docs)"
  have replacement: "replacement_authority sample_target revocation_call ?t revoked_evidence_id revoked_at
      = revoked_authority"
    by (simp add: replacement_authority_def revoked_authority_def Let_def)
  have claim: "or_raise_contract (contract_sha256 sample_sha SERVICE_CLAIM_V2 (service_claim_json creation_claim))
      = Inr sample_digest"
    using creation_digests(1) by (simp add: service_claim_sha256_def)
  have about: "revocation_subject_of sample_sha revocation_call ?t revoked_authority sample_digest = Inr revoked_subject"
    using revoked_valid(2)
    by (simp add: revocation_subject_of_def claim creation_digests revoked_digests construct_def revoked_subject_def
        revoked_authority_times)
  have event: "revocation_event sample_target revocation_call ?t first_head revoked_authority sample_digest
      = revoked_event"
    by (simp add: revocation_event_def first_head_def revoked_authority_def revoked_event_def)
  have later: "\<not> revoked_at < hd_updated_at first_head"
    by code_simp
  show ?thesis
    using revoked_valid(1,3) later
    by (simp add: plan_commit_def bundle_inspected first_head_current raises_def bindS_def guardS_def denies_def
        revoked_id replacement about revoked_digests event construct_def revocation_sample_plan_def Let_def)
qed

definition revoked_signed :: signed_evidence_event where "revoked_signed = signed_sample revoked_event"

lemma revoked_signed_sha: "signed_evidence_sha256 sample_sha revoked_signed = Inr sample_digest"
  unfolding signed_evidence_sha256_def by (rule sha_taken; code_simp)

lemma revoked_signed_valid: "validate_signed_evidence sample_sha revoked_signed = None"
proof -
  have "ev_target revoked_event = sample_target" by (simp add: revoked_event_def)
  moreover have "validate_restricted 0 (evidence_event_json revoked_event) = None"
    "json_weight (evidence_event_json revoked_event) \<le> 65536" by code_simp+
  ultimately show ?thesis
    unfolding revoked_signed_def by (rule signed_sample_valid [OF revoked_valid(3)])
qed

definition revoked_head :: evidence_chain_head where
  "revoked_head =
     \<lparr>hd_root_id = root_key, hd_root_sha256 = sample_digest, hd_target = sample_target, hd_sequence = 1,
      hd_evidence_id = revoked_evidence_id, hd_evidence_sha256 = sample_digest, hd_kind = EK_EPOCH_ADVANCED,
      hd_epoch = 2, hd_updated_at = revoked_at\<rparr>"

definition revoked_result :: revocation_result where
  "revoked_result =
     \<lparr>vr_result_id = ''cgrevoke:'' @ sample_digest, vr_request_sha256 = sample_digest, vr_request_id = ''request-9'',
      vr_idempotency_key = ''key-9'', vr_root_id = root_key, vr_root_sha256 = sample_digest,
      vr_target = sample_target, vr_operator_identity = ''operator@example.com'',
      vr_operator_subject = ''100000000000000000001'', vr_reason = ''candidate regressed'', vr_previous_epoch = 1,
      vr_new_epoch = 2, vr_evidence_id = revoked_evidence_id, vr_evidence_sha256 = sample_digest,
      vr_evidence_subject = revoked_subject, vr_committed_at = revoked_at\<rparr>"

definition revoked_commit :: revocation_commit where
  "revoked_commit =
     \<lparr>vt_replacement_authority = revoked_authority, vt_evidence_subject = revoked_subject,
      vt_signed_evidence = revoked_signed, vt_chain_head = revoked_head, vt_result = revoked_result,
      vt_request_identity = identity_claim revoked_result RI_REQUEST ''request-9'',
      vt_idempotency_identity = identity_claim revoked_result RI_IDEMPOTENCY ''key-9'',
      vt_audit = success_audit revocation_call revoked_result sample_digest RA_COMMITTED revoked_at\<rparr>"

lemma revoked_records_valid:
  "validate_evidence_chain_head revoked_head = None"
  "validate_revocation_identity (identity_claim revoked_result RI_REQUEST ''request-9'') = None"
  "validate_revocation_identity (identity_claim revoked_result RI_IDEMPOTENCY ''key-9'') = None"
  "validate_revocation_identity (identity_claim revoked_result RI_EPOCH (root_key @ '':epoch:2'')) = None"
  "validate_revocation_audit (success_audit revocation_call revoked_result sample_digest RA_COMMITTED revoked_at) = None"
  "validate_result_fields revoked_result = None" "subject_matches_result revoked_result"
  by code_simp+

lemma revoked_result_valid: "validate_revocation_result sample_sha revoked_result = None"
proof -
  have "vr_root_id revoked_result = ''cgroot:'' @ vr_root_sha256 revoked_result"
    "vr_new_epoch revoked_result = vr_previous_epoch revoked_result + 1"
    "vr_result_id revoked_result = revocation_result_id (vr_request_sha256 revoked_result)"
    "epoch_revocation_evidence_id sample_sha (vr_request_sha256 revoked_result) (vr_root_sha256 revoked_result)
       (vr_new_epoch revoked_result) = Inr (vr_evidence_id revoked_result)"
    by (simp_all add: revoked_result_def root_key_def revocation_result_id_def revoked_id)
  then show ?thesis using revoked_records_valid(6,7) by (simp add: validate_revocation_result_def)
qed

lemma revocation_completed:
  "complete_commit sample_sha sample_target revocation_call sample_digest revocation_sample_plan (Some revoked_signed)
     = Inr revoked_commit"
proof -
  have sel: "pn_event revocation_sample_plan = revoked_event"
    "pn_trusted revocation_sample_plan = trusted_of (bundle_of_documents stored_docs)"
    "pn_replacement revocation_sample_plan = revoked_authority" "pn_subject revocation_sample_plan = revoked_subject"
    by (simp_all add: revocation_sample_plan_def)
  have signing: "se_event revoked_signed = revoked_event"
    "se_signing_key_version revoked_signed = rc_evidence_signing_key_version (ad_content sample_root)"
    by (simp_all add: revoked_signed_def signed_sample_def evidence_key_def sample_root_def sample_content_def)
  have head: "revocation_head sample_target (trusted_of (bundle_of_documents stored_docs)) revoked_event sample_digest
      = revoked_head"
    by (simp add: revocation_head_def revoked_event_def revoked_head_def)
  have result: "revocation_result_of sample_target revocation_call revocation_sample_plan sample_digest sample_digest
      = revoked_result"
    by (simp add: revocation_result_of_def revoked_result_def revocation_sample_plan_def revocation_result_id_def
        revoked_authority_def)
  have at: "vr_committed_at revoked_result = revoked_at" by (simp add: revoked_result_def)
  show ?thesis
    using revoked_records_valid revoked_result_valid
    by (simp add: complete_commit_def sel signing revoked_signed_sha head result at raises_def bindS_def guardS_def
        denies_def construct_def revoked_commit_def)
qed

lemma revocation_decided: "decided sample_sha sample_target revocation_start sample_digest revoked_at revoked_commit"
  using not_denied revocation_planned revocation_completed by (auto simp: decided_def)

section \<open>The commit\<close>

definition revocation_docs :: revocation_documents where
  "revocation_docs =
     \<lparr>xd_authority = (root_key, new_document 1 ''mutation-1'' revoked_authority),
      xd_evidence = (revoked_evidence_id, new_document 0 ''mutation-1'' revoked_signed),
      xd_head = (root_key, new_document 1 ''mutation-1'' revoked_head),
      xd_result = (''cgrevoke:'' @ sample_digest, new_document 0 ''mutation-1'' revoked_result),
      xd_request = (''REQUEST:request-9'',
        new_document 0 ''mutation-1'' (identity_claim revoked_result RI_REQUEST ''request-9'')),
      xd_idempotency = (''IDEMPOTENCY:key-9'',
        new_document 0 ''mutation-1'' (identity_claim revoked_result RI_IDEMPOTENCY ''key-9'')),
      xd_epoch = (''EPOCH:'' @ root_key @ '':epoch:2'',
        new_document 0 ''mutation-1'' (identity_claim revoked_result RI_EPOCH (root_key @ '':epoch:2''))),
      xd_audit = (''attempt-9'', new_document 0 ''mutation-1''
        (success_audit revocation_call revoked_result sample_digest RA_COMMITTED revoked_at))\<rparr>"

lemma revocation_identifiers:
  "is_identifier revoked_evidence_id" "is_identifier (''cgrevoke:'' @ sample_digest)" "is_identifier ''attempt-9''"
  "is_identifier ''REQUEST:request-9''" "is_identifier ''IDEMPOTENCY:key-9''"
  "is_identifier (''EPOCH:'' @ root_key @ '':epoch:2'')"
  by code_simp+

lemma identity_document_Inr:
  assumes "revocation_identity_logical_id (vd_kind d) (vd_value d) = Inr k" "is_identifier k"
    "validate_revocation_identity d = None"
  shows "identity_document ''mutation-1'' d = Inr (k, new_document 0 ''mutation-1'' d)"
  using assms identifiers(5)
  by (simp add: identity_document_def keyed_Inr identity_wrapper_def immutable_wrapper_def
      validate_wrapper_fields_def field_def new_document_def wrong_identity_def MAX_SAFE_INTEGER_def)

lemma identity_documents:
  "identity_document ''mutation-1'' (identity_claim revoked_result RI_REQUEST ''request-9'')
     = Inr (xd_request revocation_docs)"
  "identity_document ''mutation-1'' (identity_claim revoked_result RI_IDEMPOTENCY ''key-9'')
     = Inr (xd_idempotency revocation_docs)"
  "identity_document ''mutation-1'' (identity_claim revoked_result RI_EPOCH (root_key @ '':epoch:2''))
     = Inr (xd_epoch revocation_docs)"
proof -
  have sel: "vd_kind (identity_claim r kind v) = kind" "vd_value (identity_claim r kind v) = v" for r kind v
    by (simp_all add: identity_claim_def)
  note made = identity_document_Inr [of "identity_claim revoked_result kind v" for kind v, unfolded sel]
  show "identity_document ''mutation-1'' (identity_claim revoked_result RI_REQUEST ''request-9'')
     = Inr (xd_request revocation_docs)"
    using made [OF revocation_identities(1) revocation_identifiers(4) revoked_records_valid(2)]
    by (simp add: revocation_docs_def)
  show "identity_document ''mutation-1'' (identity_claim revoked_result RI_IDEMPOTENCY ''key-9'')
     = Inr (xd_idempotency revocation_docs)"
    using made [OF revocation_identities(2) revocation_identifiers(5) revoked_records_valid(3)]
    by (simp add: revocation_docs_def)
  show "identity_document ''mutation-1'' (identity_claim revoked_result RI_EPOCH (root_key @ '':epoch:2''))
     = Inr (xd_epoch revocation_docs)"
    using made [OF revocation_identities(4) revocation_identifiers(6) revoked_records_valid(4)]
    by (simp add: revocation_docs_def)
qed

lemma revoked_sel:
  "au_root_id revoked_authority = root_key" "au_revision revoked_authority = 1"
  "ev_evidence_id (se_event revoked_signed) = revoked_evidence_id" "hd_root_id revoked_head = root_key"
  "hd_sequence revoked_head = 1" "vr_result_id revoked_result = ''cgrevoke:'' @ sample_digest"
  "vr_root_id revoked_result = root_key" "vr_new_epoch revoked_result = 2"
  "va_audit_id (success_audit revocation_call revoked_result sample_digest RA_COMMITTED revoked_at) = ''attempt-9''"
  by (simp_all add: revoked_authority_def revoked_signed_def signed_sample_def revoked_event_def revoked_head_def
      revoked_result_def)

lemma revoked_commit_sel:
  "vt_replacement_authority revoked_commit = revoked_authority" "vt_signed_evidence revoked_commit = revoked_signed"
  "vt_chain_head revoked_commit = revoked_head" "vt_result revoked_commit = revoked_result"
  "vt_request_identity revoked_commit = identity_claim revoked_result RI_REQUEST ''request-9''"
  "vt_idempotency_identity revoked_commit = identity_claim revoked_result RI_IDEMPOTENCY ''key-9''"
  "vt_audit revoked_commit = success_audit revocation_call revoked_result sample_digest RA_COMMITTED revoked_at"
  by (simp_all add: revoked_commit_def)

lemma revocation_docs_keyed:
  "keyed (Inr root_key) validate_authority_wrapper (new_document 1 ''mutation-1'' revoked_authority)
     = Inr (xd_authority revocation_docs)"
  "keyed (Inr revoked_evidence_id) (evidence_wrapper sample_sha) (new_document 0 ''mutation-1'' revoked_signed)
     = Inr (xd_evidence revocation_docs)"
  "keyed (Inr root_key) validate_head_wrapper (new_document 1 ''mutation-1'' revoked_head)
     = Inr (xd_head revocation_docs)"
  "keyed (Inr (''cgrevoke:'' @ sample_digest)) (result_wrapper sample_sha) (new_document 0 ''mutation-1'' revoked_result)
     = Inr (xd_result revocation_docs)"
  "keyed (Inr ''attempt-9'') audit_wrapper (new_document 0 ''mutation-1''
      (success_audit revocation_call revoked_result sample_digest RA_COMMITTED revoked_at))
     = Inr (xd_audit revocation_docs)"
  using identifiers revocation_identifiers revoked_valid(1) revoked_signed_valid revoked_records_valid(1,5)
    revoked_result_valid
  by (simp_all add: revocation_docs_def keyed_Inr validate_authority_wrapper_def evidence_wrapper_def
      validate_head_wrapper_def result_wrapper_def audit_wrapper_def immutable_wrapper_def
      validate_wrapper_fields_def field_def new_document_def wrong_identity_def revoked_sel MAX_SAFE_INTEGER_def)

lemma revocation_docs_prepared:
  "prepare_revocation_documents sample_sha (\<lambda>_. ''mutation-1'') revoked_commit = Inr revocation_docs"
proof -
  have "construct validate_revocation_identity (epoch_identity revoked_commit (root_key @ '':epoch:2''))
      = Inr (identity_claim revoked_result RI_EPOCH (root_key @ '':epoch:2''))"
    using revoked_records_valid(4) by (simp add: epoch_identity_def revoked_commit_sel)
  then show ?thesis
    unfolding prepare_revocation_documents_def revoked_commit_sel revoked_sel
    by (simp del: keyed_Inr append.simps construct_Inr_iff add: revocation_docs_keyed identity_documents
        revocation_identities)
qed

definition revoked_db :: revocation_db where "revoked_db = write_documents revocation_docs stored_db"

lemma revocation_written:
  "revocation_body revocation_start (bundle_of_documents stored_docs) sample_digest revocation_docs stored_db
     = Inr revoked_db"
proof -
  have other: "revoked_evidence_id \<noteq> creation_evidence_id" by code_simp
  have event: "ev_evidence_id (se_event creation_signed) = creation_evidence_id"
    by (simp add: creation_signed_sel(1) creation_event_def)
  show ?thesis
    using other
    by (simp add: revocation_body_def decision_unchanged_def content_addressed_root_def
        read_versioned_def predecessor_record_def stored_at_def stored_db_def write_creation_def put_def blank_db_def
        stored_docs_def revocation_docs_def bundle_of_documents_def stored_of_def new_document_def event
        revoked_sel revoked_db_def)
qed

lemma revocation_committed:
  "commit_epoch_revocation sample_sha sample_target (\<lambda>_. ''mutation-1'') TxConfirmed rb revocation_start revoked_commit
     stored_db = (Inr (written revocation_docs), revoked_db)"
  using decided_admitted [OF revocation_decided]
  by (simp add: commit_epoch_revocation_def prepare_epoch_revocation_def revocation_docs_prepared creation_claim_id
      run_body_def revocation_written)


lemma history_is_hash_linked_witness:
  "history_holds sample_sha root_key revoked_db [creation_signed, revoked_signed]"
proof -
  have created: "wr_outcome (wc_result \<lparr>wc_result = created_result, wc_bundle = bundle_of_documents stored_docs\<rparr>) = CREATED"
    by (simp add: created_result_def)
  have id: "ad_root_id (ra_new_root creation_artifacts) = root_key" "ra_new_evidence creation_artifacts = creation_signed"
    by (simp_all add: creation_artifacts_def)
  have "root_history sample_sha sample_target root_key stored_db [creation_signed]"
    using history_created [OF stored_creation created id(1)] by (simp add: id blank_db_def)
  note step = history_revoked [OF this revocation_decided revocation_committed]
  have "vb_heads revoked_db root_key \<noteq> vb_heads stored_db root_key"
    by (simp add: revoked_db_def write_documents_def put_def revocation_docs_def)
  then have "revoked_db \<noteq> stored_db" by auto
  then have "root_history sample_sha sample_target root_key revoked_db [creation_signed, revoked_signed]"
    using step by (simp add: revoked_commit_sel)
  then show ?thesis by (rule history_is_hash_linked)
qed

end
