(* ===== verification/Spec2Isabelle.thy ===== *)
theory Spec2Isabelle
  imports RolloutRuns EpochRefinement ReplayProps HealthProps Base64Url Identity SampleReadback SampleRevocation
begin

text \<open>
  ControlGraph Canary: a verification development of its authority core.

  The program moves one Cloud Run service from a stable revision to a canary and on to promotion or
  back to recovery. Every command that changes the target is fenced by an epoch, limited by a
  capability that may only narrow along its lineage, claimed once through a durable execution
  receipt, and decided by health evidence. The sources are under
  \<open>backend/src/controlgraph_canary/\<close>: the pure modules in \<open>authority/\<close> decide, the contracts in
  \<open>contracts/\<close> fix the records, and \<open>integrations/google/firestore.py\<close> makes the decisions durable
  under concurrency. Paths below are relative to that directory.

  The theories and what they model, in the order of the imports:

  \<^item> \<open>Prelude\<close> and \<open>PyText\<close>: raised errors as values (\<open>py_error\<close>; a validator is a \<open>check\<close>,
    an operation that can raise a \<open>result\<close>), the locales \<open>guarded_machine\<close> and
    \<open>absorbing_machine\<close> for step functions that keep an invariant and climb an order, and Python
    text: \<open>strip\<close>, digests, field validators of the authority modules. A string is a list of code
    points up to U+00FF, a byte string a list of octets, SHA-256 the parameter \<open>hexdigest\<close>.
  \<^item> \<open>Reducer\<close>, \<open>ReducerProps\<close>, \<open>RolloutRuns\<close>: \<open>authority/reducer.py\<close>. The table is built
    by the same loops; \<open>rollout\<close> folds the reducer over arbitrary events and facts. Shown: what a
    command needs, the exact successors, that a rollout mutates at most once, that final states are
    closed, and which ambiguities cannot be resolved.
  \<^item> \<open>Epoch\<close>, \<open>EpochProps\<close>: \<open>authority/epoch.py\<close>. Shown: what the guard lets through, what
    compare-and-advance does, that the log of advances has no gap and that revocation is permanent.
  \<^item> \<open>Policy\<close>, \<open>PolicyProps\<close>: \<open>authority/policy.py\<close>. Attenuation is compared with a reading of a
    scope as the set of requests it permits; lineage acceptance is characterised exactly. The loop
    of the cycle search terminates because every round visits one more key.
  \<^item> \<open>CanonicalJson\<close>: restricted values, \<open>json.dumps\<close> and UTF-8 of \<open>contracts/codec.py\<close>, and
    that canonical bytes determine the value. The locale \<open>prefix_code\<close> is interpreted on the
    escapes of a string and on UTF-8.
  \<^item> \<open>Replay\<close>, \<open>ReplayProps\<close>: \<open>authority/replay.py\<close>. Identities and their preimages, the
    receipt state machine, transport failures.
  \<^item> \<open>HealthData\<close>, \<open>Health\<close>, \<open>HealthProps\<close>: \<open>authority/health.py\<close>. The loop over the
    samples is a recursion on the presented list with the loop's local variables as a record; an
    early \<open>return\<close> is the left value of a sum. \<open>evaluations\<close> are calls in a row, each from the
    state of the last decision as \<open>application/health_evaluation.py\<close> derives it. Shown: totality on
    valid inputs, which windows back a verdict across all the calls that lead to it, that it
    latches, and that integer classification agrees with the rates.
  \<^item> \<open>ContractBase\<close>, \<open>Records\<close>, \<open>ServiceClaim\<close>, \<open>RolloutRecords\<close>: field types of
    \<open>contracts/base.py\<close>, records and validators of \<open>contracts/models.py\<close> and
    \<open>contracts/storage.py\<close>, the traffic digest of \<open>application/cloud_run.py\<close>.
  \<^item> \<open>ReceiptClaims\<close>: claim validation and the one-use proof of \<open>application/authority_store.py\<close>,
    and the replacement validators of \<open>integrations/google/firestore.py\<close>.
  \<^item> \<open>StoreDocuments\<close>, \<open>AuthorityStore\<close>, \<open>StoreHistory\<close>, \<open>StoreProps\<close>: documents, transactions
    and eight operations of the Firestore authority store. A transaction body is a partial function on
    the database; what the provider reported, whether a transaction was applied after all, and
    what a later read sees are arguments. A history is a list of completed calls and of late commits of
    abandoned ones, in any order, from an empty database. Shown for every history: a claim is won
    once, receipts and authorities only move forward, an expected revision is replaced once, a
    service is handed over only after its release, and a release is fenced.

  \<^item> \<open>CharBits\<close>, \<open>JsonSize\<close>, \<open>Base64Url\<close>: code equations on the bits of a character, a bound on the size
    of canonical bytes, and canonical base64url of \<open>contracts/codec.py\<close> with its round trip.
  \<^item> \<open>Identity\<close>: route policies, caller bindings and the role tables of \<open>application/identity.py\<close> and
    \<open>application/tasks.py\<close>. Shown: a route has one caller.
  \<^item> \<open>Capability\<close>, \<open>Signing\<close>, \<open>SigningProps\<close>: capabilities, intents, task requests and evidence events of
    \<open>contracts/models.py\<close>; profiles, signing inputs, trust bundles and the verification of a detached
    signature of \<open>application/signing.py\<close>. Shown: signed bytes determine purpose, key and payload, and a
    trust bundle keeps the two purposes apart.
  \<^item> \<open>RootRecords\<close>, \<open>RootAuthority\<close>, \<open>RootAuthorityProps\<close>: the content-addressed roots of
    \<open>contracts/root_creation.py\<close>, the inspection of one atomic bundle and the lineage policy projected
    from a root by \<open>application/root_authority.py\<close>. Shown: a capability that matches the root attenuates
    its anchor, and a check on audiences that never fails.
  \<^item> \<open>CapabilityVerification\<close>, \<open>VerificationProps\<close>: \<open>CapabilityVerifier.verify\<close> of
    \<open>application/capability_verification.py\<close> for version 1 task requests. Shown: the chain is signed and in
    force, cannot outlive its first issuance, and the command is the approved root's canary step.
  \<^item> \<open>Execution\<close>, \<open>ExecutionProps\<close>, \<open>GateRuns\<close>: leases, permits and \<open>FinalMutationGate.execute\<close> of
    \<open>application/execution.py\<close>, cut at its awaits; \<open>GateRuns\<close> lets any executions of a lease interleave.
    Shown: what a dispatch rests on, and that a claim is dispatched at most once.
  \<^item> \<open>EpochRefinement\<close>: the stored authorities refine \<open>authority/epoch.py\<close>.
  \<^item> \<open>ReceiptExecution\<close>, \<open>CoordinatorProps\<close>: \<open>application/receipt_execution.py\<close> for version 1 requests. A
    coroutine is a tree of asks (clock, claim, read, replace, gate, readback) and of what follows each
    answer. Shown for every answer of the ports: what backs a written outcome, that a run ends within 20
    asks, and that it answers about its own receipt.
  \<^item> \<open>AmbiguousReadback\<close>, \<open>AmbiguousReadbackProps\<close>: \<open>contracts/ambiguous_receipt_readback.py\<close> and
    \<open>application/ambiguous_receipt_readback.py\<close>, the readback-only resolution of an ambiguous receipt; each
    read of a port is an argument. Shown: what a submission rests on, that the store admits it, and that
    the command is adopted when it is delivered again.
  \<^item> \<open>Dispatches\<close>, \<open>CoordinatorRuns\<close>: coordinators, store histories and gate executions together, as
    an inductive set of reachable worlds with an invariant; the theorem of this file follows.
  \<^item> \<open>SignedEvidence\<close>, \<open>EvidenceChain\<close>: signed evidence events of \<open>contracts/root_creation.py\<close>, the service
    of \<open>application/evidence_signing.py\<close>, and the chain head of \<open>contracts/evidence.py\<close> and
    \<open>application/evidence_chain.py\<close>. Shown: the contract recomputes what the evidence key signs.
  \<^item> \<open>RootCreationRecords\<close>, \<open>RootCreation\<close>, \<open>RootCreationProps\<close>: the request digest, evidence subject and
    result of \<open>contracts/root_creation.py\<close>, and the builder and completion of
    \<open>application/root_creation.py\<close>. Shown: what is built and signed is accepted by the result contract and
    trusted by the persisted-root inspection.
  \<^item> \<open>RevocationRecords\<close>, \<open>Revocation\<close>: the records of \<open>contracts/revocation.py\<close> and the coordinator of
    \<open>application/revocation.py\<close>, \<open>EpochRevoker\<close>, as a tree of asks (clock, state, signer, commit, audit).
  \<^item> \<open>RevocationStore\<close>, \<open>RootCreationStore\<close>: the root bundle and revocation operations of
    \<open>integrations/google/firestore.py\<close> over their own record of twelve collections, \<open>revocation_db\<close>, with
    bodies, validators, lost outcomes and adoption as in \<open>AuthorityStore\<close>.
  \<^item> \<open>RevocationProps\<close>, \<open>RevocationReads\<close>, \<open>RevocationDurability\<close>, \<open>RevocationRuns\<close>: the store's
    validation admits every commit the coordinator builds, and what is read after a commit. Shown: the
    coordinator commits only what was asked for, at most four times, and a confirmed commit is durable.
  \<^item> \<open>RootCreationService\<close>, \<open>RootCreationStoreProps\<close>, \<open>RootCreationRuns\<close>: \<open>RolloutRootCreator\<close> of
    \<open>application/root_creation_service.py\<close> as a tree of asks. Shown: a run submits at most one bundle, which
    the store admits when it is a first one and, when it takes over a released claim, exactly if it
    follows that release; no creation changes a store whose stored claim is not released.
  \<^item> \<open>EvidenceHistory\<close>: creations, revocations and audits of one database in any order, as an inductive
    relation with one rule per event. Shown: the events of a root are one unbroken hash chain.
  \<^item> \<open>SampleCreation\<close>, \<open>SampleStore\<close>, \<open>SampleRevocation\<close>: a root created from a request, stored, and its
    first epoch revoked, evaluated in the kernel; they witness the properties of creation and revocation.
  \<^item> \<open>SampleRoot\<close>, \<open>SampleRun\<close>, \<open>SampleCoordination\<close>, \<open>SampleReadback\<close>: one concrete root and a complete run over it, from the signed
    capability to the permit, evaluated in the kernel; they witness the properties above.

  Conventions. No fuel is used: every loop of the source is structural here or has a measure.
  Integers are unbounded as in Python; bounds the source checks are written out. \<open>type(x) is T\<close>
  guards are discharged by the types and do not appear. Error messages are kept where the source
  has one text per branch.

  Not modelled. Parsing (\<open>decode_contract\<close>, pydantic, \<open>json.loads\<close>), snapshot decoding, text
  beyond U+00FF and the random mutation identities (arguments); the version 3 service claims; the
  release-evidence, abandonment and promotion operations of the store. A \<open>StoreHistory\<close> consists of the eight
  operations of \<open>AuthorityStore\<close>, an \<open>EvidenceHistory\<close> of those of the root bundle and of revocation: no
  history mixes both. The version 2 promotion and recovery requests are left out, so verification, gate and
  coordinator speak of version 1 task requests; so are the issuer, the provider's answer to a permit, the
  classification of the target after a revocation, the read-only revocation proof, and the other
  coordinators in \<open>application/\<close>; HTTP, CLI, settings and the provider adapters, which are input handling and calls
  of libraries outside the repository.
\<close>

section \<open>From the store to the provider\<close>

text \<open>
  C1: One idempotency key, one dispatch. Any number of coordinators run in any interleaving, over any
  history of the store, with lost answers, late commits and arbitrary clocks, reads and readbacks, and
  the executions of a lease interleave as well: at most one permit for a key is ever handed to the
  provider adapter, and only while the key's receipt is durably stored.
\<close>

theorem coordinators_dispatch_at_most_once:
  assumes "coordinated h c w"
  shows "length (permits_for key (co_gates w)) \<le> 1
    \<and> (permits_for key (co_gates w) \<noteq> [] \<longrightarrow> receipt_stored h c key (co_db w))"
proof -
  have "length (permits_for key (co_gates w)) \<le> (if receipt_stored h c key (co_db w) then 1 else 0)"
    using coordinated_inv [OF assms] by (simp add: coordination_inv_def permits_backed_def)
  then show ?thesis by (simp split: if_splits)
qed

theorem coordinators_dispatch_at_most_once_witness:
  "permits_for ''key-1'' sample_gates = [sample_permit]
    \<and> receipt_stored sample_hash sample_target ''key-1''
        (store_step sample_hash sample_target empty_db sample_claiming)"
proof -
  obtain w where w: "coordinated sample_hash sample_target w" "co_gates w = sample_gates"
    "co_db w = store_step sample_hash sample_target empty_db sample_claiming"
    by (rule sample_coordination)
  have "permits_for ''key-1'' sample_gates = [sample_permit]"
    by (simp add: sample_gates_def permits_for_def sample_world_def sample_permit_def claims_intent_def
        sample_scope_fields)
  with coordinators_dispatch_at_most_once [OF w(1), of "''key-1''"] w show ?thesis by simp
qed

end
